(* ===== verification/Prelude.thy ===== *)
theory Prelude
  imports Main "HOL-Library.Word"
begin

text \<open>
  What every component shares: the errors of the service, a result type with its
  sequencing operators, bytes and little-endian integers, and the integer division
  of JavaScript's \<open>bigint\<close>.

  A JavaScript function that may throw is a function into \<open>error + 'a\<close>: \<open>Inl e\<close>
  is the throw of \<open>e\<close>, \<open>Inr x\<close> the return of \<open>x\<close>. A rejection
  \<open>new PolicyError(code, message)\<close> keeps its code, which is what callers and the HTTP
  layer branch on; the message text is not modelled.
\<close>

named_theorems res_simps "when a sequenced computation returns"

subsection \<open>Errors\<close>

text \<open>
  \<open>PolicyError\<close> carries the code string of the class of \<open>quote-service/core.ts\<close>.
  \<open>RangeError\<close>, \<open>SyntaxError\<close> and \<open>TypeError\<close> are the throws of the JavaScript
  runtime (a buffer read out of range, a number out of range for a buffer write, a division
  of a \<open>bigint\<close> by zero; a malformed \<open>BigInt\<close> literal; a property read on
  \<open>null\<close>). \<open>PlainError\<close> is \<open>new Error(message)\<close>. \<open>ExternalError\<close>
  is a failure of an injected client (RPC, Jupiter, signer).
\<close>

datatype error =
    PolicyError string
  | RangeError
  | SyntaxError
  | TypeError
  | PlainError string
  | ExternalError string

type_synonym 'a res = "error + 'a"

abbreviation reject :: "string \<Rightarrow> 'a res" where
  "reject c \<equiv> Inl (PolicyError c)"

subsection \<open>Sequencing\<close>

definition bindR :: "'e + 'a \<Rightarrow> ('a \<Rightarrow> 'e + 'b) \<Rightarrow> 'e + 'b" where
  "bindR m f = (case m of Inl e \<Rightarrow> Inl e | Inr x \<Rightarrow> f x)"

lemma bindR_simps [simp]:
  "bindR (Inl e) f = Inl e"
  "bindR (Inr x) f = f x"
  by (simp_all add: bindR_def)

lemma bindR_cong [fundef_cong]:
  "m = m' \<Longrightarrow> (\<And>x. m' = Inr x \<Longrightarrow> f x = f' x) \<Longrightarrow> bindR m f = bindR m' f'"
  by (cases m') (auto simp: bindR_def)

lemma bindR_Inr_iff [res_simps]: "bindR m f = Inr y \<longleftrightarrow> (\<exists>x. m = Inr x \<and> f x = Inr y)"
  by (cases m) auto

lemma bindR_InrE: "bindR m f = Inr y \<Longrightarrow> (\<And>x. m = Inr x \<Longrightarrow> f x = Inr y \<Longrightarrow> P) \<Longrightarrow> P"
  by (auto simp: bindR_Inr_iff)

lemma bindR_assoc: "bindR (bindR m f) g = bindR m (\<lambda>x. bindR (f x) g)"
  by (cases m) auto

lemma bindR_Inl_iff: "bindR m f = Inl e \<longleftrightarrow> m = Inl e \<or> (\<exists>x. m = Inr x \<and> f x = Inl e)"
  by (cases m) auto

lemma if_Inl_Inr [res_simps]:
  "((if b then Inl e else k) = Inr y) \<longleftrightarrow> (\<not> b \<and> k = Inr y)"
  "((if b then k else Inl e) = Inr y) \<longleftrightarrow> (b \<and> k = Inr y)"
  by auto

lemma case_option_Inl_Inr [res_simps]:
  "((case v of None \<Rightarrow> Inl e | Some a \<Rightarrow> f a) = Inr y) \<longleftrightarrow> (\<exists>a. v = Some a \<and> f a = Inr y)"
  "((case v of None \<Rightarrow> k | Some a \<Rightarrow> Inl e) = Inr y) \<longleftrightarrow> (v = None \<and> k = Inr y)"
  by (cases v; simp)+

lemma Inr_inject_res [res_simps]: "(Inr x = Inr y) \<longleftrightarrow> (x = y)"
  by simp

text \<open>The loop that stops at the first throw, with its 0-based index.\<close>

fun traverse_from :: "nat \<Rightarrow> (nat \<Rightarrow> 'a \<Rightarrow> 'e + 'b) \<Rightarrow> 'a list \<Rightarrow> 'e + 'b list" where
  "traverse_from i f [] = Inr []"
| "traverse_from i f (x # xs) =
    bindR (f i x) (\<lambda>y. bindR (traverse_from (Suc i) f xs) (\<lambda>ys. Inr (y # ys)))"

abbreviation traverse_idx :: "(nat \<Rightarrow> 'a \<Rightarrow> 'e + 'b) \<Rightarrow> 'a list \<Rightarrow> 'e + 'b list" where
  "traverse_idx \<equiv> traverse_from 0"

abbreviation traverse :: "('a \<Rightarrow> 'e + 'b) \<Rightarrow> 'a list \<Rightarrow> 'e + 'b list" where
  "traverse f \<equiv> traverse_from 0 (\<lambda>_. f)"

lemma traverse_from_Inr_iff:
  "traverse_from i f xs = Inr ys \<longleftrightarrow>
    length ys = length xs \<and> (\<forall>k < length xs. f (i + k) (xs ! k) = Inr (ys ! k))"
proof (induction xs arbitrary: i ys)
  case (Cons x xs)
  show ?case
  proof (cases ys)
    case (Cons y ys')
    have "traverse_from i f (x # xs) = Inr (y # ys') \<longleftrightarrow>
        f i x = Inr y \<and> traverse_from (Suc i) f xs = Inr ys'"
      by (auto simp: bindR_Inr_iff)
    then show ?thesis
      using Cons.IH [of "Suc i" ys'] by (auto simp: Cons nth_Cons less_Suc_eq_0_disj split: nat.splits)
  qed (auto simp: bindR_Inr_iff)
qed auto

lemma traverse_from_nth:
  "traverse_from i f xs = Inr ys \<Longrightarrow> k < length xs \<Longrightarrow> f (i + k) (xs ! k) = Inr (ys ! k)"
  by (simp add: traverse_from_Inr_iff)

lemma traverse_from_length: "traverse_from i f xs = Inr ys \<Longrightarrow> length ys = length xs"
  by (simp add: traverse_from_Inr_iff)

lemma traverse_from_set:
  assumes "traverse_from i f xs = Inr ys" and "y \<in> set ys"
  shows "\<exists>k x. x \<in> set xs \<and> f k x = Inr y"
  using assms by (metis in_set_conv_nth traverse_from_Inr_iff)

lemma traverse_map: "traverse (\<lambda>x. Inr (g x)) xs = Inr (map g xs)"
  by (simp add: traverse_from_Inr_iff)

text \<open>Checks that return nothing, run in order until the first throw.\<close>

fun forEach_from :: "nat \<Rightarrow> (nat \<Rightarrow> 'a \<Rightarrow> 'e + unit) \<Rightarrow> 'a list \<Rightarrow> 'e + unit" where
  "forEach_from i f [] = Inr ()"
| "forEach_from i f (x # xs) = bindR (f i x) (\<lambda>_. forEach_from (Suc i) f xs)"

abbreviation forEach :: "('a \<Rightarrow> 'e + unit) \<Rightarrow> 'a list \<Rightarrow> 'e + unit" where
  "forEach f \<equiv> forEach_from 0 (\<lambda>_. f)"

lemma forEach_from_Inr_iff [res_simps]:
  "forEach_from i f xs = Inr u \<longleftrightarrow> (\<forall>k < length xs. f (i + k) (xs ! k) = Inr ())"
proof (induction xs arbitrary: i)
  case (Cons x xs)
  show ?case
    using Cons [of "Suc i"] by (auto simp: bindR_Inr_iff nth_Cons less_Suc_eq_0_disj split: nat.splits)
qed simp

lemma forEach_Inr_iff [res_simps]:
  "forEach f xs = Inr u \<longleftrightarrow> (\<forall>x \<in> set xs. f x = Inr ())"
  by (auto simp: forEach_from_Inr_iff all_set_conv_all_nth)

text \<open>Every failure of a computation satisfies \<open>P\<close>.\<close>

definition fails_with :: "('e \<Rightarrow> bool) \<Rightarrow> 'e + 'a \<Rightarrow> bool" where
  "fails_with P m = (case m of Inl e \<Rightarrow> P e | Inr _ \<Rightarrow> True)"

lemma fails_with_simps [simp]:
  "fails_with P (Inl e) = P e"
  "fails_with P (Inr x) = True"
  by (simp_all add: fails_with_def)

lemma fails_with_bindR:
  "fails_with P m \<Longrightarrow> (\<And>x. m = Inr x \<Longrightarrow> fails_with P (f x)) \<Longrightarrow> fails_with P (bindR m f)"
  by (cases m) auto

lemma fails_with_traverse:
  "(\<And>i x. x \<in> set xs \<Longrightarrow> fails_with P (f i x)) \<Longrightarrow> fails_with P (traverse_from k f xs)"
  by (induction xs arbitrary: k) (auto intro!: fails_with_bindR)

lemma fails_withD: "fails_with P m \<Longrightarrow> m = Inl e \<Longrightarrow> P e"
  by simp

subsection \<open>Optional reads\<close>

text \<open>\<open>xs[i]\<close> of an array: \<open>undefined\<close> out of range.\<close>

definition nth_opt :: "'a list \<Rightarrow> nat \<Rightarrow> 'a option" where
  "nth_opt xs i = (if i < length xs then Some (xs ! i) else None)"

lemma nth_opt_Some [simp]: "nth_opt xs i = Some x \<longleftrightarrow> i < length xs \<and> x = xs ! i"
  by (auto simp: nth_opt_def)

lemma nth_opt_None [simp]: "nth_opt xs i = None \<longleftrightarrow> length xs \<le> i"
  by (auto simp: nth_opt_def)

lemma nth_opt_append1: "i < length xs \<Longrightarrow> nth_opt (xs @ ys) i = nth_opt xs i"
  by (simp add: nth_opt_def nth_append)

lemma nth_opt_map: "nth_opt (map f xs) i = map_option f (nth_opt xs i)"
  by (simp add: nth_opt_def)

text \<open>\<open>[...new Set(xs)]\<close>: the first occurrence of each element, in order.\<close>

definition dedup :: "'a list \<Rightarrow> 'a list" where
  "dedup xs = rev (remdups (rev xs))"

lemma set_dedup [simp]: "set (dedup xs) = set xs"
  by (simp add: dedup_def)

lemma distinct_dedup [simp]: "distinct (dedup xs)"
  by (simp add: dedup_def)

text \<open>
  \<open>[...new Map(pairs).values()]\<close>: a key keeps its first position and its last value.
\<close>

definition map_values :: "('k \<times> 'v) list \<Rightarrow> 'v list" where
  "map_values kvs = map (\<lambda>k. the (map_of (rev kvs) k)) (dedup (map fst kvs))"

lemma map_of_rev_key:
  assumes "k \<in> set (map fst kvs)"
  shows "(k, the (map_of (rev kvs) k)) \<in> set kvs"
proof -
  have "map_of (rev kvs) k \<noteq> None"
    using assms by (simp add: map_of_eq_None_iff)
  then obtain v where v: "map_of (rev kvs) k = Some v" by blast
  from map_of_SomeD [OF this] v show ?thesis by simp
qed

lemma map_values_keys:
  assumes "\<And>k v. (k, v) \<in> set kvs \<Longrightarrow> f v = k"
  shows "map f (map_values kvs) = dedup (map fst kvs)"
  unfolding map_values_def map_map using map_of_rev_key [of _ kvs]
  by (intro map_idI) (simp add: assms)

lemma set_map_values: "set (map_values kvs) \<subseteq> snd ` set kvs"
  using map_of_rev_key [of _ kvs] by (force simp: map_values_def)

text \<open>\<open>for (offset = 0; offset < xs.length; offset += n)\<close> over \<open>xs.slice(offset, offset + n)\<close>.\<close>

function chunks :: "nat \<Rightarrow> 'a list \<Rightarrow> 'a list list" where
  "chunks n xs = (if xs = [] \<or> n = 0 then [] else take n xs # chunks n (drop n xs))"
  by pat_completeness auto
termination by (relation "measure (\<lambda>(n, xs). length xs)") auto

declare chunks.simps [simp del]

lemma concat_chunks [simp]: "0 < n \<Longrightarrow> concat (chunks n xs) = xs"
proof (induction n xs rule: chunks.induct)
  case (1 n xs)
  then show ?case by (subst chunks.simps) auto
qed

subsection \<open>Bytes and little-endian integers\<close>

type_synonym byte = "8 word"

fun le_value :: "byte list \<Rightarrow> int" where
  "le_value [] = 0"
| "le_value (b # bs) = uint b + 256 * le_value bs"

fun le_bytes :: "nat \<Rightarrow> int \<Rightarrow> byte list" where
  "le_bytes 0 x = []"
| "le_bytes (Suc n) x = word_of_int x # le_bytes n (x div 256)"

lemma length_le_bytes [simp]: "length (le_bytes n x) = n"
  by (induction n arbitrary: x) auto

lemma uint_byte_bounds: "0 \<le> uint (b :: byte)" "uint (b :: byte) < 256"
  using uint_lt2p [of b] by simp_all

lemma le_value_bounds: "0 \<le> le_value bs \<and> le_value bs < 256 ^ length bs"
proof (induction bs)
  case (Cons b bs)
  have "le_value bs + 1 \<le> 256 ^ length bs"
    using Cons by simp
  then have "256 * (le_value bs + 1) \<le> 256 * 256 ^ length bs"
    by (intro mult_left_mono) simp_all
  then show ?case using Cons uint_byte_bounds [of b] by simp
qed simp

lemma or_push_bit:
  fixes a b :: int
  assumes "0 \<le> a" "a < 2 ^ n"
  shows "or a (push_bit n b) = a + 2 ^ n * b"
proof -
  have a: "take_bit n a = a"
    using assms by (simp add: take_bit_int_eq_self)
  have "and a (push_bit n b) = 0"
  proof (rule bit_eqI)
    fix m
    have "bit a m \<Longrightarrow> m < n"
      using a by (metis bit_take_bit_iff)
    then show "bit (and a (push_bit n b)) m = bit 0 m"
      by (auto simp: bit_and_iff bit_push_bit_iff)
  qed
  then have "a + push_bit n b = or a (push_bit n b)"
    by (rule disjunctive_add_eq_or)
  then show ?thesis
    by (simp add: push_bit_eq_mult mult.commute)
qed

lemma le_value_le_bytes: "0 \<le> x \<Longrightarrow> x < 256 ^ n \<Longrightarrow> le_value (le_bytes n x) = x"
proof (induction n arbitrary: x)
  case (Suc n)
  have "x div 256 < 256 ^ n"
    using Suc.prems by (simp add: div_less_iff_less_mult mult.commute)
  then have "le_value (le_bytes n (x div 256)) = x div 256"
    using Suc.IH [of "x div 256"] Suc.prems by simp
  moreover have "uint (word_of_int x :: byte) = x mod 256"
    by (simp add: uint_word_of_int)
  ultimately show ?case by simp
qed simp

lemma byte_256 [simp]: "(256 :: byte) = 0"
  by transfer simp

lemma word_of_int_add_256: "(word_of_int (x + 256 * y) :: byte) = word_of_int x"
  by simp

lemma le_bytes_le_value: "le_bytes (length bs) (le_value bs) = bs"
proof (induction bs)
  case (Cons b bs)
  have "(uint b + 256 * le_value bs) div 256 = le_value bs"
    using uint_byte_bounds [of b] by simp
  moreover have "word_of_int (uint b + 256 * le_value bs) = b"
    by (simp add: word_of_int_add_256)
  ultimately show ?case using Cons by simp
qed simp

text \<open>\<open>buffer.subarray(a, b)\<close>: both ends are clamped to the length.\<close>

definition subarray :: "nat \<Rightarrow> nat \<Rightarrow> 'a list \<Rightarrow> 'a list" where
  "subarray a b xs = take (b - a) (drop a xs)"

lemma length_subarray: "b \<le> length xs \<Longrightarrow> length (subarray a b xs) = b - a"
  by (simp add: subarray_def)

text \<open>
  \<open>buffer.readUInt8\<close>, \<open>readUInt16LE\<close>, \<open>readUInt32LE\<close> and \<open>readBigUInt64LE\<close>
  throw a \<open>RangeError\<close> when the read leaves the buffer; the writes throw one when the
  value does not fit.
\<close>

definition readLE :: "nat \<Rightarrow> byte list \<Rightarrow> nat \<Rightarrow> int res" where
  "readLE n data off =
    (if off + n \<le> length data then Inr (le_value (take n (drop off data))) else Inl RangeError)"

definition writeLE :: "nat \<Rightarrow> int \<Rightarrow> byte list res" where
  "writeLE n x = (if 0 \<le> x \<and> x < 256 ^ n then Inr (le_bytes n x) else Inl RangeError)"

lemma writeLE_Inr [res_simps]:
  "writeLE n x = Inr bs \<longleftrightarrow> 0 \<le> x \<and> x < 256 ^ n \<and> bs = le_bytes n x"
  by (auto simp: writeLE_def)

lemma readLE_bounds: "readLE n data off = Inr x \<Longrightarrow> 0 \<le> x \<and> x < 256 ^ n"
  using le_value_bounds [of "take n (drop off data)"]
  by (auto simp: readLE_def min_absorb2 split: if_splits)

lemma readLE_Inr [res_simps]:
  "readLE n data off = Inr x \<longleftrightarrow>
    off + n \<le> length data \<and> x = le_value (take n (drop off data))"
  by (auto simp: readLE_def)

subsection \<open>Division of bigint values\<close>

text \<open>
  \<open>a / b\<close> on \<open>bigint\<close> truncates toward zero and throws a \<open>RangeError\<close> for a zero
  divisor. \<open>bigint_div\<close> writes that out; the code divides by a nonzero literal in most
  places, where \<open>quot_big\<close> is used directly.
\<close>

definition quot_big :: "int \<Rightarrow> int \<Rightarrow> int" where
  "quot_big a b = (if (0 \<le> a) = (0 \<le> b) then \<bar>a\<bar> div \<bar>b\<bar> else - (\<bar>a\<bar> div \<bar>b\<bar>))"

definition rem_big :: "int \<Rightarrow> int \<Rightarrow> int" where
  "rem_big a b = a - b * quot_big a b"

definition bigint_div :: "int \<Rightarrow> int \<Rightarrow> int res" where
  "bigint_div a b = (if b = 0 then Inl RangeError else Inr (quot_big a b))"

lemma quot_big_nonneg [simp]: "0 \<le> a \<Longrightarrow> 0 < b \<Longrightarrow> quot_big a b = a div b"
  by (simp add: quot_big_def)

lemma rem_big_nonneg [simp]: "0 \<le> a \<Longrightarrow> 0 < b \<Longrightarrow> rem_big a b = a mod b"
  by (simp add: rem_big_def minus_mult_div_eq_mod)

lemma bigint_div_Inr [res_simps]:
  "bigint_div a b = Inr q \<longleftrightarrow> b \<noteq> 0 \<and> q = quot_big a b"
  by (auto simp: bigint_div_def)

end
