(* ===== verification/Solana.thy ===== *)
theory Solana
  imports Prelude
begin

text \<open>
  The vocabulary of the chain that the TypeScript code shares: public keys, the accounts read
  from an RPC node, and the functions of \<open>@solana/web3.js\<close> and
  \<open>@solana/spl-token\<close> the code calls. Those libraries are not part of the repository:
  they are the record \<open>web3\<close>, an argument of every definition that calls them.
\<close>

subsection \<open>Public keys\<close>

text \<open>
  A \<open>PublicKey\<close> is represented by its canonical base58 text, what \<open>toBase58()\<close>
  returns: base58 is a bijection between byte strings and their texts, so that two keys are
  \<open>equals\<close> exactly when the texts are.
\<close>

datatype pubkey = PublicKey (toBase58: string)

text \<open>Well-known addresses published with the two libraries.\<close>

definition SYSTEM_PROGRAM :: pubkey where
  "SYSTEM_PROGRAM = PublicKey ''11111111111111111111111111111111''"

definition TOKEN_PROGRAM_ID :: pubkey where
  "TOKEN_PROGRAM_ID = PublicKey ''TokenkegQfeZyiNwAJbNbGKPFXCWuBvf9Ss623VQ5DA''"

definition TOKEN_2022_PROGRAM_ID :: pubkey where
  "TOKEN_2022_PROGRAM_ID = PublicKey ''TokenzQdBNbLqP5VEhdkAS6EPFLC1PHnBqCXEpPxuEb''"

definition ASSOCIATED_TOKEN_PROGRAM_ID :: pubkey where
  "ASSOCIATED_TOKEN_PROGRAM_ID = PublicKey ''ATokenGPvbdGVxr1b2hvZbsiqW5xWH25efTNsLJA8knL''"

definition NATIVE_MINT :: pubkey where
  "NATIVE_MINT = PublicKey ''So11111111111111111111111111111111111111112''"

definition NATIVE_MINT_2022 :: pubkey where
  "NATIVE_MINT_2022 = PublicKey ''9pan9bMn5HatX4EJdBwg9VgCa7Uz5HL8N1m5D3NdXejP''"

subsection \<open>The constants of quote-service/core.ts\<close>

definition BURNER_SEED :: "byte list" where
  "BURNER_SEED = [98, 117, 114, 110, 101, 114]"

definition MAX_SPLIT_TARGETS :: nat where
  "MAX_SPLIT_TARGETS = 4"

definition MAX_TRANSACTION_BYTES :: nat where
  "MAX_TRANSACTION_BYTES = 1232"

definition MAX_ACCOUNT_LOCKS :: nat where
  "MAX_ACCOUNT_LOCKS = 64"

definition DEFAULT_BURNER_PROGRAM :: pubkey where
  "DEFAULT_BURNER_PROGRAM = PublicKey ''burnLkcSaW4gHz3xXT1vnKZg3oJuH6Wc2yHcmHptyh5''"

definition JUPITER_PROGRAM :: pubkey where
  "JUPITER_PROGRAM = PublicKey ''JUP6LkbZbjS1jKKwapdHNy74zcZ3tLUZoi5QNyVTaV4''"

definition JUPITER_EVENT_AUTHORITY :: pubkey where
  "JUPITER_EVENT_AUTHORITY = PublicKey ''D8cy77BBepLMngZx6ZukaTff5hCt1HrWyKk3Hnd9oitf''"

definition PUMP_MINT :: pubkey where
  "PUMP_MINT = PublicKey ''pumpCmXqMfrsAkQ5r49WcJnRayYRqmXz6ae8H7H9Dfn''"

definition PUMP_TRANSFER_HOOK_AUTHORITY :: pubkey where
  "PUMP_TRANSFER_HOOK_AUTHORITY = PublicKey ''DMdBa812dBW1CHVhmTyUyVcrBnSbZbfoFC7U14k4riH1''"

definition PUMP_FUN_PROGRAM :: pubkey where
  "PUMP_FUN_PROGRAM = PublicKey ''6EF8rrecthR5Dkzon8Nwu78hRvfCKubJ14M5uBEwF6P''"

definition PUMP_AMM_PROGRAM :: pubkey where
  "PUMP_AMM_PROGRAM = PublicKey ''pAMMBay6oceH9fJKBRHGP5D4bD4sWpmSwMn52FMfXEA''"

definition PUMP_VENUE_EXCLUDE_DEXES :: "string list" where
  "PUMP_VENUE_EXCLUDE_DEXES = [''Pump.fun Amm'', ''Pump.fun'']"

definition DEFAULT_RETRY_ATTEMPTS :: nat where
  "DEFAULT_RETRY_ATTEMPTS = 2"

definition SPLIT_DISCRIMINATOR :: "byte list" where
  "SPLIT_DISCRIMINATOR = [157, 45, 186, 225, 142, 17, 2, 105]"

text \<open>The two route discriminators are hexadecimal strings in the code.\<close>

definition ROUTE_V2_DISCRIMINATOR :: "byte list" where
  "ROUTE_V2_DISCRIMINATOR = [0xbb, 0x64, 0xfa, 0xcc, 0x31, 0xc4, 0xaf, 0x14]"

definition SHARED_ROUTE_V2_DISCRIMINATOR :: "byte list" where
  "SHARED_ROUTE_V2_DISCRIMINATOR = [0xd1, 0x98, 0x53, 0x93, 0x7c, 0xfe, 0xd8, 0xe9]"

definition ACTIVE_ALT_SLOT :: int where
  "ACTIVE_ALT_SLOT = 18446744073709551615"

lemmas program_ids =
  SYSTEM_PROGRAM_def TOKEN_PROGRAM_ID_def TOKEN_2022_PROGRAM_ID_def
  ASSOCIATED_TOKEN_PROGRAM_ID_def NATIVE_MINT_def NATIVE_MINT_2022_def
  DEFAULT_BURNER_PROGRAM_def JUPITER_PROGRAM_def JUPITER_EVENT_AUTHORITY_def PUMP_MINT_def
  PUMP_TRANSFER_HOOK_AUTHORITY_def PUMP_FUN_PROGRAM_def PUMP_AMM_PROGRAM_def

subsection \<open>The library functions\<close>

text \<open>
  \<open>parsePubkey\<close> is \<open>new PublicKey(text)\<close> (None: it throws), \<open>pubkeyOfBytes\<close>
  is \<open>new PublicKey(bytes)\<close>, \<open>pubkeyBytes\<close> is \<open>toBuffer()\<close>,
  \<open>findProgramAddress\<close> is \<open>PublicKey.findProgramAddressSync\<close> and
  \<open>associatedTokenAddress mint owner allowOffCurve program\<close> is
  \<open>getAssociatedTokenAddressSync\<close> with the associated token program.
\<close>

record web3 =
  parsePubkey :: "string \<Rightarrow> pubkey option"
  pubkeyOfBytes :: "byte list \<Rightarrow> pubkey res"
  pubkeyBytes :: "pubkey \<Rightarrow> byte list"
  findProgramAddress :: "byte list list \<Rightarrow> pubkey \<Rightarrow> (pubkey \<times> int) res"
  associatedTokenAddress :: "pubkey \<Rightarrow> pubkey \<Rightarrow> bool \<Rightarrow> pubkey \<Rightarrow> pubkey res"

text \<open>What the library documents: a key parsed from a text prints as that text.\<close>

definition web3_ok :: "web3 \<Rightarrow> bool" where
  "web3_ok w \<longleftrightarrow> (\<forall>s k. parsePubkey w s = Some k \<longrightarrow> k = PublicKey s)"

lemma web3_okD: "web3_ok w \<Longrightarrow> parsePubkey w s = Some k \<Longrightarrow> k = PublicKey s"
  by (simp add: web3_ok_def)

text \<open>
  A small instance to evaluate the model on examples: a text of 32 to 44 characters is a key, 32
  equal bytes stand for a key named by that byte (1 is the WSOL mint), and a derived address
  is named by the length of its first seed and the number of seeds.
\<close>

definition example_key :: "byte \<Rightarrow> pubkey" where
  "example_key b = (if b = 1 then NATIVE_MINT else PublicKey (replicate 32 (char_of (unat b))))"

definition example_web3 :: web3 where
  "example_web3 =
    \<lparr>parsePubkey = (\<lambda>s. if 32 \<le> length s \<and> length s \<le> 44 then Some (PublicKey s) else None),
     pubkeyOfBytes = (\<lambda>bs. if length bs = 32 then Inr (example_key (hd bs)) else Inl RangeError),
     pubkeyBytes = (\<lambda>k. replicate 32 (if k = NATIVE_MINT then 1 else of_char (hd (toBase58 k)))),
     findProgramAddress = (\<lambda>seeds program. Inr (PublicKey (''pda:'' @ replicate (length (hd seeds)) CHR ''p'' @ replicate (length seeds) CHR ''s''), 255)),
     associatedTokenAddress = (\<lambda>mint own offCurve program.
       Inr (PublicKey (''ata:'' @ take 8 (toBase58 mint) @ '':'' @ toBase58 own)))\<rparr>"

lemma example_web3_simps [simp]:
  "parsePubkey example_web3 s =
    (if 32 \<le> length s \<and> length s \<le> 44 then Some (PublicKey s) else None)"
  "pubkeyOfBytes example_web3 bs =
    (if length bs = 32 then Inr (example_key (hd bs)) else Inl RangeError)"
  "pubkeyBytes example_web3 k = replicate 32 (if k = NATIVE_MINT then 1 else of_char (hd (toBase58 k)))"
  "findProgramAddress example_web3 seeds program = Inr (PublicKey (''pda:'' @ replicate (length (hd seeds)) CHR ''p'' @ replicate (length seeds) CHR ''s''), 255)"
  "associatedTokenAddress example_web3 mint own offCurve program =
    Inr (PublicKey (''ata:'' @ take 8 (toBase58 mint) @ '':'' @ toBase58 own))"
  by (simp_all add: example_web3_def)

lemma web3_ok_example: "web3_ok example_web3"
  by (auto simp: web3_ok_def split: if_splits)

subsection \<open>Snapshots of chain state\<close>

text \<open>
  A field of type \<open>T | null\<close> that may also be absent is three-valued: the code tells
  \<open>undefined\<close> from \<open>null\<close> in places.
\<close>

datatype 'a nullable = Undefined | Null | Val 'a

fun truthy :: "'a nullable \<Rightarrow> bool" where
  "truthy (Val _) = True"
| "truthy _ = False"

record mint_snapshot =
  m_address :: pubkey
  m_ownerProgram :: pubkey
  m_initialized :: bool
  m_mintAuthority :: "pubkey option"
  m_freezeAuthority :: "pubkey option"
  m_closeAuthority :: "pubkey nullable"
  m_extensionTypes :: "int list"
  m_transferHookAuthority :: "pubkey nullable"
  m_transferHookProgram :: "pubkey nullable"

record token_account_snapshot =
  t_address :: pubkey
  t_ownerProgram :: pubkey
  t_initialized :: bool
  t_mint :: pubkey
  t_authority :: pubkey
  t_amount :: int
  t_isNative :: bool
  t_delegate :: "pubkey option"
  t_closeAuthority :: "pubkey option"
  t_extensionTypes :: "int list"

record raw_account_snapshot =
  r_owner :: pubkey
  r_lamports :: int
  r_dataLength :: nat
  r_executable :: bool

text \<open>The account read the price references and the direct curve work from.\<close>

record account_data =
  a_owner :: pubkey
  a_data :: "byte list"
  a_lamports :: "int option"

type_synonym account_reader = "pubkey \<Rightarrow> account_data option res"

text \<open>\<open>readPk(data, offset)\<close>: \<open>subarray\<close> clamps, the key constructor decides.\<close>

definition readPk :: "web3 \<Rightarrow> byte list \<Rightarrow> nat \<Rightarrow> pubkey res" where
  "readPk w data off = pubkeyOfBytes w (subarray off (off + 32) data)"

subsection \<open>Instructions\<close>

record account_meta =
  pubkey_of :: pubkey
  isSigner :: bool
  isWritable :: bool

definition meta :: "pubkey \<Rightarrow> bool \<Rightarrow> bool \<Rightarrow> account_meta" where
  "meta k s wr = \<lparr>pubkey_of = k, isSigner = s, isWritable = wr\<rparr>"

lemma meta_simps [simp]:
  "pubkey_of (meta k s wr) = k" "isSigner (meta k s wr) = s" "isWritable (meta k s wr) = wr"
  by (simp_all add: meta_def)

record instruction =
  programId :: pubkey
  keys :: "account_meta list"
  ix_data :: "byte list"

end
