(* ===== verification/Split.thy ===== *)
theory Split
  imports Prelude
begin

text \<open>
  How a total is divided among the weighted legs of a vault. The repository holds the
  division three times: \<open>splitAmounts\<close> of \<open>quote-service/core.ts\<close> (what the
  service quotes and builds), of \<open>app/src/chain/derive.ts\<close> (what the web client
  shows) and of \<open>app/community-indexer.ts\<close> (what the indexer checks the on-chain log
  against). The locale \<open>weighted_split\<close> is their contract; each copy is an
  interpretation of it, and copies that satisfy it are the same function.
\<close>

subsection \<open>The three copies\<close>

definition BPS_TOTAL :: int where
  "BPS_TOTAL = 10000"

text \<open>
  The loop of \<open>core.ts\<close>: \<open>index\<close> and \<open>allocated\<close> are the loop's variables,
  \<open>n\<close> is \<open>bpsList.length\<close>.
\<close>

fun splitAmounts_loop :: "int \<Rightarrow> nat \<Rightarrow> nat \<Rightarrow> int \<Rightarrow> int list \<Rightarrow> int list" where
  "splitAmounts_loop tot n index allocated [] = []"
| "splitAmounts_loop tot n index allocated (bps # rest) =
    (let quotient = quot_big tot BPS_TOTAL;
         remainder = rem_big tot BPS_TOTAL;
         amount = (if index + 1 = n then tot - allocated
                   else quotient * bps + quot_big (remainder * bps) BPS_TOTAL)
     in amount # splitAmounts_loop tot n (index + 1) (allocated + amount) rest)"

definition splitAmounts :: "int \<Rightarrow> int list \<Rightarrow> int list" where
  "splitAmounts tot bpsList = splitAmounts_loop tot (length bpsList) 0 0 bpsList"

text \<open>The copy of \<open>derive.ts\<close>: a \<open>forEach\<close> that pushes onto \<open>amounts\<close>.\<close>

definition derive_splitAmounts_step ::
  "int \<Rightarrow> int list \<Rightarrow> int list \<times> int \<Rightarrow> int \<times> nat \<Rightarrow> int list \<times> int" where
  "derive_splitAmounts_step tot bpsList state entry =
    (case (state, entry) of ((amounts, allocated), (bps, index)) \<Rightarrow>
      (let quotient = quot_big tot BPS_TOTAL;
           remainder = rem_big tot BPS_TOTAL;
           amount = (if index + 1 = length bpsList then tot - allocated
                     else quotient * bps + quot_big (remainder * bps) BPS_TOTAL)
       in (amounts @ [amount], allocated + amount)))"

definition derive_splitAmounts :: "int \<Rightarrow> int list \<Rightarrow> int list" where
  "derive_splitAmounts tot bpsList =
    fst (foldl (derive_splitAmounts_step tot bpsList) ([], 0)
           (zip bpsList [0..<length bpsList]))"

text \<open>The copy of the indexer: a counting loop that reads \<open>weights[index]\<close>.\<close>

function indexer_splitAmounts_loop ::
  "int \<Rightarrow> int list \<Rightarrow> nat \<Rightarrow> int list \<Rightarrow> int \<Rightarrow> int list" where
  "indexer_splitAmounts_loop tot weights index amounts assigned =
    (if index < length weights
     then (let quotient = quot_big tot 10000;
               remainder = rem_big tot 10000;
               amount = (if index + 1 = length weights then tot - assigned
                         else quotient * (weights ! index)
                              + quot_big (remainder * (weights ! index)) 10000)
           in indexer_splitAmounts_loop tot weights (index + 1)
                (amounts @ [amount]) (assigned + amount))
     else amounts)"
  by pat_completeness auto
termination by (relation "measure (\<lambda>(tot, weights, index, _, _). length weights - index)") auto

declare indexer_splitAmounts_loop.simps [simp del]

definition indexer_splitAmounts :: "int \<Rightarrow> int list \<Rightarrow> int list" where
  "indexer_splitAmounts tot weights = indexer_splitAmounts_loop tot weights 0 [] 0"

subsection \<open>The contract\<close>

lemma floor_share:
  "0 \<le> b \<Longrightarrow> 0 \<le> tot \<Longrightarrow>
    quot_big tot 10000 * b + quot_big (rem_big tot 10000 * b) 10000 = tot * b div 10000"
proof -
  assume "0 \<le> b" "0 \<le> tot"
  moreover have "tot * b = (tot div 10000 * 10000 + tot mod 10000) * b"
    by (simp only: div_mult_mod_eq)
  then have "tot * b = tot div 10000 * b * 10000 + tot mod 10000 * b"
    by (simp only: distrib_right mult.assoc mult.commute [of b 10000] mult.left_commute)
  then have "tot * b div 10000 = tot div 10000 * b + (tot mod 10000 * b) div 10000"
    by simp
  ultimately show ?thesis by simp
qed

lemma div_bracket:
  fixes x y m :: int
  shows "x \<le> 10000 * y \<Longrightarrow> 10000 * y \<le> x + 9999 * m \<Longrightarrow> 0 \<le> m \<Longrightarrow>
    x div 10000 \<le> y \<and> y \<le> x div 10000 + m"
  by linarith

locale weighted_split =
  fixes split :: "int \<Rightarrow> int list \<Rightarrow> int list"
  assumes length_split: "length (split tot ws) = length ws"
    and sum_split: "ws \<noteq> [] \<Longrightarrow> sum_list (split tot ws) = tot"
    and split_nth: "0 \<le> tot \<Longrightarrow> \<forall>w \<in> set ws. 0 \<le> w \<Longrightarrow> i + 1 < length ws \<Longrightarrow>
      split tot ws ! i = tot * (ws ! i) div 10000"
begin

lemma split_butlast:
  assumes "0 \<le> tot" "\<forall>w \<in> set ws. 0 \<le> w" "ws \<noteq> []"
  shows "butlast (split tot ws) = map (\<lambda>w. tot * w div 10000) (butlast ws)"
  using assms by (intro nth_equalityI) (auto simp: length_split nth_butlast split_nth)

lemma split_last:
  assumes "0 \<le> tot" "\<forall>w \<in> set ws. 0 \<le> w" "ws \<noteq> []"
  shows "last (split tot ws) = tot - (\<Sum>w\<leftarrow>butlast ws. tot * w div 10000)"
proof -
  have "split tot ws \<noteq> []"
    using assms(3) length_split [of tot ws] by force
  then have "sum_list (split tot ws) = sum_list (butlast (split tot ws)) + last (split tot ws)"
    by (metis append_butlast_last_id sum_list.append sum_list.Cons sum_list.Nil add.right_neutral)
  then show ?thesis
    using split_butlast [OF assms] sum_split [OF assms(3)] by simp
qed

lemma split_eq:
  assumes "0 \<le> tot" "\<forall>w \<in> set ws. 0 \<le> w" "ws \<noteq> []"
  shows "split tot ws = map (\<lambda>w. tot * w div 10000) (butlast ws)
      @ [tot - (\<Sum>w\<leftarrow>butlast ws. tot * w div 10000)]"
proof -
  have "split tot ws \<noteq> []"
    using assms(3) length_split [of tot ws] by force
  then show ?thesis
    by (metis append_butlast_last_id split_butlast [OF assms] split_last [OF assms])
qed

text \<open>
  With weights that fill the basis the last leg gets its own floor plus what flooring the
  others left over, which is less than one atom per other leg.
\<close>

lemma floor_sum_bounds:
  fixes tot :: int
  shows "tot * sum_list ws - 10000 * (\<Sum>w\<leftarrow>ws. tot * w div 10000) \<in> {0..9999 * int (length ws)}"
proof (induction ws)
  case (Cons w ws)
  let ?F = "\<Sum>w\<leftarrow>ws. tot * w div 10000"
  have "10000 * (tot * w div 10000) \<le> tot * w" "tot * w \<le> 10000 * (tot * w div 10000) + 9999"
    by linarith+
  moreover have "0 \<le> tot * sum_list ws - 10000 * ?F"
    "tot * sum_list ws - 10000 * ?F \<le> 9999 * int (length ws)"
    using Cons by simp_all
  moreover have "tot * sum_list (w # ws) = tot * w + tot * sum_list ws"
    by (simp add: distrib_left)
  ultimately show ?case
    by simp
qed simp

lemma split_last_bounds:
  assumes "0 \<le> tot" "\<forall>w \<in> set ws. 0 \<le> w" "ws \<noteq> []" "sum_list ws = 10000"
  shows "tot * last ws div 10000 \<le> last (split tot ws)"
    and "last (split tot ws) \<le> tot * last ws div 10000 + int (length ws) - 1"
proof -
  let ?F = "\<Sum>w\<leftarrow>butlast ws. tot * w div 10000"
  have "sum_list ws = sum_list (butlast ws) + last ws"
    by (metis append_butlast_last_id assms(3) sum_list.append sum_list.Cons sum_list.Nil
        add.right_neutral)
  then have "tot * sum_list (butlast ws) = tot * (10000 - last ws)"
    using assms(4) by simp
  then have "tot * sum_list (butlast ws) = tot * 10000 - tot * last ws"
    by (simp only: right_diff_distrib)
  then have "tot * 10000 - tot * last ws - 10000 * ?F \<in> {0..9999 * int (length ws - 1)}"
    using floor_sum_bounds [of tot "butlast ws"] by simp
  moreover have "int (length ws - 1) = int (length ws) - 1"
    using assms(3) by (simp add: Suc_leI of_nat_diff)
  ultimately have "tot * last ws \<le> 10000 * (tot - ?F)"
    and "10000 * (tot - ?F) \<le> tot * last ws + 9999 * (int (length ws) - 1)"
    by (simp_all add: algebra_simps)
  moreover have "0 \<le> int (length ws) - 1"
    using assms(3) by (simp add: Suc_leI)
  ultimately have "tot * last ws div 10000 \<le> tot - ?F
      \<and> tot - ?F \<le> tot * last ws div 10000 + (int (length ws) - 1)"
    by (rule div_bracket)
  then show "tot * last ws div 10000 \<le> last (split tot ws)"
    and "last (split tot ws) \<le> tot * last ws div 10000 + int (length ws) - 1"
    by (simp_all add: split_last [OF assms(1-3)])
qed

lemma split_nonneg:
  assumes "0 \<le> tot" "\<forall>w \<in> set ws. 0 \<le> w" "ws \<noteq> []" "sum_list ws = 10000"
    and "a \<in> set (split tot ws)"
  shows "0 \<le> a"
proof -
  have "0 \<le> last (split tot ws)"
    using split_last_bounds(1) [OF assms(1-4)] assms(1,2,3)
    by (meson dual_order.trans last_in_set mult_nonneg_nonneg pos_imp_zdiv_nonneg_iff zero_less_numeral)
  moreover have "a = last (split tot ws) \<or> a \<in> set (butlast (split tot ws))"
    using assms(5) by (cases "split tot ws" rule: rev_cases) auto
  moreover have "0 \<le> a" if "a \<in> set (butlast (split tot ws))"
    using that assms(1,2) unfolding split_butlast [OF assms(1-3)]
    by (auto dest!: in_set_butlastD intro!: div_int_pos_iff [THEN iffD2] mult_nonneg_nonneg)
  ultimately show ?thesis
    by auto
qed

end

locale weighted_split_pair = one: weighted_split split1 + two: weighted_split split2
  for split1 split2 :: "int \<Rightarrow> int list \<Rightarrow> int list"
begin

lemma agree:
  assumes "0 \<le> tot" "\<forall>w \<in> set ws. 0 \<le> w"
  shows "split1 tot ws = split2 tot ws"
proof (cases "ws = []")
  case True
  then show ?thesis
    using one.length_split [of tot "[]"] two.length_split [of tot "[]"] by simp
next
  case False
  then show ?thesis
    using one.split_eq [OF assms False] two.split_eq [OF assms False] by simp
qed

end

subsection \<open>Each copy satisfies it\<close>

lemma splitAmounts_loop_length: "length (splitAmounts_loop tot n i a ws) = length ws"
  by (induction ws arbitrary: i a) (auto simp: Let_def)

lemma splitAmounts_loop_sum:
  "ws \<noteq> [] \<Longrightarrow> i + length ws = n \<Longrightarrow> sum_list (splitAmounts_loop tot n i a ws) = tot - a"
proof (induction ws arbitrary: i a)
  case (Cons w ws)
  then show ?case
    by (cases "ws = []") (auto simp: Let_def)
qed simp

lemma splitAmounts_loop_nth:
  "0 \<le> tot \<Longrightarrow> \<forall>w \<in> set ws. 0 \<le> w \<Longrightarrow> i + length ws = n \<Longrightarrow> k + 1 < length ws \<Longrightarrow>
    splitAmounts_loop tot n i a ws ! k = tot * (ws ! k) div 10000"
proof (induction ws arbitrary: i a k)
  case (Cons w ws)
  show ?case
  proof (cases k)
    case 0
    then show ?thesis
      using Cons.prems floor_share [of w tot] by (auto simp: Let_def BPS_TOTAL_def)
  next
    case (Suc k')
    then show ?thesis
      using Cons.prems Cons.IH [of "i + 1"] by (auto simp: Let_def)
  qed
qed simp

interpretation core_split: weighted_split splitAmounts
  by unfold_locales
    (auto simp: splitAmounts_def splitAmounts_loop_length splitAmounts_loop_sum
      splitAmounts_loop_nth)

text \<open>The other two loops compute what the first one does, from any point on.\<close>

lemma derive_loop:
  "i + length ws = length bs \<Longrightarrow>
    fst (foldl (derive_splitAmounts_step tot bs) (acc, a) (zip ws [i..<length bs])) =
      acc @ splitAmounts_loop tot (length bs) i a ws"
proof (induction ws arbitrary: i acc a)
  case (Cons w ws)
  then have "[i..<length bs] = i # [Suc i..<length bs]"
    by (simp add: upt_conv_Cons)
  then show ?case
    using Cons by (simp add: derive_splitAmounts_step_def Let_def)
qed simp

lemma derive_splitAmounts_eq: "derive_splitAmounts = splitAmounts"
  using derive_loop [where i = 0] by (simp add: fun_eq_iff derive_splitAmounts_def splitAmounts_def)

lemma indexer_loop:
  "i \<le> length ws \<Longrightarrow>
    indexer_splitAmounts_loop tot ws i acc a =
      acc @ splitAmounts_loop tot (length ws) i a (drop i ws)"
proof (induction "length ws - i" arbitrary: i acc a)
  case 0
  then show ?case by (subst indexer_splitAmounts_loop.simps) simp
next
  case (Suc k)
  then have "i < length ws" by simp
  moreover have "drop i ws = ws ! i # drop (Suc i) ws"
    using \<open>i < length ws\<close> by (simp add: Cons_nth_drop_Suc)
  ultimately show ?case
    using Suc by (subst indexer_splitAmounts_loop.simps) (simp add: Let_def BPS_TOTAL_def)
qed

lemma indexer_splitAmounts_eq: "indexer_splitAmounts = splitAmounts"
  by (simp add: fun_eq_iff indexer_splitAmounts_def splitAmounts_def indexer_loop)

interpretation derive_split: weighted_split derive_splitAmounts
  unfolding derive_splitAmounts_eq by (rule core_split.weighted_split_axioms)

interpretation indexer_split: weighted_split indexer_splitAmounts
  unfolding indexer_splitAmounts_eq by (rule core_split.weighted_split_axioms)

interpretation core_derive: weighted_split_pair splitAmounts derive_splitAmounts
  by unfold_locales

interpretation core_indexer: weighted_split_pair splitAmounts indexer_splitAmounts
  by unfold_locales

subsection \<open>Properties\<close>

text \<open>
  C6: With weights that fill the 10,000 basis points, the amounts of the legs add up to the total
  exactly and none is negative; every leg but the last gets the floor of its share, and the last
  leg gets its floor plus what the others lost to rounding, at most one lamport per other leg.
\<close>

theorem split_conserves:
  assumes "0 \<le> tot" "\<forall>w \<in> set ws. 0 \<le> w" "ws \<noteq> []" "sum_list ws = 10000"
  shows "sum_list (splitAmounts tot ws) = tot \<and>
    butlast (splitAmounts tot ws) = map (\<lambda>w. tot * w div 10000) (butlast ws) \<and>
    tot * last ws div 10000 \<le> last (splitAmounts tot ws) \<and>
    last (splitAmounts tot ws) \<le> tot * last ws div 10000 + int (length ws) - 1 \<and>
    list_all (\<lambda>a. 0 \<le> a) (splitAmounts tot ws)"
  using core_split.sum_split [OF assms(3), of tot] core_split.split_butlast [OF assms(1-3)]
    core_split.split_last_bounds [OF assms] core_split.split_nonneg [OF assms]
  by (simp add: list_all_iff)

lemma split_conserves_witness:
  "sum_list (splitAmounts 1000001 [3333, 3333, 3334]) = 1000001 \<and>
    butlast (splitAmounts 1000001 [3333, 3333, 3334])
      = map (\<lambda>w. 1000001 * w div 10000) (butlast [3333, 3333, 3334]) \<and>
    1000001 * last [3333, 3333, 3334] div 10000 \<le> last (splitAmounts 1000001 [3333, 3333, 3334]) \<and>
    last (splitAmounts 1000001 [3333, 3333, 3334])
      \<le> 1000001 * last [3333, 3333, 3334] div 10000 + int (length [3333, 3333, 3334 :: int]) - 1 \<and>
    list_all (\<lambda>a. 0 \<le> a) (splitAmounts 1000001 [3333, 3333, 3334])"
  by (rule split_conserves) simp_all

text \<open>
  The service, the web client and the indexer divide a total in the same way: the three
  copies of the division are the same function, on every input.
\<close>

theorem splits_agree:
  "derive_splitAmounts tot ws = splitAmounts tot ws \<and>
   indexer_splitAmounts tot ws = splitAmounts tot ws"
  by (simp add: derive_splitAmounts_eq indexer_splitAmounts_eq)

end
