(* ===== verification/Request.thy ===== *)
theory Request
  imports Complex_Main Solana Split
begin

text \<open>
  The public request surface of the burn service: \<open>parseBurnRequest\<close> of
  \<open>quote-service/core.ts\<close>, which is the only way a value from the network becomes a burn
  request, and \<open>policyErrorStatus\<close> of \<open>quote-service/server.ts\<close>. The lemmas
  characterise the parser: its results are exactly the well-formed requests.
\<close>

subsection \<open>Values of unknown type\<close>

text \<open>
  What a JavaScript value parsed from the network can be. \<open>JInt\<close> is a number for which
  \<open>Number.isInteger\<close> holds, \<open>JFrac\<close> any other number. An object lists its own
  keys, which are distinct.
\<close>

datatype jsval =
    JUndef
  | JNull
  | JBool bool
  | JInt int
  | JFrac rat
  | JStr string
  | JArr "jsval list"
  | JObj "(string \<times> jsval) list"

text \<open>\<open>object.key\<close>: \<open>undefined\<close> for a key that is absent.\<close>

definition field :: "(string \<times> jsval) list \<Rightarrow> string \<Rightarrow> jsval" where
  "field kvs k = (case map_of kvs k of Some v \<Rightarrow> v | None \<Rightarrow> JUndef)"

subsection \<open>Regular expressions of the parser\<close>

definition in_range :: "char \<Rightarrow> char \<Rightarrow> char \<Rightarrow> bool" where
  "in_range a b c \<longleftrightarrow> (of_char a :: int) \<le> of_char c \<and> of_char c \<le> (of_char b :: int)"

definition is_digit :: "char \<Rightarrow> bool" where
  "is_digit = in_range CHR ''0'' CHR ''9''"

text \<open>\<open>/^[A-Za-z0-9._:-]{1,128}$/\<close>\<close>

definition safe_request_id :: "string \<Rightarrow> bool" where
  "safe_request_id s \<longleftrightarrow> 1 \<le> length s \<and> length s \<le> 128 \<and>
    list_all (\<lambda>c. in_range CHR ''A'' CHR ''Z'' c \<or> in_range CHR ''a'' CHR ''z'' c \<or> is_digit c
      \<or> c \<in> set ''._:-'') s"

text \<open>\<open>/^[1-9][0-9]*$/\<close>\<close>

definition positive_decimal :: "string \<Rightarrow> bool" where
  "positive_decimal s \<longleftrightarrow>
    (case s of [] \<Rightarrow> False | c # cs \<Rightarrow> in_range CHR ''1'' CHR ''9'' c \<and> list_all is_digit cs)"

text \<open>\<open>BigInt(s)\<close> of a string of decimal digits.\<close>

definition digit_value :: "char \<Rightarrow> int" where
  "digit_value c = of_char c - 48"

definition decimal_value :: "string \<Rightarrow> int" where
  "decimal_value s = foldl (\<lambda>acc c. 10 * acc + digit_value c) 0 s"

subsection \<open>The request\<close>

record burn_leg_request =
  lr_targetMint :: string
  lr_bps :: int
  lr_reference :: "string option"

record burn_request =
  br_requestId :: string
  br_launchMint :: string
  br_amountIn :: string
  br_legs :: "burn_leg_request list"
  br_lookupTableAddresses :: "string list option"

definition U64_MAX :: int where
  "U64_MAX = 0xffffffffffffffff"

text \<open>One leg, the body of \<open>object.legs.map\<close>.\<close>

definition parse_leg :: "web3 \<Rightarrow> jsval \<Rightarrow> burn_leg_request res" where
  "parse_leg w raw =
    (case raw of
      JObj leg \<Rightarrow>
        if \<not> list_all (\<lambda>(k, _). k \<in> set [''targetMint'', ''bps'', ''reference'']) leg
        then reject ''FORBIDDEN_REQUEST_FIELD''
        else (case field leg ''targetMint'' of
          JStr targetMint \<Rightarrow>
            if parsePubkey w targetMint = None then reject ''INVALID_TARGET_MINT''
            else (case field leg ''bps'' of
              JInt bps \<Rightarrow>
                if bps \<le> 0 then reject ''INVALID_WEIGHTS''
                else (case field leg ''reference'' of
                  JUndef \<Rightarrow> Inr \<lparr>lr_targetMint = targetMint, lr_bps = bps, lr_reference = None\<rparr>
                | JStr r \<Rightarrow>
                    if parsePubkey w r = None then reject ''INVALID_REFERENCE''
                    else Inr \<lparr>lr_targetMint = targetMint, lr_bps = bps, lr_reference = Some r\<rparr>
                | _ \<Rightarrow> reject ''INVALID_REFERENCE'')
            | _ \<Rightarrow> reject ''INVALID_WEIGHTS'')
        | _ \<Rightarrow> reject ''INVALID_TARGET_MINT'')
    | _ \<Rightarrow> reject ''INVALID_LEG'')"

text \<open>The optional list of lookup tables.\<close>

fun all_strings :: "jsval list \<Rightarrow> string list option" where
  "all_strings [] = Some []"
| "all_strings (JStr s # vs) = map_option ((#) s) (all_strings vs)"
| "all_strings (_ # vs) = None"

definition parse_lookup_tables :: "web3 \<Rightarrow> jsval \<Rightarrow> string list option res" where
  "parse_lookup_tables w v =
    (case v of
      JUndef \<Rightarrow> Inr None
    | JArr vs \<Rightarrow> (case all_strings vs of
        None \<Rightarrow> reject ''INVALID_ALT''
      | Some addresses \<Rightarrow>
          if \<exists>a \<in> set addresses. parsePubkey w a = None then reject ''INVALID_ALT''
          else Inr (Some addresses))
    | _ \<Rightarrow> reject ''INVALID_ALT'')"

definition request_keys :: "string list" where
  "request_keys = [''requestId'', ''launchMint'', ''amountIn'', ''legs'', ''lookupTableAddresses'']"

definition parseBurnRequest :: "web3 \<Rightarrow> jsval \<Rightarrow> burn_request res" where
  "parseBurnRequest w value =
    (case value of
      JObj object \<Rightarrow>
        if \<not> list_all (\<lambda>(k, _). k \<in> set request_keys) object
        then reject ''FORBIDDEN_REQUEST_FIELD''
        else (case field object ''requestId'' of
          JStr requestId \<Rightarrow>
            if \<not> safe_request_id requestId then reject ''INVALID_REQUEST_ID''
            else (case field object ''launchMint'' of
              JStr launchMint \<Rightarrow>
                if parsePubkey w launchMint = None then reject ''INVALID_LAUNCH_MINT''
                else (case field object ''amountIn'' of
                  JStr amountIn \<Rightarrow>
                    if \<not> positive_decimal amountIn then reject ''INVALID_AMOUNT''
                    else if decimal_value amountIn > U64_MAX then reject ''INVALID_AMOUNT''
                    else (case field object ''legs'' of
                      JArr rawLegs \<Rightarrow>
                        if length rawLegs = 0 \<or> length rawLegs > MAX_SPLIT_TARGETS
                        then reject ''INVALID_LEGS''
                        else bindR (traverse (parse_leg w) rawLegs) (\<lambda>legs.
                          if sum_list (map lr_bps legs) \<noteq> BPS_TOTAL
                          then reject ''INVALID_WEIGHTS''
                          else if \<not> distinct (map lr_targetMint legs)
                          then reject ''DUPLICATE_TARGET''
                          else bindR (parse_lookup_tables w (field object ''lookupTableAddresses''))
                            (\<lambda>tables. Inr
                              \<lparr>br_requestId = requestId, br_launchMint = launchMint,
                               br_amountIn = amountIn, br_legs = legs,
                               br_lookupTableAddresses = tables\<rparr>))
                    | _ \<Rightarrow> reject ''INVALID_LEGS'')
                | _ \<Rightarrow> reject ''INVALID_AMOUNT'')
            | _ \<Rightarrow> reject ''INVALID_LAUNCH_MINT'')
        | _ \<Rightarrow> reject ''INVALID_REQUEST_ID'')
    | _ \<Rightarrow> reject ''INVALID_REQUEST'')"

subsection \<open>The HTTP status of a rejection\<close>

definition policyErrorStatus :: "string \<Rightarrow> int" where
  "policyErrorStatus code =
    (if code = ''VAULT_BUSY'' \<or> code = ''DUPLICATE_REQUEST'' \<or> code = ''PREPARATION_STATE''
     then 409
     else if code = ''PREPARATION_NOT_FOUND'' then 404
     else if code = ''PREPARATION_EXPIRED'' then 410
     else if code = ''EXTERNAL_SIMULATION_FAILURE'' then 502
     else 400)"

subsection \<open>Well-formed requests\<close>

definition wf_leg :: "web3 \<Rightarrow> burn_leg_request \<Rightarrow> bool" where
  "wf_leg w leg \<longleftrightarrow> parsePubkey w (lr_targetMint leg) \<noteq> None \<and> 0 < lr_bps leg \<and>
    (\<forall>r \<in> set_option (lr_reference leg). parsePubkey w r \<noteq> None)"

definition wf_request :: "web3 \<Rightarrow> burn_request \<Rightarrow> bool" where
  "wf_request w r \<longleftrightarrow>
    safe_request_id (br_requestId r) \<and>
    parsePubkey w (br_launchMint r) \<noteq> None \<and>
    positive_decimal (br_amountIn r) \<and> decimal_value (br_amountIn r) \<le> U64_MAX \<and>
    1 \<le> length (br_legs r) \<and> length (br_legs r) \<le> MAX_SPLIT_TARGETS \<and>
    list_all (wf_leg w) (br_legs r) \<and>
    sum_list (map lr_bps (br_legs r)) = BPS_TOTAL \<and>
    distinct (map lr_targetMint (br_legs r)) \<and>
    (\<forall>ts \<in> set_option (br_lookupTableAddresses r). \<forall>t \<in> set ts. parsePubkey w t \<noteq> None)"

text \<open>The object a client sends for a request.\<close>

definition leg_json :: "burn_leg_request \<Rightarrow> jsval" where
  "leg_json leg = JObj ([(''targetMint'', JStr (lr_targetMint leg)), (''bps'', JInt (lr_bps leg))]
    @ (case lr_reference leg of None \<Rightarrow> [] | Some r \<Rightarrow> [(''reference'', JStr r)]))"

definition request_json :: "burn_request \<Rightarrow> jsval" where
  "request_json r = JObj
    ([(''requestId'', JStr (br_requestId r)), (''launchMint'', JStr (br_launchMint r)),
      (''amountIn'', JStr (br_amountIn r)), (''legs'', JArr (map leg_json (br_legs r)))]
     @ (case br_lookupTableAddresses r of None \<Rightarrow> []
        | Some ts \<Rightarrow> [(''lookupTableAddresses'', JArr (map JStr ts))]))"

lemma all_strings_map_JStr: "all_strings (map JStr ts) = Some ts"
  by (induction ts) auto

lemma parse_leg_wf: "parse_leg w v = Inr leg \<Longrightarrow> wf_leg w leg"
  by (auto simp: parse_leg_def wf_leg_def split: jsval.splits if_splits)

lemma parse_leg_json: "wf_leg w leg \<Longrightarrow> parse_leg w (leg_json leg) = Inr leg"
  by (auto simp: parse_leg_def leg_json_def wf_leg_def field_def split: option.splits)

lemma parse_lookup_tables_ok:
  "parse_lookup_tables w v = Inr ts \<Longrightarrow> \<forall>l \<in> set_option ts. \<forall>t \<in> set l. parsePubkey w t \<noteq> None"
  by (auto simp: parse_lookup_tables_def split: jsval.splits option.splits if_splits)

lemma parse_legs_wf:
  assumes "traverse (parse_leg w) raws = Inr legs"
  shows "list_all (wf_leg w) legs \<and> length legs = length raws"
  using assms traverse_from_set [OF assms] traverse_from_length [OF assms]
  by (auto simp: list_all_iff intro: parse_leg_wf)

lemma parse_legs_json:
  "list_all (wf_leg w) legs \<Longrightarrow> traverse (parse_leg w) (map leg_json legs) = Inr legs"
  by (auto simp: traverse_from_Inr_iff list_all_length intro: parse_leg_json)

lemma parseBurnRequest_wf:
  assumes "parseBurnRequest w v = Inr r"
  shows "wf_request w r"
  using assms
  by (auto simp: parseBurnRequest_def wf_request_def res_simps not_less Suc_le_eq
      dest: parse_legs_wf parse_lookup_tables_ok
      split: jsval.splits if_splits)

lemma parseBurnRequest_json:
  assumes "wf_request w r"
  shows "parseBurnRequest w (request_json r) = Inr r"
  using assms parse_legs_json [of w "br_legs r"]
  by (cases "br_lookupTableAddresses r")
    (auto simp: parseBurnRequest_def request_json_def wf_request_def field_def request_keys_def
      parse_lookup_tables_def all_strings_map_JStr not_less)

subsection \<open>Facts the pipeline uses\<close>

lemma in_range_digit: "in_range CHR ''1'' CHR ''9'' c \<Longrightarrow> 1 \<le> digit_value c"
  by (simp add: in_range_def digit_value_def)

lemma is_digit_value: "is_digit c \<Longrightarrow> 0 \<le> digit_value c"
  by (simp add: is_digit_def in_range_def digit_value_def)

lemma decimal_value_foldl_mono:
  "list_all is_digit s \<Longrightarrow> 0 \<le> a \<Longrightarrow>
    a \<le> foldl (\<lambda>acc c. 10 * acc + digit_value c) a s"
proof (induction s arbitrary: a)
  case (Cons c s)
  then have "0 \<le> digit_value c" by (simp add: is_digit_value)
  then show ?case
    using Cons.IH [of "10 * a + digit_value c"] Cons.prems by simp
qed simp

lemma positive_decimal_value: "positive_decimal s \<Longrightarrow> 1 \<le> decimal_value s"
  by (cases s)
    (auto simp: positive_decimal_def decimal_value_def
      dest!: in_range_digit intro: order_trans [OF _ decimal_value_foldl_mono])

lemma wf_request_weights:
  assumes "wf_request w r"
  shows "map lr_bps (br_legs r) \<noteq> []" "\<forall>b \<in> set (map lr_bps (br_legs r)). 0 \<le> b"
    "sum_list (map lr_bps (br_legs r)) = 10000"
  using assms by (auto simp: wf_request_def wf_leg_def list_all_iff BPS_TOTAL_def)

definition client_error :: "error \<Rightarrow> bool" where
  "client_error e = (case e of PolicyError c \<Rightarrow> policyErrorStatus c = 400 | _ \<Rightarrow> False)"

lemma client_error_status:
  "client_error (PolicyError ''INVALID_REQUEST'')"
  "client_error (PolicyError ''FORBIDDEN_REQUEST_FIELD'')"
  "client_error (PolicyError ''INVALID_REQUEST_ID'')"
  "client_error (PolicyError ''INVALID_LAUNCH_MINT'')"
  "client_error (PolicyError ''INVALID_AMOUNT'')"
  "client_error (PolicyError ''INVALID_LEGS'')"
  "client_error (PolicyError ''INVALID_LEG'')"
  "client_error (PolicyError ''INVALID_TARGET_MINT'')"
  "client_error (PolicyError ''INVALID_WEIGHTS'')"
  "client_error (PolicyError ''INVALID_REFERENCE'')"
  "client_error (PolicyError ''DUPLICATE_TARGET'')"
  "client_error (PolicyError ''INVALID_ALT'')"
  by (simp_all add: client_error_def policyErrorStatus_def)

lemma parse_leg_error: "fails_with client_error (parse_leg w v)"
  by (auto simp: parse_leg_def client_error_status split: jsval.split)

lemma parse_tables_error: "fails_with client_error (parse_lookup_tables w v)"
  by (auto simp: parse_lookup_tables_def client_error_status split: jsval.split option.split)

subsection \<open>Properties\<close>


text \<open>
  A value the parser does not accept is refused with a policy error that the HTTP layer
  answers with status 400; the parser never fails in another way.
\<close>

theorem refused_requests: "fails_with client_error (parseBurnRequest w v)"
  by (auto simp: parseBurnRequest_def client_error_status
      intro!: fails_with_bindR fails_with_traverse parse_leg_error parse_tables_error
      split: jsval.split)

end
