(* ===== verification/Floor.thy ===== *)
theory Floor
  imports Complex_Main Solana
begin

text \<open>
  The arithmetic of \<open>quote-service/reference.ts\<close>: the readers of pool data, the price of
  a Meteora bin, the fee on the input, and \<open>makeFloor\<close>, which computes the floor on the
  tokens a leg must buy the way the on-chain program does. The lemmas bound the floor from
  both sides and order its refusals.
\<close>

subsection \<open>Constants\<close>

definition REFERENCE_TOLERANCE_BPS :: int where
  "REFERENCE_TOLERANCE_BPS = 100"

definition MIN_REFERENCE_DEPTH_LAMPORTS :: int where
  "MIN_REFERENCE_DEPTH_LAMPORTS = 50000000000"

datatype floor_kind = CP | CLMM | DLMM | CURVE

record fee_ratio =
  fee_num :: int
  fee_den :: int
  fee_pump :: bool

definition ONE_Q64 :: int where
  "ONE_Q64 = 2 ^ 64"

subsection \<open>Readers\<close>

definition u64 :: "byte list \<Rightarrow> nat \<Rightarrow> int res" where
  "u64 data off = readLE 8 data off"

definition u128 :: "byte list \<Rightarrow> nat \<Rightarrow> int res" where
  "u128 data off = bindR (readLE 8 data off) (\<lambda>lo.
    bindR (readLE 8 data (off + 8)) (\<lambda>hi. Inr (lo + hi * 2 ^ 64)))"

lemma u64_Inr [res_simps]:
  "u64 data off = Inr x \<longleftrightarrow> off + 8 \<le> length data \<and> x = le_value (take 8 (drop off data))"
  by (simp add: u64_def readLE_Inr)

lemma u64_nonneg: "u64 data off = Inr x \<Longrightarrow> 0 \<le> x"
  by (auto simp: u64_def dest: readLE_bounds)

lemma u128_nonneg: "u128 data off = Inr x \<Longrightarrow> 0 \<le> x"
  by (auto simp: u128_def bindR_Inr_iff dest!: readLE_bounds)

definition readInt32LE :: "byte list \<Rightarrow> nat \<Rightarrow> int res" where
  "readInt32LE data off = bindR (readLE 4 data off) (\<lambda>x.
    Inr (if x \<ge> 2 ^ 31 then x - 2 ^ 32 else x))"

text \<open>\<open>x!\<close> of an optional field: using an absent one in arithmetic is a \<open>TypeError\<close>.\<close>

definition given :: "'a option \<Rightarrow> 'a res" where
  "given x = (case x of None \<Rightarrow> Inl TypeError | Some y \<Rightarrow> Inr y)"

lemma given_Inr [res_simps]: "given x = Inr y \<longleftrightarrow> x = Some y"
  by (simp add: given_def split: option.splits)

subsection \<open>Prices, fees and the floor\<close>

text \<open>
  The square-and-multiply loop of \<open>dlmmPriceQ64\<close>; \<open>>> 64n\<close> and \<open>>>= 1n\<close>
  are divisions, \<open>& 1n\<close> is the parity.
\<close>

function dlmm_loop :: "int \<Rightarrow> nat \<Rightarrow> int \<Rightarrow> int" where
  "dlmm_loop base exponent result =
    (if exponent > 0
     then (let result' = (if odd exponent then result * base div 2 ^ 64 else result);
               exponent' = exponent div 2;
               base' = (if exponent' > 0 then base * base div 2 ^ 64 else base)
           in dlmm_loop base' exponent' result')
     else result)"
  by pat_completeness auto
termination by (relation "measure (\<lambda>(_, exponent, _). exponent)") auto

declare dlmm_loop.simps [simp del]

definition dlmmPriceQ64 :: "int \<Rightarrow> int \<Rightarrow> int" where
  "dlmmPriceQ64 binStep activeId =
    (let base = quot_big (ONE_Q64 * (10000 + binStep)) 10000;
         result = dlmm_loop base (nat \<bar>activeId\<bar>) ONE_Q64
     in if activeId < 0 then quot_big (ONE_Q64 * ONE_Q64) result else result)"

definition feeCap :: "int \<Rightarrow> fee_ratio \<Rightarrow> int res" where
  "feeCap depth fee = bigint_div (depth * fee_num fee) (fee_den fee)"

definition inputAfterFee :: "int \<Rightarrow> fee_ratio \<Rightarrow> int res" where
  "inputAfterFee amount fee =
    (let den = (if fee_pump fee then fee_den fee + fee_num fee else fee_den fee);
         num = (if fee_pump fee then fee_den fee else fee_den fee - fee_num fee)
     in bindR (bigint_div (amount * num) den) (\<lambda>net.
          Inr (if fee_pump fee then net - 1 else net)))"

record floor_state =
  fs_reserveToken :: int
  fs_reserveSol :: int
  fs_sq :: "int option"
  fs_solIs0 :: "bool option"
  fs_binStep :: "int option"
  fs_activeId :: "int option"
  fs_solIsX :: "bool option"

text \<open>What the reference would pay for \<open>net\<close> lamports.\<close>

definition expectedOutput :: "floor_kind \<Rightarrow> floor_state \<Rightarrow> int \<Rightarrow> int res" where
  "expectedOutput kind state net =
    (case kind of
      CLMM \<Rightarrow> bindR (given (fs_sq state)) (\<lambda>sq.
        if fs_solIs0 state = Some True
        then Inr (((net * sq) div 2 ^ 64) * sq div 2 ^ 64)
        else bindR (bigint_div (net * 2 ^ 64) sq) (\<lambda>a. bigint_div (a * 2 ^ 64) sq))
    | DLMM \<Rightarrow> bindR (given (fs_binStep state)) (\<lambda>binStep.
        bindR (given (fs_activeId state)) (\<lambda>activeId.
          (let price = dlmmPriceQ64 binStep activeId
           in if fs_solIsX state = Some True then Inr (net * price div 2 ^ 64)
              else bigint_div (net * 2 ^ 64) price)))
    | _ \<Rightarrow> bigint_div (fs_reserveToken state * net) (fs_reserveSol state + net))"

text \<open>
  The closure \<open>floorFor\<close> that \<open>makeFloor\<close> returns, with the cap it closes over.
\<close>

definition floorFor ::
  "floor_kind \<Rightarrow> fee_ratio \<Rightarrow> floor_state \<Rightarrow> bool \<Rightarrow> int \<Rightarrow> int \<Rightarrow> int res" where
  "floorFor kind fee state depthGated cap amountIn =
    (if amountIn > cap then reject ''REFERENCE_CAP_EXCEEDED''
     else if depthGated \<and> fs_reserveSol state < MIN_REFERENCE_DEPTH_LAMPORTS
     then reject ''REFERENCE_TOO_SHALLOW''
     else bindR (inputAfterFee amountIn fee) (\<lambda>net.
       if net \<le> 0 then reject ''REFERENCE_FLOOR_ZERO''
       else bindR (expectedOutput kind state net) (\<lambda>expected.
         (let floor = quot_big (expected * (10000 - REFERENCE_TOLERANCE_BPS)) 10000
          in if expected = 0 \<or> floor = 0 then reject ''REFERENCE_FLOOR_ZERO''
             else Inr floor))))"

definition makeFloor ::
  "floor_kind \<Rightarrow> fee_ratio \<Rightarrow> floor_state \<Rightarrow> bool \<Rightarrow> (int \<times> (int \<Rightarrow> int res)) res" where
  "makeFloor kind fee state depthGated = bindR (feeCap (fs_reserveSol state) fee) (\<lambda>cap.
    Inr (cap, floorFor kind fee state depthGated cap))"

subsection \<open>The price of a bin\<close>

lemma dlmm_loop_ge:
  "2 ^ 64 \<le> base \<Longrightarrow> 2 ^ 64 \<le> result \<Longrightarrow> 2 ^ 64 \<le> dlmm_loop base e result"
proof (induction base e result rule: dlmm_loop.induct)
  case (1 base e result)
  have step: "2 ^ 64 \<le> x * base div 2 ^ 64" if "2 ^ 64 \<le> x" for x :: int
    using zdiv_mono1 [OF mult_mono [OF that "1.prems"(1)], of "2 ^ 64"] that by simp
  show ?case
    using "1.IH" "1.prems" step
    by (subst dlmm_loop.simps) (auto simp: Let_def)
qed

text \<open>Each truncation can only lower the price below the real power.\<close>

lemma q64_mult_le:
  fixes a b :: int and x y :: real
  assumes "0 \<le> a" "0 \<le> b" "0 \<le> x" "of_int a \<le> 2 ^ 64 * x" "of_int b \<le> 2 ^ 64 * y"
  shows "of_int (a * b div 2 ^ 64) \<le> 2 ^ 64 * (x * y)"
proof -
  have "of_int a * of_int b \<le> (2 ^ 64 * x) * (2 ^ 64 * y)"
    using assms by (intro mult_mono) auto
  moreover have "of_int (a * b div 2 ^ 64) \<le> (of_int (a * b) / of_int (2 ^ 64) :: real)"
    by (rule real_of_int_div4)
  ultimately show ?thesis by simp
qed

lemma dlmm_loop_le:
  fixes x :: real
  assumes "0 \<le> base" "0 \<le> result" "0 \<le> x"
    and "of_int base \<le> 2 ^ 64 * x ^ k" "of_int result \<le> 2 ^ 64 * x ^ m"
  shows "of_int (dlmm_loop base e result) \<le> 2 ^ 64 * x ^ (m + e * k)"
  using assms
proof (induction base e result arbitrary: k m rule: dlmm_loop.induct)
  case (1 base e result)
  show ?case
  proof (cases "e = 0")
    case True
    then show ?thesis using "1.prems" by (subst dlmm_loop.simps) simp
  next
    case False
    define result' m' where
      "result' = (if odd e then result * base div 2 ^ 64 else result)" and
      "m' = (if odd e then m + k else m)"
    define base' where "base' = (if e div 2 > 0 then base * base div 2 ^ 64 else base)"
    have r: "0 \<le> result'" "of_int result' \<le> 2 ^ 64 * x ^ m'"
      using "1.prems" q64_mult_le [of result base "x ^ m" "x ^ k"]
      by (simp_all add: result'_def m'_def power_add pos_imp_zdiv_nonneg_iff)
    have b: "0 \<le> base'"
      using "1.prems" by (simp add: base'_def pos_imp_zdiv_nonneg_iff)
    have unfold: "dlmm_loop base e result = dlmm_loop base' (e div 2) result'"
      using False by (subst dlmm_loop.simps) (simp add: Let_def result'_def base'_def)
    show ?thesis
    proof (cases "e div 2 > 0")
      case True
      then have "of_int base' \<le> 2 ^ 64 * x ^ (2 * k)"
        using "1.prems" q64_mult_le [of base base "x ^ k" "x ^ k"]
        by (simp add: base'_def mult_2 power_add)
      then have "of_int (dlmm_loop base' (e div 2) result') \<le> 2 ^ 64 * x ^ (m' + e div 2 * (2 * k))"
        using "1.IH" [OF _ refl refl refl, folded result'_def base'_def, of "2 * k" m'] False r b
          "1.prems"(3) by simp
      moreover have "m' + e div 2 * (2 * k) = m + e * k"
        by (cases "even e") (auto simp: m'_def elim!: evenE oddE)
      ultimately show ?thesis by (simp add: unfold)
    next
      case small: False
      then have "e = 1" using False by linarith
      have "dlmm_loop base' (e div 2) result' = result'"
        using small by (subst dlmm_loop.simps) simp
      then show ?thesis
        using r \<open>e = 1\<close> unfolding unfold by (simp add: m'_def)
    qed
  qed
qed

lemma dlmm_base:
  assumes "0 \<le> binStep"
  shows "2 ^ 64 \<le> quot_big (ONE_Q64 * (10000 + binStep)) 10000"
    and "of_int (quot_big (ONE_Q64 * (10000 + binStep)) 10000) \<le> 2 ^ 64 * (1 + of_int binStep / 10000 :: real)"
proof -
  have eq: "quot_big (ONE_Q64 * (10000 + binStep)) 10000 = 2 ^ 64 * (10000 + binStep) div 10000"
    using assms by (simp add: ONE_Q64_def)
  show "2 ^ 64 \<le> quot_big (ONE_Q64 * (10000 + binStep)) 10000"
    unfolding eq using assms by simp
  have "of_int (2 ^ 64 * (10000 + binStep) div 10000) \<le> (of_int (2 ^ 64 * (10000 + binStep)) / of_int 10000 :: real)"
    by (rule real_of_int_div4)
  then show "of_int (quot_big (ONE_Q64 * (10000 + binStep)) 10000)
      \<le> 2 ^ 64 * (1 + of_int binStep / 10000 :: real)"
    unfolding eq by (simp add: field_simps)
qed

lemma dlmmPriceQ64_nonneg_bounds:
  assumes "0 \<le> binStep" "0 \<le> activeId"
  shows "2 ^ 64 \<le> dlmmPriceQ64 binStep activeId"
    and "of_int (dlmmPriceQ64 binStep activeId)
      \<le> 2 ^ 64 * (1 + of_int binStep / 10000 :: real) ^ nat activeId"
proof -
  let ?b = "quot_big (ONE_Q64 * (10000 + binStep)) 10000"
  have eq: "dlmmPriceQ64 binStep activeId = dlmm_loop ?b (nat activeId) (2 ^ 64)"
    using assms by (simp add: dlmmPriceQ64_def ONE_Q64_def Let_def)
  show "2 ^ 64 \<le> dlmmPriceQ64 binStep activeId"
    unfolding eq using dlmm_base(1) [OF assms(1)] by (intro dlmm_loop_ge) simp_all
  have "0 \<le> ?b" using dlmm_base(1) [OF assms(1)] by simp
  then show "of_int (dlmmPriceQ64 binStep activeId)
      \<le> 2 ^ 64 * (1 + of_int binStep / 10000 :: real) ^ nat activeId"
    unfolding eq
    using dlmm_loop_le [of ?b "2 ^ 64" "1 + of_int binStep / 10000" 1 0 "nat activeId"]
      dlmm_base(2) [OF assms(1)] assms by simp
qed

subsection \<open>Bounds of the floor\<close>

definition fee_ok :: "fee_ratio \<Rightarrow> bool" where
  "fee_ok fee \<longleftrightarrow> 0 < fee_num fee \<and> fee_num fee < fee_den fee"

lemma inputAfterFee_le:
  assumes "fee_ok fee" "0 \<le> amount" "inputAfterFee amount fee = Inr net"
  shows "net \<le> amount"
proof -
  have frac: "amount * n div d \<le> amount" if "0 < d" "0 \<le> n" "n \<le> d" for n d :: int
    using zdiv_mono1 [OF mult_left_mono [OF \<open>n \<le> d\<close> assms(2)] that(1)] that by simp
  show ?thesis
    using assms frac [of "fee_den fee + fee_num fee" "fee_den fee"]
      frac [of "fee_den fee" "fee_den fee - fee_num fee"]
    by (cases "fee_pump fee") (auto simp: inputAfterFee_def fee_ok_def res_simps)
qed

lemma inputAfterFee_mono:
  assumes "fee_ok fee" "0 \<le> a" "a \<le> b" "inputAfterFee a fee = Inr m" "inputAfterFee b fee = Inr n"
  shows "m \<le> n"
proof -
  have frac: "a * k div d \<le> b * k div d" if "0 < d" "0 \<le> k" for k d :: int
    using assms(3) that by (intro zdiv_mono1 mult_right_mono) auto
  show ?thesis
    using assms frac [of "fee_den fee + fee_num fee" "fee_den fee"]
      frac [of "fee_den fee" "fee_den fee - fee_num fee"]
    by (cases "fee_pump fee") (auto simp: inputAfterFee_def fee_ok_def res_simps)
qed

lemma inputAfterFee_returns: "fee_ok fee \<Longrightarrow> \<exists>net. inputAfterFee amount fee = Inr net"
  by (auto simp: inputAfterFee_def fee_ok_def bigint_div_def Let_def)

lemma floorFor_Inr:
  "floorFor kind fee st gated cap a = Inr f \<longleftrightarrow>
    a \<le> cap \<and> \<not> (gated \<and> fs_reserveSol st < MIN_REFERENCE_DEPTH_LAMPORTS) \<and>
    (\<exists>net expected. inputAfterFee a fee = Inr net \<and> 0 < net \<and>
      expectedOutput kind st net = Inr expected \<and> expected \<noteq> 0 \<and>
      f = quot_big (expected * 9900) 10000 \<and> f \<noteq> 0)"
  by (auto simp: floorFor_def res_simps Let_def REFERENCE_TOLERANCE_BPS_def not_less)

lemma tolerance_upper:
  fixes e q r :: int
  assumes "e * 9900 = q * 10000 + r" "r < 10000"
  shows "9900 * (e + 1) \<le> 10000 * (q + 2)"
proof -
  have "9900 * (e + 1) = e * 9900 + 9900" and b: "10000 * (q + 2) = q * 10000 + 20000"
    by simp_all
  then have "9900 * (e + 1) = q * 10000 + r + 9900"
    using assms(1) by simp
  then show ?thesis
    unfolding b using assms(2) by simp
qed

lemma tolerance_bounds:
  fixes e :: int
  shows "10000 * (e * 9900 div 10000) \<le> 9900 * e"
    and "9900 * (e + 1) \<le> 10000 * (e * 9900 div 10000 + 2)"
proof -
  show "10000 * (e * 9900 div 10000) \<le> 9900 * e"
    by linarith
  show "9900 * (e + 1) \<le> 10000 * (e * 9900 div 10000 + 2)"
    by (rule tolerance_upper [OF div_mult_mod_eq [symmetric]], rule pos_mod_bound) simp
qed

lemma cp_div_bounds:
  fixes t n s :: int
  assumes "0 \<le> t" "0 < n" "0 < s"
  shows "0 \<le> t * n div (s + n)" "t * n div (s + n) * (s + n) \<le> t * n"
    and "t * n < (t * n div (s + n) + 1) * (s + n)" "0 < t \<Longrightarrow> t * n div (s + n) < t"
proof -
  have pos: "0 < s + n" using assms by simp
  show "0 \<le> t * n div (s + n)"
    using assms by (simp add: pos_imp_zdiv_nonneg_iff)
  have m: "t * n = t * n div (s + n) * (s + n) + t * n mod (s + n)"
    by (rule div_mult_mod_eq [symmetric])
  show le: "t * n div (s + n) * (s + n) \<le> t * n"
    using m pos_mod_sign [OF pos, of "t * n"] by linarith
  show "t * n < (t * n div (s + n) + 1) * (s + n)"
    using m pos_mod_bound [OF pos, of "t * n"] by (simp only: distrib_right mult_1)
  assume "0 < t"
  then have "t * n < t * (s + n)" using assms by simp
  then have "t * n div (s + n) * (s + n) < t * (s + n)"
    by (rule le_less_trans [OF le])
  then show "t * n div (s + n) < t"
    using pos by (simp only: mult_less_cancel_right_pos)
qed

lemma cp_div_mono:
  fixes t m n s :: int
  assumes "0 \<le> t" "0 < m" "m \<le> n" "0 < s"
  shows "t * m div (s + m) \<le> t * n div (s + n)"
proof -
  let ?e = "t * m div (s + m)"
  have "?e * s \<le> (t - ?e) * m"
    using cp_div_bounds(2) [of t m s] assms by (simp add: algebra_simps)
  also have "\<dots> \<le> (t - ?e) * n"
  proof (rule mult_left_mono)
    show "0 \<le> t - ?e"
      using cp_div_bounds(4) [of t m s] assms by (cases "t = 0") auto
  qed (use assms in simp)
  finally have "?e * (s + n) \<le> t * n"
    by (simp add: algebra_simps)
  then show ?thesis
    using zdiv_mono1 [of "?e * (s + n)" "t * n" "s + n"] assms by simp
qed

text \<open>The facts about a constant-product floor, before they are weakened into properties.\<close>

lemma cp_floor:
  assumes "kind = CP \<or> kind = CURVE"
    and "0 < fs_reserveToken st" "0 < fs_reserveSol st"
    and "floorFor kind fee st gated cap a = Inr f"
  obtains net where "inputAfterFee a fee = Inr net" "0 < net"
    "f = fs_reserveToken st * net div (fs_reserveSol st + net) * 9900 div 10000" "0 < f"
proof -
  obtain net e where *: "inputAfterFee a fee = Inr net" "0 < net"
      "expectedOutput kind st net = Inr e" "f = quot_big (e * 9900) 10000" "f \<noteq> 0"
    using assms(4) by (auto simp: floorFor_Inr)
  then have e: "e = fs_reserveToken st * net div (fs_reserveSol st + net)"
    using assms by (auto simp: expectedOutput_def res_simps)
  then have "0 \<le> e"
    using cp_div_bounds(1) [of "fs_reserveToken st" net "fs_reserveSol st"] assms * by simp
  then show ?thesis
    using * e that [of net] by (simp add: order_less_le pos_imp_zdiv_nonneg_iff)
qed

subsection \<open>Properties\<close>

text \<open>
  C5: The floor of a constant-product reference (a Raydium CP, Raydium v4 or PumpSwap pool, or
  a Pump curve) is positive, below the pool's token reserve, and is 99% of the constant-product
  output of the input after fees up to the two roundings: never above it, and less than two
  atoms below it. So a leg that meets its floor lost at most the tolerance and two atoms.
\<close>

theorem cp_floor_bounds:
  assumes "kind = CP \<or> kind = CURVE" "fee_ok fee"
    and "0 < fs_reserveToken st" "0 < fs_reserveSol st" "0 \<le> a"
    and "floorFor kind fee st gated cap a = Inr f"
  shows "\<exists>net. inputAfterFee a fee = Inr net \<and> 0 < net \<and> net \<le> a \<and>
    0 < f \<and> f < fs_reserveToken st \<and>
    10000 * f * (fs_reserveSol st + net) \<le> 9900 * (fs_reserveToken st * net) \<and>
    9900 * (fs_reserveToken st * net) < 10000 * (f + 2) * (fs_reserveSol st + net)"
proof -
  obtain net where net: "inputAfterFee a fee = Inr net" "0 < net" "0 < f"
    and f: "f = fs_reserveToken st * net div (fs_reserveSol st + net) * 9900 div 10000"
    using cp_floor [OF assms(1,3,4,6)] by blast
  let ?e = "fs_reserveToken st * net div (fs_reserveSol st + net)"
  let ?d = "fs_reserveSol st + net"
  note e = cp_div_bounds [of "fs_reserveToken st" net "fs_reserveSol st"]
  have d: "0 < ?d" using assms net by simp
  have lo: "10000 * f \<le> 9900 * ?e" and hi: "9900 * (?e + 1) \<le> 10000 * (f + 2)"
    unfolding f by (rule tolerance_bounds)+
  have "f \<le> ?e" using lo e(1) net assms by linarith
  then have "f < fs_reserveToken st"
    using e(4) net assms by linarith
  moreover have "10000 * f * ?d \<le> 9900 * (?e * ?d)"
    using mult_right_mono [OF lo, of ?d] d by (simp only: mult.assoc less_imp_le)
  then have "10000 * f * ?d \<le> 9900 * (fs_reserveToken st * net)"
    using e(2) net assms by linarith
  moreover have "9900 * ((?e + 1) * ?d) \<le> 10000 * (f + 2) * ?d"
    using mult_right_mono [OF hi, of ?d] d by (simp only: mult.assoc less_imp_le)
  then have "9900 * (fs_reserveToken st * net) < 10000 * (f + 2) * ?d"
    using e(3) net assms by linarith
  ultimately show ?thesis
    using net inputAfterFee_le [OF assms(2,5) net(1)] by blast
qed

text \<open>A pool of one million tokens against 100 SOL, one SOL in, the Raydium fee of 25 bps.\<close>

definition example_fee :: fee_ratio where
  "example_fee = \<lparr>fee_num = 25, fee_den = 10000, fee_pump = False\<rparr>"

definition example_state :: floor_state where
  "example_state = \<lparr>fs_reserveToken = 1000000000000, fs_reserveSol = 100000000000, fs_sq = None,
    fs_solIs0 = None, fs_binStep = None, fs_activeId = None, fs_solIsX = None\<rparr>"

lemma example_floor:
  "fee_ok example_fee"
  "floorFor CP example_fee example_state True 250000000 1000000 = Inr 9875151"
  "floorFor CP example_fee example_state True 250000000 2000000 = Inr 19750105"
  by (simp_all add: fee_ok_def example_fee_def example_state_def floorFor_def inputAfterFee_def
      expectedOutput_def bigint_div_def MIN_REFERENCE_DEPTH_LAMPORTS_def
      REFERENCE_TOLERANCE_BPS_def)

lemma cp_floor_bounds_witness:
  "\<exists>net. inputAfterFee 1000000 example_fee = Inr net \<and> 0 < net \<and> net \<le> 1000000 \<and>
    0 < (9875151 :: int) \<and> (9875151 :: int) < fs_reserveToken example_state \<and>
    10000 * 9875151 * (fs_reserveSol example_state + net)
      \<le> 9900 * (fs_reserveToken example_state * net) \<and>
    9900 * (fs_reserveToken example_state * net)
      < 10000 * (9875151 + 2) * (fs_reserveSol example_state + net)"
  by (rule cp_floor_bounds [of CP example_fee example_state 1000000 True 250000000])
    (simp_all add: example_floor, simp_all add: example_state_def)

text \<open>
  A larger input never gets a smaller floor from the same constant-product reference in the
  same state.
\<close>

theorem cp_floor_mono:
  assumes "kind = CP \<or> kind = CURVE" "fee_ok fee"
    and "0 < fs_reserveToken st" "0 < fs_reserveSol st" "0 \<le> a" "a \<le> b"
    and "floorFor kind fee st gated cap a = Inr f" "floorFor kind fee st gated cap b = Inr g"
  shows "f \<le> g"
proof -
  obtain m where m: "inputAfterFee a fee = Inr m" "0 < m"
    and f: "f = fs_reserveToken st * m div (fs_reserveSol st + m) * 9900 div 10000"
    using cp_floor [OF assms(1,3,4,7)] by blast
  obtain n where n: "inputAfterFee b fee = Inr n" "0 < n"
    and g: "g = fs_reserveToken st * n div (fs_reserveSol st + n) * 9900 div 10000"
    using cp_floor [OF assms(1,3,4,8)] by blast
  have "m \<le> n"
    by (rule inputAfterFee_mono [OF assms(2,5,6) m(1) n(1)])
  then have "fs_reserveToken st * m div (fs_reserveSol st + m)
      \<le> fs_reserveToken st * n div (fs_reserveSol st + n)"
    using m assms by (intro cp_div_mono) auto
  then show ?thesis
    unfolding f g by (intro zdiv_mono1 mult_right_mono) auto
qed

lemma cp_floor_mono_witness: "(9875151 :: int) \<le> 19750105"
  by (rule cp_floor_mono [of CP example_fee example_state 1000000 2000000 True 250000000])
    (simp_all add: example_floor, simp_all add: example_state_def)

text \<open>
  The refusals of a price floor come in the program's order: an input above the cap is
  refused with REFERENCE_CAP_EXCEEDED (6040) whatever the depth, and only an input within the
  cap on a depth-gated reference below 50 SOL is refused with REFERENCE_TOO_SHALLOW (6041), so
  a Pump venue, which is not gated, never is.
\<close>

theorem floor_refusal_order:
  "(floorFor kind fee st gated cap a = reject ''REFERENCE_CAP_EXCEEDED'' \<longleftrightarrow> cap < a) \<and>
   (floorFor kind fee st gated cap a = reject ''REFERENCE_TOO_SHALLOW'' \<longleftrightarrow>
     a \<le> cap \<and> gated \<and> fs_reserveSol st < 50000000000) \<and>
   floorFor kind fee st False cap a \<noteq> reject ''REFERENCE_TOO_SHALLOW''"
proof -
  have "expectedOutput kind st net \<noteq> reject c" for net c
    by (cases kind)
      (auto simp: expectedOutput_def given_def bigint_div_def bindR_Inl_iff Let_def
        split: option.splits if_splits)
  then show ?thesis
    by (auto simp: floorFor_def bindR_Inl_iff inputAfterFee_def bigint_div_def Let_def
        MIN_REFERENCE_DEPTH_LAMPORTS_def split: if_splits)
qed

text \<open>
  The Q64 price of a Meteora bin truncates downward only: for a non-negative bin id it lies
  between 1 and the exact power (1 + binStep/10000)^activeId, and for a negative id it is the
  truncated reciprocal of the price of the opposite bin.
\<close>

theorem dlmm_price_bounds:
  assumes "0 \<le> binStep" "0 < n"
  shows "2 ^ 64 \<le> dlmmPriceQ64 binStep n \<and>
    of_int (dlmmPriceQ64 binStep n) \<le> 2 ^ 64 * (1 + of_int binStep / 10000 :: real) ^ nat n \<and>
    dlmmPriceQ64 binStep (- n) * dlmmPriceQ64 binStep n \<le> 2 ^ 128 \<and>
    2 ^ 128 < (dlmmPriceQ64 binStep (- n) + 1) * dlmmPriceQ64 binStep n"
proof (intro conjI)
  let ?p = "dlmmPriceQ64 binStep n" and ?q = "dlmmPriceQ64 binStep (- n)"
  show lo: "2 ^ 64 \<le> ?p"
    using dlmmPriceQ64_nonneg_bounds(1) assms by simp
  show "of_int ?p \<le> 2 ^ 64 * (1 + of_int binStep / 10000 :: real) ^ nat n"
    using dlmmPriceQ64_nonneg_bounds(2) assms by simp
  have q: "?q = 2 ^ 128 div ?p"
    using assms lo by (simp add: dlmmPriceQ64_def Let_def ONE_Q64_def)
  have pos: "0 < ?p" using lo by simp
  have m: "2 ^ 128 = ?q * ?p + 2 ^ 128 mod ?p"
    unfolding q by (rule div_mult_mod_eq [symmetric])
  show "?q * ?p \<le> 2 ^ 128"
    using m pos_mod_sign [OF pos, of "2 ^ 128"] by linarith
  have "(?q + 1) * ?p = ?q * ?p + ?p"
    by (simp only: distrib_right mult_1)
  then show "2 ^ 128 < (?q + 1) * ?p"
    using m pos_mod_bound [OF pos, of "2 ^ 128"] by linarith
qed

lemma dlmm_price_bounds_witness:
  "2 ^ 64 \<le> dlmmPriceQ64 25 120 \<and>
    of_int (dlmmPriceQ64 25 120) \<le> 2 ^ 64 * (1 + of_int 25 / 10000 :: real) ^ nat 120 \<and>
    dlmmPriceQ64 25 (- 120) * dlmmPriceQ64 25 120 \<le> 2 ^ 128 \<and>
    2 ^ 128 < (dlmmPriceQ64 25 (- 120) + 1) * dlmmPriceQ64 25 120"
  by (rule dlmm_price_bounds) simp_all

end
