(* ===== verification/Reference.thy ===== *)
theory Reference
  imports Floor
begin

text \<open>
  The price references of \<open>quote-service/reference.ts\<close>: which pool prices a leg and
  which fee it charges (\<open>Floor\<close> holds the arithmetic). All reads of one resolution go
  to one \<open>account_reader\<close>. The lemmas say what a resolved reference guarantees.
\<close>

subsection \<open>Constants and venues\<close>

definition WSOL_ADDRESS :: string where
  "WSOL_ADDRESS = ''So11111111111111111111111111111111111111112''"

definition PUMP_FUN_ADDRESS :: string where
  "PUMP_FUN_ADDRESS = ''6EF8rrecthR5Dkzon8Nwu78hRvfCKubJ14M5uBEwF6P''"

definition PUMP_SWAP_ADDRESS :: string where
  "PUMP_SWAP_ADDRESS = ''pAMMBay6oceH9fJKBRHGP5D4bD4sWpmSwMn52FMfXEA''"

definition PUMP_FEE_PROGRAM :: string where
  "PUMP_FEE_PROGRAM = ''pfeeUxB6jkeY1Hxd7CsFCAjcbHA9rWtchMGdZ6VojVZ''"

definition TOKEN_PROGRAMS :: "string list" where
  "TOKEN_PROGRAMS =
    [''TokenkegQfeZyiNwAJbNbGKPFXCWuBvf9Ss623VQ5DA'',
     ''TokenzQdBNbLqP5VEhdkAS6EPFLC1PHnBqCXEpPxuEb'']"

definition ZERO_REFERENCE_SEED :: "byte list" where
  "ZERO_REFERENCE_SEED = replicate 32 0"

record venue_spec =
  v_name :: string
  v_kind :: floor_kind
  v_va :: nat
  v_vb :: nat
  v_m0 :: "nat option"
  v_m1 :: "nat option"
  v_sq :: "nat option"
  v_aid :: "nat option"
  v_bs :: "nat option"
  v_extraQuote :: "nat option"

definition VENUES :: "(string \<times> venue_spec) list" where
  "VENUES =
    [(''675kPX9MHTjS2zt1qfr1NYHuzeLXfQM9H24wFSUt1Mp8'',
      \<lparr>v_name = ''Raydium v4'', v_kind = CP, v_va = 336, v_vb = 368, v_m0 = None, v_m1 = None,
       v_sq = None, v_aid = None, v_bs = None, v_extraQuote = None\<rparr>),
     (''CPMMoo8L3F4NbTegBCKVNunggL7H1ZpdTHKxQB5qKP1C'',
      \<lparr>v_name = ''Raydium CP'', v_kind = CP, v_va = 72, v_vb = 104, v_m0 = None, v_m1 = None,
       v_sq = None, v_aid = None, v_bs = None, v_extraQuote = None\<rparr>),
     (PUMP_SWAP_ADDRESS,
      \<lparr>v_name = ''PumpSwap'', v_kind = CP, v_va = 139, v_vb = 171, v_m0 = None, v_m1 = None,
       v_sq = None, v_aid = None, v_bs = None, v_extraQuote = Some 245\<rparr>),
     (''CAMMCzo5YL8w4VFF8KVHrK22GGUsp5VTaW7grrKgrWqK'',
      \<lparr>v_name = ''Raydium CLMM'', v_kind = CLMM, v_va = 137, v_vb = 169, v_m0 = Some 73,
       v_m1 = Some 105, v_sq = Some 253, v_aid = None, v_bs = None, v_extraQuote = None\<rparr>),
     (''LBUZKhRxPF3XUpBCjp4YzTKgLccjZhTSDM9YuVaPwxo'',
      \<lparr>v_name = ''Meteora DLMM'', v_kind = DLMM, v_va = 152, v_vb = 184, v_m0 = Some 88,
       v_m1 = Some 120, v_sq = None, v_aid = Some 76, v_bs = Some 80, v_extraQuote = None\<rparr>)]"

definition PUMP_FEE_FALLBACK :: fee_ratio where
  "PUMP_FEE_FALLBACK = \<lparr>fee_num = 1, fee_den = 10000, fee_pump = True\<rparr>"

definition PUMP_FEE_PLAUSIBLE_MAX :: int where
  "PUMP_FEE_PLAUSIBLE_MAX = 1000"

subsection \<open>Required accounts\<close>

text \<open>\<open>Promise\<close>-free form of \<open>reader.getAccountData(key)\<close> that must find an account.\<close>

definition require_account ::
  "account_reader \<Rightarrow> pubkey \<Rightarrow> (account_data \<Rightarrow> bool) \<Rightarrow> account_data res" where
  "require_account reader k ok = bindR (reader k) (\<lambda>a.
    case a of None \<Rightarrow> reject ''REFERENCE_INVALID''
    | Some acc \<Rightarrow> if ok acc then Inr acc else reject ''REFERENCE_INVALID'')"

lemma require_account_Inr [res_simps]:
  "require_account reader k ok = Inr acc \<longleftrightarrow> reader k = Inr (Some acc) \<and> ok acc"
  by (auto simp: require_account_def bindR_Inr_iff split: option.splits if_splits)

subsection \<open>The tiered Pump fee\<close>

text \<open>The tier loop: the last tier at or below the market cap wins.\<close>

fun tier_loop ::
  "byte list \<Rightarrow> int \<Rightarrow> nat \<Rightarrow> nat \<Rightarrow> int \<times> int \<times> int \<Rightarrow> (int \<times> int \<times> int) res" where
  "tier_loop data marketCap 0 index fees = Inr fees"
| "tier_loop data marketCap (Suc left) index fees =
    (let pos = 69 + 40 * index in
     bindR (u128 data pos) (\<lambda>threshold.
       if threshold > marketCap then Inr fees
       else bindR (u64 data (pos + 16)) (\<lambda>lp.
            bindR (u64 data (pos + 24)) (\<lambda>protocol.
            bindR (u64 data (pos + 32)) (\<lambda>creator.
              tier_loop data marketCap left (index + 1) (lp, protocol, creator))))))"

text \<open>
  The body of the \<open>try\<close>: \<open>Inr None\<close> is the fallback, and a throw falls through to it.
\<close>

definition parse_fee_config ::
  "byte list \<Rightarrow> int \<Rightarrow> bool \<Rightarrow> bool \<Rightarrow> fee_ratio option res" where
  "parse_fee_config data marketCap includeLp includeCreator =
    (if length data < 69 then Inr None
     else bindR (readLE 4 data 65) (\<lambda>count.
       if int (length data) < 69 + count * 40 then Inr None
       else bindR (u64 data 41) (\<lambda>lp.
            bindR (u64 data 49) (\<lambda>protocol.
            bindR (u64 data 57) (\<lambda>creator.
            bindR (tier_loop data marketCap (nat count) 0 (lp, protocol, creator))
              (\<lambda>(lp, protocol, creator).
                (let tot = (if includeLp then lp else 0) + protocol
                           + (if includeCreator then creator else 0)
                 in if tot \<ge> 1 \<and> tot \<le> PUMP_FEE_PLAUSIBLE_MAX
                    then Inr (Some \<lparr>fee_num = tot, fee_den = 10000, fee_pump = True\<rparr>)
                    else Inr None)))))))"

definition pumpFeeConfig ::
  "web3 \<Rightarrow> account_reader \<Rightarrow> string \<Rightarrow> int \<Rightarrow> bool \<Rightarrow> bool \<Rightarrow> (fee_ratio \<times> pubkey) res" where
  "pumpFeeConfig w reader venueProgram marketCap includeLp includeCreator =
    bindR (findProgramAddress w
        [map of_char ''fee_config'', pubkeyBytes w (PublicKey venueProgram)]
        (PublicKey PUMP_FEE_PROGRAM)) (\<lambda>(feeSource, _).
      bindR (reader feeSource) (\<lambda>account.
        case account of
          None \<Rightarrow> Inr (PUMP_FEE_FALLBACK, feeSource)
        | Some acc \<Rightarrow>
            if toBase58 (a_owner acc) \<noteq> PUMP_FEE_PROGRAM then Inr (PUMP_FEE_FALLBACK, feeSource)
            else (case parse_fee_config (a_data acc) marketCap includeLp includeCreator of
              Inr (Some fee) \<Rightarrow> Inr (fee, feeSource)
            | _ \<Rightarrow> Inr (PUMP_FEE_FALLBACK, feeSource))))"

subsection \<open>Resolved references\<close>

text \<open>
  \<open>rr_feeBpsHundredths\<close> is the integer that \<open>feeToBps\<close> divides by 100 for display.
\<close>

record resolved_reference =
  rr_pool :: pubkey
  rr_vaultA :: pubkey
  rr_vaultB :: pubkey
  rr_feeSource :: pubkey
  rr_seed :: "byte list"
  rr_venue :: string
  rr_depthLamports :: int
  rr_feeBpsHundredths :: int
  rr_capLamports :: int
  rr_floorFor :: "int \<Rightarrow> int res"

definition feeToBpsHundredths :: "fee_ratio \<Rightarrow> int res" where
  "feeToBpsHundredths fee = bigint_div (fee_num fee * 1000000) (fee_den fee)"

definition bondingCurve :: "web3 \<Rightarrow> pubkey \<Rightarrow> pubkey res" where
  "bondingCurve w targetMint = bindR
    (findProgramAddress w [map of_char ''bonding-curve'', pubkeyBytes w targetMint]
      (PublicKey PUMP_FUN_ADDRESS)) (\<lambda>(curve, _). Inr curve)"

definition resolveCurve :: "web3 \<Rightarrow> account_reader \<Rightarrow> pubkey \<Rightarrow> resolved_reference res" where
  "resolveCurve w reader targetMint =
    bindR (bondingCurve w targetMint) (\<lambda>curve.
    bindR (require_account reader curve (\<lambda>account.
        toBase58 (a_owner account) = PUMP_FUN_ADDRESS \<and> 82 \<le> length (a_data account))) (\<lambda>account.
    (let data = a_data account in
     if nth_opt data 48 = Some 1 then reject ''REFERENCE_INVALID''
     else bindR (u64 data 8) (\<lambda>reserveToken.
     bindR (u64 data 16) (\<lambda>reserveSol.
     if reserveToken = 0 \<or> reserveSol = 0 then reject ''REFERENCE_INVALID''
     else bindR (require_account reader targetMint (\<lambda>mint. 44 \<le> length (a_data mint))) (\<lambda>mintAccount.
     bindR (if nth_opt data 81 = Some 0 then Inr 1000000000000000
            else u64 (a_data mintAccount) 36) (\<lambda>supplyForCap.
     bindR (bigint_div (reserveSol * supplyForCap) reserveToken) (\<lambda>marketCap.
     (let creatorNonDefault = (subarray 49 81 data \<noteq> replicate 32 0) in
      bindR (pumpFeeConfig w reader PUMP_FUN_ADDRESS marketCap False creatorNonDefault)
        (\<lambda>(fee, feeSource).
      bindR (makeFloor CURVE fee
          \<lparr>fs_reserveToken = reserveToken, fs_reserveSol = reserveSol, fs_sq = None,
           fs_solIs0 = None, fs_binStep = None, fs_activeId = None, fs_solIsX = None\<rparr> False)
        (\<lambda>(cap, floorFn).
      bindR (feeToBpsHundredths fee) (\<lambda>feeBps.
        Inr \<lparr>rr_pool = curve, rr_vaultA = curve, rr_vaultB = curve, rr_feeSource = feeSource,
             rr_seed = ZERO_REFERENCE_SEED, rr_venue = ''Pump curve'',
             rr_depthLamports = reserveSol, rr_feeBpsHundredths = feeBps,
             rr_capLamports = cap, rr_floorFor = floorFn\<rparr>))))))))))))"

subsection \<open>Pools\<close>

record pool_vault =
  pv_key :: pubkey
  pv_owner :: string
  pv_mint :: string
  pv_authority :: "byte list"
  pv_amount :: int

definition read_vault :: "web3 \<Rightarrow> pubkey \<Rightarrow> account_data \<Rightarrow> pool_vault res" where
  "read_vault w key info =
    bindR (readPk w (a_data info) 0) (\<lambda>mint.
    bindR (u64 (a_data info) 64) (\<lambda>amount.
      Inr \<lparr>pv_key = key, pv_owner = toBase58 (a_owner info), pv_mint = toBase58 mint,
           pv_authority = subarray 32 64 (a_data info), pv_amount = amount\<rparr>))"

text \<open>
  The two vault reads and the checks on them: the token side, then the WSOL side.
\<close>

definition pool_vaults ::
  "web3 \<Rightarrow> account_reader \<Rightarrow> pubkey \<Rightarrow> venue_spec \<Rightarrow> byte list \<Rightarrow>
    (pool_vault \<times> pool_vault) res" where
  "pool_vaults w reader targetMint venue data =
    (if length data < max (v_va venue) (v_vb venue) + 32 then reject ''REFERENCE_INVALID''
     else bindR (readPk w data (v_va venue)) (\<lambda>vaultAddressA.
     bindR (readPk w data (v_vb venue)) (\<lambda>vaultAddressB.
     bindR (reader vaultAddressA) (\<lambda>infoA.
     bindR (reader vaultAddressB) (\<lambda>infoB.
       case (infoA, infoB) of
         (Some vaultInfoA, Some vaultInfoB) \<Rightarrow>
           bindR (read_vault w vaultAddressA vaultInfoA) (\<lambda>vaultA.
           bindR (read_vault w vaultAddressB vaultInfoB) (\<lambda>vaultB.
             if \<not> list_all (\<lambda>vault. pv_owner vault \<in> set TOKEN_PROGRAMS) [vaultA, vaultB]
             then reject ''REFERENCE_INVALID''
             else (case (List.find (\<lambda>vault. pv_mint vault = toBase58 targetMint) [vaultA, vaultB],
                         List.find (\<lambda>vault. pv_mint vault = WSOL_ADDRESS) [vaultA, vaultB]) of
                 (Some tokenVault, Some solVault) \<Rightarrow>
                   if pv_amount tokenVault = 0 \<or> pv_amount solVault = 0
                   then reject ''REFERENCE_INVALID''
                   else if v_kind venue = CP \<and> pv_authority tokenVault \<noteq> pv_authority solVault
                   then reject ''REFERENCE_INVALID''
                   else Inr (tokenVault, solVault)
               | _ \<Rightarrow> reject ''REFERENCE_INVALID'')))
       | _ \<Rightarrow> reject ''REFERENCE_INVALID'')))))"

definition CLMM_CONFIG_DISCRIMINATOR :: "byte list" where
  "CLMM_CONFIG_DISCRIMINATOR = [218, 244, 33, 104, 203, 203, 43, 111]"

text \<open>
  The fee of the pool by venue, with its source account and the depth the program prices from
  (only PumpSwap adds its virtual quote to the vault balance).
\<close>

definition pool_fee ::
  "web3 \<Rightarrow> account_reader \<Rightarrow> pubkey \<Rightarrow> pubkey \<Rightarrow> string \<Rightarrow> venue_spec \<Rightarrow> byte list \<Rightarrow>
    pool_vault \<Rightarrow> pool_vault \<Rightarrow> (fee_ratio \<times> pubkey \<times> int) res" where
  "pool_fee w reader targetMint pool owner venue data tokenVault solVault =
    (let depth = pv_amount solVault in
     if v_name venue = ''Raydium v4'' then
       (if length data < 160 then reject ''REFERENCE_INVALID''
        else bindR (u64 data 144) (\<lambda>num. bindR (u64 data 152) (\<lambda>den.
          Inr (\<lparr>fee_num = num, fee_den = den, fee_pump = False\<rparr>, pool, depth))))
     else if v_name venue = ''Raydium CP'' then
       bindR (readPk w data 8) (\<lambda>feeSource.
       bindR (require_account reader feeSource (\<lambda>config.
           toBase58 (a_owner config) = owner \<and> 20 \<le> length (a_data config))) (\<lambda>config.
       bindR (u64 (a_data config) 12) (\<lambda>num.
         Inr (\<lparr>fee_num = num, fee_den = 1000000, fee_pump = False\<rparr>, feeSource, depth))))
     else if v_name venue = ''Raydium CLMM'' then
       bindR (readPk w data 9) (\<lambda>feeSource.
       bindR (require_account reader feeSource (\<lambda>config.
           toBase58 (a_owner config) = owner \<and> 51 \<le> length (a_data config))) (\<lambda>config.
         if subarray 0 8 (a_data config) \<noteq> CLMM_CONFIG_DISCRIMINATOR
         then reject ''REFERENCE_INVALID''
         else bindR (readLE 4 (a_data config) 47) (\<lambda>num.
           Inr (\<lparr>fee_num = num, fee_den = 1000000, fee_pump = False\<rparr>, feeSource, depth))))
     else if v_name venue = ''Meteora DLMM'' then
       (if length data < 35 then reject ''REFERENCE_INVALID''
        else bindR (readLE 2 data 8) (\<lambda>baseFactor.
          bindR (given (v_bs venue)) (\<lambda>bs.
          bindR (readLE 1 data 34) (\<lambda>power.
          bindR (readLE 2 data bs) (\<lambda>binStep.
            Inr (\<lparr>fee_num = baseFactor * binStep * 10 * 10 ^ nat power,
                  fee_den = 1000000000, fee_pump = False\<rparr>, pool, depth))))))
     else if v_name venue = ''PumpSwap'' then
       (if length data < 261 then reject ''REFERENCE_INVALID''
        else bindR (given (v_extraQuote venue)) (\<lambda>extraQuote.
          bindR (u128 data extraQuote) (\<lambda>virtualQuote.
          if virtualQuote \<ge> 2 ^ 127 then reject ''REFERENCE_INVALID''
          else (let depth' = depth + virtualQuote in
            bindR (require_account reader targetMint (\<lambda>mint. 44 \<le> length (a_data mint)))
              (\<lambda>mintAccount.
            bindR (u64 (a_data mintAccount) 36) (\<lambda>supply.
            bindR (bigint_div (depth' * supply) (pv_amount tokenVault)) (\<lambda>marketCap.
            bindR (pumpFeeConfig w reader PUMP_SWAP_ADDRESS marketCap True
                (subarray 211 243 data \<noteq> replicate 32 0)) (\<lambda>(fee, feeSource).
              Inr (fee, feeSource, depth')))))))))
     else reject ''REFERENCE_INVALID'')"

text \<open>The venue-specific pricing state.\<close>

definition pool_state ::
  "web3 \<Rightarrow> venue_spec \<Rightarrow> byte list \<Rightarrow> int \<Rightarrow> int \<Rightarrow> floor_state res" where
  "pool_state w venue data reserveToken depth =
    (let state = \<lparr>fs_reserveToken = reserveToken, fs_reserveSol = depth, fs_sq = None,
           fs_solIs0 = None, fs_binStep = None, fs_activeId = None, fs_solIsX = None\<rparr> in
     if v_kind venue = CLMM then
       bindR (given (v_sq venue)) (\<lambda>sqAt.
       if length data < sqAt + 16 then reject ''REFERENCE_INVALID''
       else bindR (u128 data sqAt) (\<lambda>sq.
         if sq = 0 then reject ''REFERENCE_INVALID''
         else bindR (given (v_m0 venue)) (\<lambda>m0.
           bindR (readPk w data m0) (\<lambda>mint0.
             Inr (state\<lparr>fs_sq := Some sq, fs_solIs0 := Some (toBase58 mint0 = WSOL_ADDRESS)\<rparr>)))))
     else if v_kind venue = DLMM then
       bindR (given (v_aid venue)) (\<lambda>aid.
       bindR (readInt32LE data aid) (\<lambda>activeId.
       bindR (given (v_bs venue)) (\<lambda>bs.
       bindR (readLE 2 data bs) (\<lambda>binStep.
         if binStep = 0 then reject ''REFERENCE_INVALID''
         else bindR (given (v_m0 venue)) (\<lambda>m0.
           bindR (readPk w data m0) (\<lambda>mint0.
             Inr (state\<lparr>fs_activeId := Some activeId, fs_binStep := Some binStep,
               fs_solIsX := Some (toBase58 mint0 = WSOL_ADDRESS)\<rparr>)))))))
     else Inr state)"

definition resolvePool ::
  "web3 \<Rightarrow> account_reader \<Rightarrow> pubkey \<Rightarrow> pubkey \<Rightarrow> resolved_reference res" where
  "resolvePool w reader targetMint pool =
    bindR (require_account reader pool (\<lambda>_. True)) (\<lambda>account.
    (let owner = toBase58 (a_owner account); data = a_data account in
     case map_of VENUES owner of
       None \<Rightarrow> reject ''REFERENCE_INVALID''
     | Some venue \<Rightarrow>
         bindR (pool_vaults w reader targetMint venue data) (\<lambda>(tokenVault, solVault).
         bindR (pool_fee w reader targetMint pool owner venue data tokenVault solVault)
           (\<lambda>(fee, feeSource, depth).
         if fee_num fee = 0 \<or> fee_den fee = 0 \<or> fee_num fee \<ge> fee_den fee
         then reject ''REFERENCE_INVALID''
         else bindR (pool_state w venue data (pv_amount tokenVault) depth) (\<lambda>state.
           (let pumpVenue = (owner = PUMP_SWAP_ADDRESS) in
            bindR (makeFloor (v_kind venue) fee state (\<not> pumpVenue)) (\<lambda>(cap, floorFn).
            bindR (feeToBpsHundredths fee) (\<lambda>feeBps.
              Inr \<lparr>rr_pool = pool, rr_vaultA = pv_key tokenVault, rr_vaultB = pv_key solVault,
                   rr_feeSource = feeSource,
                   rr_seed = (if pumpVenue then ZERO_REFERENCE_SEED else pubkeyBytes w pool),
                   rr_venue = v_name venue, rr_depthLamports = depth,
                   rr_feeBpsHundredths = feeBps, rr_capLamports = cap,
                   rr_floorFor = floorFn\<rparr>))))))))"

definition canonicalPumpSwapPool :: "web3 \<Rightarrow> pubkey \<Rightarrow> pubkey res" where
  "canonicalPumpSwapPool w targetMint =
    bindR (findProgramAddress w [map of_char ''pool-authority'', pubkeyBytes w targetMint]
        (PublicKey PUMP_FUN_ADDRESS)) (\<lambda>(authority, _).
    bindR (findProgramAddress w
        [map of_char ''pool'', [0, 0], pubkeyBytes w authority, pubkeyBytes w targetMint,
         pubkeyBytes w (PublicKey WSOL_ADDRESS)]
        (PublicKey PUMP_SWAP_ADDRESS)) (\<lambda>(pool, _). Inr pool))"

definition graduated :: "account_data option \<Rightarrow> bool" where
  "graduated account = (case account of None \<Rightarrow> False
    | Some acc \<Rightarrow> toBase58 (a_owner acc) = PUMP_FUN_ADDRESS \<and> 82 \<le> length (a_data acc)
        \<and> nth_opt (a_data acc) 48 = Some 1)"

definition resolvePumpVenue :: "web3 \<Rightarrow> account_reader \<Rightarrow> pubkey \<Rightarrow> resolved_reference res" where
  "resolvePumpVenue w reader targetMint =
    bindR (bondingCurve w targetMint) (\<lambda>curve.
    bindR (reader curve) (\<lambda>account.
      if graduated account
      then bindR (canonicalPumpSwapPool w targetMint) (\<lambda>pool.
           bindR (reader pool) (\<lambda>poolAccount.
             if poolAccount = None then reject ''REFERENCE_MIGRATING''
             else resolvePool w reader targetMint pool))
      else resolveCurve w reader targetMint))"

definition resolveReference ::
  "web3 \<Rightarrow> account_reader \<Rightarrow> pubkey \<Rightarrow> pubkey option \<Rightarrow> resolved_reference res" where
  "resolveReference w reader targetMint reference =
    (case reference of
      None \<Rightarrow> resolvePumpVenue w reader targetMint
    | Some r \<Rightarrow>
        bindR (require_account reader r (\<lambda>_. True)) (\<lambda>account.
          if toBase58 (a_owner account) = PUMP_FUN_ADDRESS
          then bindR (resolveCurve w reader targetMint) (\<lambda>resolved.
            if rr_pool resolved \<noteq> r then reject ''REFERENCE_INVALID'' else Inr resolved)
          else resolvePool w reader targetMint r))"

subsection \<open>The fee tiers\<close>

text \<open>
  The loop stops after the leading run of \<open>k\<close> tiers whose threshold is within the market
  cap, with the fees of the last of them.
\<close>

definition tier_fees :: "byte list \<Rightarrow> nat \<Rightarrow> (int \<times> int \<times> int) res" where
  "tier_fees data i = bindR (u64 data (69 + 40 * i + 16)) (\<lambda>lp.
    bindR (u64 data (69 + 40 * i + 24)) (\<lambda>protocol.
    bindR (u64 data (69 + 40 * i + 32)) (\<lambda>creator. Inr (lp, protocol, creator))))"

lemma tier_loop_unfold:
  "tier_loop data cap (Suc left) i fees = bindR (u128 data (69 + 40 * i)) (\<lambda>threshold.
    if threshold > cap then Inr fees
    else bindR (tier_fees data i) (tier_loop data cap left (i + 1)))"
  by (simp add: tier_fees_def Let_def bindR_assoc cong: if_cong)

lemma tier_loop_spec:
  assumes "tier_loop data cap n i fees = Inr r"
  shows "\<exists>k \<le> n. (\<forall>j < k. \<exists>t. u128 data (69 + 40 * (i + j)) = Inr t \<and> t \<le> cap)
    \<and> (k < n \<longrightarrow> (\<exists>t. u128 data (69 + 40 * (i + k)) = Inr t \<and> cap < t))
    \<and> Inr r = (if k = 0 then Inr fees else tier_fees data (i + k - 1))"
  using assms
proof (induction n arbitrary: i fees)
  case 0
  then show ?case by simp
next
  case (Suc n)
  then obtain t where t: "u128 data (69 + 40 * i) = Inr t"
    by (auto simp: tier_loop_unfold bindR_Inr_iff simp del: tier_loop.simps)
  show ?case
  proof (cases "cap < t")
    case True
    then show ?thesis
      using Suc.prems t
      by (intro exI [of _ 0]) (simp add: tier_loop_unfold del: tier_loop.simps)
  next
    case False
    then obtain fs where fs: "tier_fees data i = Inr fs" "tier_loop data cap n (i + 1) fs = Inr r"
      using Suc.prems t
      by (auto simp: tier_loop_unfold bindR_Inr_iff simp del: tier_loop.simps)
    then obtain k where k: "k \<le> n"
        "\<forall>j < k. \<exists>t. u128 data (69 + 40 * (i + 1 + j)) = Inr t \<and> t \<le> cap"
        "k < n \<longrightarrow> (\<exists>t. u128 data (69 + 40 * (i + 1 + k)) = Inr t \<and> cap < t)"
        "Inr r = (if k = 0 then Inr fs else tier_fees data (i + 1 + k - 1))"
      using Suc.IH [OF fs(2)] by blast
    have "\<exists>t. u128 data (69 + 40 * (i + j)) = Inr t \<and> t \<le> cap" if "j < Suc k" for j
      using that t False k(2) by (cases j) auto
    then show ?thesis
      using k fs by (intro exI [of _ "Suc k"]) auto
  qed
qed

lemma parse_fee_config_bounds:
  "parse_fee_config data cap lp creator = Inr (Some fee) \<Longrightarrow>
    fee_pump fee \<and> fee_den fee = 10000 \<and> 1 \<le> fee_num fee \<and> fee_num fee \<le> 1000"
  by (auto simp: parse_fee_config_def Let_def PUMP_FEE_PLAUSIBLE_MAX_def elim!: bindR_InrE
      split: if_split_asm prod.split_asm)

lemma pumpFeeConfig_bounds:
  assumes "pumpFeeConfig w reader venue cap lp creator = Inr (fee, src)"
  shows "fee_pump fee \<and> fee_den fee = 10000 \<and> 1 \<le> fee_num fee \<and> fee_num fee \<le> 1000"
proof -
  have "fee = PUMP_FEE_FALLBACK \<or> (\<exists>data. parse_fee_config data cap lp creator = Inr (Some fee))"
  proof -
    obtain feeSource b account where "reader feeSource = Inr account"
        and *: "(case account of None \<Rightarrow> Inr (PUMP_FEE_FALLBACK, feeSource)
          | Some acc \<Rightarrow>
            if toBase58 (a_owner acc) \<noteq> PUMP_FEE_PROGRAM then Inr (PUMP_FEE_FALLBACK, feeSource)
            else (case parse_fee_config (a_data acc) cap lp creator of
              Inr (Some fee) \<Rightarrow> Inr (fee, feeSource)
            | _ \<Rightarrow> Inr (PUMP_FEE_FALLBACK, feeSource))) = (Inr (fee, src) :: (fee_ratio \<times> pubkey) res)"
      using assms by (auto simp: pumpFeeConfig_def bindR_Inr_iff)
    show ?thesis
      using * by (auto split: option.splits if_splits sum.splits)
  qed
  then show ?thesis
    by (auto simp: PUMP_FEE_FALLBACK_def dest: parse_fee_config_bounds)
qed

lemma fee_ok_pump: "pumpFeeConfig w reader venue cap lp creator = Inr (fee, src) \<Longrightarrow> fee_ok fee"
  by (auto simp: fee_ok_def dest: pumpFeeConfig_bounds)

subsection \<open>What a resolved reference guarantees\<close>

definition live_vault :: "web3 \<Rightarrow> account_reader \<Rightarrow> pool_vault \<Rightarrow> string \<Rightarrow> bool" where
  "live_vault w reader v mint \<longleftrightarrow>
    (\<exists>info. reader (pv_key v) = Inr (Some info) \<and> read_vault w (pv_key v) info = Inr v) \<and>
    pv_owner v \<in> set TOKEN_PROGRAMS \<and> pv_mint v = mint \<and> 0 < pv_amount v"

lemma read_vault_key: "read_vault w k info = Inr v \<Longrightarrow> pv_key v = k \<and> 0 \<le> pv_amount v"
  using le_value_bounds by (auto simp: read_vault_def res_simps)

lemma find_two: "List.find P [a, b] = Some x \<Longrightarrow> P x \<and> (x = a \<or> x = b)"
  by (auto split: if_splits)

lemma pool_vaults_live:
  assumes "pool_vaults w reader targetMint venue data = Inr (tv, sv)"
  shows "live_vault w reader tv (toBase58 targetMint)" "live_vault w reader sv WSOL_ADDRESS"
proof -
  obtain ka kb ia ib va vb where r: "reader ka = Inr (Some ia)" "reader kb = Inr (Some ib)"
      and v: "read_vault w ka ia = Inr va" "read_vault w kb ib = Inr vb"
      and own: "pv_owner va \<in> set TOKEN_PROGRAMS" "pv_owner vb \<in> set TOKEN_PROGRAMS"
      and f: "List.find (\<lambda>x. pv_mint x = toBase58 targetMint) [va, vb] = Some tv"
        "List.find (\<lambda>x. pv_mint x = WSOL_ADDRESS) [va, vb] = Some sv"
      and nz: "pv_amount tv \<noteq> 0" "pv_amount sv \<noteq> 0"
    using assms
    by (auto simp: pool_vaults_def res_simps simp del: List.find.simps)
  have "live_vault w reader x m"
    if "pv_mint x = m" "x = va \<or> x = vb" "pv_amount x \<noteq> 0" for x m
    using that r v own read_vault_key [OF v(1)] read_vault_key [OF v(2)]
    by (auto simp: live_vault_def)
  then show "live_vault w reader tv (toBase58 targetMint)" "live_vault w reader sv WSOL_ADDRESS"
    using find_two [OF f(1)] find_two [OF f(2)] nz by blast+
qed

lemma pool_fee_depth:
  assumes "pool_fee w reader targetMint pool owner venue data tv sv = Inr (fee, src, depth)"
  shows "pv_amount sv \<le> depth" and "v_name venue \<noteq> ''PumpSwap'' \<Longrightarrow> depth = pv_amount sv"
  using assms by (auto simp: pool_fee_def res_simps Let_def dest!: u128_nonneg split: if_splits)

lemma pool_state_reserves:
  assumes "pool_state w venue data token depth = Inr st"
  shows "fs_reserveToken st = token \<and> fs_reserveSol st = depth"
  using assms by (auto simp: pool_state_def res_simps Let_def split: if_splits)

lemma makeFloor_Inr [res_simps]:
  "makeFloor kind fee st gated = Inr (cap, f) \<longleftrightarrow>
    feeCap (fs_reserveSol st) fee = Inr cap \<and> f = floorFor kind fee st gated cap"
  by (auto simp: makeFloor_def bindR_Inr_iff)

lemma feeCap_bounds:
  assumes "fee_ok fee" "0 < depth" "feeCap depth fee = Inr cap"
  shows "0 \<le> cap" "cap < depth"
proof -
  have cap: "cap = depth * fee_num fee div fee_den fee" and pos: "0 < fee_den fee"
    using assms by (auto simp: feeCap_def res_simps fee_ok_def)
  have "depth * fee_num fee < depth * fee_den fee"
    using assms by (simp add: fee_ok_def)
  moreover have "cap * fee_den fee \<le> depth * fee_num fee"
    unfolding cap using pos div_mult_mod_eq [of "depth * fee_num fee" "fee_den fee"]
      pos_mod_sign [OF pos, of "depth * fee_num fee"] by linarith
  ultimately have "cap * fee_den fee < depth * fee_den fee" by simp
  then show "cap < depth" using pos by simp
  show "0 \<le> cap"
    unfolding cap using assms pos by (simp add: fee_ok_def pos_imp_zdiv_nonneg_iff)
qed

lemma resolvePool_Inr:
  assumes "resolvePool w reader targetMint pool = Inr rr"
  obtains acc venue tv sv fee st where
    "reader pool = Inr (Some acc)" "map_of VENUES (toBase58 (a_owner acc)) = Some venue"
    "live_vault w reader tv (toBase58 targetMint)" "live_vault w reader sv WSOL_ADDRESS"
    "rr_pool rr = pool" "rr_vaultA rr = pv_key tv" "rr_vaultB rr = pv_key sv"
    "rr_venue rr = v_name venue"
    "fs_reserveToken st = pv_amount tv" "fs_reserveSol st = rr_depthLamports rr"
    "pv_amount sv \<le> rr_depthLamports rr"
    "v_name venue \<noteq> ''PumpSwap'' \<Longrightarrow> rr_depthLamports rr = pv_amount sv"
    "fee_num fee \<noteq> 0" "fee_num fee < fee_den fee"
    "feeCap (rr_depthLamports rr) fee = Inr (rr_capLamports rr)"
    "rr_floorFor rr = floorFor (v_kind venue) fee st
      (toBase58 (a_owner acc) \<noteq> PUMP_SWAP_ADDRESS) (rr_capLamports rr)"
    "rr_seed rr = (if toBase58 (a_owner acc) = PUMP_SWAP_ADDRESS then ZERO_REFERENCE_SEED
      else pubkeyBytes w pool)"
    "\<exists>src. pool_fee w reader targetMint pool (toBase58 (a_owner acc)) venue (a_data acc) tv sv
      = Inr (fee, src, rr_depthLamports rr) \<and> rr_feeSource rr = src"
proof -
  obtain acc where acc: "reader pool = Inr (Some acc)"
    using assms by (auto simp: resolvePool_def res_simps)
  then obtain venue where venue: "map_of VENUES (toBase58 (a_owner acc)) = Some venue"
    using assms by (auto simp: resolvePool_def res_simps Let_def)
  obtain tv sv fee src depth st cap feeBps where *:
      "pool_vaults w reader targetMint venue (a_data acc) = Inr (tv, sv)"
      "pool_fee w reader targetMint pool (toBase58 (a_owner acc)) venue (a_data acc) tv sv
        = Inr (fee, src, depth)"
      "fee_num fee \<noteq> 0" "fee_num fee < fee_den fee"
      "pool_state w venue (a_data acc) (pv_amount tv) depth = Inr st"
      "feeCap (fs_reserveSol st) fee = Inr cap"
      and rr: "rr = \<lparr>rr_pool = pool, rr_vaultA = pv_key tv, rr_vaultB = pv_key sv,
          rr_feeSource = src,
          rr_seed = (if toBase58 (a_owner acc) = PUMP_SWAP_ADDRESS then ZERO_REFERENCE_SEED
            else pubkeyBytes w pool),
          rr_venue = v_name venue, rr_depthLamports = depth, rr_feeBpsHundredths = feeBps,
          rr_capLamports = cap,
          rr_floorFor = floorFor (v_kind venue) fee st
            (toBase58 (a_owner acc) \<noteq> PUMP_SWAP_ADDRESS) cap\<rparr>"
    using assms acc venue
    by (auto simp: resolvePool_def res_simps Let_def not_le)
  show ?thesis
    by (rule that [OF acc venue pool_vaults_live [OF *(1)], where fee = fee and st = st])
      (use * pool_fee_depth [OF *(2)] pool_state_reserves [OF *(5)] in \<open>auto simp: rr\<close>)
qed

lemma le_value_nonneg [simp]: "0 \<le> le_value bs"
  using le_value_bounds by simp

lemma pool_fee_nonneg:
  assumes "pool_fee w reader targetMint pool owner venue data tv sv = Inr (fee, src, depth)"
  shows "0 \<le> fee_num fee"
  using assms
  by (auto simp: pool_fee_def res_simps Let_def dest!: pumpFeeConfig_bounds split: if_splits)

lemma resolvePool_fee_ok:
  assumes "pool_fee w reader targetMint pool owner venue data tv sv = Inr (fee, src, depth)"
    and "fee_num fee \<noteq> 0" "fee_num fee < fee_den fee"
  shows "fee_ok fee"
  using pool_fee_nonneg [OF assms(1)] assms(2,3) by (simp add: fee_ok_def)

lemma resolveCurve_Inr:
  assumes "resolveCurve w reader targetMint = Inr rr"
  shows "bondingCurve w targetMint = Inr (rr_pool rr)" "rr_seed rr = ZERO_REFERENCE_SEED"
    "rr_venue rr = ''Pump curve''"
  using assms by (auto simp: resolveCurve_def res_simps Let_def)

subsection \<open>Properties\<close>

text \<open>
  The fee a Pump venue is priced with is the one of the last tier whose market-cap threshold
  the market cap reaches: the loop ends after the leading run of such tiers, and the fee is the
  sum of the parts that apply, between 1 and 1000 basis points. Anything else falls back.
\<close>

theorem pump_fee_tier:
  assumes "parse_fee_config data cap includeLp includeCreator = Inr (Some fee)"
  shows "\<exists>count k lp protocol creator.
    readLE 4 data 65 = Inr (int count) \<and> k \<le> count \<and>
    (\<forall>j < k. \<exists>t. u128 data (69 + 40 * j) = Inr t \<and> t \<le> cap) \<and>
    (k < count \<longrightarrow> (\<exists>t. u128 data (69 + 40 * k) = Inr t \<and> cap < t)) \<and>
    (if k = 0 then u64 data 41 = Inr lp \<and> u64 data 49 = Inr protocol \<and> u64 data 57 = Inr creator
     else tier_fees data (k - 1) = Inr (lp, protocol, creator)) \<and>
    fee = \<lparr>fee_num = (if includeLp then lp else 0) + protocol
             + (if includeCreator then creator else 0), fee_den = 10000, fee_pump = True\<rparr> \<and>
    1 \<le> fee_num fee \<and> fee_num fee \<le> 1000"
proof -
  obtain count lp0 p0 c0 lp p c where c: "readLE 4 data 65 = Inr count"
      "u64 data 41 = Inr lp0" "u64 data 49 = Inr p0" "u64 data 57 = Inr c0"
      "tier_loop data cap (nat count) 0 (lp0, p0, c0) = Inr (lp, p, c)"
      and fee: "fee = \<lparr>fee_num = (if includeLp then lp else 0) + p
        + (if includeCreator then c else 0), fee_den = 10000, fee_pump = True\<rparr>"
    using assms
    by (auto simp: parse_fee_config_def bindR_Inr_iff Let_def split: if_splits prod.splits)
  obtain n where n: "count = int n"
    using readLE_bounds [OF c(1)] by (blast elim: nonneg_int_cases)
  then obtain k where "k \<le> n" "\<forall>j < k. \<exists>t. u128 data (69 + 40 * j) = Inr t \<and> t \<le> cap"
      "k < n \<longrightarrow> (\<exists>t. u128 data (69 + 40 * k) = Inr t \<and> cap < t)"
      and r: "Inr (lp, p, c) = (if k = 0 then Inr (lp0, p0, c0) else tier_fees data (k - 1))"
    using tier_loop_spec [OF c(5), unfolded add_0] by auto
  moreover have "if k = 0 then u64 data 41 = Inr lp \<and> u64 data 49 = Inr p \<and> u64 data 57 = Inr c
     else tier_fees data (k - 1) = Inr (lp, p, c)"
    using r c(2-4) by (cases "k = 0") simp_all
  ultimately show ?thesis
    using c(1) fee parse_fee_config_bounds [OF assms] unfolding n by blast
qed

text \<open>One tier above the market cap and one below it.\<close>

definition example_fee_config :: "byte list" where
  "example_fee_config = replicate 41 0 @ le_bytes 8 5 @ le_bytes 8 20 @ le_bytes 8 30 @ le_bytes 4 2
    @ le_bytes 16 1000 @ le_bytes 8 10 @ le_bytes 8 40 @ le_bytes 8 50
    @ le_bytes 16 9000 @ le_bytes 8 1 @ le_bytes 8 1 @ le_bytes 8 1"

lemma example_fee_config_parse:
  "parse_fee_config example_fee_config 2000 True False
    = Inr (Some \<lparr>fee_num = 50, fee_den = 10000, fee_pump = True\<rparr>)"
  by code_simp

lemma pump_fee_tier_witness:
  "\<exists>count k lp protocol creator.
    readLE 4 example_fee_config 65 = Inr (int count) \<and> k \<le> count \<and>
    (\<forall>j < k. \<exists>t. u128 example_fee_config (69 + 40 * j) = Inr t \<and> t \<le> 2000) \<and>
    (k < count \<longrightarrow> (\<exists>t. u128 example_fee_config (69 + 40 * k) = Inr t \<and> 2000 < t)) \<and>
    (if k = 0 then u64 example_fee_config 41 = Inr lp \<and> u64 example_fee_config 49 = Inr protocol
       \<and> u64 example_fee_config 57 = Inr creator
     else tier_fees example_fee_config (k - 1) = Inr (lp, protocol, creator)) \<and>
    \<lparr>fee_num = 50, fee_den = 10000, fee_pump = True\<rparr> =
      \<lparr>fee_num = (if True then lp else 0) + protocol + (if False then creator else 0),
       fee_den = 10000, fee_pump = True\<rparr> \<and>
    1 \<le> fee_num \<lparr>fee_num = 50, fee_den = 10000, fee_pump = True\<rparr> \<and>
    fee_num \<lparr>fee_num = 50, fee_den = 10000, fee_pump = True\<rparr> \<le> 1000"
  by (rule pump_fee_tier [OF example_fee_config_parse])

definition backed_pool ::
  "web3 \<Rightarrow> account_reader \<Rightarrow> pubkey \<Rightarrow> pubkey \<Rightarrow> resolved_reference \<Rightarrow> bool" where
  "backed_pool w reader targetMint pool rr \<longleftrightarrow> (\<exists>acc venue tv sv fee st.
    reader pool = Inr (Some acc) \<and> map_of VENUES (toBase58 (a_owner acc)) = Some venue \<and>
    rr_pool rr = pool \<and> rr_vaultA rr = pv_key tv \<and> rr_vaultB rr = pv_key sv \<and>
    live_vault w reader tv (toBase58 targetMint) \<and> live_vault w reader sv WSOL_ADDRESS \<and>
    pv_amount sv \<le> rr_depthLamports rr \<and>
    (v_name venue = ''PumpSwap'' \<or> rr_depthLamports rr = pv_amount sv) \<and>
    fee_ok fee \<and> 0 \<le> rr_capLamports rr \<and> rr_capLamports rr < rr_depthLamports rr \<and>
    fs_reserveToken st = pv_amount tv \<and> fs_reserveSol st = rr_depthLamports rr \<and>
    rr_floorFor rr = floorFor (v_kind venue) fee st
      (toBase58 (a_owner acc) \<noteq> PUMP_SWAP_ADDRESS) (rr_capLamports rr))"


text \<open>A Raydium v4 pool: the pool data, its two vaults, and the accounts that hold them.\<close>

definition example_pool_data :: "byte list" where
  "example_pool_data = replicate 144 0 @ le_bytes 8 25 @ le_bytes 8 10000 @ replicate 176 0
    @ replicate 32 65 @ replicate 32 66"

definition example_vault_data :: "byte \<Rightarrow> int \<Rightarrow> byte list" where
  "example_vault_data mint amount = replicate 32 mint @ replicate 32 67 @ le_bytes 8 amount"

definition example_reader :: account_reader where
  "example_reader k = Inr (
    if k = example_key 80 then Some \<lparr>a_owner = PublicKey ''675kPX9MHTjS2zt1qfr1NYHuzeLXfQM9H24wFSUt1Mp8'',
      a_data = example_pool_data, a_lamports = None\<rparr>
    else if k = example_key 65 then Some \<lparr>a_owner = TOKEN_PROGRAM_ID,
      a_data = example_vault_data 84 1000000000000, a_lamports = None\<rparr>
    else if k = example_key 66 then Some \<lparr>a_owner = TOKEN_PROGRAM_ID,
      a_data = example_vault_data 1 100000000000, a_lamports = None\<rparr>
    else None)"

lemma example_resolve_eval:
  "case resolvePool example_web3 example_reader (example_key 84) (example_key 80) of
     Inr rr \<Rightarrow> rr_floorFor rr 1000000 = Inr 9875151 | Inl e \<Rightarrow> False"
  by code_simp

lemma example_resolve:
  obtains rr where
    "resolvePool example_web3 example_reader (example_key 84) (example_key 80) = Inr rr"
    "rr_floorFor rr 1000000 = Inr 9875151"
  using example_resolve_eval by (auto split: sum.splits)


text \<open>
  A leg with no explicit reference always contributes the zero seed to the vault address,
  priced off the live bonding curve or, after graduation, off the canonical PumpSwap pool: the
  vault address does not change when a Pump coin graduates. (A program-derived address of
  PumpSwap can only be owned by PumpSwap or by a program outside the venue table.)
\<close>

theorem pump_reference_seed_zero:
  assumes "resolveReference w reader targetMint None = Inr rr"
    and "\<And>pool acc. canonicalPumpSwapPool w targetMint = Inr pool \<Longrightarrow>
      reader pool = Inr (Some acc) \<Longrightarrow>
      toBase58 (a_owner acc) = PUMP_SWAP_ADDRESS \<or> map_of VENUES (toBase58 (a_owner acc)) = None"
  shows "rr_seed rr = replicate 32 0 \<and>
    (bondingCurve w targetMint = Inr (rr_pool rr)
     \<or> canonicalPumpSwapPool w targetMint = Inr (rr_pool rr))"
proof -
  obtain curve account where c: "bondingCurve w targetMint = Inr curve" "reader curve = Inr account"
    using assms(1) by (auto simp: resolveReference_def resolvePumpVenue_def bindR_Inr_iff)
  show ?thesis
  proof (cases "graduated account")
    case True
    then obtain pool where pool: "canonicalPumpSwapPool w targetMint = Inr pool"
        "resolvePool w reader targetMint pool = Inr rr"
      using assms(1) c by (auto simp: resolveReference_def resolvePumpVenue_def res_simps)
    show ?thesis
      by (rule resolvePool_Inr [OF pool(2)])
        (use assms(2) [OF pool(1)] pool(1) in \<open>auto simp: ZERO_REFERENCE_SEED_def\<close>)
  next
    case False
    then have "resolveCurve w reader targetMint = Inr rr"
      using assms(1) c by (simp add: resolveReference_def resolvePumpVenue_def)
    then show ?thesis
      using resolveCurve_Inr by (simp add: ZERO_REFERENCE_SEED_def)
  qed
qed

text \<open>A live curve and a graduated one with its canonical PumpSwap pool.\<close>

definition example_curve_data :: "byte \<Rightarrow> byte list" where
  "example_curve_data done_flag = replicate 8 0 @ le_bytes 8 1000000000000 @ le_bytes 8 40000000000
    @ replicate 24 0 @ [done_flag] @ replicate 33 0"

definition example_amm_data :: "byte list" where
  "example_amm_data = replicate 139 0 @ replicate 32 65 @ replicate 32 66 @ replicate 58 0"

definition pump_reader :: "bool \<Rightarrow> account_reader" where
  "pump_reader migrated k =
    (if bondingCurve example_web3 (example_key 84) = Inr k
     then Inr (Some \<lparr>a_owner = PublicKey PUMP_FUN_ADDRESS,
       a_data = example_curve_data (if migrated then 1 else 0), a_lamports = None\<rparr>)
     else if canonicalPumpSwapPool example_web3 (example_key 84) = Inr k
     then Inr (Some \<lparr>a_owner = PublicKey PUMP_SWAP_ADDRESS, a_data = example_amm_data,
       a_lamports = None\<rparr>)
     else if k = example_key 84
     then Inr (Some \<lparr>a_owner = TOKEN_PROGRAM_ID, a_data = replicate 36 0 @ le_bytes 8 1000000000000000
       @ replicate 38 0, a_lamports = None\<rparr>)
     else example_reader k)"

lemma pump_reader_eval:
  "case resolveReference example_web3 (pump_reader migrated) (example_key 84) None of
     Inr rr \<Rightarrow> rr_venue rr = (if migrated then ''PumpSwap'' else ''Pump curve'') | Inl e \<Rightarrow> False"
proof (cases migrated)
  case True
  then show ?thesis by (simp only:) code_simp
next
  case False
  then show ?thesis by (simp only:) code_simp
qed

lemma pump_reader_canonical:
  "canonicalPumpSwapPool example_web3 (example_key 84) = Inr pool \<Longrightarrow>
    pump_reader migrated pool = Inr (Some acc) \<Longrightarrow> toBase58 (a_owner acc) = PUMP_SWAP_ADDRESS"
  by (auto simp: pump_reader_def canonicalPumpSwapPool_def bondingCurve_def)

lemma pump_reference_seed_zero_witness:
  "\<forall>migrated. \<exists>rr :: resolved_reference. rr_venue rr = (if migrated then ''PumpSwap'' else ''Pump curve'') \<and>
    rr_seed rr = replicate 32 0 \<and>
    (bondingCurve example_web3 (example_key 84) = Inr (rr_pool rr)
     \<or> canonicalPumpSwapPool example_web3 (example_key 84) = Inr (rr_pool rr))"
proof
  fix migrated
  obtain rr where rr: "resolveReference example_web3 (pump_reader migrated) (example_key 84) None = Inr rr"
    "rr_venue rr = (if migrated then ''PumpSwap'' else ''Pump curve'')"
    using pump_reader_eval [of migrated] by (auto split: sum.splits)
  have "rr_seed rr = replicate 32 0 \<and>
    (bondingCurve example_web3 (example_key 84) = Inr (rr_pool rr)
     \<or> canonicalPumpSwapPool example_web3 (example_key 84) = Inr (rr_pool rr))"
    by (rule pump_reference_seed_zero [OF rr(1)]) (blast dest: pump_reader_canonical)
  then show "\<exists>rr :: resolved_reference. rr_venue rr = (if migrated then ''PumpSwap'' else ''Pump curve'') \<and>
    rr_seed rr = replicate 32 0 \<and>
    (bondingCurve example_web3 (example_key 84) = Inr (rr_pool rr)
     \<or> canonicalPumpSwapPool example_web3 (example_key 84) = Inr (rr_pool rr))"
    using rr(2) by (intro exI [of _ rr]) simp
qed

end
