(* ===== verification/DirectCurve.thy ===== *)
theory DirectCurve
  imports Reference
begin

text \<open>
  The direct Pump-curve leg of \<open>quote-service/directcurve.ts\<close>: the account list of the
  buy instruction and the shape check that core.ts applies to a built leg before splicing it
  into the burn.
\<close>

definition DIRECT_CURVE_VENUE :: string where
  "DIRECT_CURVE_VENUE = ''Pump curve''"

definition PUMP_FUN :: pubkey where
  "PUMP_FUN = PublicKey ''6EF8rrecthR5Dkzon8Nwu78hRvfCKubJ14M5uBEwF6P''"

definition DC_PUMP_FEE_PROGRAM :: pubkey where
  "DC_PUMP_FEE_PROGRAM = PublicKey ''pfeeUxB6jkeY1Hxd7CsFCAjcbHA9rWtchMGdZ6VojVZ''"

text \<open>Also the shape of a Jupiter route account: the key is a string at this point.\<close>

record route_meta =
  rm_pubkey :: string
  rm_isSigner :: bool
  rm_isWritable :: bool

record direct_curve_params =
  dp_vault :: pubkey
  dp_targetMint :: pubkey
  dp_tokenProgram :: pubkey
  dp_targetAta :: pubkey
  dp_feeRecipient :: pubkey
  dp_buybackFeeRecipient :: pubkey

text \<open>The two messages a build can ask the caller to act on.\<close>

datatype setup_step = FundBondingCurveV2 pubkey | InitUserVolumeAccumulator pubkey

record direct_curve_leg =
  dl_accounts :: "route_meta list"
  dl_missingSetup :: "setup_step list"

definition pumpPda :: "web3 \<Rightarrow> byte list list \<Rightarrow> pubkey res" where
  "pumpPda w seeds = bindR (findProgramAddress w seeds PUMP_FUN) (\<lambda>(k, _). Inr k)"

definition BONDING_CURVE_V2_RENT_FLOOR :: int where
  "BONDING_CURVE_V2_RENT_FLOOR = 890880"

definition derivePumpCurve :: "web3 \<Rightarrow> pubkey \<Rightarrow> pubkey res" where
  "derivePumpCurve w mint = pumpPda w [map of_char ''bonding-curve'', pubkeyBytes w mint]"

definition deriveBondingCurveV2 :: "web3 \<Rightarrow> pubkey \<Rightarrow> pubkey res" where
  "deriveBondingCurveV2 w mint = pumpPda w [map of_char ''bonding-curve-v2'', pubkeyBytes w mint]"

definition deriveUserVolumeAccumulator :: "web3 \<Rightarrow> pubkey \<Rightarrow> pubkey res" where
  "deriveUserVolumeAccumulator w user =
    pumpPda w [map of_char ''user_volume_accumulator'', pubkeyBytes w user]"

definition deriveCreatorVault :: "web3 \<Rightarrow> pubkey \<Rightarrow> pubkey res" where
  "deriveCreatorVault w creator = pumpPda w [map of_char ''creator-vault'', pubkeyBytes w creator]"

definition derivePumpFeeConfig :: "web3 \<Rightarrow> pubkey res" where
  "derivePumpFeeConfig w =
    bindR (findProgramAddress w [map of_char ''fee_config'', pubkeyBytes w PUMP_FUN]
      DC_PUMP_FEE_PROGRAM) (\<lambda>(k, _). Inr k)"

definition curve_meta :: "pubkey \<Rightarrow> bool \<Rightarrow> route_meta" where
  "curve_meta k writable =
    \<lparr>rm_pubkey = toBase58 k, rm_isSigner = False, rm_isWritable = writable\<rparr>"

definition bondingCurveV2Ready :: "account_data option \<Rightarrow> bool" where
  "bondingCurveV2Ready account = (case account of
     None \<Rightarrow> False
   | Some acc \<Rightarrow> a_owner acc = PUMP_FUN \<or> a_lamports acc = None
       \<or> the (a_lamports acc) \<ge> BONDING_CURVE_V2_RENT_FLOOR)"

definition buildDirectCurveBuyAccounts ::
  "web3 \<Rightarrow> account_reader \<Rightarrow> direct_curve_params \<Rightarrow> direct_curve_leg res" where
  "buildDirectCurveBuyAccounts w reader params =
    bindR (derivePumpCurve w (dp_targetMint params)) (\<lambda>curve.
    bindR (require_account reader curve (\<lambda>acc.
        a_owner acc = PUMP_FUN \<and> 82 \<le> length (a_data acc))) (\<lambda>curveAccount.
    if nth_opt (a_data curveAccount) 48 = Some 1 then reject ''REFERENCE_INVALID''
    else bindR (pubkeyOfBytes w (subarray 49 81 (a_data curveAccount))) (\<lambda>creator.
    bindR (deriveBondingCurveV2 w (dp_targetMint params)) (\<lambda>bondingCurveV2.
    bindR (reader bondingCurveV2) (\<lambda>bondingCurveV2Account.
    bindR (deriveUserVolumeAccumulator w (dp_vault params)) (\<lambda>userVolumeAccumulator.
    bindR (reader userVolumeAccumulator) (\<lambda>accumulatorAccount.
    (let missingSetup =
           (if bondingCurveV2Ready bondingCurveV2Account then []
            else [FundBondingCurveV2 bondingCurveV2])
           @ (case accumulatorAccount of
                Some acc \<Rightarrow> if a_owner acc = PUMP_FUN then []
                  else [InitUserVolumeAccumulator userVolumeAccumulator]
              | None \<Rightarrow> [InitUserVolumeAccumulator userVolumeAccumulator])
     in
     bindR (pumpPda w [map of_char ''global'']) (\<lambda>global.
     bindR (associatedTokenAddress w (dp_targetMint params) curve True (dp_tokenProgram params))
       (\<lambda>curveAta.
     bindR (deriveCreatorVault w creator) (\<lambda>creatorVault.
     bindR (pumpPda w [map of_char ''__event_authority'']) (\<lambda>eventAuthority.
     bindR (pumpPda w [map of_char ''global_volume_accumulator'']) (\<lambda>globalVolumeAccumulator.
     bindR (derivePumpFeeConfig w) (\<lambda>feeConfig.
       Inr \<lparr>dl_accounts =
           [curve_meta global False,
            curve_meta (dp_feeRecipient params) True,
            curve_meta (dp_targetMint params) False,
            curve_meta curve True,
            curve_meta curveAta True,
            curve_meta (dp_targetAta params) True,
            curve_meta (dp_vault params) True,
            curve_meta SYSTEM_PROGRAM False,
            curve_meta (dp_tokenProgram params) False,
            curve_meta creatorVault True,
            curve_meta eventAuthority False,
            curve_meta PUMP_FUN False,
            curve_meta globalVolumeAccumulator False,
            curve_meta userVolumeAccumulator True,
            curve_meta feeConfig False,
            curve_meta DC_PUMP_FEE_PROGRAM False,
            curve_meta bondingCurveV2 True,
            curve_meta (dp_buybackFeeRecipient params) True],
          dl_missingSetup = missingSetup\<rparr>))))))))))))))"

definition assertDirectCurveLegShape ::
  "web3 \<Rightarrow> route_meta list \<Rightarrow> pubkey \<Rightarrow> pubkey \<Rightarrow> pubkey \<Rightarrow> unit res" where
  "assertDirectCurveLegShape w accounts vault targetMint targetAta =
    (if length accounts < 18 \<or> length accounts > 25 then reject ''DIRECT_CURVE_SHAPE''
     else if \<exists>account \<in> set accounts. rm_isSigner account then reject ''DIRECT_CURVE_SHAPE''
     else bindR (derivePumpCurve w targetMint) (\<lambda>curve.
       if rm_pubkey (accounts ! 2) \<noteq> toBase58 targetMint
          \<or> rm_pubkey (accounts ! 3) \<noteq> toBase58 curve
          \<or> rm_pubkey (accounts ! 5) \<noteq> toBase58 targetAta
          \<or> rm_pubkey (accounts ! 6) \<noteq> toBase58 vault
       then reject ''DIRECT_CURVE_SHAPE''
       else forEach_from 0 (\<lambda>index account.
         if index \<noteq> 6 \<and> rm_pubkey account = toBase58 vault
         then reject ''DIRECT_CURVE_SHAPE'' else Inr ()) accounts))"

subsection \<open>Properties\<close>

lemma only_index_six:
  assumes "18 \<le> length xs"
  shows "P (xs ! 6) \<and> (\<forall>k < length xs. \<not> (k \<noteq> 6 \<and> P (xs ! k))) \<longleftrightarrow>
    list_all (\<lambda>k. P (xs ! k) \<longleftrightarrow> k = 6) [0..<length xs]"
  using assms by (auto simp: list_all_iff)

lemma vault_check_Inr:
  "forEach_from 0 (\<lambda>index account. if index \<noteq> 6 \<and> P account then reject c else Inr ()) xs = Inr ()
    \<longleftrightarrow> (\<forall>k < length xs. \<not> (k \<noteq> 6 \<and> P (xs ! k)))"
  by (auto simp: forEach_from_Inr_iff)

lemma build_accounts:
  assumes "buildDirectCurveBuyAccounts w reader params = Inr leg"
  obtains global curve curveAta creatorVault eventAuthority gva uva feeConfig bcv2 where
    "derivePumpCurve w (dp_targetMint params) = Inr curve"
    "map rm_pubkey (dl_accounts leg) = map toBase58
       [global, dp_feeRecipient params, dp_targetMint params, curve, curveAta, dp_targetAta params,
        dp_vault params, SYSTEM_PROGRAM, dp_tokenProgram params, creatorVault, eventAuthority,
        PUMP_FUN, gva, uva, feeConfig, DC_PUMP_FEE_PROGRAM, bcv2, dp_buybackFeeRecipient params]"
    "\<forall>a \<in> set (dl_accounts leg). \<not> rm_isSigner a"
  using assms
  by (auto simp: buildDirectCurveBuyAccounts_def res_simps Let_def curve_meta_def)

text \<open>
  The shape check of a direct-curve leg accepts a list of 18 to 25 accounts, none of them a
  transaction signer, whose mint, derived curve, token account and vault are pinned at their
  indices, exactly when the vault appears at index 6 and nowhere else.
\<close>

theorem direct_curve_shape:
  "assertDirectCurveLegShape w accounts vault targetMint targetAta = Inr () \<longleftrightarrow>
    length accounts \<in> {18..25} \<and>
    list_all (\<lambda>a. \<not> rm_isSigner a) accounts \<and>
    rm_pubkey (accounts ! 2) = toBase58 targetMint \<and>
    (\<exists>curve. derivePumpCurve w targetMint = Inr curve
      \<and> rm_pubkey (accounts ! 3) = toBase58 curve) \<and>
    rm_pubkey (accounts ! 5) = toBase58 targetAta \<and>
    list_all (\<lambda>k. rm_pubkey (accounts ! k) = toBase58 vault \<longleftrightarrow> k = 6) [0..<length accounts]"
proof (cases "length accounts \<in> {18..25}")
  case True
  then have *: "list_all (\<lambda>k. rm_pubkey (accounts ! k) = toBase58 vault \<longleftrightarrow> k = 6) [0..<length accounts]
      \<longleftrightarrow> rm_pubkey (accounts ! 6) = toBase58 vault \<and>
        (\<forall>k < length accounts. \<not> (k \<noteq> 6 \<and> rm_pubkey (accounts ! k) = toBase58 vault))"
    using only_index_six [of accounts "\<lambda>a. rm_pubkey a = toBase58 vault"] by simp
  show ?thesis
    unfolding * assertDirectCurveLegShape_def
    using True by (cases "derivePumpCurve w targetMint")
      (auto simp: if_Inl_Inr list_all_iff forEach_from_Inr_iff)
qed (simp add: assertDirectCurveLegShape_def if_Inl_Inr, linarith)

text \<open>
  The 18 accounts built for a direct-curve buy always pass that check, as long as none of
  the other 17 keys is the vault itself: the vault is the account at index 6, no account asks
  for a transaction signature, and the curve is the one derived from the target mint.
\<close>

theorem direct_curve_build_accepted:
  assumes "buildDirectCurveBuyAccounts w reader params = Inr leg"
    and "toBase58 (dp_vault params) \<notin> set (map rm_pubkey (take 6 (dl_accounts leg) @ drop 7 (dl_accounts leg)))"
  shows "length (dl_accounts leg) = 18 \<and>
    assertDirectCurveLegShape w (dl_accounts leg) (dp_vault params) (dp_targetMint params)
      (dp_targetAta params) = Inr ()"
proof -
  obtain global curve curveAta creatorVault eventAuthority gva uva feeConfig bcv2 where
    curve: "derivePumpCurve w (dp_targetMint params) = Inr curve" and
    keys: "map rm_pubkey (dl_accounts leg) = map toBase58
       [global, dp_feeRecipient params, dp_targetMint params, curve, curveAta, dp_targetAta params,
        dp_vault params, SYSTEM_PROGRAM, dp_tokenProgram params, creatorVault, eventAuthority,
        PUMP_FUN, gva, uva, feeConfig, DC_PUMP_FEE_PROGRAM, bcv2, dp_buybackFeeRecipient params]"
      (is "_ = map toBase58 ?ks")
    and sg: "\<forall>a \<in> set (dl_accounts leg). \<not> rm_isSigner a"
    using build_accounts [OF assms(1)] by metis
  have len: "length (dl_accounts leg) = 18"
    using arg_cong [OF keys, of length] by simp
  have key: "rm_pubkey (dl_accounts leg ! k) = toBase58 (?ks ! k)" if "k < 18" for k
    using that len nth_map [of k "dl_accounts leg" rm_pubkey] nth_map [of k ?ks toBase58]
    unfolding keys by simp
  have "rm_pubkey (dl_accounts leg ! k) \<noteq> toBase58 (dp_vault params)" if "k < 18" "k \<noteq> 6" for k
  proof -
    have "dl_accounts leg ! k \<in> set (take 6 (dl_accounts leg) @ drop 7 (dl_accounts leg))"
    proof (cases "k < 6")
      case True
      then have "take 6 (dl_accounts leg) ! k = dl_accounts leg ! k" "k < length (take 6 (dl_accounts leg))"
        using len by simp_all
      then show ?thesis by (metis UnCI nth_mem set_append)
    next
      case False
      then have "drop 7 (dl_accounts leg) ! (k - 7) = dl_accounts leg ! k"
        "k - 7 < length (drop 7 (dl_accounts leg))"
        using that len by simp_all
      then show ?thesis by (metis UnCI nth_mem set_append)
    qed
    then show ?thesis
      using assms(2) by (metis image_eqI set_map)
  qed
  then show ?thesis
    using curve key [of 2] key [of 3] key [of 5] key [of 6] sg len
    by (simp add: direct_curve_shape list_all_iff) (metis (no_types) atLeastLessThan_iff)
qed

definition example_params :: direct_curve_params where
  "example_params = \<lparr>dp_vault = example_key 86, dp_targetMint = example_key 84,
    dp_tokenProgram = TOKEN_2022_PROGRAM_ID, dp_targetAta = example_key 85,
    dp_feeRecipient = example_key 70, dp_buybackFeeRecipient = example_key 71\<rparr>"

lemma example_build:
  "case buildDirectCurveBuyAccounts example_web3 (pump_reader False) example_params of
     Inr leg \<Rightarrow> toBase58 (dp_vault example_params)
       \<notin> set (map rm_pubkey (take 6 (dl_accounts leg) @ drop 7 (dl_accounts leg)))
       \<and> length (dl_missingSetup leg) = 2
   | Inl e \<Rightarrow> False"
  by code_simp

lemma direct_curve_build_accepted_witness:
  "\<exists>leg. buildDirectCurveBuyAccounts example_web3 (pump_reader False) example_params = Inr leg \<and>
    length (dl_accounts leg) = 18 \<and>
    assertDirectCurveLegShape example_web3 (dl_accounts leg) (dp_vault example_params)
      (dp_targetMint example_params) (dp_targetAta example_params) = Inr ()"
proof (cases "buildDirectCurveBuyAccounts example_web3 (pump_reader False) example_params")
  case (Inl e)
  then show ?thesis using example_build by (simp only: sum.case)
next
  case (Inr leg)
  have "toBase58 (dp_vault example_params)
      \<notin> set (map rm_pubkey (take 6 (dl_accounts leg) @ drop 7 (dl_accounts leg)))"
    using example_build unfolding Inr sum.case by (rule conjunct1)
  from direct_curve_build_accepted [OF Inr this] show ?thesis
    using Inr by blast
qed

end
