(* ===== verification/JsText.thy ===== *)
theory JsText
  imports Request
begin

text \<open>
  Text conversions of the JavaScript runtime that the service applies to what Jupiter returns:
  \<open>BigInt(text)\<close>, \<open>Number(value)\<close> and the lenient \<open>Buffer.from(text, "base64")\<close>; and
  the printing, splitting and joining of text that the app does.
\<close>

subsection \<open>BigInt of a string\<close>

definition char_code :: "char \<Rightarrow> int" where
  "char_code c = of_char c"

text \<open>White space of the ECMAScript grammar within the first 256 code points.\<close>

definition js_space :: "char \<Rightarrow> bool" where
  "js_space c \<longleftrightarrow> char_code c \<in> {9, 10, 11, 12, 13, 32, 160}"

definition js_trim :: "string \<Rightarrow> string" where
  "js_trim s = rev (dropWhile js_space (rev (dropWhile js_space s)))"

definition radix_digit :: "char \<Rightarrow> int" where
  "radix_digit c =
    (if is_digit c then char_code c - 48
     else if in_range CHR ''a'' CHR ''z'' c then char_code c - 87
     else if in_range CHR ''A'' CHR ''Z'' c then char_code c - 55
     else 99)"

text \<open>A nonempty run of digits of the radix, else a \<open>SyntaxError\<close>.\<close>

definition parse_radix :: "int \<Rightarrow> string \<Rightarrow> int res" where
  "parse_radix b s =
    (if s = [] \<or> \<not> list_all (\<lambda>c. radix_digit c < b) s then Inl SyntaxError
     else Inr (foldl (\<lambda>acc c. b * acc + radix_digit c) 0 s))"

definition js_BigInt :: "string \<Rightarrow> int res" where
  "js_BigInt text =
    (let s = js_trim text in
     if s = [] then Inr 0
     else if take 2 s = ''0x'' \<or> take 2 s = ''0X'' then parse_radix 16 (drop 2 s)
     else if take 2 s = ''0o'' \<or> take 2 s = ''0O'' then parse_radix 8 (drop 2 s)
     else if take 2 s = ''0b'' \<or> take 2 s = ''0B'' then parse_radix 2 (drop 2 s)
     else if hd s = CHR ''-'' then bindR (parse_radix 10 (tl s)) (\<lambda>n. Inr (- n))
     else if hd s = CHR ''+'' then parse_radix 10 (tl s)
     else parse_radix 10 s)"

lemma radix_digit_decimal: "is_digit c \<Longrightarrow> radix_digit c = digit_value c"
  by (simp add: radix_digit_def digit_value_def char_code_def)

lemma digit_value_less: "is_digit c \<Longrightarrow> digit_value c < 10"
  by (simp add: digit_value_def is_digit_def in_range_def)

lemma js_space_digit: "is_digit c \<Longrightarrow> \<not> js_space c"
  by (auto simp: js_space_def is_digit_def in_range_def char_code_def)

lemma js_trim_digits: "list_all is_digit s \<Longrightarrow> js_trim s = s"
proof -
  assume "list_all is_digit s"
  then have "\<forall>c \<in> set s. \<not> js_space c"
    by (auto simp: list_all_iff js_space_digit)
  then have "dropWhile js_space xs = xs" if "set xs = set s" for xs
    unfolding dropWhile_eq_self_iff using that by (cases xs) auto
  then have "dropWhile js_space s = s" "dropWhile js_space (rev s) = rev s"
    by simp_all
  then show ?thesis by (simp add: js_trim_def)
qed

text \<open>On a positive decimal string the conversion is the decimal value.\<close>

lemma positive_decimal_digits: "positive_decimal s \<Longrightarrow> list_all is_digit s \<and> s \<noteq> []"
  by (cases s) (auto simp: positive_decimal_def is_digit_def in_range_def)

lemma js_BigInt_decimal:
  assumes "positive_decimal s"
  shows "js_BigInt s = Inr (decimal_value s)"
proof -
  obtain c cs where s: "s = c # cs" "in_range CHR ''1'' CHR ''9'' c"
    using assms by (cases s) (auto simp: positive_decimal_def)
  then have c: "c \<noteq> CHR ''0''" "c \<noteq> CHR ''-''" "c \<noteq> CHR ''+''"
    by (auto simp: in_range_def)
  have d: "list_all is_digit s" using positive_decimal_digits [OF assms] by simp
  have "foldl (\<lambda>acc c. 10 * acc + radix_digit c) a xs = foldl (\<lambda>acc c. 10 * acc + digit_value c) a xs"
    if "list_all is_digit xs" for a xs
    using that by (induction xs arbitrary: a) (auto simp: radix_digit_decimal)
  moreover have "list_all (\<lambda>c. radix_digit c < 10) s"
    using d by (auto simp: list_all_iff radix_digit_decimal digit_value_less)
  ultimately show ?thesis
    using s c d js_trim_digits [OF d]
    by (auto simp: js_BigInt_def parse_radix_def decimal_value_def radix_digit_decimal)
qed

subsection \<open>Number of a value\<close>

text \<open>
  \<open>Number(v)\<close> as an exact rational; None is NaN or an infinity. The rounding of a decimal
  text to the nearest double is not modelled, nor is the conversion of objects and arrays, which
  the types of the callers exclude.
\<close>

definition parse_exponent :: "string \<Rightarrow> int option" where
  "parse_exponent s =
    (let neg = (s \<noteq> [] \<and> hd s = CHR ''-'');
         ds = (if s \<noteq> [] \<and> (hd s = CHR ''-'' \<or> hd s = CHR ''+'') then tl s else s)
     in if ds = [] \<or> \<not> list_all is_digit ds then None
        else Some (if neg then - decimal_value ds else decimal_value ds))"

definition scale10 :: "rat \<Rightarrow> int \<Rightarrow> rat" where
  "scale10 x e = (if 0 \<le> e then x * 10 ^ nat e else x / 10 ^ nat (- e))"

definition parse_decimal :: "string \<Rightarrow> rat option" where
  "parse_decimal s =
    (let whole = takeWhile is_digit s;
         rest = dropWhile is_digit s;
         frac = (if rest \<noteq> [] \<and> hd rest = CHR ''.'' then takeWhile is_digit (tl rest) else []);
         rest' = (if rest \<noteq> [] \<and> hd rest = CHR ''.'' then dropWhile is_digit (tl rest) else rest);
         value = of_int (decimal_value (whole @ frac)) / 10 ^ length frac
     in if whole @ frac = [] then None
        else if rest' = [] then Some value
        else if hd rest' = CHR ''e'' \<or> hd rest' = CHR ''E''
        then map_option (scale10 value) (parse_exponent (tl rest'))
        else None)"

definition number_of_text :: "string \<Rightarrow> rat option" where
  "number_of_text text =
    (let s = js_trim text in
     if s = [] then Some 0
     else if take 2 s \<in> {''0x'', ''0X'', ''0o'', ''0O'', ''0b'', ''0B''}
     then (case js_BigInt s of Inr n \<Rightarrow> Some (of_int n) | Inl _ \<Rightarrow> None)
     else if hd s = CHR ''-'' then map_option uminus (parse_decimal (tl s))
     else if hd s = CHR ''+'' then parse_decimal (tl s)
     else parse_decimal s)"

definition js_Number :: "jsval \<Rightarrow> rat option" where
  "js_Number v =
    (case v of
       JNull \<Rightarrow> Some 0
     | JBool b \<Rightarrow> Some (if b then 1 else 0)
     | JInt n \<Rightarrow> Some (of_int n)
     | JFrac q \<Rightarrow> Some q
     | JStr s \<Rightarrow> number_of_text s
     | _ \<Rightarrow> None)"

text \<open>\<open>Number.isInteger(n)\<close> with the integer.\<close>

definition as_integer :: "rat option \<Rightarrow> int option" where
  "as_integer q = (case q of None \<Rightarrow> None
     | Some x \<Rightarrow> if of_int \<lfloor>x\<rfloor> = x then Some \<lfloor>x\<rfloor> else None)"

lemma js_Number_examples:
  "js_Number (JStr ''0.0125'') = Some (1 / 80)" "js_Number (JStr ''1e-2'') = Some (1 / 100)"
  "js_Number (JStr ''50x'') = None"
  by code_simp+

subsection \<open>Base64\<close>

text \<open>
  \<open>Buffer.from(text, "base64")\<close> reads up to the first padding character, accepts both
  alphabets, skips any other character and drops an incomplete trailing group.
\<close>

definition base64_digit :: "char \<Rightarrow> int option" where
  "base64_digit c =
    (if in_range CHR ''A'' CHR ''Z'' c then Some (char_code c - 65)
     else if in_range CHR ''a'' CHR ''z'' c then Some (char_code c - 71)
     else if is_digit c then Some (char_code c + 4)
     else if c = CHR ''+'' \<or> c = CHR ''-'' then Some 62
     else if c = CHR ''/'' \<or> c = CHR ''_'' then Some 63
     else None)"

fun base64_groups :: "int list \<Rightarrow> byte list" where
  "base64_groups (a # b # c # d # rest) =
    word_of_int (a * 4 + b div 16) # word_of_int (b * 16 + c div 4) # word_of_int (c * 64 + d)
    # base64_groups rest"
| "base64_groups [a, b, c] = [word_of_int (a * 4 + b div 16), word_of_int (b * 16 + c div 4)]"
| "base64_groups [a, b] = [word_of_int (a * 4 + b div 16)]"
| "base64_groups [a] = []"
| "base64_groups [] = []"

definition base64_decode :: "string \<Rightarrow> byte list" where
  "base64_decode text =
    base64_groups (List.map_filter base64_digit (takeWhile (\<lambda>c. c \<noteq> CHR ''='') text))"

lemma base64_example: "base64_decode ''aGVsbG8='' = map of_char ''hello''"
  by code_simp

subsection \<open>Printing, splitting and joining\<close>

text \<open>\<open>String(n)\<close> of an integer.\<close>

definition digit_char :: "nat \<Rightarrow> char" where
  "digit_char n = char_of (48 + n)"

function dec_digits :: "int \<Rightarrow> string" where
  "dec_digits n = (if n < 10 then [digit_char (nat n)]
     else dec_digits (n div 10) @ [digit_char (nat (n mod 10))])"
  by pat_completeness auto
termination by (relation "measure nat") auto

declare dec_digits.simps [simp del]

definition js_of_int :: "int \<Rightarrow> string" where
  "js_of_int i = (if i < 0 then CHR ''-'' # dec_digits (- i) else dec_digits i)"

lemma less_10_cases:
  "n < (10 :: nat) \<Longrightarrow> n = 0 \<or> n = 1 \<or> n = 2 \<or> n = 3 \<or> n = 4 \<or> n = 5 \<or> n = 6 \<or> n = 7 \<or> n = 8 \<or> n = 9"
  by presburger

lemma digit_char_digit: "n < 10 \<Longrightarrow> is_digit (digit_char n) \<and> digit_value (digit_char n) = int n"
  by (drule less_10_cases) (elim disjE; simp; code_simp)

lemma dec_digits_digits:
  "0 \<le> n \<Longrightarrow> list_all is_digit (dec_digits n) \<and> dec_digits n \<noteq> [] \<and> decimal_value (dec_digits n) = n"
proof (induction n rule: dec_digits.induct)
  case (1 n)
  show ?case
  proof (cases "n < 10")
    case True
    then show ?thesis
      using digit_char_digit [of "nat n"] 1(2) by (simp add: dec_digits.simps [of n] decimal_value_def)
  next
    case False
    then show ?thesis
      using 1 digit_char_digit [of "nat (n mod 10)"]
      by (simp add: dec_digits.simps [of n] decimal_value_def)
  qed
qed

lemma parse_decimal_digits:
  assumes "list_all is_digit s" "s \<noteq> []"
  shows "parse_decimal s = Some (of_int (decimal_value s))"
proof -
  have "takeWhile is_digit s = s" "dropWhile is_digit s = []"
    using assms(1) by (auto simp: list_all_iff takeWhile_eq_all_conv)
  then show ?thesis using assms(2) by (simp add: parse_decimal_def Let_def del: dropWhile_eq_Nil_conv takeWhile_eq_all_conv)
qed

lemma number_of_digits:
  assumes "list_all is_digit s" "s \<noteq> []"
  shows "number_of_text s = Some (of_int (decimal_value s))"
proof -
  obtain c cs where s: "s = c # cs" using assms(2) by (cases s) auto
  have "is_digit c" "list_all is_digit cs" using assms(1) s by auto
  then have t: "take 2 s \<notin> {''0x'', ''0X'', ''0o'', ''0O'', ''0b'', ''0B''}" and c: "c \<noteq> CHR ''-''" "c \<noteq> CHR ''+''"
    by (cases cs; auto simp: s is_digit_def in_range_def)+
  have "number_of_text s = parse_decimal s"
    unfolding number_of_text_def Let_def js_trim_digits [OF assms(1)] if_not_P [OF t] using c
    by (simp only: s list.simps list.sel if_False)
  then show ?thesis using parse_decimal_digits [OF assms] by simp
qed

text \<open>\<open>Number(String(n))\<close> is \<open>n\<close>.\<close>

lemma number_of_int:
  assumes "0 \<le> i"
  shows "as_integer (js_Number (JStr (js_of_int i))) = Some i"
  using assms dec_digits_digits [of i] number_of_digits [of "dec_digits i"]
  by (simp add: js_Number_def js_of_int_def as_integer_def)

text \<open>\<open>text.split(c)\<close> for one character and \<open>parts.join(c)\<close>.\<close>

fun js_split :: "char \<Rightarrow> string \<Rightarrow> string list" where
  "js_split c [] = [[]]"
| "js_split c (x # xs) =
    (if x = c then [] # js_split c xs
     else (case js_split c xs of [] \<Rightarrow> [[x]] | part # parts \<Rightarrow> (x # part) # parts))"

fun js_join :: "string \<Rightarrow> string list \<Rightarrow> string" where
  "js_join sep [] = []"
| "js_join sep [part] = part"
| "js_join sep (part # parts) = part @ sep @ js_join sep parts"

lemma js_split_none: "c \<notin> set s \<Longrightarrow> js_split c s = [s]"
  by (induction s) auto

lemma js_split_ne [simp]: "js_split c s \<noteq> []"
  by (cases s) (auto split: list.splits)

lemma js_split_append: "c \<notin> set a \<Longrightarrow> js_split c (a @ c # s) = a # js_split c s"
  by (induction a) auto

lemma js_split_join:
  "parts \<noteq> [] \<Longrightarrow> list_all (\<lambda>part. c \<notin> set part) parts \<Longrightarrow> js_split c (js_join [c] parts) = parts"
  by (induction "[c]" parts rule: js_join.induct) (auto simp: js_split_none js_split_append)

end
