(* ===== verification/Gates.thy ===== *)
theory Gates
  imports JsText DirectCurve
begin

text \<open>
  The admission gates of \<open>quote-service/core.ts\<close>: the checks on mints and token accounts
  read from the chain, on lookup tables, and on what Jupiter returns, before any of it enters
  the burn instruction. Every gate is a function into the result type; its lemma says what its
  success guarantees.
\<close>

subsection \<open>Interfaces to the chain and to Jupiter\<close>

record lookup_table =
  lt_key :: pubkey
  lt_deactivationSlot :: int
  lt_addresses :: "pubkey list"

record latest_blockhash =
  lb_blockhash :: string
  lb_lastValidBlockHeight :: int
  lb_contextSlot :: int

text \<open>A simulation: the error (None when it succeeded), its logs and the units consumed.\<close>

record 'e simulation_result =
  sim_error :: "'e option"
  sim_logs :: "string list nullable"
  sim_unitsConsumed :: "int option"

record ('tx, 'e) chain_gateway =
  getMint :: "pubkey \<Rightarrow> mint_snapshot option res"
  getTokenAccount :: "pubkey \<Rightarrow> token_account_snapshot option res"
  getRawAccount :: "pubkey \<Rightarrow> raw_account_snapshot option res"
  getAccountData :: account_reader
  getAddressLookupTable :: "pubkey \<Rightarrow> lookup_table option res"
  getLatestBlockhash :: "latest_blockhash res"
  getBlockHeight :: "int res"
  getRentFloorForZeroData :: "int res"
  simulate_tx :: "'tx \<Rightarrow> 'e simulation_result res"

record jupiter_instruction =
  ji_programId :: string
  ji_accounts :: "route_meta list"
  ji_data :: string

text \<open>
  The response of Jupiter's build endpoint, the fields the service reads. \<open>jb_error\<close> is
  the truth value of \<open>error\<close>; \<open>jb_priceImpactPct\<close> and \<open>jb_slippageBps\<close>
  are JSON values.
\<close>

record jupiter_build =
  jb_error :: bool
  jb_swapMode :: string
  jb_inputMint :: "string option"
  jb_outputMint :: "string option"
  jb_inAmount :: string
  jb_outAmount :: string
  jb_otherAmountThreshold :: string
  jb_slippageBps :: jsval
  jb_priceImpactPct :: jsval
  jb_platformFee :: jsval
  jb_swapInstruction :: "jupiter_instruction option"
  jb_setupInstructions :: "jupiter_instruction list option"
  jb_cleanupInstruction :: "jupiter_instruction option"
  jb_otherInstructions :: "jupiter_instruction list option"
  jb_tipInstruction :: "jupiter_instruction option"
  jb_addressesByLookupTableAddress :: "(string \<times> string list) list option"

subsection \<open>Mints\<close>

text \<open>One Token-2022 extension of a target mint.\<close>

definition allowed_mint_extension :: "mint_snapshot \<Rightarrow> int \<Rightarrow> bool" where
  "allowed_mint_extension s e \<longleftrightarrow> e = 18 \<or> e = 19 \<or>
    (e = 14 \<and> m_address s = PUMP_MINT \<and>
     m_transferHookAuthority s = Val PUMP_TRANSFER_HOOK_AUTHORITY \<and>
     m_transferHookProgram s = Null)"

definition requireAllowedMint :: "mint_snapshot option \<Rightarrow> bool \<Rightarrow> mint_snapshot res" where
  "requireAllowedMint snapshot target =
    (case snapshot of None \<Rightarrow> reject ''INVALID_MINT''
     | Some s \<Rightarrow>
        if \<not> m_initialized s then reject ''INVALID_MINT''
        else if m_ownerProgram s \<noteq> TOKEN_PROGRAM_ID \<and> m_ownerProgram s \<noteq> TOKEN_2022_PROGRAM_ID
        then reject ''INVALID_MINT_OWNER''
        else if \<not> target then
          (if m_ownerProgram s = TOKEN_2022_PROGRAM_ID \<and> truthy (m_closeAuthority s)
           then reject ''LAUNCH_MINT_CLOSABLE'' else Inr s)
        else if m_address s = NATIVE_MINT \<or> m_address s = NATIVE_MINT_2022
        then reject ''TARGET_MINT_NATIVE''
        else if m_mintAuthority s \<noteq> None then reject ''TARGET_MINTABLE''
        else if m_freezeAuthority s \<noteq> None then reject ''TARGET_FREEZABLE''
        else if m_ownerProgram s = TOKEN_2022_PROGRAM_ID
          \<and> (\<exists>e \<in> set (m_extensionTypes s). \<not> allowed_mint_extension s e)
        then reject ''UNSUPPORTED_TOKEN_2022_MINT''
        else Inr s)"

definition safe_target :: "mint_snapshot \<Rightarrow> bool" where
  "safe_target s \<longleftrightarrow>
    m_initialized s \<and>
    (m_ownerProgram s = TOKEN_PROGRAM_ID \<or>
     m_ownerProgram s = TOKEN_2022_PROGRAM_ID \<and>
       list_all (allowed_mint_extension s) (m_extensionTypes s)) \<and>
    m_address s \<noteq> NATIVE_MINT \<and> m_address s \<noteq> NATIVE_MINT_2022 \<and>
    m_mintAuthority s = None \<and> m_freezeAuthority s = None"

lemma requireAllowedMint_target [res_simps]:
  "requireAllowedMint snapshot True = Inr s \<longleftrightarrow> snapshot = Some s \<and> safe_target s"
  by (cases snapshot)
    (auto simp: requireAllowedMint_def safe_target_def list_all_iff program_ids)

lemma requireAllowedMint_launch [res_simps]:
  "requireAllowedMint snapshot False = Inr s \<longleftrightarrow> snapshot = Some s \<and> m_initialized s \<and>
    (m_ownerProgram s = TOKEN_PROGRAM_ID \<or>
     m_ownerProgram s = TOKEN_2022_PROGRAM_ID \<and> \<not> truthy (m_closeAuthority s))"
  by (cases snapshot) (auto simp: requireAllowedMint_def program_ids)

subsection \<open>Token accounts\<close>

definition requireTokenAccount ::
  "token_account_snapshot option \<Rightarrow> pubkey \<Rightarrow> pubkey \<Rightarrow> pubkey \<Rightarrow> pubkey \<Rightarrow> bool \<Rightarrow>
    token_account_snapshot res" where
  "requireTokenAccount snapshot expectedAddress program mint authority native =
    (case snapshot of None \<Rightarrow> reject ''INVALID_TOKEN_ACCOUNT''
     | Some s \<Rightarrow>
        if t_address s \<noteq> expectedAddress \<or> \<not> t_initialized s
        then reject ''INVALID_TOKEN_ACCOUNT''
        else if t_ownerProgram s \<noteq> program \<or> t_mint s \<noteq> mint \<or> t_authority s \<noteq> authority
          \<or> t_isNative s \<noteq> native
        then reject ''INVALID_TOKEN_ACCOUNT''
        else if t_delegate s \<noteq> None \<or> t_closeAuthority s \<noteq> None
        then reject ''ENCUMBERED_TOKEN_ACCOUNT''
        else if program = TOKEN_2022_PROGRAM_ID then
          (if \<exists>e \<in> set (t_extensionTypes s). e \<noteq> 7 \<and> e \<noteq> 15
           then reject ''UNSUPPORTED_TOKEN_2022_ACCOUNT'' else Inr s)
        else if t_extensionTypes s \<noteq> [] then reject ''INVALID_TOKEN_ACCOUNT''
        else Inr s)"

definition usable_account ::
  "token_account_snapshot \<Rightarrow> pubkey \<Rightarrow> pubkey \<Rightarrow> pubkey \<Rightarrow> pubkey \<Rightarrow> bool \<Rightarrow> bool" where
  "usable_account s address program mint authority native \<longleftrightarrow>
    t_address s = address \<and> t_initialized s \<and> t_ownerProgram s = program \<and> t_mint s = mint \<and>
    t_authority s = authority \<and> t_isNative s = native \<and>
    t_delegate s = None \<and> t_closeAuthority s = None \<and>
    set (t_extensionTypes s) \<subseteq> (if program = TOKEN_2022_PROGRAM_ID then {7, 15} else {})"

lemma requireTokenAccount_Inr [res_simps]:
  "requireTokenAccount snapshot address program mint authority native = Inr s \<longleftrightarrow>
    snapshot = Some s \<and> usable_account s address program mint authority native"
  by (cases snapshot) (auto simp: requireTokenAccount_def usable_account_def)

subsection \<open>Lookup tables\<close>

definition check_lookup_table ::
  "web3 \<Rightarrow> ('tx, 'e) chain_gateway \<Rightarrow> (string \<times> string list) list \<Rightarrow> string \<Rightarrow>
    lookup_table res" where
  "check_lookup_table w chain claimed address =
    (case parsePubkey w address of None \<Rightarrow> Inl (PlainError ''Invalid public key input'')
     | Some key \<Rightarrow> bindR (getAddressLookupTable chain key) (\<lambda>found.
        case found of None \<Rightarrow> reject ''MISSING_ALT''
        | Some table \<Rightarrow>
            if lt_deactivationSlot table \<noteq> ACTIVE_ALT_SLOT then reject ''INACTIVE_ALT''
            else (case map_of claimed address of
                None \<Rightarrow> Inr table
              | Some advertised \<Rightarrow>
                  if advertised \<noteq> map toBase58 (lt_addresses table) then reject ''ALT_MISMATCH''
                  else Inr table)))"

definition resolveAndValidateLookupTables ::
  "web3 \<Rightarrow> ('tx, 'e) chain_gateway \<Rightarrow> (string \<times> string list) list \<Rightarrow> string list \<Rightarrow>
    lookup_table list res" where
  "resolveAndValidateLookupTables w chain claimed requested =
    traverse (check_lookup_table w chain claimed) (dedup (map fst claimed @ requested))"

lemma check_lookup_table_Inr [res_simps]:
  "check_lookup_table w chain claimed address = Inr table \<longleftrightarrow>
    (\<exists>key. parsePubkey w address = Some key \<and>
      getAddressLookupTable chain key = Inr (Some table) \<and>
      lt_deactivationSlot table = ACTIVE_ALT_SLOT \<and>
      map_of claimed address \<in> {None, Some (map toBase58 (lt_addresses table))})"
  by (cases "map_of claimed address") (auto simp: check_lookup_table_def res_simps)

subsection \<open>The Jupiter route\<close>

record route_offsets =
  ro_fixed :: nat
  ro_input :: nat
  ro_platformFee :: nat
  ro_positiveSlippageFee :: nat
  ro_authority :: nat
  ro_source :: nat
  ro_destination :: nat
  ro_sourceMint :: nat
  ro_destinationMint :: nat
  ro_sourceTokenProgram :: nat
  ro_destinationTokenProgram :: nat
  ro_eventAuthority :: nat
  ro_program :: nat

definition routeOffsets :: "bool \<Rightarrow> route_offsets" where
  "routeOffsets shared =
    (if shared
     then \<lparr>ro_fixed = 12, ro_input = 9, ro_platformFee = 27, ro_positiveSlippageFee = 29,
       ro_authority = 1, ro_source = 2, ro_destination = 5, ro_sourceMint = 6,
       ro_destinationMint = 7, ro_sourceTokenProgram = 8, ro_destinationTokenProgram = 9,
       ro_eventAuthority = 10, ro_program = 11\<rparr>
     else \<lparr>ro_fixed = 10, ro_input = 8, ro_platformFee = 26, ro_positiveSlippageFee = 28,
       ro_authority = 0, ro_source = 1, ro_destination = 2, ro_sourceMint = 3,
       ro_destinationMint = 4, ro_sourceTokenProgram = 5, ro_destinationTokenProgram = 6,
       ro_eventAuthority = 8, ro_program = 9\<rparr>)"

definition route_pins ::
  "bool \<Rightarrow> pubkey \<Rightarrow> pubkey \<Rightarrow> pubkey \<Rightarrow> pubkey \<Rightarrow> pubkey \<Rightarrow> (nat \<times> pubkey) list" where
  "route_pins shared pda wsolAta targetMint targetAta targetTokenProgram =
    (let ofs = routeOffsets shared in
     [(ro_authority ofs, pda), (ro_source ofs, wsolAta), (ro_destination ofs, targetAta),
      (ro_sourceMint ofs, NATIVE_MINT), (ro_destinationMint ofs, targetMint),
      (ro_sourceTokenProgram ofs, TOKEN_PROGRAM_ID),
      (ro_destinationTokenProgram ofs, targetTokenProgram),
      (ro_eventAuthority ofs, JUPITER_EVENT_AUTHORITY), (ro_program ofs, JUPITER_PROGRAM)]
     @ (if shared then [] else [(7, targetAta)]))"

text \<open>\<open>value && value !== expected\<close> of an optional string: the empty string is falsy.\<close>

definition string_differs :: "string option \<Rightarrow> string \<Rightarrow> bool" where
  "string_differs s expected \<longleftrightarrow> (case s of None \<Rightarrow> False | Some t \<Rightarrow> t \<noteq> [] \<and> t \<noteq> expected)"

definition platform_fee_charged :: "jsval \<Rightarrow> bool" where
  "platform_fee_charged fee \<longleftrightarrow>
    (case fee of
      JUndef \<Rightarrow> False
    | JNull \<Rightarrow> False
    | JObj kvs \<Rightarrow> field kvs ''amount'' \<noteq> JStr ''0''
        \<or> field kvs ''feeBps'' \<notin> {JUndef, JNull, JInt 0}
    | _ \<Rightarrow> True)"

definition assertRoute ::
  "jupiter_build \<Rightarrow> pubkey \<Rightarrow> pubkey \<Rightarrow> pubkey \<Rightarrow> pubkey \<Rightarrow> pubkey \<Rightarrow> int \<Rightarrow> byte list res" where
  "assertRoute build pda wsolAta targetMint targetAta targetTokenProgram amountIn =
    (if jb_error build then reject ''JUPITER_BUILD_FAILED''
     else if jb_swapMode build \<noteq> ''ExactIn'' then reject ''JUPITER_INPUT_MISMATCH''
     else bindR (js_BigInt (jb_inAmount build)) (\<lambda>inAmount.
       if inAmount \<noteq> amountIn then reject ''JUPITER_INPUT_MISMATCH''
       else if string_differs (jb_inputMint build) (toBase58 NATIVE_MINT)
       then reject ''JUPITER_MINT_MISMATCH''
       else if string_differs (jb_outputMint build) (toBase58 targetMint)
       then reject ''JUPITER_MINT_MISMATCH''
       else if platform_fee_charged (jb_platformFee build) then reject ''JUPITER_FEE''
       else (case jb_swapInstruction build of
         None \<Rightarrow> reject ''INVALID_JUPITER_PROGRAM''
       | Some swap \<Rightarrow>
         if ji_programId swap \<noteq> toBase58 JUPITER_PROGRAM then reject ''INVALID_JUPITER_PROGRAM''
         else (let data = base64_decode (ji_data swap);
                   discriminator = subarray 0 8 data;
                   shared = (discriminator = SHARED_ROUTE_V2_DISCRIMINATOR);
                   ofs = routeOffsets shared;
                   accounts = ji_accounts swap
           in if \<not> shared \<and> discriminator \<noteq> ROUTE_V2_DISCRIMINATOR
              then reject ''INVALID_JUPITER_INSTRUCTION''
              else if length data < ro_positiveSlippageFee ofs + 6
              then reject ''INVALID_JUPITER_INSTRUCTION''
              else bindR (readLE 8 data (ro_input ofs)) (\<lambda>input.
                if input \<noteq> amountIn then reject ''JUPITER_INPUT_MISMATCH''
                else bindR (readLE 2 data (ro_platformFee ofs)) (\<lambda>platformFee.
                bindR (readLE 2 data (ro_positiveSlippageFee ofs)) (\<lambda>positiveSlippageFee.
                if platformFee \<noteq> 0 \<or> positiveSlippageFee \<noteq> 0 then reject ''JUPITER_FEE''
                else if length accounts < ro_fixed ofs then reject ''INVALID_JUPITER_ACCOUNTS''
                else if \<exists>(index, key) \<in> set (route_pins shared pda wsolAta targetMint targetAta
                    targetTokenProgram).
                    map_option rm_pubkey (nth_opt accounts index) \<noteq> Some (toBase58 key)
                then reject ''INVALID_JUPITER_ACCOUNTS''
                else if \<exists>account \<in> set accounts.
                    rm_isSigner account \<and> rm_pubkey account \<noteq> toBase58 pda
                then reject ''FORBIDDEN_ROUTE_SIGNER''
                else Inr data)))))))"

definition assertAuxiliaryInstructions :: "jupiter_build \<Rightarrow> jupiter_instruction list res" where
  "assertAuxiliaryInstructions build =
    (if jb_cleanupInstruction build \<noteq> None \<or> jb_tipInstruction build \<noteq> None
        \<or> (case jb_otherInstructions build of None \<Rightarrow> False | Some xs \<Rightarrow> xs \<noteq> [])
     then reject ''AUXILIARY_INSTRUCTION''
     else (let setup = (case jb_setupInstructions build of None \<Rightarrow> [] | Some xs \<Rightarrow> xs)
       in if \<exists>instruction \<in> set setup.
            ji_programId instruction \<noteq> toBase58 ASSOCIATED_TOKEN_PROGRAM_ID
            \<or> ji_data instruction \<noteq> ''AQ==''
          then reject ''UNSAFE_SETUP'' else Inr setup))"

text \<open>What a successful check of a route gives.\<close>

definition pinned_route ::
  "jupiter_build \<Rightarrow> byte list \<Rightarrow> pubkey \<Rightarrow> pubkey \<Rightarrow> pubkey \<Rightarrow> pubkey \<Rightarrow> pubkey \<Rightarrow> int \<Rightarrow> bool" where
  "pinned_route build data pda wsolAta targetMint targetAta targetTokenProgram amountIn \<longleftrightarrow>
    jb_swapMode build = ''ExactIn'' \<and> js_BigInt (jb_inAmount build) = Inr amountIn \<and>
    \<not> platform_fee_charged (jb_platformFee build) \<and>
    (\<exists>swap shared. jb_swapInstruction build = Some swap \<and>
      ji_programId swap = toBase58 JUPITER_PROGRAM \<and> data = base64_decode (ji_data swap) \<and>
      take 8 data = (if shared then SHARED_ROUTE_V2_DISCRIMINATOR else ROUTE_V2_DISCRIMINATOR) \<and>
      readLE 8 data (ro_input (routeOffsets shared)) = Inr amountIn \<and>
      readLE 2 data (ro_platformFee (routeOffsets shared)) = Inr 0 \<and>
      readLE 2 data (ro_positiveSlippageFee (routeOffsets shared)) = Inr 0 \<and>
      list_all (\<lambda>(index, key). map_option rm_pubkey (nth_opt (ji_accounts swap) index)
          = Some (toBase58 key))
        (route_pins shared pda wsolAta targetMint targetAta targetTokenProgram) \<and>
      list_all (\<lambda>a. rm_pubkey a = toBase58 pda \<or> \<not> rm_isSigner a) (ji_accounts swap))"

lemma take_discriminator:
  "(let shared = (d = SHARED_ROUTE_V2_DISCRIMINATOR) in shared \<or> d = ROUTE_V2_DISCRIMINATOR) \<Longrightarrow>
    d = (if d = SHARED_ROUTE_V2_DISCRIMINATOR then SHARED_ROUTE_V2_DISCRIMINATOR
         else ROUTE_V2_DISCRIMINATOR)"
  by (auto simp: Let_def)

lemma assertRoute_pinned:
  assumes "assertRoute build pda wsolAta targetMint targetAta targetTokenProgram amountIn = Inr data"
  shows "pinned_route build data pda wsolAta targetMint targetAta targetTokenProgram amountIn"
proof -
  obtain swap where swap: "jb_swapInstruction build = Some swap"
    using assms by (auto simp: assertRoute_def res_simps)
  define shared where "shared \<longleftrightarrow> subarray 0 8 data = SHARED_ROUTE_V2_DISCRIMINATOR"
  have *: "jb_swapMode build = ''ExactIn''" "js_BigInt (jb_inAmount build) = Inr amountIn"
      "\<not> platform_fee_charged (jb_platformFee build)"
      "ji_programId swap = toBase58 JUPITER_PROGRAM" "data = base64_decode (ji_data swap)"
      "shared \<or> subarray 0 8 data = ROUTE_V2_DISCRIMINATOR"
      "readLE 8 data (ro_input (routeOffsets shared)) = Inr amountIn"
      "readLE 2 data (ro_platformFee (routeOffsets shared)) = Inr 0"
      "readLE 2 data (ro_positiveSlippageFee (routeOffsets shared)) = Inr 0"
      "\<forall>(index, key) \<in> set (route_pins shared pda wsolAta targetMint targetAta targetTokenProgram).
        map_option rm_pubkey (nth_opt (ji_accounts swap) index) = Some (toBase58 key)"
      "\<forall>a \<in> set (ji_accounts swap). \<not> (rm_isSigner a \<and> rm_pubkey a \<noteq> toBase58 pda)"
    using assms swap unfolding shared_def
    by (auto simp: assertRoute_def bindR_Inr_iff if_Inl_Inr Let_def split: prod.splits)
  have "take 8 data = (if shared then SHARED_ROUTE_V2_DISCRIMINATOR else ROUTE_V2_DISCRIMINATOR)"
    using *(6) by (auto simp: shared_def subarray_def)
  with * swap show ?thesis
    unfolding pinned_route_def list_all_iff by blast
qed

subsection \<open>Properties\<close>

text \<open>
  A mint is admitted as a burn target exactly when it is initialised, belongs to SPL Token
  or Token-2022, is neither wrapped-SOL mint, has no mint and no freeze authority, and, under
  Token-2022, has no extension but the metadata ones; the transfer hook extension only on $PUMP
  with its pinned hook authority and no hook program.
\<close>

theorem admitted_target:
  "requireAllowedMint snapshot True = Inr s \<longleftrightarrow>
    snapshot = Some s \<and> m_initialized s \<and>
    m_ownerProgram s \<in> {TOKEN_PROGRAM_ID, TOKEN_2022_PROGRAM_ID} \<and>
    m_address s \<notin> {NATIVE_MINT, NATIVE_MINT_2022} \<and>
    m_mintAuthority s = None \<and> m_freezeAuthority s = None \<and>
    (m_ownerProgram s = TOKEN_PROGRAM_ID \<or>
     set (m_extensionTypes s) \<subseteq>
       (if m_address s = PUMP_MINT \<and>
           m_transferHookAuthority s = Val PUMP_TRANSFER_HOOK_AUTHORITY \<and>
           m_transferHookProgram s = Null
        then {14, 18, 19} else {18, 19}))"
  by (auto simp: requireAllowedMint_target safe_target_def list_all_iff allowed_mint_extension_def)


text \<open>A route of one million lamports with the ten fixed accounts of the plain layout.\<close>

definition example_route :: jupiter_build where
  "example_route = \<lparr>jb_error = False, jb_swapMode = ''ExactIn'', jb_inputMint = None,
    jb_outputMint = None, jb_inAmount = ''1000000'', jb_outAmount = ''5000'',
    jb_otherAmountThreshold = ''4900'', jb_slippageBps = JInt 50,
    jb_priceImpactPct = JStr ''0.01'', jb_platformFee = JNull,
    jb_swapInstruction = Some \<lparr>ji_programId = toBase58 JUPITER_PROGRAM,
      ji_accounts = map (\<lambda>(k, sg). \<lparr>rm_pubkey = toBase58 k, rm_isSigner = sg, rm_isWritable = True\<rparr>)
        [(example_key 86, True), (example_key 87, False), (example_key 85, False),
         (NATIVE_MINT, False), (example_key 84, False), (TOKEN_PROGRAM_ID, False),
         (TOKEN_PROGRAM_ID, False), (example_key 85, False), (JUPITER_EVENT_AUTHORITY, False),
         (JUPITER_PROGRAM, False)],
      ji_data = ''u2T6zDHErxRAQg8AAAAAAAAAAAAAAAAAAAAAAAAAAAAAAA==''\<rparr>,
    jb_setupInstructions = None, jb_cleanupInstruction = None, jb_otherInstructions = None,
    jb_tipInstruction = None, jb_addressesByLookupTableAddress = None\<rparr>"

lemma example_route_accepted:
  "case assertRoute example_route (example_key 86) (example_key 87) (example_key 84)
     (example_key 85) TOKEN_PROGRAM_ID 1000000 of Inr data \<Rightarrow> length data = 34 | Inl e \<Rightarrow> False"
  by code_simp


text \<open>
  The lookup tables of a transaction are the tables named by Jupiter and by the request,
  each once, read from the chain and active; where Jupiter sent a snapshot of a table, it equals
  the table on the chain.
\<close>

theorem lookup_tables_live:
  "resolveAndValidateLookupTables w chain claimed requested = Inr tables \<longleftrightarrow>
    list_all2 (\<lambda>address table. \<exists>key. parsePubkey w address = Some key \<and>
        getAddressLookupTable chain key = Inr (Some table) \<and>
        lt_deactivationSlot table = 18446744073709551615 \<and>
        map_of claimed address \<in> {None, Some (map toBase58 (lt_addresses table))})
      (dedup (map fst claimed @ requested)) tables"
  by (auto simp: resolveAndValidateLookupTables_def traverse_from_Inr_iff check_lookup_table_Inr
      ACTIVE_ALT_SLOT_def list_all2_conv_all_nth)

end
