(* ===== verification/Burn.thy ===== *)
theory Burn
  imports Gates
begin

text \<open>
  The burn instruction of \<open>quote-service/core.ts\<close>: the vault address, the instruction
  data (\<open>splitData\<close>) and the account list (\<open>buildBurnInstruction\<close>). The lemmas
  show that a vault address binds its whole configuration and where the instruction carries
  each account.
\<close>

subsection \<open>Prepared legs\<close>

record prepared_leg =
  pl_targetMint :: pubkey
  pl_targetTokenProgram :: pubkey
  pl_targetAta :: pubkey
  pl_bps :: int
  pl_amountIn :: int
  pl_minimumOutput :: int
  pl_reference :: resolved_reference
  pl_routeAccounts :: "route_meta list"
  pl_routeData :: "byte list"
  pl_lookupTables :: "lookup_table list"

subsection \<open>The vault address\<close>

record vault_leg =
  vl_targetMint :: pubkey
  vl_bps :: int
  vl_refSeed :: "byte list"

text \<open>The seeds; \<open>writeUInt16LE\<close> throws on a weight that does not fit.\<close>

definition vaultSeeds :: "web3 \<Rightarrow> pubkey \<Rightarrow> vault_leg list \<Rightarrow> byte list list res" where
  "vaultSeeds w launchMint legs =
    bindR (traverse (\<lambda>leg. writeLE 2 (vl_bps leg)) legs) (\<lambda>weights.
      Inr ([BURNER_SEED, pubkeyBytes w launchMint]
           @ map (\<lambda>leg. pubkeyBytes w (vl_targetMint leg)) legs
           @ [concat weights]
           @ map vl_refSeed legs))"

definition deriveVault :: "web3 \<Rightarrow> pubkey \<Rightarrow> pubkey \<Rightarrow> vault_leg list \<Rightarrow> pubkey res" where
  "deriveVault w burnerProgram launchMint legs =
    bindR (vaultSeeds w launchMint legs) (\<lambda>seeds.
    bindR (findProgramAddress w seeds burnerProgram) (\<lambda>(vault, _). Inr vault))"

subsection \<open>The instruction\<close>

definition legData :: "prepared_leg \<Rightarrow> byte list res" where
  "legData leg =
    (if length (pl_routeAccounts leg) > 255 then reject ''TOO_MANY_ROUTE_ACCOUNTS''
     else bindR (writeLE 2 (pl_bps leg)) (\<lambda>bps.
       bindR (writeLE 8 (pl_minimumOutput leg)) (\<lambda>minimumOutput.
       bindR (writeLE 1 (int (length (pl_routeAccounts leg)))) (\<lambda>accountCount.
       bindR (writeLE 4 (int (length (pl_routeData leg)))) (\<lambda>dataLength.
         Inr (bps @ minimumOutput @ accountCount @ dataLength @ pl_routeData leg))))))"

definition splitData :: "int \<Rightarrow> prepared_leg list \<Rightarrow> byte list res" where
  "splitData tot legs =
    bindR (writeLE 8 tot) (\<lambda>tot8.
    bindR (writeLE 4 (int (length legs))) (\<lambda>count4.
    bindR (traverse legData legs) (\<lambda>parts.
      Inr (SPLIT_DISCRIMINATOR @ tot8 @ count4 @ concat parts))))"

definition legBlock :: "prepared_leg \<Rightarrow> account_meta list" where
  "legBlock leg =
    [meta (pl_targetMint leg) False True,
     meta (pl_targetAta leg) False True,
     meta (pl_targetTokenProgram leg) False False,
     meta (rr_pool (pl_reference leg)) False False,
     meta (rr_vaultA (pl_reference leg)) False False,
     meta (rr_vaultB (pl_reference leg)) False False,
     meta (rr_feeSource (pl_reference leg)) False False]"

definition routeKey :: "web3 \<Rightarrow> route_meta \<Rightarrow> account_meta res" where
  "routeKey w account =
    (case parsePubkey w (rm_pubkey account) of
       None \<Rightarrow> Inl (PlainError ''Invalid public key input'')
     | Some k \<Rightarrow> Inr (meta k False (rm_isWritable account)))"

definition buildBurnInstruction ::
  "web3 \<Rightarrow> pubkey \<Rightarrow> pubkey \<Rightarrow> pubkey \<Rightarrow> pubkey \<Rightarrow> pubkey \<Rightarrow> int \<Rightarrow> prepared_leg list \<Rightarrow>
    instruction res" where
  "buildBurnInstruction w burnerProgram feePayer launchMint pda wsolAta amount legs =
    bindR (traverse (routeKey w) (concat (map pl_routeAccounts legs))) (\<lambda>routeKeys.
    bindR (splitData amount legs) (\<lambda>data.
      Inr \<lparr>programId = burnerProgram,
           keys =
             [meta feePayer True False,
              meta burnerProgram False False,
              meta pda False True,
              meta wsolAta False True,
              meta launchMint False False,
              meta SYSTEM_PROGRAM False False,
              meta TOKEN_PROGRAM_ID False False,
              meta JUPITER_PROGRAM False False]
             @ concat (map legBlock legs) @ routeKeys,
           ix_data = data\<rparr>))"

subsection \<open>The encoding of one leg\<close>

definition leg_encodable :: "prepared_leg \<Rightarrow> bool" where
  "leg_encodable leg \<longleftrightarrow> 0 \<le> pl_bps leg \<and> pl_bps leg < 256 ^ 2 \<and>
    0 \<le> pl_minimumOutput leg \<and> pl_minimumOutput leg < 256 ^ 8 \<and>
    length (pl_routeAccounts leg) \<le> 255 \<and> int (length (pl_routeData leg)) < 256 ^ 4"

definition leg_header :: "prepared_leg \<Rightarrow> byte list" where
  "leg_header leg = le_bytes 2 (pl_bps leg) @ le_bytes 8 (pl_minimumOutput leg)
    @ le_bytes 1 (int (length (pl_routeAccounts leg))) @ le_bytes 4 (int (length (pl_routeData leg)))"

lemma length_leg_header [simp]: "length (leg_header leg) = 15"
  by (simp add: leg_header_def)

lemma legData_Inr [res_simps]:
  "legData leg = Inr bs \<longleftrightarrow> leg_encodable leg \<and> bs = leg_header leg @ pl_routeData leg"
  by (auto simp: legData_def res_simps leg_encodable_def leg_header_def)

lemma splitData_Inr [res_simps]:
  "splitData tot legs = Inr data \<longleftrightarrow>
    0 \<le> tot \<and> tot < 256 ^ 8 \<and> int (length legs) < 256 ^ 4 \<and> list_all leg_encodable legs \<and>
    data = SPLIT_DISCRIMINATOR @ le_bytes 8 tot @ le_bytes 4 (int (length legs))
      @ concat (map (\<lambda>leg. leg_header leg @ pl_routeData leg) legs)"
proof -
  have "traverse legData legs = Inr parts \<longleftrightarrow>
      list_all leg_encodable legs \<and> parts = map (\<lambda>leg. leg_header leg @ pl_routeData leg) legs" for parts
    by (auto simp: traverse_from_Inr_iff legData_Inr list_all_length intro: nth_equalityI)
  then show ?thesis
    by (auto simp: splitData_def res_simps)
qed

lemma buildBurnInstruction_Inr:
  assumes "buildBurnInstruction w burnerProgram feePayer launchMint pda wsolAta amount legs = Inr ix"
  obtains routeKeys where
    "keys ix = [meta feePayer True False, meta burnerProgram False False, meta pda False True,
      meta wsolAta False True, meta launchMint False False, meta SYSTEM_PROGRAM False False,
      meta TOKEN_PROGRAM_ID False False, meta JUPITER_PROGRAM False False]
      @ concat (map legBlock legs) @ routeKeys"
    "programId ix = burnerProgram" "splitData amount legs = Inr (ix_data ix)"
    "list_all (\<lambda>m. \<not> isSigner m) routeKeys"
proof -
  obtain routeKeys where r: "traverse (routeKey w) (concat (map pl_routeAccounts legs)) = Inr routeKeys"
      and ix: "keys ix = [meta feePayer True False, meta burnerProgram False False, meta pda False True,
        meta wsolAta False True, meta launchMint False False, meta SYSTEM_PROGRAM False False,
        meta TOKEN_PROGRAM_ID False False, meta JUPITER_PROGRAM False False]
        @ concat (map legBlock legs) @ routeKeys"
      "programId ix = burnerProgram" "splitData amount legs = Inr (ix_data ix)"
    using assms by (auto simp: buildBurnInstruction_def bindR_Inr_iff)
  have "\<not> isSigner m" if "m \<in> set routeKeys" for m
    using traverse_from_set [OF r that] by (auto simp: routeKey_def split: option.splits)
  then show ?thesis
    using that [OF ix] by (simp add: list_all_iff)
qed

text \<open>The seven accounts of a leg start at index \<open>8 + 7 * i\<close>.\<close>

lemma nth_concat_blocks:
  "(\<And>x. x \<in> set xs \<Longrightarrow> length (f x) = k) \<Longrightarrow> i < length xs \<Longrightarrow> j < k \<Longrightarrow>
    concat (map f xs) ! (k * i + j) = f (xs ! i) ! j"
proof (induction xs arbitrary: i)
  case (Cons x xs)
  show ?case
  proof (cases i)
    case 0
    then show ?thesis using Cons.prems by (simp add: nth_append)
  next
    case (Suc i')
    then have "\<not> k * i + j < k" "k * i + j - k = k * i' + j" by simp_all
    then show ?thesis
      using Cons.prems Cons.IH [of i'] Suc by (simp add: nth_append)
  qed
qed simp

lemma length_concat_blocks:
  "(\<And>x. x \<in> set xs \<Longrightarrow> length (f x) = k) \<Longrightarrow> length (concat (map f xs)) = k * length xs"
  by (induction xs) auto

lemma length_legBlock [simp]: "length (legBlock leg) = 7"
  by (simp add: legBlock_def)

lemma instruction_leg_key:
  assumes "keys ix = hdr @ concat (map legBlock legs) @ rest" "length hdr = 8"
    and "i < length legs" "j < 7"
  shows "8 + 7 * i + j < length (keys ix)" "keys ix ! (8 + 7 * i + j) = legBlock (legs ! i) ! j"
proof -
  have len: "length (concat (map legBlock legs)) = 7 * length legs"
    by (rule length_concat_blocks) simp
  have lt: "7 * i + j < 7 * length legs" using assms(3,4) by linarith
  then show "8 + 7 * i + j < length (keys ix)"
    by (simp add: assms(1,2) len)
  have "keys ix ! (8 + (7 * i + j)) = concat (map legBlock legs) ! (7 * i + j)"
    using lt by (simp add: assms(1) nth_append [of hdr] nth_append [of "concat _"] assms(2) len)
  then show "keys ix ! (8 + 7 * i + j) = legBlock (legs ! i) ! j"
    using nth_concat_blocks [of legs legBlock 7 i j] assms(3,4) by (simp add: add.assoc)
qed

subsection \<open>What the seeds determine\<close>

lemma concat_blocks_inject:
  "length xs = length ys \<Longrightarrow> \<forall>x \<in> set xs. length x = k \<Longrightarrow> \<forall>y \<in> set ys. length y = k \<Longrightarrow>
    concat xs = concat ys \<Longrightarrow> xs = ys"
  by (induction xs ys rule: list_induct2) auto

lemma le_bytes_inject:
  "0 \<le> x \<Longrightarrow> x < 256 ^ n \<Longrightarrow> 0 \<le> y \<Longrightarrow> y < 256 ^ n \<Longrightarrow> le_bytes n x = le_bytes n y \<Longrightarrow> x = y"
  by (metis le_value_le_bytes)

lemma vaultSeeds_Inr:
  "vaultSeeds w mint legs = Inr seeds \<longleftrightarrow>
    list_all (\<lambda>leg. 0 \<le> vl_bps leg \<and> vl_bps leg < 256 ^ 2) legs \<and>
    seeds = [BURNER_SEED, pubkeyBytes w mint] @ map (\<lambda>leg. pubkeyBytes w (vl_targetMint leg)) legs
      @ [concat (map (\<lambda>leg. le_bytes 2 (vl_bps leg)) legs)] @ map vl_refSeed legs"
proof -
  have "traverse (\<lambda>leg. writeLE 2 (vl_bps leg)) legs = Inr ws \<longleftrightarrow>
      list_all (\<lambda>leg. 0 \<le> vl_bps leg \<and> vl_bps leg < 256 ^ 2) legs
      \<and> ws = map (\<lambda>leg. le_bytes 2 (vl_bps leg)) legs" for ws
    by (auto simp: traverse_from_Inr_iff writeLE_Inr list_all_length intro: nth_equalityI)
  then show ?thesis
    by (auto simp: vaultSeeds_def bindR_Inr_iff)
qed

lemma length_concat_map:
  "list_all (\<lambda>x. length (f x) = k) xs \<Longrightarrow> length (concat (map f xs)) = k * length xs"
  by (induction xs) auto

lemma vault_seed_bytes:
  assumes "vaultSeeds w mint legs = Inr seeds" "\<And>k. length (pubkeyBytes w k) = 32"
    and "list_all (\<lambda>leg. length (vl_refSeed leg) = 32) legs"
  defines "targets \<equiv> concat (map (\<lambda>leg. pubkeyBytes w (vl_targetMint leg)) legs)"
    and "weights \<equiv> concat (map (\<lambda>leg. le_bytes 2 (vl_bps leg)) legs)"
    and "refs \<equiv> concat (map vl_refSeed legs)"
  shows "concat seeds = BURNER_SEED @ pubkeyBytes w mint @ targets @ weights @ refs"
    and "length targets = 32 * length legs" "length weights = 2 * length legs"
    and "length refs = 32 * length legs"
    and "length (concat seeds) = 38 + 66 * length legs"
proof -
  show eq: "concat seeds = BURNER_SEED @ pubkeyBytes w mint @ targets @ weights @ refs"
    using assms(1) by (simp add: vaultSeeds_Inr targets_def weights_def refs_def)
  show t: "length targets = 32 * length legs" and w: "length weights = 2 * length legs"
    and r: "length refs = 32 * length legs"
    unfolding targets_def weights_def refs_def
    using assms(2,3) by (intro length_concat_map; simp add: list_all_iff)+
  show "length (concat seeds) = 38 + 66 * length legs"
    unfolding eq by (simp add: assms(2) t w r BURNER_SEED_def)
qed

subsection \<open>Properties\<close>

text \<open>
  C8: The configuration is the vault address: the bytes that are hashed into a vault address
  determine the number of legs, the launch mint, every target mint, every weight and every
  reference seed, so two different configurations never share their seed bytes.
\<close>

theorem vault_binds_configuration:
  assumes "vaultSeeds w mint legs = Inr seeds" "vaultSeeds w mint' legs' = Inr seeds'"
    and "\<And>k. length (pubkeyBytes w k) = 32"
    and "list_all (\<lambda>leg. length (vl_refSeed leg) = 32) legs"
    and "list_all (\<lambda>leg. length (vl_refSeed leg) = 32) legs'"
    and "concat seeds = concat seeds'"
  shows "pubkeyBytes w mint = pubkeyBytes w mint' \<and>
    map (\<lambda>leg. pubkeyBytes w (vl_targetMint leg)) legs
      = map (\<lambda>leg. pubkeyBytes w (vl_targetMint leg)) legs' \<and>
    map vl_bps legs = map vl_bps legs' \<and> map vl_refSeed legs = map vl_refSeed legs'"
proof -
  note b = vault_seed_bytes [OF assms(1,3,4)] and b' = vault_seed_bytes [OF assms(2,3,5)]
  have n: "length legs = length legs'"
    using b(5) b'(5) assms(6) by simp
  have parts: "pubkeyBytes w mint = pubkeyBytes w mint'"
      "concat (map (\<lambda>leg. pubkeyBytes w (vl_targetMint leg)) legs)
        = concat (map (\<lambda>leg. pubkeyBytes w (vl_targetMint leg)) legs')"
      "concat (map (\<lambda>leg. le_bytes 2 (vl_bps leg)) legs)
        = concat (map (\<lambda>leg. le_bytes 2 (vl_bps leg)) legs')"
      "concat (map vl_refSeed legs) = concat (map vl_refSeed legs')"
    using assms(6) assms(3) b(1-4) b'(1-4) n by auto
  have "map (\<lambda>leg. pubkeyBytes w (vl_targetMint leg)) legs
      = map (\<lambda>leg. pubkeyBytes w (vl_targetMint leg)) legs'"
    by (rule concat_blocks_inject [OF _ _ _ parts(2), of 32]) (auto simp: n assms(3))
  moreover have "map vl_refSeed legs = map vl_refSeed legs'"
    by (rule concat_blocks_inject [OF _ _ _ parts(4), of 32])
      (use n assms(4,5) in \<open>auto simp: list_all_iff\<close>)
  moreover have "map (\<lambda>leg. le_bytes 2 (vl_bps leg)) legs = map (\<lambda>leg. le_bytes 2 (vl_bps leg)) legs'"
    by (rule concat_blocks_inject [OF _ _ _ parts(3), of 2]) (auto simp: n)
  then have "le_bytes 2 (vl_bps (legs ! i)) = le_bytes 2 (vl_bps (legs' ! i))" if "i < length legs" for i
    using that n by (metis (mono_tags, lifting) nth_map)
  then have "vl_bps (legs ! i) = vl_bps (legs' ! i)" if "i < length legs" for i
    using that n assms(1,2) le_bytes_inject [of "vl_bps (legs ! i)" 2 "vl_bps (legs' ! i)"]
    by (simp add: vaultSeeds_Inr list_all_length)
  then have "map vl_bps legs = map vl_bps legs'"
    using n by (intro nth_equalityI) auto
  ultimately show ?thesis
    using parts(1) by blast
qed

definition example_vault_legs :: "vault_leg list" where
  "example_vault_legs =
    [\<lparr>vl_targetMint = example_key 84, vl_bps = 7000, vl_refSeed = replicate 32 80\<rparr>,
     \<lparr>vl_targetMint = example_key 90, vl_bps = 3000, vl_refSeed = replicate 32 0\<rparr>]"

lemma vault_binds_configuration_witness:
  "pubkeyBytes example_web3 (example_key 76) = pubkeyBytes example_web3 (example_key 76) \<and>
    map (\<lambda>leg. pubkeyBytes example_web3 (vl_targetMint leg)) example_vault_legs
      = map (\<lambda>leg. pubkeyBytes example_web3 (vl_targetMint leg)) (rev (rev example_vault_legs)) \<and>
    map vl_bps example_vault_legs = map vl_bps (rev (rev example_vault_legs)) \<and>
    map vl_refSeed example_vault_legs = map vl_refSeed (rev (rev example_vault_legs))"
proof -
  obtain seeds where s: "vaultSeeds example_web3 (example_key 76) example_vault_legs = Inr seeds"
    by (auto simp: vaultSeeds_Inr example_vault_legs_def)
  show ?thesis
    by (rule vault_binds_configuration [OF s]) (simp_all add: s, simp_all add: example_vault_legs_def)
qed


text \<open>A two-leg burn: a Jupiter leg with one route account and a direct-curve leg.\<close>

definition example_reference :: resolved_reference where
  "example_reference = \<lparr>rr_pool = example_key 80, rr_vaultA = example_key 65,
    rr_vaultB = example_key 66, rr_feeSource = example_key 80, rr_seed = replicate 32 80,
    rr_venue = ''Raydium v4'', rr_depthLamports = 100000000000, rr_feeBpsHundredths = 2500,
    rr_capLamports = 250000000, rr_floorFor = (\<lambda>_. Inr 9875151)\<rparr>"

definition example_legs :: "prepared_leg list" where
  "example_legs =
    [\<lparr>pl_targetMint = example_key 84, pl_targetTokenProgram = TOKEN_PROGRAM_ID,
      pl_targetAta = example_key 85, pl_bps = 7000, pl_amountIn = 700000,
      pl_minimumOutput = 9875151, pl_reference = example_reference,
      pl_routeAccounts = [\<lparr>rm_pubkey = toBase58 (example_key 86), rm_isSigner = True,
        rm_isWritable = True\<rparr>],
      pl_routeData = [1, 2, 3], pl_lookupTables = []\<rparr>,
     \<lparr>pl_targetMint = example_key 90, pl_targetTokenProgram = TOKEN_2022_PROGRAM_ID,
      pl_targetAta = example_key 91, pl_bps = 3000, pl_amountIn = 300000,
      pl_minimumOutput = 42, pl_reference = example_reference, pl_routeAccounts = [],
      pl_routeData = [], pl_lookupTables = []\<rparr>]"

lemma example_instruction:
  obtains ix where "buildBurnInstruction example_web3 DEFAULT_BURNER_PROGRAM (example_key 67)
    (example_key 76) (example_key 86) (example_key 87) 1000000 example_legs = Inr ix"
  by (auto simp: buildBurnInstruction_def splitData_def legData_def writeLE_def example_legs_def
      routeKey_def example_key_def)


end
