(* ===== verification/Lease.thy ===== *)
theory Lease
  imports Burn
begin

text \<open>
  The vault lease of \<open>quote-service/core.ts\<close>: at most one outstanding burn per vault, and
  no request submitted twice. \<open>InMemoryVaultLeaseStore\<close> is a state machine whose events
  are the calls of its methods and the firing of its timers; a JavaScript \<open>Symbol\<close> is a
  number never used before. The interface \<open>VaultLeaseStore\<close> is the locale
  \<open>vault_lease_store\<close>, proved for the in-memory store, and its client is
  \<open>withLease\<close>, the lease discipline of \<open>QuoteService.execute\<close>.
\<close>

subsection \<open>State and operations\<close>

datatype outcome = Submitted | Failed

text \<open>A lease handle: what the closures returned by \<open>acquire\<close> capture.\<close>

record lease =
  le_key :: string
  le_requestId :: string
  le_ttlMs :: int
  le_released :: bool

record lease_store =
  ls_active :: "string \<rightharpoonup> nat"
  ls_submittedRequestIds :: "string list"
  ls_leases :: "nat \<rightharpoonup> lease"
  ls_timers :: "nat list"
  ls_nextToken :: nat

definition empty_store :: lease_store where
  "empty_store = \<lparr>ls_active = Map.empty, ls_submittedRequestIds = [], ls_leases = Map.empty,
    ls_timers = [], ls_nextToken = 0\<rparr>"

definition acquire :: "lease_store \<Rightarrow> pubkey \<Rightarrow> string \<Rightarrow> int \<Rightarrow> nat res \<times> lease_store" where
  "acquire st vault requestId ttlMs =
    (let key = toBase58 vault in
     if requestId \<in> set (ls_submittedRequestIds st) then (reject ''DUPLICATE_REQUEST'', st)
     else if ls_active st key \<noteq> None then (reject ''VAULT_BUSY'', st)
     else (let token = ls_nextToken st in
       (Inr token,
        st\<lparr>ls_active := (ls_active st)(key \<mapsto> token),
           ls_leases := (ls_leases st)(token \<mapsto>
             \<lparr>le_key = key, le_requestId = requestId, le_ttlMs = ttlMs, le_released = False\<rparr>),
           ls_nextToken := Suc token\<rparr>)))"

definition deleteIfStillOurs :: "lease_store \<Rightarrow> nat \<Rightarrow> lease_store" where
  "deleteIfStillOurs st token =
    (case ls_leases st token of None \<Rightarrow> st
     | Some l \<Rightarrow> if ls_active st (le_key l) = Some token
                 then st\<lparr>ls_active := (ls_active st)(le_key l := None)\<rparr> else st)"

definition release :: "lease_store \<Rightarrow> nat \<Rightarrow> outcome \<Rightarrow> lease_store" where
  "release st token outcome =
    (case ls_leases st token of None \<Rightarrow> st
     | Some l \<Rightarrow>
        (let st1 = (if \<not> le_released l \<and> outcome = Failed then deleteIfStillOurs st token else st);
             st2 = (if \<not> le_released l \<and> outcome = Submitted
                    then st1\<lparr>ls_submittedRequestIds := le_requestId l # ls_submittedRequestIds st1,
                             ls_timers := token # ls_timers st1\<rparr>
                    else st1)
         in st2\<lparr>ls_leases := (ls_leases st2)(token \<mapsto> l\<lparr>le_released := True\<rparr>)\<rparr>))"

text \<open>A pending timer fires once, after its time to live.\<close>

definition fire_timer :: "lease_store \<Rightarrow> nat \<Rightarrow> lease_store" where
  "fire_timer st token =
    (if token \<in> set (ls_timers st)
     then deleteIfStillOurs (st\<lparr>ls_timers := remove1 token (ls_timers st)\<rparr>) token else st)"

definition settle :: "lease_store \<Rightarrow> pubkey \<Rightarrow> lease_store" where
  "settle st vault = st\<lparr>ls_active := (ls_active st)(toBase58 vault := None)\<rparr>"

subsection \<open>Histories\<close>

datatype lease_event =
    Acquire pubkey string int
  | Release nat outcome
  | TimerFires nat
  | Settle pubkey

definition lease_step :: "lease_event \<Rightarrow> lease_store \<Rightarrow> lease_store" where
  "lease_step ev st = (case ev of
     Acquire v r ttl \<Rightarrow> snd (acquire st v r ttl)
   | Release t oc \<Rightarrow> release st t oc
   | TimerFires t \<Rightarrow> fire_timer st t
   | Settle v \<Rightarrow> settle st v)"

text \<open>
  A lease is outstanding while it is not released. Settling a vault is meant for a burn whose
  lease has been released; \<open>disciplined\<close> says so.
\<close>

definition outstanding :: "lease_store \<Rightarrow> string \<Rightarrow> nat \<Rightarrow> bool" where
  "outstanding st key t \<longleftrightarrow>
    (\<exists>l. ls_leases st t = Some l \<and> le_key l = key \<and> \<not> le_released l)"

definition disciplined :: "lease_event \<Rightarrow> lease_store \<Rightarrow> bool" where
  "disciplined ev st = (case ev of Settle v \<Rightarrow> \<not> (\<exists>t. outstanding st (toBase58 v) t) | _ \<Rightarrow> True)"

inductive reachable :: "lease_store \<Rightarrow> bool" where
  reachable_init: "reachable empty_store"
| reachable_step: "reachable st \<Longrightarrow> disciplined ev st \<Longrightarrow> reachable (lease_step ev st)"

inductive_cases reachable_stepE: "reachable st"

text \<open>Any history, disciplined or not.\<close>

definition run_events :: "lease_event list \<Rightarrow> lease_store \<Rightarrow> lease_store" where
  "run_events evs st = foldl (\<lambda>st ev. lease_step ev st) st evs"

lemma run_events_simps [simp]:
  "run_events [] st = st"
  "run_events (ev # evs) st = run_events evs (lease_step ev st)"
  by (simp_all add: run_events_def)

subsection \<open>The invariant\<close>

text \<open>
  Every active entry is the token of a lease on that vault, tokens below the counter are the
  only ones in use, a timer belongs to a released lease, and an outstanding lease is the one
  that holds its vault.
\<close>

definition store_inv :: "lease_store \<Rightarrow> bool" where
  "store_inv st \<longleftrightarrow>
    (\<forall>k t. ls_active st k = Some t \<longrightarrow> (\<exists>l. ls_leases st t = Some l \<and> le_key l = k)) \<and>
    (\<forall>t l. ls_leases st t = Some l \<longrightarrow> t < ls_nextToken st) \<and>
    (\<forall>t \<in> set (ls_timers st). \<exists>l. ls_leases st t = Some l \<and> le_released l)"

definition holds_inv :: "lease_store \<Rightarrow> bool" where
  "holds_inv st \<longleftrightarrow> (\<forall>k t. outstanding st k t \<longrightarrow> ls_active st k = Some t)"

lemma store_inv_empty: "store_inv empty_store" "holds_inv empty_store"
  by (simp_all add: store_inv_def holds_inv_def outstanding_def empty_store_def)

lemma store_inv_active:
  "store_inv st \<Longrightarrow> ls_active st k = Some t \<Longrightarrow> \<exists>l. ls_leases st t = Some l \<and> le_key l = k"
  by (simp add: store_inv_def)

lemma store_inv_token: "store_inv st \<Longrightarrow> ls_leases st t = Some l \<Longrightarrow> t < ls_nextToken st"
  by (simp add: store_inv_def)

lemma store_inv_timer:
  "store_inv st \<Longrightarrow> t \<in> set (ls_timers st) \<Longrightarrow> \<exists>l. ls_leases st t = Some l \<and> le_released l"
  by (simp add: store_inv_def)

lemma deleteIfStillOurs_fields [simp]:
  "ls_leases (deleteIfStillOurs st t) = ls_leases st"
  "ls_timers (deleteIfStillOurs st t) = ls_timers st"
  "ls_nextToken (deleteIfStillOurs st t) = ls_nextToken st"
  "ls_submittedRequestIds (deleteIfStillOurs st t) = ls_submittedRequestIds st"
  by (auto simp: deleteIfStillOurs_def split: option.splits)

lemma deleteIfStillOurs_active:
  "store_inv st \<Longrightarrow>
    ls_active (deleteIfStillOurs st t) k = (if ls_active st k = Some t then None else ls_active st k)"
  by (auto simp: deleteIfStillOurs_def dest: store_inv_active split: option.splits)

lemma release_lease:
  assumes "ls_leases st t = Some l"
  shows "ls_leases (release st t oc) = (ls_leases st)(t \<mapsto> l\<lparr>le_released := True\<rparr>)"
    and "ls_nextToken (release st t oc) = ls_nextToken st"
    and "ls_timers (release st t oc)
      = (if \<not> le_released l \<and> oc = Submitted then t # ls_timers st else ls_timers st)"
    and "ls_submittedRequestIds (release st t oc) = (if \<not> le_released l \<and> oc = Submitted
      then le_requestId l # ls_submittedRequestIds st else ls_submittedRequestIds st)"
    and "ls_active (release st t oc) = (if \<not> le_released l \<and> oc = Failed
      then ls_active (deleteIfStillOurs st t) else ls_active st)"
  using assms by (auto simp: release_def Let_def)

lemma release_none: "ls_leases st t = None \<Longrightarrow> release st t oc = st"
  by (simp add: release_def)

lemma acquire_Inr:
  "acquire st v r ttl = (Inr t, st') \<longleftrightarrow>
    r \<notin> set (ls_submittedRequestIds st) \<and> ls_active st (toBase58 v) = None \<and> t = ls_nextToken st \<and>
    st' = st\<lparr>ls_active := (ls_active st)(toBase58 v \<mapsto> t),
      ls_leases := (ls_leases st)(t \<mapsto>
        \<lparr>le_key = toBase58 v, le_requestId = r, le_ttlMs = ttl, le_released = False\<rparr>),
      ls_nextToken := Suc t\<rparr>"
  by (auto simp: acquire_def Let_def)

lemma acquire_Inl: "acquire st v r ttl = (Inl e, st') \<Longrightarrow> st' = st"
  by (auto simp: acquire_def Let_def split: if_splits)

lemma store_inv_step:
  assumes "store_inv st"
  shows "store_inv (lease_step ev st)"
proof (cases ev)
  case (Acquire v r ttl)
  obtain res st' where eq: "acquire st v r ttl = (res, st')" by fastforce
  show ?thesis
  proof (cases res)
    case (Inl e)
    then show ?thesis
      using assms eq acquire_Inl [of st v r ttl e st'] by (simp add: lease_step_def Acquire)
  next
    case (Inr t)
    have "ls_nextToken st \<notin> set (ls_timers st)" "ls_leases st (ls_nextToken st) = None"
      using store_inv_timer [OF assms] store_inv_token [OF assms]
      by (fastforce, metis not_Some_eq order_less_irrefl)
    moreover have "lease_step ev st = st'"
      by (simp add: lease_step_def Acquire eq)
    ultimately show ?thesis
      using assms eq Inr
      by (auto simp: acquire_Inr store_inv_def less_Suc_eq)
  qed
next
  case (Release t oc)
  show ?thesis
  proof (cases "ls_leases st t")
    case None
    then show ?thesis using assms by (simp add: lease_step_def Release release_none)
  next
    case (Some l)
    have "le_key l = k" if "ls_active st k = Some t" for k
      using store_inv_active [OF assms that] Some by auto
    then show ?thesis
      using assms unfolding store_inv_def lease_step_def Release lease_event.case
      by (auto simp: release_lease [OF Some] deleteIfStillOurs_active [OF assms] Some
          split: if_splits)
  qed
next
  case (TimerFires t)
  let ?st = "st\<lparr>ls_timers := remove1 t (ls_timers st)\<rparr>"
  have inv: "store_inv ?st"
    using assms by (auto simp: store_inv_def dest: notin_set_remove1)
  have "store_inv (deleteIfStillOurs ?st t)"
    using inv unfolding store_inv_def
    by (auto simp: deleteIfStillOurs_active [OF inv] split: if_splits)
  then show ?thesis
    using assms by (simp add: lease_step_def TimerFires fire_timer_def)
next
  case (Settle v)
  then show ?thesis
    using assms by (auto simp: lease_step_def settle_def store_inv_def)
qed

lemma store_inv_run: "store_inv st \<Longrightarrow> store_inv (run_events evs st)"
  by (induction evs arbitrary: st) (auto simp: store_inv_step)

lemma holds_inv_step:
  assumes "store_inv st" "holds_inv st" "disciplined ev st"
  shows "holds_inv (lease_step ev st)"
proof (cases ev)
  case (Acquire v r ttl)
  obtain res st' where eq: "acquire st v r ttl = (res, st')" by fastforce
  show ?thesis
  proof (cases res)
    case (Inl e)
    then show ?thesis
      using assms eq acquire_Inl [of st v r ttl e st'] by (simp add: lease_step_def Acquire)
  next
    case (Inr t)
    have "lease_step ev st = st'"
      by (simp add: lease_step_def Acquire eq)
    moreover have "\<not> outstanding st (toBase58 v) u" for u
      using assms(2) eq Inr by (auto simp: acquire_Inr holds_inv_def)
    ultimately show ?thesis
      using assms(2) eq Inr
      by (auto simp: acquire_Inr holds_inv_def outstanding_def split: if_splits)
  qed
next
  case (Release t oc)
  show ?thesis
  proof (cases "ls_leases st t")
    case None
    then show ?thesis using assms by (simp add: lease_step_def Release release_none)
  next
    case (Some l)
    have "ls_active st (le_key m) = Some u" if "ls_leases st u = Some m" "\<not> le_released m" for u m
      using assms(2) that by (auto simp: holds_inv_def outstanding_def)
    moreover from this have "le_released m"
      if "ls_leases st u = Some m" "ls_active st (le_key m) = Some t" "u \<noteq> t" for u m
      using that by fastforce
    ultimately show ?thesis
      unfolding holds_inv_def outstanding_def lease_step_def Release lease_event.case
      by (auto simp: release_lease [OF Some] deleteIfStillOurs_active [OF assms(1)])
  qed
next
  case (TimerFires t)
  let ?st = "st\<lparr>ls_timers := remove1 t (ls_timers st)\<rparr>"
  have inv: "store_inv ?st"
    using assms(1) by (auto simp: store_inv_def dest: notin_set_remove1)
  have "ls_active (deleteIfStillOurs ?st t) k = Some u"
    if "outstanding st k u" "t \<in> set (ls_timers st)" for k u
  proof -
    have "ls_active st k = Some u" using that assms(2) by (simp add: holds_inv_def)
    moreover have "u \<noteq> t"
      using that assms(1) by (auto simp: outstanding_def store_inv_def)
    ultimately show ?thesis by (simp add: deleteIfStillOurs_active [OF inv])
  qed
  then show ?thesis
    using assms(2)
    by (auto simp: lease_step_def TimerFires fire_timer_def holds_inv_def outstanding_def)
next
  case (Settle v)
  then show ?thesis
    using assms(2,3)
    by (auto simp: lease_step_def settle_def holds_inv_def outstanding_def disciplined_def)
qed

lemma reachable_inv: "reachable st \<Longrightarrow> store_inv st \<and> holds_inv st"
  by (induction rule: reachable.induct)
    (auto simp: store_inv_empty intro: store_inv_step holds_inv_step)

subsection \<open>The interface and its client\<close>

text \<open>
  \<open>live st t v r\<close>: handle \<open>t\<close>, not yet released, was acquired for vault \<open>v\<close>
  and request \<open>r\<close>. \<open>busy\<close> and \<open>seen\<close> are what a caller observes: a busy
  vault and a request already submitted are refused.
\<close>

locale vault_lease_store =
  fixes acq :: "'s \<Rightarrow> pubkey \<Rightarrow> string \<Rightarrow> int \<Rightarrow> nat res \<times> 's"
    and rel :: "'s \<Rightarrow> nat \<Rightarrow> outcome \<Rightarrow> 's"
    and live :: "'s \<Rightarrow> nat \<Rightarrow> pubkey \<Rightarrow> string \<Rightarrow> bool"
    and busy :: "'s \<Rightarrow> pubkey \<Rightarrow> bool"
    and seen :: "'s \<Rightarrow> string \<Rightarrow> bool"
    and ok :: "'s \<Rightarrow> bool"
  assumes acq_ok: "ok st \<Longrightarrow> acq st v r ttl = (res, st') \<Longrightarrow> ok st'"
    and rel_ok: "ok st \<Longrightarrow> ok (rel st t oc)"
    and acq_grants: "ok st \<Longrightarrow> \<not> busy st v \<Longrightarrow> \<not> seen st r \<Longrightarrow>
      \<exists>t st'. acq st v r ttl = (Inr t, st') \<and> live st' t v r"
    and acq_seen: "seen st r \<Longrightarrow> acq st v r ttl = (reject ''DUPLICATE_REQUEST'', st)"
    and acq_busy: "busy st v \<Longrightarrow> \<not> seen st r \<Longrightarrow> acq st v r ttl = (reject ''VAULT_BUSY'', st)"
    and live_busy: "ok st \<Longrightarrow> live st t v r \<Longrightarrow> busy st v"
    and rel_failed: "ok st \<Longrightarrow> live st t v r \<Longrightarrow> \<not> busy (rel st t Failed) v"
    and rel_failed_seen: "seen (rel st t Failed) q = seen st q"
    and rel_submitted: "ok st \<Longrightarrow> live st t v r \<Longrightarrow> busy (rel st t Submitted) v"
    and rel_submitted_seen: "live st t v r \<Longrightarrow> seen (rel st t Submitted) r"
    and live_distinct: "ok st \<Longrightarrow> live st t v r \<Longrightarrow> live st u v q \<Longrightarrow> t = u"

text \<open>
  The lease discipline of \<open>execute\<close>: acquire, run the action under the lease, and release
  the lease with the outcome in \<open>finally\<close>. Between the two the store may change, since
  other requests use it concurrently: the action returns the store it left.
\<close>

definition withLease ::
  "('s \<Rightarrow> pubkey \<Rightarrow> string \<Rightarrow> int \<Rightarrow> nat res \<times> 's) \<Rightarrow> ('s \<Rightarrow> nat \<Rightarrow> outcome \<Rightarrow> 's) \<Rightarrow>
    's \<Rightarrow> pubkey \<Rightarrow> string \<Rightarrow> int \<Rightarrow> ('s \<Rightarrow> 'a res \<times> 's) \<Rightarrow> 'a res \<times> 's" where
  "withLease acq rel st vault requestId ttlMs action =
    (case acq st vault requestId ttlMs of
       (Inl e, st1) \<Rightarrow> (Inl e, st1)
     | (Inr token, st1) \<Rightarrow>
        (case action st1 of
           (Inr receipt, st2) \<Rightarrow> (Inr receipt, rel st2 token Submitted)
         | (Inl e, st2) \<Rightarrow> (Inl e, rel st2 token Failed)))"

context vault_lease_store
begin

text \<open>
  \<open>keeps\<close>: what an action may do to the store while the lease is held: anything that keeps
  the store well-formed and the lease live.
\<close>

definition keeps :: "('s \<Rightarrow> 'a res \<times> 's) \<Rightarrow> bool" where
  "keeps action \<longleftrightarrow> (\<forall>st t v r. ok st \<longrightarrow> live st t v r \<longrightarrow>
    ok (snd (action st)) \<and> live (snd (action st)) t v r)"

lemma withLease_ran:
  assumes "ok st" "keeps action" "\<not> busy st v" "\<not> seen st r"
  obtains t st1 where "acq st v r ttl = (Inr t, st1)" "ok st1" "live st1 t v r"
    "ok (snd (action st1))" "live (snd (action st1)) t v r"
    "withLease acq rel st v r ttl action =
      (case action st1 of (Inr x, st2) \<Rightarrow> (Inr x, rel st2 t Submitted)
       | (Inl e, st2) \<Rightarrow> (Inl e, rel st2 t Failed))"
proof -
  obtain t st1 where t: "acq st v r ttl = (Inr t, st1)" "live st1 t v r"
    using acq_grants [OF assms(1,3,4)] by blast
  moreover have "ok st1" by (rule acq_ok [OF assms(1) t(1)])
  ultimately show ?thesis
    using that [of t st1] assms(2) by (simp add: withLease_def keeps_def)
qed

lemma withLease_refused_seen:
  "seen st r \<Longrightarrow> withLease acq rel st v r ttl action = (reject ''DUPLICATE_REQUEST'', st)"
  by (simp add: withLease_def acq_seen)

lemma withLease_refused_busy:
  "busy st v \<Longrightarrow> \<not> seen st r \<Longrightarrow> withLease acq rel st v r ttl action = (reject ''VAULT_BUSY'', st)"
  by (simp add: withLease_def acq_busy)

lemma withLease_submitted:
  assumes "ok st" "keeps action" "withLease acq rel st v r ttl action = (Inr x, st')"
  shows "ok st' \<and> seen st' r \<and> busy st' v"
proof -
  have nb: "\<not> busy st v" "\<not> seen st r"
    using assms(3) withLease_refused_seen [of st r v ttl action]
      withLease_refused_busy [of st v r ttl action] by auto
  obtain t st1 where *: "ok (snd (action st1))" "live (snd (action st1)) t v r"
    "withLease acq rel st v r ttl action =
      (case action st1 of (Inr x, st2) \<Rightarrow> (Inr x, rel st2 t Submitted)
       | (Inl e, st2) \<Rightarrow> (Inl e, rel st2 t Failed))"
    by (rule withLease_ran [OF assms(1,2) nb])
  then obtain st2 where "action st1 = (Inr x, st2)" "st' = rel st2 t Submitted"
    using assms(3) by (auto split: prod.splits sum.splits)
  then show ?thesis
    using * rel_ok rel_submitted rel_submitted_seen by auto
qed

lemma withLease_failed:
  assumes "ok st" "keeps action" "withLease acq rel st v r ttl action = (Inl e, st')"
  shows "ok st' \<and> (st' = st \<or> \<not> busy st' v)"
proof (cases "busy st v \<or> seen st r")
  case True
  then have "st' = st"
    using assms(3) withLease_refused_seen [of st r v ttl action]
      withLease_refused_busy [of st v r ttl action] by auto
  then show ?thesis using assms(1) by simp
next
  case False
  then have nb: "\<not> busy st v" "\<not> seen st r" by simp_all
  obtain t st1 where *: "ok (snd (action st1))" "live (snd (action st1)) t v r"
    "withLease acq rel st v r ttl action =
      (case action st1 of (Inr x, st2) \<Rightarrow> (Inr x, rel st2 t Submitted)
       | (Inl e, st2) \<Rightarrow> (Inl e, rel st2 t Failed))"
    by (rule withLease_ran [OF assms(1,2) nb])
  then obtain st2 where "action st1 = (Inl e, st2)" "st' = rel st2 t Failed"
    using assms(3) by (auto split: prod.splits sum.splits)
  then show ?thesis
    using * rel_ok rel_failed by auto
qed

end

subsection \<open>The in-memory store provides it\<close>

definition lease_live :: "lease_store \<Rightarrow> nat \<Rightarrow> pubkey \<Rightarrow> string \<Rightarrow> bool" where
  "lease_live st t v r \<longleftrightarrow> (\<exists>l. ls_leases st t = Some l \<and> le_key l = toBase58 v \<and>
    le_requestId l = r \<and> \<not> le_released l)"

definition vault_busy :: "lease_store \<Rightarrow> pubkey \<Rightarrow> bool" where
  "vault_busy st v \<longleftrightarrow> ls_active st (toBase58 v) \<noteq> None"

definition request_seen :: "lease_store \<Rightarrow> string \<Rightarrow> bool" where
  "request_seen st r \<longleftrightarrow> r \<in> set (ls_submittedRequestIds st)"

definition store_ok :: "lease_store \<Rightarrow> bool" where
  "store_ok st \<longleftrightarrow> store_inv st \<and> holds_inv st"

lemma store_ok_step: "store_ok st \<Longrightarrow> disciplined ev st \<Longrightarrow> store_ok (lease_step ev st)"
  by (simp add: store_ok_def store_inv_step holds_inv_step)

lemma lease_live_active: "store_ok st \<Longrightarrow> lease_live st t v r \<Longrightarrow> ls_active st (toBase58 v) = Some t"
  by (auto simp: store_ok_def holds_inv_def lease_live_def outstanding_def)

lemma store_ok_acquire: "store_ok st \<Longrightarrow> acquire st v r ttl = (res, st') \<Longrightarrow> store_ok st'"
  using store_ok_step [of st "Acquire v r ttl"] by (simp add: lease_step_def disciplined_def)

lemma store_ok_release: "store_ok st \<Longrightarrow> store_ok (release st t oc)"
  using store_ok_step [of st "Release t oc"] by (simp add: lease_step_def disciplined_def)

interpretation memory_store:
  vault_lease_store acquire release lease_live vault_busy request_seen store_ok
proof
  fix st v r ttl t q u and res :: "nat res" and st' and oc
  show "store_ok st \<Longrightarrow> acquire st v r ttl = (res, st') \<Longrightarrow> store_ok st'"
    by (rule store_ok_acquire)
  show "store_ok st \<Longrightarrow> store_ok (release st t oc)"
    by (rule store_ok_release)
  show "store_ok st \<Longrightarrow> \<not> vault_busy st v \<Longrightarrow> \<not> request_seen st r \<Longrightarrow>
      \<exists>t st'. acquire st v r ttl = (Inr t, st') \<and> lease_live st' t v r"
    by (simp add: acquire_def Let_def vault_busy_def request_seen_def lease_live_def)
  show "request_seen st r \<Longrightarrow> acquire st v r ttl = (reject ''DUPLICATE_REQUEST'', st)"
    by (simp add: acquire_def request_seen_def)
  show "vault_busy st v \<Longrightarrow> \<not> request_seen st r \<Longrightarrow> acquire st v r ttl = (reject ''VAULT_BUSY'', st)"
    by (simp add: acquire_def request_seen_def vault_busy_def)
  show "store_ok st \<Longrightarrow> lease_live st t v r \<Longrightarrow> vault_busy st v"
    using lease_live_active by (simp add: vault_busy_def)
  show "store_ok st \<Longrightarrow> lease_live st t v r \<Longrightarrow> \<not> vault_busy (release st t Failed) v"
    using lease_live_active [of st t v r]
    by (auto simp: vault_busy_def lease_live_def release_lease store_ok_def deleteIfStillOurs_active)
  show "request_seen (release st t Failed) q = request_seen st q"
    by (cases "ls_leases st t") (auto simp: request_seen_def release_lease release_none)
  show "store_ok st \<Longrightarrow> lease_live st t v r \<Longrightarrow> vault_busy (release st t Submitted) v"
    using lease_live_active [of st t v r]
    by (auto simp: vault_busy_def lease_live_def release_lease)
  show "lease_live st t v r \<Longrightarrow> request_seen (release st t Submitted) r"
    by (auto simp: request_seen_def lease_live_def release_lease)
  show "store_ok st \<Longrightarrow> lease_live st t v r \<Longrightarrow> lease_live st u v q \<Longrightarrow> t = u"
    using lease_live_active [of st t v r] lease_live_active [of st u v q] by simp
qed

subsection \<open>Properties\<close>

lemma deleteIfStillOurs_other:
  "ls_active st k = Some u \<Longrightarrow> u \<noteq> t \<Longrightarrow> ls_active (deleteIfStillOurs st t) k = Some u"
  by (auto simp: deleteIfStillOurs_def split: option.splits)

lemma seen_mono_step: "request_seen st r \<Longrightarrow> request_seen (lease_step ev st) r"
proof (cases ev)
  case (Release t oc)
  then show "request_seen st r \<Longrightarrow> ?thesis"
    by (cases "ls_leases st t")
      (auto simp: lease_step_def request_seen_def release_none release_lease)
qed (auto simp: lease_step_def request_seen_def acquire_def fire_timer_def settle_def Let_def)

lemma seen_mono_run: "request_seen st r \<Longrightarrow> request_seen (run_events evs st) r"
  by (induction evs arbitrary: st) (auto simp: seen_mono_step)

text \<open>
  C4: At most one lease of a vault is outstanding at any time: in every state the store can reach
  when vaults are settled only after their lease was released, an outstanding lease is the one
  that holds its vault.
\<close>

theorem lease_mutual_exclusion:
  assumes "reachable st" "outstanding st key t" "outstanding st key u"
  shows "t = u \<and> ls_active st key = Some t"
proof -
  have "ls_active st key = Some t" "ls_active st key = Some u"
    using reachable_inv [OF assms(1)] assms(2,3) unfolding holds_inv_def by blast+
  then show ?thesis by simp
qed

definition one_lease :: lease_store where
  "one_lease = lease_step (Acquire (example_key 86) ''a'' 180000) empty_store"

lemma one_lease_facts:
  "reachable one_lease" "outstanding one_lease (toBase58 (example_key 86)) 0"
  "lease_live one_lease 0 (example_key 86) ''a''"
proof -
  show "reachable one_lease"
    unfolding one_lease_def
    by (rule reachable_step [OF reachable_init]) (simp add: disciplined_def)
  show "outstanding one_lease (toBase58 (example_key 86)) 0"
    "lease_live one_lease 0 (example_key 86) ''a''"
    by (simp_all add: one_lease_def outstanding_def lease_live_def lease_step_def acquire_def
        empty_store_def Let_def)
qed

lemma lease_mutual_exclusion_witness:
  "(0 :: nat) = 0 \<and> ls_active one_lease (toBase58 (example_key 86)) = Some 0"
  by (rule lease_mutual_exclusion) (rule one_lease_facts)+

text \<open>
  A stale handle is harmless: after any sequence of calls, timers and settlements, releasing
  a lease or letting its timer fire never frees a vault that a different lease holds.
\<close>

theorem stale_lease_harmless:
  assumes "st = run_events evs empty_store" "ls_active st key = Some u" "u \<noteq> t"
  shows "ls_active (release st t oc) key = Some u \<and> ls_active (fire_timer st t) key = Some u"
proof -
  have "ls_active (release st t oc) key = Some u"
    using assms(2,3) deleteIfStillOurs_other
    by (cases "ls_leases st t") (auto simp: release_none release_lease)
  moreover have "ls_active (fire_timer st t) key = Some u"
    using assms(2,3) deleteIfStillOurs_other
      [of "st\<lparr>ls_timers := remove1 t (ls_timers st)\<rparr>" key u t]
    by (auto simp: fire_timer_def)
  ultimately show ?thesis by blast
qed

text \<open>A burn is submitted, settled early, and the vault acquired again before the timer fires.\<close>

definition resettled :: "lease_event list" where
  "resettled = [Acquire (example_key 86) ''a'' 180000, Release 0 Submitted, Settle (example_key 86),
    Acquire (example_key 86) ''b'' 180000]"

lemma stale_lease_harmless_witness:
  "ls_active (release (run_events resettled empty_store) 0 Failed) (toBase58 (example_key 86)) = Some 1
   \<and> ls_active (fire_timer (run_events resettled empty_store) 0) (toBase58 (example_key 86)) = Some 1"
  by (rule stale_lease_harmless [OF refl])
    (simp_all add: resettled_def lease_step_def empty_store_def acquire_def release_def settle_def
      Let_def)

text \<open>
  A request is submitted at most once: once a lease is released as submitted, its request id
  is refused with DUPLICATE_REQUEST by every later acquire, for every vault and after any
  further sequence of events.
\<close>

theorem submitted_never_again:
  assumes "lease_live st t vault requestId"
  shows "fst (acquire (run_events evs (release st t Submitted)) vault' requestId ttlMs)
    = reject ''DUPLICATE_REQUEST''"
proof -
  have "request_seen (run_events evs (release st t Submitted)) requestId"
    by (rule seen_mono_run [OF memory_store.rel_submitted_seen [OF assms]])
  then show ?thesis
    by (simp add: memory_store.acq_seen)
qed

lemma submitted_never_again_witness:
  "fst (acquire (run_events [Settle (example_key 86)] (release one_lease 0 Submitted))
     (example_key 86) ''a'' 180000) = reject ''DUPLICATE_REQUEST''"
  by (rule submitted_never_again) (rule one_lease_facts)

text \<open>
  The lease discipline of execute: if the burn was submitted, its request id is recorded and
  the vault stays locked; if anything failed, either the lease was refused and the store is
  unchanged, or the vault is free again. The burn may let other requests use the store as long
  as they leave this lease alone.
\<close>

theorem execute_lease_discipline:
  assumes "store_ok st"
    and "\<And>s t v r. store_ok s \<Longrightarrow> lease_live s t v r \<Longrightarrow>
      store_ok (snd (action s)) \<and> lease_live (snd (action s)) t v r"
    and "withLease acquire release st vault requestId ttlMs action = (res, st')"
  shows "store_ok st' \<and>
    (case res of
       Inr receipt \<Rightarrow> request_seen st' requestId \<and> vault_busy st' vault
     | Inl e \<Rightarrow> st' = st \<or> \<not> vault_busy st' vault)"
proof -
  have keeps: "memory_store.keeps action"
    using assms(2) by (simp add: memory_store.keeps_def)
  show ?thesis
  proof (cases res)
    case (Inl e)
    then show ?thesis
      using memory_store.withLease_failed [OF assms(1) keeps] assms(3) by simp
  next
    case (Inr x)
    then show ?thesis
      using memory_store.withLease_submitted [OF assms(1) keeps] assms(3) by simp
  qed
qed

lemma execute_lease_discipline_witness:
  "store_ok (snd (withLease acquire release empty_store (example_key 86) ''a'' 180000
      (\<lambda>s. (Inr True, s)))) \<and>
    (case fst (withLease acquire release empty_store (example_key 86) ''a'' 180000
        (\<lambda>s. (Inr True, s))) of
       Inr receipt \<Rightarrow> request_seen (snd (withLease acquire release empty_store (example_key 86) ''a''
           180000 (\<lambda>s. (Inr True, s)))) ''a''
         \<and> vault_busy (snd (withLease acquire release empty_store (example_key 86) ''a'' 180000
           (\<lambda>s. (Inr True, s)))) (example_key 86)
     | Inl e \<Rightarrow> snd (withLease acquire release empty_store (example_key 86) ''a'' 180000
           (\<lambda>s. (Inr True, s))) = empty_store
         \<or> \<not> vault_busy (snd (withLease acquire release empty_store (example_key 86) ''a'' 180000
           (\<lambda>s. (Inr True, s)))) (example_key 86))"
  by (rule execute_lease_discipline [where action = "\<lambda>s. (Inr True, s)"])
    (auto simp: store_ok_def store_inv_empty)

end
