(* ===== verification/Simulation.thy ===== *)
theory Simulation
  imports Burn
begin

text \<open>
  Policy and simulation in \<open>quote-service/core.ts\<close>: the checks of the
  \<open>QuoteService\<close> constructor, the static floor policy, the attribution of a failed
  simulation to the program that raised it, and the decision whether to quote again.
\<close>

subsection \<open>Policy\<close>

text \<open>
  Numbers of the policy that the code requires to be integers are \<open>int\<close>; the price
  impact ceiling is any finite number, a rational here. \<open>approvedLookupTables\<close> is
  accepted and ignored by the code.
\<close>

record service_policy =
  po_maxAmountPerBurn :: int
  po_maxSlippageBps :: int
  po_maxPriceImpactBps :: rat
  po_computeUnitLimit :: int
  po_minRemainingBlockHeights :: int
  po_leaseTtlMs :: int
  po_fittingMaxAccounts :: "int list"
  po_retryAttempts :: "int option"

definition checkPolicy :: "service_policy \<Rightarrow> unit res" where
  "checkPolicy policy =
    (if po_computeUnitLimit policy \<le> 200000 \<or> po_computeUnitLimit policy > 1400000
     then reject ''POLICY_CONFIGURATION''
     else if po_maxSlippageBps policy \<le> 0 \<or> po_maxSlippageBps policy \<ge> BPS_TOTAL
     then reject ''POLICY_CONFIGURATION''
     else if po_maxAmountPerBurn policy \<le> 0 then reject ''POLICY_CONFIGURATION''
     else if po_maxPriceImpactBps policy < 0 \<or> po_maxPriceImpactBps policy > of_int BPS_TOTAL
     then reject ''POLICY_CONFIGURATION''
     else if po_leaseTtlMs policy < 180000 then reject ''POLICY_CONFIGURATION''
     else (case po_retryAttempts policy of
       None \<Rightarrow> Inr ()
     | Some n \<Rightarrow> if n < 0 \<or> n > 5 then reject ''POLICY_CONFIGURATION'' else Inr ()))"

definition retryLimit :: "service_policy \<Rightarrow> nat" where
  "retryLimit policy = (case po_retryAttempts policy of None \<Rightarrow> DEFAULT_RETRY_ATTEMPTS
     | Some n \<Rightarrow> nat n)"

lemma checkPolicy_retryLimit: "checkPolicy policy = Inr () \<Longrightarrow> retryLimit policy \<le> 5"
  by (auto simp: checkPolicy_def retryLimit_def DEFAULT_RETRY_ATTEMPTS_def
      split: if_splits option.splits)

subsection \<open>The static floor policy\<close>

record rate =
  rate_numerator :: int
  rate_denominator :: int

definition requiredMinimumOutput :: "(string \<rightharpoonup> rate) \<Rightarrow> int \<Rightarrow> pubkey \<Rightarrow> int res" where
  "requiredMinimumOutput rates input mint =
    (case rates (toBase58 mint) of
       None \<Rightarrow> reject ''NO_PRICE_FLOOR''
     | Some rate \<Rightarrow>
        if rate_numerator rate \<le> 0 \<or> rate_denominator rate \<le> 0 then reject ''NO_PRICE_FLOOR''
        else Inr (quot_big (input * rate_numerator rate + rate_denominator rate - 1)
                    (rate_denominator rate)))"

subsection \<open>Text matching\<close>

definition lower :: "char \<Rightarrow> char" where
  "lower c = (if in_range CHR ''A'' CHR ''Z'' c then char_of (of_char c + 32 :: nat) else c)"

definition ci_prefix :: "string \<Rightarrow> string \<Rightarrow> bool" where
  "ci_prefix p s \<longleftrightarrow> map lower (take (length p) s) = map lower p"

fun ci_contains :: "string \<Rightarrow> string \<Rightarrow> bool" where
  "ci_contains p [] = (p = [])"
| "ci_contains p (c # s) = (ci_prefix p (c # s) \<or> ci_contains p s)"

definition hex_digit :: "char \<Rightarrow> bool" where
  "hex_digit c \<longleftrightarrow> radix_digit c < 16"

definition hex_value :: "string \<Rightarrow> int" where
  "hex_value s = foldl (\<lambda>acc c. 16 * acc + radix_digit c) 0 s"

text \<open>
  \<open>/^Program (\S+) failed: custom program error: 0x([0-9a-f]+)/i\<close>. The literal after
  \<open>(\S+)\<close> starts with a space, so the group is the maximal run without white space.
\<close>

definition match_program_failure :: "string \<Rightarrow> (string \<times> int) option" where
  "match_program_failure line =
    (if \<not> ci_prefix ''Program '' line then None
     else (let rest = drop 8 line;
               program = takeWhile (\<lambda>c. \<not> js_space c) rest;
               after = dropWhile (\<lambda>c. \<not> js_space c) rest;
               frame = '' failed: custom program error: 0x'';
               digits = takeWhile hex_digit (drop (length frame) after)
           in if program = [] \<or> \<not> ci_prefix frame after \<or> digits = [] then None
              else Some (program, hex_value digits)))"

subsection \<open>Attribution\<close>

datatype attribution_kind = Burner | External | Compute | Unknown

record attribution =
  at_kind :: attribution_kind
  at_code :: "int option"
  at_programId :: "string option"

text \<open>The first matching frame of the logs.\<close>

fun first_failure :: "string list \<Rightarrow> (string \<times> int) option" where
  "first_failure [] = None"
| "first_failure (line # rest) =
    (case match_program_failure line of None \<Rightarrow> first_failure rest | Some m \<Rightarrow> Some m)"

fun join_text :: "string \<Rightarrow> string list \<Rightarrow> string" where
  "join_text sep [] = []"
| "join_text sep [x] = x"
| "join_text sep (x # y # rest) = x @ sep @ join_text sep (y # rest)"

fun nullable_list :: "'a list nullable \<Rightarrow> 'a list" where
  "nullable_list (Val xs) = xs"
| "nullable_list _ = []"

definition compute_markers :: "string list" where
  "compute_markers = [''ComputationalBudgetExceeded'', ''ComputeBudgetExceeded'',
    ''exceeded CUs meter'', ''ProgramFailedToComplete'']"

text \<open>\<open>errorText\<close> is \<open>JSON.stringify(error)\<close>.\<close>

definition classifySimulationFailure ::
  "string \<Rightarrow> string list nullable \<Rightarrow> pubkey \<Rightarrow> attribution" where
  "classifySimulationFailure errorText logs burnerProgram =
    (case first_failure (nullable_list logs) of
       Some (program, code) \<Rightarrow>
         \<lparr>at_kind = (if program = toBase58 burnerProgram then Burner else External),
          at_code = Some code, at_programId = Some program\<rparr>
     | None \<Rightarrow>
         (let text = errorText @ '' '' @ join_text '' | '' (nullable_list logs)
          in if \<exists>m \<in> set compute_markers. ci_contains m text
             then \<lparr>at_kind = Compute, at_code = None, at_programId = None\<rparr>
             else \<lparr>at_kind = Unknown, at_code = None, at_programId = None\<rparr>))"

text \<open>Legs whose route touches a Pump venue.\<close>

definition pumpVenueLegIndexes :: "prepared_leg list \<Rightarrow> nat list" where
  "pumpVenueLegIndexes legs =
    filter (\<lambda>i. \<exists>a \<in> set (pl_routeAccounts (legs ! i)).
        rm_pubkey a \<in> {toBase58 PUMP_FUN_PROGRAM, toBase58 PUMP_AMM_PROGRAM})
      [0..<length legs]"

subsection \<open>The retry decision\<close>

text \<open>
  What the attempt loop carries from one attempt to the next: the legs quoted without Pump
  venues, the first rung of the fitting ladder, and whether the 6018 retry was used.
\<close>

record retry_state =
  rs_pumpExcludedLegs :: "nat list"
  rs_capStartIndex :: nat
  rs_cashbackRetryUsed :: bool

definition initial_retry :: retry_state where
  "initial_retry = \<lparr>rs_pumpExcludedLegs = [], rs_capStartIndex = 0, rs_cashbackRetryUsed = False\<rparr>"

text \<open>
  The part of the attempt loop after a failed simulation: \<open>Inr\<close> is \<open>continue\<close> with
  the next state, \<open>Inl\<close> the rejection.
\<close>

definition retryDecision ::
  "nat \<Rightarrow> nat \<Rightarrow> nat \<Rightarrow> nat \<Rightarrow> prepared_leg list \<Rightarrow> attribution \<Rightarrow> retry_state \<Rightarrow> retry_state res" where
  "retryDecision limit capCount attempt capIndex legs attribution rs =
    (case at_kind attribution of
       Burner \<Rightarrow>
         if at_code attribution = Some 6018 \<and> \<not> rs_cashbackRetryUsed rs \<and> attempt < limit
         then (let offending = pumpVenueLegIndexes legs in
           Inr (rs\<lparr>rs_cashbackRetryUsed := True,
             rs_pumpExcludedLegs := rs_pumpExcludedLegs rs
               @ (if offending \<noteq> [] then offending else [0..<length legs])\<rparr>))
         else if at_code attribution = Some 6021 \<and> attempt < limit then Inr rs
         else reject ''SIMULATION_FAILED''
     | Compute \<Rightarrow>
         if attempt < limit \<and> capIndex + 1 < capCount
         then Inr (rs\<lparr>rs_capStartIndex := capIndex + 1\<rparr>)
         else reject ''COMPUTE_LIMIT''
     | _ \<Rightarrow> if attempt < limit then Inr rs else reject ''EXTERNAL_SIMULATION_FAILURE'')"

lemma retryDecision_attempt: "retryDecision limit n attempt i legs attr rs = Inr rs' \<Longrightarrow> attempt < limit"
  by (auto simp: retryDecision_def Let_def split: attribution_kind.splits if_splits)

subsection \<open>Properties\<close>

text \<open>
  A floor of the static policy never rounds in the caller's disfavour: it is the least
  output at which the configured rate is met, and there is no floor for an unknown target or a
  non-positive rate.
\<close>

theorem static_floor_ceiling:
  assumes "requiredMinimumOutput rates input mint = Inr f" "0 \<le> input"
  shows "\<exists>rate. rates (toBase58 mint) = Some rate \<and> 0 < rate_numerator rate \<and> 0 < rate_denominator rate \<and>
    input * rate_numerator rate \<le> f * rate_denominator rate \<and>
    (f - 1) * rate_denominator rate < input * rate_numerator rate"
proof -
  obtain rate where r: "rates (toBase58 mint) = Some rate" "0 < rate_numerator rate"
      "0 < rate_denominator rate"
      and f: "f = quot_big (input * rate_numerator rate + rate_denominator rate - 1) (rate_denominator rate)"
    using assms(1) by (auto simp: requiredMinimumOutput_def res_simps not_le)
  define d n where "d = rate_denominator rate" and "n = input * rate_numerator rate"
  have d: "0 < d" and n: "0 \<le> n" using r assms(2) by (simp_all add: d_def n_def)
  then have f': "f = (n + d - 1) div d" by (simp add: f d_def n_def)
  have "n + d - 1 = f * d + (n + d - 1) mod d"
    unfolding f' by (rule div_mult_mod_eq [symmetric])
  then have "n \<le> f * d" "(f - 1) * d < n"
    using pos_mod_bound [OF d, of "n + d - 1"] pos_mod_sign [OF d, of "n + d - 1"]
    by (simp_all add: left_diff_distrib)
  then show ?thesis
    using r by (auto simp: d_def n_def)
qed

lemma static_floor_ceiling_witness:
  "\<exists>rate. [toBase58 (example_key 84) \<mapsto> \<lparr>rate_numerator = 3, rate_denominator = 7\<rparr>]
      (toBase58 (example_key 84)) = Some rate \<and> 0 < rate_numerator rate \<and> 0 < rate_denominator rate \<and>
    100 * rate_numerator rate \<le> 43 * rate_denominator rate \<and>
    (43 - 1) * rate_denominator rate < 100 * rate_numerator rate"
  by (rule static_floor_ceiling) (simp_all add: requiredMinimumOutput_def)

text \<open>
  A failed simulation that the burner program itself raised is final: it is quoted again
  only for code 6021, or once for code 6018, and every other code rejects the burn with
  SIMULATION_FAILED whatever attempts remain. After the 6018 retry another 6018 is final.
\<close>

theorem burner_failures_final:
  "(\<exists>rs'. retryDecision limit capCount attempt capIndex legs
      \<lparr>at_kind = Burner, at_code = code, at_programId = p\<rparr> rs = Inr rs')
    \<longleftrightarrow> attempt < limit \<and> (code = Some 6021 \<or> code = Some 6018 \<and> \<not> rs_cashbackRetryUsed rs)"
  by (auto simp: retryDecision_def Let_def)

text \<open>
  A failure is credited to the burner exactly when the first program frame of the logs is
  the burner's: a bare custom code of another program in the transaction error never is.
\<close>

theorem burner_attribution:
  "at_kind (classifySimulationFailure errorText logs burner) = Burner \<longleftrightarrow>
    (\<exists>code. first_failure (nullable_list logs) = Some (toBase58 burner, code))"
  by (auto simp: classifySimulationFailure_def Let_def split: option.splits prod.splits)

text \<open>
  A log message can take the place of a program frame: the text after \<open>Program\<close> is not
  required to be a program id, and \<open>Program log:\<close> is accepted as one. A program that logs
  such a line before the burner fails makes the burner's deterministic refusal count as external.
\<close>

lemma spoofed_frame:
  "classifySimulationFailure ''{}''
     (Val [''Program log: failed: custom program error: 0x1'',
           ''Program burnLkcSaW4gHz3xXT1vnKZg3oJuH6Wc2yHcmHptyh5 failed: custom program error: 0x1772''])
     DEFAULT_BURNER_PROGRAM
   = \<lparr>at_kind = External, at_code = Some 1, at_programId = Some ''log:''\<rparr>"
  by code_simp

end
