(* ===== verification/Pipeline.thy ===== *)
theory Pipeline
  imports Simulation Lease
begin

text \<open>
  \<open>QuoteService\<close> of \<open>quote-service/core.ts\<close>: from a raw request to a built and
  simulated burn (\<open>prepare\<close>) or to a submitted one (\<open>execute\<close>).

  What a dependency answers may change from call to call. The chain is therefore read through
  one gateway per \<open>stage\<close>, and Jupiter, the direct-curve builder and the simulation are
  indexed by the attempt, the rung of the fitting ladder and the leg. Reads the code issues
  concurrently with \<open>Promise.all\<close> are sequenced; of several failing legs the first in leg
  order is reported. Timing events are not modelled.
\<close>

subsection \<open>Dependencies\<close>

datatype stage =
    Resolving
  | VaultAdmission
  | TargetAdmission
  | RequestedTables
  | Quoting nat nat nat
  | Compiling nat nat
  | Simulating nat
  | Finishing
  | AfterSigning

text \<open>The transaction library and the cryptography, outside the repository.\<close>

record 'tx tx_library =
  tc_compile :: "pubkey \<Rightarrow> string \<Rightarrow> instruction list \<Rightarrow> lookup_table list \<Rightarrow> 'tx res"
  tc_serialize :: "'tx \<Rightarrow> byte list res"
  tc_staticKeys :: "'tx \<Rightarrow> pubkey list"
  tc_requiredSignatures :: "'tx \<Rightarrow> nat"
  tc_tableLookups :: "'tx \<Rightarrow> (nat \<times> nat) list"
  tc_decompile :: "'tx \<Rightarrow> lookup_table list \<Rightarrow> instruction list res"
  tc_messageBytes :: "'tx \<Rightarrow> byte list res"
  tc_addSignature :: "'tx \<Rightarrow> pubkey \<Rightarrow> byte list \<Rightarrow> 'tx"
  tc_deserialize :: "byte list \<Rightarrow> 'tx option"
  tc_programIdIndexes :: "'tx \<Rightarrow> nat list"
  tc_signatures :: "'tx \<Rightarrow> byte list list"
  tc_setComputeUnitLimit :: "int \<Rightarrow> byte list"
  tc_sha256 :: "byte list \<Rightarrow> string"
  tc_ed25519 :: "pubkey \<Rightarrow> byte list \<Rightarrow> byte list \<Rightarrow> bool"

record jupiter_params =
  jp_outputMint :: pubkey
  jp_amount :: int
  jp_taker :: pubkey
  jp_destinationTokenAccount :: pubkey
  jp_maxAccounts :: "int option"
  jp_excludeDexes :: "string list option"

record curve_request =
  cq_vault :: pubkey
  cq_targetMint :: pubkey
  cq_tokenProgram :: pubkey
  cq_targetAta :: pubkey

record 'tx dependencies =
  d_web3 :: web3
  d_chain :: "stage \<Rightarrow> ('tx, string) chain_gateway"
  d_jupiter :: "nat \<Rightarrow> nat \<Rightarrow> nat \<Rightarrow> jupiter_params \<Rightarrow> jupiter_build res"
  d_directCurve :: "(nat \<Rightarrow> nat \<Rightarrow> nat \<Rightarrow> curve_request \<Rightarrow> direct_curve_leg res) option"
  d_floorPolicy :: "(int \<Rightarrow> pubkey \<Rightarrow> int res) option"
  d_burnerProgram :: "pubkey option"
  d_policy :: service_policy
  d_txlib :: "'tx tx_library"

definition COMPUTE_BUDGET_PROGRAM :: pubkey where
  "COMPUTE_BUDGET_PROGRAM = PublicKey ''ComputeBudget111111111111111111111111111111''"

definition burnerProgram :: "'tx dependencies \<Rightarrow> pubkey" where
  "burnerProgram deps = (case d_burnerProgram deps of None \<Rightarrow> DEFAULT_BURNER_PROGRAM | Some k \<Rightarrow> k)"

definition newPublicKey :: "web3 \<Rightarrow> string \<Rightarrow> pubkey res" where
  "newPublicKey w s = (case parsePubkey w s of
     None \<Rightarrow> Inl (PlainError ''Invalid public key input'') | Some k \<Rightarrow> Inr k)"

lemma newPublicKey_Inr [res_simps]: "newPublicKey w s = Inr k \<longleftrightarrow> parsePubkey w s = Some k"
  by (simp add: newPublicKey_def split: option.splits)

subsection \<open>Resolving a request\<close>

record requested_leg =
  rl_targetMint :: pubkey
  rl_bps :: int
  rl_reference :: resolved_reference

record resolved_request =
  rq_request :: burn_request
  rq_launchMint :: pubkey
  rq_amount :: int
  rq_legs :: "requested_leg list"
  rq_pda :: pubkey

definition refuseNativeTarget :: "web3 \<Rightarrow> burn_leg_request \<Rightarrow> unit res" where
  "refuseNativeTarget w leg = bindR (newPublicKey w (lr_targetMint leg)) (\<lambda>targetMint.
    if targetMint = NATIVE_MINT \<or> targetMint = NATIVE_MINT_2022
    then reject ''TARGET_MINT_NATIVE'' else Inr ())"

text \<open>An empty reference string is falsy, which a parsed request cannot hold.\<close>

definition resolveLeg :: "web3 \<Rightarrow> account_reader \<Rightarrow> burn_leg_request \<Rightarrow> requested_leg res" where
  "resolveLeg w reader leg = bindR (newPublicKey w (lr_targetMint leg)) (\<lambda>targetMint.
    bindR (case lr_reference leg of
        None \<Rightarrow> Inr None
      | Some r \<Rightarrow> if r = [] then Inr None else bindR (newPublicKey w r) (\<lambda>k. Inr (Some k)))
      (\<lambda>reference.
    bindR (resolveReference w reader targetMint reference) (\<lambda>resolved.
      Inr \<lparr>rl_targetMint = targetMint, rl_bps = lr_bps leg, rl_reference = resolved\<rparr>)))"

definition refuseLocally :: "int list \<Rightarrow> nat \<Rightarrow> requested_leg \<Rightarrow> unit res" where
  "refuseLocally legAmounts index leg =
    (if legAmounts ! index = 0 then reject ''ZERO_LEG_AMOUNT''
     else bindR (rr_floorFor (rl_reference leg) (legAmounts ! index)) (\<lambda>_. Inr ()))"

definition vaultLegs :: "requested_leg list \<Rightarrow> vault_leg list" where
  "vaultLegs legs = map (\<lambda>leg. \<lparr>vl_targetMint = rl_targetMint leg, vl_bps = rl_bps leg,
    vl_refSeed = rr_seed (rl_reference leg)\<rparr>) legs"

definition resolveRequest :: "'tx dependencies \<Rightarrow> jsval \<Rightarrow> resolved_request res" where
  "resolveRequest deps rawRequest =
    (let w = d_web3 deps in
     bindR (parseBurnRequest w rawRequest) (\<lambda>request.
     bindR (newPublicKey w (br_launchMint request)) (\<lambda>launchMint.
     bindR (js_BigInt (br_amountIn request)) (\<lambda>amount.
     if amount > po_maxAmountPerBurn (d_policy deps) then reject ''NOTIONAL_LIMIT''
     else bindR (forEach (refuseNativeTarget w) (br_legs request)) (\<lambda>_.
     bindR (traverse (resolveLeg w (getAccountData (d_chain deps Resolving))) (br_legs request))
       (\<lambda>requestedLegs.
     bindR (forEach_from 0 (refuseLocally (splitAmounts amount (map rl_bps requestedLegs)))
       requestedLegs) (\<lambda>_.
     bindR (deriveVault w (burnerProgram deps) launchMint (vaultLegs requestedLegs)) (\<lambda>pda.
       Inr \<lparr>rq_request = request, rq_launchMint = launchMint, rq_amount = amount,
            rq_legs = requestedLegs, rq_pda = pda\<rparr>))))))))"

subsection \<open>Admission\<close>

definition admitVault :: "'tx dependencies \<Rightarrow> resolved_request \<Rightarrow> pubkey res" where
  "admitVault deps rq =
    (let chain = d_chain deps VaultAdmission; pda = rq_pda rq; amount = rq_amount rq in
     bindR (getMint chain (rq_launchMint rq)) (\<lambda>launch.
     bindR (requireAllowedMint launch False) (\<lambda>_.
     bindR (getRawAccount chain pda) (\<lambda>found.
     (case found of
        None \<Rightarrow> reject ''INVALID_VAULT''
      | Some vault \<Rightarrow>
         if r_owner vault \<noteq> SYSTEM_PROGRAM \<or> r_dataLength vault \<noteq> 0 then reject ''INVALID_VAULT''
         else if r_lamports vault < amount then reject ''INSUFFICIENT_VAULT_BALANCE''
         else bindR (getRentFloorForZeroData chain) (\<lambda>rentFloor.
           (let remainder = r_lamports vault - amount in
            if remainder \<noteq> 0 \<and> remainder < rentFloor then reject ''DUST_REMAINDER''
            else bindR (associatedTokenAddress (d_web3 deps) NATIVE_MINT pda True TOKEN_PROGRAM_ID)
              (\<lambda>wsolAta.
              bindR (getTokenAccount chain wsolAta) (\<lambda>account.
              bindR (requireTokenAccount account wsolAta TOKEN_PROGRAM_ID NATIVE_MINT pda True)
                (\<lambda>_. Inr wsolAta))))))))))"

record admitted_leg =
  ad_targetMint :: pubkey
  ad_bps :: int
  ad_reference :: resolved_reference
  ad_amountIn :: int
  ad_tokenProgram :: pubkey
  ad_ata :: pubkey
  ad_programFloor :: int

definition admitLeg ::
  "'tx dependencies \<Rightarrow> pubkey \<Rightarrow> int list \<Rightarrow> nat \<Rightarrow> requested_leg \<Rightarrow> admitted_leg res" where
  "admitLeg deps pda amounts index leg =
    (let chain = d_chain deps TargetAdmission in
     if amounts ! index = 0 then reject ''ZERO_LEG_AMOUNT''
     else bindR (getMint chain (rl_targetMint leg)) (\<lambda>snapshot.
     bindR (requireAllowedMint snapshot True) (\<lambda>mint.
     bindR (associatedTokenAddress (d_web3 deps) (rl_targetMint leg) pda True (m_ownerProgram mint))
       (\<lambda>ata.
     bindR (getTokenAccount chain ata) (\<lambda>account.
     bindR (requireTokenAccount account ata (m_ownerProgram mint) (rl_targetMint leg) pda False) (\<lambda>_.
     bindR (rr_floorFor (rl_reference leg) (amounts ! index)) (\<lambda>programFloor.
       Inr \<lparr>ad_targetMint = rl_targetMint leg, ad_bps = rl_bps leg,
            ad_reference = rl_reference leg, ad_amountIn = amounts ! index,
            ad_tokenProgram = m_ownerProgram mint, ad_ata = ata,
            ad_programFloor = programFloor\<rparr>)))))))"

definition vaultAltCovers :: "pubkey \<Rightarrow> pubkey \<Rightarrow> admitted_leg list \<Rightarrow> lookup_table list \<Rightarrow> bool" where
  "vaultAltCovers pda wsolAta admitted tables =
    (let covered = concat (map lt_addresses tables);
         required = [pda, wsolAta]
           @ concat (map (\<lambda>leg. [ad_ata leg, rr_pool (ad_reference leg)]) admitted)
     in list_all (\<lambda>k. k \<in> set covered) required)"

text \<open>What the attempt loop works from.\<close>

record burn_context =
  cx_resolved :: resolved_request
  cx_feePayer :: pubkey
  cx_wsolAta :: pubkey
  cx_admitted :: "admitted_leg list"
  cx_requestedTables :: "lookup_table list"

subsection \<open>Quoting one leg\<close>

definition buildCurveLeg ::
  "'tx dependencies \<Rightarrow> burn_context \<Rightarrow> nat \<Rightarrow> nat \<Rightarrow> nat \<Rightarrow> admitted_leg \<Rightarrow> prepared_leg res" where
  "buildCurveLeg deps cx attempt capIndex legIndex leg =
    (case d_directCurve deps of
       None \<Rightarrow> reject ''DIRECT_CURVE_UNAVAILABLE''
     | Some build \<Rightarrow>
        bindR (build attempt capIndex legIndex \<lparr>cq_vault = rq_pda (cx_resolved cx),
          cq_targetMint = ad_targetMint leg, cq_tokenProgram = ad_tokenProgram leg,
          cq_targetAta = ad_ata leg\<rparr>) (\<lambda>curveBuild.
        if dl_missingSetup curveBuild \<noteq> [] then reject ''SETUP_REQUIRED''
        else bindR (assertDirectCurveLegShape (d_web3 deps) (dl_accounts curveBuild)
            (rq_pda (cx_resolved cx)) (ad_targetMint leg) (ad_ata leg)) (\<lambda>_.
          Inr \<lparr>pl_targetMint = ad_targetMint leg, pl_targetTokenProgram = ad_tokenProgram leg,
               pl_targetAta = ad_ata leg, pl_bps = ad_bps leg, pl_amountIn = ad_amountIn leg,
               pl_minimumOutput = ad_programFloor leg, pl_reference = ad_reference leg,
               pl_routeAccounts = dl_accounts curveBuild, pl_routeData = [],
               pl_lookupTables = []\<rparr>)))"

text \<open>The idempotent token accounts Jupiter would create must exist already.\<close>

definition requireSetupDone ::
  "web3 \<Rightarrow> ('tx, string) chain_gateway \<Rightarrow> jupiter_instruction \<Rightarrow> unit res" where
  "requireSetupDone w chain instruction =
    (case nth_opt (ji_accounts instruction) 1 of
       None \<Rightarrow> reject ''SETUP_REQUIRED''
     | Some ata \<Rightarrow> bindR (newPublicKey w (rm_pubkey ata)) (\<lambda>k.
         bindR (getRawAccount chain k) (\<lambda>account.
           if account = None then reject ''SETUP_REQUIRED'' else Inr ())))"

text \<open>The limits on the quote of a Jupiter leg, in the order of the code.\<close>

definition checkQuote ::
  "service_policy \<Rightarrow> jupiter_build \<Rightarrow> int \<Rightarrow> int \<Rightarrow> int \<Rightarrow> unit res" where
  "checkQuote policy build quotedOut threshold programFloor =
    (if quotedOut \<le> 0 \<or> threshold \<le> 0 \<or> threshold > quotedOut then reject ''INVALID_OUTPUT_FLOOR''
     else if quot_big quotedOut 2 > programFloor then reject ''REFERENCE_DOES_NOT_PRICE_MARKET''
     else (case as_integer (js_Number (jb_slippageBps build)) of
       None \<Rightarrow> reject ''SLIPPAGE_POLICY''
     | Some slippageBps \<Rightarrow>
        if slippageBps < 0 \<or> slippageBps > po_maxSlippageBps policy then reject ''SLIPPAGE_POLICY''
        else if threshold * BPS_TOTAL < quotedOut * (BPS_TOTAL - po_maxSlippageBps policy)
        then reject ''SLIPPAGE_POLICY''
        else (case js_Number (if jb_priceImpactPct build \<in> {JUndef, JNull} then JStr ''0''
                  else jb_priceImpactPct build) of
          None \<Rightarrow> reject ''PRICE_IMPACT_POLICY''
        | Some priceImpact \<Rightarrow>
           if priceImpact < 0 \<or> priceImpact * of_int BPS_TOTAL > po_maxPriceImpactBps policy
           then reject ''PRICE_IMPACT_POLICY'' else Inr ())))"

definition buildJupiterLeg ::
  "'tx dependencies \<Rightarrow> burn_context \<Rightarrow> nat \<Rightarrow> nat \<Rightarrow> int option \<Rightarrow> nat list \<Rightarrow> nat \<Rightarrow>
    admitted_leg \<Rightarrow> prepared_leg res" where
  "buildJupiterLeg deps cx attempt capIndex cap pumpExcludedLegs legIndex leg =
    (let w = d_web3 deps; chain = d_chain deps (Quoting attempt capIndex legIndex);
         pda = rq_pda (cx_resolved cx); policy = d_policy deps in
     bindR (d_jupiter deps attempt capIndex legIndex
       \<lparr>jp_outputMint = ad_targetMint leg, jp_amount = ad_amountIn leg, jp_taker = pda,
        jp_destinationTokenAccount = ad_ata leg, jp_maxAccounts = cap,
        jp_excludeDexes = (if legIndex \<in> set pumpExcludedLegs
          then Some PUMP_VENUE_EXCLUDE_DEXES else None)\<rparr>) (\<lambda>build.
     bindR (assertRoute build pda (cx_wsolAta cx) (ad_targetMint leg) (ad_ata leg)
       (ad_tokenProgram leg) (ad_amountIn leg)) (\<lambda>routeData.
     bindR (assertAuxiliaryInstructions build) (\<lambda>setup.
     bindR (forEach (requireSetupDone w chain) setup) (\<lambda>_.
     bindR (js_BigInt (jb_outAmount build)) (\<lambda>quotedOut.
     bindR (js_BigInt (jb_otherAmountThreshold build)) (\<lambda>threshold.
     bindR (checkQuote policy build quotedOut threshold (ad_programFloor leg)) (\<lambda>_.
     bindR (case d_floorPolicy deps of
         None \<Rightarrow> Inr ()
       | Some requiredOutput \<Rightarrow>
           bindR (requiredOutput (ad_amountIn leg) (ad_targetMint leg)) (\<lambda>independentFloor.
             if threshold < independentFloor then reject ''INDEPENDENT_FLOOR'' else Inr ())) (\<lambda>_.
     bindR (resolveAndValidateLookupTables w chain
         (case jb_addressesByLookupTableAddress build of None \<Rightarrow> [] | Some claimed \<Rightarrow> claimed) [])
       (\<lambda>lookupTables.
       Inr \<lparr>pl_targetMint = ad_targetMint leg, pl_targetTokenProgram = ad_tokenProgram leg,
            pl_targetAta = ad_ata leg, pl_bps = ad_bps leg, pl_amountIn = ad_amountIn leg,
            pl_minimumOutput = (if ad_programFloor leg > threshold then ad_programFloor leg
              else threshold),
            pl_reference = ad_reference leg,
            pl_routeAccounts = (case jb_swapInstruction build of None \<Rightarrow> []
              | Some swap \<Rightarrow> ji_accounts swap),
            pl_routeData = routeData, pl_lookupTables = lookupTables\<rparr>))))))))))"

definition buildLeg ::
  "'tx dependencies \<Rightarrow> burn_context \<Rightarrow> nat \<Rightarrow> nat \<Rightarrow> int option \<Rightarrow> nat list \<Rightarrow> nat \<Rightarrow>
    admitted_leg \<Rightarrow> prepared_leg res" where
  "buildLeg deps cx attempt capIndex cap pumpExcludedLegs legIndex leg =
    (if rr_venue (ad_reference leg) = DIRECT_CURVE_VENUE
     then buildCurveLeg deps cx attempt capIndex legIndex leg
     else buildJupiterLeg deps cx attempt capIndex cap pumpExcludedLegs legIndex leg)"

subsection \<open>One rung of the fitting ladder\<close>

definition mergeTables :: "prepared_leg list \<Rightarrow> lookup_table list \<Rightarrow> lookup_table list" where
  "mergeTables legs requestedTables =
    map_values (map (\<lambda>table. (toBase58 (lt_key table), table))
      (concat (map pl_lookupTables legs) @ requestedTables))"

record 'tx final_burn =
  fb_transaction :: 'tx
  fb_lookupTables :: "lookup_table list"
  fb_legs :: "prepared_leg list"
  fb_bytes :: nat
  fb_locks :: nat
  fb_capIndex :: nat
  fb_validity :: latest_blockhash

definition computeInstruction :: "'tx tx_library \<Rightarrow> int \<Rightarrow> instruction" where
  "computeInstruction lib units =
    \<lparr>programId = COMPUTE_BUDGET_PROGRAM, keys = [], ix_data = tc_setComputeUnitLimit lib units\<rparr>"

definition transactionBytes :: "'tx tx_library \<Rightarrow> 'tx \<Rightarrow> nat" where
  "transactionBytes lib tx = (case tc_serialize lib tx of
     Inr wire \<Rightarrow> length wire | Inl _ \<Rightarrow> MAX_TRANSACTION_BYTES + 1)"

definition accountLocks :: "'tx tx_library \<Rightarrow> 'tx \<Rightarrow> nat" where
  "accountLocks lib tx = length (tc_staticKeys lib tx)
    + sum_list (map (\<lambda>(writable, readonly). writable + readonly) (tc_tableLookups lib tx))"

text \<open>The final defence: the compiled message is decompiled and compared.\<close>

definition assertTopLevel ::
  "'tx tx_library \<Rightarrow> pubkey \<Rightarrow> pubkey \<Rightarrow> instruction \<Rightarrow> instruction \<Rightarrow> 'tx \<Rightarrow> lookup_table list \<Rightarrow>
    unit res" where
  "assertTopLevel lib burner feePayer compute burn tx tables =
    bindR (tc_decompile lib tx tables) (\<lambda>instructions.
    if \<not> (case instructions of
        [first, second] \<Rightarrow> programId first = COMPUTE_BUDGET_PROGRAM \<and> programId second = burner
          \<and> ix_data first = ix_data compute \<and> ix_data second = ix_data burn
      | _ \<Rightarrow> False)
    then reject ''TOP_LEVEL_INSTRUCTION_POLICY''
    else if take (tc_requiredSignatures lib tx) (tc_staticKeys lib tx) \<noteq> [feePayer]
    then reject ''SIGNER_LAYOUT'' else Inr ())"

text \<open>\<open>Inr None\<close>: the candidate of this rung does not fit.\<close>

definition tryRung ::
  "'tx dependencies \<Rightarrow> burn_context \<Rightarrow> nat \<Rightarrow> nat list \<Rightarrow> nat \<Rightarrow> int option \<Rightarrow>
    'tx final_burn option res" where
  "tryRung deps cx attempt pumpExcludedLegs capIndex cap =
    (let lib = d_txlib deps; rq = cx_resolved cx; burner = burnerProgram deps in
     bindR (traverse_idx (buildLeg deps cx attempt capIndex cap pumpExcludedLegs) (cx_admitted cx))
       (\<lambda>legs.
     (let lookupTables = mergeTables legs (cx_requestedTables cx) in
     bindR (buildBurnInstruction (d_web3 deps) burner (cx_feePayer cx) (rq_launchMint rq)
       (rq_pda rq) (cx_wsolAta cx) (rq_amount rq) legs) (\<lambda>burn.
     bindR (getLatestBlockhash (d_chain deps (Compiling attempt capIndex))) (\<lambda>validity.
     (let compute = computeInstruction lib (po_computeUnitLimit (d_policy deps)) in
     bindR (tc_compile lib (cx_feePayer cx) (lb_blockhash validity) [compute, burn] lookupTables)
       (\<lambda>tx.
     (let bytes = transactionBytes lib tx; locks = accountLocks lib tx in
      if bytes \<le> MAX_TRANSACTION_BYTES \<and> locks \<le> MAX_ACCOUNT_LOCKS
      then bindR (assertTopLevel lib burner (cx_feePayer cx) compute burn tx lookupTables) (\<lambda>_.
        Inr (Some \<lparr>fb_transaction = tx, fb_lookupTables = lookupTables, fb_legs = legs,
          fb_bytes = bytes, fb_locks = locks, fb_capIndex = capIndex, fb_validity = validity\<rparr>))
      else Inr None))))))))"

fun rungLoop ::
  "'tx dependencies \<Rightarrow> burn_context \<Rightarrow> nat \<Rightarrow> nat list \<Rightarrow> (nat \<times> int option) list \<Rightarrow>
    'tx final_burn option res" where
  "rungLoop deps cx attempt pumpExcludedLegs [] = Inr None"
| "rungLoop deps cx attempt pumpExcludedLegs ((capIndex, cap) # rest) =
    bindR (tryRung deps cx attempt pumpExcludedLegs capIndex cap) (\<lambda>candidate.
      case candidate of
        Some final \<Rightarrow> Inr (Some final)
      | None \<Rightarrow>
          if cap = None \<and> length (cx_admitted cx) \<ge> 3
            \<and> \<not> vaultAltCovers (rq_pda (cx_resolved cx)) (cx_wsolAta cx) (cx_admitted cx)
                (cx_requestedTables cx)
          then reject ''TRANSACTION_TOO_LARGE''
          else rungLoop deps cx attempt pumpExcludedLegs rest)"

definition fittingCaps :: "service_policy \<Rightarrow> int option list" where
  "fittingCaps policy = None # map Some (po_fittingMaxAccounts policy)"

definition rungsFrom :: "service_policy \<Rightarrow> nat \<Rightarrow> (nat \<times> int option) list" where
  "rungsFrom policy start = drop start (zip [0..<length (fittingCaps policy)] (fittingCaps policy))"

subsection \<open>The attempt loop\<close>

definition cleanSimulation :: "service_policy \<Rightarrow> string simulation_result \<Rightarrow> bool" where
  "cleanSimulation policy sim \<longleftrightarrow> sim_error sim = None \<and>
    (case sim_unitsConsumed sim of None \<Rightarrow> True | Some units \<Rightarrow> units \<le> po_computeUnitLimit policy)"

text \<open>A run that exceeded the compute limit without an error counts as compute exhaustion.\<close>

definition attributeSimulation :: "pubkey \<Rightarrow> string simulation_result \<Rightarrow> attribution" where
  "attributeSimulation burner sim = (case sim_error sim of
     Some errorText \<Rightarrow> classifySimulationFailure errorText (sim_logs sim) burner
   | None \<Rightarrow> \<lparr>at_kind = Compute, at_code = None, at_programId = None\<rparr>)"

function attemptLoop ::
  "'tx dependencies \<Rightarrow> burn_context \<Rightarrow> nat \<Rightarrow> retry_state \<Rightarrow>
    ('tx final_burn \<times> string simulation_result) res" where
  "attemptLoop deps cx attempt rs =
    (let policy = d_policy deps in
     bindR (rungLoop deps cx attempt (rs_pumpExcludedLegs rs)
       (rungsFrom policy (rs_capStartIndex rs))) (\<lambda>candidate.
     case candidate of
       None \<Rightarrow> reject ''TRANSACTION_TOO_LARGE''
     | Some final \<Rightarrow>
        bindR (simulate_tx (d_chain deps (Simulating attempt)) (fb_transaction final)) (\<lambda>sim.
        if cleanSimulation policy sim then Inr (final, sim)
        else bindR (retryDecision (retryLimit policy) (length (fittingCaps policy)) attempt
            (fb_capIndex final) (fb_legs final)
            (attributeSimulation (burnerProgram deps) sim) rs) (\<lambda>rs'.
          attemptLoop deps cx (attempt + 1) rs'))))"
  by pat_completeness auto
termination
  by (relation "measure (\<lambda>(deps, cx, attempt, rs). retryLimit (d_policy deps) - attempt)")
    (auto dest: retryDecision_attempt)

declare attemptLoop.simps [simp del]

subsection \<open>The built burn\<close>

record 'tx built_burn =
  bb_transaction :: 'tx
  bb_legs :: "prepared_leg list"
  bb_bytes :: nat
  bb_locks :: nat
  bb_validity :: latest_blockhash
  bb_simulatedUnits :: "int option"
  bb_digest :: string

definition admitBurn ::
  "'tx dependencies \<Rightarrow> resolved_request \<Rightarrow> pubkey \<Rightarrow> burn_context res" where
  "admitBurn deps rq feePayer =
    bindR (admitVault deps rq) (\<lambda>wsolAta.
    bindR (traverse_idx (admitLeg deps (rq_pda rq)
      (splitAmounts (rq_amount rq) (map rl_bps (rq_legs rq)))) (rq_legs rq)) (\<lambda>admitted.
    bindR (resolveAndValidateLookupTables (d_web3 deps) (d_chain deps RequestedTables) []
      (case br_lookupTableAddresses (rq_request rq) of None \<Rightarrow> [] | Some ts \<Rightarrow> ts)) (\<lambda>tables.
      Inr \<lparr>cx_resolved = rq, cx_feePayer = feePayer, cx_wsolAta = wsolAta,
           cx_admitted = admitted, cx_requestedTables = tables\<rparr>)))"

definition requireLifetime :: "'tx dependencies \<Rightarrow> stage \<Rightarrow> latest_blockhash \<Rightarrow> unit res" where
  "requireLifetime deps st validity =
    bindR (getBlockHeight (d_chain deps st)) (\<lambda>height.
      if lb_lastValidBlockHeight validity - height < po_minRemainingBlockHeights (d_policy deps)
      then reject ''BLOCKHASH_TOO_OLD'' else Inr ())"

definition buildAndSimulate ::
  "'tx dependencies \<Rightarrow> resolved_request \<Rightarrow> pubkey \<Rightarrow> 'tx built_burn res" where
  "buildAndSimulate deps rq feePayer =
    bindR (admitBurn deps rq feePayer) (\<lambda>cx.
    bindR (attemptLoop deps cx 0 initial_retry) (\<lambda>(final, sim).
    bindR (requireLifetime deps Finishing (fb_validity final)) (\<lambda>_.
    bindR (tc_messageBytes (d_txlib deps) (fb_transaction final)) (\<lambda>message.
      Inr \<lparr>bb_transaction = fb_transaction final, bb_legs = fb_legs final,
           bb_bytes = fb_bytes final, bb_locks = fb_locks final,
           bb_validity = fb_validity final, bb_simulatedUnits = sim_unitsConsumed sim,
           bb_digest = tc_sha256 (d_txlib deps) message\<rparr>))))"

subsection \<open>prepare and execute\<close>

record 'tx prepared_burn =
  pb_requestId :: string
  pb_vault :: string
  pb_built :: "'tx built_burn"
  pb_minimumOutputs :: "int list"

definition prepare :: "'tx dependencies \<Rightarrow> jsval \<Rightarrow> pubkey \<Rightarrow> 'tx prepared_burn res" where
  "prepare deps rawRequest feePayer =
    bindR (resolveRequest deps rawRequest) (\<lambda>rq.
    bindR (buildAndSimulate deps rq feePayer) (\<lambda>built.
      Inr \<lparr>pb_requestId = br_requestId (rq_request rq), pb_vault = toBase58 (rq_pda rq),
           pb_built = built, pb_minimumOutputs = map pl_minimumOutput (bb_legs built)\<rparr>))"

record message_signer =
  ms_publicKey :: pubkey
  ms_signMessage :: "byte list \<Rightarrow> byte list res"

definition verifyEd25519 :: "'tx tx_library \<Rightarrow> pubkey \<Rightarrow> byte list \<Rightarrow> byte list \<Rightarrow> bool" where
  "verifyEd25519 lib publicKey message signature \<longleftrightarrow>
    length signature = 64 \<and> tc_ed25519 lib publicKey message signature"

fun signWith :: "'tx tx_library \<Rightarrow> byte list \<Rightarrow> message_signer list \<Rightarrow> 'tx \<Rightarrow> 'tx res" where
  "signWith lib message [] tx = Inr tx"
| "signWith lib message (signer # rest) tx =
    bindR (ms_signMessage signer message) (\<lambda>signature.
    if \<not> verifyEd25519 lib (ms_publicKey signer) message signature
    then reject ''INVALID_SIGNER_RESPONSE''
    else signWith lib message rest (tc_addSignature lib tx (ms_publicKey signer) signature))"

definition signCompleteMessage :: "'tx tx_library \<Rightarrow> 'tx \<Rightarrow> message_signer list \<Rightarrow> 'tx res" where
  "signCompleteMessage lib tx signers = bindR (tc_messageBytes lib tx) (\<lambda>message.
    signWith lib message signers tx)"

record 'tx burn_receipt =
  rc_prepared :: "'tx prepared_burn"
  rc_submissionId :: string

definition executeUnderLease ::
  "'tx dependencies \<Rightarrow> (byte list \<Rightarrow> string res) \<Rightarrow> resolved_request \<Rightarrow> message_signer \<Rightarrow>
    'tx burn_receipt res" where
  "executeUnderLease deps submit rq signer =
    bindR (buildAndSimulate deps rq (ms_publicKey signer)) (\<lambda>built.
    bindR (signCompleteMessage (d_txlib deps) (bb_transaction built) [signer]) (\<lambda>signed.
    bindR (requireLifetime deps AfterSigning (bb_validity built)) (\<lambda>_.
    bindR (tc_serialize (d_txlib deps) signed) (\<lambda>wire.
    bindR (submit wire) (\<lambda>submissionId.
      Inr \<lparr>rc_prepared = \<lparr>pb_requestId = br_requestId (rq_request rq),
             pb_vault = toBase58 (rq_pda rq), pb_built = built,
             pb_minimumOutputs = map pl_minimumOutput (bb_legs built)\<rparr>,
           rc_submissionId = submissionId\<rparr>)))))"

text \<open>
  \<open>others\<close> is what concurrent requests do to the lease store while this one holds its
  lease.
\<close>

definition execute ::
  "'tx dependencies \<Rightarrow> (byte list \<Rightarrow> string res) \<Rightarrow> message_signer option \<Rightarrow>
    (lease_store \<Rightarrow> lease_store) \<Rightarrow> lease_store \<Rightarrow> jsval \<Rightarrow> 'tx burn_receipt res \<times> lease_store" where
  "execute deps submit feePayerSigner others store rawRequest =
    (case feePayerSigner of
       None \<Rightarrow> (reject ''SIGNER_CONFIGURATION'', store)
     | Some signer \<Rightarrow>
        (case resolveRequest deps rawRequest of
           Inl e \<Rightarrow> (Inl e, store)
         | Inr rq \<Rightarrow> withLease acquire release store (rq_pda rq) (br_requestId (rq_request rq))
             (po_leaseTtlMs (d_policy deps))
             (\<lambda>st. (executeUnderLease deps submit rq signer, others st))))"

subsection \<open>The gate of the submission endpoint\<close>

record 'tx submittable =
  sb_transaction :: 'tx
  sb_feePayer :: pubkey
  sb_messageSha256 :: string

definition assertSubmittableSignedTransaction ::
  "'tx tx_library \<Rightarrow> byte list \<Rightarrow> pubkey \<Rightarrow> 'tx submittable res" where
  "assertSubmittableSignedTransaction lib wire burner =
    (if length wire > MAX_TRANSACTION_BYTES then reject ''TRANSACTION_TOO_LARGE''
     else (case tc_deserialize lib wire of
       None \<Rightarrow> reject ''INVALID_TRANSACTION''
     | Some tx \<Rightarrow>
        if map (nth_opt (tc_staticKeys lib tx)) (tc_programIdIndexes lib tx)
            \<noteq> [Some COMPUTE_BUDGET_PROGRAM, Some burner]
        then reject ''INVALID_TRANSACTION''
        else if tc_requiredSignatures lib tx \<noteq> 1 \<or> length (tc_signatures lib tx) \<noteq> 1
        then reject ''INVALID_TRANSACTION''
        else (case nth_opt (tc_staticKeys lib tx) 0 of
          None \<Rightarrow> Inl TypeError
        | Some feePayer \<Rightarrow> bindR (tc_messageBytes lib tx) (\<lambda>serialized.
            if \<not> verifyEd25519 lib feePayer serialized (tc_signatures lib tx ! 0)
            then reject ''INVALID_CALLER_SIGNATURE''
            else Inr \<lparr>sb_transaction = tx, sb_feePayer = feePayer,
                      sb_messageSha256 = tc_sha256 lib serialized\<rparr>))))"

end
