(* ===== verification/PipelineProps.thy ===== *)
theory PipelineProps
  imports Pipeline
begin

text \<open>
  What a burn built by \<open>QuoteService\<close> guarantees: facts about one rung, one attempt loop
  and one leg, then the properties of \<open>prepare\<close>, \<open>execute\<close> and the submission
  gate, each with an evaluated example.
\<close>

subsection \<open>The attempt loop\<close>

definition fits :: "'tx dependencies \<Rightarrow> burn_context \<Rightarrow> 'tx final_burn \<Rightarrow> bool" where
  "fits deps cx final \<longleftrightarrow>
    (let lib = d_txlib deps; tx = fb_transaction final; rq = cx_resolved cx in
     fb_bytes final = transactionBytes lib tx \<and> fb_bytes final \<le> 1232 \<and>
     fb_locks final = accountLocks lib tx \<and> fb_locks final \<le> 64 \<and>
     take (tc_requiredSignatures lib tx) (tc_staticKeys lib tx) = [cx_feePayer cx] \<and>
     (\<exists>compute burn first second.
       buildBurnInstruction (d_web3 deps) (burnerProgram deps) (cx_feePayer cx) (rq_launchMint rq)
         (rq_pda rq) (cx_wsolAta cx) (rq_amount rq) (fb_legs final) = Inr burn \<and>
       compute = computeInstruction lib (po_computeUnitLimit (d_policy deps)) \<and>
       tc_compile lib (cx_feePayer cx) (lb_blockhash (fb_validity final)) [compute, burn]
         (fb_lookupTables final) = Inr tx \<and>
       tc_decompile lib tx (fb_lookupTables final) = Inr [first, second] \<and>
       programId first = COMPUTE_BUDGET_PROGRAM \<and> ix_data first = ix_data compute \<and>
       programId second = burnerProgram deps \<and> ix_data second = ix_data burn))"

lemma assertTopLevel_Inr [res_simps]:
  "assertTopLevel lib burner feePayer compute burn tx tables = Inr u \<longleftrightarrow>
    (\<exists>first second. tc_decompile lib tx tables = Inr [first, second] \<and>
      programId first = COMPUTE_BUDGET_PROGRAM \<and> programId second = burner \<and>
      ix_data first = ix_data compute \<and> ix_data second = ix_data burn) \<and>
    take (tc_requiredSignatures lib tx) (tc_staticKeys lib tx) = [feePayer]"
proof -
  have two: "(case xs of [first, second] \<Rightarrow> P first second | _ \<Rightarrow> False)
      \<longleftrightarrow> (\<exists>first second. xs = [first, second] \<and> P first second)" for xs :: "instruction list" and P
    by (auto split: list.splits)
  show ?thesis
    unfolding assertTopLevel_def two by (auto simp: res_simps)
qed

lemma tryRung_Some:
  assumes "tryRung deps cx attempt excluded capIndex cap = Inr (Some final)"
  shows "fits deps cx final" "fb_capIndex final = capIndex"
    and "traverse_idx (buildLeg deps cx attempt capIndex cap excluded) (cx_admitted cx)
      = Inr (fb_legs final)"
  using assms
  by (auto simp: tryRung_def fits_def res_simps Let_def MAX_TRANSACTION_BYTES_def
      MAX_ACCOUNT_LOCKS_def split: if_splits)

lemma rungLoop_Some:
  "rungLoop deps cx attempt excluded rungs = Inr (Some final) \<Longrightarrow>
    \<exists>(capIndex, cap) \<in> set rungs. tryRung deps cx attempt excluded capIndex cap = Inr (Some final)"
proof (induction rungs)
  case (Cons r rungs)
  then show ?case
    by (cases r) (auto simp: bindR_Inr_iff split: option.splits if_splits)
qed simp

lemma attemptLoop_Inr:
  assumes "attemptLoop deps cx attempt rs = Inr (final, sim)"
    and "attempt \<le> retryLimit (d_policy deps)"
  shows "\<exists>a excluded capIndex cap. a \<le> retryLimit (d_policy deps) \<and>
    tryRung deps cx a excluded capIndex cap = Inr (Some final) \<and>
    simulate_tx (d_chain deps (Simulating a)) (fb_transaction final) = Inr sim \<and>
    cleanSimulation (d_policy deps) sim"
  using assms
proof (induction deps cx attempt rs rule: attemptLoop.induct)
  case (1 deps cx attempt rs)
  obtain cand csim where cand: "rungLoop deps cx attempt (rs_pumpExcludedLegs rs)
        (rungsFrom (d_policy deps) (rs_capStartIndex rs)) = Inr (Some cand)"
      and csim: "simulate_tx (d_chain deps (Simulating attempt)) (fb_transaction cand) = Inr csim"
      and loop: "(if cleanSimulation (d_policy deps) csim then Inr (cand, csim)
        else bindR (retryDecision (retryLimit (d_policy deps)) (length (fittingCaps (d_policy deps)))
            attempt (fb_capIndex cand) (fb_legs cand)
            (attributeSimulation (burnerProgram deps) csim) rs)
          (attemptLoop deps cx (attempt + 1))) = Inr (final, sim)"
    using "1.prems"(1) by (subst (asm) attemptLoop.simps) (auto simp: res_simps Let_def)
  show ?case
  proof (cases "cleanSimulation (d_policy deps) csim")
    case True
    then have "cand = final" "csim = sim" using loop by auto
    then show ?thesis
      using rungLoop_Some [OF cand] csim True "1.prems"(2) by blast
  next
    case False
    then obtain rs' where rs': "retryDecision (retryLimit (d_policy deps))
          (length (fittingCaps (d_policy deps))) attempt (fb_capIndex cand) (fb_legs cand)
          (attributeSimulation (burnerProgram deps) csim) rs = Inr rs'"
        "attemptLoop deps cx (attempt + 1) rs' = Inr (final, sim)"
      using loop by (auto simp: bindR_Inr_iff)
    show ?thesis
      by (rule "1.IH" [OF refl cand refl csim False rs'(1) rs'(2)])
        (use retryDecision_attempt [OF rs'(1)] in simp)
  qed
qed

subsection \<open>Legs\<close>

definition same_leg :: "admitted_leg \<Rightarrow> prepared_leg \<Rightarrow> bool" where
  "same_leg a p \<longleftrightarrow> pl_targetMint p = ad_targetMint a \<and> pl_targetTokenProgram p = ad_tokenProgram a \<and>
    pl_targetAta p = ad_ata a \<and> pl_bps p = ad_bps a \<and> pl_amountIn p = ad_amountIn a \<and>
    pl_reference p = ad_reference a \<and> ad_programFloor a \<le> pl_minimumOutput p"

lemma buildLeg_same: "buildLeg deps cx attempt capIndex cap ex i a = Inr p \<Longrightarrow> same_leg a p"
  by (auto simp: buildLeg_def buildCurveLeg_def buildJupiterLeg_def res_simps Let_def same_leg_def
      split: if_splits)

lemma admitLeg_Inr:
  assumes "admitLeg deps pda amounts i leg = Inr a"
  shows "ad_targetMint a = rl_targetMint leg \<and> ad_bps a = rl_bps leg \<and>
    ad_reference a = rl_reference leg \<and> ad_amountIn a = amounts ! i \<and> amounts ! i \<noteq> 0 \<and>
    rr_floorFor (rl_reference leg) (amounts ! i) = Inr (ad_programFloor a)"
  using assms by (auto simp: admitLeg_def res_simps Let_def)

lemma admitBurn_Inr:
  assumes "admitBurn deps rq feePayer = Inr cx"
  shows "cx_resolved cx = rq" "cx_feePayer cx = feePayer" "admitVault deps rq = Inr (cx_wsolAta cx)"
    and "traverse_idx (admitLeg deps (rq_pda rq)
      (splitAmounts (rq_amount rq) (map rl_bps (rq_legs rq)))) (rq_legs rq) = Inr (cx_admitted cx)"
  using assms by (auto simp: admitBurn_def bindR_Inr_iff)

lemma buildAndSimulate_Inr:
  assumes "buildAndSimulate deps rq feePayer = Inr built"
  obtains cx final sim a ex capIndex cap where
    "admitBurn deps rq feePayer = Inr cx" "a \<le> retryLimit (d_policy deps)"
    "tryRung deps cx a ex capIndex cap = Inr (Some final)"
    "simulate_tx (d_chain deps (Simulating a)) (fb_transaction final) = Inr sim"
    "cleanSimulation (d_policy deps) sim"
    "requireLifetime deps Finishing (fb_validity final) = Inr ()"
    "bb_transaction built = fb_transaction final" "bb_legs built = fb_legs final"
    "bb_bytes built = fb_bytes final" "bb_locks built = fb_locks final"
    "bb_validity built = fb_validity final"
proof -
  obtain cx final sim where *: "admitBurn deps rq feePayer = Inr cx"
      "attemptLoop deps cx 0 initial_retry = Inr (final, sim)"
      "requireLifetime deps Finishing (fb_validity final) = Inr ()"
      "bb_transaction built = fb_transaction final" "bb_legs built = fb_legs final"
      "bb_bytes built = fb_bytes final" "bb_locks built = fb_locks final"
      "bb_validity built = fb_validity final"
    using assms by (auto simp: buildAndSimulate_def bindR_Inr_iff)
  show ?thesis
    using attemptLoop_Inr [OF *(2)] that [OF *(1)] *(3-) by auto
qed

lemma prepared_legs:
  assumes "buildAndSimulate deps rq feePayer = Inr built" "i < length (rq_legs rq)"
  shows "length (bb_legs built) = length (rq_legs rq)"
    and "\<exists>a. admitLeg deps (rq_pda rq) (splitAmounts (rq_amount rq) (map rl_bps (rq_legs rq))) i
        (rq_legs rq ! i) = Inr a \<and> same_leg a (bb_legs built ! i)"
proof -
  obtain cx final sim a ex capIndex cap where *: "admitBurn deps rq feePayer = Inr cx"
    "tryRung deps cx a ex capIndex cap = Inr (Some final)" "bb_legs built = fb_legs final"
    by (rule buildAndSimulate_Inr [OF assms(1)])
  note adm = admitBurn_Inr(4) [OF *(1)] and legs = tryRung_Some(3) [OF *(2)]
  show "length (bb_legs built) = length (rq_legs rq)"
    using traverse_from_length [OF adm] traverse_from_length [OF legs] *(3) by simp
  have "i < length (cx_admitted cx)"
    using traverse_from_length [OF adm] assms(2) by simp
  from traverse_from_nth [OF legs this] traverse_from_nth [OF adm assms(2)]
  show "\<exists>a. admitLeg deps (rq_pda rq) (splitAmounts (rq_amount rq) (map rl_bps (rq_legs rq))) i
        (rq_legs rq ! i) = Inr a \<and> same_leg a (bb_legs built ! i)"
    using buildLeg_same *(3) by auto
qed

lemma resolveRequest_Inr:
  assumes "resolveRequest deps raw = Inr rq"
  shows "parseBurnRequest (d_web3 deps) raw = Inr (rq_request rq)"
    and "js_BigInt (br_amountIn (rq_request rq)) = Inr (rq_amount rq)"
    and "rq_amount rq \<le> po_maxAmountPerBurn (d_policy deps)"
    and "traverse (resolveLeg (d_web3 deps) (getAccountData (d_chain deps Resolving)))
      (br_legs (rq_request rq)) = Inr (rq_legs rq)"
    and "deriveVault (d_web3 deps) (burnerProgram deps) (rq_launchMint rq) (vaultLegs (rq_legs rq))
      = Inr (rq_pda rq)"
    and "newPublicKey (d_web3 deps) (br_launchMint (rq_request rq)) = Inr (rq_launchMint rq)"
  using assms by (auto simp: resolveRequest_def bindR_Inr_iff if_Inl_Inr Let_def)

lemma resolveLeg_bps: "resolveLeg w reader leg = Inr rl \<Longrightarrow> rl_bps rl = lr_bps leg"
  by (auto simp: resolveLeg_def bindR_Inr_iff)

lemma resolved_bps:
  assumes "resolveRequest deps raw = Inr rq"
  shows "map rl_bps (rq_legs rq) = map lr_bps (br_legs (rq_request rq))"
  using resolveRequest_Inr(4) [OF assms]
  by (intro nth_equalityI) (auto simp: traverse_from_Inr_iff intro: resolveLeg_bps)

lemma resolved_weights:
  assumes "resolveRequest deps raw = Inr rq"
  shows "map rl_bps (rq_legs rq) \<noteq> []" "\<forall>b \<in> set (map rl_bps (rq_legs rq)). 0 \<le> b"
    "sum_list (map rl_bps (rq_legs rq)) = 10000" "0 < rq_amount rq"
proof -
  have wf: "wf_request (d_web3 deps) (rq_request rq)"
    by (rule parseBurnRequest_wf [OF resolveRequest_Inr(1) [OF assms]])
  show "map rl_bps (rq_legs rq) \<noteq> []" "\<forall>b \<in> set (map rl_bps (rq_legs rq)). 0 \<le> b"
    "sum_list (map rl_bps (rq_legs rq)) = 10000"
    unfolding resolved_bps [OF assms] by (rule wf_request_weights [OF wf])+
  have "positive_decimal (br_amountIn (rq_request rq))"
    using wf by (simp add: wf_request_def)
  then show "0 < rq_amount rq"
    using positive_decimal_value js_BigInt_decimal resolveRequest_Inr(2) [OF assms] by fastforce
qed

subsection \<open>An example service\<close>

text \<open>
  One leg on a live Pump curve. The first simulation fails inside Jupiter, the second is clean.
  A transaction of the example library is its instructions with its fee payer; a signed one has the
  mark of the signature behind them, and its first byte shows it.
\<close>

type_synonym example_tx = "pubkey \<times> instruction list"

definition signature_mark :: instruction where
  "signature_mark = \<lparr>programId = SYSTEM_PROGRAM, keys = [], ix_data = []\<rparr>"

definition example_wire :: "byte list \<Rightarrow> instruction" where
  "example_wire wire = \<lparr>programId = COMPUTE_BUDGET_PROGRAM, keys = [], ix_data = wire\<rparr>"

definition example_txlib :: "example_tx tx_library" where
  "example_txlib = \<lparr>tc_compile = (\<lambda>payer blockhash ixs tables. Inr (payer, ixs)),
    tc_serialize = (\<lambda>(payer, ixs). Inr (if signature_mark \<in> set ixs
      then 255 # tl (concat (map ix_data ixs)) else concat (map ix_data ixs))),
    tc_staticKeys = (\<lambda>(payer, ixs). [payer, COMPUTE_BUDGET_PROGRAM, DEFAULT_BURNER_PROGRAM]),
    tc_requiredSignatures = (\<lambda>_. 1), tc_tableLookups = (\<lambda>_. [(3, 5)]),
    tc_decompile = (\<lambda>(payer, ixs) tables. Inr ixs),
    tc_messageBytes = (\<lambda>(payer, ixs). Inr (concat (map ix_data ixs))),
    tc_addSignature = (\<lambda>(payer, ixs) k s. (payer, ixs @ [signature_mark])),
    tc_deserialize = (\<lambda>wire. Some (example_key 67, if wire \<noteq> [] \<and> hd wire = 255
      then [example_wire (2 # tl wire), signature_mark] else [example_wire wire])),
    tc_programIdIndexes = (\<lambda>_. [1, 2]),
    tc_signatures = (\<lambda>(payer, ixs). [replicate 64 (if signature_mark \<in> set ixs then 7 else 0)]),
    tc_setComputeUnitLimit = (\<lambda>units. 2 # le_bytes 4 units), tc_sha256 = (\<lambda>_. ''digest''),
    tc_ed25519 = (\<lambda>k message signature. signature = replicate 64 7)\<rparr>"

definition example_policy :: service_policy where
  "example_policy = \<lparr>po_maxAmountPerBurn = 5000000000, po_maxSlippageBps = 300,
    po_maxPriceImpactBps = 500, po_computeUnitLimit = 1400000, po_minRemainingBlockHeights = 20,
    po_leaseTtlMs = 180000, po_fittingMaxAccounts = [40, 32], po_retryAttempts = None\<rparr>"

definition example_mint :: "pubkey \<Rightarrow> mint_snapshot" where
  "example_mint k = \<lparr>m_address = k, m_ownerProgram = TOKEN_PROGRAM_ID, m_initialized = True,
    m_mintAuthority = None, m_freezeAuthority = None, m_closeAuthority = Undefined,
    m_extensionTypes = [], m_transferHookAuthority = Undefined, m_transferHookProgram = Undefined\<rparr>"

definition example_pda :: pubkey where
  "example_pda = PublicKey ''pda:ppppppsssss''"

definition example_ata :: "pubkey \<Rightarrow> pubkey" where
  "example_ata mint = PublicKey (''ata:'' @ take 8 (toBase58 mint) @ '':'' @ toBase58 example_pda)"

definition example_account :: "pubkey \<Rightarrow> token_account_snapshot option" where
  "example_account k =
    (if k = example_ata NATIVE_MINT then Some \<lparr>t_address = k, t_ownerProgram = TOKEN_PROGRAM_ID,
       t_initialized = True, t_mint = NATIVE_MINT, t_authority = example_pda, t_amount = 0,
       t_isNative = True, t_delegate = None, t_closeAuthority = None, t_extensionTypes = []\<rparr>
     else if k = example_ata (example_key 84) then Some \<lparr>t_address = k,
       t_ownerProgram = TOKEN_PROGRAM_ID, t_initialized = True, t_mint = example_key 84,
       t_authority = example_pda, t_amount = 0, t_isNative = False, t_delegate = None,
       t_closeAuthority = None, t_extensionTypes = []\<rparr>
     else None)"

definition example_chain :: "stage \<Rightarrow> (example_tx, string) chain_gateway" where
  "example_chain st = \<lparr>getMint = (\<lambda>k. Inr (Some (example_mint k))),
    getTokenAccount = (\<lambda>k. Inr (example_account k)),
    getRawAccount = (\<lambda>k. Inr (Some \<lparr>r_owner = SYSTEM_PROGRAM, r_lamports = 3000000,
      r_dataLength = 0, r_executable = False\<rparr>)),
    getAccountData = pump_reader False,
    getAddressLookupTable = (\<lambda>k. Inr None),
    getLatestBlockhash = Inr \<lparr>lb_blockhash = ''hash'', lb_lastValidBlockHeight = 250,
      lb_contextSlot = 7\<rparr>,
    getBlockHeight = Inr 100, getRentFloorForZeroData = Inr 890880,
    simulate_tx = (\<lambda>tx. Inr (if st = Simulating 0
      then \<lparr>sim_error = Some ''{}'', sim_logs = Val [''Program JUP failed: custom program error: 0x1''],
             sim_unitsConsumed = None\<rparr>
      else \<lparr>sim_error = None, sim_logs = Null, sim_unitsConsumed = Some 300000\<rparr>))\<rparr>"

definition example_curve_client :: "nat \<Rightarrow> nat \<Rightarrow> nat \<Rightarrow> curve_request \<Rightarrow> direct_curve_leg res" where
  "example_curve_client attempt capIndex legIndex q =
    bindR (buildDirectCurveBuyAccounts example_web3 (pump_reader False)
      \<lparr>dp_vault = cq_vault q, dp_targetMint = cq_targetMint q, dp_tokenProgram = cq_tokenProgram q,
       dp_targetAta = cq_targetAta q, dp_feeRecipient = example_key 70,
       dp_buybackFeeRecipient = example_key 71\<rparr>)
      (\<lambda>leg. Inr (leg\<lparr>dl_missingSetup := []\<rparr>))"

definition example_deps :: "example_tx dependencies" where
  "example_deps = \<lparr>d_web3 = example_web3\<lparr>parsePubkey := (\<lambda>s. Some (PublicKey s))\<rparr>,
    d_chain = example_chain, d_jupiter = (\<lambda>_ _ _ _. Inl (ExternalError ''offline'')),
    d_directCurve = Some example_curve_client, d_floorPolicy = None, d_burnerProgram = None,
    d_policy = example_policy, d_txlib = example_txlib\<rparr>"

lemma example_deps_simps:
  "d_chain example_deps = example_chain" "d_policy example_deps = example_policy"
  "retryLimit example_policy = 2"
  by (simp_all add: example_deps_def example_policy_def retryLimit_def DEFAULT_RETRY_ATTEMPTS_def)

definition example_request :: jsval where
  "example_request = JObj [(''requestId'', JStr ''burn-1''),
    (''launchMint'', JStr (replicate 32 CHR ''L'')), (''amountIn'', JStr ''1000000''),
    (''legs'', JArr [JObj [(''targetMint'', JStr (toBase58 (example_key 84))), (''bps'', JInt 10000)]])]"

lemma example_resolves:
  "case resolveRequest example_deps example_request of
     Inr rq \<Rightarrow> rq_pda rq = example_pda \<and> rq_amount rq = 1000000 \<and> length (rq_legs rq) = 1 | Inl e \<Rightarrow> False"
  by code_simp

lemma example_prepared:
  "case prepare example_deps example_request (example_key 67) of
     Inr pb \<Rightarrow> pb_vault pb = toBase58 example_pda \<and>
       requireLifetime example_deps AfterSigning (bb_validity (pb_built pb)) = Inr () | Inl e \<Rightarrow> False"
  by code_simp

lemma example_prepare_Inr:
  obtains rq pb built where "resolveRequest example_deps example_request = Inr rq"
    "prepare example_deps example_request (example_key 67) = Inr pb"
    "buildAndSimulate example_deps rq (example_key 67) = Inr built" "rq_amount rq = 1000000"
    "length (rq_legs rq) = 1"
    "requireLifetime example_deps AfterSigning (bb_validity built) = Inr ()"
proof -
  obtain pb where pb: "prepare example_deps example_request (example_key 67) = Inr pb"
      "requireLifetime example_deps AfterSigning (bb_validity (pb_built pb)) = Inr ()"
    using example_prepared by (auto split: sum.splits)
  then obtain rq built where rq: "resolveRequest example_deps example_request = Inr rq"
      "buildAndSimulate example_deps rq (example_key 67) = Inr built" "pb_built pb = built"
    by (auto simp: prepare_def bindR_Inr_iff)
  have "rq_amount rq = 1000000 \<and> length (rq_legs rq) = 1"
    using example_resolves unfolding rq(1) sum.case by blast
  then show ?thesis
    using that [OF rq(1) pb(1) rq(2)] pb(2) rq(3) by simp
qed

subsection \<open>Properties\<close>

text \<open>
  C3: A burn the service builds fits the chain's limits and nothing but the burn: at most 1,232
  bytes and 64 account locks, the fee payer as its only required signer, and exactly two
  top-level instructions, the compute limit and the burn instruction of its legs; and the last
  of at most retryLimit + 1 simulations of this very transaction succeeded within the compute
  limit, with enough blockhash lifetime left.
\<close>

theorem built_burn_valid:
  assumes "buildAndSimulate deps rq feePayer = Inr built"
  shows "\<exists>cx final a sim. admitBurn deps rq feePayer = Inr cx \<and>
    bb_transaction built = fb_transaction final \<and> bb_legs built = fb_legs final \<and>
    bb_bytes built = fb_bytes final \<and> bb_locks built = fb_locks final \<and>
    fits deps cx final \<and> cx_feePayer cx = feePayer \<and> cx_resolved cx = rq \<and>
    a \<le> retryLimit (d_policy deps) \<and>
    simulate_tx (d_chain deps (Simulating a)) (bb_transaction built) = Inr sim \<and>
    cleanSimulation (d_policy deps) sim \<and>
    requireLifetime deps Finishing (bb_validity built) = Inr ()"
proof -
  obtain cx final sim a ex capIndex cap where *: "admitBurn deps rq feePayer = Inr cx"
    "a \<le> retryLimit (d_policy deps)"
    "tryRung deps cx a ex capIndex cap = Inr (Some final)"
    "simulate_tx (d_chain deps (Simulating a)) (fb_transaction final) = Inr sim"
    "cleanSimulation (d_policy deps) sim"
    "requireLifetime deps Finishing (fb_validity final) = Inr ()"
    "bb_transaction built = fb_transaction final" "bb_legs built = fb_legs final"
    "bb_bytes built = fb_bytes final" "bb_locks built = fb_locks final"
    "bb_validity built = fb_validity final"
    by (rule buildAndSimulate_Inr [OF assms])
  show ?thesis
    using * tryRung_Some(1) [OF *(3)] admitBurn_Inr(1,2) [OF *(1)] by auto
qed

lemma built_burn_valid_witness:
  "\<exists>rq (built :: example_tx built_burn) cx (final :: example_tx final_burn) a sim.
    admitBurn example_deps rq (example_key 67) = Inr cx \<and>
    bb_transaction built = fb_transaction final \<and> fits example_deps cx final \<and> a \<le> 2 \<and>
    simulate_tx (example_chain (Simulating a)) (bb_transaction built) = Inr sim \<and>
    cleanSimulation example_policy sim"
proof -
  obtain rq built where "buildAndSimulate example_deps rq (example_key 67) = Inr built"
    by (rule example_prepare_Inr)
  from built_burn_valid [OF this] show ?thesis
    unfolding example_deps_simps by blast
qed

text \<open>
  C1: The legs of a prepared burn spend exactly the requested amount, divided by the requested
  weights, and no leg can fill below its reference: the minimum output in the instruction is at
  least the floor the program computes for the leg's input from its bound reference.
\<close>

theorem prepared_burn_floors:
  assumes "resolveRequest deps raw = Inr rq" "buildAndSimulate deps rq feePayer = Inr built"
  shows "map pl_amountIn (bb_legs built)
      = splitAmounts (rq_amount rq) (map lr_bps (br_legs (rq_request rq))) \<and>
    sum_list (map pl_amountIn (bb_legs built)) = rq_amount rq \<and>
    map pl_bps (bb_legs built) = map lr_bps (br_legs (rq_request rq)) \<and>
    list_all (\<lambda>leg. 0 < pl_amountIn leg \<and>
      (\<exists>floor. rr_floorFor (pl_reference leg) (pl_amountIn leg) = Inr floor
        \<and> floor \<le> pl_minimumOutput leg)) (bb_legs built)"
proof -
  define amounts where "amounts = splitAmounts (rq_amount rq) (map rl_bps (rq_legs rq))"
  note w = resolved_weights [OF assms(1)]
  obtain l0 where "l0 \<in> set (rq_legs rq)" using w(1) by (cases "rq_legs rq") auto
  then have pos: "0 < length (rq_legs rq)" by auto
  have len: "length (bb_legs built) = length (rq_legs rq)"
    using prepared_legs(1) [OF assms(2) pos] .
  have leg: "pl_amountIn (bb_legs built ! i) = amounts ! i \<and>
      pl_bps (bb_legs built ! i) = rl_bps (rq_legs rq ! i) \<and> amounts ! i \<noteq> 0 \<and>
      (\<exists>floor. rr_floorFor (pl_reference (bb_legs built ! i)) (amounts ! i) = Inr floor
        \<and> floor \<le> pl_minimumOutput (bb_legs built ! i))" if i: "i < length (rq_legs rq)" for i
  proof -
    obtain a where "admitLeg deps (rq_pda rq) amounts i (rq_legs rq ! i) = Inr a"
        "same_leg a (bb_legs built ! i)"
      using prepared_legs(2) [OF assms(2) i] by (auto simp: amounts_def)
    with admitLeg_Inr [OF this(1)] show ?thesis by (simp add: same_leg_def)
  qed
  have alen: "length amounts = length (rq_legs rq)"
    by (simp add: amounts_def core_split.length_split)
  have am: "map pl_amountIn (bb_legs built) = amounts"
    by (rule nth_equalityI) (simp_all add: len alen leg)
  have "map pl_bps (bb_legs built) = map rl_bps (rq_legs rq)"
    by (rule nth_equalityI) (simp_all add: len leg)
  moreover have "0 < pl_amountIn l \<and> (\<exists>floor. rr_floorFor (pl_reference l) (pl_amountIn l) = Inr floor
        \<and> floor \<le> pl_minimumOutput l)" if l: "l \<in> set (bb_legs built)" for l
  proof -
    obtain i where i: "i < length (rq_legs rq)" "l = bb_legs built ! i"
      using l by (auto simp: in_set_conv_nth len)
    have "0 \<le> amounts ! i"
      using core_split.split_nonneg [OF less_imp_le [OF w(4)] w(2,1,3)] i(1) alen
      by (simp add: amounts_def)
    moreover obtain floor where "rr_floorFor (pl_reference l) (amounts ! i) = Inr floor"
        "floor \<le> pl_minimumOutput l" "pl_amountIn l = amounts ! i" "amounts ! i \<noteq> 0"
      using leg [OF i(1)] i(2) by blast
    ultimately show ?thesis by simp
  qed
  ultimately show ?thesis
    using am core_split.sum_split [OF w(1), of "rq_amount rq"] resolved_bps [OF assms(1)]
    by (auto simp: list_all_iff amounts_def)
qed

lemma prepared_burn_floors_witness:
  "\<exists>(rq :: resolved_request) built. rq_amount rq = 1000000 \<and> sum_list (map pl_amountIn (bb_legs built)) = rq_amount rq \<and>
    list_all (\<lambda>leg. 0 < pl_amountIn leg \<and>
      (\<exists>floor. rr_floorFor (pl_reference leg) (pl_amountIn leg) = Inr floor
        \<and> floor \<le> pl_minimumOutput leg)) (bb_legs (built :: example_tx built_burn))"
proof -
  obtain rq built where "resolveRequest example_deps example_request = Inr rq"
    "buildAndSimulate example_deps rq (example_key 67) = Inr built" "rq_amount rq = 1000000"
    by (rule example_prepare_Inr)
  with prepared_burn_floors [OF this(1,2)] show ?thesis by blast
qed

text \<open>
  A burn is built only from a vault that can pay for it: the address derived from the
  request's configuration is a System account without data whose lamports cover the amount and
  leave nothing, or at least the rent floor; and its WSOL account exists, is native, belongs to
  the vault and carries no delegate or close authority.
\<close>

theorem vault_admitted:
  assumes "admitVault deps rq = Inr wsolAta"
  shows "\<exists>vault rentFloor account.
    getRawAccount (d_chain deps VaultAdmission) (rq_pda rq) = Inr (Some vault) \<and>
    r_owner vault = SYSTEM_PROGRAM \<and> r_dataLength vault = 0 \<and>
    getRentFloorForZeroData (d_chain deps VaultAdmission) = Inr rentFloor \<and>
    (r_lamports vault = rq_amount rq \<or>
     rq_amount rq < r_lamports vault \<and> rq_amount rq + rentFloor \<le> r_lamports vault) \<and>
    associatedTokenAddress (d_web3 deps) NATIVE_MINT (rq_pda rq) True TOKEN_PROGRAM_ID = Inr wsolAta \<and>
    getTokenAccount (d_chain deps VaultAdmission) wsolAta = Inr (Some account) \<and>
    usable_account account wsolAta TOKEN_PROGRAM_ID NATIVE_MINT (rq_pda rq) True"
  using assms by (force simp: admitVault_def res_simps Let_def not_less)

lemma vault_admitted_witness:
  "\<exists>rq wsolAta vault rentFloor.
    getRawAccount (example_chain VaultAdmission) (rq_pda rq) = Inr (Some vault) \<and>
    r_owner vault = SYSTEM_PROGRAM \<and>
    getRentFloorForZeroData (example_chain VaultAdmission) = Inr rentFloor \<and>
    (r_lamports vault = rq_amount rq \<or>
     rq_amount rq < r_lamports vault \<and> rq_amount rq + rentFloor \<le> r_lamports vault) \<and>
    admitVault example_deps rq = Inr wsolAta"
proof -
  obtain rq built where "buildAndSimulate example_deps rq (example_key 67) = Inr built"
    by (rule example_prepare_Inr)
  then obtain wsolAta where a: "admitVault example_deps rq = Inr wsolAta"
    by (auto simp: buildAndSimulate_def admitBurn_def bindR_Inr_iff)
  from vault_admitted [OF this, unfolded example_deps_simps] a show ?thesis by blast
qed


text \<open>The example route, quoted at 5,000 atoms against a floor of 3,000.\<close>

definition jupiter_deps :: "example_tx dependencies" where
  "jupiter_deps = example_deps\<lparr>d_jupiter := (\<lambda>_ _ _ _. Inr example_route),
    d_floorPolicy := Some (\<lambda>_ _. Inr 4500)\<rparr>"

definition jupiter_leg :: admitted_leg where
  "jupiter_leg = \<lparr>ad_targetMint = example_key 84, ad_bps = 10000, ad_reference = example_reference,
    ad_amountIn = 1000000, ad_tokenProgram = TOKEN_PROGRAM_ID, ad_ata = example_key 85,
    ad_programFloor = 3000\<rparr>"

definition jupiter_context :: burn_context where
  "jupiter_context = \<lparr>cx_resolved = \<lparr>rq_request = \<lparr>br_requestId = ''r'', br_launchMint = [],
      br_amountIn = [], br_legs = [], br_lookupTableAddresses = None\<rparr>,
      rq_launchMint = example_key 76, rq_amount = 1000000, rq_legs = [], rq_pda = example_key 86\<rparr>,
    cx_feePayer = example_key 67, cx_wsolAta = example_key 87, cx_admitted = [jupiter_leg],
    cx_requestedTables = []\<rparr>"

lemma jupiter_leg_built:
  "case buildJupiterLeg jupiter_deps jupiter_context 0 0 None [] 0 jupiter_leg of
     Inr leg \<Rightarrow> pl_minimumOutput leg = 4900 | Inl e \<Rightarrow> False"
  by code_simp


text \<open>
  The submission endpoint relays only complete burns: a transaction it accepts has at most
  1,232 bytes, consists of exactly a compute-budget and a burner instruction, requires exactly
  one signature, and that signature is 64 bytes and verifies for the fee payer, the first account
  of the message, over the message.
\<close>

theorem submittable_transaction:
  assumes "assertSubmittableSignedTransaction lib wire burner = Inr sb"
  shows "length wire \<le> 1232 \<and> tc_deserialize lib wire = Some (sb_transaction sb) \<and>
    map (nth_opt (tc_staticKeys lib (sb_transaction sb))) (tc_programIdIndexes lib (sb_transaction sb))
      = [Some COMPUTE_BUDGET_PROGRAM, Some burner] \<and>
    tc_requiredSignatures lib (sb_transaction sb) = 1 \<and>
    sb_feePayer sb = hd (tc_staticKeys lib (sb_transaction sb)) \<and>
    (\<exists>message signature. tc_messageBytes lib (sb_transaction sb) = Inr message \<and>
      tc_signatures lib (sb_transaction sb) = [signature] \<and> length signature = 64 \<and>
      tc_ed25519 lib (sb_feePayer sb) message signature \<and>
      sb_messageSha256 sb = tc_sha256 lib message)"
proof -
  obtain tx message where tx: "tc_deserialize lib wire = Some tx" "length wire \<le> 1232"
      "map (nth_opt (tc_staticKeys lib tx)) (tc_programIdIndexes lib tx)
        = [Some COMPUTE_BUDGET_PROGRAM, Some burner]"
      "tc_requiredSignatures lib tx = 1" "length (tc_signatures lib tx) = 1"
      "tc_messageBytes lib tx = Inr message" "0 < length (tc_staticKeys lib tx)"
      "verifyEd25519 lib (tc_staticKeys lib tx ! 0) message (tc_signatures lib tx ! 0)"
      "sb = \<lparr>sb_transaction = tx, sb_feePayer = tc_staticKeys lib tx ! 0,
        sb_messageSha256 = tc_sha256 lib message\<rparr>"
    using assms
    by (auto simp: assertSubmittableSignedTransaction_def if_Inl_Inr bindR_Inr_iff
        case_option_Inl_Inr MAX_TRANSACTION_BYTES_def not_less split: option.splits)
  obtain s where "tc_signatures lib tx = [s]"
    using tx(5) by (cases "tc_signatures lib tx") auto
  moreover have "hd (tc_staticKeys lib tx) = tc_staticKeys lib tx ! 0"
    using tx(7) by (simp add: hd_conv_nth)
  ultimately show ?thesis
    using tx by (simp add: verifyEd25519_def)
qed

lemma submittable_transaction_witness:
  "length (255 # replicate 99 (0 :: byte)) \<le> 1232 \<and> tc_deserialize example_txlib (255 # replicate 99 0)
    = Some (example_key 67, [example_wire (2 # replicate 99 0), signature_mark])"
proof -
  have "assertSubmittableSignedTransaction example_txlib (255 # replicate 99 0) DEFAULT_BURNER_PROGRAM
      = Inr \<lparr>sb_transaction = (example_key 67, [example_wire (2 # replicate 99 0), signature_mark]),
          sb_feePayer = example_key 67, sb_messageSha256 = ''digest''\<rparr>"
    by (simp add: assertSubmittableSignedTransaction_def example_txlib_def MAX_TRANSACTION_BYTES_def
        nth_opt_def verifyEd25519_def)
  from submittable_transaction [OF this] show ?thesis by simp
qed

lemma executeUnderLease_Inr:
  assumes "executeUnderLease deps submit rq signer = Inr receipt"
  obtains built message signature wire where
    "buildAndSimulate deps rq (ms_publicKey signer) = Inr built"
    "tc_messageBytes (d_txlib deps) (bb_transaction built) = Inr message"
    "ms_signMessage signer message = Inr signature"
    "verifyEd25519 (d_txlib deps) (ms_publicKey signer) message signature"
    "requireLifetime deps AfterSigning (bb_validity built) = Inr ()"
    "tc_serialize (d_txlib deps)
      (tc_addSignature (d_txlib deps) (bb_transaction built) (ms_publicKey signer) signature) = Inr wire"
    "submit wire = Inr (rc_submissionId receipt)" "pb_built (rc_prepared receipt) = built"
  using assms
  by (auto simp: executeUnderLease_def bindR_Inr_iff signCompleteMessage_def if_Inl_Inr)


definition example_signer :: message_signer where
  "example_signer = \<lparr>ms_publicKey = example_key 67, ms_signMessage = (\<lambda>_. Inr (replicate 64 7))\<rparr>"

lemma example_executes:
  "case execute example_deps (\<lambda>wire. Inr ''sent'') (Some example_signer) (\<lambda>s. s) empty_store
      example_request of
     (Inr receipt, st) \<Rightarrow> rc_submissionId receipt = ''sent'' | (Inl e, st) \<Rightarrow> False"
proof (rule example_prepare_Inr)
  fix rq pb built
  assume rq: "resolveRequest example_deps example_request = Inr rq"
    "buildAndSimulate example_deps rq (example_key 67) = Inr built"
    "requireLifetime example_deps AfterSigning (bb_validity built) = Inr ()"
  have lib: "d_txlib example_deps = example_txlib" by (simp add: example_deps_def)
  have "\<exists>receipt. executeUnderLease example_deps (\<lambda>wire. Inr ''sent'') rq example_signer = Inr receipt
      \<and> rc_submissionId receipt = ''sent''"
    using rq(2,3) by (cases "bb_transaction built")
      (simp add: executeUnderLease_def signCompleteMessage_def lib verifyEd25519_def example_txlib_def example_signer_def)
  then obtain receipt where
    "executeUnderLease example_deps (\<lambda>wire. Inr ''sent'') rq example_signer = Inr receipt"
    "rc_submissionId receipt = ''sent''" by blast
  then show ?thesis
    by (simp add: execute_def rq(1) withLease_def acquire_def empty_store_def Let_def)
qed


end
