(* ===== verification/UploadGate.thy ===== *)
theory UploadGate
  imports Request
begin

text \<open>
  The durable gate of paid metadata uploads, \<open>MetadataUploadGateV3\<close> of
  \<open>quote-service/worker.ts\<close>: its three SQL tables as lists of rows, its alarm, and its
  five operations. \<open>now\<close> is the reading of \<open>Date.now()\<close> and \<open>uuid\<close> the
  one of \<open>crypto.randomUUID()\<close>; \<open>transactionSync\<close> makes the operations atomic.
  A receipt is kept as the JSON text that the code stores and parses again.
\<close>

subsection \<open>Tables\<close>

definition METADATA_RATE_WINDOW_MS :: int where
  "METADATA_RATE_WINDOW_MS = 60 * 60 * 1000"

definition METADATA_RATE_PER_IP :: int where
  "METADATA_RATE_PER_IP = 3"

definition METADATA_RATE_GLOBAL :: int where
  "METADATA_RATE_GLOBAL = 30"

definition METADATA_LEASE_MS :: int where
  "METADATA_LEASE_MS = 3 * 60 * 1000"

definition METADATA_RECEIPT_TTL_MS :: int where
  "METADATA_RECEIPT_TTL_MS = 24 * 60 * 60 * 1000"

lemmas gate_limits = METADATA_RATE_WINDOW_MS_def METADATA_RATE_PER_IP_def METADATA_RATE_GLOBAL_def
  METADATA_LEASE_MS_def METADATA_RECEIPT_TTL_MS_def

datatype gate_result =
    Acquired string
  | Busy
  | RateLimited int
  | StillProcessing int
  | Conflict
  | Replay string

datatype job_state = Processing | Complete

record upload_job =
  uj_requestId :: string
  uj_requestHash :: string
  uj_state :: job_state
  uj_leaseToken :: "string option"
  uj_resultJson :: "string option"
  uj_expiresAt :: int

text \<open>A row of \<open>rate_windows\<close> is its scope with \<open>(started_at, count)\<close>.\<close>

record upload_gate =
  ug_rateWindows :: "(string \<times> int \<times> int) list"
  ug_leases :: "(string \<times> int) list"
  ug_jobs :: "upload_job list"
  ug_alarm :: "int option"

definition empty_gate :: upload_gate where
  "empty_gate = \<lparr>ug_rateWindows = [], ug_leases = [], ug_jobs = [], ug_alarm = None\<rparr>"

text \<open>\<open>INSERT \<dots> ON CONFLICT(scope) DO UPDATE\<close>.\<close>

fun upsert :: "'k \<Rightarrow> 'v \<Rightarrow> ('k \<times> 'v) list \<Rightarrow> ('k \<times> 'v) list" where
  "upsert k v [] = [(k, v)]"
| "upsert k v ((k', v') # rows) =
    (if k' = k then (k, v) # rows else (k', v') # upsert k v rows)"

lemma map_of_upsert: "map_of (upsert k v rows) = (map_of rows)(k \<mapsto> v)"
  by (induction rows) auto

lemma fst_upsert: "fst ` set (upsert k v rows) = insert k (fst ` set rows)"
  by (simp add: map_of_upsert flip: dom_map_of_conv_image_fst)

definition is_hex :: "char \<Rightarrow> bool" where
  "is_hex c \<longleftrightarrow> is_digit c \<or> c \<in> set ''abcdef''"

definition is_hex64 :: "string \<Rightarrow> bool" where
  "is_hex64 s \<longleftrightarrow> length s = 64 \<and> list_all is_hex s"

definition is_token36 :: "string \<Rightarrow> bool" where
  "is_token36 s \<longleftrightarrow> length s = 36 \<and> list_all (\<lambda>c. is_hex c \<or> c = CHR ''-'') s"

text \<open>\<open>Math.ceil(ms / 1000)\<close>.\<close>

definition ceil_seconds :: "int \<Rightarrow> int" where
  "ceil_seconds ms = - ((- ms) div 1000)"

subsection \<open>Operations\<close>

definition purge :: "int \<Rightarrow> upload_gate \<Rightarrow> upload_gate" where
  "purge now g = g\<lparr>ug_leases := filter (\<lambda>(token, expiresAt). \<not> expiresAt \<le> now) (ug_leases g),
    ug_jobs := filter (\<lambda>job. \<not> uj_expiresAt job \<le> now) (ug_jobs g)\<rparr>"

definition find_job :: "upload_gate \<Rightarrow> string \<Rightarrow> upload_job option" where
  "find_job g requestId = List.find (\<lambda>job. uj_requestId job = requestId) (ug_jobs g)"

definition readWindow :: "int \<Rightarrow> upload_gate \<Rightarrow> string \<Rightarrow> int \<times> int" where
  "readWindow now g scope = (case map_of (ug_rateWindows g) scope of
     None \<Rightarrow> (now, 0)
   | Some (startedAt, count) \<Rightarrow>
       if now - startedAt \<ge> METADATA_RATE_WINDOW_MS then (now, 0) else (startedAt, count))"

definition global_scope :: string where
  "global_scope = ''global''"

definition client_scope :: "string \<Rightarrow> string" where
  "client_scope clientKey = ''client:'' @ clientKey"

text \<open>\<open>DELETE FROM rate_windows WHERE scope != 'global' AND started_at <= ?\<close>.\<close>

definition drop_old_windows :: "int \<Rightarrow> (string \<times> int \<times> int) list \<Rightarrow> (string \<times> int \<times> int) list" where
  "drop_old_windows now = filter (\<lambda>(scope, startedAt, count).
     \<not> (scope \<noteq> global_scope \<and> startedAt \<le> now - METADATA_RATE_WINDOW_MS))"

definition replay_or_wait :: "int \<Rightarrow> upload_job \<Rightarrow> string \<Rightarrow> gate_result" where
  "replay_or_wait now prior requestHash =
    (if uj_requestHash prior \<noteq> requestHash then Conflict
     else (case (uj_state prior, uj_resultJson prior) of
         (Complete, Some (c # cs)) \<Rightarrow> Replay (c # cs)
       | _ \<Rightarrow> StillProcessing (max 1 (min 30 (ceil_seconds (uj_expiresAt prior - now))))))"

definition blocked_until :: "int \<times> int \<Rightarrow> int \<times> int \<Rightarrow> int list" where
  "blocked_until globalWindow clientWindow =
    (if snd globalWindow \<ge> METADATA_RATE_GLOBAL
     then [fst globalWindow + METADATA_RATE_WINDOW_MS] else [])
    @ (if snd clientWindow \<ge> METADATA_RATE_PER_IP
       then [fst clientWindow + METADATA_RATE_WINDOW_MS] else [])"

definition grant ::
  "int \<Rightarrow> string \<Rightarrow> string \<Rightarrow> string \<Rightarrow> string \<Rightarrow> int \<times> int \<Rightarrow> int \<times> int \<Rightarrow> upload_gate \<Rightarrow> upload_gate" where
  "grant now token clientKey requestId requestHash globalWindow clientWindow g =
    g\<lparr>ug_rateWindows := drop_old_windows now
        (upsert (client_scope clientKey) (fst clientWindow, snd clientWindow + 1)
          (upsert global_scope (fst globalWindow, snd globalWindow + 1) (ug_rateWindows g))),
      ug_leases := ug_leases g @ [(token, now + METADATA_LEASE_MS)],
      ug_jobs := ug_jobs g @ [\<lparr>uj_requestId = requestId, uj_requestHash = requestHash,
        uj_state = Processing, uj_leaseToken = Some token, uj_resultJson = None,
        uj_expiresAt = now + METADATA_LEASE_MS\<rparr>]\<rparr>"

text \<open>An earlier alarm stays.\<close>

definition alarm_by :: "int \<Rightarrow> upload_gate \<Rightarrow> upload_gate" where
  "alarm_by at_ms g = (case ug_alarm g of
     None \<Rightarrow> g\<lparr>ug_alarm := Some at_ms\<rparr>
   | Some currentAlarm \<Rightarrow> if currentAlarm > at_ms then g\<lparr>ug_alarm := Some at_ms\<rparr> else g)"

definition gate_acquire ::
  "int \<Rightarrow> string \<Rightarrow> upload_gate \<Rightarrow> string \<Rightarrow> string \<Rightarrow> string \<Rightarrow> gate_result res \<times> upload_gate" where
  "gate_acquire now uuid g0 clientKey requestId requestHash =
    (if \<not> is_hex64 clientKey then (Inl (PlainError ''invalid metadata client key''), g0)
     else if \<not> is_hex64 requestId \<or> \<not> is_hex64 requestHash
     then (Inl (PlainError ''invalid metadata idempotency key''), g0)
     else (let g = purge now g0 in
       case find_job g requestId of
         Some prior \<Rightarrow> (Inr (replay_or_wait now prior requestHash), g)
       | None \<Rightarrow>
          if length (ug_leases g) \<ge> 1 then (Inr Busy, g)
          else (let globalWindow = readWindow now g global_scope;
                    clientWindow = readWindow now g (client_scope clientKey);
                    blockedUntil = blocked_until globalWindow clientWindow
            in if blockedUntil \<noteq> []
               then (Inr (RateLimited (max 1 (ceil_seconds (Max (set blockedUntil) - now)))), g)
               else (Inr (Acquired uuid),
                     alarm_by (now + METADATA_RATE_WINDOW_MS + 1000)
                       (grant now uuid clientKey requestId requestHash globalWindow clientWindow g)))))"

definition gate_complete ::
  "int \<Rightarrow> upload_gate \<Rightarrow> string \<Rightarrow> string \<Rightarrow> string \<Rightarrow> unit res \<times> upload_gate" where
  "gate_complete now g token requestId encoded =
    (if \<not> is_token36 token \<or> \<not> is_hex64 requestId
     then (Inl (PlainError ''invalid metadata completion key''), g)
     else if length encoded > 8192 then (Inl (PlainError ''metadata receipt too large''), g)
     else (case find_job g requestId of
         None \<Rightarrow> (Inl (PlainError ''metadata completion lease not found''), g)
       | Some row \<Rightarrow>
          if uj_leaseToken row \<noteq> Some token
          then (Inl (PlainError ''metadata completion lease not found''), g)
          else (Inr (), alarm_by (now + METADATA_RECEIPT_TTL_MS)
            (g\<lparr>ug_jobs := map (\<lambda>job. if uj_requestId job = requestId
                 then job\<lparr>uj_state := Complete, uj_leaseToken := None,
                        uj_resultJson := Some encoded,
                        uj_expiresAt := now + METADATA_RECEIPT_TTL_MS\<rparr> else job) (ug_jobs g),
               ug_leases := filter (\<lambda>(t, e). t \<noteq> token) (ug_leases g)\<rparr>))))"

definition gate_fail :: "upload_gate \<Rightarrow> string \<Rightarrow> string \<Rightarrow> upload_gate" where
  "gate_fail g token requestId =
    (if \<not> is_token36 token \<or> \<not> is_hex64 requestId then g
     else g\<lparr>ug_jobs := filter (\<lambda>job. \<not> (uj_requestId job = requestId \<and> uj_leaseToken job = Some token))
              (ug_jobs g),
            ug_leases := filter (\<lambda>(t, e). t \<noteq> token) (ug_leases g)\<rparr>)"

definition gate_release :: "upload_gate \<Rightarrow> string \<Rightarrow> upload_gate" where
  "gate_release g token =
    (if \<not> is_token36 token then g
     else g\<lparr>ug_leases := filter (\<lambda>(t, e). t \<noteq> token) (ug_leases g)\<rparr>)"

text \<open>While the alarm handler runs, no alarm is set.\<close>

definition gate_alarm :: "int \<Rightarrow> upload_gate \<Rightarrow> upload_gate" where
  "gate_alarm now g0 =
    (let g = (purge now g0)\<lparr>ug_rateWindows := drop_old_windows now (ug_rateWindows g0), ug_alarm := None\<rparr>;
         windowStarts = map (\<lambda>(scope, startedAt, count). startedAt)
           (filter (\<lambda>(scope, _). scope \<noteq> global_scope) (ug_rateWindows g));
         jobExpiries = map uj_expiresAt (ug_jobs g);
         candidates =
           (if windowStarts = [] then [] else [Min (set windowStarts) + METADATA_RATE_WINDOW_MS + 1000])
           @ (if jobExpiries = [] then [] else [Min (set jobExpiries) + 1000])
     in if candidates = [] then g else g\<lparr>ug_alarm := Some (Min (set candidates))\<rparr>)"

subsection \<open>Runs\<close>

datatype gate_event =
    EAcquire int string string string string
  | EComplete int string string string
  | EFail string string
  | ERelease string
  | EAlarm int

fun gate_step :: "gate_event \<Rightarrow> upload_gate \<Rightarrow> upload_gate" where
  "gate_step (EAcquire now uuid c i h) g = snd (gate_acquire now uuid g c i h)"
| "gate_step (EComplete now t i r) g = snd (gate_complete now g t i r)"
| "gate_step (EFail t i) g = gate_fail g t i"
| "gate_step (ERelease t) g = gate_release g t"
| "gate_step (EAlarm now) g = gate_alarm now g"

definition gate_run :: "gate_event list \<Rightarrow> upload_gate \<Rightarrow> upload_gate" where
  "gate_run evs g = fold gate_step evs g"

lemma gate_run_simps [simp]:
  "gate_run [] g = g"
  "gate_run (ev # evs) g = gate_run evs (gate_step ev g)"
  "gate_run (evs @ evs') g = gate_run evs' (gate_run evs g)"
  by (simp_all add: gate_run_def)

fun event_time :: "gate_event \<Rightarrow> int option" where
  "event_time (EAcquire now uuid c i h) = Some now"
| "event_time (EComplete now t i r) = Some now"
| "event_time (EAlarm now) = Some now"
| "event_time _ = None"

text \<open>The clock readings of a run, and the times at which it was granted a lease.\<close>

definition clock :: "gate_event list \<Rightarrow> int list" where
  "clock evs = List.map_filter event_time evs"

fun granted_at :: "gate_event \<Rightarrow> upload_gate \<Rightarrow> int list" where
  "granted_at (EAcquire now uuid c i h) g =
    (if fst (gate_acquire now uuid g c i h) = Inr (Acquired uuid) then [now] else [])"
| "granted_at _ g = []"

fun grants :: "gate_event list \<Rightarrow> upload_gate \<Rightarrow> int list" where
  "grants [] g = []"
| "grants (ev # evs) g = granted_at ev g @ grants evs (gate_step ev g)"

subsection \<open>The tables under the operations\<close>

lemma map_of_filter_keep: "(\<And>v. P (k, v)) \<Longrightarrow> map_of (filter P xs) k = map_of xs k"
  by (induction xs) auto

lemma find_filter_keep: "List.find P xs = Some x \<Longrightarrow> Q x \<Longrightarrow> List.find P (filter Q xs) = Some x"
  by (induction xs) (auto split: if_splits)

lemma find_append: "List.find P (xs @ ys) = (case List.find P xs of None \<Rightarrow> List.find P ys | Some x \<Rightarrow> Some x)"
  by (induction xs) auto

lemma find_map_same:
  "(\<And>x. P (f x) = P x) \<Longrightarrow> List.find P (map f xs) = map_option f (List.find P xs)"
  by (induction xs) auto

lemma find_SomeD: "List.find P xs = Some x \<Longrightarrow> P x \<and> x \<in> set xs"
  by (induction xs) (auto split: if_splits)

lemma global_window_kept [simp]:
  "map_of (drop_old_windows now rows) global_scope = map_of rows global_scope"
  unfolding drop_old_windows_def by (rule map_of_filter_keep) simp

lemma scopes_differ [simp]: "client_scope c \<noteq> global_scope"
  by (simp add: client_scope_def global_scope_def)

lemma purge_rates [simp]: "ug_rateWindows (purge now g) = ug_rateWindows g"
  by (simp add: purge_def)

lemma alarm_by_fields [simp]:
  "ug_rateWindows (alarm_by a g) = ug_rateWindows g"
  "ug_leases (alarm_by a g) = ug_leases g"
  "ug_jobs (alarm_by a g) = ug_jobs g"
  by (simp_all add: alarm_by_def split: option.splits)

lemma gate_alarm_fields [simp]:
  "ug_rateWindows (gate_alarm now g) = drop_old_windows now (ug_rateWindows g)"
  "ug_leases (gate_alarm now g) = ug_leases (purge now g)"
  "ug_jobs (gate_alarm now g) = ug_jobs (purge now g)"
  by (simp_all add: gate_alarm_def Let_def)

text \<open>The only two ways an acquire leaves the tables.\<close>

lemma gate_acquire_cases:
  obtains (invalid) e where "gate_acquire now uuid g c i h = (Inl e, g)"
  | (granted) gw cw where
      "gate_acquire now uuid g c i h = (Inr (Acquired uuid),
        alarm_by (now + METADATA_RATE_WINDOW_MS + 1000) (grant now uuid c i h gw cw (purge now g)))"
      "gw = readWindow now g global_scope" "cw = readWindow now g (client_scope c)"
      "snd gw < METADATA_RATE_GLOBAL" "snd cw < METADATA_RATE_PER_IP"
      "find_job (purge now g) i = None" "ug_leases (purge now g) = []"
      "is_hex64 c" "is_hex64 i" "is_hex64 h"
  | (answered) r where "gate_acquire now uuid g c i h = (Inr r, purge now g)" "\<And>t. r \<noteq> Acquired t"
proof (cases "is_hex64 c \<and> is_hex64 i \<and> is_hex64 h")
  case False
  then have "\<exists>e. gate_acquire now uuid g c i h = (Inl e, g)"
    by (simp add: gate_acquire_def)
  then show ?thesis using invalid by blast
next
  case valid: True
  have w: "readWindow now (purge now g) s = readWindow now g s" for s
    by (simp add: readWindow_def)
  show ?thesis
  proof (cases "find_job (purge now g) i")
    case (Some prior)
    moreover have "replay_or_wait now prior h \<noteq> Acquired t" for t
      by (auto simp: replay_or_wait_def split: job_state.splits option.splits list.splits)
    ultimately show ?thesis
      using valid answered by (simp add: gate_acquire_def)
  next
    case None
    show ?thesis
    proof (cases "ug_leases (purge now g) = [] \<and>
        blocked_until (readWindow now g global_scope) (readWindow now g (client_scope c)) = []")
      case True
      then have "snd (readWindow now g global_scope) < METADATA_RATE_GLOBAL"
          "snd (readWindow now g (client_scope c)) < METADATA_RATE_PER_IP"
        by (simp_all add: blocked_until_def split: if_splits)
      moreover have "gate_acquire now uuid g c i h = (Inr (Acquired uuid),
          alarm_by (now + METADATA_RATE_WINDOW_MS + 1000) (grant now uuid c i h
            (readWindow now g global_scope) (readWindow now g (client_scope c)) (purge now g)))"
        using valid None True w by (simp add: gate_acquire_def)
      ultimately show ?thesis
        using valid None True granted by blast
    next
      case False
      then have "\<exists>r. gate_acquire now uuid g c i h = (Inr r, purge now g) \<and> (\<forall>t. r \<noteq> Acquired t)"
        using valid None w by (auto simp: gate_acquire_def Let_def Suc_le_eq)
      then show ?thesis using answered by blast
    qed
  qed
qed

lemma granted_at_eq:
  "granted_at (EAcquire now uuid c i h) g = (if fst (gate_acquire now uuid g c i h) = Inr (Acquired uuid)
    then [now] else [])"
  by simp

subsection \<open>The hourly bound\<close>

text \<open>
  The history of grants behind the global window: the window counts the grants since it opened,
  it opened with one, and the hour before it saw at most 29.
\<close>

definition rate_inv :: "int list \<Rightarrow> upload_gate \<Rightarrow> bool" where
  "rate_inv hist g \<longleftrightarrow>
    (case map_of (ug_rateWindows g) global_scope of
       None \<Rightarrow> hist = []
     | Some (s, c) \<Rightarrow> s \<in> set hist \<and> c = int (length (filter (\<lambda>h. s \<le> h) hist)) \<and> c \<le> 30
         \<and> list_all (\<lambda>h. h < s + METADATA_RATE_WINDOW_MS) hist
         \<and> length (filter (\<lambda>h. s - METADATA_RATE_WINDOW_MS < h \<and> h < s) hist) \<le> 29)
    \<and> (\<forall>a. length (filter (\<lambda>h. a \<le> h \<and> h < a + METADATA_RATE_WINDOW_MS) hist) \<le> 59)"

lemma length_filter_mono:
  "(\<And>x. x \<in> set xs \<Longrightarrow> P x \<Longrightarrow> Q x) \<Longrightarrow> length (filter P xs) \<le> length (filter Q xs)"
  by (induction xs) auto

lemma length_filter_less:
  "x \<in> set xs \<Longrightarrow> Q x \<Longrightarrow> \<not> P x \<Longrightarrow> (\<And>x. x \<in> set xs \<Longrightarrow> P x \<Longrightarrow> Q x) \<Longrightarrow>
    length (filter P xs) < length (filter Q xs)"
proof (induction xs)
  case (Cons y ys)
  then show ?case
    using length_filter_mono [of ys P Q] by (cases "x = y") (auto simp: less_Suc_eq_le)
qed simp

lemma length_filter_split:
  "(\<And>x. x \<in> set xs \<Longrightarrow> P x \<Longrightarrow> Q x \<or> R x) \<Longrightarrow>
    length (filter P xs) \<le> length (filter Q xs) + length (filter R xs)"
  by (induction xs) (auto simp: le_Suc_eq dest: order_trans)

lemma rate_inv_grant:
  assumes inv: "rate_inv hist g" and past: "list_all (\<lambda>h. h \<le> now) hist"
    and gw: "gw = readWindow now g global_scope" "snd gw < METADATA_RATE_GLOBAL"
    and rows: "map_of (ug_rateWindows g') global_scope = Some (fst gw, snd gw + 1)"
  shows "rate_inv (hist @ [now]) g'"
proof -
  let ?W = METADATA_RATE_WINDOW_MS
  have W: "0 < ?W" by (simp add: gate_limits)
  have all59: "length (filter (\<lambda>h. a \<le> h \<and> h < a + ?W) hist) \<le> 59" for a
    using inv by (simp add: rate_inv_def)
  show ?thesis
  proof (cases "map_of (ug_rateWindows g) global_scope")
    case None
    then have "hist = []" using inv by (simp add: rate_inv_def)
    then show ?thesis
      using None gw rows W by (simp add: rate_inv_def readWindow_def)
  next
    case (Some sc)
    obtain s c where sc: "map_of (ug_rateWindows g) global_scope = Some (s, c)"
      using Some by (cases sc) simp
    have i: "s \<in> set hist" "c = int (length (filter (\<lambda>h. s \<le> h) hist))" "c \<le> 30"
        "list_all (\<lambda>h. h < s + ?W) hist" "length (filter (\<lambda>h. s - ?W < h \<and> h < s) hist) \<le> 29"
      using inv by (simp_all add: rate_inv_def sc)
    have now: "s \<le> now" using i(1) past by (auto simp: list_all_iff)
    show ?thesis
    proof (cases "now - s \<ge> ?W")
      case True
      have w: "gw = (now, 0)" using gw(1) True by (simp add: readWindow_def sc)
      have old: "length (filter (\<lambda>h. now - ?W < h) hist) \<le> 29"
        using length_filter_less [OF i(1), of "\<lambda>h. s \<le> h" "\<lambda>h. now - ?W < h"] True i(2,3) by simp
      have none: "filter (\<lambda>h. now \<le> h) hist = []"
        using i(4) True by (auto simp: filter_empty_conv list_all_iff)
      have "length (filter (\<lambda>h. now - ?W < h \<and> h < now) hist) \<le> 29"
        using old length_filter_mono [of hist "\<lambda>h. now - ?W < h \<and> h < now" "\<lambda>h. now - ?W < h"] by simp
      moreover have "length (filter (\<lambda>h. a \<le> h \<and> h < a + ?W) (hist @ [now])) \<le> 59" for a
        using all59 [of a] old
          length_filter_mono [of hist "\<lambda>h. a \<le> h \<and> h < a + ?W" "\<lambda>h. now - ?W < h"] by auto
      ultimately show ?thesis
        using rows w none past W by (auto simp: rate_inv_def list_all_iff)
    next
      case False
      have w: "gw = (s, c)" using gw(1) False by (simp add: readWindow_def sc)
      then have c: "c < 30" using gw(2) by (simp add: gate_limits)
      have "length (filter (\<lambda>h. a \<le> h \<and> h < a + ?W) (hist @ [now])) \<le> 59" for a
      proof (cases "a \<le> now \<and> now < a + ?W")
        case True
        have "length (filter (\<lambda>h. a \<le> h \<and> h < a + ?W) hist)
            \<le> length (filter (\<lambda>h. s \<le> h) hist) + length (filter (\<lambda>h. s - ?W < h \<and> h < s) hist)"
          by (rule length_filter_split) (use True now in auto)
        then show ?thesis using c i(2,5) True by simp
      qed (use all59 [of a] in auto)
      then show ?thesis
        using rows w i c now False by (auto simp: rate_inv_def)
    qed
  qed
qed

lemma grant_global_window:
  "map_of (ug_rateWindows (grant now t c i h gw cw g)) global_scope = Some (fst gw, snd gw + 1)"
  by (simp add: grant_def map_of_upsert scopes_differ [symmetric])

lemma rate_inv_cong:
  "map_of (ug_rateWindows g') global_scope = map_of (ug_rateWindows g) global_scope \<Longrightarrow>
    rate_inv hist g' = rate_inv hist g"
  by (simp add: rate_inv_def)

lemma rate_inv_step:
  assumes "rate_inv hist g" and "list_all (\<lambda>h. list_all (\<lambda>t. h \<le> t) (clock [ev])) hist"
  shows "rate_inv (hist @ granted_at ev g) (gate_step ev g)"
proof (cases ev)
  case (EAcquire now uuid c i h)
  have past: "list_all (\<lambda>h. h \<le> now) hist"
    using assms(2) by (simp add: EAcquire clock_def map_filter_def)
  show ?thesis
  proof (cases rule: gate_acquire_cases [where now = now and uuid = uuid and g = g and c = c and i = i and h = h])
    case (invalid e)
    then show ?thesis using assms(1) by (simp add: EAcquire)
  next
    case (granted gw cw)
    then show ?thesis
      using rate_inv_grant [OF assms(1) past granted(2,4)]
      by (simp add: EAcquire grant_global_window)
  next
    case (answered r)
    then show ?thesis
      using assms(1) by (simp add: EAcquire rate_inv_def)
  qed
next
  case (EComplete now t i r)
  have "ug_rateWindows (snd (gate_complete now g t i r)) = ug_rateWindows g"
    by (simp add: gate_complete_def split: option.splits)
  then show ?thesis using assms(1) by (simp add: EComplete rate_inv_def)
qed (use assms(1) in \<open>simp_all add: rate_inv_def gate_fail_def gate_release_def\<close>)

lemma clock_Cons: "clock (ev # evs) = clock [ev] @ clock evs"
  by (simp add: clock_def map_filter_def)

lemma granted_at_clock: "t \<in> set (granted_at ev g) \<Longrightarrow> t \<in> set (clock [ev])"
  by (cases ev) (auto simp: clock_def map_filter_def split: if_splits)

lemma rate_inv_run:
  "rate_inv hist g \<Longrightarrow> sorted (clock evs) \<Longrightarrow> (\<And>h t. h \<in> set hist \<Longrightarrow> t \<in> set (clock evs) \<Longrightarrow> h \<le> t) \<Longrightarrow>
    rate_inv (hist @ grants evs g) (gate_run evs g)"
proof (induction evs arbitrary: hist g)
  case (Cons ev evs)
  have "rate_inv (hist @ granted_at ev g) (gate_step ev g)"
    using Cons.prems by (intro rate_inv_step) (auto simp: list_all_iff clock_Cons [of ev evs])
  moreover have "h \<le> t" if "h \<in> set (hist @ granted_at ev g)" "t \<in> set (clock evs)" for h t
    using that Cons.prems granted_at_clock by (fastforce simp: clock_Cons [of ev evs] sorted_append)
  ultimately show ?case
    using Cons.IH [of "hist @ granted_at ev g" "gate_step ev g"] Cons.prems(2)
    by (simp add: clock_Cons [of ev evs] sorted_append)
qed simp

subsection \<open>Leases and receipts\<close>

text \<open>The events that end the lease of a token before it expires.\<close>

fun ends_lease :: "string \<Rightarrow> gate_event \<Rightarrow> bool" where
  "ends_lease t (EComplete now t' i r) \<longleftrightarrow> t' = t"
| "ends_lease t (EFail t' i) \<longleftrightarrow> t' = t"
| "ends_lease t (ERelease t') \<longleftrightarrow> t' = t"
| "ends_lease t _ \<longleftrightarrow> False"

lemma lease_blocks:
  assumes "(t, e) \<in> set (ug_leases g)" "now < e"
  shows "\<not> (\<exists>u. fst (gate_acquire now uuid g c i h) = Inr (Acquired u))"
    and "(t, e) \<in> set (ug_leases (snd (gate_acquire now uuid g c i h)))"
proof -
  have "(t, e) \<in> set (ug_leases (purge now g))"
    using assms by (simp add: purge_def)
  moreover from this have "ug_leases (purge now g) \<noteq> []" by auto
  ultimately show "\<not> (\<exists>u. fst (gate_acquire now uuid g c i h) = Inr (Acquired u))"
      "(t, e) \<in> set (ug_leases (snd (gate_acquire now uuid g c i h)))"
    using assms by (auto intro: gate_acquire_cases [where now = now and uuid = uuid and g = g and c = c and i = i and h = h])
qed

lemma lease_kept:
  assumes "(t, e) \<in> set (ug_leases g)" "list_all (\<lambda>now. now < e) (clock [ev])" "\<not> ends_lease t ev"
  shows "(t, e) \<in> set (ug_leases (gate_step ev g)) \<and> granted_at ev g = []"
proof (cases ev)
  case (EAcquire now uuid c i h)
  then show ?thesis
    using assms lease_blocks [OF assms(1), of now uuid c i h] by (simp add: clock_def map_filter_def)
next
  case (EAlarm now)
  then show ?thesis
    using assms by (simp add: purge_def clock_def map_filter_def)
qed (use assms in \<open>auto simp: gate_complete_def gate_fail_def gate_release_def split: option.splits\<close>)

lemma lease_excludes:
  "(t, e) \<in> set (ug_leases g) \<Longrightarrow> list_all (\<lambda>now. now < e) (clock evs) \<Longrightarrow>
    list_all (\<lambda>ev. \<not> ends_lease t ev) evs \<Longrightarrow> grants evs g = []"
proof (induction evs arbitrary: g)
  case (Cons ev evs)
  then show ?case
    using lease_kept [OF Cons.prems(1), of ev] by (auto simp: clock_Cons [of ev evs])
qed simp

lemma receipt_kept:
  assumes "find_job g i = Some job" "uj_leaseToken job = None"
    and "list_all (\<lambda>now. now < uj_expiresAt job) (clock [ev])"
  shows "find_job (gate_step ev g) i = Some job"
proof -
  have keep: "find_job g' i = Some job" if "ug_jobs g' = filter Q (ug_jobs g)" "Q job" for g' Q
    using that assms(1) by (simp add: find_job_def find_filter_keep)
  have purged: "find_job (purge now g) i = Some job" if "now < uj_expiresAt job" for now
    by (rule keep [where Q = "\<lambda>job. \<not> uj_expiresAt job \<le> now"])
      (use that in \<open>auto simp: purge_def\<close>)
  show ?thesis
  proof (cases ev)
    case (EAcquire now uuid c i' h)
    then have "find_job (purge now g) i = Some job"
      using purged assms(3) by (simp add: clock_def map_filter_def)
    then show ?thesis
      unfolding EAcquire gate_step.simps
      by (cases rule: gate_acquire_cases [where now = now and uuid = uuid and g = g and c = c and i = i' and h = h])
        (use assms(1) in \<open>simp_all add: find_job_def grant_def find_append\<close>)
  next
    case (EComplete now t i' r)
    show ?thesis
    proof (cases "i' = i")
      case True
      then show ?thesis using assms by (simp add: EComplete gate_complete_def)
    next
      case False
      then have "uj_requestId job \<noteq> i'"
        using find_SomeD [OF assms(1) [unfolded find_job_def]] by simp
      then show ?thesis
        using assms(1) by (auto simp: EComplete gate_complete_def find_job_def find_map_same split: option.splits)
    qed
  next
    case (EFail t i')
    show ?thesis
      using assms(1,2) by (simp add: EFail gate_fail_def find_job_def find_filter_keep)
  next
    case (EAlarm now)
    have "find_job (purge now g) i = Some job"
      using purged assms(3) by (simp add: EAlarm clock_def map_filter_def)
    then show ?thesis by (simp add: EAlarm find_job_def)
  qed (use assms(1) in \<open>simp add: gate_release_def find_job_def\<close>)
qed

lemma receipt_kept_run:
  "find_job g i = Some job \<Longrightarrow> uj_leaseToken job = None \<Longrightarrow>
    list_all (\<lambda>now. now < uj_expiresAt job) (clock evs) \<Longrightarrow> find_job (gate_run evs g) i = Some job"
proof (induction evs arbitrary: g)
  case (Cons ev evs)
  then show ?case
    using receipt_kept [of g i job ev] by (simp add: clock_Cons [of ev evs])
qed simp

lemma gate_complete_Inr:
  assumes "gate_complete now g t i enc = (Inr (), g')"
  obtains job where "find_job g i = Some job" "uj_leaseToken job = Some t" "is_hex64 i"
    "find_job g' i = Some (job\<lparr>uj_state := Complete, uj_leaseToken := None,
      uj_resultJson := Some enc, uj_expiresAt := now + METADATA_RECEIPT_TTL_MS\<rparr>)"
proof -
  obtain job where job: "find_job g i = Some job" "uj_leaseToken job = Some t" "is_hex64 i"
      "ug_jobs g' = map (\<lambda>job. if uj_requestId job = i
        then job\<lparr>uj_state := Complete, uj_leaseToken := None, uj_resultJson := Some enc,
          uj_expiresAt := now + METADATA_RECEIPT_TTL_MS\<rparr> else job) (ug_jobs g)"
    using assms by (auto simp: gate_complete_def split: if_splits option.splits)
  have "uj_requestId job = i"
    using find_SomeD [OF job(1) [unfolded find_job_def]] by simp
  then show ?thesis
    using job that by (simp add: find_job_def find_map_same)
qed

lemma receipt_answer:
  assumes "find_job g i = Some job" "uj_state job = Complete" "uj_resultJson job = Some enc" "enc \<noteq> []"
    and "now < uj_expiresAt job" "is_hex64 c" "is_hex64 i" "is_hex64 h"
  shows "fst (gate_acquire now uuid g c i h) = Inr (if h = uj_requestHash job then Replay enc else Conflict)"
proof -
  have "find_job (purge now g) i = Some job"
    unfolding find_job_def purge_def using assms(1,5) by (simp add: find_job_def find_filter_keep)
  then show ?thesis
    using assms by (cases enc) (auto simp: gate_acquire_def replay_or_wait_def)
qed

subsection \<open>Properties\<close>

text \<open>
  C13: The paid balance is protected by the hour: whatever requests, completions, failures and
  alarms reach the gate, as long as the clock does not run backwards, no hour-long interval
  sees more than 59 granted uploads, and none of the fixed windows more than 30.
\<close>

theorem upload_rate_bound:
  assumes "sorted (clock evs)"
  shows "length (filter (\<lambda>t. from \<le> t \<and> t < from + 3600000) (grants evs empty_gate)) \<le> 59 \<and>
    (\<exists>n \<le> 30. map_of (ug_rateWindows (gate_run evs empty_gate)) global_scope \<in> {None}
      \<union> range (\<lambda>s. Some (s, n)))"
proof -
  have "rate_inv [] empty_gate"
    by (simp add: rate_inv_def empty_gate_def)
  then have "rate_inv (grants evs empty_gate) (gate_run evs empty_gate)"
    using rate_inv_run [of "[]" empty_gate evs] assms by simp
  then show ?thesis
    by (auto simp: rate_inv_def METADATA_RATE_WINDOW_MS_def split: option.splits)
qed

definition example_hex :: "char \<Rightarrow> string" where
  "example_hex c = replicate 64 c"

definition example_token :: "char \<Rightarrow> string" where
  "example_token c = replicate 36 c"

text \<open>Two uploads in a row by one client, the second while the first is still running.\<close>

definition example_events :: "gate_event list" where
  "example_events =
    [EAcquire 1000 (example_token CHR ''1'') (example_hex CHR ''c'') (example_hex CHR ''a'') (example_hex CHR ''f''),
     EAcquire 2000 (example_token CHR ''2'') (example_hex CHR ''c'') (example_hex CHR ''b'') (example_hex CHR ''f''),
     EComplete 3000 (example_token CHR ''1'') (example_hex CHR ''a'') ''{}'',
     EAcquire 4000 (example_token CHR ''2'') (example_hex CHR ''c'') (example_hex CHR ''b'') (example_hex CHR ''f'')]"

lemma example_grants: "grants example_events empty_gate = [1000, 4000]"
  by code_simp

lemma upload_rate_bound_witness:
  "grants example_events empty_gate = [1000, 4000] \<and>
    length (filter (\<lambda>t. 500 \<le> t \<and> t < 500 + 3600000) (grants example_events empty_gate)) \<le> 59"
  using upload_rate_bound [of example_events 500] example_grants
  by (simp add: example_events_def clock_def map_filter_def)

text \<open>
  C14: One paid write at a time: once an upload is granted with a token, no other is granted
  before its three minutes are over or its token is completed, failed or released.
\<close>

theorem one_paid_write:
  assumes "fst (gate_acquire now token g c i h) = Inr (Acquired token)"
    and "list_all (\<lambda>t. t < now + 180000) (clock evs)"
    and "list_all (\<lambda>ev. \<not> ends_lease token ev) evs"
  shows "grants evs (snd (gate_acquire now token g c i h)) = []"
proof -
  have "(token, now + METADATA_LEASE_MS) \<in> set (ug_leases (snd (gate_acquire now token g c i h)))"
    by (cases rule: gate_acquire_cases [where now = now and uuid = token and g = g and c = c and i = i and h = h])
      (use assms(1) in \<open>simp_all add: grant_def\<close>)
  then show ?thesis
    by (rule lease_excludes) (use assms(2,3) in \<open>simp_all add: METADATA_LEASE_MS_def\<close>)
qed

lemma one_paid_write_witness:
  "grants (take 1 (drop 1 example_events))
    (snd (gate_acquire 1000 (example_token CHR ''1'') empty_gate (example_hex CHR ''c'')
      (example_hex CHR ''a'') (example_hex CHR ''f''))) = []"
proof (rule one_paid_write)
  show "fst (gate_acquire 1000 (example_token CHR ''1'') empty_gate (example_hex CHR ''c'')
      (example_hex CHR ''a'') (example_hex CHR ''f'')) = Inr (Acquired (example_token CHR ''1''))"
    by code_simp
qed (simp_all add: example_events_def clock_def map_filter_def)

text \<open>
  A completed upload is never paid for again: for 24 hours after its completion the same
  request id with the same content is answered by replaying the stored receipt, and with other
  content by a conflict, whatever else happens at the gate in between.
\<close>

theorem receipt_replayed:
  assumes "gate_complete now g token i enc = (Inr (), g')" "enc \<noteq> []"
    and "list_all (\<lambda>t. t < now + 86400000) (clock evs)" "later < now + 86400000"
    and "is_hex64 c" "is_hex64 h"
  shows "\<exists>job. find_job g i = Some job \<and> uj_leaseToken job = Some token \<and>
    fst (gate_acquire later uuid (gate_run evs g') c i h)
      = Inr (if h = uj_requestHash job then Replay enc else Conflict)"
proof -
  obtain job where job: "find_job g i = Some job" "uj_leaseToken job = Some token" "is_hex64 i"
    "find_job g' i = Some (job\<lparr>uj_state := Complete, uj_leaseToken := None,
      uj_resultJson := Some enc, uj_expiresAt := now + METADATA_RECEIPT_TTL_MS\<rparr>)"
    by (rule gate_complete_Inr [OF assms(1)])
  have "find_job (gate_run evs g') i = Some (job\<lparr>uj_state := Complete, uj_leaseToken := None,
      uj_resultJson := Some enc, uj_expiresAt := now + METADATA_RECEIPT_TTL_MS\<rparr>)"
    by (rule receipt_kept_run [OF job(4)]) (use assms(3) in \<open>simp_all add: METADATA_RECEIPT_TTL_MS_def\<close>)
  from receipt_answer [OF this] show ?thesis
    using job assms(2,4-6) by (simp add: METADATA_RECEIPT_TTL_MS_def)
qed

lemma receipt_replayed_witness:
  "fst (gate_acquire 5000 (example_token CHR ''3'') (gate_run example_events empty_gate)
    (example_hex CHR ''d'') (example_hex CHR ''a'') (example_hex CHR ''f'')) = Inr (Replay ''{}'')"
proof -
  let ?g = "gate_run (take 2 example_events) empty_gate"
  let ?g' = "snd (gate_complete 3000 ?g (example_token CHR ''1'') (example_hex CHR ''a'') ''{}'')"
  have "fst (gate_complete 3000 ?g (example_token CHR ''1'') (example_hex CHR ''a'') ''{}'') = Inr ()"
    by code_simp
  then have completed: "gate_complete 3000 ?g (example_token CHR ''1'') (example_hex CHR ''a'') ''{}'' = (Inr (), ?g')"
    by (simp add: prod_eq_iff)
  have hash: "map_option uj_requestHash (find_job ?g (example_hex CHR ''a'')) = Some (example_hex CHR ''f'')"
    by code_simp
  have run: "gate_run (drop 3 example_events) ?g' = gate_run example_events empty_gate"
    by (simp add: example_events_def)
  have keys: "is_hex64 (example_hex CHR ''d'')" "is_hex64 (example_hex CHR ''f'')"
    by code_simp+
  show ?thesis
    using receipt_replayed [OF completed, of "drop 3 example_events" 5000 "example_hex CHR ''d''"
        "example_hex CHR ''f''" "example_token CHR ''3''", unfolded run] hash keys
    by (auto simp: example_events_def clock_def map_filter_def)
qed

subsection \<open>Recovery\<close>

text \<open>Everything the gate waits for ends within the three minutes, and the hour, after \<open>T\<close>.\<close>

definition waits_until :: "int \<Rightarrow> upload_gate \<Rightarrow> bool" where
  "waits_until T g \<longleftrightarrow>
    list_all (\<lambda>(t, e). e \<le> T + METADATA_LEASE_MS) (ug_leases g) \<and>
    list_all (\<lambda>job. uj_state job = Processing \<longrightarrow> uj_expiresAt job \<le> T + METADATA_LEASE_MS) (ug_jobs g) \<and>
    list_all (\<lambda>(scope, s, c). s \<le> T) (ug_rateWindows g)"

lemma set_upsert: "(k', v') \<in> set (upsert k v rows) \<Longrightarrow> (k', v') = (k, v) \<or> (k', v') \<in> set rows"
  by (induction rows) (auto split: if_splits)

lemma readWindow_started: "waits_until T g \<Longrightarrow> now \<le> T \<Longrightarrow> fst (readWindow now g scope) \<le> T"
  by (auto simp: readWindow_def waits_until_def list_all_iff split: option.splits dest!: map_of_SomeD)

lemma waits_until_purge: "waits_until T g \<Longrightarrow> waits_until T (purge now g)"
  by (auto simp: waits_until_def purge_def list_all_iff)

lemma waits_until_grant:
  assumes "waits_until T g" "now \<le> T" "fst gw \<le> T" "fst cw \<le> T"
  shows "waits_until T (alarm_by a (grant now t c i h gw cw g))"
  using assms
  by (auto simp: waits_until_def grant_def drop_old_windows_def list_all_iff dest!: set_upsert)

lemma waits_until_step:
  assumes "waits_until T g" "list_all (\<lambda>t. t \<le> T) (clock [ev])"
  shows "waits_until T (gate_step ev g)"
proof (cases ev)
  case (EAcquire now uuid c i h)
  have now: "now \<le> T" using assms(2) by (simp add: EAcquire clock_def map_filter_def)
  note w = readWindow_started [OF assms(1) now]
  show ?thesis
    unfolding EAcquire gate_step.simps
    by (cases rule: gate_acquire_cases [where now = now and uuid = uuid and g = g and c = c and i = i and h = h])
      (simp_all add: assms(1) waits_until_purge waits_until_grant now w)
qed (use assms in \<open>auto simp: waits_until_def gate_complete_def gate_fail_def gate_release_def
    purge_def drop_old_windows_def list_all_iff split: option.splits\<close>)

lemma waits_until_run:
  "waits_until T g \<Longrightarrow> list_all (\<lambda>t. t \<le> T) (clock evs) \<Longrightarrow> waits_until T (gate_run evs g)"
proof (induction evs arbitrary: g)
  case (Cons ev evs)
  then show ?case
    using waits_until_step [of T g ev] by (simp add: clock_Cons [of ev evs])
qed simp

lemma fresh_window: "waits_until T g \<Longrightarrow> T + METADATA_RATE_WINDOW_MS \<le> now \<Longrightarrow> readWindow now g scope = (now, 0)"
  by (auto simp: readWindow_def waits_until_def list_all_iff split: option.splits dest!: map_of_SomeD)

text \<open>
  A worker that dies cannot block the gate: three minutes after the last event every valid
  request without a receipt is granted or told the rate limit, and an hour after it every one
  is granted.
\<close>

theorem gate_recovers:
  assumes "list_all (\<lambda>t. t \<le> T) (clock evs)" "T + 180000 \<le> now"
    and "list_all (\<lambda>job. uj_requestId job = i \<longrightarrow> uj_state job = Processing)
      (ug_jobs (gate_run evs empty_gate))"
    and "is_hex64 c" "is_hex64 i" "is_hex64 h"
  shows "fst (gate_acquire now uuid (gate_run evs empty_gate) c i h)
      \<in> insert (Inr (Acquired uuid)) (if T + 3600000 \<le> now then {} else range (\<lambda>s. Inr (RateLimited s)))"
proof -
  let ?g = "gate_run evs empty_gate"
  have w: "waits_until T ?g"
    by (rule waits_until_run [OF _ assms(1)]) (simp add: waits_until_def empty_gate_def)
  have leases: "ug_leases (purge now ?g) = []"
    using w assms(2) by (auto simp: purge_def waits_until_def filter_empty_conv list_all_iff METADATA_LEASE_MS_def)
  have "find_job (purge now ?g) i = None"
    using w assms(2,3) unfolding find_job_def find_None_iff
    by (fastforce simp: purge_def waits_until_def list_all_iff METADATA_LEASE_MS_def)
  then show ?thesis
    using assms(2,4-6) leases fresh_window [OF w, of now]
    by (auto simp: gate_acquire_def Let_def blocked_until_def gate_limits readWindow_def)
qed

lemma gate_recovers_witness:
  "fst (gate_acquire 3604000 (example_token CHR ''3'') (gate_run example_events empty_gate)
    (example_hex CHR ''d'') (example_hex CHR ''b'') (example_hex CHR ''f''))
    = Inr (Acquired (example_token CHR ''3''))"
proof -
  have "list_all (\<lambda>job. uj_requestId job = example_hex CHR ''b'' \<longrightarrow> uj_state job = Processing)
      (ug_jobs (gate_run example_events empty_gate))"
    by code_simp
  moreover have "is_hex64 (example_hex CHR ''d'')" "is_hex64 (example_hex CHR ''b'')"
      "is_hex64 (example_hex CHR ''f'')"
    by code_simp+
  moreover have "list_all (\<lambda>t. t \<le> 4000) (clock example_events)"
    by (simp add: example_events_def clock_def map_filter_def)
  ultimately show ?thesis
    using gate_recovers [of 4000 example_events 3604000 "example_hex CHR ''b''"
        "example_hex CHR ''d''" "example_hex CHR ''f''" "example_token CHR ''3''"]
    by simp
qed

end
