(* ===== verification/Indexer.thy ===== *)
theory Indexer
  imports Burn Simulation "HOL-Library.Sublist"
begin

text \<open>
  The decoder of the community indexer, \<open>app/community-indexer.ts\<close>: base58 data, the split
  instruction, the program's log records, and the rows of one finalized transaction. The lemmas
  show that base58 decoding is positional, that decoding inverts the encoder of the burn service,
  and that a burn instruction built by the service is indexed leg by leg.

  A \<open>Uint8Array\<close> is a byte list. The limbs of \<open>decodeBase58\<close> stay below 256 and its
  carries below 58, so its 32-bit \<open>&\<close> and \<open>>>\<close> are \<open>mod 256\<close> and
  \<open>div 256\<close>.
\<close>

definition BURNER_PROGRAM :: string where
  "BURNER_PROGRAM = ''burnLkcSaW4gHz3xXT1vnKZg3oJuH6Wc2yHcmHptyh5''"

subsection \<open>Base58\<close>

definition BASE58 :: string where
  "BASE58 = ''123456789ABCDEFGHJKLMNPQRSTUVWXYZabcdefghijkmnopqrstuvwxyz''"

fun index_of :: "char \<Rightarrow> string \<Rightarrow> nat option" where
  "index_of c [] = None"
| "index_of c (d # ds) = (if d = c then Some 0 else map_option Suc (index_of c ds))"

function push_carry :: "int \<Rightarrow> int list" where
  "push_carry carry = (if carry > 0 then carry mod 256 # push_carry (carry div 256) else [])"
  by pat_completeness auto
termination by (relation "measure nat") auto

declare push_carry.simps [simp del]

fun add_digit :: "int \<Rightarrow> int list \<Rightarrow> int list" where
  "add_digit carry [] = push_carry carry"
| "add_digit carry (limb # limbs) =
    (let next = limb * 58 + carry in next mod 256 # add_digit (next div 256) limbs)"

fun base58_limbs :: "int list \<Rightarrow> string \<Rightarrow> int list res" where
  "base58_limbs littleEndian [] = Inr littleEndian"
| "base58_limbs littleEndian (c # cs) = (case index_of c BASE58 of
     None \<Rightarrow> Inl (PlainError ''invalid base58'')
   | Some digit \<Rightarrow> base58_limbs (add_digit (int digit) littleEndian) cs)"

definition leadingZeroes :: "string \<Rightarrow> nat" where
  "leadingZeroes s = length (takeWhile (\<lambda>c. c = CHR ''1'') (butlast s))"

definition decodeBase58 :: "string \<Rightarrow> byte list res" where
  "decodeBase58 s = (if s = [] then Inr [] else
     bindR (base58_limbs [0] s) (\<lambda>littleEndian.
       Inr (replicate (leadingZeroes s) 0 @ map word_of_int (rev littleEndian))))"

definition validPubkey :: "string \<Rightarrow> bool" where
  "validPubkey s = (case decodeBase58 s of Inl _ \<Rightarrow> False | Inr bytes \<Rightarrow> length bytes = 32)"

subsection \<open>Reading integers\<close>

text \<open>\<open>readU16\<close>, \<open>readU32\<close> and \<open>readU64\<close> with their shifts; \<open>>>> 0\<close> makes the
  32-bit result unsigned.\<close>

definition readU16 :: "byte list \<Rightarrow> nat \<Rightarrow> int res" where
  "readU16 bytes off =
    (if off + 2 > length bytes then Inl (PlainError ''truncated u16'')
     else Inr (or (uint (bytes ! off)) (push_bit 8 (uint (bytes ! (off + 1))))))"

definition readU32 :: "byte list \<Rightarrow> nat \<Rightarrow> int res" where
  "readU32 bytes off =
    (if off + 4 > length bytes then Inl (PlainError ''truncated u32'')
     else Inr (take_bit 32 (or (or (or (uint (bytes ! off)) (push_bit 8 (uint (bytes ! (off + 1)))))
       (push_bit 16 (uint (bytes ! (off + 2))))) (push_bit 24 (uint (bytes ! (off + 3)))))))"

definition readU64 :: "byte list \<Rightarrow> nat \<Rightarrow> int res" where
  "readU64 bytes off =
    (if off + 8 > length bytes then Inl (PlainError ''truncated u64'')
     else Inr (foldl (\<lambda>value index. or (push_bit 8 value) (uint (bytes ! (off + index))))
       0 (rev [0..<8])))"

subsection \<open>The split instruction\<close>

text \<open>One iteration of the loop over the legs: the weight and the cursor after its route.\<close>

fun decode_legs :: "byte list \<Rightarrow> nat \<Rightarrow> nat \<Rightarrow> (int list \<times> nat) option res" where
  "decode_legs bytes 0 cursor = Inr (Some ([], cursor))"
| "decode_legs bytes (Suc n) cursor =
    bindR (readU16 bytes cursor) (\<lambda>bps.
    bindR (readU32 bytes (cursor + 11)) (\<lambda>routeLength.
      if routeLength > int (length bytes) - int (cursor + 15) then Inr None
      else bindR (decode_legs bytes n (cursor + 15 + nat routeLength)) (\<lambda>rest.
        Inr (map_option (\<lambda>(weights, end). (bps # weights, end)) rest))))"

definition decodeSplit_bytes :: "byte list \<Rightarrow> (int \<times> int list) option res" where
  "decodeSplit_bytes bytes =
    (if length bytes < 20 \<or> take 8 bytes \<noteq> SPLIT_DISCRIMINATOR then Inr None
     else bindR (readU64 bytes 8) (\<lambda>tot.
     bindR (readU32 bytes 16) (\<lambda>legCount.
     if legCount < 1 \<or> legCount > 4 \<or> tot = 0 then Inr None
     else bindR (decode_legs bytes (nat legCount) 20) (\<lambda>legs.
       case legs of
         None \<Rightarrow> Inr None
       | Some (weights, cursor) \<Rightarrow>
           if cursor \<noteq> length bytes then Inr None
           else if \<not> list_all (\<lambda>weight. 0 < weight) weights \<or> sum_list weights \<noteq> 10000
           then Inr None else Inr (Some (tot, weights))))))"

text \<open>\<open>try { \<dots> } catch { return undefined; }\<close>.\<close>

definition decodeSplit :: "string \<Rightarrow> (int \<times> int list) option" where
  "decodeSplit data = (case bindR (decodeBase58 data) decodeSplit_bytes of
     Inl e \<Rightarrow> None | Inr split \<Rightarrow> split)"

subsection \<open>The log records\<close>

definition strip_prefix :: "string \<Rightarrow> string \<Rightarrow> string option" where
  "strip_prefix p s = (if take (length p) s = p then Some (drop (length p) s) else None)"

definition is_base58 :: "char \<Rightarrow> bool" where
  "is_base58 c \<longleftrightarrow> c \<in> set BASE58"

text \<open>\<open>^Program ([base58]+)\<close>: the name, and the rest of the line.\<close>

definition program_prefix :: "string \<Rightarrow> (string \<times> string) option" where
  "program_prefix line = (case strip_prefix ''Program '' line of
     None \<Rightarrow> None
   | Some rest \<Rightarrow>
       (let name = takeWhile is_base58 rest
        in if name = [] then None else Some (name, dropWhile is_base58 rest)))"

text \<open>\<open>/^Program ([base58]+) invoke \[(\d+)\]$/\<close>.\<close>

definition match_invoke :: "string \<Rightarrow> (string \<times> int) option" where
  "match_invoke line = (case program_prefix line of
     None \<Rightarrow> None
   | Some (name, rest) \<Rightarrow> (case strip_prefix '' invoke ['' rest of
       None \<Rightarrow> None
     | Some after \<Rightarrow>
         (let depth = takeWhile is_digit after
          in if depth = [] \<or> dropWhile is_digit after \<noteq> '']'' then None
             else Some (name, decimal_value depth))))"

text \<open>\<open>/^Program log: 0x0, 0x0, 0x0, 0x([0-9a-fA-F]+), 0x([0-9a-fA-F]+)$/\<close>.\<close>

definition match_values :: "string \<Rightarrow> (int \<times> int) option" where
  "match_values line = (case strip_prefix ''Program log: 0x0, 0x0, 0x0, 0x'' line of
     None \<Rightarrow> None
   | Some rest \<Rightarrow>
       (let first = takeWhile hex_digit rest in
        case strip_prefix '', 0x'' (dropWhile hex_digit rest) of
          None \<Rightarrow> None
        | Some second \<Rightarrow>
            if first = [] \<or> second = [] \<or> \<not> list_all hex_digit second then None
            else Some (hex_value first, hex_value second)))"

text \<open>\<open>/^Program ([base58]+) (?:success|failed: .+)$/\<close>; \<open>.\<close> matches no line terminator.\<close>

definition match_finished :: "string \<Rightarrow> string option" where
  "match_finished line = (case program_prefix line of
     None \<Rightarrow> None
   | Some (name, rest) \<Rightarrow>
       if rest = '' success'' then Some name
       else (case strip_prefix '' failed: '' rest of
         None \<Rightarrow> None
       | Some reason \<Rightarrow>
           if reason \<noteq> [] \<and> list_all (\<lambda>c. c \<noteq> CHR 0x0A \<and> c \<noteq> CHR 0x0D) reason
           then Some name else None))"

text \<open>
  The state of the loop over the lines. \<open>active\<close> of the code is a reference to the last
  group, which the pushes extend: a flag says whether it is set. A stack slot is \<open>None\<close>
  where \<open>stack.length = n\<close> left a hole.
\<close>

record log_state =
  lg_stack :: "string option list"
  lg_groups :: "int list list"
  lg_active :: bool

definition set_length :: "nat \<Rightarrow> string option list \<Rightarrow> string option list" where
  "set_length n stack = take n stack @ replicate (n - length stack) None"

definition burn_log_line :: "log_state \<Rightarrow> string \<Rightarrow> log_state res" where
  "burn_log_line st line = (case match_invoke line of
     Some (name, depth) \<Rightarrow>
       if depth - 1 > 4294967295 then Inl RangeError
       else (let stack = set_length (nat (max 0 (depth - 1))) (lg_stack st) @ [Some name]
             in if depth = 1 \<and> name = BURNER_PROGRAM
                then Inr (st\<lparr>lg_stack := stack, lg_groups := lg_groups st @ [[]], lg_active := True\<rparr>)
                else Inr (st\<lparr>lg_stack := stack\<rparr>))
   | None \<Rightarrow>
       (let top = (\<lambda>stack. if stack = [] then None else last stack);
            st1 = (if lg_active st \<and> top (lg_stack st) = Some (BURNER_PROGRAM)
                   then (case match_values line of
                       None \<Rightarrow> st
                     | Some (input, burned) \<Rightarrow>
                         st\<lparr>lg_groups := butlast (lg_groups st) @ [last (lg_groups st) @ [input, burned]]\<rparr>)
                   else st)
        in case match_finished line of
             None \<Rightarrow> Inr st1
           | Some name \<Rightarrow>
               (let wasTopLevelBurn = (length (lg_stack st1) = 1 \<and> name = BURNER_PROGRAM);
                    st2 = (if top (lg_stack st1) = Some name
                           then st1\<lparr>lg_stack := butlast (lg_stack st1)\<rparr> else st1)
                in Inr (if wasTopLevelBurn then st2\<lparr>lg_active := False\<rparr> else st2))))"

fun burn_log_lines :: "log_state \<Rightarrow> string list \<Rightarrow> log_state res" where
  "burn_log_lines st [] = Inr st"
| "burn_log_lines st (line # lines) =
    bindR (burn_log_line st line) (\<lambda>st'. burn_log_lines st' lines)"

definition empty_log :: log_state where
  "empty_log = \<lparr>lg_stack = [], lg_groups = [], lg_active = False\<rparr>"

definition burnLogGroups :: "string list \<Rightarrow> int list list res" where
  "burnLogGroups logs = bindR (burn_log_lines empty_log logs) (\<lambda>st.
     Inr (filter (\<lambda>g. g \<noteq> []) (lg_groups st)))"

subsection \<open>The rows of a transaction\<close>

record compiled_instruction =
  ci_programIdIndex :: nat
  ci_accounts :: "nat list"
  ci_data :: string

record transaction_meta =
  tm_errIsNull :: bool
  tm_logMessages :: "string list nullable"
  tm_loadedAddresses :: "(string list \<times> string list) option"

record transaction_result =
  tr_slot :: int
  tr_blockTime :: "int option"
  tr_meta :: "transaction_meta option"
  tr_accountKeys :: "string list"
  tr_instructions :: "compiled_instruction list"

record indexed_leg =
  il_signature :: string
  il_instructionIndex :: nat
  il_legIndex :: nat
  il_slot :: int
  il_blockTime :: "int option"
  il_launchMint :: string
  il_vault :: string
  il_targetMint :: string
  il_referencePool :: string
  il_bps :: int
  il_solLamports :: int
  il_burnedAtoms :: int

text \<open>\<open>accountKeys[instruction.accounts[i]]\<close>, when it is there and not empty.\<close>

definition account_at :: "string list \<Rightarrow> compiled_instruction \<Rightarrow> nat \<Rightarrow> string option" where
  "account_at accountKeys ci i = (case nth_opt (ci_accounts ci) i of
     None \<Rightarrow> None
   | Some k \<Rightarrow> (case nth_opt accountKeys k of
       None \<Rightarrow> None
     | Some key \<Rightarrow> if key = [] then None else Some key))"

definition index_leg ::
  "string \<Rightarrow> transaction_result \<Rightarrow> string list \<Rightarrow> nat \<Rightarrow> compiled_instruction \<Rightarrow> string \<Rightarrow> string \<Rightarrow>
    int list \<Rightarrow> int list \<Rightarrow> int list \<Rightarrow> nat \<Rightarrow> indexed_leg option" where
  "index_leg signature tx accountKeys instructionIndex ci launchMint vault weights amounts logs legIndex =
    (case (account_at accountKeys ci (8 + legIndex * 7), account_at accountKeys ci (11 + legIndex * 7)) of
       (Some targetMint, Some referencePool) \<Rightarrow>
         if logs ! (legIndex * 2) \<noteq> amounts ! legIndex \<or> logs ! (legIndex * 2 + 1) \<le> 0 then None
         else Some \<lparr>il_signature = signature, il_instructionIndex = instructionIndex,
           il_legIndex = legIndex, il_slot = tr_slot tx, il_blockTime = tr_blockTime tx,
           il_launchMint = launchMint, il_vault = vault, il_targetMint = targetMint,
           il_referencePool = referencePool, il_bps = weights ! legIndex,
           il_solLamports = amounts ! legIndex, il_burnedAtoms = logs ! (legIndex * 2 + 1)\<rparr>
     | _ \<Rightarrow> None)"

text \<open>The rows of one burner call: none unless every leg is valid.\<close>

definition index_call ::
  "string \<Rightarrow> transaction_result \<Rightarrow> string list \<Rightarrow> nat \<times> compiled_instruction \<Rightarrow> int \<times> int list \<Rightarrow>
    int list option \<Rightarrow> indexed_leg list" where
  "index_call signature tx accountKeys call split logGroup =
    (case (call, split, logGroup) of
       ((instructionIndex, ci), (tot, weights), Some logs) \<Rightarrow>
         (let amounts = indexer_splitAmounts tot weights in
          if length logs \<noteq> length weights * 2 then []
          else if length (ci_accounts ci) < 8 + length weights * 7 then []
          else (case (account_at accountKeys ci 4, account_at accountKeys ci 2) of
              (Some launchMint, Some vault) \<Rightarrow>
                (let candidate = map (index_leg signature tx accountKeys instructionIndex ci
                       launchMint vault weights amounts logs) [0..<length weights]
                 in if None \<in> set candidate then [] else map the candidate)
            | _ \<Rightarrow> []))
     | _ \<Rightarrow> [])"

text \<open>Only decoded split calls consume a log group.\<close>

fun index_calls ::
  "string \<Rightarrow> transaction_result \<Rightarrow> string list \<Rightarrow> (nat \<times> compiled_instruction) list \<Rightarrow> int list list \<Rightarrow>
    indexed_leg list" where
  "index_calls signature tx accountKeys [] logGroups = []"
| "index_calls signature tx accountKeys (call # calls) logGroups =
    (case decodeSplit (ci_data (snd call)) of
       None \<Rightarrow> index_calls signature tx accountKeys calls logGroups
     | Some split \<Rightarrow>
         index_call signature tx accountKeys call split (nth_opt logGroups 0)
         @ index_calls signature tx accountKeys calls (drop 1 logGroups))"

definition transaction_keys :: "transaction_result \<Rightarrow> string list" where
  "transaction_keys tx = tr_accountKeys tx @ (case tr_meta tx of
     None \<Rightarrow> [] | Some m \<Rightarrow> (case tm_loadedAddresses m of
       None \<Rightarrow> [] | Some (writable, readonly) \<Rightarrow> writable @ readonly))"

definition decodeBurnTransaction ::
  "string \<Rightarrow> transaction_result \<Rightarrow> indexed_leg list res" where
  "decodeBurnTransaction signature tx = (case tr_meta tx of
     None \<Rightarrow> Inr []
   | Some m \<Rightarrow>
       if \<not> tm_errIsNull m then Inr []
       else (let accountKeys = transaction_keys tx;
                 calls = filter (\<lambda>(_, ci). nth_opt accountKeys (ci_programIdIndex ci) = Some (BURNER_PROGRAM))
                   (zip [0..<length (tr_instructions tx)] (tr_instructions tx))
             in bindR (burnLogGroups (nullable_list (tm_logMessages m))) (\<lambda>logGroups.
               Inr (index_calls signature tx accountKeys calls logGroups))))"

subsection \<open>The readers\<close>

lemma or_byte: "or (push_bit 8 v) (uint (b :: byte)) = 256 * v + uint b"
  using or_push_bit [of "uint b" 8 v] uint_byte_bounds [of b] by (simp add: or.commute add.commute)

lemma take_Suc_drop: "k < length xs \<Longrightarrow> take (Suc n) (drop k xs) = xs ! k # take n (drop (Suc k) xs)"
  by (simp add: Cons_nth_drop_Suc [symmetric])

lemma readU16_eq:
  "readU16 bytes off = (if off + 2 > length bytes then Inl (PlainError ''truncated u16'')
    else Inr (le_value (take 2 (drop off bytes))))"
  using uint_byte_bounds [of "bytes ! off"]
  by (simp add: readU16_def or_push_bit numeral_2_eq_2 take_Suc_drop)

lemma readU64_eq:
  "readU64 bytes off = (if off + 8 > length bytes then Inl (PlainError ''truncated u64'')
    else Inr (le_value (take 8 (drop off bytes))))"
proof -
  have "rev [0..<8] = [7, 6, 5, 4, 3, 2, 1, 0 :: nat]" by code_simp
  moreover have "take 8 (drop off bytes) = map (\<lambda>i. bytes ! (off + i)) [0, 1, 2, 3, 4, 5, 6, 7]"
    if "off + 8 \<le> length bytes"
    using that by (simp add: eval_nat_numeral take_Suc_drop)
  ultimately show ?thesis
    by (simp add: readU64_def or_byte)
qed

lemma readU32_eq:
  "readU32 bytes off = (if off + 4 > length bytes then Inl (PlainError ''truncated u32'')
    else Inr (le_value (take 4 (drop off bytes))))"
proof (cases "off + 4 > length bytes")
  case False
  let ?b = "\<lambda>i. uint (bytes ! (off + i))"
  have b: "0 \<le> ?b i" "?b i < 256" for i
    using uint_byte_bounds by auto
  have "or (?b 0) (push_bit 8 (?b 1)) = ?b 0 + 256 * ?b 1"
    using or_push_bit [of "?b 0" 8] b [of 0] by simp
  moreover have "or (?b 0 + 256 * ?b 1) (push_bit 16 (?b 2)) = ?b 0 + 256 * ?b 1 + 65536 * ?b 2"
    using or_push_bit [of "?b 0 + 256 * ?b 1" 16] b [of 0] b [of 1] by simp
  moreover have "or (?b 0 + 256 * ?b 1 + 65536 * ?b 2) (push_bit 24 (?b 3))
      = ?b 0 + 256 * ?b 1 + 65536 * ?b 2 + 16777216 * ?b 3"
    using or_push_bit [of "?b 0 + 256 * ?b 1 + 65536 * ?b 2" 24] b [of 0] b [of 1] b [of 2] by simp
  moreover have "take_bit 32 (?b 0 + 256 * ?b 1 + 65536 * ?b 2 + 16777216 * ?b 3)
      = ?b 0 + 256 * ?b 1 + 65536 * ?b 2 + 16777216 * ?b 3"
    using b [of 0] b [of 1] b [of 2] b [of 3] by (intro take_bit_int_eq_self) simp_all
  moreover have "take 4 (drop off bytes) = map (\<lambda>i. bytes ! (off + i)) [0, 1, 2, 3]"
    using False by (simp add: eval_nat_numeral take_Suc_drop)
  ultimately show ?thesis
    using False by (simp add: readU32_def)
qed (simp add: readU32_def)

subsection \<open>Base58 is positional\<close>

fun limbs_value :: "int list \<Rightarrow> int" where
  "limbs_value [] = 0"
| "limbs_value (l # ls) = l + 256 * limbs_value ls"

definition limbs_ok :: "int list \<Rightarrow> bool" where
  "limbs_ok ls \<longleftrightarrow> list_all (\<lambda>l. 0 \<le> l \<and> l < 256) ls"

lemma push_carry_value: "0 \<le> c \<Longrightarrow> limbs_value (push_carry c) = c \<and> limbs_ok (push_carry c)"
proof (induction c rule: push_carry.induct)
  case (1 c)
  then show ?case
    by (cases "c > 0") (auto simp: push_carry.simps [of c] push_carry.simps [of 0] limbs_ok_def)
qed

lemma add_digit_value:
  "0 \<le> c \<Longrightarrow> limbs_ok ls \<Longrightarrow>
    limbs_value (add_digit c ls) = 58 * limbs_value ls + c \<and> limbs_ok (add_digit c ls)"
proof (induction c ls rule: add_digit.induct)
  case (2 c l ls)
  have "0 \<le> l * 58 + c" "limbs_ok ls" using 2 by (simp_all add: limbs_ok_def)
  then have "limbs_value (add_digit ((l * 58 + c) div 256) ls) = 58 * limbs_value ls + (l * 58 + c) div 256"
      "limbs_ok (add_digit ((l * 58 + c) div 256) ls)"
    using 2 by simp_all
  moreover have "(l * 58 + c) mod 256 + 256 * ((l * 58 + c) div 256) = l * 58 + c"
    by (rule mod_mult_div_eq)
  ultimately show ?case
    unfolding add_digit.simps Let_def limbs_value.simps by (simp add: limbs_ok_def distrib_left)
qed (simp add: push_carry_value)

definition base58_value :: "string \<Rightarrow> int" where
  "base58_value s = foldl (\<lambda>acc c. 58 * acc + int (the (index_of c BASE58))) 0 s"

lemma base58_limbs_value:
  "base58_limbs ls s = Inr ls' \<Longrightarrow> limbs_ok ls \<Longrightarrow>
    limbs_ok ls' \<and>
    limbs_value ls' = foldl (\<lambda>acc c. 58 * acc + int (the (index_of c BASE58))) (limbs_value ls) s"
proof (induction ls s rule: base58_limbs.induct)
  case (2 ls c cs)
  then show ?case
    using add_digit_value [of "int (the (index_of c BASE58))" ls] by (auto split: option.splits)
qed simp

lemma le_value_limbs: "limbs_ok ls \<Longrightarrow> le_value (map word_of_int ls) = limbs_value ls"
  by (induction ls) (simp_all add: limbs_ok_def uint_word_of_int)

lemma le_value_append: "le_value (xs @ ys) = le_value xs + 256 ^ length xs * le_value ys"
  by (induction xs) (simp_all add: algebra_simps)

lemma le_value_zeroes [simp]: "le_value (replicate n 0) = 0"
  by (induction n) simp_all

text \<open>The decoded bytes, big-endian, denote the base-58 number.\<close>

lemma decodeBase58_value: "decodeBase58 s = Inr bytes \<Longrightarrow> le_value (rev bytes) = base58_value s"
proof (cases "s = []")
  case False
  assume "decodeBase58 s = Inr bytes"
  then obtain ls where ls: "base58_limbs [0] s = Inr ls"
      "bytes = replicate (leadingZeroes s) 0 @ map word_of_int (rev ls)"
    using False by (auto simp: decodeBase58_def bindR_Inr_iff)
  then show ?thesis
    using base58_limbs_value [OF ls(1)]
    by (simp add: limbs_ok_def le_value_append le_value_limbs base58_value_def rev_map)
qed (simp add: decodeBase58_def base58_value_def)

subsection \<open>Decoding inverts encoding\<close>

lemma le_value_slice:
  "0 \<le> x \<Longrightarrow> x < 256 ^ n \<Longrightarrow> le_value (take n (drop (length pre) (pre @ le_bytes n x @ post))) = x"
  by (simp add: le_value_le_bytes)

lemma decode_legs_encoded:
  "list_all leg_encodable legs \<Longrightarrow>
    decode_legs (pre @ concat (map (\<lambda>leg. leg_header leg @ pl_routeData leg) legs)) (length legs) (length pre)
      = Inr (Some (map pl_bps legs,
          length pre + length (concat (map (\<lambda>leg. leg_header leg @ pl_routeData leg) legs))))"
proof (induction legs arbitrary: pre)
  case (Cons leg legs)
  let ?rest = "concat (map (\<lambda>leg. leg_header leg @ pl_routeData leg) legs)"
  let ?bytes = "pre @ leg_header leg @ pl_routeData leg @ ?rest"
  have enc: "leg_encodable leg" using Cons.prems by simp
  have bps: "readU16 ?bytes (length pre) = Inr (pl_bps leg)"
    using enc by (simp add: readU16_eq leg_encodable_def leg_header_def le_value_le_bytes)
  have "?bytes = (pre @ le_bytes 2 (pl_bps leg) @ le_bytes 8 (pl_minimumOutput leg)
      @ le_bytes 1 (int (length (pl_routeAccounts leg))))
      @ le_bytes 4 (int (length (pl_routeData leg))) @ (pl_routeData leg @ ?rest)"
    by (simp add: leg_header_def)
  then have len: "readU32 ?bytes (length pre + 11) = Inr (int (length (pl_routeData leg)))"
    using enc le_value_slice [of "int (length (pl_routeData leg))" 4
        "pre @ le_bytes 2 (pl_bps leg) @ le_bytes 8 (pl_minimumOutput leg)
          @ le_bytes 1 (int (length (pl_routeAccounts leg)))" "pl_routeData leg @ ?rest"]
    by (simp add: readU32_eq leg_encodable_def add.commute)
  show ?case
    using Cons.IH [of "pre @ leg_header leg @ pl_routeData leg"] Cons.prems bps len
    by (simp add: add.assoc)
qed simp

lemma decodeSplit_encoded:
  assumes "splitData tot legs = Inr bytes" "decodeBase58 data = Inr bytes"
    and "0 < tot" "1 \<le> length legs" "length legs \<le> 4"
    and "list_all (\<lambda>leg. 0 < pl_bps leg) legs" "sum_list (map pl_bps legs) = 10000"
  shows "decodeSplit data = Some (tot, map pl_bps legs)"
proof -
  let ?body = "concat (map (\<lambda>leg. leg_header leg @ pl_routeData leg) legs)"
  let ?pre = "SPLIT_DISCRIMINATOR @ le_bytes 8 tot @ le_bytes 4 (int (length legs))"
  have bytes: "bytes = ?pre @ ?body" "list_all leg_encodable legs" "tot < 256 ^ 8"
    using assms(1) by (auto simp: splitData_Inr list_all_iff)
  have disc: "length SPLIT_DISCRIMINATOR = 8" by (simp add: SPLIT_DISCRIMINATOR_def)
  have "readU64 bytes 8 = Inr tot"
    using le_value_slice [of tot 8 SPLIT_DISCRIMINATOR] assms(3) bytes(3) by (simp add: readU64_eq bytes(1) disc)
  moreover have "readU32 bytes 16 = Inr (int (length legs))"
    using le_value_slice [of "int (length legs)" 4 "SPLIT_DISCRIMINATOR @ le_bytes 8 tot" ?body] assms(5)
    by (simp add: readU32_eq bytes(1) disc)
  moreover have "decode_legs bytes (length legs) 20 = Inr (Some (map pl_bps legs, length bytes))"
    using decode_legs_encoded [OF bytes(2), of ?pre] by (simp add: bytes(1) disc)
  moreover have "legs \<noteq> []" using assms(4) by auto
  ultimately have "decodeSplit_bytes bytes = Inr (Some (tot, map pl_bps legs))"
    using assms(3-7) disc by (simp add: decodeSplit_bytes_def bytes(1) list_all_iff)
  then show ?thesis
    using assms(2) by (simp add: decodeSplit_def)
qed

subsection \<open>The rows of one call\<close>

text \<open>
  One call's rows: its legs in order, one launch and vault, weights that sum to 10,000, and the
  exact split of a positive amount.
\<close>

definition call_rows :: "indexed_leg list \<Rightarrow> bool" where
  "call_rows rows \<longleftrightarrow> rows \<noteq> [] \<and> length rows \<le> 4 \<and>
    map il_legIndex rows = [0..<length rows] \<and>
    list_all (\<lambda>row. il_signature row = il_signature (hd rows) \<and>
      il_instructionIndex row = il_instructionIndex (hd rows) \<and>
      il_slot row = il_slot (hd rows) \<and> il_blockTime row = il_blockTime (hd rows) \<and>
      il_launchMint row = il_launchMint (hd rows) \<and> il_vault row = il_vault (hd rows) \<and>
      0 < il_bps row \<and> 0 < il_burnedAtoms row \<and> il_targetMint row \<noteq> [] \<and> il_referencePool row \<noteq> []) rows \<and>
    sum_list (map il_bps rows) = 10000 \<and>
    map il_solLamports rows = splitAmounts (sum_list (map il_solLamports rows)) (map il_bps rows) \<and>
    0 < sum_list (map il_solLamports rows)"

lemma decode_legs_length: "decode_legs bytes n cursor = Inr (Some (ws, e)) \<Longrightarrow> length ws = n"
  by (induction n arbitrary: cursor ws e) (auto simp: bindR_Inr_iff split: if_splits)

lemma decodeSplit_Some:
  assumes "decodeSplit data = Some (tot, weights)"
  shows "0 < tot \<and> weights \<noteq> [] \<and> length weights \<le> 4 \<and> list_all (\<lambda>w. 0 < w) weights \<and>
    sum_list weights = 10000"
proof -
  obtain bytes where bytes: "decodeSplit_bytes bytes = Inr (Some (tot, weights))"
    using assms by (auto simp: decodeSplit_def bindR_def split: sum.splits)
  then obtain legCount where n: "readU64 bytes 8 = Inr tot" "tot \<noteq> 0" "1 \<le> legCount" "legCount \<le> 4"
      "list_all (\<lambda>w. 0 < w) weights" "sum_list weights = 10000"
      "\<exists>e. decode_legs bytes (nat legCount) 20 = Inr (Some (weights, e))"
    by (auto simp: decodeSplit_bytes_def bindR_Inr_iff not_less split: if_splits option.splits)
  moreover have "0 \<le> tot"
    using n(1) le_value_bounds by (auto simp: readU64_eq split: if_splits)
  ultimately show ?thesis
    using decode_legs_length by fastforce
qed

lemma index_leg_Some:
  assumes "index_leg sg tx ks ix ci lm v ws as logs i = Some row"
  shows "il_signature row = sg \<and> il_instructionIndex row = ix \<and> il_legIndex row = i \<and>
    il_slot row = tr_slot tx \<and> il_blockTime row = tr_blockTime tx \<and> il_launchMint row = lm \<and>
    il_vault row = v \<and> il_targetMint row \<noteq> [] \<and> il_referencePool row \<noteq> [] \<and>
    il_bps row = ws ! i \<and> il_solLamports row = as ! i \<and> 0 < il_burnedAtoms row"
  using assms
  by (auto simp: index_leg_def account_at_def split: option.splits if_splits)

lemma index_call_rows:
  assumes "decodeSplit data = Some split"
  shows "index_call sg tx ks (ix, ci) split grp = [] \<or>
    call_rows (index_call sg tx ks (ix, ci) split grp) \<and>
    list_all (\<lambda>row. il_signature row = sg \<and> il_instructionIndex row = ix) (index_call sg tx ks (ix, ci) split grp)"
proof (cases "index_call sg tx ks (ix, ci) split grp = []")
  case False
  obtain tot ws where split: "split = (tot, ws)" by (cases split)
  note w = decodeSplit_Some [OF assms [unfolded split]]
  obtain logs lm v where rows: "index_call sg tx ks (ix, ci) split grp
      = map the (map (index_leg sg tx ks ix ci lm v ws (indexer_splitAmounts tot ws) logs) [0..<length ws])"
      "None \<notin> set (map (index_leg sg tx ks ix ci lm v ws (indexer_splitAmounts tot ws) logs) [0..<length ws])"
    using False by (auto simp: index_call_def split Let_def split: option.splits if_splits)
  define leg where "leg = index_leg sg tx ks ix ci lm v ws (indexer_splitAmounts tot ws) logs"
  define out where "out = map (\<lambda>i. the (leg i)) [0..<length ws]"
  have out: "index_call sg tx ks (ix, ci) split grp = out"
    using rows(1) by (simp add: out_def leg_def o_def)
  have each: "il_signature (out ! i) = sg \<and> il_instructionIndex (out ! i) = ix \<and> il_legIndex (out ! i) = i \<and>
      il_slot (out ! i) = tr_slot tx \<and> il_blockTime (out ! i) = tr_blockTime tx \<and> il_launchMint (out ! i) = lm \<and>
      il_vault (out ! i) = v \<and> il_targetMint (out ! i) \<noteq> [] \<and> il_referencePool (out ! i) \<noteq> [] \<and>
      il_bps (out ! i) = ws ! i \<and> il_solLamports (out ! i) = indexer_splitAmounts tot ws ! i \<and>
      0 < il_burnedAtoms (out ! i)" if "i < length ws" for i
  proof -
    have "leg i \<noteq> None" using rows(2) that by (force simp: leg_def)
    then show ?thesis
      using that index_leg_Some [of sg tx ks ix ci lm v ws "indexer_splitAmounts tot ws" logs i]
      by (auto simp: out_def leg_def)
  qed
  have len: "length out = length ws" by (simp add: out_def)
  have ne: "out \<noteq> []" using len w by auto
  have hd: "hd out = out ! 0" using len w by (intro hd_conv_nth) auto
  have bps: "map il_bps out = ws"
    by (rule nth_equalityI) (simp_all add: len each)
  have sol: "map il_solLamports out = splitAmounts tot ws"
    by (rule nth_equalityI) (simp_all add: len each indexer_splitAmounts_eq core_split.length_split)
  have sum: "sum_list (splitAmounts tot ws) = tot"
    using core_split.sum_split w by simp
  have idx: "map il_legIndex out = [0..<length out]"
    by (rule nth_equalityI) (simp_all add: len each)
  have "call_rows out"
    using w len each hd ne unfolding call_rows_def bps sol sum idx
    by (simp add: list_all_length)
  moreover have "list_all (\<lambda>row. il_signature row = sg \<and> il_instructionIndex row = ix) out"
    using each len by (simp add: list_all_length)
  ultimately show ?thesis unfolding out by blast
qed simp

lemma index_calls_rows:
  "\<exists>gs. index_calls sg tx ks calls groups = concat gs \<and>
    list_all (\<lambda>g. call_rows g \<and> il_signature (hd g) = sg) gs \<and>
    subseq (map (\<lambda>g. il_instructionIndex (hd g)) gs) (map fst calls)"
proof (induction calls arbitrary: groups)
  case (Cons call calls)
  obtain ix ci where call: "call = (ix, ci)" by (cases call)
  show ?case
  proof (cases "decodeSplit (ci_data ci)")
    case None
    then show ?thesis using Cons [of groups] by (fastforce simp: call)
  next
    case (Some split)
    obtain gs where gs: "index_calls sg tx ks calls (drop 1 groups) = concat gs"
      "list_all (\<lambda>g. call_rows g \<and> il_signature (hd g) = sg) gs"
      "subseq (map (\<lambda>g. il_instructionIndex (hd g)) gs) (map fst calls)"
      using Cons [of "drop 1 groups"] by blast
    let ?g = "index_call sg tx ks (ix, ci) split (nth_opt groups 0)"
    show ?thesis
    proof (cases "?g = []")
      case True
      then show ?thesis
        using gs Some by (auto simp: call intro!: exI [of _ gs])
    next
      case False
      then have "call_rows ?g" "il_signature (hd ?g) = sg" "il_instructionIndex (hd ?g) = ix"
        using index_call_rows [OF Some, of sg tx ks ix ci "nth_opt groups 0"]
        by (auto simp: list_all_iff)
      then show ?thesis
        using gs Some by (auto simp: call intro!: exI [of _ "?g # gs"])
    qed
  qed
qed (auto intro: exI [of _ "[]"])

definition row_key :: "indexed_leg \<Rightarrow> string \<times> nat \<times> nat" where
  "row_key row = (il_signature row, il_instructionIndex row, il_legIndex row)"

lemma call_rows_nth:
  "call_rows g \<Longrightarrow> i < length g \<Longrightarrow> row_key (g ! i) = (il_signature (hd g), il_instructionIndex (hd g), i)"
  by (auto simp: call_rows_def row_key_def list_all_length dest: arg_cong [of _ _ "\<lambda>xs. xs ! i"])

lemma call_rows_keys:
  "call_rows g \<Longrightarrow> map row_key g = map (\<lambda>i. (il_signature (hd g), il_instructionIndex (hd g), i)) [0..<length g]"
  by (rule nth_equalityI) (simp_all add: call_rows_nth)

lemma distinct_call_keys:
  "list_all call_rows gs \<Longrightarrow> distinct (map (\<lambda>g. il_instructionIndex (hd g)) gs) \<Longrightarrow>
    distinct (map row_key (concat gs))"
proof (induction gs)
  case (Cons g gs)
  have fresh: "row_key row \<notin> set (map row_key g)" if g': "g' \<in> set gs" "row \<in> set g'" for g' row
  proof -
    obtain i where "row = g' ! i" "i < length g'" using g'(2) by (auto simp: in_set_conv_nth)
    then have "fst (snd (row_key row)) = il_instructionIndex (hd g')"
      using Cons.prems(1) g'(1) by (simp add: list_all_iff call_rows_nth)
    moreover have "il_instructionIndex (hd g') \<noteq> il_instructionIndex (hd g)"
      using Cons.prems(2) imageI [OF g'(1), of "\<lambda>g. il_instructionIndex (hd g)"] by auto
    moreover have "map row_key g = map (\<lambda>i. (il_signature (hd g), il_instructionIndex (hd g), i)) [0..<length g]"
      using call_rows_keys [of g] Cons.prems(1) by simp
    then have "fst (snd k) = il_instructionIndex (hd g)" if "k \<in> set (map row_key g)" for k
      using that by auto
    ultimately show ?thesis by metis
  qed
  have "k \<notin> set (map row_key (concat gs))" if k: "k \<in> set (map row_key g)" for k
  proof
    assume "k \<in> set (map row_key (concat gs))"
    then obtain g' row where "g' \<in> set gs" "row \<in> set g'" "k = row_key row" by auto
    then show False using fresh k by blast
  qed
  then have "set (map row_key g) \<inter> set (map row_key (concat gs)) = {}" by blast
  moreover have "distinct (map row_key g)"
    using Cons.prems(1) by (simp add: call_rows_keys distinct_map inj_on_def)
  ultimately show ?case
    using Cons by simp
qed simp

text \<open>
  C16: Every row the indexer derives from a transaction belongs to a well-formed burn: the rows
  come in groups, one per burner call in instruction order, each with its legs numbered from 0,
  one launch and vault, positive weights that sum to 10,000, positive burned atoms, and lamports
  that are the exact split of the call's total; and no two rows share the primary key.
\<close>

theorem indexed_rows_wellformed:
  assumes "decodeBurnTransaction signature tx = Inr rows"
  shows "\<exists>calls. rows = concat calls \<and> list_all call_rows calls \<and>
    list_all (\<lambda>g. il_signature (hd g) = signature) calls \<and>
    sorted_wrt (<) (map (\<lambda>g. il_instructionIndex (hd g)) calls) \<and> distinct (map row_key rows)"
proof (cases "rows = []")
  case False
  define calls where "calls = filter (\<lambda>(_, ci). nth_opt (transaction_keys tx) (ci_programIdIndex ci)
    = Some BURNER_PROGRAM) (zip [0..<length (tr_instructions tx)] (tr_instructions tx))"
  obtain logGroups where "rows = index_calls signature tx (transaction_keys tx) calls logGroups"
    using assms False
    by (auto simp: decodeBurnTransaction_def calls_def Let_def bindR_Inr_iff split: option.splits if_splits)
  then obtain gs where gs: "rows = concat gs" "list_all (\<lambda>g. call_rows g \<and> il_signature (hd g) = signature) gs"
      "subseq (map (\<lambda>g. il_instructionIndex (hd g)) gs) (map fst calls)"
    using index_calls_rows by metis
  have "subseq calls (zip [0..<length (tr_instructions tx)] (tr_instructions tx))"
    by (simp add: calls_def subseq_filter_left)
  then have "subseq (map fst calls) [0..<length (tr_instructions tx)]"
    using subseq_map [of _ _ fst] by fastforce
  then obtain N where "map (\<lambda>g. il_instructionIndex (hd g)) gs = nths [0..<length (tr_instructions tx)] N"
    using gs(3) subseq_order.order_trans by (metis subseq_conv_nths)
  then have "sorted_wrt (<) (map (\<lambda>g. il_instructionIndex (hd g)) gs)"
    by (simp add: strict_sorted_iff sorted_nths distinct_nthsI)
  moreover from this have "distinct (map row_key rows)"
    unfolding gs(1) using gs(2)
    by (intro distinct_call_keys) (auto simp: list_all_iff strict_sorted_iff)
  ultimately show ?thesis
    using gs(1,2) by (auto simp: list_all_iff)
qed (auto intro: exI [of _ "[]"])

subsection \<open>A burn built by the service\<close>

text \<open>The row of leg \<open>i\<close>, read off the prepared legs.\<close>

definition expected_row ::
  "string \<Rightarrow> transaction_result \<Rightarrow> nat \<Rightarrow> pubkey \<Rightarrow> pubkey \<Rightarrow> int \<Rightarrow> prepared_leg list \<Rightarrow> int list \<Rightarrow> nat \<Rightarrow>
    indexed_leg" where
  "expected_row signature tx ix launchMint pda amount legs burned i =
    \<lparr>il_signature = signature, il_instructionIndex = ix, il_legIndex = i, il_slot = tr_slot tx,
     il_blockTime = tr_blockTime tx, il_launchMint = toBase58 launchMint, il_vault = toBase58 pda,
     il_targetMint = toBase58 (pl_targetMint (legs ! i)),
     il_referencePool = toBase58 (rr_pool (pl_reference (legs ! i))), il_bps = pl_bps (legs ! i),
     il_solLamports = splitAmounts amount (map pl_bps legs) ! i, il_burnedAtoms = burned ! i\<rparr>"

definition leg_records :: "int list \<Rightarrow> int list \<Rightarrow> int list" where
  "leg_records amounts burned = concat (map (\<lambda>(a, b). [a, b]) (zip amounts burned))"

lemma length_leg_records [simp]:
  "length burned = length amounts \<Longrightarrow> length (leg_records amounts burned) = 2 * length amounts"
  by (induction amounts burned rule: list_induct2') (auto simp: leg_records_def)

lemma nth_leg_records:
  "length burned = length amounts \<Longrightarrow> i < length amounts \<Longrightarrow>
    leg_records amounts burned ! (i * 2) = amounts ! i \<and> leg_records amounts burned ! Suc (i * 2) = burned ! i"
proof (induction amounts burned arbitrary: i rule: list_induct2')
  case (4 a as b bs)
  then show ?case by (cases i) (auto simp: leg_records_def)
qed auto

text \<open>The accounts of a compiled instruction name the keys of the instruction.\<close>

definition compiled_accounts :: "string list \<Rightarrow> compiled_instruction \<Rightarrow> instruction \<Rightarrow> bool" where
  "compiled_accounts accountKeys ci ix \<longleftrightarrow>
    list_all2 (\<lambda>k a. nth_opt accountKeys k = Some (toBase58 (pubkey_of a)) \<and> toBase58 (pubkey_of a) \<noteq> [])
      (ci_accounts ci) (keys ix)"

lemma compiled_account_at:
  "compiled_accounts ks ci ix \<Longrightarrow> i < length (keys ix) \<Longrightarrow>
    account_at ks ci i = Some (toBase58 (pubkey_of (keys ix ! i)))"
  by (auto simp: compiled_accounts_def account_at_def list_all2_conv_all_nth nth_opt_def split: if_splits)

text \<open>
  C15: The indexer reads back what the service built: when a transaction of a burn instruction of
  the service succeeds and its program logs, leg by leg, the input it was asked to spend and the
  atoms burned, the indexer derives exactly one row per leg, with the vault, launch mint, target,
  reference pool, weight and lamports the service put in, and the atoms the program logged.
\<close>

theorem built_burn_indexed:
  assumes built: "buildBurnInstruction w burner feePayer launchMint pda wsolAta amount legs = Inr ix"
    and legs: "0 < amount" "1 \<le> length legs" "length legs \<le> 4"
      "list_all (\<lambda>leg. 0 < pl_bps leg) legs" "sum_list (map pl_bps legs) = 10000"
    and tx: "tr_meta tx = Some m" "tm_errIsNull m" "tr_instructions tx = [compute, ci]"
    and programs: "nth_opt (transaction_keys tx) (ci_programIdIndex compute) \<noteq> Some BURNER_PROGRAM"
      "nth_opt (transaction_keys tx) (ci_programIdIndex ci) = Some BURNER_PROGRAM"
    and compiled: "compiled_accounts (transaction_keys tx) ci ix" "decodeBase58 (ci_data ci) = Inr (ix_data ix)"
    and logged: "burnLogGroups (nullable_list (tm_logMessages m))
        = Inr [leg_records (splitAmounts amount (map pl_bps legs)) burned]"
      "length burned = length legs" "list_all (\<lambda>b. 0 < b) burned"
  shows "decodeBurnTransaction signature tx
    = Inr (map (expected_row signature tx 1 launchMint pda amount legs burned) [0..<length legs])"
proof -
  let ?ws = "map pl_bps legs" and ?ks = "transaction_keys tx"
  let ?as = "splitAmounts amount ?ws"
  obtain routeKeys where k: "keys ix = [meta feePayer True False, meta burner False False, meta pda False True,
      meta wsolAta False True, meta launchMint False False, meta SYSTEM_PROGRAM False False,
      meta TOKEN_PROGRAM_ID False False, meta JUPITER_PROGRAM False False]
      @ concat (map legBlock legs) @ routeKeys" (is "_ = ?hdr @ _ @ _")
    and data: "splitData amount legs = Inr (ix_data ix)"
    by (rule buildBurnInstruction_Inr [OF built]) blast
  have split: "decodeSplit (ci_data ci) = Some (amount, ?ws)"
    by (rule decodeSplit_encoded [OF data compiled(2) legs])
  have alen: "length ?as = length legs"
    by (simp add: core_split.length_split)
  have at0: "account_at ?ks ci 4 = Some (toBase58 launchMint)" "account_at ?ks ci 2 = Some (toBase58 pda)"
    using compiled_account_at [OF compiled(1), of 4] compiled_account_at [OF compiled(1), of 2] by (simp_all add: k)
  have blocks: "8 + 7 * i + j < length (keys ix) \<and> keys ix ! (8 + 7 * i + j) = legBlock (legs ! i) ! j"
    if "i < length legs" "j < 7" for i j
    using instruction_leg_key [OF k _ that] by simp
  have row: "index_leg signature tx ?ks 1 ci (toBase58 launchMint) (toBase58 pda) ?ws ?as (leg_records ?as burned) i
      = Some (expected_row signature tx 1 launchMint pda amount legs burned i)" if i: "i < length legs" for i
  proof -
    have "account_at ?ks ci (8 + i * 7) = Some (toBase58 (pl_targetMint (legs ! i)))"
      using compiled_account_at [OF compiled(1)] blocks [OF i, of 0] by (simp add: mult.commute legBlock_def)
    moreover have "account_at ?ks ci (11 + i * 7) = Some (toBase58 (rr_pool (pl_reference (legs ! i))))"
      using compiled_account_at [OF compiled(1), of "11 + 7 * i"] blocks [OF i, of 3]
      by (simp add: mult.commute legBlock_def)
    moreover have "0 < burned ! i"
      using logged(2,3) i by (simp add: list_all_length)
    ultimately show ?thesis
      using nth_leg_records [of burned ?as i] i alen logged(2)
      by (simp add: index_leg_def expected_row_def)
  qed
  have "8 + length legs * 7 \<le> length (ci_accounts ci)"
  proof -
    have "8 + 7 * (length legs - 1) + 6 < length (keys ix)"
      using blocks [of "length legs - 1" 6] legs(2) by simp
    then show ?thesis
      using compiled(1) legs(2) by (simp add: compiled_accounts_def list_all2_lengthD)
  qed
  then have "index_call signature tx ?ks (1, ci) (amount, ?ws) (Some (leg_records ?as burned))
      = map (expected_row signature tx 1 launchMint pda amount legs burned) [0..<length legs]"
    using row at0 alen logged(2)
    by (auto simp: index_call_def indexer_splitAmounts_eq Let_def)
  then show ?thesis
    using tx programs logged split
    by (simp add: decodeBurnTransaction_def Let_def nth_opt_def upt_rec)
qed

text \<open>One leg of 1,000,000 lamports, and the transaction that executes it.\<close>

definition indexed_legs :: "prepared_leg list" where
  "indexed_legs = [\<lparr>pl_targetMint = example_key 84, pl_targetTokenProgram = TOKEN_PROGRAM_ID,
    pl_targetAta = example_key 85, pl_bps = 10000, pl_amountIn = 1000000, pl_minimumOutput = 5,
    pl_reference = example_reference, pl_routeAccounts = [], pl_routeData = [], pl_lookupTables = []\<rparr>]"

definition indexed_instruction :: instruction where
  "indexed_instruction = (case buildBurnInstruction example_web3 DEFAULT_BURNER_PROGRAM (example_key 67)
    (example_key 76) (example_key 86) (example_key 87) 1000000 indexed_legs of Inr ix \<Rightarrow> ix
    | Inl e \<Rightarrow> \<lparr>programId = SYSTEM_PROGRAM, keys = [], ix_data = []\<rparr>)"

definition indexed_call :: compiled_instruction where
  "indexed_call = \<lparr>ci_programIdIndex = 1, ci_accounts = [0..<15],
    ci_data = ''GgdXFdBEYSTqJUmLxX6tMYj8BsJ2WNAPdXWuoBZrqL4zAucj''\<rparr>"

definition indexed_meta :: transaction_meta where
  "indexed_meta = \<lparr>tm_errIsNull = True, tm_logMessages = Val
    [''Program '' @ BURNER_PROGRAM @ '' invoke [1]'',
     ''Program log: 0x0, 0x0, 0x0, 0xf4240, 0x2a'',
     ''Program '' @ BURNER_PROGRAM @ '' success''], tm_loadedAddresses = None\<rparr>"

definition indexed_tx :: transaction_result where
  "indexed_tx = \<lparr>tr_slot = 9, tr_blockTime = Some 1700, tr_meta = Some indexed_meta,
    tr_accountKeys = map (\<lambda>a. toBase58 (pubkey_of a)) (keys indexed_instruction) @ [''ComputeBudget''],
    tr_instructions = [\<lparr>ci_programIdIndex = 15, ci_accounts = [], ci_data = ''Fj2Eoy''\<rparr>, indexed_call]\<rparr>"

lemma indexed_instruction_built:
  "buildBurnInstruction example_web3 DEFAULT_BURNER_PROGRAM (example_key 67)
    (example_key 76) (example_key 86) (example_key 87) 1000000 indexed_legs = Inr indexed_instruction"
  by code_simp

lemma indexed_data: "decodeBase58 (ci_data indexed_call) = Inr (ix_data indexed_instruction)"
  by code_simp

lemma indexed_logs: "burnLogGroups (nullable_list (tm_logMessages indexed_meta)) = Inr [[1000000, 42]]"
  by code_simp

lemma indexed_programs:
  "nth_opt (transaction_keys indexed_tx) 15 \<noteq> Some BURNER_PROGRAM"
  "nth_opt (transaction_keys indexed_tx) 1 = Some BURNER_PROGRAM"
  by code_simp+

lemma indexed_compiled: "compiled_accounts (transaction_keys indexed_tx) indexed_call indexed_instruction"
  by code_simp

lemma built_burn_indexed_witness:
  "decodeBurnTransaction ''sig'' indexed_tx
    = Inr [expected_row ''sig'' indexed_tx 1 (example_key 76) (example_key 86) 1000000 indexed_legs [42] 0]"
proof -
  have "splitAmounts 1000000 (map pl_bps indexed_legs) = [1000000]" by code_simp
  moreover have "burnLogGroups (nullable_list (tm_logMessages indexed_meta)) = Inr [leg_records [1000000] [42]]"
    using indexed_logs by (simp add: leg_records_def)
  ultimately show ?thesis
    using built_burn_indexed [OF indexed_instruction_built, of indexed_tx indexed_meta
        "\<lparr>ci_programIdIndex = 15, ci_accounts = [], ci_data = ''Fj2Eoy''\<rparr>" indexed_call "[42]" "''sig''"]
      indexed_programs indexed_compiled indexed_data
    by (simp add: indexed_tx_def indexed_meta_def indexed_legs_def indexed_call_def)
qed

lemma indexed_rows_wellformed_witness:
  "\<exists>rows calls. decodeBurnTransaction ''sig'' indexed_tx = Inr rows \<and> rows \<noteq> [] \<and> rows = concat calls \<and>
    list_all call_rows calls \<and> distinct (map row_key rows)"
proof -
  obtain row where "decodeBurnTransaction ''sig'' indexed_tx = Inr [row]"
    by (rule that) code_simp
  with indexed_rows_wellformed [OF this] show ?thesis by blast
qed

end
