(* ===== verification/IndexerStore.thy ===== *)
theory IndexerStore
  imports Indexer
begin

text \<open>
  The store of the community indexer and its scan, \<open>storeRows\<close> and
  \<open>indexFinalizedBurns\<close> of \<open>app/community-indexer.ts\<close>. The D1 tables are lists of
  rows (\<open>burn_legs\<close>, \<open>token_mints\<close>) and a record (\<open>index_state\<close>, whose empty
  texts count as unset); the RPC is the record \<open>index_rpc\<close>, a parameter. Requests and rows
  go out in chunks; a batch of statements is atomic, and a throw keeps what earlier batches wrote.
\<close>

subsection \<open>State and RPC\<close>

record signature_row =
  sr_signature :: string
  sr_slot :: int
  sr_errIsNull :: bool

record token_mint =
  tk_mint :: string
  tk_decimals :: int
  tk_supplyAtoms :: string
  tk_updatedAt :: int

record index_state =
  is_latestSignature :: string
  is_backfillBefore :: string
  is_backfillComplete :: bool
  is_lastIndexedAt :: int
  is_lastIndexedSlot :: int

record community_db =
  cd_legs :: "indexed_leg list"
  cd_mints :: "token_mint list"
  cd_state :: index_state

text \<open>An item of a batched answer: its id, whether it carries an error, its result.\<close>

record 'a rpc_item =
  ri_id :: "int option"
  ri_error :: bool
  ri_result :: "'a option"

text \<open>A malformed row of a signature page is \<open>None\<close>; a supply has an amount and decimals.\<close>

record index_rpc =
  rpc_signatures :: "string option \<Rightarrow> string option \<Rightarrow> signature_row option list res"
  rpc_transactions :: "string list \<Rightarrow> transaction_result rpc_item list res"
  rpc_supplies :: "string list \<Rightarrow> (string option \<times> int option) rpc_item list res"

definition SIGNATURE_PAGE :: nat where
  "SIGNATURE_PAGE = 100"

definition MAX_INCREMENTAL_PAGES :: nat where
  "MAX_INCREMENTAL_PAGES = 5"

subsection \<open>Fetching\<close>

definition signaturePage :: "index_rpc \<Rightarrow> string option \<Rightarrow> string option \<Rightarrow> signature_row list res" where
  "signaturePage rpc before until =
    bindR (rpc_signatures rpc before until) (\<lambda>rows. Inr (List.map_filter (\<lambda>row. row) rows))"

text \<open>The element of a chunk an item answers: \<open>chunk[item.id - 1]\<close> with a valid id.\<close>

definition answered :: "string list \<Rightarrow> 'a rpc_item \<Rightarrow> string option" where
  "answered chunk item = (case ri_id item of
     None \<Rightarrow> None
   | Some k \<Rightarrow> if 1 \<le> k \<and> k \<le> int (length chunk) then Some (chunk ! (nat k - 1)) else None)"

definition collect_item ::
  "string list \<Rightarrow> transaction_result rpc_item \<Rightarrow> (string \<rightharpoonup> transaction_result) \<Rightarrow>
    (string \<rightharpoonup> transaction_result)" where
  "collect_item chunk item out =
    (if ri_error item then out
     else (case (answered chunk item, ri_result item) of
         (Some signature, Some tx) \<Rightarrow> out(signature \<mapsto> tx) | _ \<Rightarrow> out))"

definition missingTransactionSignatures ::
  "string list \<Rightarrow> (string \<rightharpoonup> transaction_result) \<Rightarrow> string list" where
  "missingTransactionSignatures expected fetched = filter (\<lambda>s. fetched s = None) expected"

fun fetch_chunks ::
  "index_rpc \<Rightarrow> (string \<rightharpoonup> transaction_result) \<Rightarrow> string list list \<Rightarrow> (string \<rightharpoonup> transaction_result) res" where
  "fetch_chunks rpc out [] = Inr out"
| "fetch_chunks rpc out (chunk # rest) =
    bindR (rpc_transactions rpc chunk) (\<lambda>response.
      let out' = fold (collect_item chunk) response out
      in if missingTransactionSignatures chunk out' \<noteq> []
         then Inl (PlainError ''RPC_TRANSACTIONS_INCOMPLETE'') else fetch_chunks rpc out' rest)"

definition fetchTransactions ::
  "index_rpc \<Rightarrow> signature_row list \<Rightarrow> (string \<rightharpoonup> transaction_result) res" where
  "fetchTransactions rpc signatures =
    fetch_chunks rpc Map.empty (chunks 10 (map sr_signature signatures))"

subsection \<open>Storing\<close>

text \<open>\<open>INSERT OR IGNORE\<close> on the primary key.\<close>

definition insert_or_ignore :: "indexed_leg \<Rightarrow> indexed_leg list \<Rightarrow> indexed_leg list" where
  "insert_or_ignore row legs =
    (if row_key row \<in> row_key ` set legs then legs else legs @ [row])"

definition storeRows :: "indexed_leg list \<Rightarrow> community_db \<Rightarrow> community_db" where
  "storeRows rows db = fold (\<lambda>batch db. db\<lparr>cd_legs := fold insert_or_ignore batch (cd_legs db)\<rparr>)
    (chunks 50 rows) db"

text \<open>\<open>INSERT OR REPLACE\<close> into \<open>token_mints\<close>.\<close>

definition insert_or_replace :: "token_mint \<Rightarrow> token_mint list \<Rightarrow> token_mint list" where
  "insert_or_replace row rows = filter (\<lambda>r. tk_mint r \<noteq> tk_mint row) rows @ [row]"

definition supply_row :: "string list \<Rightarrow> int \<Rightarrow> (string option \<times> int option) rpc_item \<Rightarrow> token_mint option" where
  "supply_row chunk now item = (case (answered chunk item, ri_result item) of
     (Some mint, Some (Some amount, Some decimals)) \<Rightarrow>
       if \<not> ri_error item \<and> mint \<noteq> [] \<and> amount \<noteq> [] \<and> list_all is_digit amount
          \<and> 0 \<le> decimals \<and> decimals \<le> 255
       then Some \<lparr>tk_mint = mint, tk_decimals = decimals, tk_supplyAtoms = amount, tk_updatedAt = now\<rparr>
       else None
   | _ \<Rightarrow> None)"

fun refresh_chunks :: "index_rpc \<Rightarrow> int \<Rightarrow> string list list \<Rightarrow> community_db \<Rightarrow> unit res \<times> community_db" where
  "refresh_chunks rpc now [] db = (Inr (), db)"
| "refresh_chunks rpc now (chunk # rest) db = (case rpc_supplies rpc chunk of
     Inl e \<Rightarrow> (Inl e, db)
   | Inr response \<Rightarrow> refresh_chunks rpc now rest
       (db\<lparr>cd_mints := fold insert_or_replace (List.map_filter (supply_row chunk now) response)
         (cd_mints db)\<rparr>))"

definition refreshMintSupplies ::
  "index_rpc \<Rightarrow> int \<Rightarrow> string list \<Rightarrow> community_db \<Rightarrow> unit res \<times> community_db" where
  "refreshMintSupplies rpc now mints db = refresh_chunks rpc now (chunks 20 (dedup mints)) db"

subsection \<open>The scan\<close>

fun incremental_pages ::
  "index_rpc \<Rightarrow> string option \<Rightarrow> nat \<Rightarrow> string option \<Rightarrow> signature_row list \<Rightarrow> signature_row list res" where
  "incremental_pages rpc latest 0 before signatures = Inr signatures"
| "incremental_pages rpc latest (Suc n) before signatures =
    bindR (signaturePage rpc before latest) (\<lambda>next_page.
      if length next_page < SIGNATURE_PAGE then Inr (signatures @ next_page)
      else incremental_pages rpc latest n (Some (sr_signature (last next_page))) (signatures @ next_page))"

definition unset :: "string \<Rightarrow> string option" where
  "unset s = (if s = [] then None else Some s)"

definition last_signature :: "signature_row list \<Rightarrow> string option" where
  "last_signature rows = (if rows = [] then None else Some (sr_signature (last rows)))"

text \<open>What the backfill of older signatures adds: rows, the new cursor and whether it is done.\<close>

definition backfill ::
  "index_rpc \<Rightarrow> index_state \<Rightarrow> signature_row list \<Rightarrow> (signature_row list \<times> string option \<times> bool) res" where
  "backfill rpc prior signatures =
    (let latest = unset (is_latestSignature prior);
         backfillBefore = unset (is_backfillBefore prior);
         backfillComplete = is_backfillComplete prior
     in if latest = None \<and> length signatures \<ge> SIGNATURE_PAGE
        then Inr (signatures, last_signature signatures, backfillComplete)
        else if latest \<noteq> None \<and> \<not> backfillComplete \<and> backfillBefore \<noteq> None
        then bindR (signaturePage rpc backfillBefore None) (\<lambda>older.
          Inr (signatures @ older, last_signature older, length older < SIGNATURE_PAGE))
        else if latest = None \<and> length signatures < SIGNATURE_PAGE
        then Inr (signatures, backfillBefore, True)
        else Inr (signatures, backfillBefore, backfillComplete))"

definition nextLatestSignature :: "string option \<Rightarrow> string option \<Rightarrow> string" where
  "nextLatestSignature priorLatest incrementalNewest = (case incrementalNewest of
     Some s \<Rightarrow> s | None \<Rightarrow> (case priorLatest of Some s \<Rightarrow> s | None \<Rightarrow> []))"

definition successful :: "signature_row list \<Rightarrow> signature_row list" where
  "successful signatures = filter sr_errIsNull (map_values (map (\<lambda>row. (sr_signature row, row)) signatures))"

text \<open>What a scan reads before it writes: pages, backfill, transactions and their rows.\<close>

record scan =
  sc_newest :: "string option"
  sc_signatures :: "signature_row list"
  sc_backfillBefore :: "string option"
  sc_backfillComplete :: bool
  sc_legs :: "indexed_leg list"

definition scan_chain :: "index_rpc \<Rightarrow> index_state \<Rightarrow> scan res" where
  "scan_chain rpc prior =
    bindR (incremental_pages rpc (unset (is_latestSignature prior)) MAX_INCREMENTAL_PAGES None []) (\<lambda>incremental.
    bindR (backfill rpc prior incremental) (\<lambda>(signatures, backfillBefore, backfillComplete).
    bindR (fetchTransactions rpc (successful signatures)) (\<lambda>transactions.
    bindR (traverse (\<lambda>row. case transactions (sr_signature row) of
        None \<Rightarrow> Inr [] | Some tx \<Rightarrow> decodeBurnTransaction (sr_signature row) tx) (successful signatures)) (\<lambda>legs.
      Inr \<lparr>sc_newest = map_option sr_signature (nth_opt incremental 0), sc_signatures = signatures,
        sc_backfillBefore = backfillBefore, sc_backfillComplete = backfillComplete,
        sc_legs = concat legs\<rparr>))))"

definition indexFinalizedBurns ::
  "index_rpc \<Rightarrow> int \<Rightarrow> community_db \<Rightarrow> (nat \<times> nat) res \<times> community_db" where
  "indexFinalizedBurns rpc now db =
    (let prior = cd_state db in
     case scan_chain rpc prior of
       Inl e \<Rightarrow> (Inl e, db)
     | Inr sc \<Rightarrow>
        (let db1 = storeRows (sc_legs sc) db in
         case refreshMintSupplies rpc now (map il_targetMint (sc_legs sc)) db1 of
           (Inl e, db2) \<Rightarrow> (Inl e, db2)
         | (Inr _, db2) \<Rightarrow>
            (Inr (length (successful (sc_signatures sc)), length (sc_legs sc)),
             db2\<lparr>cd_state := \<lparr>
               is_latestSignature = nextLatestSignature (unset (is_latestSignature prior)) (sc_newest sc),
               is_backfillBefore = (case sc_backfillBefore sc of None \<Rightarrow> [] | Some s \<Rightarrow> s),
               is_backfillComplete = sc_backfillComplete sc,
               is_lastIndexedAt = now,
               is_lastIndexedSlot = fold (\<lambda>row m. max m (sr_slot row)) (sc_signatures sc)
                 (is_lastIndexedSlot prior)\<rparr>\<rparr>)))"

subsection \<open>The store keeps one row per key\<close>

lemma insert_or_ignore_keys:
  "row_key ` set (insert_or_ignore row legs) = insert (row_key row) (row_key ` set legs)"
  by (auto simp: insert_or_ignore_def)

lemma fold_insert_keys: "row_key ` set (fold insert_or_ignore rows legs) = row_key ` set rows \<union> row_key ` set legs"
  by (induction rows arbitrary: legs) (auto simp: insert_or_ignore_keys)

lemma fold_insert_known: "row_key ` set rows \<subseteq> row_key ` set legs \<Longrightarrow> fold insert_or_ignore rows legs = legs"
  by (induction rows) (auto simp: insert_or_ignore_def)

lemma fold_insert_prefix: "\<exists>new. fold insert_or_ignore rows legs = legs @ new \<and> set new \<subseteq> set rows"
proof (induction rows arbitrary: legs)
  case (Cons row rows)
  obtain new where new: "fold insert_or_ignore rows (insert_or_ignore row legs) = insert_or_ignore row legs @ new"
      "set new \<subseteq> set rows"
    using Cons by blast
  show ?case
  proof (cases "row_key row \<in> row_key ` set legs")
    case True
    then have "fold insert_or_ignore (row # rows) legs = legs @ new"
      using new(1) by (simp add: insert_or_ignore_def)
    then show ?thesis using new(2) by auto
  next
    case False
    then have "fold insert_or_ignore (row # rows) legs = legs @ row # new"
      using new(1) by (simp add: insert_or_ignore_def)
    then show ?thesis using new(2) by (intro exI [of _ "row # new"]) auto
  qed
qed simp

lemma fold_insert_distinct:
  "distinct (map row_key legs) \<Longrightarrow> distinct (map row_key (fold insert_or_ignore rows legs))"
  by (induction rows arbitrary: legs) (auto simp: insert_or_ignore_def)

lemma storeRows_legs [simp]: "cd_legs (storeRows rows db) = fold insert_or_ignore rows (cd_legs db)"
proof -
  have "cd_legs (fold (\<lambda>batch db. db\<lparr>cd_legs := fold insert_or_ignore batch (cd_legs db)\<rparr>) bs db)
      = fold insert_or_ignore (concat bs) (cd_legs db)" for bs
    by (induction bs arbitrary: db) auto
  then show ?thesis by (simp add: storeRows_def)
qed

lemma storeRows_more [simp]:
  "cd_mints (storeRows rows db) = cd_mints db" "cd_state (storeRows rows db) = cd_state db"
proof -
  have "cd_mints (fold (\<lambda>batch db. db\<lparr>cd_legs := fold insert_or_ignore batch (cd_legs db)\<rparr>) bs db) = cd_mints db \<and>
      cd_state (fold (\<lambda>batch db. db\<lparr>cd_legs := fold insert_or_ignore batch (cd_legs db)\<rparr>) bs db) = cd_state db" for bs
    by (induction bs arbitrary: db) auto
  then show "cd_mints (storeRows rows db) = cd_mints db" "cd_state (storeRows rows db) = cd_state db"
    by (simp_all add: storeRows_def)
qed

lemma refresh_chunks_legs: "refresh_chunks rpc now cs db = (r, db') \<Longrightarrow> cd_legs db' = cd_legs db \<and> cd_state db' = cd_state db"
  by (induction cs arbitrary: db) (fastforce split: sum.splits)+

text \<open>
  The store holds one row per signature, instruction and leg, whatever is scanned twice:
  storing keeps the rows it has, adds exactly the rows with new keys, never duplicates a key, and
  storing any of the rows again changes nothing.
\<close>

theorem stored_once:
  assumes "distinct (map row_key (cd_legs db))" "set again \<subseteq> set rows"
  shows "distinct (map row_key (cd_legs (storeRows rows db))) \<and>
    (\<exists>new. cd_legs (storeRows rows db) = cd_legs db @ new \<and> set new \<subseteq> set rows) \<and>
    row_key ` set (cd_legs (storeRows rows db)) = row_key ` set rows \<union> row_key ` set (cd_legs db) \<and>
    cd_legs (storeRows again (storeRows rows db)) = cd_legs (storeRows rows db)"
  using assms fold_insert_prefix [of rows "cd_legs db"]
    fold_insert_known [of again "fold insert_or_ignore rows (cd_legs db)"]
  by (auto simp: fold_insert_distinct fold_insert_keys)

definition empty_db :: community_db where
  "empty_db = \<lparr>cd_legs = [], cd_mints = [], cd_state = \<lparr>is_latestSignature = [], is_backfillBefore = [],
    is_backfillComplete = False, is_lastIndexedAt = 0, is_lastIndexedSlot = 0\<rparr>\<rparr>"

definition stored_example :: indexed_leg where
  "stored_example = expected_row ''sig'' indexed_tx 1 (example_key 76) (example_key 86) 1000000 indexed_legs [42] 0"

lemma stored_once_witness:
  "cd_legs (storeRows [stored_example] (storeRows [stored_example, stored_example] empty_db))
    = cd_legs (storeRows [stored_example, stored_example] empty_db)"
  using stored_once [of empty_db "[stored_example]" "[stored_example, stored_example]"]
  by (simp add: empty_db_def)

subsection \<open>The head scan\<close>

text \<open>
  The documented behaviour of \<open>getSignaturesForAddress\<close> on a history, newest first: up to
  100 rows older than \<open>before\<close>, down to but without \<open>until\<close>.
\<close>

definition older_than :: "string option \<Rightarrow> signature_row list \<Rightarrow> signature_row list" where
  "older_than before xs = (case before of None \<Rightarrow> xs
     | Some s \<Rightarrow> drop 1 (dropWhile (\<lambda>row. sr_signature row \<noteq> s) xs))"

definition newer_than :: "string option \<Rightarrow> signature_row list \<Rightarrow> signature_row list" where
  "newer_than until xs = (case until of None \<Rightarrow> xs
     | Some s \<Rightarrow> takeWhile (\<lambda>row. sr_signature row \<noteq> s) xs)"

definition serves :: "index_rpc \<Rightarrow> signature_row list \<Rightarrow> bool" where
  "serves rpc history \<longleftrightarrow> distinct (map sr_signature history) \<and>
    (\<forall>before until. rpc_signatures rpc before until
      = Inr (map Some (take 100 (newer_than until (older_than before history)))))"

text \<open>
  The documented behaviour of a batch of \<open>getTransaction\<close>: an item that answers a signature
  without an error carries the transaction of that signature.
\<close>

definition answers_truly ::
  "(string \<rightharpoonup> transaction_result) \<Rightarrow> string list \<Rightarrow> transaction_result rpc_item \<Rightarrow> bool" where
  "answers_truly chain chunk item = (case (answered chunk item, ri_result item) of
     (Some signature, Some tx) \<Rightarrow> ri_error item \<or> chain signature = Some tx | _ \<Rightarrow> True)"

definition serves_transactions :: "index_rpc \<Rightarrow> (string \<rightharpoonup> transaction_result) \<Rightarrow> bool" where
  "serves_transactions rpc chain \<longleftrightarrow>
    (\<forall>chunk items. rpc_transactions rpc chunk = Inr items \<longrightarrow> list_all (answers_truly chain chunk) items)"

lemma map_filter_Some: "List.map_filter (\<lambda>row. row) (map Some xs) = xs"
  by (induction xs) (simp_all add: map_filter_def)

lemma signaturePage_serves:
  "serves rpc history \<Longrightarrow> signaturePage rpc before until = Inr (take 100 (newer_than until (older_than before history)))"
  by (simp add: serves_def signaturePage_def map_filter_Some)

lemma dropWhile_nth:
  "distinct (map f xs) \<Longrightarrow> k < length xs \<Longrightarrow> dropWhile (\<lambda>x. f x \<noteq> f (xs ! k)) xs = drop k xs"
proof (induction xs arbitrary: k)
  case (Cons x xs)
  then show ?case by (cases k) auto
qed simp

lemma older_than_nth:
  "distinct (map sr_signature xs) \<Longrightarrow> k < length xs \<Longrightarrow> older_than (Some (sr_signature (xs ! k))) xs = drop (Suc k) xs"
  by (simp add: older_than_def dropWhile_nth)

lemma takeWhile_drop: "n \<le> length (takeWhile P xs) \<Longrightarrow> takeWhile P (drop n xs) = drop n (takeWhile P xs)"
proof (induction xs arbitrary: n)
  case (Cons x xs)
  then show ?case by (cases n) (auto split: if_splits)
qed simp

lemma newer_than_drop: "n \<le> length (newer_than u xs) \<Longrightarrow> newer_than u (drop n xs) = drop n (newer_than u xs)"
  by (simp add: newer_than_def takeWhile_drop split: option.splits)

lemma newer_than_nth: "i < length (newer_than u xs) \<Longrightarrow> newer_than u xs ! i = xs ! i \<and> i < length xs"
  using length_takeWhile_le [of "\<lambda>row. sr_signature row \<noteq> the u" xs]
  by (auto simp: newer_than_def takeWhile_nth split: option.splits intro: less_le_trans)

lemma incremental_pages_serves:
  assumes "serves rpc history"
    and "before = (if k = 0 then None else Some (sr_signature (history ! (k - 1))))" "k \<le> length history"
  shows "incremental_pages rpc latest n before acc
    = Inr (acc @ take (100 * n) (newer_than latest (drop k history)))"
  using assms
proof (induction n arbitrary: k before acc)
  case (Suc n)
  let ?new = "newer_than latest (drop k history)"
  have d: "distinct (map sr_signature history)" using Suc.prems(1) by (simp add: serves_def)
  have "older_than before history = drop k history"
    using older_than_nth [OF d, of "k - 1"] Suc.prems(2,3) by (cases k) (simp_all add: older_than_def)
  then have page: "signaturePage rpc before latest = Inr (take 100 ?new)"
    using signaturePage_serves [OF Suc.prems(1)] by simp
  show ?case
  proof (cases "length ?new < 100")
    case True
    then show ?thesis using page by (simp add: SIGNATURE_PAGE_def)
  next
    case False
    have "take 100 ?new \<noteq> []" using False by auto
    then have "last (take 100 ?new) = ?new ! 99"
      using False by (simp add: last_conv_nth min_absorb2)
    then have last: "last (take 100 ?new) = history ! (k + 99) \<and> k + 100 \<le> length history"
      using False newer_than_nth [of 99 latest "drop k history"] Suc.prems(3) less_diff_conv [of 99 "length history" k] by (simp add: last_conv_nth)
    have "newer_than latest (drop (k + 100) history) = drop 100 ?new"
      using False newer_than_drop [of 100 latest "drop k history"] by (simp add: add.commute)
    moreover have "incremental_pages rpc latest n (Some (sr_signature (history ! (k + 99)))) (acc @ take 100 ?new)
        = Inr ((acc @ take 100 ?new) @ take (100 * n) (newer_than latest (drop (k + 100) history)))"
      using Suc.IH [of "Some (sr_signature (history ! (k + 99)))" "k + 100"] Suc.prems(1) last by (simp add: add.commute)
    moreover have "take (100 * Suc n) ?new = take 100 ?new @ take (100 * n) (drop 100 ?new)"
      by (simp add: take_add)
    ultimately show ?thesis
      using page last False by (simp add: SIGNATURE_PAGE_def min_absorb2)
  qed
qed simp

lemma head_scan:
  "serves rpc history \<Longrightarrow>
    incremental_pages rpc latest MAX_INCREMENTAL_PAGES None [] = Inr (take 500 (newer_than latest history))"
  using incremental_pages_serves [of rpc history None 0 latest 5 "[]"] by (simp add: MAX_INCREMENTAL_PAGES_def)

subsection \<open>What a run indexes\<close>

lemma index_run_Inr:
  assumes "indexFinalizedBurns rpc now db = (Inr counts, db')"
  obtains sc where "scan_chain rpc (cd_state db) = Inr sc"
    "cd_legs db' = fold insert_or_ignore (sc_legs sc) (cd_legs db)"
    "is_latestSignature (cd_state db')
      = nextLatestSignature (unset (is_latestSignature (cd_state db))) (sc_newest sc)"
proof -
  obtain sc db2 where sc: "scan_chain rpc (cd_state db) = Inr sc"
      "refreshMintSupplies rpc now (map il_targetMint (sc_legs sc)) (storeRows (sc_legs sc) db) = (Inr (), db2)"
      "db' = db2\<lparr>cd_state := \<lparr>
         is_latestSignature = nextLatestSignature (unset (is_latestSignature (cd_state db))) (sc_newest sc),
         is_backfillBefore = (case sc_backfillBefore sc of None \<Rightarrow> [] | Some s \<Rightarrow> s),
         is_backfillComplete = sc_backfillComplete sc, is_lastIndexedAt = now,
         is_lastIndexedSlot = fold (\<lambda>row m. max m (sr_slot row)) (sc_signatures sc)
           (is_lastIndexedSlot (cd_state db))\<rparr>\<rparr>"
    using assms by (auto simp: indexFinalizedBurns_def Let_def split: sum.splits prod.splits)
  have "cd_legs db2 = fold insert_or_ignore (sc_legs sc) (cd_legs db)"
    using refresh_chunks_legs [OF sc(2) [unfolded refreshMintSupplies_def]] by simp
  then show ?thesis
    using that [OF sc(1)] sc(3) by simp
qed

lemma set_newer_than: "set (newer_than u xs) \<subseteq> set xs"
  by (auto simp: newer_than_def dest: set_takeWhileD split: option.splits)

lemma set_older_than: "set (older_than b xs) \<subseteq> set xs"
  by (auto simp: older_than_def dest: in_set_dropD set_dropWhileD split: option.splits)

lemma backfill_history:
  assumes "serves rpc history" "set xs \<subseteq> set history" "backfill rpc prior xs = Inr (ys, b, c)"
  shows "set ys \<subseteq> set history"
proof -
  have "set page \<subseteq> set history" if "signaturePage rpc before until = Inr page" for before until page
    using that set_newer_than [of until "older_than before history"] set_older_than [of before history]
    by (auto simp: signaturePage_serves [OF assms(1)] dest: in_set_takeD)
  then show ?thesis
    using assms(2,3) by (fastforce simp: backfill_def Let_def bindR_Inr_iff split: if_splits)
qed

lemma backfill_extends: "backfill rpc prior xs = Inr (ys, b, c) \<Longrightarrow> set xs \<subseteq> set ys"
  by (auto simp: backfill_def Let_def bindR_Inr_iff split: if_splits)

lemma collect_dom: "dom out \<subseteq> dom (fold (collect_item chunk) response out)"
proof (induction response arbitrary: out)
  case (Cons item response)
  have "dom out \<subseteq> dom (collect_item chunk item out)"
    by (auto simp: collect_item_def split: option.splits)
  then show ?case using Cons [of "collect_item chunk item out"] by auto
qed simp

lemma fetch_chunks_complete:
  "fetch_chunks rpc out cs = Inr txs \<Longrightarrow> dom out \<union> set (concat cs) \<subseteq> dom txs"
proof (induction rpc out cs rule: fetch_chunks.induct)
  case (2 rpc out chunk rest)
  obtain response where r: "rpc_transactions rpc chunk = Inr response"
      "missingTransactionSignatures chunk (fold (collect_item chunk) response out) = []"
      "fetch_chunks rpc (fold (collect_item chunk) response out) rest = Inr txs"
    using "2.prems" by (auto simp: bindR_Inr_iff Let_def split: if_splits)
  note collect_dom [of out chunk response]
  moreover have "set chunk \<subseteq> dom (fold (collect_item chunk) response out)"
    using r(2) by (auto simp: missingTransactionSignatures_def filter_empty_conv)
  ultimately show ?case
    using "2.IH" [OF r(1) refl _ r(3)] r(2) unfolding concat.simps set_append by blast
qed simp

lemma collect_truly:
  "list_all (answers_truly chain chunk) items \<Longrightarrow> out \<subseteq>\<^sub>m chain \<Longrightarrow>
    fold (collect_item chunk) items out \<subseteq>\<^sub>m chain"
proof (induction items arbitrary: out)
  case (Cons item items)
  have "collect_item chunk item out \<subseteq>\<^sub>m chain"
    using Cons.prems by (auto simp: collect_item_def answers_truly_def map_le_def split: option.splits)
  then show ?case using Cons by simp
qed simp

lemma fetch_chunks_truly:
  "fetch_chunks rpc out cs = Inr txs \<Longrightarrow> serves_transactions rpc chain \<Longrightarrow> out \<subseteq>\<^sub>m chain \<Longrightarrow> txs \<subseteq>\<^sub>m chain"
proof (induction rpc out cs rule: fetch_chunks.induct)
  case (2 rpc out chunk rest)
  obtain response where r: "rpc_transactions rpc chunk = Inr response"
      "missingTransactionSignatures chunk (fold (collect_item chunk) response out) = []"
      "fetch_chunks rpc (fold (collect_item chunk) response out) rest = Inr txs"
    using "2.prems" by (auto simp: bindR_Inr_iff Let_def split: if_splits)
  have "fold (collect_item chunk) response out \<subseteq>\<^sub>m chain"
    using "2.prems"(2,3) r(1) by (intro collect_truly) (simp_all add: serves_transactions_def)
  then show ?case
    using "2.IH" [OF r(1) refl _ r(3)] r(2) "2.prems"(2) by blast
qed simp

lemma successful_signatures:
  assumes "row \<in> set rows" "sr_errIsNull row" "inj_on sr_signature (set rows)"
  shows "row \<in> set (successful rows)"
proof -
  let ?kvs = "map (\<lambda>row. (sr_signature row, row)) rows"
  have key: "sr_signature row \<in> set (map fst ?kvs)"
    using assms(1) by simp
  have "the (map_of (rev ?kvs) (sr_signature row)) = row"
    using map_of_rev_key [OF key] assms(1,3) by (auto dest: inj_onD)
  then have "row \<in> set (map_values ?kvs)"
    using key by (force simp: map_values_def)
  then show ?thesis using assms(2) by (simp add: successful_def)
qed


definition example_history :: "signature_row list" where
  "example_history = [\<lparr>sr_signature = ''sig'', sr_slot = 9, sr_errIsNull = True\<rparr>,
    \<lparr>sr_signature = ''old'', sr_slot = 3, sr_errIsNull = True\<rparr>]"

definition example_rpc :: index_rpc where
  "example_rpc = \<lparr>rpc_signatures = (\<lambda>before until. Inr (map Some (take 100 (newer_than until (older_than before example_history))))),
    rpc_transactions = (\<lambda>signatures. Inr (if signatures = [''sig'']
      then [\<lparr>ri_id = Some 1, ri_error = False, ri_result = Some indexed_tx\<rparr>] else [])),
    rpc_supplies = (\<lambda>mints. Inr [\<lparr>ri_id = Some 1, ri_error = False, ri_result = Some (Some ''77'', Some 6)\<rparr>])\<rparr>"

definition started_db :: community_db where
  "started_db = empty_db\<lparr>cd_state := (cd_state empty_db)\<lparr>is_latestSignature := ''old'', is_backfillComplete := True\<rparr>\<rparr>"

lemma example_rpc_serves: "serves example_rpc example_history"
  by (simp add: serves_def example_rpc_def example_history_def)

lemma example_rpc_truly: "serves_transactions example_rpc [''sig'' \<mapsto> indexed_tx]"
  by (auto simp: serves_transactions_def example_rpc_def answers_truly_def answered_def)

lemma example_run:
  "case indexFinalizedBurns example_rpc 1800 started_db of
     (Inr counts, db) \<Rightarrow> counts = (1, 1) \<and> is_latestSignature (cd_state db) = ''sig'' \<and> length (cd_legs db) = 1
   | (Inl e, db) \<Rightarrow> False"
  by code_simp


text \<open>
  The head scan reads exactly the 500 newest signatures above the cursor, and the cursor jumps
  to the newest of them: a signature further down is neither among those read nor above the new
  cursor of any later history, so no later head scan reads it either.
\<close>

theorem head_scan_gap:
  assumes "serves rpc history" "indexFinalizedBurns rpc now db = (Inr counts, db')"
    and "new = newer_than (unset (is_latestSignature (cd_state db))) history"
    and "i < length new" "sr_signature (hd new) \<noteq> []"
    and "distinct (map sr_signature (later @ history))"
  shows "incremental_pages rpc (unset (is_latestSignature (cd_state db))) MAX_INCREMENTAL_PAGES None []
      = Inr (take 500 new) \<and>
    (new ! i \<in> set (take 500 new) \<longleftrightarrow> i < 500) \<and>
    new ! i \<notin> set (newer_than (unset (is_latestSignature (cd_state db'))) (later @ history))"
proof -
  obtain sc where sc: "scan_chain rpc (cd_state db) = Inr sc"
    "is_latestSignature (cd_state db') = nextLatestSignature (unset (is_latestSignature (cd_state db))) (sc_newest sc)"
    by (rule index_run_Inr [OF assms(2)])
  have pages: "incremental_pages rpc (unset (is_latestSignature (cd_state db))) MAX_INCREMENTAL_PAGES None []
      = Inr (take 500 new)"
    using head_scan [OF assms(1)] assms(3) by simp
  have ne: "new \<noteq> []" using assms(4) by auto
  then have "sc_newest sc = Some (sr_signature (hd new))"
    using sc(1) by (auto simp: scan_chain_def pages bindR_Inr_iff nth_opt_def hd_conv_nth)
  then have cursor: "unset (is_latestSignature (cd_state db')) = Some (sr_signature (hd new))"
    using sc(2) assms(5) by (simp add: nextLatestSignature_def unset_def)
  have hist: "hd new = hd history" "history \<noteq> []"
    using ne newer_than_nth [of 0 "unset (is_latestSignature (cd_state db))" history]
    by (auto simp: assms(3) hd_conv_nth)
  have "sr_signature (hd new) \<notin> sr_signature ` set later"
    using assms(6) hist by (cases history) auto
  then have "sr_signature row \<noteq> sr_signature (hd new)" if "row \<in> set later" for row
    using that by (metis imageI)
  then have "newer_than (Some (sr_signature (hd new))) (later @ history) = later"
    using hist by (cases history) (simp_all add: newer_than_def takeWhile_append2)
  moreover have "new ! i \<in> set history"
    using assms(3,4) newer_than_nth nth_mem by metis
  then have "new ! i \<notin> set later"
    using assms(6) by auto
  moreover have "distinct new"
    using assms(1,3) by (auto simp: serves_def newer_than_def distinct_map split: option.splits)
  then have "new ! i \<in> set (take 500 new) \<longleftrightarrow> i < 500"
    using assms(4) by (auto simp: in_set_conv_nth nth_eq_iff_index_eq)
  ultimately show ?thesis
    using pages cursor by simp
qed

lemma head_scan_gap_witness:
  "\<exists>db'. snd (indexFinalizedBurns example_rpc 1800 started_db) = db' \<and>
    hd example_history \<notin> set (newer_than (unset (is_latestSignature (cd_state db'))) example_history)"
proof -
  obtain counts db' where run: "indexFinalizedBurns example_rpc 1800 started_db = (Inr counts, db')"
    using example_run by (auto split: prod.splits sum.splits)
  have "newer_than (unset (is_latestSignature (cd_state started_db))) example_history = [hd example_history]"
    by code_simp
  from head_scan_gap [OF example_rpc_serves run this [symmetric], of 0 "[]"] run show ?thesis
    by (simp add: example_history_def)
qed

end
