(* ===== verification/Gateway.thy ===== *)
theory Gateway
  imports Gates Lease
begin

text \<open>
  What the service reads through \<open>quote-service/adapters.ts\<close>: the snapshots of mints and
  token accounts that \<open>SolanaRpcGateway\<close> builds from raw accounts, the client of Pump's
  direct curve. The decoders of \<open>@solana/spl-token\<close> and of the Pump SDK are not part of the repository: they
  are the record \<open>token_library\<close>, an argument.
\<close>

subsection \<open>Raw accounts and the token library\<close>

record account_info =
  ai_owner :: pubkey
  ai_data :: "byte list"
  ai_lamports :: int
  ai_executable :: bool

record unpacked_mint =
  um_isInitialized :: bool
  um_mintAuthority :: "pubkey option"
  um_freezeAuthority :: "pubkey option"
  um_tlvData :: "byte list"

record unpacked_account =
  ua_mint :: pubkey
  ua_owner :: pubkey
  ua_amount :: int
  ua_isInitialized :: bool
  ua_isFrozen :: bool
  ua_isNative :: bool
  ua_delegate :: "pubkey option"
  ua_closeAuthority :: "pubkey option"
  ua_tlvData :: "byte list"

record transfer_hook =
  th_authority :: pubkey
  th_programId :: pubkey

record pump_global =
  pg_feeRecipient :: pubkey
  pg_buybackFeeRecipients :: "pubkey list"

text \<open>
  \<open>unpackMint\<close>, \<open>unpackAccount\<close>, \<open>getTransferHook\<close>, \<open>getMintCloseAuthority\<close> and
  \<open>PUMP_SDK.decodeGlobal\<close>; each may throw.
\<close>

record token_library =
  unpackMint :: "pubkey \<Rightarrow> account_info \<Rightarrow> unpacked_mint res"
  unpackAccount :: "pubkey \<Rightarrow> account_info \<Rightarrow> unpacked_account res"
  getTransferHook :: "unpacked_mint \<Rightarrow> transfer_hook option res"
  getMintCloseAuthority :: "unpacked_mint \<Rightarrow> pubkey option res"
  decodeGlobal :: "byte list \<Rightarrow> pump_global res"

type_synonym info_reader = "pubkey \<Rightarrow> account_info option res"

text \<open>\<open>PublicKey.default\<close>, 32 zero bytes, is the address of the system program.\<close>

definition defaultKey :: pubkey where
  "defaultKey = SYSTEM_PROGRAM"

subsection \<open>Extensions\<close>

text \<open>
  \<open>readExtensionTypes\<close>: the walk over type and length headers, which stops at the zero type
  and when fewer than four bytes remain.
\<close>

function extension_types_from :: "byte list \<Rightarrow> nat \<Rightarrow> int list" where
  "extension_types_from data offset =
    (if offset + 4 \<le> length data then
       (let type = le_value (subarray offset (offset + 2) data);
            len = le_value (subarray (offset + 2) (offset + 4) data)
        in if type = 0 then [] else type # extension_types_from data (offset + 4 + nat len))
     else [])"
  by pat_completeness auto
termination by (relation "measure (\<lambda>(data, offset). length data - offset)") auto

declare extension_types_from.simps [simp del]

definition readExtensionTypes :: "byte list \<Rightarrow> int list" where
  "readExtensionTypes tlvData = extension_types_from tlvData 0"

subsection \<open>Snapshots\<close>

definition token_program :: "pubkey \<Rightarrow> bool" where
  "token_program k \<longleftrightarrow> k = TOKEN_PROGRAM_ID \<or> k = TOKEN_2022_PROGRAM_ID"

definition unreadable_mint :: "pubkey \<Rightarrow> pubkey \<Rightarrow> mint_snapshot" where
  "unreadable_mint address ownerProgram = \<lparr>m_address = address, m_ownerProgram = ownerProgram,
    m_initialized = False, m_mintAuthority = None, m_freezeAuthority = None,
    m_closeAuthority = Undefined, m_extensionTypes = [],
    m_transferHookAuthority = Undefined, m_transferHookProgram = Undefined\<rparr>"

text \<open>\<open>x ? (key(x).equals(none) ? null : key(x)) : undefined\<close>.\<close>

definition unless_default :: "pubkey option \<Rightarrow> pubkey nullable" where
  "unless_default k = (case k of
     None \<Rightarrow> Undefined | Some k \<Rightarrow> if k = defaultKey then Null else Val k)"

text \<open>The snapshot of an unpacked mint.\<close>

definition snapshot_of ::
  "pubkey \<Rightarrow> account_info \<Rightarrow> unpacked_mint \<Rightarrow> transfer_hook option \<Rightarrow> pubkey option \<Rightarrow> mint_snapshot" where
  "snapshot_of address info mint hook close = \<lparr>m_address = address, m_ownerProgram = ai_owner info,
    m_initialized = um_isInitialized mint,
    m_mintAuthority = um_mintAuthority mint, m_freezeAuthority = um_freezeAuthority mint,
    m_closeAuthority = unless_default close,
    m_extensionTypes = (if ai_owner info = TOKEN_2022_PROGRAM_ID
      then readExtensionTypes (um_tlvData mint) else []),
    m_transferHookAuthority = unless_default (map_option th_authority hook),
    m_transferHookProgram = unless_default (map_option th_programId hook)\<rparr>"

text \<open>The body of the \<open>try\<close> of \<open>getMint\<close>.\<close>

definition mint_of_info :: "token_library \<Rightarrow> pubkey \<Rightarrow> account_info \<Rightarrow> mint_snapshot res" where
  "mint_of_info lib address info =
    bindR (unpackMint lib address info) (\<lambda>mint.
    bindR (if ai_owner info = TOKEN_2022_PROGRAM_ID then getTransferHook lib mint else Inr None) (\<lambda>hook.
    bindR (if ai_owner info = TOKEN_2022_PROGRAM_ID then getMintCloseAuthority lib mint else Inr None) (\<lambda>close.
      Inr (snapshot_of address info mint hook close))))"

definition gateway_getMint :: "token_library \<Rightarrow> info_reader \<Rightarrow> pubkey \<Rightarrow> mint_snapshot option res" where
  "gateway_getMint lib getAccountInfo address =
    bindR (getAccountInfo address) (\<lambda>found. case found of
      None \<Rightarrow> Inr None
    | Some info \<Rightarrow>
        if \<not> token_program (ai_owner info) then Inr (Some (unreadable_mint address (ai_owner info)))
        else (case mint_of_info lib address info of
          Inl _ \<Rightarrow> Inr (Some (unreadable_mint address (ai_owner info)))
        | Inr snapshot \<Rightarrow> Inr (Some snapshot)))"

definition gateway_getTokenAccount ::
  "token_library \<Rightarrow> info_reader \<Rightarrow> pubkey \<Rightarrow> token_account_snapshot option res" where
  "gateway_getTokenAccount lib getAccountInfo address =
    bindR (getAccountInfo address) (\<lambda>found. case found of
      None \<Rightarrow> Inr None
    | Some info \<Rightarrow>
        if \<not> token_program (ai_owner info) then Inr None
        else (case unpackAccount lib address info of
          Inl _ \<Rightarrow> Inr None
        | Inr account \<Rightarrow> Inr (Some \<lparr>t_address = address, t_ownerProgram = ai_owner info,
            t_initialized = (ua_isInitialized account \<and> \<not> ua_isFrozen account),
            t_mint = ua_mint account, t_authority = ua_owner account, t_amount = ua_amount account,
            t_isNative = ua_isNative account, t_delegate = ua_delegate account,
            t_closeAuthority = ua_closeAuthority account,
            t_extensionTypes = (if ai_owner info = TOKEN_2022_PROGRAM_ID
              then readExtensionTypes (ua_tlvData account) else [])\<rparr>)))"

definition gateway_getRawAccount :: "info_reader \<Rightarrow> pubkey \<Rightarrow> raw_account_snapshot option res" where
  "gateway_getRawAccount getAccountInfo address =
    bindR (getAccountInfo address) (\<lambda>found. Inr (map_option (\<lambda>info.
      \<lparr>r_owner = ai_owner info, r_lamports = ai_lamports info, r_dataLength = length (ai_data info),
       r_executable = ai_executable info\<rparr>) found))"

definition gateway_getAccountData :: "info_reader \<Rightarrow> account_reader" where
  "gateway_getAccountData getAccountInfo address =
    bindR (getAccountInfo address) (\<lambda>found. Inr (map_option (\<lambda>info.
      \<lparr>a_owner = ai_owner info, a_data = ai_data info, a_lamports = Some (ai_lamports info)\<rparr>) found))"

subsection \<open>The direct-curve client\<close>

definition GLOBAL_SEED :: "byte list" where
  "GLOBAL_SEED = map of_char ''global''"

definition pump_client_build ::
  "web3 \<Rightarrow> token_library \<Rightarrow> info_reader \<Rightarrow> pubkey \<Rightarrow> pubkey \<Rightarrow> pubkey \<Rightarrow> pubkey \<Rightarrow> direct_curve_leg res" where
  "pump_client_build w lib getAccountInfo vault targetMint tokenProgram targetAta =
    bindR (findProgramAddress w [GLOBAL_SEED] PUMP_FUN) (\<lambda>(globalAddress, _).
    bindR (gateway_getAccountData getAccountInfo globalAddress) (\<lambda>globalInfo.
    case globalInfo of
      None \<Rightarrow> reject ''DIRECT_CURVE_UNAVAILABLE''
    | Some acc \<Rightarrow>
        bindR (decodeGlobal lib (a_data acc)) (\<lambda>global.
        case nth_opt (pg_buybackFeeRecipients global) 0 of
          None \<Rightarrow> reject ''DIRECT_CURVE_UNAVAILABLE''
        | Some buybackFeeRecipient \<Rightarrow>
            buildDirectCurveBuyAccounts w (gateway_getAccountData getAccountInfo)
              \<lparr>dp_vault = vault, dp_targetMint = targetMint, dp_tokenProgram = tokenProgram,
               dp_targetAta = targetAta, dp_feeRecipient = pg_feeRecipient global,
               dp_buybackFeeRecipient = buybackFeeRecipient\<rparr>)))"

subsection \<open>An instance for examples\<close>

text \<open>A library that reads the documented layout, and whose hook is the one given.\<close>

definition example_library :: "transfer_hook option \<Rightarrow> token_library" where
  "example_library hook = \<lparr>
    unpackMint = (\<lambda>address info. let data = ai_data info in
      if length data < 82 then Inl (PlainError ''TokenInvalidAccountSizeError'')
      else Inr \<lparr>um_isInitialized = data ! 45 \<noteq> 0,
        um_mintAuthority = (if list_all (\<lambda>b. b = 0) (take 4 data) then None else Some (example_key (data ! 4))),
        um_freezeAuthority = (if list_all (\<lambda>b. b = 0) (subarray 46 50 data) then None
          else Some (example_key (data ! 50))),
        um_tlvData = drop 166 data\<rparr>),
    unpackAccount = (\<lambda>address info. Inl (PlainError ''TokenInvalidAccountError'')),
    getTransferHook = (\<lambda>mint. Inr hook),
    getMintCloseAuthority = (\<lambda>mint. Inr None),
    decodeGlobal = (\<lambda>data. Inr \<lparr>pg_feeRecipient = example_key 70, pg_buybackFeeRecipients = [example_key 71]\<rparr>)\<rparr>"

definition plain_mint :: account_info where
  "plain_mint = \<lparr>ai_owner = TOKEN_PROGRAM_ID, ai_data = replicate 44 0 @ [6, 1] @ replicate 36 0,
    ai_lamports = 1461600, ai_executable = False\<rparr>"

text \<open>A Token-2022 mint whose one extension is a transfer hook of 64 bytes.\<close>

definition hooked_mint :: account_info where
  "hooked_mint = \<lparr>ai_owner = TOKEN_2022_PROGRAM_ID,
    ai_data = replicate 44 0 @ [6, 1] @ replicate 119 0 @ [1] @ [14, 0, 64, 0] @ replicate 64 7,
    ai_lamports = 2500000, ai_executable = False\<rparr>"

end
