(* ===== verification/Admission.thy ===== *)
theory Admission
  imports Gateway
begin

text \<open>
  The checks the app runs before a vault is funded, \<open>app/src/chain/admission.ts\<close>: the shape
  of the legs, the admission of a target mint read from its raw account bytes, and the launch mode
  of a Pump curve. A check keeps its id, its status and the program error it mirrors; labels and
  detail texts are presentation and are left out, as is the rounding of weights that are not
  integers. The property compares the app's verdict on a mint with the service's.
\<close>

subsection \<open>Checks\<close>

datatype check_status = Pass | Fail | Warn | Info

record check_result =
  cr_id :: string
  cr_status :: check_status
  cr_code :: "int option"

definition verdict :: "string \<Rightarrow> bool \<Rightarrow> int \<Rightarrow> check_result" where
  "verdict i ok code = \<lparr>cr_id = i, cr_status = (if ok then Pass else Fail),
    cr_code = (if ok then None else Some code)\<rparr>"

lemma verdict_simps [simp]:
  "cr_id (verdict i ok code) = i"
  "cr_status (verdict i ok code) = Fail \<longleftrightarrow> \<not> ok"
  "cr_code (verdict i ok code) = (if ok then None else Some code)"
  by (simp_all add: verdict_def)

text \<open>A weight is a number of the form: None is NaN.\<close>

record shape_leg =
  sl_mint :: string
  sl_bps :: "rat option"

definition checkLegShape :: "shape_leg list \<Rightarrow> check_result list" where
  "checkLegShape legs =
    (let total_bps = sum_list (map (\<lambda>leg. case sl_bps leg of None \<Rightarrow> 0 | Some q \<Rightarrow> q) legs);
         allPositive = list_all (\<lambda>leg. case as_integer (sl_bps leg) of None \<Rightarrow> False | Some n \<Rightarrow> 0 < n) legs
     in [verdict ''leg-count'' (1 \<le> length legs \<and> length legs \<le> MAX_SPLIT_TARGETS) 6032,
         verdict ''weights'' (total_bps = of_int BPS_TOTAL \<and> allPositive) 6033,
         verdict ''distinct'' (length (dedup (map sl_mint legs)) = length legs) 6034])"

subsection \<open>Target mints\<close>

text \<open>\<open>T22_EXTENSION_NAMES\<close> names the types 0 to 27.\<close>

definition named_extension :: "int \<Rightarrow> bool" where
  "named_extension type \<longleftrightarrow> 0 \<le> type \<and> type \<le> 27"

definition isZero :: "byte list \<Rightarrow> nat \<Rightarrow> nat \<Rightarrow> bool" where
  "isZero data start stop = list_all (\<lambda>i. data ! i = 0) [start..<stop]"

text \<open>The code of the refusal of one extension, if it is refused.\<close>

definition extension_refusal :: "pubkey \<Rightarrow> int \<Rightarrow> int option" where
  "extension_refusal address type =
    (if type = 18 \<or> type = 19 then None
     else if type = 14 then (if address = PUMP_MINT then None else Some 6024)
     else if named_extension type then Some 6024
     else Some 6013)"

text \<open>The loop of \<open>analyzeT22Extensions\<close>: a later refusal replaces an earlier one.\<close>

function t22_walk :: "pubkey \<Rightarrow> byte list \<Rightarrow> nat \<Rightarrow> int option \<Rightarrow> int option" where
  "t22_walk address data cursor failed =
    (if cursor + 4 \<le> length data then
       (let type = or (uint (data ! cursor)) (push_bit 8 (uint (data ! (cursor + 1))));
            len = or (uint (data ! (cursor + 2))) (push_bit 8 (uint (data ! (cursor + 3))))
        in if type = 0 then failed
           else t22_walk address data (cursor + 4 + nat len)
             (case extension_refusal address type of None \<Rightarrow> failed | Some code \<Rightarrow> Some code))
     else failed)"
  by pat_completeness auto
termination by (relation "measure (\<lambda>(address, data, cursor, failed). length data - cursor)") auto

declare t22_walk.simps [simp del]

definition analyzeT22Extensions :: "pubkey \<Rightarrow> byte list \<Rightarrow> check_result list" where
  "analyzeT22Extensions address data =
    (if length data = 82 then [verdict ''t22-extensions'' True 0]
     else if length data \<le> 165 then [verdict ''t22-extensions'' False 6013]
     else (case t22_walk address data 166 None of
         Some code \<Rightarrow> [verdict ''t22-extensions'' False code]
       | None \<Rightarrow> [verdict ''t22-extensions'' True 0]))"

record mint_facts =
  mf_address :: string
  mf_exists :: bool
  mf_tokenProgram :: "pubkey option"
  mf_decimals :: "int option"
  mf_supply :: "int option"
  mf_checks :: "check_result list"
  mf_admissible :: bool

definition analyzeTargetMint :: "pubkey \<Rightarrow> (pubkey \<times> byte list) option \<Rightarrow> mint_facts" where
  "analyzeTargetMint address info =
    (let facts = \<lparr>mf_address = toBase58 address, mf_exists = (info \<noteq> None),
           mf_tokenProgram = map_option fst info, mf_decimals = None, mf_supply = None,
           mf_checks = [], mf_admissible = False\<rparr>
     in case info of
       None \<Rightarrow> facts\<lparr>mf_checks := [verdict ''exists'' False 6010]\<rparr>
     | Some (own, data) \<Rightarrow>
        (let isLegacy = (own = TOKEN_PROGRAM_ID); isT22 = (own = TOKEN_2022_PROGRAM_ID);
             ownerCheck = verdict ''owner'' (isLegacy \<or> isT22) 6010
         in if \<not> isLegacy \<and> \<not> isT22 then facts\<lparr>mf_checks := [ownerCheck]\<rparr>
            else if length data < 82 \<or> data ! 45 \<noteq> 1
            then facts\<lparr>mf_checks := [ownerCheck, verdict ''layout'' False 6013]\<rparr>
            else (let checks = [ownerCheck,
                    verdict ''native'' (\<not> (address = NATIVE_MINT \<or> address = NATIVE_MINT_2022)) 6038,
                    verdict ''mint-authority'' (isZero data 0 4) 6037,
                    verdict ''freeze-authority'' (isZero data 46 50) 6036]
                    @ (if isT22 then analyzeT22Extensions address data else [])
              in facts\<lparr>mf_decimals := Some (uint (data ! 44)),
                   mf_supply := Some (le_value (subarray 36 44 data)),
                   mf_checks := checks,
                   mf_admissible := list_all (\<lambda>c. cr_status c \<noteq> Fail) checks\<rparr>)))"

definition fetchTargetMintFacts :: "(pubkey list \<Rightarrow> account_info option list res) \<Rightarrow> pubkey list \<Rightarrow> mint_facts list res" where
  "fetchTargetMintFacts getMultipleAccountsInfo mints =
    bindR (getMultipleAccountsInfo mints) (\<lambda>infos.
      Inr (map (\<lambda>(i, mint). analyzeTargetMint mint (case nth_opt infos i of
          Some (Some info) \<Rightarrow> Some (ai_owner info, ai_data info) | _ \<Rightarrow> None))
        (zip [0..<length mints] mints)))"

subsection \<open>The launch mode of a curve\<close>

record curve_facts =
  cf_exists :: bool
  cf_curveAddress :: string
  cf_mayhem :: bool
  cf_cashback :: bool
  cf_solQuoted :: bool
  cf_quoteMint :: "string option"
  cf_complete :: "bool option"
  cf_creator :: "string option"
  cf_checks :: "check_result list"

definition bondingCurveAddress :: "web3 \<Rightarrow> pubkey \<Rightarrow> pubkey res" where
  "bondingCurveAddress w mint =
    bindR (findProgramAddress w [map of_char ''bonding-curve'', pubkeyBytes w mint] PUMP_FUN_PROGRAM)
      (\<lambda>(k, _). Inr k)"

text \<open>\<open>info\<close> and a failing check without a code.\<close>

definition note_check :: "check_status \<Rightarrow> check_result" where
  "note_check status = \<lparr>cr_id = ''pump-curve'', cr_status = status, cr_code = None\<rparr>"

definition fetchPumpCurveFacts :: "web3 \<Rightarrow> info_reader \<Rightarrow> pubkey \<Rightarrow> curve_facts res" where
  "fetchPumpCurveFacts w getAccountInfo mint =
    bindR (bondingCurveAddress w mint) (\<lambda>curve.
    bindR (getAccountInfo curve) (\<lambda>found.
    (let absent = Inr \<lparr>cf_exists = False, cf_curveAddress = toBase58 curve, cf_mayhem = False,
           cf_cashback = False, cf_solQuoted = True, cf_quoteMint = None, cf_complete = None,
           cf_creator = None, cf_checks = [note_check Info]\<rparr>
     in case found of
       None \<Rightarrow> absent
     | Some info \<Rightarrow>
         if ai_owner info \<noteq> PUMP_FUN_PROGRAM then absent
         else (let data = ai_data info in
           if length data < 115 then Inr \<lparr>cf_exists = True, cf_curveAddress = toBase58 curve,
             cf_mayhem = False, cf_cashback = False, cf_solQuoted = False, cf_quoteMint = None,
             cf_complete = None, cf_creator = None, cf_checks = [note_check Fail]\<rparr>
           else (let mayhem = data ! 81 \<noteq> 0; cashback = data ! 82 \<noteq> 0;
                     quoteBytes = subarray 83 115 data;
                     solQuoted = list_all (\<lambda>b. b = 0) quoteBytes
             in bindR (if solQuoted then Inr None
                       else bindR (pubkeyOfBytes w quoteBytes) (\<lambda>k. Inr (Some (toBase58 k)))) (\<lambda>quoteMint.
                bindR (pubkeyOfBytes w (subarray 49 81 data)) (\<lambda>creator.
                  Inr \<lparr>cf_exists = True, cf_curveAddress = toBase58 curve, cf_mayhem = mayhem,
                    cf_cashback = cashback, cf_solQuoted = solQuoted, cf_quoteMint = quoteMint,
                    cf_complete = Some (data ! 48 \<noteq> 0), cf_creator = Some (toBase58 creator),
                    cf_checks = [note_check (if \<not> mayhem \<and> \<not> cashback \<and> solQuoted then Pass else Fail)]\<rparr>)))))))"

subsection \<open>The two walks\<close>

text \<open>The headers the app reads byte by byte are those the service reads as little-endian words.\<close>

lemma header_word:
  fixes data :: "byte list"
  assumes "c + 2 \<le> length data"
  shows "or (uint (data ! c)) (push_bit 8 (uint (data ! (c + 1)))) = le_value (subarray c (c + 2) data)"
proof -
  have "subarray c (c + 2) data = [data ! c, data ! (c + 1)]"
    using assms by (simp add: subarray_def take_Suc_conv_app_nth Cons_nth_drop_Suc [symmetric] numeral_2_eq_2)
  moreover have "or (uint (data ! c)) (push_bit 8 (uint (data ! (c + 1)))) = uint (data ! c) + 2 ^ 8 * uint (data ! (c + 1))"
    using uint_byte_bounds [of "data ! c"] by (intro or_push_bit) simp_all
  ultimately show ?thesis by simp
qed

lemma subarray_drop: "subarray a b (drop n xs) = subarray (a + n) (b + n) xs"
  by (simp add: subarray_def add.commute)

definition refused_extensions :: "pubkey \<Rightarrow> int list \<Rightarrow> int option \<Rightarrow> int option" where
  "refused_extensions address types failed = fold (\<lambda>type failed.
     case extension_refusal address type of None \<Rightarrow> failed | Some code \<Rightarrow> Some code) types failed"

lemma t22_walk_types:
  "n \<le> cursor \<Longrightarrow> t22_walk address data cursor failed
    = refused_extensions address (extension_types_from (drop n data) (cursor - n)) failed"
proof (induction address data cursor failed rule: t22_walk.induct)
  case (1 address data cursor failed)
  show ?case
  proof (cases "cursor + 4 \<le> length data")
    case True
    let ?type = "le_value (subarray cursor (cursor + 2) data)"
    let ?len = "le_value (subarray (cursor + 2) (cursor + 4) data)"
    have w: "or (uint (data ! cursor)) (push_bit 8 (uint (data ! (cursor + 1)))) = ?type"
        "or (uint (data ! (cursor + 2))) (push_bit 8 (uint (data ! (cursor + 3)))) = ?len"
      using True header_word [of cursor data] header_word [of "cursor + 2" data]
      by (simp_all add: numeral_eq_Suc)
    have inside: "cursor - n + 4 \<le> length (drop n data)" using True 1(2) by simp
    have sub: "subarray (cursor - n) (cursor - n + 2) (drop n data) = subarray cursor (cursor + 2) data"
        "subarray (cursor - n + 2) (cursor - n + 4) (drop n data) = subarray (cursor + 2) (cursor + 4) data"
      using 1(2) by (simp_all add: subarray_drop)
    have shift: "cursor - n + 4 + nat ?len = cursor + 4 + nat ?len - n" using 1(2) by simp
    show ?thesis
    proof (cases "?type = 0")
      case True
      then show ?thesis
        using w inside sub \<open>cursor + 4 \<le> length data\<close>
        by (simp add: t22_walk.simps [of address data cursor] extension_types_from.simps [of _ "cursor - n"]
            refused_extensions_def)
    next
      case False
      have "t22_walk address data cursor failed = t22_walk address data (cursor + 4 + nat ?len)
          (case extension_refusal address ?type of None \<Rightarrow> failed | Some code \<Rightarrow> Some code)"
        using w False \<open>cursor + 4 \<le> length data\<close> by (simp add: t22_walk.simps [of address data cursor])
      also have "\<dots> = refused_extensions address (extension_types_from (drop n data) (cursor + 4 + nat ?len - n))
          (case extension_refusal address ?type of None \<Rightarrow> failed | Some code \<Rightarrow> Some code)"
        using "1.IH" [OF \<open>cursor + 4 \<le> length data\<close> w(1) [symmetric] w(2) [symmetric] False] 1(2) by simp
      also have "\<dots> = refused_extensions address (extension_types_from (drop n data) (cursor - n)) failed"
        using False inside sub shift
        by (simp add: extension_types_from.simps [of _ "cursor - n"] refused_extensions_def)
      finally show ?thesis .
    qed
  next
    case False
    then have "\<not> cursor - n + 4 \<le> length (drop n data)" using 1(2) by simp
    then show ?thesis
      using False by (simp add: t22_walk.simps [of address data cursor] extension_types_from.simps [of _ "cursor - n"]
        refused_extensions_def)
  qed
qed

lemma refused_none:
  "refused_extensions address types None = None \<longleftrightarrow> list_all (\<lambda>type. extension_refusal address type = None) types"
proof -
  have "refused_extensions address types failed = None \<longleftrightarrow>
      failed = None \<and> list_all (\<lambda>type. extension_refusal address type = None) types" for failed
    unfolding refused_extensions_def
    by (induction types arbitrary: failed) (auto split: option.splits)
  then show ?thesis by simp
qed

subsection \<open>The app and the service\<close>

text \<open>
  What \<open>unpackMint\<close> documents of the mint it returns: its size is 82 or beyond the 165 bytes
  of an account, the flag at byte 45 says whether it is initialised, an authority is absent when
  its four tag bytes are zero, and the extensions start at byte 166.
\<close>

definition mint_layout :: "account_info \<Rightarrow> unpacked_mint \<Rightarrow> bool" where
  "mint_layout info mint \<longleftrightarrow>
    (let data = ai_data info in
     (length data = 82 \<or> 165 < length data) \<and>
     um_isInitialized mint = (data ! 45 \<noteq> 0) \<and>
     (um_mintAuthority mint = None) = (list_all (\<lambda>b. b = 0) (take 4 data)) \<and>
     (um_freezeAuthority mint = None) = (list_all (\<lambda>b. b = 0) (subarray 46 50 data)) \<and>
     um_tlvData mint = drop 166 data)"

lemma isZero_subarray: "b \<le> length data \<Longrightarrow> isZero data a b = list_all (\<lambda>x. x = 0) (subarray a b data)"
  by (auto simp: isZero_def subarray_def list_all_length list_all_iff)

lemma mint_of_info_Inr:
  "mint_of_info lib address info = Inr s \<Longrightarrow> unpackMint lib address info = Inr mint \<Longrightarrow>
    \<exists>hook close. s = snapshot_of address info mint hook close"
  unfolding mint_of_info_def bindR_Inr_iff by auto

lemma app_extensions:
  assumes "length data = 82 \<or> 165 < length data"
  shows "list_all (\<lambda>c. cr_status c \<noteq> Fail) (analyzeT22Extensions address data) \<longleftrightarrow>
    list_all (\<lambda>type. extension_refusal address type = None) (readExtensionTypes (drop 166 data))"
proof -
  have "length data = 82 \<Longrightarrow> readExtensionTypes (drop 166 data) = []"
    by (simp add: readExtensionTypes_def extension_types_from.simps)
  then show ?thesis
    using assms t22_walk_types [of 166 166 address data None]
      refused_none [of address "readExtensionTypes (drop 166 data)"]
    by (auto simp: analyzeT22Extensions_def readExtensionTypes_def split: option.splits)
qed

text \<open>The $PUMP mint carries its transfer hook as the service pins it.\<close>

definition hook_pinned :: "mint_snapshot \<Rightarrow> bool" where
  "hook_pinned s \<longleftrightarrow> m_transferHookAuthority s = Val PUMP_TRANSFER_HOOK_AUTHORITY \<and> m_transferHookProgram s = Null"

lemma allowed_refusal:
  "allowed_mint_extension s e \<longleftrightarrow> extension_refusal (m_address s) e = None \<and>
    \<not> (m_address s = PUMP_MINT \<and> e = 14 \<and> \<not> hook_pinned s)"
  by (auto simp: allowed_mint_extension_def extension_refusal_def hook_pinned_def)

lemma token_programs_differ: "TOKEN_PROGRAM_ID \<noteq> TOKEN_2022_PROGRAM_ID"
  by (simp add: program_ids)

lemma app_verdict:
  assumes "length data = 82 \<or> 165 < length data" "data ! 45 = 1"
  shows "mf_admissible (analyzeTargetMint address (Some (own, data))) \<longleftrightarrow>
    token_program own \<and> \<not> (address = NATIVE_MINT \<or> address = NATIVE_MINT_2022) \<and>
    isZero data 0 4 \<and> isZero data 46 50 \<and>
    (own = TOKEN_2022_PROGRAM_ID \<longrightarrow>
      list_all (\<lambda>type. extension_refusal address type = None) (readExtensionTypes (drop 166 data)))"
proof -
  have layout: "\<not> (length data < 82 \<or> data ! 45 \<noteq> 1)" using assms by auto
  show ?thesis
    unfolding analyzeTargetMint_def Let_def option.case prod.case if_not_P [OF layout]
    using app_extensions [OF assms(1), of address] by (simp add: token_program_def)
qed

text \<open>
  C22: The app and the service agree on target mints: on an initialised mint both read, the service
  admits it exactly when the app calls it admissible, except for the $PUMP mint with a transfer
  hook whose authority or program is not the pinned one: that one the app admits by its address
  alone and the service refuses.
\<close>

theorem admission_agrees:
  assumes "mint_of_info lib address info = Inr s" "unpackMint lib address info = Inr mint"
    and "mint_layout info mint" "ai_data info ! 45 = 1"
  shows "requireAllowedMint (Some s) True = Inr s \<longleftrightarrow>
    mf_admissible (analyzeTargetMint address (Some (ai_owner info, ai_data info))) \<and>
    \<not> (address = PUMP_MINT \<and> 14 \<in> set (m_extensionTypes s) \<and> \<not> hook_pinned s)"
proof -
  obtain hook close where s: "s = snapshot_of address info mint hook close"
    using mint_of_info_Inr [OF assms(1,2)] by blast
  let ?data = "ai_data info" and ?types = "readExtensionTypes (drop 166 (ai_data info))"
  have layout: "length ?data = 82 \<or> 165 < length ?data" "um_isInitialized mint"
      "(um_mintAuthority mint = None) = isZero ?data 0 4"
      "(um_freezeAuthority mint = None) = isZero ?data 46 50" "um_tlvData mint = drop 166 ?data"
    using assms(3,4) isZero_subarray [of 4 ?data 0] isZero_subarray [of 50 ?data 46]
    by (auto simp: mint_layout_def Let_def subarray_def)
  have fields: "m_initialized s" "m_address s = address" "m_ownerProgram s = ai_owner info"
      "(m_mintAuthority s = None) = isZero ?data 0 4" "(m_freezeAuthority s = None) = isZero ?data 46 50"
      "m_extensionTypes s = (if ai_owner info = TOKEN_2022_PROGRAM_ID then ?types else [])"
    using layout by (simp_all add: s snapshot_of_def)
  have allowed: "list_all (allowed_mint_extension s) ?types \<longleftrightarrow>
      list_all (\<lambda>type. extension_refusal address type = None) ?types \<and>
      \<not> (address = PUMP_MINT \<and> 14 \<in> set ?types \<and> \<not> hook_pinned s)"
    unfolding list_all_iff allowed_refusal fields(2) by metis
  have "mf_admissible (analyzeTargetMint address (Some (ai_owner info, ?data))) \<longleftrightarrow>
      token_program (ai_owner info) \<and> \<not> (address = NATIVE_MINT \<or> address = NATIVE_MINT_2022) \<and>
      isZero ?data 0 4 \<and> isZero ?data 46 50 \<and>
      (ai_owner info = TOKEN_2022_PROGRAM_ID \<longrightarrow> list_all (\<lambda>type. extension_refusal address type = None) ?types)"
    by (rule app_verdict) (use layout(1) assms(4) in simp_all)
  then show ?thesis
    using allowed fields token_programs_differ
    by (auto simp: requireAllowedMint_target safe_target_def token_program_def)
qed

text \<open>A plain mint both admit, and the $PUMP mint with a hook authority that is not the pinned one.\<close>

definition foreign_hook :: transfer_hook where
  "foreign_hook = \<lparr>th_authority = example_key 88, th_programId = defaultKey\<rparr>"

lemma example_library_layout:
  assumes "unpackMint (example_library hook) address info = Inr mint"
    and "length (ai_data info) = 82 \<or> 165 < length (ai_data info)"
  shows "mint_layout info mint"
  using assms by (auto simp: example_library_def mint_layout_def Let_def split: if_splits)

lemma example_mint_read:
  assumes "case mint_of_info (example_library hook) address info of Inr s \<Rightarrow> P s | Inl e \<Rightarrow> False"
    and "length (ai_data info) = 82 \<or> 165 < length (ai_data info)"
  obtains s mint where "mint_of_info (example_library hook) address info = Inr s" "P s"
    "unpackMint (example_library hook) address info = Inr mint" "mint_layout info mint"
proof -
  obtain s where s: "mint_of_info (example_library hook) address info = Inr s" "P s"
    using assms(1) by (auto split: sum.splits)
  then obtain mint where mint: "unpackMint (example_library hook) address info = Inr mint"
    by (auto simp: mint_of_info_def bindR_Inr_iff)
  show ?thesis
    by (rule that [OF s mint example_library_layout [OF mint assms(2)]])
qed

lemma admission_agrees_witness:
  "(\<exists>s. mint_of_info (example_library None) (example_key 84) plain_mint = Inr s \<and>
     requireAllowedMint (Some s) True = Inr s) \<and>
   (\<exists>s. mint_of_info (example_library (Some foreign_hook)) PUMP_MINT hooked_mint = Inr s \<and>
     requireAllowedMint (Some s) True \<noteq> Inr s \<and>
     mf_admissible (analyzeTargetMint PUMP_MINT (Some (ai_owner hooked_mint, ai_data hooked_mint))))"
proof
  have app: "mf_admissible (analyzeTargetMint (example_key 84) (Some (ai_owner plain_mint, ai_data plain_mint)))"
      "mf_admissible (analyzeTargetMint PUMP_MINT (Some (ai_owner hooked_mint, ai_data hooked_mint)))"
      "example_key 84 \<noteq> PUMP_MINT" "ai_data plain_mint ! 45 = 1" "ai_data hooked_mint ! 45 = 1"
    by code_simp+
  have "case mint_of_info (example_library None) (example_key 84) plain_mint of Inr s \<Rightarrow> True | Inl e \<Rightarrow> False"
    by code_simp
  then obtain s mint where s: "mint_of_info (example_library None) (example_key 84) plain_mint = Inr s"
      "unpackMint (example_library None) (example_key 84) plain_mint = Inr mint" "mint_layout plain_mint mint"
    by (rule example_mint_read) (simp_all add: plain_mint_def)
  from admission_agrees [OF s app(4)] app(1,3) s(1)
  show "\<exists>s. mint_of_info (example_library None) (example_key 84) plain_mint = Inr s \<and>
      requireAllowedMint (Some s) True = Inr s" by blast
  have "case mint_of_info (example_library (Some foreign_hook)) PUMP_MINT hooked_mint of
      Inr s \<Rightarrow> m_extensionTypes s = [14] \<and> \<not> hook_pinned s | Inl e \<Rightarrow> False"
    by code_simp
  then obtain s mint where s: "mint_of_info (example_library (Some foreign_hook)) PUMP_MINT hooked_mint = Inr s"
      "m_extensionTypes s = [14] \<and> \<not> hook_pinned s"
      "unpackMint (example_library (Some foreign_hook)) PUMP_MINT hooked_mint = Inr mint" "mint_layout hooked_mint mint"
    by (rule example_mint_read) (simp_all add: hooked_mint_def)
  from admission_agrees [OF s(1,3,4) app(5)] s(2) app(2)
  have "requireAllowedMint (Some s) True \<noteq> Inr s" by simp
  then show "\<exists>s. mint_of_info (example_library (Some foreign_hook)) PUMP_MINT hooked_mint = Inr s \<and>
      requireAllowedMint (Some s) True \<noteq> Inr s \<and>
      mf_admissible (analyzeTargetMint PUMP_MINT (Some (ai_owner hooked_mint, ai_data hooked_mint)))"
    using s(1) app(2) by blast
qed

end
