(* ===== verification/VaultLink.thy ===== *)
theory VaultLink
  imports Admission PipelineProps
begin

text \<open>
  How the app names a vault: \<open>app/src/chain/derive.ts\<close> derives its address and writes its legs
  into a URL, \<open>vaultLink.ts\<close> rebuilds the link of an indexed vault, \<open>policy.ts\<close> builds the
  shipped configuration from the creator's pick, and \<open>lookupTable.ts\<close> collects the accounts a
  lookup table of the vault must hold. The properties tie each to the service: the app derives the
  address the service burns from, a link leads back to the vault it was made for, and a table the
  app creates covers what the service requires.
\<close>

subsection \<open>Derivation\<close>

record app_leg =
  al_mint :: pubkey
  al_bps :: int
  al_ref :: "pubkey option"

definition ZERO_REF :: "byte list" where
  "ZERO_REF = replicate 32 0"

definition ref_seed :: "web3 \<Rightarrow> pubkey option \<Rightarrow> byte list" where
  "ref_seed w r = (case r of None \<Rightarrow> ZERO_REF | Some k \<Rightarrow> pubkeyBytes w k)"

definition deriveSplitPda :: "web3 \<Rightarrow> pubkey \<Rightarrow> pubkey \<Rightarrow> app_leg list \<Rightarrow> (pubkey \<times> int) res" where
  "deriveSplitPda w PROGRAM launchMint legs =
    bindR (traverse (\<lambda>leg. writeLE 2 (al_bps leg)) legs) (\<lambda>bpsBlob.
      findProgramAddress w ([map of_char ''burner'', pubkeyBytes w launchMint]
        @ map (\<lambda>leg. pubkeyBytes w (al_mint leg)) legs
        @ [concat bpsBlob]
        @ map (\<lambda>leg. ref_seed w (al_ref leg)) legs) PROGRAM)"

subsection \<open>The legs of a URL\<close>

text \<open>A leg as text; an absent and an empty reference are both falsy.\<close>

record text_leg =
  tl_mint :: string
  tl_bps :: int
  tl_ref :: "string option"

definition truthy_text :: "string option \<Rightarrow> bool" where
  "truthy_text r \<longleftrightarrow> r \<noteq> None \<and> r \<noteq> Some []"

definition leg_param :: "text_leg \<Rightarrow> string" where
  "leg_param l = (if truthy_text (tl_ref l)
     then tl_mint l @ '':'' @ js_of_int (tl_bps l) @ '':'' @ the (tl_ref l)
     else tl_mint l @ '':'' @ js_of_int (tl_bps l))"

definition legsToParam :: "text_leg list \<Rightarrow> string" where
  "legsToParam legs = js_join '','' (map leg_param legs)"

text \<open>One part; \<open>Number(undefined)\<close> is NaN.\<close>

definition leg_of_part :: "web3 \<Rightarrow> string \<Rightarrow> text_leg option" where
  "leg_of_part w part =
    (let fields = js_split CHR '':'' part;
         mint = hd fields;
         bps = as_integer (case nth_opt fields 1 of None \<Rightarrow> None | Some raw \<Rightarrow> js_Number (JStr raw));
         ref = nth_opt fields 2
     in case bps of None \<Rightarrow> None
        | Some n \<Rightarrow>
          if mint = [] then None
          else if parsePubkey w mint = None then None
          else if truthy_text ref \<and> parsePubkey w (the ref) = None then None
          else Some \<lparr>tl_mint = mint, tl_bps = n, tl_ref = (if truthy_text ref then ref else None)\<rparr>)"

fun legs_of_parts :: "web3 \<Rightarrow> string list \<Rightarrow> text_leg list option" where
  "legs_of_parts w [] = Some []"
| "legs_of_parts w (part # parts) = (case leg_of_part w part of None \<Rightarrow> None
     | Some leg \<Rightarrow> map_option ((#) leg) (legs_of_parts w parts))"

definition legsFromParam :: "web3 \<Rightarrow> string \<Rightarrow> text_leg list option" where
  "legsFromParam w value = (if value = [] then None
     else (case legs_of_parts w (js_split CHR '','' value) of
         None \<Rightarrow> None | Some legs \<Rightarrow> if legs = [] then None else Some legs))"

subsection \<open>The shipped policy\<close>

record policy_fixed_leg =
  fl_symbol :: string
  fl_mint :: string
  fl_bps :: int

record vault_policy =
  vp_id :: string
  vp_fixedLegs :: "policy_fixed_leg list"
  vp_creatorBps :: int

definition NEIRO_LEG :: policy_fixed_leg where
  "NEIRO_LEG = \<lparr>fl_symbol = ''NEIRO'', fl_mint = ''CTg3ZgYx79zrE1MteDVkmkcGniiFrK1hJ6yiabropump'',
    fl_bps = 1000\<rparr>"

definition POLICIES :: "vault_policy list" where
  "POLICIES = [\<lparr>vp_id = ''duo-9010'', vp_fixedLegs = [NEIRO_LEG], vp_creatorBps = 9000\<rparr>]"

definition DEFAULT_POLICY :: vault_policy where
  "DEFAULT_POLICY = hd POLICIES"

definition isPlatformFeeLeg :: "string \<Rightarrow> int \<Rightarrow> bool" where
  "isPlatformFeeLeg mint bps \<longleftrightarrow>
    list_ex (\<lambda>leg. fl_mint leg = mint \<and> fl_bps leg = bps) (vp_fixedLegs DEFAULT_POLICY)"

record policy_leg =
  yl_mint :: string
  yl_bps :: int
  yl_locked :: bool
  yl_symbol :: "string option"

text \<open>The two refusals; the percentage in the text of the first is presentation.\<close>

datatype policy_error = ChooseToken | InvalidMint

record policy_result =
  pr_legs :: "policy_leg list"
  pr_merged :: "(string \<times> int) option"
  pr_error :: "policy_error option"

definition locked_leg :: "policy_fixed_leg \<Rightarrow> policy_leg" where
  "locked_leg l = \<lparr>yl_mint = fl_mint l, yl_bps = fl_bps l, yl_locked = True, yl_symbol = Some (fl_symbol l)\<rparr>"

definition buildPolicyLegs :: "web3 \<Rightarrow> string \<Rightarrow> vault_policy \<Rightarrow> policy_result" where
  "buildPolicyLegs w creatorMint policy =
    (let trimmed = js_trim creatorMint; fixedLegs = vp_fixedLegs policy in
     if trimmed = [] then \<lparr>pr_legs = map locked_leg fixedLegs, pr_merged = None, pr_error = Some ChooseToken\<rparr>
     else if parsePubkey w trimmed = None then \<lparr>pr_legs = [], pr_merged = None, pr_error = Some InvalidMint\<rparr>
     else (case find (\<lambda>l. fl_mint l = trimmed) fixedLegs of
         Some collision \<Rightarrow>
           \<lparr>pr_legs = \<lparr>yl_mint = fl_mint collision, yl_bps = vp_creatorBps policy + fl_bps collision,
                yl_locked = False, yl_symbol = Some (fl_symbol collision)\<rparr>
              # map locked_leg (filter (\<lambda>l. fl_mint l \<noteq> trimmed) fixedLegs),
            pr_merged = Some (fl_symbol collision, vp_creatorBps policy + fl_bps collision),
            pr_error = None\<rparr>
       | None \<Rightarrow>
           \<lparr>pr_legs = \<lparr>yl_mint = trimmed, yl_bps = vp_creatorBps policy, yl_locked = False, yl_symbol = None\<rparr>
              # map locked_leg fixedLegs,
            pr_merged = None, pr_error = None\<rparr>))"

subsection \<open>The link of an indexed vault\<close>

record config_leg =
  gl_mint :: string
  gl_bps :: int
  gl_referencePool :: string

record indexed_config =
  ic_launchMint :: string
  ic_vault :: string
  ic_legs :: "config_leg list"

text \<open>The parameters of \<open>/vault?\<dots>\<close>, before percent-encoding.\<close>

record vault_params =
  hp_launch :: string
  hp_legs :: string
  hp_label :: "string option"

definition variant_leg :: "nat \<Rightarrow> nat \<Rightarrow> config_leg \<Rightarrow> text_leg" where
  "variant_leg msk index leg = \<lparr>tl_mint = gl_mint leg, tl_bps = gl_bps leg,
    tl_ref = (if gl_referencePool leg \<noteq> [] \<and> and msk (push_bit index 1) \<noteq> 0
      then Some (gl_referencePool leg) else None)\<rparr>"

definition variant_legs :: "nat \<Rightarrow> config_leg list \<Rightarrow> text_leg list" where
  "variant_legs msk legs = map (\<lambda>(index, leg). variant_leg msk index leg) (zip [0..<length legs] legs)"

definition parse_leg_keys :: "web3 \<Rightarrow> text_leg \<Rightarrow> app_leg res" where
  "parse_leg_keys w leg =
    bindR (newPublicKey w (tl_mint leg)) (\<lambda>mint.
    bindR (if truthy_text (tl_ref leg) then bindR (newPublicKey w (the (tl_ref leg))) (\<lambda>k. Inr (Some k))
           else Inr None) (\<lambda>ref.
      Inr \<lparr>al_mint = mint, al_bps = tl_bps leg, al_ref = ref\<rparr>))"

definition clean_label :: "string option \<Rightarrow> string option" where
  "clean_label label = (case label of None \<Rightarrow> None
     | Some s \<Rightarrow> let c = js_trim (if s \<noteq> [] \<and> hd s = CHR ''$'' then tl s else s)
         in if c = [] then None else Some c)"

fun try_masks ::
  "web3 \<Rightarrow> pubkey \<Rightarrow> indexed_config \<Rightarrow> pubkey \<Rightarrow> string \<Rightarrow> string option \<Rightarrow> nat list \<Rightarrow> vault_params option res" where
  "try_masks w PROGRAM config launch expectedVault label [] = Inr None"
| "try_masks w PROGRAM config launch expectedVault label (msk # masks) =
    (let legs = variant_legs msk (ic_legs config) in
     bindR (traverse (parse_leg_keys w) legs) (\<lambda>keyed.
     bindR (deriveSplitPda w PROGRAM launch keyed) (\<lambda>(candidate, _).
       if toBase58 candidate \<noteq> expectedVault
       then try_masks w PROGRAM config launch expectedVault label masks
       else Inr (Some \<lparr>hp_launch = ic_launchMint config, hp_legs = legsToParam legs,
         hp_label = clean_label label\<rparr>))))"

text \<open>\<open>try { \<dots> } catch { return undefined; }\<close> around the loop.\<close>

definition vaultHref :: "web3 \<Rightarrow> pubkey \<Rightarrow> indexed_config option \<Rightarrow> string option \<Rightarrow> vault_params option" where
  "vaultHref w PROGRAM found label = (case found of
     None \<Rightarrow> None
   | Some config \<Rightarrow>
       if length (ic_legs config) < 1 \<or> length (ic_legs config) > 4 then None
       else (case bindR (newPublicKey w (ic_launchMint config)) (\<lambda>launch.
               bindR (newPublicKey w (ic_vault config)) (\<lambda>vault.
               try_masks w PROGRAM config launch (toBase58 vault) label
                 [0..<2 ^ length (ic_legs config)]))
             of Inl _ \<Rightarrow> None | Inr params \<Rightarrow> params))"

subsection \<open>The lookup table of a vault\<close>

record alt_input =
  xa_mint :: pubkey
  xa_tokenProgram :: pubkey
  xa_pool :: pubkey
  xa_vaultA :: pubkey
  xa_vaultB :: pubkey
  xa_feeSource :: pubkey

definition collectVaultAltAddresses :: "web3 \<Rightarrow> pubkey \<Rightarrow> pubkey \<Rightarrow> alt_input list \<Rightarrow> pubkey list res" where
  "collectVaultAltAddresses w vault launchMint legs =
    bindR (associatedTokenAddress w NATIVE_MINT vault True TOKEN_PROGRAM_ID) (\<lambda>wsolAta.
    bindR (traverse (\<lambda>leg. bindR (associatedTokenAddress w (xa_mint leg) vault True (xa_tokenProgram leg))
        (\<lambda>ata. Inr [xa_mint leg, ata, xa_tokenProgram leg, xa_pool leg, xa_vaultA leg, xa_vaultB leg,
          xa_feeSource leg])) legs) (\<lambda>perLeg.
      Inr (map_values (map (\<lambda>k. (toBase58 k, k))
        ([vault, wsolAta, launchMint, SYSTEM_PROGRAM, TOKEN_PROGRAM_ID] @ concat perLeg)))))"

definition estimateLookupTableRentLamports :: "int \<Rightarrow> int" where
  "estimateLookupTableRentLamports addressCount = 1280640 + 82000 * addressCount"

definition lookupTableCovers :: "(pubkey \<Rightarrow> lookup_table option res) \<Rightarrow> pubkey \<Rightarrow> pubkey list \<Rightarrow> bool res" where
  "lookupTableCovers getTable table required =
    bindR (getTable table) (\<lambda>found. Inr (case found of
      None \<Rightarrow> False
    | Some live \<Rightarrow> lt_deactivationSlot live = ACTIVE_ALT_SLOT \<and>
        list_all (\<lambda>a. toBase58 a \<in> set (map toBase58 (lt_addresses live))) required))"

subsection \<open>One address on both sides\<close>

definition vault_leg_of :: "web3 \<Rightarrow> app_leg \<Rightarrow> vault_leg" where
  "vault_leg_of w leg = \<lparr>vl_targetMint = al_mint leg, vl_bps = al_bps leg, vl_refSeed = ref_seed w (al_ref leg)\<rparr>"

lemma derive_same:
  "deriveVault w PROGRAM launchMint (map (vault_leg_of w) legs)
    = bindR (deriveSplitPda w PROGRAM launchMint legs) (\<lambda>(k, _). Inr k)"
proof -
  have "traverse_from i (\<lambda>_ leg. writeLE 2 (vl_bps leg)) (map (vault_leg_of w) legs)
      = traverse_from i (\<lambda>_ leg. writeLE 2 (al_bps leg)) legs" for i
    by (induction legs arbitrary: i) (simp_all add: vault_leg_of_def)
  then show ?thesis
    by (simp add: deriveVault_def vaultSeeds_def deriveSplitPda_def bindR_assoc BURNER_SEED_def comp_def
        vault_leg_of_def)
qed

text \<open>The JSON leg of a request for a leg of the app.\<close>

definition request_leg :: "text_leg \<Rightarrow> burn_leg_request" where
  "request_leg l = \<lparr>lr_targetMint = tl_mint l, lr_bps = tl_bps l,
    lr_reference = (if truthy_text (tl_ref l) then tl_ref l else None)\<rparr>"

text \<open>An explicit reference is not an account of Pump, whose venues seed zero.\<close>

definition literal_reference :: "account_reader \<Rightarrow> app_leg \<Rightarrow> bool" where
  "literal_reference reader leg \<longleftrightarrow> (\<forall>k acc. al_ref leg = Some k \<longrightarrow> reader k = Inr (Some acc) \<longrightarrow>
    toBase58 (a_owner acc) \<notin> {PUMP_FUN_ADDRESS, PUMP_SWAP_ADDRESS})"

text \<open>A program-derived address of PumpSwap is owned by PumpSwap or by a program outside the venues.\<close>

definition genuine_pump_pools :: "web3 \<Rightarrow> account_reader \<Rightarrow> bool" where
  "genuine_pump_pools w reader \<longleftrightarrow> (\<forall>mint pool acc. canonicalPumpSwapPool w mint = Inr pool \<longrightarrow>
    reader pool = Inr (Some acc) \<longrightarrow>
    toBase58 (a_owner acc) = PUMP_SWAP_ADDRESS \<or> map_of VENUES (toBase58 (a_owner acc)) = None)"

lemma resolved_seed:
  assumes "resolveReference w reader mint (al_ref leg) = Inr rr"
    and "literal_reference reader leg" "genuine_pump_pools w reader"
  shows "rr_seed rr = ref_seed w (al_ref leg)"
proof (cases "al_ref leg")
  case None
  then show ?thesis
    using pump_reference_seed_zero [of w reader mint rr] assms
    by (simp add: genuine_pump_pools_def ref_seed_def ZERO_REF_def)
next
  case (Some k)
  then obtain acc where acc: "reader k = Inr (Some acc)"
      "toBase58 (a_owner acc) \<noteq> PUMP_FUN_ADDRESS" "toBase58 (a_owner acc) \<noteq> PUMP_SWAP_ADDRESS"
    using assms(1,2) by (auto simp: resolveReference_def res_simps literal_reference_def)
  then have "resolvePool w reader mint k = Inr rr"
    using assms(1) Some by (simp add: resolveReference_def require_account_def)
  then show ?thesis
    by (rule resolvePool_Inr) (use acc Some in \<open>auto simp: ref_seed_def\<close>)
qed

lemma resolved_leg:
  assumes "resolveLeg w reader (request_leg l) = Inr rl" "parse_leg_keys w l = Inr k"
    and "literal_reference reader k" "genuine_pump_pools w reader"
  shows "\<lparr>vl_targetMint = rl_targetMint rl, vl_bps = rl_bps rl, vl_refSeed = rr_seed (rl_reference rl)\<rparr>
    = vault_leg_of w k"
proof -
  obtain mint ref where k: "newPublicKey w (tl_mint l) = Inr mint"
      "(if truthy_text (tl_ref l) then bindR (newPublicKey w (the (tl_ref l))) (\<lambda>k. Inr (Some k)) else Inr None) = Inr ref"
      "k = \<lparr>al_mint = mint, al_bps = tl_bps l, al_ref = ref\<rparr>"
    using assms(2) by (auto simp: parse_leg_keys_def bindR_Inr_iff)
  have "(case lr_reference (request_leg l) of None \<Rightarrow> Inr None
      | Some r \<Rightarrow> if r = [] then Inr None else bindR (newPublicKey w r) (\<lambda>k. Inr (Some k))) = Inr ref"
    using k(2) by (auto simp: request_leg_def truthy_text_def split: if_splits option.splits)
  then obtain rr where rr: "resolveReference w reader mint ref = Inr rr"
      "rl = \<lparr>rl_targetMint = mint, rl_bps = tl_bps l, rl_reference = rr\<rparr>"
    using assms(1) k(1) by (auto simp: resolveLeg_def bindR_Inr_iff request_leg_def)
  then have "rr_seed rr = ref_seed w (al_ref k)"
    using resolved_seed [of w reader mint k rr] assms(3,4) k(3) by simp
  then show ?thesis using rr(2) k(3) by (simp add: vault_leg_of_def)
qed

text \<open>
  C20: The app derives the address the service burns from: for a request made of the legs of the
  app, with references that are not accounts of Pump, the vault the service resolves is the one
  \<open>deriveSplitPda\<close> derives from the same launch mint and legs.
\<close>

theorem service_burns_from_app_vault:
  assumes "resolveRequest deps raw = Inr rq"
    and "br_legs (rq_request rq) = map request_leg legs"
    and "traverse (parse_leg_keys (d_web3 deps)) legs = Inr keyed"
    and "list_all (literal_reference (getAccountData (d_chain deps Resolving))) keyed"
    and "genuine_pump_pools (d_web3 deps) (getAccountData (d_chain deps Resolving))"
  shows "\<exists>bump. deriveSplitPda (d_web3 deps) (burnerProgram deps) (rq_launchMint rq) keyed
    = Inr (rq_pda rq, bump)"
proof -
  let ?w = "d_web3 deps" and ?reader = "getAccountData (d_chain deps Resolving)"
  have r: "traverse (resolveLeg ?w ?reader) (map request_leg legs) = Inr (rq_legs rq)"
      "deriveVault ?w (burnerProgram deps) (rq_launchMint rq) (vaultLegs (rq_legs rq)) = Inr (rq_pda rq)"
    using assms(1,2) by (auto simp: resolveRequest_def bindR_Inr_iff Let_def if_Inl_Inr)
  note n = traverse_from_length [OF r(1)] traverse_from_length [OF assms(3)]
  have "vaultLegs (rq_legs rq) ! i = map (vault_leg_of ?w) keyed ! i" if "i < length legs" for i
    using resolved_leg [of ?w ?reader "legs ! i" "rq_legs rq ! i" "keyed ! i"]
      traverse_from_nth [OF r(1), of i] traverse_from_nth [OF assms(3), of i] assms(4,5) n that
    by (simp add: vaultLegs_def list_all_length)
  then have "vaultLegs (rq_legs rq) = map (vault_leg_of ?w) keyed"
    using n by (intro nth_equalityI) (simp_all add: vaultLegs_def)
  then show ?thesis
    using r(2) by (auto simp: derive_same bindR_Inr_iff)
qed

subsection \<open>The URL of the legs\<close>

text \<open>What base58 gives: a text that parses as a key is not empty and has no separator.\<close>

definition key_texts :: "web3 \<Rightarrow> bool" where
  "key_texts w \<longleftrightarrow> (\<forall>s k. parsePubkey w s = Some k \<longrightarrow> s \<noteq> [] \<and> CHR '':'' \<notin> set s \<and> CHR '','' \<notin> set s)"

definition valid_text_leg :: "web3 \<Rightarrow> text_leg \<Rightarrow> bool" where
  "valid_text_leg w l \<longleftrightarrow> parsePubkey w (tl_mint l) \<noteq> None \<and> 0 \<le> tl_bps l \<and>
    (tl_ref l = None \<or> parsePubkey w (the (tl_ref l)) \<noteq> None)"

lemma digits_separators: "list_all is_digit s \<Longrightarrow> CHR '':'' \<notin> set s \<and> CHR '','' \<notin> set s"
  by (auto simp: list_all_iff is_digit_def in_range_def)

lemma bps_text: "0 \<le> n \<Longrightarrow> CHR '':'' \<notin> set (js_of_int n) \<and> CHR '','' \<notin> set (js_of_int n)"
  using digits_separators dec_digits_digits by (simp add: js_of_int_def)

lemma leg_of_param:
  assumes "key_texts w" "valid_text_leg w l"
  shows "leg_of_part w (leg_param l) = Some l \<and> CHR '','' \<notin> set (leg_param l) \<and> leg_param l \<noteq> []"
proof -
  have m: "tl_mint l \<noteq> []" "CHR '':'' \<notin> set (tl_mint l)" "CHR '','' \<notin> set (tl_mint l)"
    using assms by (auto simp: key_texts_def valid_text_leg_def)
  have b: "CHR '':'' \<notin> set (js_of_int (tl_bps l))" "CHR '','' \<notin> set (js_of_int (tl_bps l))"
    "as_integer (js_Number (JStr (js_of_int (tl_bps l)))) = Some (tl_bps l)"
    using assms(2) bps_text number_of_int by (auto simp: valid_text_leg_def)
  show ?thesis
  proof (cases "tl_ref l")
    case None
    then have "leg_param l = js_join [CHR '':''] [tl_mint l, js_of_int (tl_bps l)]"
      by (simp add: leg_param_def truthy_text_def)
    moreover from this have "js_split CHR '':'' (leg_param l) = [tl_mint l, js_of_int (tl_bps l)]"
      using m b by (simp only:) (rule js_split_join, simp_all)
    ultimately show ?thesis
      using m b None assms(2)
      by (simp add: leg_of_part_def Let_def nth_opt_def truthy_text_def valid_text_leg_def)
  next
    case (Some r)
    then have r: "r \<noteq> []" "CHR '':'' \<notin> set r" "CHR '','' \<notin> set r" "parsePubkey w r \<noteq> None"
      using assms by (auto simp: key_texts_def valid_text_leg_def)
    then have "leg_param l = js_join [CHR '':''] [tl_mint l, js_of_int (tl_bps l), r]"
      using Some by (simp add: leg_param_def truthy_text_def)
    moreover from this have "js_split CHR '':'' (leg_param l) = [tl_mint l, js_of_int (tl_bps l), r]"
      using m b r by (simp only:) (rule js_split_join, simp_all)
    ultimately show ?thesis
      using m b r Some assms(2)
      by (simp add: leg_of_part_def Let_def nth_opt_def truthy_text_def valid_text_leg_def)
  qed
qed

lemma legs_of_params:
  "key_texts w \<Longrightarrow> list_all (valid_text_leg w) legs \<Longrightarrow> legs_of_parts w (map leg_param legs) = Some legs"
  by (induction legs) (simp_all add: leg_of_param)

lemma legs_round_trip:
  assumes "key_texts w" "list_all (valid_text_leg w) legs" "legs \<noteq> []"
  shows "legsFromParam w (legsToParam legs) = Some legs"
proof -
  have parts: "list_all (\<lambda>part. CHR '','' \<notin> set part \<and> part \<noteq> []) (map leg_param legs)"
    using assms(2) leg_of_param [OF assms(1)] by (simp add: list_all_iff)
  then have "js_split CHR '','' (legsToParam legs) = map leg_param legs"
    unfolding legsToParam_def using assms(3) by (intro js_split_join) (simp_all add: list_all_iff)
  moreover have "legsToParam legs \<noteq> []"
    using parts assms(3) by (cases legs rule: list.exhaust; cases "tl legs") (auto simp: legsToParam_def neq_Nil_conv)
  ultimately show ?thesis
    using legs_of_params [OF assms(1,2)] assms(3) by (simp add: legsFromParam_def)
qed

subsection \<open>The link\<close>

lemma try_masks_Some:
  "try_masks w P config launch expected label msks = Inr (Some p) \<Longrightarrow>
    \<exists>msk keyed k bump. msk \<in> set msks \<and>
      traverse (parse_leg_keys w) (variant_legs msk (ic_legs config)) = Inr keyed \<and>
      deriveSplitPda w P launch keyed = Inr (k, bump) \<and> toBase58 k = expected \<and>
      hp_launch p = ic_launchMint config \<and> hp_legs p = legsToParam (variant_legs msk (ic_legs config))"
proof (induction msks)
  case (Cons msk msks)
  obtain keyed k bump where d: "traverse (parse_leg_keys w) (variant_legs msk (ic_legs config)) = Inr keyed"
      "deriveSplitPda w P launch keyed = Inr (k, bump)"
    using Cons.prems by (auto simp: bindR_Inr_iff Let_def)
  show ?case
  proof (cases "toBase58 k = expected")
    case True
    then show ?thesis using Cons.prems d by (intro exI [of _ msk] exI [of _ keyed] exI [of _ k]) auto
  next
    case False
    then show ?thesis using Cons d by auto
  qed
qed simp

lemma vaultHref_Some:
  assumes "vaultHref w P (Some config) label = Some p"
  obtains launch vault msk keyed bump where "newPublicKey w (ic_launchMint config) = Inr launch"
    "newPublicKey w (ic_vault config) = Inr vault" "ic_legs config \<noteq> []"
    "traverse (parse_leg_keys w) (variant_legs msk (ic_legs config)) = Inr keyed"
    "deriveSplitPda w P launch keyed = Inr (vault, bump)"
    "hp_launch p = ic_launchMint config" "hp_legs p = legsToParam (variant_legs msk (ic_legs config))"
proof -
  obtain launch vault where v: "newPublicKey w (ic_launchMint config) = Inr launch"
      "newPublicKey w (ic_vault config) = Inr vault" "ic_legs config \<noteq> []"
      "try_masks w P config launch (toBase58 vault) label [0..<2 ^ length (ic_legs config)] = Inr (Some p)"
    using assms by (auto simp: vaultHref_def bindR_def split: if_splits sum.splits)
  then obtain msk keyed k bump where m:
      "traverse (parse_leg_keys w) (variant_legs msk (ic_legs config)) = Inr keyed"
      "deriveSplitPda w P launch keyed = Inr (k, bump)" "toBase58 k = toBase58 vault"
      "hp_launch p = ic_launchMint config" "hp_legs p = legsToParam (variant_legs msk (ic_legs config))"
    using try_masks_Some by blast
  moreover have "k = vault" using m(3) by (rule pubkey.expand)
  ultimately show ?thesis using that v(1-3) by blast
qed

lemma length_variant_legs [simp]: "length (variant_legs msk legs) = length legs"
  by (simp add: variant_legs_def)

lemma nth_variant_legs [simp]: "i < length legs \<Longrightarrow> variant_legs msk legs ! i = variant_leg msk i (legs ! i)"
  by (simp add: variant_legs_def)

lemma deriveSplitPda_weights:
  "deriveSplitPda w P launch keyed = Inr r \<Longrightarrow> i < length keyed \<Longrightarrow> 0 \<le> al_bps (keyed ! i)"
  by (auto simp: deriveSplitPda_def bindR_Inr_iff dest!: traverse_from_nth simp: res_simps)

lemma parse_leg_keys_bps: "parse_leg_keys w l = Inr k \<Longrightarrow> al_bps k = tl_bps l"
  by (auto simp: parse_leg_keys_def bindR_Inr_iff)

lemma parsed_variant_valid:
  assumes "traverse (parse_leg_keys w) (variant_legs msk legs) = Inr keyed"
    and "deriveSplitPda w P launch keyed = Inr r"
  shows "list_all (valid_text_leg w) (variant_legs msk legs)"
  unfolding list_all_length
proof (intro allI impI)
  fix i assume i: "i < length (variant_legs msk legs)"
  have k: "parse_leg_keys w (variant_leg msk i (legs ! i)) = Inr (keyed ! i)"
    using traverse_from_nth [OF assms(1) i] i by simp
  have "0 \<le> tl_bps (variant_leg msk i (legs ! i))"
    using deriveSplitPda_weights [OF assms(2), of i] traverse_from_length [OF assms(1)] i
      parse_leg_keys_bps [OF k] by simp
  then show "valid_text_leg w (variant_legs msk legs ! i)"
    using k i
    by (auto simp: parse_leg_keys_def bindR_Inr_iff valid_text_leg_def newPublicKey_def
        variant_leg_def truthy_text_def split: option.splits if_splits)
qed

text \<open>
  A link leads back to the vault it was made for: parsing the launch mint and the legs of the
  link gives the indexed mints and weights, and deriving the vault from what was parsed gives the
  indexed address.
\<close>

theorem link_leads_back:
  assumes "vaultHref w P (Some config) label = Some p" "key_texts w"
  shows "\<exists>legs keyed launch vault bump. legsFromParam w (hp_legs p) = Some legs \<and>
    map tl_mint legs = map gl_mint (ic_legs config) \<and> map tl_bps legs = map gl_bps (ic_legs config) \<and>
    parsePubkey w (hp_launch p) = Some launch \<and> parsePubkey w (ic_vault config) = Some vault \<and>
    traverse (parse_leg_keys w) legs = Inr keyed \<and> deriveSplitPda w P launch keyed = Inr (vault, bump)"
proof -
  obtain launch vault msk keyed bump where h: "newPublicKey w (ic_launchMint config) = Inr launch"
    "newPublicKey w (ic_vault config) = Inr vault" "ic_legs config \<noteq> []"
    "traverse (parse_leg_keys w) (variant_legs msk (ic_legs config)) = Inr keyed"
    "deriveSplitPda w P launch keyed = Inr (vault, bump)"
    "hp_launch p = ic_launchMint config" "hp_legs p = legsToParam (variant_legs msk (ic_legs config))"
    by (rule vaultHref_Some [OF assms(1)])
  have "variant_legs msk (ic_legs config) \<noteq> []"
    using h(3) length_variant_legs [of msk "ic_legs config"] by (metis length_0_conv)
  then have "legsFromParam w (hp_legs p) = Some (variant_legs msk (ic_legs config))"
    using legs_round_trip [OF assms(2) parsed_variant_valid [OF h(4,5)]] h(7) by simp
  moreover have "map tl_mint (variant_legs msk (ic_legs config)) = map gl_mint (ic_legs config)"
      "map tl_bps (variant_legs msk (ic_legs config)) = map gl_bps (ic_legs config)"
    by (auto intro: nth_equalityI simp: variant_leg_def)
  moreover have "parsePubkey w (hp_launch p) = Some launch" "parsePubkey w (ic_vault config) = Some vault"
    using h(1,2,6) by (auto simp: newPublicKey_def split: option.splits)
  ultimately show ?thesis using h(4,5) by blast
qed

text \<open>The legs of a vault when the chosen ones bind their reference pool.\<close>

definition chosen_legs :: "bool list \<Rightarrow> config_leg list \<Rightarrow> text_leg list" where
  "chosen_legs chosen legs = map (\<lambda>(c, leg). \<lparr>tl_mint = gl_mint leg, tl_bps = gl_bps leg,
    tl_ref = (if c \<and> gl_referencePool leg \<noteq> [] then Some (gl_referencePool leg) else None)\<rparr>)
    (zip chosen legs)"

lemma chosen_variant:
  assumes "length chosen = length legs"
  shows "variant_legs (horner_sum of_bool 2 chosen) legs = chosen_legs chosen legs"
proof (rule nth_equalityI)
  fix i assume i: "i < length (variant_legs (horner_sum of_bool 2 chosen) legs)"
  have "and (horner_sum of_bool 2 chosen) (push_bit i 1) \<noteq> (0 :: nat) \<longleftrightarrow> chosen ! i"
    using i assms by (simp add: push_bit_eq_mult and_exp_eq_0_iff_not_bit bit_horner_sum_bit_iff)
  then show "variant_legs (horner_sum of_bool 2 chosen) legs ! i = chosen_legs chosen legs ! i"
    using i assms by (simp add: variant_leg_def chosen_legs_def)
qed (simp add: assms chosen_legs_def)

text \<open>Every variant of a configuration parses and has a derived address.\<close>

definition all_derive :: "web3 \<Rightarrow> pubkey \<Rightarrow> pubkey \<Rightarrow> config_leg list \<Rightarrow> bool" where
  "all_derive w P launch legs \<longleftrightarrow> (\<forall>msk < 2 ^ length legs. \<exists>keyed r.
    traverse (parse_leg_keys w) (variant_legs msk legs) = Inr keyed \<and> deriveSplitPda w P launch keyed = Inr r)"

lemma try_masks_found:
  assumes "msk \<in> set msks" "traverse (parse_leg_keys w) (variant_legs msk (ic_legs config)) = Inr keyed"
    and "deriveSplitPda w P launch keyed = Inr (k, bump)" "toBase58 k = expected"
    and "\<And>m. m \<in> set msks \<Longrightarrow> \<exists>keyed r. traverse (parse_leg_keys w) (variant_legs m (ic_legs config)) = Inr keyed \<and>
      deriveSplitPda w P launch keyed = Inr r"
  shows "\<exists>p. try_masks w P config launch expected label msks = Inr (Some p)"
  using assms
proof (induction msks)
  case (Cons m msks)
  obtain keyed' k' b' where d: "traverse (parse_leg_keys w) (variant_legs m (ic_legs config)) = Inr keyed'"
      "deriveSplitPda w P launch keyed' = Inr (k', b')"
    using Cons.prems(5) [of m] by (metis list.set_intros(1) surj_pair)
  show ?case
  proof (cases "toBase58 k' = expected")
    case False
    then have "msk \<in> set msks" using Cons.prems d by auto
    then show ?thesis using Cons.IH Cons.prems False d by simp
  qed (use d in simp)
qed simp


subsection \<open>The configuration of the policy\<close>

definition policy_ok :: "vault_policy \<Rightarrow> bool" where
  "policy_ok policy \<longleftrightarrow> 0 < vp_creatorBps policy \<and> length (vp_fixedLegs policy) < MAX_SPLIT_TARGETS \<and>
    list_all (\<lambda>l. 0 < fl_bps l) (vp_fixedLegs policy) \<and> distinct (map fl_mint (vp_fixedLegs policy)) \<and>
    vp_creatorBps policy + sum_list (map fl_bps (vp_fixedLegs policy)) = BPS_TOTAL"

definition shape_of :: "policy_leg \<Rightarrow> shape_leg" where
  "shape_of l = \<lparr>sl_mint = yl_mint l, sl_bps = Some (of_int (yl_bps l))\<rparr>"

lemma length_dedup_iff: "length (dedup xs) = length xs \<longleftrightarrow> distinct xs"
  using length_remdups_eq [of "rev xs"] by (simp add: dedup_def)

lemma shape_passes:
  assumes "1 \<le> length legs" "length legs \<le> MAX_SPLIT_TARGETS" "list_all (\<lambda>l. 0 < yl_bps l) legs"
    and "sum_list (map yl_bps legs) = BPS_TOTAL" "distinct (map yl_mint legs)"
  shows "list_all (\<lambda>c. cr_status c = Pass) (checkLegShape (map shape_of legs))"
proof -
  have "sum_list (map (\<lambda>leg. case sl_bps leg of None \<Rightarrow> 0 | Some q \<Rightarrow> q) (map shape_of legs))
      = of_int (sum_list (map yl_bps legs))"
    by (induction legs) (simp_all add: shape_of_def)
  moreover have "map (sl_mint \<circ> shape_of) legs = map yl_mint legs"
    by (simp add: shape_of_def comp_def)
  moreover have "list_all (\<lambda>leg. case as_integer (sl_bps leg) of None \<Rightarrow> False | Some n \<Rightarrow> 0 < n) (map shape_of legs)"
    using assms(3) by (simp add: list_all_iff shape_of_def as_integer_def)
  ultimately show ?thesis
    using assms length_dedup_iff [of "map yl_mint legs"]
    by (simp add: checkLegShape_def Let_def verdict_def del: map_eq_conv)
qed

lemma sum_without:
  fixes bps :: "'a \<Rightarrow> int"
  assumes "distinct (map f xs)" "x \<in> set xs"
  shows "sum_list (map bps xs) = bps x + sum_list (map bps (filter (\<lambda>y. f y \<noteq> f x) xs))"
  using assms
proof (induction xs)
  case (Cons y ys)
  show ?case
  proof (cases "x = y")
    case True
    then have "filter (\<lambda>z. f z \<noteq> f x) ys = ys"
      using Cons.prems(1) by (intro filter_True) (metis distinct.simps(2) image_eqI list.set_map list.simps(9))
    then show ?thesis using True by simp
  next
    case False
    then have "x \<in> set ys" "f y \<noteq> f x" using Cons.prems by auto
    then show ?thesis using Cons by simp
  qed
qed simp

lemma locked_leg_simps [simp]:
  "yl_mint (locked_leg l) = fl_mint l" "yl_bps (locked_leg l) = fl_bps l"
  by (simp_all add: locked_leg_def)

text \<open>
  Whatever token the creator picks, the policy yields a configuration that passes every shape
  check: at most four legs, positive weights of 10,000 in total, no mint twice, even when the pick
  is one of the fixed legs; and the first leg is the pick, with at least the creator's share.
\<close>

theorem policy_config_valid:
  assumes "policy_ok policy" "pr_error (buildPolicyLegs w creatorMint policy) = None"
  shows "list_all (\<lambda>c. cr_status c = Pass) (checkLegShape (map shape_of (pr_legs (buildPolicyLegs w creatorMint policy)))) \<and>
    (\<exists>l rest. pr_legs (buildPolicyLegs w creatorMint policy) = l # rest \<and>
      yl_mint l = js_trim creatorMint \<and> vp_creatorBps policy \<le> yl_bps l)"
proof -
  let ?pick = "js_trim creatorMint" and ?fixed = "vp_fixedLegs policy"
  note ok = assms(1) [unfolded policy_ok_def]
  have valid: "\<not> ?pick = []" "\<not> parsePubkey w ?pick = None"
    using assms(2) by (auto simp: buildPolicyLegs_def Let_def split: if_splits)
  show ?thesis
  proof (cases "find (\<lambda>l. fl_mint l = ?pick) ?fixed")
    case None
    then have new: "?pick \<notin> set (map fl_mint ?fixed)" by (auto simp: find_None_iff)
    have legs: "pr_legs (buildPolicyLegs w creatorMint policy)
        = \<lparr>yl_mint = ?pick, yl_bps = vp_creatorBps policy, yl_locked = False, yl_symbol = None\<rparr> # map locked_leg ?fixed"
      unfolding buildPolicyLegs_def Let_def if_not_P [OF valid(1)] if_not_P [OF valid(2)] None by simp
    show ?thesis
      using ok new unfolding legs by (intro conjI shape_passes) (simp_all add: comp_def list_all_iff)
  next
    case (Some c)
    then have c: "c \<in> set ?fixed" "fl_mint c = ?pick" by (auto simp: find_Some_iff)
    let ?others = "filter (\<lambda>l. fl_mint l \<noteq> ?pick) ?fixed"
    have legs: "pr_legs (buildPolicyLegs w creatorMint policy)
        = \<lparr>yl_mint = ?pick, yl_bps = vp_creatorBps policy + fl_bps c, yl_locked = False,
            yl_symbol = Some (fl_symbol c)\<rparr> # map locked_leg ?others"
      unfolding buildPolicyLegs_def Let_def if_not_P [OF valid(1)] if_not_P [OF valid(2)] Some
      using c(2) by simp
    have "0 < fl_bps c" using ok c(1) by (auto simp: list_all_iff)
    moreover have "length ?others \<le> length ?fixed" by simp
    then have "length ?others < MAX_SPLIT_TARGETS" using ok by linarith
    moreover have "distinct (map fl_mint ?others)" using ok by (simp add: distinct_map_filter)
    moreover have "vp_creatorBps policy + fl_bps c + sum_list (map fl_bps ?others) = BPS_TOTAL"
      using ok sum_without [of fl_mint ?fixed c fl_bps] c by simp
    ultimately show ?thesis
      using ok unfolding legs by (intro conjI shape_passes) (auto simp: comp_def list_all_iff)
  qed
qed

subsection \<open>The lookup table and the service\<close>

definition input_of_leg :: "admitted_leg \<Rightarrow> alt_input \<Rightarrow> bool" where
  "input_of_leg ad x \<longleftrightarrow> xa_mint x = ad_targetMint ad \<and> xa_tokenProgram x = ad_tokenProgram ad \<and>
    xa_pool x = rr_pool (ad_reference ad)"

lemma set_map_values_keyed: "set (map_values (map (\<lambda>k. (toBase58 k, k)) ks)) = set ks"
proof -
  let ?kvs = "map (\<lambda>k. (toBase58 k, k)) ks"
  have "map toBase58 (map_values ?kvs) = dedup (map toBase58 ks)"
    using map_values_keys [of ?kvs toBase58] by (fastforce simp: comp_def)
  then have "toBase58 ` set (map_values ?kvs) = toBase58 ` set ks"
    by (metis set_dedup set_map)
  then show ?thesis
    using inj_image_eq_iff [of toBase58] by (simp add: inj_def pubkey.expand)
qed

text \<open>
  A table the app creates is enough for the service: when a requested lookup table covers
  what the app collects for the legs of the vault, the service's own requirement on the tables of
  that burn holds.
\<close>

theorem collected_table_covers:
  assumes "admitBurn deps rq feePayer = Inr cx"
    and "collectVaultAltAddresses (d_web3 deps) (rq_pda rq) launchMint inputs = Inr addresses"
    and "list_all2 input_of_leg (cx_admitted cx) inputs"
    and "lookupTableCovers getTable key addresses = Inr True" "getTable key = Inr (Some table)"
    and "table \<in> set (cx_requestedTables cx)"
  shows "vaultAltCovers (rq_pda rq) (cx_wsolAta cx) (cx_admitted cx) (cx_requestedTables cx)"
proof -
  let ?w = "d_web3 deps"
  obtain wsol admitted where a: "admitVault deps rq = Inr wsol"
      "traverse_idx (admitLeg deps (rq_pda rq) (splitAmounts (rq_amount rq) (map rl_bps (rq_legs rq)))) (rq_legs rq)
        = Inr (cx_admitted cx)" "cx_wsolAta cx = wsol"
    using assms(1) by (auto simp: admitBurn_def bindR_Inr_iff)
  have wsol: "associatedTokenAddress ?w NATIVE_MINT (rq_pda rq) True TOKEN_PROGRAM_ID = Inr (cx_wsolAta cx)"
    using a(1,3) by (auto simp: admitVault_def res_simps Let_def split: option.splits if_splits)
  have ata: "associatedTokenAddress ?w (ad_targetMint ad) (rq_pda rq) True (ad_tokenProgram ad) = Inr (ad_ata ad)"
    if "ad \<in> set (cx_admitted cx)" for ad
    using traverse_from_set [OF a(2) that] by (auto simp: admitLeg_def res_simps Let_def)
  obtain perLeg where p: "traverse (\<lambda>leg. bindR (associatedTokenAddress ?w (xa_mint leg) (rq_pda rq) True (xa_tokenProgram leg))
        (\<lambda>ata. Inr [xa_mint leg, ata, xa_tokenProgram leg, xa_pool leg, xa_vaultA leg, xa_vaultB leg,
          xa_feeSource leg])) inputs = Inr perLeg"
      "set addresses = {rq_pda rq, cx_wsolAta cx, launchMint, SYSTEM_PROGRAM, TOKEN_PROGRAM_ID} \<union> set (concat perLeg)"
    using assms(2) wsol unfolding collectVaultAltAddresses_def bindR_Inr_iff sum.inject
    by (elim exE conjE) (auto simp only: set_map_values_keyed set_append list.set)
  have "ad_ata ad \<in> set addresses \<and> rr_pool (ad_reference ad) \<in> set addresses" if ad: "ad \<in> set (cx_admitted cx)" for ad
  proof -
    obtain i where i: "i < length inputs" "cx_admitted cx ! i = ad" "input_of_leg ad (inputs ! i)"
      using assms(3) ad by (auto simp: list_all2_conv_all_nth in_set_conv_nth)
    then have "ad_ata ad \<in> set (perLeg ! i) \<and> rr_pool (ad_reference ad) \<in> set (perLeg ! i)"
      using traverse_from_nth [OF p(1) i(1)] ata [OF ad]
      by (auto simp: input_of_leg_def bindR_Inr_iff dest!: sym [of _ "perLeg ! i"])
    moreover have "perLeg ! i \<in> set perLeg"
      using traverse_from_length [OF p(1)] i(1) by simp
    ultimately show ?thesis using p(2) by auto
  qed
  moreover have "set addresses \<subseteq> set (lt_addresses table)"
  proof
    fix k assume "k \<in> set addresses"
    then obtain k' where "k' \<in> set (lt_addresses table)" "toBase58 k = toBase58 k'"
      using assms(4,5) by (auto simp: lookupTableCovers_def list_all_iff)
    then show "k \<in> set (lt_addresses table)" using pubkey.expand by blast
  qed
  moreover have "set (lt_addresses table) \<subseteq> set (concat (map lt_addresses (cx_requestedTables cx)))"
    using assms(6) by auto
  moreover have "rq_pda rq \<in> set addresses" "cx_wsolAta cx \<in> set addresses"
    using p(2) by simp_all
  ultimately have "set ([rq_pda rq, cx_wsolAta cx]
      @ concat (map (\<lambda>leg. [ad_ata leg, rr_pool (ad_reference leg)]) (cx_admitted cx)))
      \<subseteq> set (concat (map lt_addresses (cx_requestedTables cx)))"
    by (simp add: subset_iff) blast
  then show ?thesis
    unfolding vaultAltCovers_def Let_def list_all_iff by blast
qed

subsection \<open>Examples\<close>

definition plain_web3 :: web3 where
  "plain_web3 = example_web3\<lparr>parsePubkey := (\<lambda>s. if s \<noteq> [] \<and> CHR '':'' \<notin> set s \<and> CHR '','' \<notin> set s
    then Some (PublicKey s) else None)\<rparr>"

lemma plain_web3_texts: "key_texts plain_web3"
  by (auto simp: key_texts_def plain_web3_def split: if_splits)

definition example_config :: indexed_config where
  "example_config = \<lparr>ic_launchMint = ''L'',
    ic_vault = ''pda-sssssss'',
    ic_legs = [\<lparr>gl_mint = ''T'', gl_bps = 6000, gl_referencePool = ''R''\<rparr>,
      \<lparr>gl_mint = ''U'', gl_bps = 4000, gl_referencePool = []\<rparr>]\<rparr>"

lemma variant_leg_code [code]:
  "variant_leg msk index leg = \<lparr>tl_mint = gl_mint leg, tl_bps = gl_bps leg,
    tl_ref = (if gl_referencePool leg \<noteq> [] \<and> odd (msk div 2 ^ index)
      then Some (gl_referencePool leg) else None)\<rparr>"
  by (simp add: variant_leg_def push_bit_eq_mult and_exp_eq_0_iff_not_bit bit_iff_odd)

text \<open>An address that tells whether the first leg binds its reference.\<close>

definition link_web3 :: web3 where
  "link_web3 = plain_web3\<lparr>findProgramAddress := (\<lambda>seeds program.
     Inr (PublicKey (if last (butlast seeds) = ZERO_REF then ''zero'' else ''pda-sssssss''), 254))\<rparr>"

lemma link_web3_texts: "key_texts link_web3"
  using plain_web3_texts by (simp add: key_texts_def link_web3_def)

lemma example_link:
  "vaultHref link_web3 DEFAULT_BURNER_PROGRAM (Some example_config) (Some ''$DOG '')
    = Some \<lparr>hp_launch = ''L'', hp_legs = ''T:6000:R,U:4000'', hp_label = Some ''DOG''\<rparr>"
  by code_simp

lemma link_leads_back_witness:
  "\<exists>legs keyed launch vault bump. legsFromParam link_web3 ''T:6000:R,U:4000'' = Some legs \<and>
    map tl_mint legs = [''T'', ''U''] \<and> traverse (parse_leg_keys link_web3) legs = Inr keyed \<and>
    parsePubkey link_web3 ''L'' = Some launch \<and> parsePubkey link_web3 ''pda-sssssss'' = Some vault \<and>
    deriveSplitPda link_web3 DEFAULT_BURNER_PROGRAM launch keyed = Inr (vault, bump)"
proof -
  obtain legs keyed launch vault bump where "legsFromParam link_web3 ''T:6000:R,U:4000'' = Some legs"
      "map tl_mint legs = map gl_mint (ic_legs example_config)" "traverse (parse_leg_keys link_web3) legs = Inr keyed"
      "parsePubkey link_web3 ''L'' = Some launch" "parsePubkey link_web3 (ic_vault example_config) = Some vault"
      "deriveSplitPda link_web3 DEFAULT_BURNER_PROGRAM launch keyed = Inr (vault, bump)"
    using link_leads_back [OF example_link link_web3_texts] unfolding vault_params.simps by (elim exE conjE)
  moreover have "map gl_mint (ic_legs example_config) = [''T'', ''U'']" "ic_vault example_config = ''pda-sssssss''"
    by (simp_all add: example_config_def)
  ultimately show ?thesis by metis
qed


lemma policy_config_valid_witness:
  "list_all (\<lambda>c. cr_status c = Pass) (checkLegShape (map shape_of (pr_legs (buildPolicyLegs plain_web3 '' T '' DEFAULT_POLICY)))) \<and>
   list_all (\<lambda>c. cr_status c = Pass) (checkLegShape (map shape_of (pr_legs (buildPolicyLegs plain_web3
     (fl_mint NEIRO_LEG) DEFAULT_POLICY))))"
proof -
  have "policy_ok DEFAULT_POLICY"
    by code_simp
  moreover have "pr_error (buildPolicyLegs plain_web3 '' T '' DEFAULT_POLICY) = None"
    "pr_error (buildPolicyLegs plain_web3 (fl_mint NEIRO_LEG) DEFAULT_POLICY) = None"
    by code_simp+
  ultimately show ?thesis
    using policy_config_valid [of DEFAULT_POLICY plain_web3] by blast
qed

lemma service_burns_from_app_vault_witness:
  "\<exists>bump rq keyed. resolveRequest example_deps example_request = Inr rq \<and>
    traverse (parse_leg_keys (d_web3 example_deps)) [\<lparr>tl_mint = toBase58 (example_key 84), tl_bps = 10000, tl_ref = None\<rparr>]
      = Inr keyed \<and>
    deriveSplitPda (d_web3 example_deps) (burnerProgram example_deps) (rq_launchMint rq) keyed = Inr (rq_pda rq, bump)"
proof -
  let ?l = "\<lparr>tl_mint = toBase58 (example_key 84), tl_bps = 10000, tl_ref = None\<rparr> :: text_leg"
  obtain rq where rq: "resolveRequest example_deps example_request = Inr rq"
    using example_resolves by (auto split: sum.splits)
  have "case parseBurnRequest (d_web3 example_deps) example_request of
      Inr r \<Rightarrow> br_legs r = [request_leg ?l] | Inl e \<Rightarrow> False"
    by code_simp
  moreover have "parseBurnRequest (d_web3 example_deps) example_request = Inr (rq_request rq)"
    by (rule resolveRequest_Inr(1) [OF rq])
  ultimately have legs: "br_legs (rq_request rq) = map request_leg [?l]" by simp
  obtain keyed where keyed: "traverse (parse_leg_keys (d_web3 example_deps)) [?l] = Inr keyed"
      "list_all (\<lambda>leg. al_ref leg = None) keyed"
    by (simp add: parse_leg_keys_def example_deps_def newPublicKey_def truthy_text_def)
  have "genuine_pump_pools (d_web3 example_deps) (getAccountData (d_chain example_deps Resolving))"
    by (auto simp: genuine_pump_pools_def example_deps_def example_chain_def pump_reader_def
        canonicalPumpSwapPool_def bondingCurve_def)
  then show ?thesis
    using service_burns_from_app_vault [OF rq legs keyed(1)] keyed rq
    by (auto simp: list_all_iff literal_reference_def)
qed

text \<open>The example burn with a table of what the app collects for its one leg.\<close>

definition example_input :: alt_input where
  "example_input = \<lparr>xa_mint = example_key 84, xa_tokenProgram = TOKEN_PROGRAM_ID,
    xa_pool = (case bondingCurve example_web3 (example_key 84) of Inr k \<Rightarrow> k | Inl _ \<Rightarrow> SYSTEM_PROGRAM),
    xa_vaultA = example_key 65, xa_vaultB = example_key 66, xa_feeSource = example_key 68\<rparr>"

definition example_collected :: "pubkey list" where
  "example_collected = (case collectVaultAltAddresses example_web3 example_pda (example_key 76) [example_input] of
    Inr ks \<Rightarrow> ks | Inl _ \<Rightarrow> [])"

definition example_table :: lookup_table where
  "example_table = \<lparr>lt_key = example_key 90, lt_deactivationSlot = ACTIVE_ALT_SLOT, lt_addresses = example_collected\<rparr>"

definition table_deps :: "example_tx dependencies" where
  "table_deps = example_deps\<lparr>d_chain := (\<lambda>st. (example_chain st)\<lparr>getAddressLookupTable := (\<lambda>k. Inr (Some example_table))\<rparr>)\<rparr>"

definition table_request :: jsval where
  "table_request = (case example_request of JObj kvs \<Rightarrow>
    JObj (kvs @ [(''lookupTableAddresses'', JArr [JStr (toBase58 (example_key 90))])]) | v \<Rightarrow> v)"

lemma table_admitted:
  "case resolveRequest table_deps table_request of Inl e \<Rightarrow> False
   | Inr rq \<Rightarrow> rq_pda rq = example_pda \<and> (case admitBurn table_deps rq (example_key 67) of Inl e \<Rightarrow> False
     | Inr cx \<Rightarrow> list_all2 input_of_leg (cx_admitted cx) [example_input] \<and> example_table \<in> set (cx_requestedTables cx))"
  by code_simp

lemma collected_table_covers_witness:
  "\<exists>rq cx. resolveRequest table_deps table_request = Inr rq \<and> admitBurn table_deps rq (example_key 67) = Inr cx \<and>
    vaultAltCovers (rq_pda rq) (cx_wsolAta cx) (cx_admitted cx) (cx_requestedTables cx)"
proof -
  obtain rq cx where e: "resolveRequest table_deps table_request = Inr rq"
      "admitBurn table_deps rq (example_key 67) = Inr cx" "rq_pda rq = example_pda"
      "list_all2 input_of_leg (cx_admitted cx) [example_input]" "example_table \<in> set (cx_requestedTables cx)"
    using table_admitted by (auto split: sum.splits)
  have "collectVaultAltAddresses (d_web3 table_deps) example_pda (example_key 76) [example_input]
      = Inr example_collected"
    by code_simp
  then have "vaultAltCovers (rq_pda rq) (cx_wsolAta cx) (cx_admitted cx) (cx_requestedTables cx)"
    using e(3) by (intro collected_table_covers [OF e(2) _ e(4) _ _ e(5),
        where getTable = "\<lambda>k. Inr (Some example_table)" and launchMint = "example_key 76"])
      (auto simp: lookupTableCovers_def example_table_def list_all_iff)
  then show ?thesis using e by blast
qed

end
