(* ===== verification/Markets.thy ===== *)
theory Markets
  imports Reference JsText
begin

text \<open>
  Market enumeration of \<open>quote-service/markets.ts\<close>: the venues whose pools can price a
  reference, the evidence that liquidity cannot be withdrawn, and the scan that turns the pools of
  a mint into candidates. Ranking and selection are in the theory \<open>MarketSelect\<close>. The filtered
  \<open>getProgramAccounts\<close> is a parameter; bounded concurrency keeps the order of its inputs, so the
  maps are sequential and fail with the first failing element. Texts for the reader (reasons) are
  left out; the text of a rejection counts, since the ranking tests whether there is one.
\<close>

subsection \<open>Venues\<close>

datatype venue_durability = CpLp | Positions

datatype lp_issued = LpIssuedAt nat | CpLpSupply

record enum_venue =
  ev_name :: string
  ev_program :: string
  ev_dataSize :: nat
  ev_mint0 :: nat
  ev_mint1 :: nat
  ev_vault0 :: nat
  ev_vault1 :: nat
  ev_durability :: venue_durability
  ev_lpMint :: "nat option"
  ev_lpIssued :: "lp_issued option"
  ev_supportedReference :: bool

definition ENUM_VENUES :: "enum_venue list" where
  "ENUM_VENUES = [
    \<lparr>ev_name = ''Raydium v4'', ev_program = ''675kPX9MHTjS2zt1qfr1NYHuzeLXfQM9H24wFSUt1Mp8'',
     ev_dataSize = 752, ev_mint0 = 400, ev_mint1 = 432, ev_vault0 = 336, ev_vault1 = 368,
     ev_durability = CpLp, ev_lpMint = Some 464, ev_lpIssued = Some (LpIssuedAt 720),
     ev_supportedReference = True\<rparr>,
    \<lparr>ev_name = ''Raydium CP'', ev_program = ''CPMMoo8L3F4NbTegBCKVNunggL7H1ZpdTHKxQB5qKP1C'',
     ev_dataSize = 637, ev_mint0 = 168, ev_mint1 = 200, ev_vault0 = 72, ev_vault1 = 104,
     ev_durability = CpLp, ev_lpMint = Some 136, ev_lpIssued = Some CpLpSupply,
     ev_supportedReference = True\<rparr>,
    \<lparr>ev_name = ''Raydium CLMM'', ev_program = ''CAMMCzo5YL8w4VFF8KVHrK22GGUsp5VTaW7grrKgrWqK'',
     ev_dataSize = 1544, ev_mint0 = 73, ev_mint1 = 105, ev_vault0 = 137, ev_vault1 = 169,
     ev_durability = Positions, ev_lpMint = None, ev_lpIssued = None, ev_supportedReference = True\<rparr>,
    \<lparr>ev_name = ''Meteora DLMM'', ev_program = ''LBUZKhRxPF3XUpBCjp4YzTKgLccjZhTSDM9YuVaPwxo'',
     ev_dataSize = 904, ev_mint0 = 88, ev_mint1 = 120, ev_vault0 = 152, ev_vault1 = 184,
     ev_durability = Positions, ev_lpMint = None, ev_lpIssued = None, ev_supportedReference = True\<rparr>]"

definition METEORA_DAMM_V2_DIAGNOSTIC :: enum_venue where
  "METEORA_DAMM_V2_DIAGNOSTIC =
    \<lparr>ev_name = ''Meteora DAMM v2'', ev_program = ''cpamdpZCGKUy5JxQXB4dcpGPiikHawvSWAd6mEn1sGG'',
     ev_dataSize = 1112, ev_mint0 = 168, ev_mint1 = 200, ev_vault0 = 232, ev_vault1 = 264,
     ev_durability = Positions, ev_lpMint = None, ev_lpIssued = None, ev_supportedReference = False\<rparr>"

definition METEORA_DAMM_V2_POOL_DISCRIMINATOR :: "byte list" where
  "METEORA_DAMM_V2_POOL_DISCRIMINATOR = [241, 154, 109, 4, 17, 177, 109, 188]"

definition RAYDIUM_BURN_AND_EARN_PROGRAM :: pubkey where
  "RAYDIUM_BURN_AND_EARN_PROGRAM = PublicKey ''LockrWmn6K5twhz3y9w1dQERbmgSaRkfnTeTKbpofwE''"

definition raydiumLockAuthority :: "web3 \<Rightarrow> pubkey res" where
  "raydiumLockAuthority w =
    bindR (findProgramAddress w [map of_char ''lock_cp_authority_seed''] RAYDIUM_BURN_AND_EARN_PROGRAM)
      (\<lambda>(k, _). Inr k)"

definition SOLANA_INCINERATOR :: pubkey where
  "SOLANA_INCINERATOR = PublicKey ''1nc1nerator11111111111111111111111111111111''"

subsection \<open>Evidence\<close>

datatype durability = ProtocolOwned | Burned | LockedByCustody | NotLocked | Unverified

datatype custody_mechanism = BurnAndEarn | Incinerator

datatype custody_status = Verified | Absent | Invalid

record custody_evidence =
  ce_mechanism :: custody_mechanism
  ce_tokenAccount :: pubkey
  ce_authority :: pubkey
  ce_status :: custody_status
  ce_amountAtoms :: "int option"

record locking_report =
  lk_pool :: pubkey
  lk_poolOwner :: string
  lk_venue :: string
  lk_verdict :: durability
  lk_depthLamports :: int
  lk_lpMint :: "pubkey option"
  lk_issued :: "int option"
  lk_liveSupply :: "int option"
  lk_burned :: "int option"
  lk_custodyLocked :: "int option"
  lk_nonWithdrawable :: "int option"
  lk_lockedPct :: "rat option"
  lk_lockedDepth :: "int option"
  lk_custody :: "custody_evidence list"

text \<open>The reference block a described candidate carries.\<close>

record reference_block =
  rb_feeBpsHundredths :: int
  rb_cap :: int
  rb_vaultA :: pubkey
  rb_vaultB :: pubkey
  rb_feeSource :: pubkey
  rb_zeroSeed :: bool

record market_candidate =
  mc_pool :: pubkey
  mc_venue :: string
  mc_depth :: int
  mc_openedAt :: "int option"
  mc_durability :: durability
  mc_lockedPct :: "rat option"
  mc_lockedDepth :: "int option"
  mc_evidence :: "locking_report option"
  mc_meetsDepthFloor :: bool
  mc_block :: "reference_block option"
  mc_rejected :: "string option"

text \<open>A text that is there and not empty.\<close>

definition rejected :: "market_candidate \<Rightarrow> bool" where
  "rejected c \<longleftrightarrow> (case mc_rejected c of None \<Rightarrow> False | Some text \<Rightarrow> text \<noteq> [])"

subsection \<open>Open times\<close>

text \<open>The clock in whole seconds is an argument.\<close>

definition readPoolOpenTime :: "int \<Rightarrow> enum_venue \<Rightarrow> byte list \<Rightarrow> int option" where
  "readPoolOpenTime now venue data =
    (let stamp = (if ev_name venue = ''Raydium CLMM'' \<and> length data \<ge> 1080 + 8
           then Some (le_value (subarray 1080 1088 data))
           else if ev_name venue = ''Meteora DLMM'' \<and> length data \<ge> 816 + 8 \<and> data ! 86 = 1
           then Some (le_value (subarray 816 824 data)) else None)
     in case stamp of None \<Rightarrow> None
        | Some t \<Rightarrow> if t < 1578000000 \<or> t > now + 86400 then None else Some t)"

definition percentOf :: "int \<Rightarrow> int \<Rightarrow> rat" where
  "percentOf part whole = of_int (quot_big (part * 1000000) whole) / 10000"

subsection \<open>Custody\<close>

definition inspectCustodyAccount ::
  "web3 \<Rightarrow> account_reader \<Rightarrow> pubkey \<Rightarrow> pubkey \<Rightarrow> custody_mechanism \<Rightarrow> custody_evidence res" where
  "inspectCustodyAccount w reader lpMint authority mechanism =
    bindR (associatedTokenAddress w lpMint authority True TOKEN_PROGRAM_ID) (\<lambda>tokenAccount.
    (let base = \<lparr>ce_mechanism = mechanism, ce_tokenAccount = tokenAccount, ce_authority = authority,
           ce_status = Absent, ce_amountAtoms = None\<rparr>
     in bindR (reader tokenAccount) (\<lambda>info. case info of
          None \<Rightarrow> Inr base
        | Some acc \<Rightarrow>
            if a_owner acc \<noteq> TOKEN_PROGRAM_ID \<or> length (a_data acc) < 165
            then Inr (base\<lparr>ce_status := Invalid\<rparr>)
            else (let data = a_data acc in
              bindR (readPk w data 0) (\<lambda>mint.
              bindR (readPk w data 32) (\<lambda>holder.
              bindR (readLE 4 data 72) (\<lambda>delegateTag.
              bindR (u64 data 121) (\<lambda>delegated.
              bindR (readLE 4 data 129) (\<lambda>closeTag.
              bindR (readLE 4 data 109) (\<lambda>nativeTag.
              bindR (u64 data 64) (\<lambda>amount.
                Inr (base\<lparr>ce_status :=
                    (if mint \<noteq> lpMint \<or> holder \<noteq> authority \<or> (data ! 108 \<noteq> 1 \<and> data ! 108 \<noteq> 2)
                       \<or> delegateTag \<noteq> 0 \<or> delegated \<noteq> 0 \<or> closeTag \<noteq> 0 \<or> nativeTag \<noteq> 0
                     then Invalid else Verified),
                  ce_amountAtoms := Some amount\<rparr>))))))))))))"

subsection \<open>Locked liquidity\<close>

definition unverifiedReport :: "pubkey \<Rightarrow> string \<Rightarrow> string \<Rightarrow> int \<Rightarrow> locking_report" where
  "unverifiedReport pool poolOwner venue depth = \<lparr>lk_pool = pool, lk_poolOwner = poolOwner,
    lk_venue = venue, lk_verdict = Unverified, lk_depthLamports = depth, lk_lpMint = None,
    lk_issued = None, lk_liveSupply = None, lk_burned = None, lk_custodyLocked = None,
    lk_nonWithdrawable = None, lk_lockedPct = None, lk_lockedDepth = None, lk_custody = []\<rparr>"

definition verified_custody :: "custody_evidence list \<Rightarrow> int" where
  "verified_custody custody = sum_list (map (\<lambda>item. case ce_amountAtoms item of
     Some a \<Rightarrow> if ce_status item = Verified then a else 0 | None \<Rightarrow> 0) custody)"

text \<open>From the LP numbers to the report, once the custody accounts are read.\<close>

definition locking_verdict ::
  "pubkey \<Rightarrow> string \<Rightarrow> string \<Rightarrow> int \<Rightarrow> pubkey \<Rightarrow> int \<Rightarrow> int \<Rightarrow> custody_evidence list \<Rightarrow> locking_report" where
  "locking_verdict pool poolOwner venueName depth lpMint issued supply custody =
    (let burned = issued - supply;
         custodyLocked = verified_custody custody;
         nonWithdrawable = burned + custodyLocked;
         known = (unverifiedReport pool poolOwner venueName depth)\<lparr>lk_custody := custody,
           lk_lpMint := Some lpMint, lk_issued := Some issued, lk_liveSupply := Some supply,
           lk_burned := Some burned, lk_custodyLocked := Some custodyLocked\<rparr>
     in if nonWithdrawable > issued then known
        else known\<lparr>lk_verdict :=
              (if custodyLocked > 0 then LockedByCustody
               else if burned > 0 then Burned
               else if list_ex (\<lambda>item. ce_status item = Invalid) custody then Unverified
               else NotLocked),
            lk_nonWithdrawable := Some nonWithdrawable,
            lk_lockedPct := Some (percentOf nonWithdrawable issued),
            lk_lockedDepth := Some (quot_big (depth * nonWithdrawable) issued)\<rparr>)"

definition custody_accounts ::
  "web3 \<Rightarrow> account_reader \<Rightarrow> enum_venue \<Rightarrow> pubkey \<Rightarrow> custody_evidence list res" where
  "custody_accounts w reader venue lpMint =
    bindR (if ev_name venue = ''Raydium CP''
           then bindR (raydiumLockAuthority w) (\<lambda>authority.
             bindR (inspectCustodyAccount w reader lpMint authority BurnAndEarn) (\<lambda>e. Inr [e]))
           else Inr []) (\<lambda>raydium.
    bindR (inspectCustodyAccount w reader lpMint SOLANA_INCINERATOR Incinerator) (\<lambda>incinerator.
      Inr (raydium @ [incinerator])))"

definition measurePoolLocking ::
  "web3 \<Rightarrow> account_reader \<Rightarrow> pubkey \<Rightarrow> string \<Rightarrow> enum_venue \<Rightarrow> byte list \<Rightarrow> int \<Rightarrow> locking_report res" where
  "measurePoolLocking w reader pool poolOwner venue data depth =
    (let unverified = unverifiedReport pool poolOwner (ev_name venue) depth in
     if ev_durability venue = Positions then Inr unverified
     else (case (ev_lpMint venue, ev_lpIssued venue) of
         (Some lpMintAt, Some lpIssued) \<Rightarrow>
           (let issuedOffset = (case lpIssued of CpLpSupply \<Rightarrow> 333 | LpIssuedAt n \<Rightarrow> n)
            in if length data < max (lpMintAt + 32) (issuedOffset + 8) then Inr unverified
               else bindR (readPk w data lpMintAt) (\<lambda>lpMint.
                 bindR (u64 data issuedOffset) (\<lambda>issued.
                 bindR (reader lpMint) (\<lambda>lpInfo.
                 (let read = unverified\<lparr>lk_lpMint := Some lpMint, lk_issued := Some issued\<rparr> in
                  case lpInfo of None \<Rightarrow> Inr read
                  | Some acc \<Rightarrow>
                      if a_owner acc \<noteq> TOKEN_PROGRAM_ID \<or> length (a_data acc) < 82 \<or> a_data acc ! 45 \<noteq> 1
                      then Inr read
                      else bindR (u64 (a_data acc) 36) (\<lambda>supply.
                        if issued = 0 \<or> supply > issued then Inr (read\<lparr>lk_liveSupply := Some supply\<rparr>)
                        else bindR (custody_accounts w reader venue lpMint) (\<lambda>custody.
                          Inr (locking_verdict pool poolOwner (ev_name venue) depth
                            lpMint issued supply custody))))))))
       | _ \<Rightarrow> Inr unverified))"

text \<open>The SOL side of a pool: the last vault that holds wrapped SOL.\<close>

definition inspectPoolLocking :: "web3 \<Rightarrow> account_reader \<Rightarrow> pubkey \<Rightarrow> locking_report res" where
  "inspectPoolLocking w reader pool =
    bindR (reader pool) (\<lambda>info. case info of
      None \<Rightarrow> Inr (unverifiedReport pool ''missing'' ''unrecognised'' 0)
    | Some acc \<Rightarrow>
        (let own = toBase58 (a_owner acc) in
         case find (\<lambda>item. ev_program item = own) ENUM_VENUES of
           None \<Rightarrow> Inr (unverifiedReport pool own ''unrecognised'' 0)
         | Some venue \<Rightarrow>
             if length (a_data acc) < max (ev_vault0 venue) (ev_vault1 venue) + 32
             then Inr (unverifiedReport pool own (ev_name venue) 0)
             else bindR (traverse (\<lambda>offset.
                 bindR (readPk w (a_data acc) offset) (\<lambda>key.
                 bindR (reader key) (\<lambda>vault. case vault of
                   None \<Rightarrow> Inr None
                 | Some v \<Rightarrow>
                     if a_owner v \<noteq> TOKEN_PROGRAM_ID \<or> length (a_data v) < 165 then Inr None
                     else bindR (readPk w (a_data v) 0) (\<lambda>mint.
                       if toBase58 mint \<noteq> WSOL_ADDRESS then Inr None
                       else bindR (u64 (a_data v) 64) (\<lambda>amount. Inr (Some amount))))))
                 [ev_vault0 venue, ev_vault1 venue]) (\<lambda>amounts.
               measurePoolLocking w reader pool own venue (a_data acc)
                 (fold (\<lambda>a depth. case a of None \<Rightarrow> depth | Some n \<Rightarrow> n) amounts 0))))"

subsection \<open>Candidates\<close>

definition describeReference :: "resolved_reference \<Rightarrow> reference_block" where
  "describeReference r = \<lparr>rb_feeBpsHundredths = rr_feeBpsHundredths r, rb_cap = rr_capLamports r,
    rb_vaultA = rr_vaultA r, rb_vaultB = rr_vaultB r, rb_feeSource = rr_feeSource r,
    rb_zeroSeed = list_all (\<lambda>b. b = 0) (rr_seed r)\<rparr>"

text \<open>The two errors of discovery, which no step may swallow.\<close>

definition discovery_error :: "error \<Rightarrow> bool" where
  "discovery_error e \<longleftrightarrow> e = ExternalError ''REFERENCE_DISCOVERY_TIMEOUT''
    \<or> e = ExternalError ''REFERENCE_DISCOVERY_UNAVAILABLE''"

definition applyDurability ::
  "web3 \<Rightarrow> account_reader \<Rightarrow> pubkey \<Rightarrow> enum_venue \<Rightarrow> byte list \<Rightarrow> int \<Rightarrow> market_candidate \<Rightarrow> market_candidate res" where
  "applyDurability w reader pool venue data depth candidate =
    bindR (measurePoolLocking w reader pool (ev_program venue) venue data depth) (\<lambda>report.
      Inr (candidate\<lparr>mc_durability := lk_verdict report, mc_evidence := Some report,
        mc_lockedPct := lk_lockedPct report, mc_lockedDepth := lk_lockedDepth report\<rparr>))"

definition fresh_candidate :: "enum_venue \<Rightarrow> pubkey \<Rightarrow> market_candidate" where
  "fresh_candidate venue pool = \<lparr>mc_pool = pool, mc_venue = ev_name venue, mc_depth = 0,
    mc_openedAt = None, mc_durability = Unverified, mc_lockedPct = None, mc_lockedDepth = None,
    mc_evidence = None, mc_meetsDepthFloor = False, mc_block = None, mc_rejected = None\<rparr>"

text \<open>The vaults of a pool: the SOL side and the token side, the last vault of each kind.\<close>

definition read_depths ::
  "web3 \<Rightarrow> account_reader \<Rightarrow> pubkey \<Rightarrow> pubkey list \<Rightarrow> (int \<times> int) res" where
  "read_depths w reader mint vaults =
    bindR (traverse (\<lambda>vault. bindR (reader vault) (\<lambda>info. case info of
        None \<Rightarrow> Inr None
      | Some v \<Rightarrow>
          if length (a_data v) < 72 then Inr None
          else bindR (readPk w (a_data v) 0) (\<lambda>vaultMint.
            bindR (u64 (a_data v) 64) (\<lambda>amount. Inr (Some (toBase58 vaultMint, amount)))))) vaults) (\<lambda>found.
      Inr (fold (\<lambda>item (depth, tokenDepth). case item of
          None \<Rightarrow> (depth, tokenDepth)
        | Some (vaultMint, amount) \<Rightarrow>
            if vaultMint = WSOL_ADDRESS then (amount, tokenDepth)
            else if vaultMint = toBase58 mint then (depth, amount)
            else (depth, tokenDepth)) found (0, 0)))"

definition NOT_DAMM_POOL :: string where
  "NOT_DAMM_POOL = ''account is not a Meteora DAMM v2 Pool''"

definition DAMM_UNSUPPORTED :: string where
  "DAMM_UNSUPPORTED = ''Meteora DAMM v2 is not supported as a burner reference yet''"

text \<open>The detection-only branch, after the depth is known.\<close>

definition damm_diagnosis :: "byte list \<Rightarrow> int \<Rightarrow> market_candidate \<Rightarrow> market_candidate res" where
  "damm_diagnosis data depth candidate =
    bindR (u128 data 360) (\<lambda>totalLiquidity.
    bindR (u128 data 552) (\<lambda>permanentlyLocked.
      (let c = candidate\<lparr>mc_rejected := Some DAMM_UNSUPPORTED\<rparr> in
       Inr (if totalLiquidity > 0 \<and> permanentlyLocked \<le> totalLiquidity
         then c\<lparr>mc_durability := LockedByCustody,
                mc_lockedPct := Some (percentOf permanentlyLocked totalLiquidity),
                mc_lockedDepth := Some (quot_big (depth * permanentlyLocked) totalLiquidity)\<rparr>
         else c))))"

text \<open>The reads of the \<open>try\<close> before the candidate is changed; None when the pool is gone.\<close>

definition read_pool ::
  "web3 \<Rightarrow> account_reader \<Rightarrow> pubkey \<Rightarrow> enum_venue \<Rightarrow> pubkey \<Rightarrow> (byte list \<times> (int \<times> int) option) option res" where
  "read_pool w reader mint venue pool =
    bindR (reader pool) (\<lambda>info. case info of
      None \<Rightarrow> Inr None
    | Some acc \<Rightarrow>
        (let data = a_data acc in
         if \<not> ev_supportedReference venue \<and> take 8 data \<noteq> METEORA_DAMM_V2_POOL_DISCRIMINATOR
         then Inr (Some (data, None))
         else bindR (readPk w data (ev_vault0 venue)) (\<lambda>v0.
           bindR (readPk w data (ev_vault1 venue)) (\<lambda>v1.
           bindR (read_depths w reader mint [v0, v1]) (\<lambda>depths. Inr (Some (data, Some depths)))))))"

text \<open>The \<open>catch\<close>: a failed read leaves what was known, unverified.\<close>

definition survive :: "market_candidate \<Rightarrow> market_candidate res \<Rightarrow> market_candidate res" where
  "survive candidate result = (case result of
     Inr c \<Rightarrow> Inr c
   | Inl e \<Rightarrow> if discovery_error e then Inl e else Inr (candidate\<lparr>mc_durability := Unverified\<rparr>))"

definition read_candidate ::
  "web3 \<Rightarrow> account_reader \<Rightarrow> int \<Rightarrow> pubkey \<Rightarrow> enum_venue \<times> pubkey \<Rightarrow> market_candidate res" where
  "read_candidate w reader now mint found = (case found of (venue, pool) \<Rightarrow>
    (let candidate = fresh_candidate venue pool in
     case read_pool w reader mint venue pool of
       Inl e \<Rightarrow> survive candidate (Inl e)
     | Inr None \<Rightarrow> Inr candidate
     | Inr (Some (data, None)) \<Rightarrow> Inr (candidate\<lparr>mc_rejected := Some NOT_DAMM_POOL\<rparr>)
     | Inr (Some (data, Some (depth, tokenDepth))) \<Rightarrow>
         (let c = candidate\<lparr>mc_depth := depth, mc_openedAt := readPoolOpenTime now venue data,
                mc_meetsDepthFloor := (depth \<ge> MIN_REFERENCE_DEPTH_LAMPORTS \<and> tokenDepth > 0)\<rparr>
          in survive c (if \<not> ev_supportedReference venue then damm_diagnosis data depth c
               else applyDurability w reader pool venue data depth c))))"

text \<open>The filters of one scan: the size of a pool and its two mints, in one order.\<close>

record pool_scan =
  ps_venue :: enum_venue
  ps_mint0 :: string
  ps_mint1 :: string

type_synonym pool_finder = "pool_scan \<Rightarrow> pubkey list res"

definition pool_scans :: "pubkey \<Rightarrow> enum_venue list \<Rightarrow> pool_scan list" where
  "pool_scans mint venues = concat (map (\<lambda>venue.
     [\<lparr>ps_venue = venue, ps_mint0 = toBase58 mint, ps_mint1 = WSOL_ADDRESS\<rparr>,
      \<lparr>ps_venue = venue, ps_mint0 = WSOL_ADDRESS, ps_mint1 = toBase58 mint\<rparr>]) venues)"

subsection \<open>What a report claims\<close>

lemma unverifiedReport_simps [simp]:
  "lk_lockedDepth (unverifiedReport pool own venue depth) = None"
  "lk_depthLamports (unverifiedReport pool own venue depth) = depth"
  by (simp_all add: unverifiedReport_def)

lemma measurePoolLocking_locked:
  assumes "measurePoolLocking w reader pool poolOwner venue data depth = Inr report"
    and "lk_lockedDepth report \<noteq> None"
  shows "\<exists>lpMint off issued acc circulating custody. u64 data off = Inr issued \<and> reader lpMint = Inr (Some acc) \<and>
    a_owner acc = TOKEN_PROGRAM_ID \<and> u64 (a_data acc) 36 = Inr circulating \<and> issued \<noteq> 0 \<and> circulating \<le> issued \<and>
    custody_accounts w reader venue lpMint = Inr custody \<and>
    report = locking_verdict pool poolOwner (ev_name venue) depth lpMint issued circulating custody"
proof -
  let ?un = "unverifiedReport pool poolOwner (ev_name venue) depth"
  have plain: "report \<noteq> ?un" using assms(2) by auto
  then obtain lpMintAt lpIssued where v: "ev_lpMint venue = Some lpMintAt" "ev_lpIssued venue = Some lpIssued"
      "ev_durability venue \<noteq> Positions"
    using assms(1) by (auto simp: measurePoolLocking_def Let_def split: if_split_asm option.split_asm)
  define off where "off = (case lpIssued of CpLpSupply \<Rightarrow> 333 | LpIssuedAt n \<Rightarrow> n)"
  note run = assms(1) [unfolded measurePoolLocking_def Let_def v option.case prod.case if_not_P [OF v(3)],
      folded off_def]
  have long: "\<not> length data < max (lpMintAt + 32) (off + 8)"
    using run plain by (auto split: if_split_asm)
  obtain lpMint issued lpInfo where r: "u64 data off = Inr issued" "reader lpMint = Inr lpInfo"
      "(case lpInfo of None \<Rightarrow> Inr (?un\<lparr>lk_lpMint := Some lpMint, lk_issued := Some issued\<rparr>)
        | Some acc \<Rightarrow> if a_owner acc \<noteq> TOKEN_PROGRAM_ID \<or> length (a_data acc) < 82 \<or> a_data acc ! 45 \<noteq> 1
            then Inr (?un\<lparr>lk_lpMint := Some lpMint, lk_issued := Some issued\<rparr>)
            else bindR (u64 (a_data acc) 36) (\<lambda>supply.
              if issued = 0 \<or> supply > issued
              then Inr (?un\<lparr>lk_lpMint := Some lpMint, lk_issued := Some issued, lk_liveSupply := Some supply\<rparr>)
              else bindR (custody_accounts w reader venue lpMint) (\<lambda>custody.
                Inr (locking_verdict pool poolOwner (ev_name venue) depth lpMint issued supply custody)))) = Inr report"
    using run unfolding if_not_P [OF long] bindR_Inr_iff by blast
  obtain acc where acc: "lpInfo = Some acc" using r(3) assms(2) by (cases lpInfo) auto
  obtain circulating custody where "a_owner acc = TOKEN_PROGRAM_ID" "u64 (a_data acc) 36 = Inr circulating"
      "issued \<noteq> 0" "circulating \<le> issued" "custody_accounts w reader venue lpMint = Inr custody"
      "report = locking_verdict pool poolOwner (ev_name venue) depth lpMint issued circulating custody"
    using r(3) assms(2) unfolding acc by (auto simp: bindR_Inr_iff not_less split: if_split_asm)
  then show ?thesis using r(1,2) acc by blast
qed

lemma quot_big_bounds:
  assumes "0 \<le> d" "0 \<le> n" "n \<le> i" "0 < i"
  shows "0 \<le> quot_big (d * n) i \<and> quot_big (d * n) i \<le> d \<and> quot_big (d * n) i * i \<le> d * n \<and>
    d * n < (quot_big (d * n) i + 1) * i"
proof -
  have q: "quot_big (d * n) i = d * n div i" using assms by simp
  have "d * n div i \<le> d * i div i"
    using assms by (intro zdiv_mono1 mult_left_mono) simp_all
  then have "d * n div i \<le> d" using assms by simp
  moreover have "d * n div i * i \<le> d * n" "d * n < (d * n div i + 1) * i"
    using div_mult_mod_eq [of "d * n" i] pos_mod_bound [OF assms(4), of "d * n"]
      pos_mod_sign [OF assms(4), of "d * n"] distrib_right [of "d * n div i" 1 i]
    by linarith+
  moreover have "0 \<le> d * n div i" using assms by (simp add: pos_imp_zdiv_nonneg_iff)
  ultimately show ?thesis by (simp add: q)
qed

end
