(* ===== verification/JsSort.thy ===== *)
theory JsSort
  imports Prelude "HOL-Library.Multiset"
begin

text \<open>
  \<open>Array.prototype.sort\<close> with a comparator: a stable sort. A comparator is any function into
  numbers; the locale \<open>js_comparator\<close> states what its users rely on, that it orders by a key, and
  then the sort is the library's \<open>sort_key\<close>. Every comparator of the code interprets it.
\<close>

subsection \<open>The sort\<close>

fun js_insert :: "('a \<Rightarrow> 'a \<Rightarrow> int) \<Rightarrow> 'a \<Rightarrow> 'a list \<Rightarrow> 'a list" where
  "js_insert cmp x [] = [x]"
| "js_insert cmp x (y # ys) = (if cmp x y \<le> 0 then x # y # ys else y # js_insert cmp x ys)"

definition js_sort :: "('a \<Rightarrow> 'a \<Rightarrow> int) \<Rightarrow> 'a list \<Rightarrow> 'a list" where
  "js_sort cmp xs = foldr (js_insert cmp) xs []"

lemma mset_js_insert [simp]: "mset (js_insert cmp x ys) = add_mset x (mset ys)"
  by (induction ys) auto

lemma mset_js_sort [simp]: "mset (js_sort cmp xs) = mset xs"
  by (induction xs) (simp_all add: js_sort_def)

lemma set_js_sort [simp]: "set (js_sort cmp xs) = set xs"
  by (metis mset_js_sort set_mset_mset)

lemma length_js_sort [simp]: "length (js_sort cmp xs) = length xs"
  by (metis mset_js_sort size_mset)

lemma js_sort_eq_Nil [simp]: "js_sort cmp xs = [] \<longleftrightarrow> xs = []"
  by (metis length_0_conv length_js_sort)

text \<open>Three-way comparison of numbers: the shape \<open>a !== b ? (a > b ? -1 : 1) : \<dots>\<close>.\<close>

definition descending :: "'a :: linorder \<Rightarrow> 'a \<Rightarrow> int \<Rightarrow> int" where
  "descending a b otherwise = (if a \<noteq> b then (if a > b then - 1 else 1) else otherwise)"

definition ascending :: "'a :: linorder \<Rightarrow> 'a \<Rightarrow> int \<Rightarrow> int" where
  "ascending a b otherwise = (if a \<noteq> b then (if a < b then - 1 else 1) else otherwise)"

subsection \<open>Comparators\<close>

text \<open>
  What a comparator needs for its sort to be ordered by a key, whatever it does with elements of
  equal keys: its sign follows the order of the keys where they differ.
\<close>

locale js_key_comparator =
  fixes cmp :: "'a \<Rightarrow> 'a \<Rightarrow> int"
    and key :: "'a \<Rightarrow> 'k :: linorder"
  assumes cmp_less: "key a < key b \<Longrightarrow> cmp a b \<le> 0" "key b < key a \<Longrightarrow> \<not> cmp a b \<le> 0"
begin

lemma sorted_js_insert: "sorted (map key ys) \<Longrightarrow> sorted (map key (js_insert cmp x ys))"
proof (induction ys)
  case (Cons y ys)
  have set: "set (js_insert cmp x ys) = insert x (set ys)"
    by (metis mset_js_insert set_mset_add_mset_insert set_mset_mset)
  show ?case
  proof (cases "cmp x y \<le> 0")
    case True
    then have "key x \<le> key y" using cmp_less(2) [of y x] by (meson not_le)
    then show ?thesis using Cons.prems True by auto
  next
    case False
    then have "key y \<le> key x" using cmp_less(1) [of x y] by (meson not_le)
    then show ?thesis using Cons False by (auto simp: set)
  qed
qed simp

lemma sorted_by_key: "sorted (map key (js_sort cmp xs))"
  by (induction xs) (simp_all add: js_sort_def sorted_js_insert)

end

locale js_comparator =
  fixes cmp :: "'a \<Rightarrow> 'a \<Rightarrow> int"
    and key :: "'a \<Rightarrow> 'k :: linorder"
  assumes cmp_key: "cmp a b \<le> 0 \<longleftrightarrow> key a \<le> key b"
begin

lemma js_insert_key: "js_insert cmp x ys = insort_key key x ys"
  by (induction ys) (simp_all add: cmp_key)

lemma js_sort_key: "js_sort cmp xs = sort_key key xs"
  by (induction xs) (simp_all add: js_sort_def js_insert_key)

lemma sorted_js_sort: "sorted (map key (js_sort cmp xs))"
  by (simp add: js_sort_key)

text \<open>The first element of the sorted list is a least one.\<close>

lemma js_sort_hd:
  assumes "xs \<noteq> []"
  shows "hd (js_sort cmp xs) \<in> set xs" "x \<in> set xs \<Longrightarrow> key (hd (js_sort cmp xs)) \<le> key x"
proof -
  obtain y ys where y: "js_sort cmp xs = y # ys"
    using assms by (cases "js_sort cmp xs") auto
  then show "hd (js_sort cmp xs) \<in> set xs"
    by (metis list.sel(1) list.set_intros(1) set_js_sort)
  show "key (hd (js_sort cmp xs)) \<le> key x" if "x \<in> set xs"
  proof -
    have "x \<in> set (y # ys)" using that y by (metis set_js_sort)
    then show ?thesis using sorted_js_sort [of xs] y by auto
  qed
qed

text \<open>With distinct keys the order of the input does not matter.\<close>

lemma js_sort_perm:
  assumes "mset xs = mset ys" "inj_on key (set xs)"
  shows "js_sort cmp xs = js_sort cmp ys"
proof (rule map_inj_on [of key])
  show "map key (js_sort cmp xs) = map key (js_sort cmp ys)"
    using assms(1) sorted_js_sort properties_for_sort [of "map key (js_sort cmp xs)" "map key (js_sort cmp ys)"]
      properties_for_sort [of "map key (js_sort cmp ys)" "map key (js_sort cmp ys)"] by simp
  show "inj_on key (set (js_sort cmp xs) \<union> set (js_sort cmp ys))"
    using assms mset_eq_setD [OF assms(1)] by simp
qed

end

sublocale js_comparator \<subseteq> js_key_comparator
  by unfold_locales (simp_all add: cmp_key)

text \<open>A comparator of the elements at positions, or of images.\<close>

lemma js_comparator_image:
  "js_comparator cmp key \<Longrightarrow> js_comparator (\<lambda>i j. cmp (f i) (f j)) (\<lambda>i. key (f i))"
  by (simp add: js_comparator_def)

end
