(* ===== verification/MarketSelect.thy ===== *)
theory MarketSelect
  imports Markets JsSort "HOL-Library.Product_Lexorder" "HOL-Library.List_Lexorder"
begin

text \<open>
  Ranking and selection of \<open>quote-service/markets.ts\<close>: the comparators, \<open>rankCandidates\<close>, the
  authentication rounds that reject a pick the resolver refuses, and \<open>selectReference\<close> with its
  Pump branch, the legacy hint and the detection-only scan. A pick is the position of a candidate
  in its list, since the code changes the candidate it picked in place. The text of an error is the
  argument \<open>msg\<close>; reasons shown to the reader are a datatype.
\<close>

subsection \<open>Comparators\<close>

definition VENUE_TIE_BREAK :: "(string \<times> int) list" where
  "VENUE_TIE_BREAK = [(''Raydium v4'', 0), (''Raydium CP'', 1), (''Raydium CLMM'', 2), (''Meteora DLMM'', 3)]"

text \<open>\<open>Number.MAX_SAFE_INTEGER\<close> for a venue without a place.\<close>

definition venue_place :: "market_candidate \<Rightarrow> int" where
  "venue_place c = (case map_of VENUE_TIE_BREAK (mc_venue c) of None \<Rightarrow> 9007199254740991 | Some i \<Rightarrow> i)"

definition comparePoolPubkeys :: "web3 \<Rightarrow> market_candidate \<Rightarrow> market_candidate \<Rightarrow> int" where
  "comparePoolPubkeys w a b = ascending (pubkeyBytes w (mc_pool a)) (pubkeyBytes w (mc_pool b)) 0"

definition compareDepthVenueAndPool :: "web3 \<Rightarrow> market_candidate \<Rightarrow> market_candidate \<Rightarrow> int" where
  "compareDepthVenueAndPool w a b =
    (let venueThenPool = (if venue_place a \<noteq> venue_place b then venue_place a - venue_place b
           else comparePoolPubkeys w a b)
     in descending (mc_depth a) (mc_depth b)
       (case (mc_openedAt a, mc_openedAt b) of
          (Some ageA, Some ageB) \<Rightarrow> ascending ageA ageB venueThenPool
        | (Some _, None) \<Rightarrow> - 1
        | (None, Some _) \<Rightarrow> 1
        | (None, None) \<Rightarrow> venueThenPool))"

definition compareLockedDepthThenPool :: "web3 \<Rightarrow> market_candidate \<Rightarrow> market_candidate \<Rightarrow> int" where
  "compareLockedDepthThenPool w a b =
    descending (the (mc_lockedDepth a)) (the (mc_lockedDepth b)) (compareDepthVenueAndPool w a b)"

subsection \<open>Enumeration\<close>

definition enumerateMarkets ::
  "web3 \<Rightarrow> account_reader \<Rightarrow> pool_finder \<Rightarrow> int \<Rightarrow> pubkey \<Rightarrow> enum_venue list \<Rightarrow> market_candidate list res" where
  "enumerateMarkets w reader gpa now mint venues =
    bindR (traverse (\<lambda>scan. bindR (gpa scan) (\<lambda>pools. Inr (map (Pair (ps_venue scan)) pools)))
      (pool_scans mint venues)) (\<lambda>groups.
    bindR (traverse (read_candidate w reader now mint) (concat groups)) (\<lambda>candidates.
      Inr (js_sort (compareDepthVenueAndPool w) candidates)))"

subsection \<open>Ranking\<close>

datatype rank_reason = NoDepth | DurablyLocked | NothingQualifies | DeepestPosition

definition eligible :: "market_candidate \<Rightarrow> bool" where
  "eligible c \<longleftrightarrow> mc_meetsDepthFloor c \<and> \<not> rejected c"

definition fungible_lp :: "market_candidate \<Rightarrow> bool" where
  "fungible_lp c \<longleftrightarrow> mc_venue c = ''Raydium v4'' \<or> mc_venue c = ''Raydium CP''"

definition durable :: "market_candidate \<Rightarrow> bool" where
  "durable c \<longleftrightarrow> fungible_lp c \<and> (case mc_lockedDepth c of
     None \<Rightarrow> False | Some d \<Rightarrow> d \<ge> MIN_REFERENCE_DEPTH_LAMPORTS)"

definition concentrated :: "market_candidate \<Rightarrow> bool" where
  "concentrated c \<longleftrightarrow> mc_venue c = ''Raydium CLMM'' \<or> mc_venue c = ''Meteora DLMM''"

definition best_by :: "(market_candidate \<Rightarrow> market_candidate \<Rightarrow> int) \<Rightarrow> market_candidate list \<Rightarrow> nat list \<Rightarrow> nat" where
  "best_by cmp cs positions = hd (js_sort (\<lambda>i j. cmp (cs ! i) (cs ! j)) positions)"

definition rankCandidates :: "web3 \<Rightarrow> market_candidate list \<Rightarrow> nat option \<times> rank_reason" where
  "rankCandidates w cs =
    (let eligibles = filter (\<lambda>i. eligible (cs ! i)) [0..<length cs];
         durables = filter (\<lambda>i. durable (cs ! i)) eligibles;
         concentrateds = filter (\<lambda>i. concentrated (cs ! i)) eligibles
     in if eligibles = [] then (None, NoDepth)
        else if durables \<noteq> [] then (Some (best_by (compareLockedDepthThenPool w) cs durables), DurablyLocked)
        else if concentrateds = [] then (None, NothingQualifies)
        else (Some (best_by (compareDepthVenueAndPool w) cs concentrateds), DeepestPosition))"

subsection \<open>Authentication rounds\<close>

datatype round_result =
    Picked "market_candidate list" nat resolved_reference rank_reason
  | NoPick "market_candidate list" rank_reason
  | Exhausted "market_candidate list"

text \<open>
  \<open>for (round = 0; \<dots>; round += 1)\<close> with at most \<open>candidates.length + 1\<close> rounds; the first
  argument counts the rounds left.
\<close>

fun authenticate_rounds ::
  "(error \<Rightarrow> string) \<Rightarrow> web3 \<Rightarrow> account_reader \<Rightarrow> pubkey \<Rightarrow> nat \<Rightarrow> market_candidate list \<Rightarrow> round_result res" where
  "authenticate_rounds msg w reader mint 0 cs = Inr (Exhausted cs)"
| "authenticate_rounds msg w reader mint (Suc n) cs = (case rankCandidates w cs of
     (None, reason) \<Rightarrow> Inr (NoPick cs reason)
   | (Some i, reason) \<Rightarrow>
      (case resolveReference w reader mint (Some (mc_pool (cs ! i))) of
         Inr reference \<Rightarrow> Inr (Picked (cs[i := (cs ! i)\<lparr>mc_block := Some (describeReference reference)\<rparr>])
           i reference reason)
       | Inl e \<Rightarrow>
           if discovery_error e then Inl e
           else authenticate_rounds msg w reader mint n
             (cs[i := (cs ! i)\<lparr>mc_rejected := Some (take 200 (msg e))\<rparr>])))"

subsection \<open>One candidate\<close>

text \<open>\<open>pool === "pump"\<close> is None.\<close>

definition resolveCandidate ::
  "web3 \<Rightarrow> account_reader \<Rightarrow> pubkey \<Rightarrow> pubkey option \<Rightarrow> (market_candidate \<times> resolved_reference) res" where
  "resolveCandidate w reader mint pool =
    bindR (case pool of None \<Rightarrow> resolvePumpVenue w reader mint
           | Some k \<Rightarrow> resolveReference w reader mint (Some k)) (\<lambda>reference.
    (let zeroSeed = list_all (\<lambda>b. b = 0) (rr_seed reference);
         candidate = \<lparr>mc_pool = rr_pool reference, mc_venue = rr_venue reference,
           mc_depth = rr_depthLamports reference, mc_openedAt = None,
           mc_durability = (if zeroSeed then ProtocolOwned else Unverified), mc_lockedPct = None,
           mc_lockedDepth = None, mc_evidence = None,
           mc_meetsDepthFloor = (zeroSeed \<or> rr_depthLamports reference \<ge> MIN_REFERENCE_DEPTH_LAMPORTS),
           mc_block = Some (describeReference reference), mc_rejected = None\<rparr>
     in case pool of
          None \<Rightarrow> Inr (candidate, reference)
        | Some k \<Rightarrow> bindR (reader k) (\<lambda>info. case info of
            None \<Rightarrow> Inr (candidate, reference)
          | Some acc \<Rightarrow>
             (case find (\<lambda>entry. ev_program entry = toBase58 (a_owner acc)) ENUM_VENUES of
                None \<Rightarrow> Inr (candidate, reference)
              | Some venue \<Rightarrow> bindR (applyDurability w reader k venue (a_data acc)
                  (rr_depthLamports reference) candidate) (\<lambda>c. Inr (c, reference))))))"

record route_hop =
  rh_percent :: "rat option"
  rh_ammKey :: "string option"
  rh_inputMint :: "string option"
  rh_outputMint :: "string option"

definition main_hop :: "route_hop \<Rightarrow> route_hop list \<Rightarrow> route_hop" where
  "main_hop first rest = fold (\<lambda>entry best.
     if (case rh_percent entry of None \<Rightarrow> 0 | Some p \<Rightarrow> p) > (case rh_percent best of None \<Rightarrow> 0 | Some p \<Rightarrow> p)
     then entry else best) rest first"

definition candidateFromRoutePlan ::
  "web3 \<Rightarrow> account_reader \<Rightarrow> pubkey \<Rightarrow> route_hop list option \<Rightarrow> (market_candidate \<times> resolved_reference) res" where
  "candidateFromRoutePlan w reader mint routePlan = (case routePlan of
     None \<Rightarrow> Inl (PlainError ''Jupiter returned no route for this mint'')
   | Some [] \<Rightarrow> Inl (PlainError ''Jupiter returned no route for this mint'')
   | Some (first # rest) \<Rightarrow>
       if \<not> list_all (\<lambda>entry. rh_inputMint entry = Some WSOL_ADDRESS
            \<and> rh_outputMint entry = Some (toBase58 mint)) (first # rest)
       then Inl (PlainError ''Jupiter routes this mint multi-hop'')
       else (case rh_ammKey (main_hop first rest) of
           None \<Rightarrow> Inl (PlainError ''Jupiter route carries no pool address'')
         | Some [] \<Rightarrow> Inl (PlainError ''Jupiter route carries no pool address'')
         | Some key \<Rightarrow> (case parsePubkey w key of
             None \<Rightarrow> Inl (PlainError ''Invalid public key input'')
           | Some k \<Rightarrow> resolveCandidate w reader mint (Some k))))"

definition isConclusiveLockedAmm :: "market_candidate \<Rightarrow> bool" where
  "isConclusiveLockedAmm c \<longleftrightarrow> fungible_lp c \<and> mc_meetsDepthFloor c \<and> \<not> rejected c \<and>
    (mc_durability c = Burned \<or> mc_durability c = LockedByCustody) \<and>
    (case mc_lockedDepth c of None \<Rightarrow> False | Some d \<Rightarrow> d \<ge> MIN_REFERENCE_DEPTH_LAMPORTS)"

text \<open>A real curve: owned by Pump and long enough; its account.\<close>

definition pump_curve_account :: "web3 \<Rightarrow> account_reader \<Rightarrow> pubkey \<Rightarrow> account_data option res" where
  "pump_curve_account w reader mint =
    bindR (findProgramAddress w [map of_char ''bonding-curve'', pubkeyBytes w mint] (PublicKey PUMP_FUN_ADDRESS))
      (\<lambda>(curveAddress, _).
    bindR (reader curveAddress) (\<lambda>curve. Inr (case curve of
        None \<Rightarrow> None
      | Some acc \<Rightarrow> if toBase58 (a_owner acc) = PUMP_FUN_ADDRESS \<and> 82 \<le> length (a_data acc)
          then Some acc else None)))"

definition hasPumpCurve :: "web3 \<Rightarrow> account_reader \<Rightarrow> pubkey \<Rightarrow> bool res" where
  "hasPumpCurve w reader mint = bindR (pump_curve_account w reader mint) (\<lambda>curve. Inr (curve \<noteq> None))"

subsection \<open>Selection\<close>

datatype branch = PumpCurve | PumpSwapCanonical | MarketEnumeration

datatype pick_reason = PumpMandated | LegacyHint | Ranked rank_reason | DammOnly | AllRefused

record market_selection =
  ms_targetMint :: pubkey
  ms_branch :: branch
  ms_chosen :: "(market_candidate \<times> resolved_reference) option"
  ms_reason :: pick_reason
  ms_candidates :: "market_candidate list"

definition enumerated :: "pubkey \<Rightarrow> (market_candidate \<times> resolved_reference) option \<Rightarrow> pick_reason \<Rightarrow>
    market_candidate list \<Rightarrow> market_selection" where
  "enumerated mint chosen reason candidates = \<lparr>ms_targetMint = mint, ms_branch = MarketEnumeration,
    ms_chosen = chosen, ms_reason = reason, ms_candidates = candidates\<rparr>"

definition unsupportedDammSelection :: "pubkey \<Rightarrow> market_candidate list \<Rightarrow> market_selection" where
  "unsupportedDammSelection mint candidates = enumerated mint None DammOnly candidates"

definition marketSelectionForTransport :: "market_selection \<Rightarrow> market_candidate option" where
  "marketSelectionForTransport selection = map_option fst (ms_chosen selection)"

definition pump_selection :: "pubkey \<Rightarrow> bool \<Rightarrow> resolved_reference \<Rightarrow> market_selection" where
  "pump_selection mint migrated reference =
    (let candidate = \<lparr>mc_pool = rr_pool reference, mc_venue = rr_venue reference,
           mc_depth = rr_depthLamports reference, mc_openedAt = None, mc_durability = ProtocolOwned,
           mc_lockedPct = None, mc_lockedDepth = Some (rr_depthLamports reference), mc_evidence = None,
           mc_meetsDepthFloor = True, mc_block = Some (describeReference reference), mc_rejected = None\<rparr>
     in \<lparr>ms_targetMint = mint, ms_branch = (if migrated then PumpSwapCanonical else PumpCurve),
         ms_chosen = Some (candidate, reference), ms_reason = PumpMandated, ms_candidates = [candidate]\<rparr>)"

text \<open>
  The Pump branch: a selection, or None to go on. A hint that fails in any way has no weight.
\<close>

definition pump_branch ::
  "web3 \<Rightarrow> account_reader \<Rightarrow> pubkey \<Rightarrow> route_hop list option res option \<Rightarrow> market_selection option res" where
  "pump_branch w reader mint legacyPumpRoutePlan =
    bindR (pump_curve_account w reader mint) (\<lambda>curve. case curve of
      None \<Rightarrow> Inr None
    | Some acc \<Rightarrow>
       (let migrated = (a_data acc ! 48 = 1) in
        bindR (if \<not> migrated then Inr True
               else bindR (canonicalPumpSwapPool w mint) (\<lambda>pool.
                 bindR (reader pool) (\<lambda>found. Inr (found \<noteq> None)))) (\<lambda>live.
        if live then bindR (resolvePumpVenue w reader mint) (\<lambda>reference.
          Inr (Some (pump_selection mint migrated reference)))
        else (case legacyPumpRoutePlan of
            None \<Rightarrow> Inr None
          | Some plan \<Rightarrow> (case bindR plan (candidateFromRoutePlan w reader mint) of
              Inl _ \<Rightarrow> Inr None
            | Inr (hinted, reference) \<Rightarrow>
                if isConclusiveLockedAmm hinted
                then Inr (Some (enumerated mint (Some (hinted, reference)) LegacyHint [hinted]))
                else Inr None)))))"

text \<open>The position phase, after the fungible-LP phase has left its candidates.\<close>

definition position_phase ::
  "(error \<Rightarrow> string) \<Rightarrow> web3 \<Rightarrow> account_reader \<Rightarrow> pool_finder \<Rightarrow> int \<Rightarrow> pubkey \<Rightarrow> market_candidate list \<Rightarrow>
    market_candidate list \<Rightarrow> market_selection res" where
  "position_phase msg w reader gpa now mint damm amm =
    (case enumerateMarkets w reader gpa now mint
        (filter (\<lambda>venue. ev_durability venue = Positions) ENUM_VENUES) of
       Inl e \<Rightarrow> if damm \<noteq> [] then Inr (unsupportedDammSelection mint (amm @ damm)) else Inl e
     | Inr positions \<Rightarrow>
        (let candidates = js_sort (compareDepthVenueAndPool w) (amm @ positions);
             settle = (\<lambda>cs reason. if damm \<noteq> [] then unsupportedDammSelection mint (cs @ damm)
               else enumerated mint None reason cs)
         in bindR (authenticate_rounds msg w reader mint (Suc (length candidates)) candidates) (\<lambda>result.
            Inr (case result of
              Picked cs i reference reason \<Rightarrow> enumerated mint (Some (cs ! i, reference)) (Ranked reason) cs
            | NoPick cs reason \<Rightarrow> settle cs (Ranked reason)
            | Exhausted cs \<Rightarrow> settle cs AllRefused))))"

definition selectReference ::
  "(error \<Rightarrow> string) \<Rightarrow> web3 \<Rightarrow> account_reader \<Rightarrow> pool_finder \<Rightarrow> int \<Rightarrow> pubkey \<Rightarrow>
    route_hop list option res option \<Rightarrow> market_selection res" where
  "selectReference msg w reader gpa now mint legacyPumpRoutePlan =
    bindR (pump_branch w reader mint legacyPumpRoutePlan) (\<lambda>pump. case pump of
      Some selection \<Rightarrow> Inr selection
    | None \<Rightarrow>
       (let damm = (case enumerateMarkets w reader gpa now mint [METEORA_DAMM_V2_DIAGNOSTIC] of
              Inl _ \<Rightarrow> [] | Inr cs \<Rightarrow> cs)
        in case enumerateMarkets w reader gpa now mint
              (filter (\<lambda>venue. ev_durability venue = CpLp) ENUM_VENUES) of
             Inl e \<Rightarrow> if damm \<noteq> [] then Inr (unsupportedDammSelection mint damm) else Inl e
           | Inr ammCandidates \<Rightarrow>
              bindR (authenticate_rounds msg w reader mint (Suc (length ammCandidates)) ammCandidates)
                (\<lambda>result. case result of
                   Picked cs i reference reason \<Rightarrow>
                     Inr (enumerated mint (Some (cs ! i, reference)) (Ranked reason) cs)
                 | NoPick cs _ \<Rightarrow> position_phase msg w reader gpa now mint damm cs
                 | Exhausted cs \<Rightarrow> position_phase msg w reader gpa now mint damm cs)))"

subsection \<open>The orders behind the comparators\<close>

definition market_key :: "web3 \<Rightarrow> market_candidate \<Rightarrow> int \<times> (int \<times> int) \<times> int \<times> byte list" where
  "market_key w c = (- mc_depth c, (case mc_openedAt c of None \<Rightarrow> (1, 0) | Some t \<Rightarrow> (0, t)),
    venue_place c, pubkeyBytes w (mc_pool c))"

lemma compare_market_key: "compareDepthVenueAndPool w a b \<le> 0 \<longleftrightarrow> market_key w a \<le> market_key w b"
  by (auto simp: compareDepthVenueAndPool_def market_key_def comparePoolPubkeys_def descending_def
      ascending_def Let_def less_le split: option.splits)

lemma compare_locked_key:
  "compareLockedDepthThenPool w a b \<le> 0 \<longleftrightarrow>
    (- the (mc_lockedDepth a), market_key w a) \<le> (- the (mc_lockedDepth b), market_key w b)"
  using compare_market_key [of w a b]
  by (auto simp: compareLockedDepthThenPool_def descending_def)

interpretation market_order: js_comparator "compareDepthVenueAndPool w" "market_key w" for w
  by unfold_locales (rule compare_market_key)

interpretation locked_order:
  js_comparator "compareLockedDepthThenPool w" "\<lambda>c. (- the (mc_lockedDepth c), market_key w c)" for w
  by unfold_locales (rule compare_locked_key)

lemma best_by_least:
  assumes "js_comparator cmp key" "ps \<noteq> []"
  shows "best_by cmp cs ps \<in> set ps" "p \<in> set ps \<Longrightarrow> key (cs ! best_by cmp cs ps) \<le> key (cs ! p)"
  using js_comparator.js_sort_hd [OF js_comparator_image [OF assms(1), of "(!) cs"] assms(2)]
  by (simp_all add: best_by_def)

subsection \<open>The rule of the ranking\<close>

text \<open>
  A candidate competes when it clears the admission gate and is not rejected, and is either a
  fungible-LP pool with enough locked depth or a position pool. Locked pools come first, by locked
  depth; then depth, age, venue and address decide.
\<close>

definition competes :: "market_candidate \<Rightarrow> bool" where
  "competes c \<longleftrightarrow> eligible c \<and> (durable c \<or> concentrated c)"

definition rank_key :: "web3 \<Rightarrow> market_candidate \<Rightarrow> int \<times> int \<times> int \<times> (int \<times> int) \<times> int \<times> byte list" where
  "rank_key w c = (if durable c then (0, - the (mc_lockedDepth c), market_key w c)
    else (1, 0, market_key w c))"

lemma durable_not_concentrated: "durable c \<Longrightarrow> \<not> concentrated c"
  by (auto simp: durable_def fungible_lp_def concentrated_def)

lemma rank_pick:
  assumes "rankCandidates w cs = (Some i, reason)"
  shows "i < length cs" "competes (cs ! i)"
    "j < length cs \<Longrightarrow> competes (cs ! j) \<Longrightarrow> rank_key w (cs ! i) \<le> rank_key w (cs ! j)"
proof -
  let ?el = "filter (\<lambda>i. eligible (cs ! i)) [0..<length cs]"
  let ?du = "filter (\<lambda>i. durable (cs ! i)) ?el" and ?co = "filter (\<lambda>i. concentrated (cs ! i)) ?el"
  have *: "i < length cs \<and> competes (cs ! i) \<and>
    (\<forall>j < length cs. competes (cs ! j) \<longrightarrow> rank_key w (cs ! i) \<le> rank_key w (cs ! j))"
  proof (cases "?du = []")
    case False
    then have i: "i = best_by (compareLockedDepthThenPool w) cs ?du"
      using assms by (auto simp: rankCandidates_def Let_def split: if_splits)
    have b: "i \<in> set ?du"
        "p \<in> set ?du \<Longrightarrow> (- the (mc_lockedDepth (cs ! i)), market_key w (cs ! i))
          \<le> (- the (mc_lockedDepth (cs ! p)), market_key w (cs ! p))" for p
      unfolding i using best_by_least [OF locked_order.js_comparator_axioms False] by blast+
    have "rank_key w (cs ! i) \<le> rank_key w (cs ! j)" if "j < length cs" "competes (cs ! j)" for j
      using b(1) b(2) [of j] that by (auto simp: rank_key_def competes_def)
    then show ?thesis using b(1) by (auto simp: competes_def)
  next
    case True
    then have i: "i = best_by (compareDepthVenueAndPool w) cs ?co" "?co \<noteq> []"
      using assms by (auto simp: rankCandidates_def Let_def split: if_splits)
    have b: "i \<in> set ?co" "p \<in> set ?co \<Longrightarrow> market_key w (cs ! i) \<le> market_key w (cs ! p)" for p
      unfolding i(1) using best_by_least [OF market_order.js_comparator_axioms i(2)] by blast+
    have nd: "\<not> durable (cs ! j)" if "j < length cs" "eligible (cs ! j)" for j
      using True that by (auto simp: filter_empty_conv)
    have "rank_key w (cs ! i) \<le> rank_key w (cs ! j)" if "j < length cs" "competes (cs ! j)" for j
      using b(1) b(2) [of j] nd [of i] nd [of j] that by (auto simp: rank_key_def competes_def)
    then show ?thesis using b(1) by (auto simp: competes_def)
  qed
  show "i < length cs" "competes (cs ! i)" using * by blast+
  show "j < length cs \<Longrightarrow> competes (cs ! j) \<Longrightarrow> rank_key w (cs ! i) \<le> rank_key w (cs ! j)" using * by blast
qed

lemma rank_none:
  "fst (rankCandidates w cs) = None \<longleftrightarrow> list_all (\<lambda>c. \<not> competes c) cs"
  by (auto simp: rankCandidates_def Let_def competes_def list_all_length filter_empty_conv)

end
