(* ===== verification/MarketProps.thy ===== *)
theory MarketProps
  imports MarketSelect
begin

text \<open>
  The guarantees of market selection: what a locking report claims is backed by the accounts read,
  the authentication rounds end with the best candidate the resolver accepts, and whatever
  \<open>selectReference\<close> chooses is the mandated Pump venue or an authenticated pool that competes.
\<close>

subsection \<open>Locked liquidity\<close>

text \<open>A verified custody account holds the LP mint under the authority, unencumbered.\<close>

definition custody_backed :: "web3 \<Rightarrow> account_reader \<Rightarrow> pubkey \<Rightarrow> custody_evidence \<Rightarrow> bool" where
  "custody_backed w reader lpMint e \<longleftrightarrow> ce_status e = Verified \<longrightarrow> (\<exists>acc.
    associatedTokenAddress w lpMint (ce_authority e) True TOKEN_PROGRAM_ID = Inr (ce_tokenAccount e) \<and>
    reader (ce_tokenAccount e) = Inr (Some acc) \<and> a_owner acc = TOKEN_PROGRAM_ID \<and>
    readPk w (a_data acc) 0 = Inr lpMint \<and> readPk w (a_data acc) 32 = Inr (ce_authority e) \<and>
    u64 (a_data acc) 64 = Inr (the (ce_amountAtoms e)) \<and> ce_amountAtoms e \<noteq> None)"

lemma inspect_backed:
  "inspectCustodyAccount w reader lpMint authority mechanism = Inr e \<Longrightarrow>
    custody_backed w reader lpMint e \<and> ce_authority e = authority"
  by (auto simp: inspectCustodyAccount_def custody_backed_def bindR_Inr_iff Let_def split: option.splits if_splits)

lemma verified_custody_nonneg:
  "list_all (custody_backed w reader lpMint) custody \<Longrightarrow> 0 \<le> verified_custody custody"
proof (induction custody)
  case (Cons e custody)
  have "0 \<le> (case ce_amountAtoms e of Some a \<Rightarrow> if ce_status e = Verified then a else 0 | None \<Rightarrow> 0)"
    using Cons.prems readLE_bounds by (fastforce simp: custody_backed_def u64_def split: option.splits)
  then show ?case using Cons by (simp add: verified_custody_def)
qed (simp add: verified_custody_def)

text \<open>The report with a locked depth: LP that is burned or in verified custody, out of all issued.\<close>

definition locked_claim :: "web3 \<Rightarrow> account_reader \<Rightarrow> locking_report \<Rightarrow> int \<Rightarrow> bool" where
  "locked_claim w reader report locked \<longleftrightarrow> (\<exists>lpMint acc issued supply.
    lk_lpMint report = Some lpMint \<and> reader lpMint = Inr (Some acc) \<and> a_owner acc = TOKEN_PROGRAM_ID \<and>
    u64 (a_data acc) 36 = Inr supply \<and> lk_issued report = Some issued \<and> supply \<le> issued \<and> 0 < issued \<and>
    list_all (custody_backed w reader lpMint) (lk_custody report) \<and>
    issued - supply + verified_custody (lk_custody report) \<le> issued \<and>
    0 \<le> locked \<and> locked \<le> lk_depthLamports report \<and>
    locked * issued \<le> lk_depthLamports report * (issued - supply + verified_custody (lk_custody report)) \<and>
    lk_depthLamports report * (issued - supply + verified_custody (lk_custody report)) < (locked + 1) * issued)"

text \<open>
  The locked depth of a pool is never overstated: it is the SOL depth times the share of the
  issued LP that is burned or held in a verified custody account, rounded down, never more than
  the depth; and every verified account was read as an unencumbered token account of that LP mint
  under the custody authority.
\<close>

theorem locked_depth_backed:
  assumes "measurePoolLocking w reader pool poolOwner venue data depth = Inr report"
    and "lk_lockedDepth report = Some locked" "0 \<le> depth"
  shows "locked_claim w reader report locked \<and> lk_depthLamports report = depth"
proof -
  obtain lpMint off issued acc circulating custody where r:
      "u64 data off = Inr issued" "reader lpMint = Inr (Some acc)" "a_owner acc = TOKEN_PROGRAM_ID"
      "u64 (a_data acc) 36 = Inr circulating" "issued \<noteq> 0" "circulating \<le> issued"
      "custody_accounts w reader venue lpMint = Inr custody"
      "report = locking_verdict pool poolOwner (ev_name venue) depth lpMint issued circulating custody"
    using measurePoolLocking_locked [OF assms(1)] assms(2) by auto
  have backed: "list_all (custody_backed w reader lpMint) custody"
    using r(7) by (auto simp: custody_accounts_def bindR_Inr_iff dest: inspect_backed split: if_splits)
  have "0 \<le> issued" using readLE_bounds r(1) by (auto simp: u64_def)
  moreover have "0 \<le> verified_custody custody" by (rule verified_custody_nonneg [OF backed])
  ultimately show ?thesis
    using r backed assms(2,3) quot_big_bounds [of depth "issued - circulating + verified_custody custody" issued]
    by (auto simp: locked_claim_def locking_verdict_def Let_def split: if_splits)
qed

text \<open>A Raydium v4 pool that issued 1000 LP tokens, of which 250 are still in circulation.\<close>

definition locked_pool_data :: "byte list" where
  "locked_pool_data = replicate 464 0 @ replicate 32 76 @ replicate 224 0 @ le_bytes 8 1000"

definition locked_reader :: account_reader where
  "locked_reader k = Inr (if k = example_key 76 then Some \<lparr>a_owner = TOKEN_PROGRAM_ID,
      a_data = replicate 36 0 @ le_bytes 8 250 @ [9, 1] @ replicate 36 0, a_lamports = None\<rparr> else None)"

lemma locked_pool_eval:
  "case measurePoolLocking example_web3 locked_reader (example_key 80) ''owner'' (hd ENUM_VENUES)
      locked_pool_data 40000000000 of
     Inr report \<Rightarrow> lk_lockedDepth report = Some 30000000000 | Inl e \<Rightarrow> False"
  by code_simp

lemma locked_depth_backed_witness:
  "\<exists>report. locked_claim example_web3 locked_reader report 30000000000 \<and>
    lk_depthLamports report = 40000000000"
proof -
  obtain report where "measurePoolLocking example_web3 locked_reader (example_key 80) ''owner''
      (hd ENUM_VENUES) locked_pool_data 40000000000 = Inr report"
      "lk_lockedDepth report = Some 30000000000"
    using locked_pool_eval by (auto split: sum.splits)
  from locked_depth_backed [OF this] show ?thesis by auto
qed

subsection \<open>The rounds\<close>

abbreviation refused :: "web3 \<Rightarrow> account_reader \<Rightarrow> pubkey \<Rightarrow> market_candidate \<Rightarrow> bool" where
  "refused w reader mint c \<equiv> (\<exists>e. resolveReference w reader mint (Some (mc_pool c)) = Inl e)"

lemma rejecting_one:
  assumes "i < length cs" "refused w reader mint (cs ! i)" "cs1 = cs[i := (cs ! i)\<lparr>mc_rejected := text\<rparr>]"
    and "j < length cs"
  shows "competes (cs1 ! j) \<Longrightarrow> \<not> refused w reader mint (cs1 ! j) \<Longrightarrow> cs1 ! j = cs ! j \<and> j \<noteq> i"
    "competes (cs ! j) \<Longrightarrow> \<not> refused w reader mint (cs ! j) \<Longrightarrow> cs1 ! j = cs ! j"
  using assms by (auto simp: nth_list_update split: if_splits)

lemma rounds_picked:
  "authenticate_rounds msg w reader mint n cs = Inr (Picked cs' i reference reason) \<Longrightarrow>
    length cs' = length cs \<and> i < length cs \<and> competes (cs ! i) \<and>
    resolveReference w reader mint (Some (mc_pool (cs ! i))) = Inr reference \<and>
    cs' ! i = (cs ! i)\<lparr>mc_block := Some (describeReference reference)\<rparr> \<and>
    (\<forall>j < length cs. competes (cs ! j) \<longrightarrow> rank_key w (cs ! j) < rank_key w (cs ! i) \<longrightarrow> refused w reader mint (cs ! j))"
proof (induction n arbitrary: cs)
  case (Suc n)
  obtain k why where rank: "rankCandidates w cs = (Some k, why)"
    using Suc.prems by (auto split: prod.splits option.splits)
  note k = rank_pick [OF rank]
  show ?case
  proof (cases "resolveReference w reader mint (Some (mc_pool (cs ! k)))")
    case (Inr ref)
    then have "i = k" "reference = ref" "cs' = cs[k := (cs ! k)\<lparr>mc_block := Some (describeReference ref)\<rparr>]"
      using Suc.prems rank by auto
    then show ?thesis using k Inr by (auto simp: not_less [symmetric])
  next
    case (Inl e)
    let ?cs1 = "cs[k := (cs ! k)\<lparr>mc_rejected := Some (take 200 (msg e))\<rparr>]"
    have "authenticate_rounds msg w reader mint n ?cs1 = Inr (Picked cs' i reference reason)"
      using Suc.prems rank Inl by (auto split: if_splits)
    note ih = Suc.IH [OF this]
    have refk: "refused w reader mint (cs ! k)" using Inl by blast
    have i: "i < length cs" "competes (?cs1 ! i)" "\<not> refused w reader mint (?cs1 ! i)" using ih by auto
    have eq: "?cs1 ! i = cs ! i" using rejecting_one(1) [OF k(1) refk refl i(1) i(2,3)] by blast
    have "refused w reader mint (cs ! j)" if j: "j < length cs" "competes (cs ! j)"
        "rank_key w (cs ! j) < rank_key w (cs ! i)" for j
    proof (rule ccontr)
      assume ok: "\<not> refused w reader mint (cs ! j)"
      then have "?cs1 ! j = cs ! j" by (rule rejecting_one(2) [OF k(1) refk refl j(1,2)])
      then show False using ih j ok eq by (metis length_list_update)
    qed
    then show ?thesis using ih eq by simp
  qed
qed simp

lemma rounds_nothing:
  "authenticate_rounds msg w reader mint n cs = Inr (NoPick cs' reason) \<Longrightarrow>
    \<forall>j < length cs. competes (cs ! j) \<longrightarrow> refused w reader mint (cs ! j)"
proof (induction n arbitrary: cs)
  case (Suc n)
  show ?case
  proof (cases "fst (rankCandidates w cs)")
    case None
    then show ?thesis using rank_none [of w cs] by (simp add: list_all_length)
  next
    case (Some k)
    then obtain why where rank: "rankCandidates w cs = (Some k, why)" by (metis prod.collapse)
    note k = rank_pick [OF rank]
    obtain e where e: "resolveReference w reader mint (Some (mc_pool (cs ! k))) = Inl e"
      using Suc.prems rank by (auto split: sum.splits)
    let ?cs1 = "cs[k := (cs ! k)\<lparr>mc_rejected := Some (take 200 (msg e))\<rparr>]"
    have "authenticate_rounds msg w reader mint n ?cs1 = Inr (NoPick cs' reason)"
      using Suc.prems rank e by (auto split: if_splits)
    note ih = Suc.IH [OF this]
    have refk: "refused w reader mint (cs ! k)" using e by blast
    show ?thesis
      using ih rejecting_one(2) [OF k(1) refk refl] by (metis length_list_update)
  qed
qed simp

lemma filter_update_less:
  "i < length xs \<Longrightarrow> P (xs ! i) \<Longrightarrow> \<not> P y \<Longrightarrow> Suc (length (filter P (xs[i := y]))) = length (filter P xs)"
proof (induction xs arbitrary: i)
  case (Cons x xs)
  then show ?case by (cases i) auto
qed simp

lemma rounds_enough:
  assumes "\<And>e. msg e \<noteq> []"
  shows "length (filter competes cs) < n \<Longrightarrow>
    authenticate_rounds msg w reader mint n cs \<noteq> Inr (Exhausted cs')"
proof (induction n arbitrary: cs)
  case (Suc n)
  show ?case
  proof (cases "fst (rankCandidates w cs)")
    case None
    then show ?thesis by (auto split: prod.splits)
  next
    case (Some k)
    then obtain why where rank: "rankCandidates w cs = (Some k, why)" by (metis prod.collapse)
    note k = rank_pick [OF rank]
    show ?thesis
    proof (cases "resolveReference w reader mint (Some (mc_pool (cs ! k)))")
      case (Inl e)
      let ?c = "(cs ! k)\<lparr>mc_rejected := Some (take 200 (msg e))\<rparr>"
      have "\<not> competes ?c" using assms [of e] by (simp add: competes_def eligible_def rejected_def)
      then have "Suc (length (filter competes (cs[k := ?c]))) = length (filter competes cs)"
        using filter_update_less [of k cs competes] k(1,2) by blast
      then show ?thesis using Suc rank Inl by auto
    qed (use rank in simp)
  qed
qed simp

text \<open>
  C18: The rounds end, and with the best reference there is: with at most one round more than there
  are candidates, either a candidate is picked that competes, that the resolver authenticates, and
  before which every better-ranked one was refused by the resolver; or nothing is picked and the
  resolver refuses every candidate that competes.
\<close>

theorem best_authentic_wins:
  assumes "authenticate_rounds msg w reader mint (Suc (length cs)) cs = Inr result" "\<And>e. msg e \<noteq> []"
  shows "case result of
      Picked cs' i reference reason \<Rightarrow> i < length cs \<and> competes (cs ! i) \<and>
        resolveReference w reader mint (Some (mc_pool (cs ! i))) = Inr reference \<and>
        {j. j < length cs \<and> competes (cs ! j) \<and> rank_key w (cs ! j) < rank_key w (cs ! i)}
          \<subseteq> {j. refused w reader mint (cs ! j)}
    | NoPick cs' reason \<Rightarrow> {c \<in> set cs. competes c} \<subseteq> {c. refused w reader mint c}
    | Exhausted cs' \<Rightarrow> False"
proof (cases result)
  case (Picked cs' i reference reason)
  then show ?thesis using rounds_picked assms(1) by fastforce
next
  case (NoPick cs' reason)
  then show ?thesis using rounds_nothing assms(1) by (fastforce simp: in_set_conv_nth)
next
  case (Exhausted cs')
  have "length (filter competes cs) < Suc (length cs)" by (simp add: less_Suc_eq_le)
  then show ?thesis
    using rounds_enough [of msg cs "Suc (length cs)" w reader mint cs', OF assms(2)] assms(1) Exhausted by simp
qed

text \<open>Two locked candidates, of which the better one is no pool at all.\<close>

definition locked_candidate :: "pubkey \<Rightarrow> int \<Rightarrow> market_candidate" where
  "locked_candidate k locked = (fresh_candidate (hd ENUM_VENUES) k)\<lparr>mc_depth := locked,
    mc_lockedDepth := Some locked, mc_meetsDepthFloor := True\<rparr>"

definition two_candidates :: "market_candidate list" where
  "two_candidates = [locked_candidate (example_key 70) 60000000000, locked_candidate (example_key 80) 50000000000]"

lemma two_candidates_eval:
  "case authenticate_rounds (\<lambda>_. ''refused'') example_web3 example_reader (example_key 84) 3 two_candidates of
     Inr (Picked cs i reference reason) \<Rightarrow> i = 1 \<and> mc_rejected (cs ! 0) = Some ''refused'' | _ \<Rightarrow> False"
  by code_simp

lemma best_authentic_wins_witness:
  "(\<exists>reference. resolveReference example_web3 example_reader (example_key 84)
      (Some (mc_pool (two_candidates ! 1))) = Inr reference) \<and>
    refused example_web3 example_reader (example_key 84) (two_candidates ! 0)"
proof -
  obtain cs reference reason where run: "authenticate_rounds (\<lambda>_. ''refused'') example_web3 example_reader
      (example_key 84) (Suc (length two_candidates)) two_candidates = Inr (Picked cs 1 reference reason)"
    using two_candidates_eval by (auto simp: two_candidates_def eval_nat_numeral
        split: sum.splits round_result.splits simp del: authenticate_rounds.simps)
  have "competes (two_candidates ! 0) \<and>
      rank_key example_web3 (two_candidates ! 0) < rank_key example_web3 (two_candidates ! 1)"
    by code_simp
  then show ?thesis
    using best_authentic_wins [OF run] by (auto simp: two_candidates_def)
qed

subsection \<open>The selection\<close>

lemma resolveReference_pool:
  "resolveReference w reader mint (Some k) = Inr reference \<Longrightarrow> rr_pool reference = k"
  by (auto simp: resolveReference_def res_simps elim: resolvePool_Inr split: if_splits)

lemma competes_block [simp]: "competes (c\<lparr>mc_block := b\<rparr>) \<longleftrightarrow> competes c"
  by (simp add: competes_def eligible_def rejected_def durable_def fungible_lp_def concentrated_def)

lemma conclusive_competes: "isConclusiveLockedAmm c \<Longrightarrow> competes c"
  by (auto simp: isConclusiveLockedAmm_def competes_def eligible_def durable_def split: option.splits)

lemma applyDurability_pool:
  "applyDurability w reader k venue data depth c = Inr c' \<Longrightarrow> mc_pool c' = mc_pool c"
  by (auto simp: applyDurability_def bindR_Inr_iff)

lemma resolveCandidate_Inr:
  assumes "resolveCandidate w reader mint (Some k) = Inr (c, reference)"
  shows "resolveReference w reader mint (Some k) = Inr reference \<and> mc_pool c = k"
proof -
  have r: "resolveReference w reader mint (Some k) = Inr reference"
    using assms by (auto simp: resolveCandidate_def Let_def bindR_Inr_iff split: option.split_asm)
  then show ?thesis
    using assms resolveReference_pool [OF r]
    by (auto simp: resolveCandidate_def Let_def elim!: bindR_InrE dest!: applyDurability_pool split: option.split_asm)
qed

lemma route_plan_Inr:
  assumes "candidateFromRoutePlan w reader mint plan = Inr (c, reference)"
  shows "resolveReference w reader mint (Some (mc_pool c)) = Inr reference"
proof -
  obtain k where "resolveCandidate w reader mint (Some k) = Inr (c, reference)"
    using assms by (auto simp: candidateFromRoutePlan_def split: option.split_asm list.split_asm if_split_asm)
  then show ?thesis using resolveCandidate_Inr by blast
qed

text \<open>What a choice rests on: the Pump venue of a live curve, or an authenticated pool that competes.\<close>

definition grounded :: "web3 \<Rightarrow> account_reader \<Rightarrow> pubkey \<Rightarrow> market_selection \<Rightarrow> bool" where
  "grounded w reader mint sel \<longleftrightarrow> (case ms_chosen sel of None \<Rightarrow> True | Some (c, reference) \<Rightarrow>
    mc_pool c = rr_pool reference \<and>
    (if ms_branch sel = MarketEnumeration
     then resolveReference w reader mint (Some (mc_pool c)) = Inr reference \<and> competes c
     else resolvePumpVenue w reader mint = Inr reference \<and> hasPumpCurve w reader mint = Inr True))"

lemma grounded_none [simp]:
  "grounded w reader mint (enumerated mint None reason cs)"
  "grounded w reader mint (unsupportedDammSelection mint cs)"
  by (simp_all add: grounded_def enumerated_def unsupportedDammSelection_def)

lemma grounded_authentic:
  "resolveReference w reader mint (Some (mc_pool c)) = Inr reference \<Longrightarrow> competes c \<Longrightarrow>
    grounded w reader mint (enumerated mint (Some (c, reference)) reason cs)"
  by (simp add: grounded_def enumerated_def resolveReference_pool)

lemma grounded_picked:
  assumes "authenticate_rounds msg w reader mint n cs = Inr (Picked cs' i reference reason)"
  shows "grounded w reader mint (enumerated mint (Some (cs' ! i, reference)) why ds)"
  using rounds_picked [OF assms] by (intro grounded_authentic) auto

lemma pump_branch_grounded:
  assumes "pump_branch w reader mint hint = Inr (Some sel)"
  shows "grounded w reader mint sel"
proof -
  obtain acc where acc: "pump_curve_account w reader mint = Inr (Some acc)"
    using assms by (auto simp: pump_branch_def bindR_Inr_iff split: option.split_asm)
  obtain live where
    run: "(if live then bindR (resolvePumpVenue w reader mint) (\<lambda>reference.
          Inr (Some (pump_selection mint (a_data acc ! 48 = 1) reference)))
        else (case hint of None \<Rightarrow> Inr None
          | Some plan \<Rightarrow> (case bindR plan (candidateFromRoutePlan w reader mint) of
              Inl _ \<Rightarrow> Inr None
            | Inr (hinted, reference) \<Rightarrow>
                if isConclusiveLockedAmm hinted
                then Inr (Some (enumerated mint (Some (hinted, reference)) LegacyHint [hinted]))
                else Inr None))) = Inr (Some sel)"
    using assms acc by (auto simp: pump_branch_def Let_def bindR_Inr_iff)
  show ?thesis
  proof (cases live)
    case True
    then show ?thesis
      using run acc by (auto simp: bindR_Inr_iff grounded_def pump_selection_def hasPumpCurve_def Let_def)
  next
    case False
    then show ?thesis
      using run by (auto simp: bindR_Inr_iff intro!: grounded_authentic conclusive_competes
          dest: route_plan_Inr split: option.split_asm sum.split_asm if_split_asm)
  qed
qed

lemma position_phase_grounded:
  "position_phase msg w reader gpa now mint damm amm = Inr sel \<Longrightarrow> grounded w reader mint sel"
  by (auto simp del: authenticate_rounds.simps simp: position_phase_def Let_def grounded_picked elim!: bindR_InrE
      split: sum.split_asm round_result.split_asm if_split_asm)

text \<open>
  C19: Whatever is selected is grounded in accounts: either the mint has a live Pump curve and the
  reference is what the resolver makes of its Pump venue, or the reference is what the resolver
  makes of the chosen pool itself, which clears the depth gate, was not rejected, and is a
  fungible-LP pool with enough locked depth or a position pool. A route hint alone never suffices.
\<close>

theorem selected_reference_grounded:
  assumes "selectReference msg w reader gpa now mint hint = Inr sel"
  shows "grounded w reader mint sel"
proof -
  obtain pump where pump: "pump_branch w reader mint hint = Inr pump"
    using assms by (auto simp: selectReference_def bindR_Inr_iff)
  show ?thesis
  proof (cases pump)
    case None
    then show ?thesis
      using assms pump
      by (auto simp del: authenticate_rounds.simps simp: selectReference_def Let_def grounded_picked
          position_phase_grounded elim!: bindR_InrE split: sum.split_asm round_result.split_asm if_split_asm)
  qed (use assms pump pump_branch_grounded in \<open>auto simp: selectReference_def\<close>)
qed

lemma pump_selected_eval:
  "case selectReference (\<lambda>_. ''refused'') example_web3 (pump_reader False) (\<lambda>_. Inr []) 0 (example_key 84) None of
     Inr sel \<Rightarrow> ms_branch sel = PumpCurve \<and> ms_chosen sel \<noteq> None | Inl e \<Rightarrow> False"
  by code_simp

lemma selected_reference_grounded_witness:
  "\<exists>sel. ms_branch sel = PumpCurve \<and> ms_chosen sel \<noteq> None \<and>
    grounded example_web3 (pump_reader False) (example_key 84) sel"
proof -
  obtain sel where "selectReference (\<lambda>_. ''refused'') example_web3 (pump_reader False) (\<lambda>_. Inr []) 0
      (example_key 84) None = Inr sel" "ms_branch sel = PumpCurve" "ms_chosen sel \<noteq> None"
    using pump_selected_eval by (auto split: sum.splits)
  then show ?thesis using selected_reference_grounded by blast
qed

end
