(* ===== verification/Community.thy ===== *)
theory Community
  imports IndexerStore JsSort UploadGate "HOL-Library.Char_ord" "HOL-Library.List_Lexorder"
    "HOL-Library.Product_Lexorder"
begin

text \<open>
  What the site reads from the index, the second half of \<open>app/community-indexer.ts\<close>: the rows of
  one vault or one launch, read page by page and added up, the configuration of a vault's latest
  burn, and the leaderboard over all rows. The SQL queries are functions of the table
  \<open>cd_legs\<close>; rows that tie in an \<open>ORDER BY\<close> keep the order of the table. \<open>localeCompare\<close>
  is an argument. A JavaScript \<open>Map\<close> or \<open>Set\<close> is a list in the order of insertion.
\<close>

subsection \<open>Maps and sets in insertion order\<close>

definition set_add :: "'a \<Rightarrow> 'a list \<Rightarrow> 'a list" where
  "set_add x xs = (if x \<in> set xs then xs else xs @ [x])"

text \<open>\<open>m.set(key, step(m.get(key) ?? init))\<close>, the loop body of every summary.\<close>

definition tally :: "('r \<Rightarrow> 'k) \<Rightarrow> ('r \<Rightarrow> 'v \<Rightarrow> 'v) \<Rightarrow> 'v \<Rightarrow> 'r \<Rightarrow> ('k \<times> 'v) list \<Rightarrow> ('k \<times> 'v) list" where
  "tally key step init row m =
    upsert (key row) (step row (case map_of m (key row) of None \<Rightarrow> init | Some v \<Rightarrow> v)) m"

definition grouped :: "('r \<Rightarrow> 'k) \<Rightarrow> ('r \<Rightarrow> 'v \<Rightarrow> 'v) \<Rightarrow> 'v \<Rightarrow> 'r list \<Rightarrow> ('k \<times> 'v) list" where
  "grouped key step init rows = fold (tally key step init) rows []"

lemma set_set_add [simp]: "set (set_add x xs) = insert x (set xs)"
  by (auto simp: set_add_def)

lemma distinct_set_add [simp]: "distinct (set_add x xs) \<longleftrightarrow> distinct xs"
  by (simp add: set_add_def)

lemma fold_set_add: "set (fold (\<lambda>r. set_add (f r)) rows xs) = f ` set rows \<union> set xs"
  "distinct xs \<Longrightarrow> distinct (fold (\<lambda>r. set_add (f r)) rows xs)"
  by (induction rows arbitrary: xs) simp_all

lemma length_fold_set_add: "length (fold (\<lambda>r. set_add (f r)) rows []) = card (f ` set rows)"
  using distinct_card [OF fold_set_add(2) [of "[]" f rows]] by (simp add: fold_set_add(1))

lemma map_fst_upsert: "map fst (upsert k v m) = set_add k (map fst m)"
  by (induction k v m rule: upsert.induct) (auto simp: set_add_def)

lemma map_of_grouped:
  "map_of (fold (tally key step init) rows m) k =
    (let own = filter (\<lambda>r. key r = k) rows in if own = [] then map_of m k
     else Some (fold step own (case map_of m k of None \<Rightarrow> init | Some v \<Rightarrow> v)))"
  by (induction rows arbitrary: m) (auto simp: tally_def map_of_upsert Let_def split: option.splits)

lemma keys_grouped: "map fst (fold (tally key step init) rows m) = fold (\<lambda>r. set_add (key r)) rows (map fst m)"
  by (induction rows arbitrary: m) (simp_all add: tally_def map_fst_upsert)

lemma set_keys_grouped [simp]: "fst ` set (grouped key step init rows) = key ` set rows"
  using keys_grouped [of key step init rows "[]"] fold_set_add(1) [of key rows "[]"]
  by (simp add: grouped_def flip: set_map)

lemma distinct_keys_grouped [simp]: "distinct (map fst (grouped key step init rows))"
  by (simp add: grouped_def keys_grouped fold_set_add(2))

text \<open>An entry of a group holds what its own rows add up to.\<close>

lemma grouped_entry:
  "(k, v) \<in> set (grouped key step init rows) \<longleftrightarrow>
    k \<in> key ` set rows \<and> v = fold step (filter (\<lambda>r. key r = k) rows) init"
proof -
  have "(k, v) \<in> set (grouped key step init rows) \<longleftrightarrow> map_of (grouped key step init rows) k = Some v"
    by (simp add: map_of_eq_Some_iff)
  also have "\<dots> \<longleftrightarrow> k \<in> key ` set rows \<and> v = fold step (filter (\<lambda>r. key r = k) rows) init"
    by (auto simp: grouped_def map_of_grouped Let_def filter_empty_conv image_iff)
  finally show ?thesis .
qed

lemma sum_filter_keys:
  "finite K \<Longrightarrow> key ` set rows \<subseteq> K \<Longrightarrow>
    (\<Sum>k \<in> K. sum_list (map f (filter (\<lambda>r. key r = k) rows))) = (sum_list (map f rows) :: int)"
proof (induction rows)
  case (Cons r rows)
  have "(\<Sum>k \<in> K. sum_list (map f (filter (\<lambda>x. key x = k) (r # rows))))
      = (\<Sum>k \<in> K. (if key r = k then f r else 0) + sum_list (map f (filter (\<lambda>x. key x = k) rows)))"
    by (rule sum.cong) auto
  also have "\<dots> = f r + sum_list (map f rows)"
    using Cons by (simp add: sum.distrib)
  finally show ?case by simp
qed simp

subsection \<open>Pages\<close>

text \<open>\<open>LIMIT 1000 OFFSET ?\<close> until a page is short; the query's rows are the argument.\<close>

definition QUERY_PAGE :: nat where
  "QUERY_PAGE = 1000"

function read_pages :: "'a list \<Rightarrow> nat \<Rightarrow> 'a list" where
  "read_pages result offset =
    (let page = take QUERY_PAGE (drop offset result)
     in if length page < QUERY_PAGE then page else page @ read_pages result (offset + length page))"
  by pat_completeness auto
termination
  by (relation "measure (\<lambda>(result, offset). length result - offset)") (auto simp: QUERY_PAGE_def)

declare read_pages.simps [simp del]

lemma read_pages_drop: "read_pages result offset = drop offset result"
proof (induction result offset rule: read_pages.induct)
  case (1 result offset)
  let ?page = "take QUERY_PAGE (drop offset result)"
  show ?case
  proof (cases "length ?page < QUERY_PAGE")
    case True
    then show ?thesis by (subst read_pages.simps) (auto simp: Let_def min_def split: if_splits)
  next
    case False
    have "read_pages result offset = ?page @ read_pages result (offset + length ?page)"
      using False by (subst read_pages.simps) (simp only: Let_def if_False)
    also have "\<dots> = ?page @ drop QUERY_PAGE (drop offset result)"
      using 1 [OF refl False] False by (simp add: min_def add.commute split: if_splits)
    finally show ?thesis unfolding append_take_drop_id .
  qed
qed

lemma read_pages_all [simp]: "read_pages result 0 = result"
  by (simp add: read_pages_drop)

text \<open>\<open>ORDER BY slot ASC, instruction_index ASC, leg_index ASC\<close>.\<close>

definition by_position :: "indexed_leg list \<Rightarrow> indexed_leg list" where
  "by_position = sort_key (\<lambda>r. (il_slot r, il_instructionIndex r, il_legIndex r))"

definition vault_query :: "community_db \<Rightarrow> string \<Rightarrow> indexed_leg list" where
  "vault_query db vault = by_position (filter (\<lambda>r. il_vault r = vault) (cd_legs db))"

definition launch_query :: "community_db \<Rightarrow> string \<Rightarrow> indexed_leg list" where
  "launch_query db launchMint = by_position (filter (\<lambda>r. il_launchMint r = launchMint) (cd_legs db))"

lemma set_queries [simp]:
  "set (vault_query db vault) = {r \<in> set (cd_legs db). il_vault r = vault}"
  "set (launch_query db launchMint) = {r \<in> set (cd_legs db). il_launchMint r = launchMint}"
  by (auto simp: vault_query_def launch_query_def by_position_def)

subsection \<open>Configurations\<close>

record summary_leg =
  sg_mint :: string
  sg_bps :: int
  sg_referencePool :: string

record vault_config =
  vc_launchMint :: string
  vc_vault :: string
  vc_legs :: "summary_leg option list"

record latest_call =
  lc_call :: string
  lc_slot :: int
  lc_instructionIndex :: nat
  lc_signature :: string

definition call_key :: "indexed_leg \<Rightarrow> string" where
  "call_key row = il_signature row @ '':'' @ js_of_int (int (il_instructionIndex row))"

definition config_key :: "indexed_leg \<Rightarrow> string" where
  "config_key row = il_launchMint row @ '':'' @ il_vault row"

text \<open>A row is of a later call than the one noted: slot, then instruction, then signature.\<close>

definition newer :: "indexed_leg \<Rightarrow> latest_call \<Rightarrow> bool" where
  "newer row current \<longleftrightarrow> il_slot row > lc_slot current \<or>
    (il_slot row = lc_slot current \<and> (il_instructionIndex row > lc_instructionIndex current \<or>
      (il_instructionIndex row = lc_instructionIndex current \<and> il_signature row > lc_signature current)))"

definition call_of :: "indexed_leg \<Rightarrow> latest_call" where
  "call_of row = \<lparr>lc_call = call_key row, lc_slot = il_slot row,
    lc_instructionIndex = il_instructionIndex row, lc_signature = il_signature row\<rparr>"

definition note_call :: "indexed_leg \<Rightarrow> (string \<times> latest_call) list \<Rightarrow> (string \<times> latest_call) list" where
  "note_call row latest = (case map_of latest (config_key row) of
     None \<Rightarrow> upsert (config_key row) (call_of row) latest
   | Some current \<Rightarrow>
       if newer row current then upsert (config_key row) (call_of row) latest else latest)"

text \<open>\<open>legs[i] = leg\<close>, which extends the array with holes.\<close>

definition set_leg :: "nat \<Rightarrow> 'a \<Rightarrow> 'a option list \<Rightarrow> 'a option list" where
  "set_leg i leg legs = (legs @ replicate (Suc i - length legs) None)[i := Some leg]"

definition summary_leg_of :: "indexed_leg \<Rightarrow> summary_leg" where
  "summary_leg_of row = \<lparr>sg_mint = il_targetMint row, sg_bps = il_bps row, sg_referencePool = il_referencePool row\<rparr>"

definition note_config ::
  "(string \<times> latest_call) list \<Rightarrow> indexed_leg \<Rightarrow> (string \<times> vault_config) list \<Rightarrow> (string \<times> vault_config) list" where
  "note_config latest row configs =
    (if map_option lc_call (map_of latest (config_key row)) \<noteq> Some (call_key row) then configs
     else (let config = (case map_of configs (config_key row) of Some config \<Rightarrow> config
             | None \<Rightarrow> \<lparr>vc_launchMint = il_launchMint row, vc_vault = il_vault row, vc_legs = []\<rparr>)
           in upsert (config_key row)
             (config\<lparr>vc_legs := set_leg (il_legIndex row) (summary_leg_of row) (vc_legs config)\<rparr>) configs))"

definition latestVaultConfigs :: "indexed_leg list \<Rightarrow> (string \<times> vault_config) list" where
  "latestVaultConfigs rows = fold (note_config (fold note_call rows [])) rows []"

subsection \<open>Totals\<close>

definition later :: "int option \<Rightarrow> int option \<Rightarrow> int option" where
  "later blockTime noted = (case blockTime of None \<Rightarrow> noted
     | Some t \<Rightarrow> (case noted of None \<Rightarrow> Some t | Some l \<Rightarrow> if t > l then Some t else noted))"

record target_tally =
  tt_sol :: int
  tt_burned :: int
  tt_calls :: "string list"
  tt_lastBurnAt :: "int option"

definition add_target :: "indexed_leg \<Rightarrow> target_tally \<Rightarrow> target_tally" where
  "add_target row t = \<lparr>tt_sol = tt_sol t + il_solLamports row, tt_burned = tt_burned t + il_burnedAtoms row,
    tt_calls = set_add (call_key row) (tt_calls t), tt_lastBurnAt = later (il_blockTime row) (tt_lastBurnAt t)\<rparr>"

definition no_target :: target_tally where
  "no_target = \<lparr>tt_sol = 0, tt_burned = 0, tt_calls = [], tt_lastBurnAt = None\<rparr>"

record target_total =
  ta_mint :: string
  ta_solLamports :: int
  ta_burnedAtoms :: int
  ta_burnCount :: nat
  ta_lastBurnAt :: "int option"

text \<open>\<open>l === r ? localeCompare : l > r ? -1 : 1\<close>.\<close>

definition compare_sol :: "(string \<Rightarrow> string \<Rightarrow> int) \<Rightarrow> ('a \<Rightarrow> int) \<Rightarrow> ('a \<Rightarrow> string) \<Rightarrow> 'a \<Rightarrow> 'a \<Rightarrow> int" where
  "compare_sol localeCompare sol name left right =
    (if sol left = sol right then localeCompare (name left) (name right)
     else if sol left > sol right then - 1 else 1)"

record vault_totals =
  vt_solLamports :: int
  vt_burnCount :: nat
  vt_launchMints :: "string list"
  vt_lastBurnAt :: "int option"
  vt_targets :: "target_total list"

definition aggregateVaultBurnRows :: "(string \<Rightarrow> string \<Rightarrow> int) \<Rightarrow> indexed_leg list \<Rightarrow> vault_totals" where
  "aggregateVaultBurnRows localeCompare rows = \<lparr>
    vt_solLamports = fold (\<lambda>row total. total + il_solLamports row) rows 0,
    vt_burnCount = length (fold (\<lambda>row. set_add (call_key row)) rows []),
    vt_launchMints = sort (fold (\<lambda>row. set_add (il_launchMint row)) rows []),
    vt_lastBurnAt = fold (\<lambda>row. later (il_blockTime row)) rows None,
    vt_targets = js_sort (compare_sol localeCompare ta_solLamports ta_mint)
      (map (\<lambda>(mint, t). \<lparr>ta_mint = mint, ta_solLamports = tt_sol t, ta_burnedAtoms = tt_burned t,
        ta_burnCount = length (tt_calls t), ta_lastBurnAt = tt_lastBurnAt t\<rparr>)
        (grouped il_targetMint add_target no_target rows))\<rparr>"

subsection \<open>The answers\<close>

text \<open>What is reported of the index itself.\<close>

record index_report =
  ir_updatedAt :: int
  ir_slot :: int
  ir_backfillComplete :: bool

definition index_report_of :: "community_db \<Rightarrow> index_report" where
  "index_report_of db = \<lparr>ir_updatedAt = is_lastIndexedAt (cd_state db),
    ir_slot = is_lastIndexedSlot (cd_state db), ir_backfillComplete = is_backfillComplete (cd_state db)\<rparr>"

record vault_summary =
  vs_vault :: string
  vs_totals :: vault_totals
  vs_config :: "vault_config option"
  vs_index :: index_report

text \<open>A code is an answer of status 400.\<close>

definition communityVaultSummary ::
  "(string \<Rightarrow> string \<Rightarrow> int) \<Rightarrow> community_db \<Rightarrow> string \<Rightarrow> string + vault_summary" where
  "communityVaultSummary localeCompare db vault = (case decodeBase58 vault of
     Inl _ \<Rightarrow> Inl ''INVALID_VAULT''
   | Inr decoded \<Rightarrow>
      if length decoded \<noteq> 32 then Inl ''INVALID_VAULT''
      else (let rows = read_pages (vault_query db vault) 0;
                configs = map snd (latestVaultConfigs (map (\<lambda>row. row\<lparr>il_vault := vault\<rparr>) rows))
            in Inr \<lparr>vs_vault = vault, vs_totals = aggregateVaultBurnRows localeCompare rows,
                 vs_config = (case configs of [] \<Rightarrow> None | config # _ \<Rightarrow> Some config),
                 vs_index = index_report_of db\<rparr>))"

record vault_tally =
  va_sol :: int
  va_calls :: "string list"
  va_targets :: "string list"
  va_lastBurnAt :: "int option"

definition add_vault :: "indexed_leg \<Rightarrow> vault_tally \<Rightarrow> vault_tally" where
  "add_vault row v = \<lparr>va_sol = va_sol v + il_solLamports row, va_calls = set_add (call_key row) (va_calls v),
    va_targets = set_add (il_targetMint row) (va_targets v),
    va_lastBurnAt = later (il_blockTime row) (va_lastBurnAt v)\<rparr>"

definition no_vault :: vault_tally where
  "no_vault = \<lparr>va_sol = 0, va_calls = [], va_targets = [], va_lastBurnAt = None\<rparr>"

record vault_line =
  vl_vault :: string
  vl_solLamports :: int
  vl_burnCount :: nat
  vl_targetCount :: nat
  vl_lastBurnAt :: "int option"
  vl_config :: "vault_config option"

record launch_summary =
  la_launchMint :: string
  la_solLamports :: int
  la_burnCount :: nat
  la_vaultCount :: nat
  la_targetCount :: nat
  la_lastBurnAt :: "int option"
  la_vaults :: "vault_line list"
  la_index :: index_report

definition communityLaunchSummary ::
  "(string \<Rightarrow> string \<Rightarrow> int) \<Rightarrow> community_db \<Rightarrow> string \<Rightarrow> string + launch_summary" where
  "communityLaunchSummary localeCompare db launchMint =
    (if \<not> validPubkey launchMint then Inl ''INVALID_LAUNCH''
     else (let rows = read_pages (launch_query db launchMint) 0;
               configs = latestVaultConfigs (map (\<lambda>row. row\<lparr>il_launchMint := launchMint\<rparr>) rows);
               vaults = grouped il_vault add_vault no_vault rows
           in Inr \<lparr>la_launchMint = launchMint,
                la_solLamports = fold (\<lambda>row total. total + il_solLamports row) rows 0,
                la_burnCount = length (fold (\<lambda>row. set_add (call_key row)) rows []),
                la_vaultCount = length vaults,
                la_targetCount = length (fold (\<lambda>row. set_add (il_targetMint row)) rows []),
                la_lastBurnAt = fold (\<lambda>row. later (il_blockTime row)) rows None,
                la_vaults = js_sort (compare_sol localeCompare vl_solLamports vl_vault)
                  (map (\<lambda>(vault, v). \<lparr>vl_vault = vault, vl_solLamports = va_sol v,
                    vl_burnCount = length (va_calls v), vl_targetCount = length (va_targets v),
                    vl_lastBurnAt = va_lastBurnAt v,
                    vl_config = map_of configs (launchMint @ '':'' @ vault)\<rparr>) vaults),
                la_index = index_report_of db\<rparr>))"

subsection \<open>The leaderboard\<close>

text \<open>
  \<open>GROUP BY\<close> with its aggregates: a group is a key with its rows, and the groups come in the
  order of their total, largest first, then of their key.
\<close>

definition sol_of :: "indexed_leg list \<Rightarrow> int" where
  "sol_of rows = sum_list (map il_solLamports rows)"

definition ranked_groups :: "(indexed_leg \<Rightarrow> string) \<Rightarrow> indexed_leg list \<Rightarrow> (string \<times> indexed_leg list) list" where
  "ranked_groups key rows = sort_key (\<lambda>(k, own). (- sol_of own, k))
    (map (\<lambda>k. (k, filter (\<lambda>row. key row = k) rows)) (dedup (map key rows)))"

definition count_distinct :: "(indexed_leg \<Rightarrow> 'a) \<Rightarrow> indexed_leg list \<Rightarrow> nat" where
  "count_distinct f rows = length (dedup (map f rows))"

record community_line =
  co_mint :: string
  co_solLamports :: int
  co_burnedAtoms :: int
  co_burnCount :: nat
  co_vaultCount :: nat
  co_launchCount :: nat
  co_lastBurnAt :: "int option"
  co_decimals :: "int option"
  co_currentSupplyAtoms :: "string option"

text \<open>The sum of the burned atoms of a mint, read page by page.\<close>

definition exactBurnedAtoms :: "community_db \<Rightarrow> string \<Rightarrow> int" where
  "exactBurnedAtoms db mint = fold (\<lambda>row total. total + il_burnedAtoms row)
    (read_pages (filter (\<lambda>row. il_targetMint row = mint) (cd_legs db)) 0) 0"

definition community_line_of :: "community_db \<Rightarrow> string \<times> indexed_leg list \<Rightarrow> community_line" where
  "community_line_of db entry = (case entry of (mint, own) \<Rightarrow>
    (let known = find (\<lambda>m. tk_mint m = mint) (cd_mints db) in
     \<lparr>co_mint = mint, co_solLamports = sol_of own, co_burnedAtoms = exactBurnedAtoms db mint,
      co_burnCount = count_distinct call_key own, co_vaultCount = count_distinct il_vault own,
      co_launchCount = count_distinct il_launchMint own,
      co_lastBurnAt = fold (\<lambda>row. later (il_blockTime row)) own None,
      co_decimals = map_option tk_decimals known, co_currentSupplyAtoms = map_option tk_supplyAtoms known\<rparr>))"

text \<open>
  \<open>ranked_vaults\<close> with \<open>vault_rank = 1\<close>, \<open>latest_calls\<close> with \<open>call_rank = 1\<close>, and the rows of
  that call: of each launch, the legs of the latest burn of its largest vault.
\<close>

definition primary_rows :: "indexed_leg list \<Rightarrow> string \<Rightarrow> indexed_leg list" where
  "primary_rows rows launch =
    (let own = filter (\<lambda>row. il_launchMint row = launch) rows;
         vault = fst (hd (ranked_groups il_vault own));
         of_vault = filter (\<lambda>row. il_vault row = vault) own;
         latest = last (sort_key (\<lambda>row. (il_slot row, il_instructionIndex row, il_signature row)) of_vault)
     in sort_key il_legIndex (filter (\<lambda>row. il_signature row = il_signature latest \<and>
          il_instructionIndex row = il_instructionIndex latest) of_vault))"

definition primary_query :: "indexed_leg list \<Rightarrow> indexed_leg list" where
  "primary_query rows = concat (map (primary_rows rows) (sort (dedup (map il_launchMint rows))))"

record launch_line =
  ll_mint :: string
  ll_solLamports :: int
  ll_burnCount :: nat
  ll_vaultCount :: nat
  ll_targetCount :: nat
  ll_lastBurnAt :: "int option"
  ll_config :: "vault_config option"

definition launch_line_of :: "(string \<times> vault_config) list \<Rightarrow> string \<times> indexed_leg list \<Rightarrow> launch_line" where
  "launch_line_of configs entry = (case entry of (launch, own) \<Rightarrow>
    \<lparr>ll_mint = launch, ll_solLamports = sol_of own, ll_burnCount = count_distinct call_key own,
     ll_vaultCount = count_distinct il_vault own, ll_targetCount = count_distinct il_targetMint own,
     ll_lastBurnAt = fold (\<lambda>row. later (il_blockTime row)) own None,
     ll_config = find (\<lambda>config. vc_launchMint config = launch) (map snd configs)\<rparr>)"

record leaderboard =
  lb_totalSolLamports :: int
  lb_totalBurns :: nat
  lb_communityCount :: nat
  lb_launchCount :: nat
  lb_communities :: "community_line list"
  lb_launches :: "launch_line list"
  lb_index :: index_report

definition communityLeaderboard :: "community_db \<Rightarrow> leaderboard" where
  "communityLeaderboard db =
    (let rows = cd_legs db;
         communities = map (community_line_of db) (take 250 (ranked_groups il_targetMint rows));
         launches = take 100 (ranked_groups il_launchMint rows);
         configs = latestVaultConfigs (primary_query rows)
     in \<lparr>lb_totalSolLamports = fold (\<lambda>c total. total + co_solLamports c) communities 0,
         lb_totalBurns = count_distinct (\<lambda>row. (il_signature row, il_instructionIndex row)) rows,
         lb_communityCount = length communities, lb_launchCount = length launches,
         lb_communities = communities, lb_launches = map (launch_line_of configs) launches,
         lb_index = index_report_of db\<rparr>)"

end
