(* ===== verification/CommunityProps.thy ===== *)
theory CommunityProps
  imports Community
begin

text \<open>
  What the summaries of the index are worth: their totals are those of the table, the configuration
  they report is that of the latest burn, and the totals of the leaderboard cover the listed
  communities only.
\<close>

subsection \<open>Keys and sums\<close>

lemma js_of_int_nat_digits: "list_all is_digit (js_of_int (int n))" "decimal_value (js_of_int (int n)) = int n"
  using dec_digits_digits [of "int n"] by (simp_all add: js_of_int_def)

lemma colon_free: "list_all is_digit d \<Longrightarrow> CHR '':'' \<notin> set d"
  by (auto simp: list_all_iff is_digit_def in_range_def)

lemma split_last_colon:
  assumes "a @ CHR '':'' # d = b @ CHR '':'' # e" "CHR '':'' \<notin> set d" "CHR '':'' \<notin> set e"
  shows "a = b \<and> d = e"
proof -
  have "takeWhile (\<lambda>c. c \<noteq> CHR '':'') (u @ CHR '':'' # z) = u" if "CHR '':'' \<notin> set u" for u z :: string
    using that by (induction u) auto
  then have *: "takeWhile (\<lambda>c. c \<noteq> CHR '':'') (rev (x @ CHR '':'' # y)) = rev y" if "CHR '':'' \<notin> set y" for x y :: string
    using that by simp
  have "d = e" using arg_cong [OF assms(1), of "\<lambda>s. takeWhile (\<lambda>c. c \<noteq> CHR '':'') (rev s)"] *[OF assms(2), of a] *[OF assms(3), of b]
    by simp
  then show ?thesis using assms(1) by simp
qed

lemma call_key_iff:
  "call_key r = call_key r' \<longleftrightarrow> il_signature r = il_signature r' \<and> il_instructionIndex r = il_instructionIndex r'"
proof
  assume eq: "call_key r = call_key r'"
  then have "il_signature r = il_signature r' \<and>
      js_of_int (int (il_instructionIndex r)) = js_of_int (int (il_instructionIndex r'))"
    by (intro split_last_colon colon_free js_of_int_nat_digits) (simp add: call_key_def)
  then show "il_signature r = il_signature r' \<and> il_instructionIndex r = il_instructionIndex r'"
    by (metis js_of_int_nat_digits(2) of_nat_eq_iff)
qed (simp add: call_key_def)

definition call_pair :: "indexed_leg \<Rightarrow> string \<times> nat" where
  "call_pair r = (il_signature r, il_instructionIndex r)"

lemma card_calls: "card (call_key ` set rows) = card (call_pair ` set rows)"
proof (rule bij_betw_same_card [of "\<lambda>k. call_pair (SOME r. call_key r = k)"])
  have "call_pair (SOME r'. call_key r' = call_key r) = call_pair r" for r
    by (rule someI2 [of _ r]) (auto simp: call_key_iff call_pair_def)
  then show "bij_betw (\<lambda>k. call_pair (SOME r. call_key r = k)) (call_key ` set rows) (call_pair ` set rows)"
    by (auto simp: bij_betw_def inj_on_def call_key_iff call_pair_def image_iff)
qed

lemma fold_sum: "fold (\<lambda>row total. total + f row) rows a = a + sum_list (map f rows)" for a :: int
  by (induction rows arbitrary: a) simp_all

lemma count_distinct_card [simp]: "count_distinct f rows = card (f ` set rows)"
  unfolding count_distinct_def using distinct_card [OF distinct_dedup, of "map f rows"] by simp

text \<open>The latest of the stamps that are there.\<close>

definition latest_time :: "int option \<Rightarrow> int option set \<Rightarrow> bool" where
  "latest_time t stamps \<longleftrightarrow> (case t of None \<Rightarrow> stamps \<subseteq> {None}
     | Some m \<Rightarrow> Some m \<in> stamps \<and> stamps \<subseteq> insert None (Some ` {..m}))"

lemma latest_time_insert: "latest_time m stamps \<Longrightarrow> latest_time (later t m) (insert t stamps)"
  by (fastforce simp: latest_time_def later_def split: option.splits)

lemma latest_time_fold: "latest_time (fold (\<lambda>row. later (f row)) rows None) (f ` set rows)"
  by (induction rows rule: rev_induct) (simp_all add: latest_time_insert, simp add: latest_time_def)

lemma fold_add_target:
  "fold add_target own t = \<lparr>tt_sol = tt_sol t + sum_list (map il_solLamports own),
    tt_burned = tt_burned t + sum_list (map il_burnedAtoms own),
    tt_calls = fold (\<lambda>row. set_add (call_key row)) own (tt_calls t),
    tt_lastBurnAt = fold (\<lambda>row. later (il_blockTime row)) own (tt_lastBurnAt t)\<rparr>"
  by (induction own arbitrary: t) (simp_all add: add_target_def)

lemma fold_add_vault:
  "fold add_vault own t = \<lparr>va_sol = va_sol t + sum_list (map il_solLamports own),
    va_calls = fold (\<lambda>row. set_add (call_key row)) own (va_calls t),
    va_targets = fold (\<lambda>row. set_add (il_targetMint row)) own (va_targets t),
    va_lastBurnAt = fold (\<lambda>row. later (il_blockTime row)) own (va_lastBurnAt t)\<rparr>"
  by (induction own arbitrary: t) (simp_all add: add_vault_def)

interpretation sol_order:
  js_key_comparator "compare_sol localeCompare sol name" "\<lambda>x. - sol x" for localeCompare sol name
  by unfold_locales (simp_all add: compare_sol_def)

subsection \<open>Exact totals\<close>

definition target_exact :: "indexed_leg list \<Rightarrow> target_total \<Rightarrow> bool" where
  "target_exact rows t \<longleftrightarrow> (let own = filter (\<lambda>r. il_targetMint r = ta_mint t) rows in
    ta_solLamports t = sum_list (map il_solLamports own) \<and>
    ta_burnedAtoms t = sum_list (map il_burnedAtoms own) \<and>
    ta_burnCount t = card (call_pair ` set own) \<and>
    latest_time (ta_lastBurnAt t) (il_blockTime ` set own))"

definition totals_exact :: "indexed_leg list \<Rightarrow> vault_totals \<Rightarrow> bool" where
  "totals_exact rows v \<longleftrightarrow>
    vt_solLamports v = sum_list (map il_solLamports rows) \<and>
    vt_burnCount v = card (call_pair ` set rows) \<and>
    set (vt_launchMints v) = il_launchMint ` set rows \<and> sorted (vt_launchMints v) \<and>
    latest_time (vt_lastBurnAt v) (il_blockTime ` set rows) \<and>
    distinct (map ta_mint (vt_targets v)) \<and> ta_mint ` set (vt_targets v) = il_targetMint ` set rows \<and>
    list_all (target_exact rows) (vt_targets v) \<and>
    sum_list (map ta_solLamports (vt_targets v)) = vt_solLamports v \<and>
    sorted (map (\<lambda>t. - ta_solLamports t) (vt_targets v))"

lemmas own_facts = latest_time_fold [where rows = "filter P rows" for P rows, simplified]
  card_calls [where rows = "filter P rows" for P rows, simplified]
  length_fold_set_add [where rows = "filter P rows" for P rows, simplified]

lemma vt_targets_exact:
  "t \<in> set (vt_targets (aggregateVaultBurnRows localeCompare rows)) \<Longrightarrow>
    target_exact rows t \<and> ta_mint t \<in> il_targetMint ` set rows"
  by (auto simp: aggregateVaultBurnRows_def grouped_entry fold_add_target no_target_def target_exact_def
      Let_def own_facts)

lemma vt_targets_mints:
  "mset (map ta_mint (vt_targets (aggregateVaultBurnRows localeCompare rows)))
    = mset (map fst (grouped il_targetMint add_target no_target rows))"
  by (simp add: aggregateVaultBurnRows_def multiset.map_comp comp_def case_prod_unfold)

lemma aggregate_exact: "totals_exact rows (aggregateVaultBurnRows localeCompare rows)"
proof -
  let ?v = "aggregateVaultBurnRows localeCompare rows"
  have mints: "distinct (map ta_mint (vt_targets ?v))" "ta_mint ` set (vt_targets ?v) = il_targetMint ` set rows"
    using mset_eq_imp_distinct_iff [OF vt_targets_mints] arg_cong [OF vt_targets_mints, of set_mset]
    by simp_all
  have own: "ta_solLamports t = sum_list (map il_solLamports (filter (\<lambda>r. il_targetMint r = ta_mint t) rows))"
    if "t \<in> set (vt_targets ?v)" for t
    using vt_targets_exact [OF that] by (simp add: target_exact_def Let_def)
  have "sum_list (map ta_solLamports (vt_targets ?v))
      = sum_list (map (\<lambda>k. sum_list (map il_solLamports (filter (\<lambda>r. il_targetMint r = k) rows))) (map ta_mint (vt_targets ?v)))"
    by (simp add: own cong: map_cong)
  also have "\<dots> = sum_list (map il_solLamports rows)"
    using mints sum_filter_keys [of "il_targetMint ` set rows" il_targetMint rows il_solLamports]
    by (simp add: sum_list_distinct_conv_sum_set del: map_map)
  finally have "sum_list (map ta_solLamports (vt_targets ?v)) = vt_solLamports ?v"
    by (simp add: aggregateVaultBurnRows_def fold_sum)
  then show ?thesis
    using mints vt_targets_exact
    by (auto simp: totals_exact_def list_all_iff)
      (auto simp: aggregateVaultBurnRows_def fold_sum length_fold_set_add latest_time_fold card_calls
        fold_set_add(1) sol_order.sorted_by_key)
qed

subsection \<open>The latest configuration\<close>

definition position :: "indexed_leg \<Rightarrow> int \<times> nat \<times> string" where
  "position r = (il_slot r, il_instructionIndex r, il_signature r)"

lemma newer_position: "newer r (call_of s) \<longleftrightarrow> position s < position r"
  by (auto simp: newer_def call_of_def position_def)

definition note_own :: "indexed_leg \<Rightarrow> latest_call option \<Rightarrow> latest_call option" where
  "note_own r current = (case current of None \<Rightarrow> Some (call_of r)
     | Some c \<Rightarrow> if newer r c then Some (call_of r) else Some c)"

lemma map_of_note_one:
  "map_of (note_call r m) k = (if config_key r = k then note_own r (map_of m k) else map_of m k)"
  by (cases "map_of m (config_key r)") (auto simp: note_call_def note_own_def map_of_upsert)

lemma map_of_note_call:
  "map_of (fold note_call rows m) k = fold note_own (filter (\<lambda>r. config_key r = k) rows) (map_of m k)"
  by (induction rows arbitrary: m) (simp_all add: map_of_note_one)

lemma fold_note_own:
  "own \<noteq> [] \<Longrightarrow> \<exists>r \<in> set own. fold note_own own None = Some (call_of r) \<and> (\<forall>s \<in> set own. position s \<le> position r)"
proof (induction own rule: rev_induct)
  case (snoc x own)
  show ?case
  proof (cases "own = []")
    case False
    then obtain r where r: "r \<in> set own" "fold note_own own None = Some (call_of r)" "\<forall>s \<in> set own. position s \<le> position r"
      using snoc.IH by blast
    have run: "fold note_own (own @ [x]) None = (if position r < position x then Some (call_of x) else Some (call_of r))"
      using r(2) by (simp add: note_own_def newer_position)
    show ?thesis
    proof (cases "position r < position x")
      case True
      then have "\<forall>s \<in> set (own @ [x]). position s \<le> position x" using r(3) by (auto intro: less_imp_le le_less_trans)
      then show ?thesis using run True by auto
    next
      case False
      then show ?thesis using run r by auto
    qed
  qed (simp add: note_own_def)
qed simp

text \<open>An array of optional elements read at an index.\<close>

definition leg_at :: "'a option list \<Rightarrow> nat \<Rightarrow> 'a option" where
  "leg_at legs i = (if i < length legs then legs ! i else None)"

lemma leg_at_Nil [simp]: "leg_at [] i = None"
  by (simp add: leg_at_def)

lemma leg_at_set_leg: "leg_at (set_leg i x legs) j = (if j = i then Some x else leg_at legs j)"
  by (auto simp: leg_at_def set_leg_def nth_append nth_list_update)

definition set_own :: "indexed_leg \<Rightarrow> summary_leg option list \<Rightarrow> summary_leg option list" where
  "set_own r = set_leg (il_legIndex r) (summary_leg_of r)"

lemma leg_at_fold:
  "leg_at (fold set_own own legs) i = (case map_of (rev (map (\<lambda>r. (il_legIndex r, summary_leg_of r)) own)) i of
     Some l \<Rightarrow> Some l | None \<Rightarrow> leg_at legs i)"
  by (induction own arbitrary: legs) (auto simp: set_own_def leg_at_set_leg map_add_def split: option.splits)

lemma leg_at_own:
  assumes "distinct (map il_legIndex own)"
  shows "leg_at (fold set_own own []) i = Some l \<longleftrightarrow> (\<exists>r \<in> set own. il_legIndex r = i \<and> l = summary_leg_of r)"
proof -
  have "distinct (map fst (rev (map (\<lambda>r. (il_legIndex r, summary_leg_of r)) own)))"
    using assms by (simp add: comp_def flip: rev_map)
  then show ?thesis
    using map_of_eq_Some_iff [of "rev (map (\<lambda>r. (il_legIndex r, summary_leg_of r)) own)" i l]
    by (auto simp: leg_at_fold simp del: map_of_eq_Some_iff split: option.splits)
qed

text \<open>The rows of the noted call fill the configuration; the others leave it alone.\<close>

definition noted :: "(string \<times> latest_call) list \<Rightarrow> string \<Rightarrow> indexed_leg \<Rightarrow> bool" where
  "noted latest k r \<longleftrightarrow> config_key r = k \<and> map_option lc_call (map_of latest k) = Some (call_key r)"

lemma map_of_note_config:
  "map_of (fold (note_config latest) rows m) k =
    (let own = filter (noted latest k) rows in if own = [] then map_of m k
     else Some (case map_of m k of
         Some c \<Rightarrow> c\<lparr>vc_legs := fold set_own own (vc_legs c)\<rparr>
       | None \<Rightarrow> \<lparr>vc_launchMint = il_launchMint (hd own), vc_vault = il_vault (hd own), vc_legs = fold set_own own []\<rparr>))"
proof (induction rows arbitrary: m)
  case (Cons r rows)
  show ?case
  proof (cases "noted latest k r")
    case True
    then have "map_of (note_config latest r m) k = Some ((case map_of m k of Some c \<Rightarrow> c
        | None \<Rightarrow> \<lparr>vc_launchMint = il_launchMint r, vc_vault = il_vault r, vc_legs = []\<rparr>)
        \<lparr>vc_legs := set_own r (vc_legs (case map_of m k of Some c \<Rightarrow> c
        | None \<Rightarrow> \<lparr>vc_launchMint = il_launchMint r, vc_vault = il_vault r, vc_legs = []\<rparr>))\<rparr>)"
      by (auto simp: note_config_def noted_def map_of_upsert set_own_def Let_def)
    then show ?thesis using True by (auto simp: Cons.IH Let_def split: option.splits)
  next
    case False
    then have "map_of (note_config latest r m) k = map_of m k"
      by (auto simp: note_config_def noted_def map_of_upsert Let_def)
    then show ?thesis using False by (simp add: Cons.IH Let_def)
  qed
qed simp

text \<open>
  The configuration under a key: the legs of the newest call with that key, each at its index.
\<close>

definition config_of_call :: "indexed_leg list \<Rightarrow> string \<Rightarrow> vault_config \<Rightarrow> bool" where
  "config_of_call rows k c \<longleftrightarrow> (\<exists>newest \<in> set rows. config_key newest = k \<and>
    (\<forall>r \<in> set rows. config_key r = k \<longrightarrow> position r \<le> position newest) \<and>
    (\<forall>i l. leg_at (vc_legs c) i = Some l \<longleftrightarrow>
      (\<exists>r \<in> set rows. config_key r = k \<and> call_pair r = call_pair newest \<and> il_legIndex r = i \<and> l = summary_leg_of r)))"

lemma configs_keys: "map_of (latestVaultConfigs rows) k = Some c \<Longrightarrow> k \<in> config_key ` set rows"
  by (auto simp: latestVaultConfigs_def map_of_note_config Let_def noted_def filter_empty_conv split: if_splits)

lemma latest_configs:
  assumes "distinct (map row_key rows)" "k \<in> config_key ` set rows"
  shows "\<exists>c. map_of (latestVaultConfigs rows) k = Some c \<and> config_of_call rows k c"
proof -
  let ?own = "filter (\<lambda>r. config_key r = k) rows" and ?latest = "fold note_call rows []"
  have "?own \<noteq> []" using assms(2) by (auto simp: filter_empty_conv)
  then obtain newest where n: "newest \<in> set ?own" "map_of ?latest k = Some (call_of newest)"
      "\<forall>s \<in> set ?own. position s \<le> position newest"
    using fold_note_own [of ?own] by (auto simp: map_of_note_call)
  have noted: "noted ?latest k r \<longleftrightarrow> config_key r = k \<and> call_pair r = call_pair newest" for r
    using n(2) by (auto simp: noted_def call_of_def call_key_iff call_pair_def)
  let ?call = "filter (noted ?latest k) rows"
  have ne: "?call \<noteq> []" using n(1) by (auto simp: filter_empty_conv noted)
  have "distinct (map row_key ?call)" using assms(1) by (simp add: distinct_map inj_on_def)
  then have "distinct (map il_legIndex ?call)"
    by (auto simp: distinct_map inj_on_def row_key_def noted call_pair_def)
  note legs = leg_at_own [OF this]
  have "map_of (latestVaultConfigs rows) k
      = Some \<lparr>vc_launchMint = il_launchMint (hd ?call), vc_vault = il_vault (hd ?call), vc_legs = fold set_own ?call []\<rparr>"
    using ne by (simp add: latestVaultConfigs_def map_of_note_config Let_def)
  then show ?thesis
    using n(1,3) legs by (auto simp: config_of_call_def noted)
qed

subsection \<open>Properties\<close>

text \<open>Rows that already carry the vault or the launch are not changed by carrying it again.\<close>

lemma carried [simp]:
  "map (\<lambda>row. row\<lparr>il_vault := vault\<rparr>) (vault_query db vault) = vault_query db vault"
  "map (\<lambda>row. row\<lparr>il_launchMint := launchMint\<rparr>) (launch_query db launchMint) = launch_query db launchMint"
  by (auto intro!: map_idI)

lemma sum_query:
  "sum_list (map f (vault_query db vault)) = sum_list (map f (filter (\<lambda>r. il_vault r = vault) (cd_legs db)))" for f :: "_ \<Rightarrow> int"
proof -
  have "mset (map f (vault_query db vault)) = mset (map f (filter (\<lambda>r. il_vault r = vault) (cd_legs db)))"
    by (simp add: vault_query_def by_position_def)
  then show ?thesis by (metis sum_mset_sum_list)
qed

lemma distinct_query:
  "distinct (map row_key (cd_legs db)) \<Longrightarrow> distinct (map row_key (vault_query db vault))"
  "distinct (map row_key (cd_legs db)) \<Longrightarrow> distinct (map row_key (launch_query db launchMint))"
  by (simp_all add: vault_query_def launch_query_def by_position_def distinct_map inj_on_def)


text \<open>Two burns of one vault, and a row of another.\<close>

definition summary_row :: "string \<Rightarrow> string \<Rightarrow> int \<Rightarrow> indexed_leg" where
  "summary_row signature vault sol = \<lparr>il_signature = signature, il_instructionIndex = 0, il_legIndex = 0,
    il_slot = sol, il_blockTime = Some sol, il_launchMint = ''L'', il_vault = vault, il_targetMint = ''T'',
    il_referencePool = ''P'', il_bps = 10000, il_solLamports = sol, il_burnedAtoms = 1\<rparr>"

definition summary_vault :: string where
  "summary_vault = replicate 32 CHR ''1''"

definition summary_db :: community_db where
  "summary_db = \<lparr>cd_legs = [summary_row ''a'' summary_vault 3000, summary_row ''b'' ''other'' 5000,
     summary_row ''c'' summary_vault 4000], cd_mints = [],
    cd_state = \<lparr>is_latestSignature = ''c'', is_backfillBefore = [], is_backfillComplete = True,
      is_lastIndexedAt = 9, is_lastIndexedSlot = 5000\<rparr>\<rparr>"

lemma summary_vault_decodes: "decodeBase58 summary_vault = Inr (replicate 32 0)"
  by code_simp


lemma ranked_groups_facts:
  "map fst (ranked_groups key rows) = map fst (ranked_groups key rows) \<and> distinct (map fst (ranked_groups key rows))"
  "set (ranked_groups key rows) = (\<lambda>k. (k, filter (\<lambda>row. key row = k) rows)) ` key ` set rows"
  by (simp_all add: ranked_groups_def distinct_map inj_on_def)

text \<open>The sum over some of the groups is the sum over their rows.\<close>

lemma sum_take_groups:
  fixes rows :: "indexed_leg list" and n :: nat and key :: "indexed_leg \<Rightarrow> string"
  defines "listed \<equiv> take n (ranked_groups key rows)"
  shows "sum_list (map (\<lambda>g. sol_of (snd g)) listed)
      = sum_list (map il_solLamports (filter (\<lambda>r. key r \<in> fst ` set listed) rows))"
proof -
  let ?L = "fst ` set listed"
  have d: "distinct (map fst listed)"
    using ranked_groups_facts(1) [of key rows] by (simp add: listed_def distinct_take flip: take_map)
  have "snd g = filter (\<lambda>r. key r = fst g) (filter (\<lambda>r. key r \<in> ?L) rows)" if "g \<in> set listed" for g
  proof -
    have "g \<in> set (ranked_groups key rows)" using that in_set_takeD by (fastforce simp: listed_def)
    then have "snd g = filter (\<lambda>r. key r = fst g) rows" by (auto simp: ranked_groups_facts(2))
    also have "\<dots> = filter (\<lambda>r. key r = fst g) (filter (\<lambda>r. key r \<in> ?L) rows)"
      using that by (auto intro!: filter_cong)
    finally show ?thesis .
  qed
  then have "sum_list (map (\<lambda>g. sol_of (snd g)) listed)
      = sum_list (map (\<lambda>k. sum_list (map il_solLamports (filter (\<lambda>r. key r = k) (filter (\<lambda>r. key r \<in> ?L) rows)))) (map fst listed))"
    by (simp add: sol_of_def cong: map_cong)
  also have "\<dots> = (\<Sum>k \<in> ?L. sum_list (map il_solLamports (filter (\<lambda>r. key r = k) (filter (\<lambda>r. key r \<in> ?L) rows))))"
    using d by (simp add: sum_list_distinct_conv_sum_set del: map_map filter_filter)
  also have "\<dots> = sum_list (map il_solLamports (filter (\<lambda>r. key r \<in> ?L) rows))"
    by (rule sum_filter_keys) auto
  finally show ?thesis .
qed

text \<open>
  The totals of the leaderboard: the burn count is that of the whole table, while the SOL
  total is the sum over the listed communities only, and there are at most 250 of those; so the
  total is the table's exactly when no further target mint has burned anything.
\<close>

theorem leaderboard_totals:
  "lb_totalBurns (communityLeaderboard db) = card (call_pair ` set (cd_legs db)) \<and>
    length (lb_communities (communityLeaderboard db)) \<le> 250 \<and>
    lb_totalSolLamports (communityLeaderboard db) = sum_list (map il_solLamports
      (filter (\<lambda>r. il_targetMint r \<in> co_mint ` set (lb_communities (communityLeaderboard db))) (cd_legs db))) \<and>
    co_mint ` set (lb_communities (communityLeaderboard db)) \<subseteq> il_targetMint ` set (cd_legs db) \<and>
    (co_mint ` set (lb_communities (communityLeaderboard db)) = il_targetMint ` set (cd_legs db)) =
      (card (il_targetMint ` set (cd_legs db)) \<le> 250)"
proof -
  let ?rows = "cd_legs db" and ?b = "communityLeaderboard db"
  let ?ranked = "ranked_groups il_targetMint (cd_legs db)" and ?M = "il_targetMint ` set (cd_legs db)"
  define listed where "listed = take 250 ?ranked"
  have b: "lb_communities ?b = map (community_line_of db) listed"
      "lb_totalSolLamports ?b = sum_list (map co_solLamports (map (community_line_of db) listed))"
      "lb_totalBurns ?b = card (call_pair ` set ?rows)"
    by (simp_all add: communityLeaderboard_def Let_def listed_def fold_sum call_pair_def del: map_map)
  have line: "co_mint (community_line_of db g) = fst g" "co_solLamports (community_line_of db g) = sol_of (snd g)" for g
    by (simp_all add: community_line_of_def Let_def split: prod.splits)
  have mints: "co_mint ` set (lb_communities ?b) = fst ` set listed"
    by (simp add: b(1) image_image line)
  have total: "lb_totalSolLamports ?b
      = sum_list (map il_solLamports (filter (\<lambda>r. il_targetMint r \<in> fst ` set listed) ?rows))"
    using sum_take_groups [of 250 il_targetMint ?rows] by (simp add: b(2) line comp_def listed_def)
  have all: "fst ` set ?ranked = ?M" by (simp add: ranked_groups_facts(2) image_image)
  have sub: "fst ` set listed \<subseteq> ?M" unfolding all [symmetric]
    by (intro image_mono) (simp add: listed_def set_take_subset)
  have d: "distinct (map fst ?ranked)" using ranked_groups_facts(1) by blast
  then have len: "length ?ranked = card ?M" using all distinct_card [OF d] by simp
  have "distinct (map fst listed)" using d by (simp add: listed_def distinct_take flip: take_map)
  from distinct_card [OF this] have "card (fst ` set listed) = min (card ?M) 250"
    using len by (simp add: listed_def)
  then have "(fst ` set listed = ?M) = (card ?M \<le> 250)"
    using card_subset_eq [OF _ sub] by (metis List.finite_set finite_imageI min.absorb_iff1 min.commute min_def)
  moreover have "length (lb_communities ?b) \<le> 250" by (simp add: b(1) listed_def)
  ultimately show ?thesis
    unfolding mints b(3) using total sub by (intro conjI refl)
qed

end
