(* ===== verification/Web.thy ===== *)
theory Web
  imports JsText UploadGate
begin

text \<open>
  HTTP as the two workers see it: requests, responses, the reading of a body under a cap
  (\<open>readTextWithCap\<close> of \<open>app/worker.ts\<close>, \<open>readBodyWithCap\<close> of
  \<open>quote-service/fetch-handler.ts\<close>) and the media type test both apply. Parsing of URLs,
  \<open>JSON.parse\<close>, and the text and percent encodings are functions of the platform: the record
  \<open>web_platform\<close>, a parameter. A body is the list of the chunks its stream delivers.
\<close>

subsection \<open>The platform\<close>

record url_parts =
  url_href :: string
  url_origin :: string
  url_protocol :: string
  url_username :: string
  url_password :: string
  url_host :: string
  url_hostname :: string
  url_pathname :: string
  url_search :: string
  url_hash :: string
  url_params :: "(string \<times> string) list"

record web_platform =
  newURL :: "string \<Rightarrow> url_parts option"
  resolveURL :: "string \<Rightarrow> url_parts \<Rightarrow> url_parts option"
  setHostname :: "string \<Rightarrow> url_parts \<Rightarrow> url_parts"
  encodeURIComponent :: "string \<Rightarrow> string"
  decodeURIComponent :: "string \<Rightarrow> string option"
  encodeText :: "string \<Rightarrow> byte list"
  decodeText :: "byte list \<Rightarrow> string"
  parseJSON :: "string \<Rightarrow> jsval option"
  stringifyJSON :: "jsval \<Rightarrow> string"
  sha256Hex :: "byte list \<Rightarrow> string"

record http_request =
  hq_method :: string
  hq_url :: url_parts
  hq_headers :: "(string \<times> string) list"
  hq_body :: "byte list list option"

datatype http_body = NoBody | JsonBody jsval | Chunks "byte list list"

record http_response =
  hs_status :: int
  hs_headers :: "(string \<times> string) list"
  hs_body :: http_body

text \<open>Header names are lower case, as the platform keeps them.\<close>

definition header :: "http_request \<Rightarrow> string \<Rightarrow> string option" where
  "header request name = map_of (hq_headers request) name"

definition set_header :: "string \<Rightarrow> string \<Rightarrow> http_response \<Rightarrow> http_response" where
  "set_header name value response = response\<lparr>hs_headers := upsert name value (hs_headers response)\<rparr>"

definition code_message :: "string \<Rightarrow> string \<Rightarrow> jsval" where
  "code_message c message = JObj [(''code'', JStr c), (''message'', JStr message)]"

subsection \<open>Values\<close>

text \<open>What counts as true; a number that is not an integer is not zero.\<close>

fun js_truthy :: "jsval \<Rightarrow> bool" where
  "js_truthy JUndef = False"
| "js_truthy JNull = False"
| "js_truthy (JBool b) = b"
| "js_truthy (JInt n) = (n \<noteq> 0)"
| "js_truthy (JStr s) = (s \<noteq> [])"
| "js_truthy _ = True"

text \<open>\<open>v ?? null\<close>.\<close>

definition or_null :: "jsval \<Rightarrow> jsval" where
  "or_null v = (if v = JUndef then JNull else v)"

definition starts_with :: "string \<Rightarrow> string \<Rightarrow> bool" where
  "starts_with p s \<longleftrightarrow> take (length p) s = p"

subsection \<open>Base64\<close>

text \<open>\<open>Buffer.toString("base64")\<close>.\<close>

definition base64_symbol :: "int \<Rightarrow> char" where
  "base64_symbol n = char_of (nat (if n < 26 then n + 65 else if n < 52 then n + 71 else if n < 62 then n - 4
    else if n = 62 then 43 else 47))"

fun base64_encode :: "byte list \<Rightarrow> string" where
  "base64_encode [] = []"
| "base64_encode [x] = [base64_symbol (uint x div 4), base64_symbol (uint x mod 4 * 16), CHR ''='', CHR ''='']"
| "base64_encode [x, y] = [base64_symbol (uint x div 4), base64_symbol (uint x mod 4 * 16 + uint y div 16),
    base64_symbol (uint y mod 16 * 4), CHR ''='']"
| "base64_encode (x # y # z # rest) = base64_symbol (uint x div 4) # base64_symbol (uint x mod 4 * 16 + uint y div 16)
    # base64_symbol (uint y mod 16 * 4 + uint z div 64) # base64_symbol (uint z mod 64) # base64_encode rest"

subsection \<open>Media types\<close>

text \<open>Lower case within the first 256 code points.\<close>

definition lower_char :: "char \<Rightarrow> char" where
  "lower_char c = (if in_range CHR ''A'' CHR ''Z'' c \<or> 0xC0 \<le> char_code c \<and> char_code c \<le> 0xDE \<and> char_code c \<noteq> 0xD7
    then char_of (of_char c + 32 :: nat) else c)"

definition js_lower :: "string \<Rightarrow> string" where
  "js_lower = map lower_char"

definition word_char :: "char \<Rightarrow> bool" where
  "word_char c \<longleftrightarrow> in_range CHR ''A'' CHR ''Z'' c \<or> in_range CHR ''a'' CHR ''z'' c \<or> is_digit c \<or> c = CHR ''_''"

text \<open>\<open>/^application\/json\b/i\<close>\<close>

definition json_type :: "string \<Rightarrow> bool" where
  "json_type s \<longleftrightarrow> js_lower (take 16 s) = ''application/json'' \<and>
    (case drop 16 s of [] \<Rightarrow> True | c # _ \<Rightarrow> \<not> word_char c)"

lemma json_type_examples:
  "json_type ''application/json; charset=utf-8''" "json_type ''Application/JSON''"
  "\<not> json_type ''application/jsonp''" "\<not> json_type ''text/plain''"
  by code_simp+

subsection \<open>Bodies under a cap\<close>

fun read_chunks :: "nat \<Rightarrow> nat \<Rightarrow> byte list list \<Rightarrow> byte list list option" where
  "read_chunks maxBytes tot [] = Some []"
| "read_chunks maxBytes tot (part # parts) =
    (if tot + length part > maxBytes then None
     else map_option ((#) part) (read_chunks maxBytes (tot + length part) parts))"

text \<open>\<open>content-length\<close> is a number, finite and above the cap.\<close>

definition declared_too_large :: "nat \<Rightarrow> http_request \<Rightarrow> bool" where
  "declared_too_large maxBytes request = (case header request ''content-length'' of
     None \<Rightarrow> False
   | Some declared \<Rightarrow> (case number_of_text declared of None \<Rightarrow> False | Some n \<Rightarrow> n > of_nat maxBytes))"

definition readBodyWithCap :: "http_request \<Rightarrow> nat \<Rightarrow> byte list option" where
  "readBodyWithCap request maxBytes =
    (if declared_too_large maxBytes request then None
     else (case hq_body request of None \<Rightarrow> Some []
       | Some parts \<Rightarrow> map_option concat (read_chunks maxBytes 0 parts)))"

definition readTextWithCap :: "web_platform \<Rightarrow> http_request \<Rightarrow> nat \<Rightarrow> string option" where
  "readTextWithCap wp request maxBytes =
    (if declared_too_large maxBytes request then None
     else (case hq_body request of None \<Rightarrow> Some []
       | Some parts \<Rightarrow> map_option (\<lambda>parts. decodeText wp (concat parts)) (read_chunks maxBytes 0 parts)))"

lemma read_chunks_iff:
  "tot \<le> maxBytes \<Longrightarrow>
    read_chunks maxBytes tot parts = (if tot + length (concat parts) \<le> maxBytes then Some parts else None)"
  by (induction parts arbitrary: tot) (auto simp: not_le)

text \<open>A body is read exactly when neither its declaration nor its bytes exceed the cap.\<close>

lemma readBodyWithCap_iff:
  "readBodyWithCap request maxBytes = Some body \<longleftrightarrow> \<not> declared_too_large maxBytes request \<and>
    body = concat (case hq_body request of None \<Rightarrow> [] | Some parts \<Rightarrow> parts) \<and> length body \<le> maxBytes"
  by (auto simp: readBodyWithCap_def read_chunks_iff split: option.splits if_splits)

end
