(* ===== verification/RpcProxy.thy ===== *)
theory RpcProxy
  imports Web JsSort
begin

text \<open>
  The JSON-RPC proxy of \<open>app/worker.ts\<close>: which requests it accepts from a browser, what they cost
  of the rate limit, and the redaction of the configured URL in the stream it passes back. The
  rate limiter answers a key and the number of calls made before in this request, and the upstream
  RPC answers the body it is sent; both are parameters. What a request has been granted and what
  has been forwarded is the record \<open>edge\<close>, threaded through.
\<close>

subsection \<open>Limits\<close>

definition ALLOWED_METHODS :: "string list" where
  "ALLOWED_METHODS = [''getAccountInfo'', ''getMultipleAccounts'', ''getBalance'', ''getSlot'',
    ''getBlockHeight'', ''getLatestBlockhash'', ''getMinimumBalanceForRentExemption'',
    ''getProgramAccounts'', ''getSignatureStatuses'', ''getTransaction'', ''getTokenAccountBalance'',
    ''getTokenSupply'', ''getTokenLargestAccounts'', ''simulateTransaction'', ''sendTransaction'',
    ''getVersion'']"

definition RPC_METHOD_UNITS :: "(string \<times> nat) list" where
  "RPC_METHOD_UNITS = [(''getProgramAccounts'', 20), (''simulateTransaction'', 5), (''sendTransaction'', 5),
    (''getTransaction'', 3), (''getTokenLargestAccounts'', 2), (''getMultipleAccounts'', 2)]"

definition MAX_RPC_UNITS_PER_REQUEST :: nat where
  "MAX_RPC_UNITS_PER_REQUEST = 120"

definition POOL_SCAN_PROGRAMS :: "string list" where
  "POOL_SCAN_PROGRAMS = [''675kPX9MHTjS2zt1qfr1NYHuzeLXfQM9H24wFSUt1Mp8'',
    ''CPMMoo8L3F4NbTegBCKVNunggL7H1ZpdTHKxQB5qKP1C'', ''CAMMCzo5YL8w4VFF8KVHrK22GGUsp5VTaW7grrKgrWqK'',
    ''LBUZKhRxPF3XUpBCjp4YzTKgLccjZhTSDM9YuVaPwxo'']"

definition MAX_BODY_BYTES :: nat where
  "MAX_BODY_BYTES = 256 * 1024"

definition MAX_BATCH_CALLS :: nat where
  "MAX_BATCH_CALLS = 100"

subsection \<open>Answers\<close>

definition jsonError :: "string \<Rightarrow> string \<Rightarrow> int \<Rightarrow> http_response" where
  "jsonError c message status = \<lparr>hs_status = status,
    hs_headers = [(''content-type'', ''application/json''), (''cache-control'', ''no-store'')],
    hs_body = JsonBody (code_message c message)\<rparr>"

definition jsonRpcError :: "jsval \<Rightarrow> int \<Rightarrow> string \<Rightarrow> int \<Rightarrow> http_response" where
  "jsonRpcError i c message status = \<lparr>hs_status = status,
    hs_headers = [(''content-type'', ''application/json'')],
    hs_body = JsonBody (JObj [(''jsonrpc'', JStr ''2.0''), (''id'', or_null i),
      (''error'', JObj [(''code'', JInt c), (''message'', JStr message)])])\<rparr>"

definition forbidden :: http_response where
  "forbidden = \<lparr>hs_status = 403, hs_headers = [(''content-type'', ''application/json'')],
    hs_body = JsonBody (code_message ''FORBIDDEN_ORIGIN'' ''this endpoint serves its own site only'')\<rparr>"

subsection \<open>The rate limit\<close>

record edge =
  eg_granted :: "string list"
  eg_forwarded :: "jsval list"

type_synonym rate_limiter = "string \<Rightarrow> nat \<Rightarrow> bool res"

definition clientKey :: "http_request \<Rightarrow> string" where
  "clientKey request = (case header request ''cf-connecting-ip'' of None \<Rightarrow> ''unknown'' | Some ip \<Rightarrow> ip)"

definition rate_limited_response :: http_response where
  "rate_limited_response = \<lparr>hs_status = 429,
    hs_headers = [(''content-type'', ''application/json''), (''retry-after'', ''60'')],
    hs_body = JsonBody (code_message ''RATE_LIMITED'' ''too many requests; slow down'')\<rparr>"

fun limit_units :: "rate_limiter \<Rightarrow> string \<Rightarrow> nat \<Rightarrow> edge \<Rightarrow> http_response option res \<times> edge" where
  "limit_units limit key 0 st = (Inr None, st)"
| "limit_units limit key (Suc n) st = (case limit key (length (eg_granted st)) of
     Inl e \<Rightarrow> (Inl e, st)
   | Inr success \<Rightarrow>
       if \<not> success then (Inr (Some rate_limited_response), st)
       else limit_units limit key n (st\<lparr>eg_granted := eg_granted st @ [key]\<rparr>))"

definition rateLimited ::
  "rate_limiter option \<Rightarrow> http_request \<Rightarrow> nat \<Rightarrow> edge \<Rightarrow> http_response option res \<times> edge" where
  "rateLimited limiter request units st = (case limiter of
     None \<Rightarrow> (Inr (Some (jsonError ''RATE_LIMIT_UNAVAILABLE'' ''this endpoint is temporarily unavailable'' 503)), st)
   | Some limit \<Rightarrow> limit_units limit (clientKey request) units st)"

subsection \<open>Origins\<close>

text \<open>\<open>/^(localhost|127\.0\.0\.1)(:\d+)?$/\<close>\<close>

definition port_suffix :: "string \<Rightarrow> bool" where
  "port_suffix s \<longleftrightarrow> (case s of [] \<Rightarrow> True
     | c # digits \<Rightarrow> c = CHR '':'' \<and> digits \<noteq> [] \<and> list_all is_digit digits)"

definition local_host :: "string \<Rightarrow> bool" where
  "local_host host \<longleftrightarrow> (take 9 host = ''localhost'' \<and> port_suffix (drop 9 host)) \<or>
    (take 9 host = ''127.0.0.1'' \<and> port_suffix (drop 9 host))"

definition isAllowedOrigin :: "web_platform \<Rightarrow> http_request \<Rightarrow> bool" where
  "isAllowedOrigin wp request = (case header request ''origin'' of
     Some (c # cs) \<Rightarrow>
       (case newURL wp (c # cs) of None \<Rightarrow> False
        | Some parsed \<Rightarrow>
            url_origin parsed = c # cs \<and>
            (url_origin parsed = url_origin (hq_url request) \<or>
             ((url_protocol parsed = ''http:'' \<or> url_protocol parsed = ''https:'') \<and>
              local_host (url_host parsed))))
   | _ \<Rightarrow>
       (hq_method request = ''GET'' \<or> hq_method request = ''HEAD'') \<and>
       (case header request ''sec-fetch-site'' of None \<Rightarrow> True
        | Some site \<Rightarrow> site = ''same-origin'' \<or> site = ''none''))"

subsection \<open>Calls\<close>

definition INVALID_MEMCMP :: string where
  "INVALID_MEMCMP = ''getProgramAccounts contains an invalid memcmp filter''"

definition valid_memcmp :: "(string \<times> jsval) list \<Rightarrow> bool" where
  "valid_memcmp record \<longleftrightarrow>
    list_all (\<lambda>(key, _). key \<in> set [''offset'', ''bytes'', ''encoding'']) record \<and>
    (case field record ''offset'' of JInt n \<Rightarrow> 0 \<le> n \<and> n \<le> 10000 | _ \<Rightarrow> False) \<and>
    (case field record ''bytes'' of JStr s \<Rightarrow> 32 \<le> length s \<and> length s \<le> 44 | _ \<Rightarrow> False) \<and>
    (field record ''encoding'' = JUndef \<or> field record ''encoding'' = JStr ''base58'')"

text \<open>One pass of the loop over filters: whether it counts as a data size, or the reason against.\<close>

definition scan_filter :: "jsval \<Rightarrow> string + bool" where
  "scan_filter v = (case v of
     JObj record \<Rightarrow>
       if map fst record = [''dataSize''] \<and>
          (case field record ''dataSize'' of JInt n \<Rightarrow> 0 < n \<and> n \<le> 10000 | _ \<Rightarrow> False)
       then Inr True
       else if map fst record = [''memcmp''] then
         (case field record ''memcmp'' of
            JObj memcmp \<Rightarrow> if valid_memcmp memcmp then Inr False else Inl INVALID_MEMCMP
          | _ \<Rightarrow> Inl INVALID_MEMCMP)
       else Inl ''getProgramAccounts contains an unsupported filter''
   | _ \<Rightarrow> Inl ''getProgramAccounts contains an invalid filter'')"

definition scan_filters :: "jsval list \<Rightarrow> string + unit" where
  "scan_filters filters = bindR (traverse scan_filter filters) (\<lambda>kinds.
     if length (filter (\<lambda>k. k) kinds) \<noteq> 1 \<or> length (filter Not kinds) < 1
     then Inl ''getProgramAccounts requires one dataSize and at least one memcmp filter''
     else Inr ())"

definition scan_slice :: "jsval \<Rightarrow> string + unit" where
  "scan_slice v = (case v of
     JUndef \<Rightarrow> Inr ()
   | JObj kvs \<Rightarrow>
       if field kvs ''offset'' = JInt 0 \<and> field kvs ''length'' = JInt 0 then Inr ()
       else Inl ''getProgramAccounts dataSlice must request zero bytes''
   | _ \<Rightarrow> Inl ''getProgramAccounts dataSlice must request zero bytes'')"

text \<open>The bounds on \<open>getProgramAccounts\<close>.\<close>

definition scan_params :: "jsval \<Rightarrow> string + unit" where
  "scan_params params = (case params of
     JArr [program, config] \<Rightarrow>
       if program \<notin> JStr ` set POOL_SCAN_PROGRAMS
       then Inl ''getProgramAccounts program is not a supported pool venue''
       else (case config of
           JObj kvs \<Rightarrow>
             (case field kvs ''filters'' of
                JArr filters \<Rightarrow>
                  if length filters < 2 \<or> length filters > 4
                  then Inl ''getProgramAccounts requires 2 to 4 bounded filters''
                  else bindR (scan_filters filters) (\<lambda>_. scan_slice (field kvs ''dataSlice''))
              | _ \<Rightarrow> Inl ''getProgramAccounts requires 2 to 4 bounded filters'')
         | _ \<Rightarrow> Inl ''getProgramAccounts requires a bounded scan config'')
   | _ \<Rightarrow> Inl ''getProgramAccounts requires a program and bounded scan config'')"

definition check_call :: "jsval \<Rightarrow> string + unit" where
  "check_call call = (case call of
     JObj kvs \<Rightarrow>
       (case field kvs ''method'' of
          JStr m \<Rightarrow>
            if m \<notin> set ALLOWED_METHODS then Inl (''method not allowed: '' @ m)
            else if m = ''getProgramAccounts'' then scan_params (field kvs ''params'')
            else Inr ()
        | _ \<Rightarrow> Inl ''missing method'')
   | _ \<Rightarrow> Inl ''each request must be a JSON-RPC object'')"

definition rejectReason :: "jsval \<Rightarrow> string option" where
  "rejectReason call = (case check_call call of Inl reason \<Rightarrow> Some reason | Inr _ \<Rightarrow> None)"

definition call_method :: "jsval \<Rightarrow> string" where
  "call_method call = (case call of JObj kvs \<Rightarrow> (case field kvs ''method'' of JStr m \<Rightarrow> m | _ \<Rightarrow> []) | _ \<Rightarrow> [])"

definition rpcUnits :: "jsval \<Rightarrow> nat" where
  "rpcUnits call = (case map_of RPC_METHOD_UNITS (call_method call) of None \<Rightarrow> 1 | Some n \<Rightarrow> n)"

subsection \<open>Redaction\<close>

text \<open>The pieces of the configured URL that must not leave, as the code collects them.\<close>

definition long_enough :: "string list \<Rightarrow> string list" where
  "long_enough = filter (\<lambda>s. 6 \<le> length s)"

definition after_equals :: "string \<Rightarrow> string" where
  "after_equals s = (if CHR ''='' \<in> set s then tl (dropWhile (\<lambda>c. c \<noteq> CHR ''='') s) else s)"

definition url_secrets :: "web_platform \<Rightarrow> url_parts \<Rightarrow> string list" where
  "url_secrets wp u = [url_href u]
    @ long_enough ([url_username u, url_password u] @ map snd (url_params u))
    @ long_enough (js_split CHR ''.'' (url_hostname u))
    @ long_enough (map after_equals (js_split CHR ''&'' (drop 1 (url_search u))))
    @ concat (map (\<lambda>segment. segment # (case decodeURIComponent wp segment of None \<Rightarrow> [] | Some s \<Rightarrow> [s]))
        (long_enough (js_split CHR ''/'' (url_pathname u))))"

definition escape_slashes :: "string \<Rightarrow> string" where
  "escape_slashes s = concat (map (\<lambda>c. if c = CHR ''/'' then [CHR 0x5C, c] else [c]) s)"

definition by_length :: "string \<Rightarrow> string \<Rightarrow> int" where
  "by_length left right = int (length right) - int (length left)"

definition rpcSecretPatterns :: "web_platform \<Rightarrow> string \<Rightarrow> byte list list" where
  "rpcSecretPatterns wp rawUrl =
    (let found = dedup (rawUrl # (case newURL wp rawUrl of None \<Rightarrow> [] | Some u \<Rightarrow> url_secrets wp u));
         candidates = dedup (found @ concat (map (\<lambda>c. [encodeURIComponent wp c, escape_slashes c]) found))
     in map (encodeText wp) (js_sort by_length (filter (\<lambda>s. s \<noteq> []) candidates)))"

text \<open>\<open>output.fill(0x2a, start, start + n)\<close>.\<close>

definition STAR :: byte where
  "STAR = 42"

definition fill_stars :: "nat \<Rightarrow> nat \<Rightarrow> byte list \<Rightarrow> byte list" where
  "fill_stars start n output = take start output @ replicate n STAR @ drop (start + n) output"

definition matches_at :: "byte list \<Rightarrow> byte list \<Rightarrow> nat \<Rightarrow> bool" where
  "matches_at pattern input start \<longleftrightarrow> take (length pattern) (drop start input) = pattern"

definition redact_pattern :: "byte list \<Rightarrow> byte list \<Rightarrow> byte list \<Rightarrow> byte list" where
  "redact_pattern input pattern output =
    (if pattern = [] \<or> length pattern > length input then output
     else fold (\<lambda>start output. if matches_at pattern input start then fill_stars start (length pattern) output
         else output) [0..<Suc (length input - length pattern)] output)"

definition redactBytes :: "byte list \<Rightarrow> byte list list \<Rightarrow> byte list" where
  "redactBytes input patterns = fold (redact_pattern input) patterns input"

text \<open>
  \<open>pull\<close> of the stream, from one chunk to the next: what is pending, and the chunks passed on.
\<close>

fun redact_stream :: "byte list list \<Rightarrow> nat \<Rightarrow> byte list \<Rightarrow> byte list list \<Rightarrow> byte list list" where
  "redact_stream patterns retained pending [] =
    (if pending \<noteq> [] then [redactBytes pending patterns] else [])"
| "redact_stream patterns retained pending (value # rest) =
    (let combined = pending @ value;
         redacted = redactBytes combined patterns;
         emitBytes = length combined - retained;
         kept = redact_stream patterns retained (drop emitBytes redacted) rest
     in if emitBytes > 0 then take emitBytes redacted # kept else kept)"

definition safeRpcResponseBody :: "web_platform \<Rightarrow> string \<Rightarrow> byte list list \<Rightarrow> byte list list" where
  "safeRpcResponseBody wp secretUrl body =
    (let patterns = rpcSecretPatterns wp secretUrl;
         retained = fold max (map (\<lambda>p. length p - 1) patterns) 0
     in redact_stream patterns retained [] body)"

subsection \<open>The handler\<close>

record rpc_upstream =
  up_status :: int
  up_contentType :: "string option"
  up_body :: "byte list list option"

text \<open>A fetch that throws says whether the deadline aborted it.\<close>

type_synonym rpc_fetch = "jsval \<Rightarrow> bool + rpc_upstream"

definition batch_calls :: "jsval \<Rightarrow> jsval list" where
  "batch_calls parsed = (case parsed of JArr calls \<Rightarrow> calls | _ \<Rightarrow> [parsed])"

text \<open>The first call with a reason against it.\<close>

fun first_refused :: "jsval list \<Rightarrow> (jsval \<times> string) option" where
  "first_refused [] = None"
| "first_refused (call # calls) = (case rejectReason call of
     Some reason \<Rightarrow> Some (call, reason) | None \<Rightarrow> first_refused calls)"

definition call_id :: "jsval \<Rightarrow> jsval" where
  "call_id call = (case call of JObj kvs \<Rightarrow> field kvs ''id'' | _ \<Rightarrow> JNull)"

definition requested_units :: "jsval list \<Rightarrow> nat" where
  "requested_units calls = fold (\<lambda>call total. total + rpcUnits call) calls 0"

definition forward_rpc ::
  "web_platform \<Rightarrow> rpc_fetch \<Rightarrow> string \<Rightarrow> jsval \<Rightarrow> http_response" where
  "forward_rpc wp upstreamFetch rpcUrl parsed = (case upstreamFetch parsed of
     Inl aborted \<Rightarrow>
       jsonRpcError JNull (- 32603) (if aborted then ''rpc upstream timed out'' else ''rpc upstream unavailable'')
         (if aborted then 504 else 502)
   | Inr upstream \<Rightarrow>
       if 300 \<le> up_status upstream \<and> up_status upstream < 400
       then jsonRpcError JNull (- 32603) ''rpc upstream redirected'' 502
       else if \<not> (200 \<le> up_status upstream \<and> up_status upstream < 300)
       then jsonRpcError JNull (- 32603) ''rpc upstream rejected request'' (up_status upstream)
       else if \<not> json_type (case up_contentType upstream of None \<Rightarrow> [] | Some t \<Rightarrow> t)
       then jsonRpcError JNull (- 32603) ''invalid rpc upstream response'' 502
       else \<lparr>hs_status = up_status upstream,
         hs_headers = [(''content-type'', ''application/json''), (''cache-control'', ''no-store'')],
         hs_body = (case up_body upstream of None \<Rightarrow> NoBody
           | Some body \<Rightarrow> Chunks (safeRpcResponseBody wp rpcUrl body))\<rparr>)"

definition handleRpc ::
  "web_platform \<Rightarrow> string \<Rightarrow> rate_limiter option \<Rightarrow> rpc_fetch \<Rightarrow> http_request \<Rightarrow> bool \<Rightarrow> edge \<Rightarrow>
    http_response res \<times> edge" where
  "handleRpc wp rpcUrl limiter upstreamFetch request initialRateUnitConsumed st =
    (if hq_method request \<noteq> ''POST'' then (Inr (jsonRpcError JNull (- 32600) ''POST required'' 405), st)
     else if rpcUrl = []
     then (Inr (jsonRpcError JNull (- 32603) ''rpc proxy is not configured on this deployment'' 503), st)
     else (case readTextWithCap wp request MAX_BODY_BYTES of
       None \<Rightarrow> (Inr (jsonRpcError JNull (- 32600) ''request too large'' 413), st)
     | Some raw \<Rightarrow> (case parseJSON wp raw of
         None \<Rightarrow> (Inr (jsonRpcError JNull (- 32700) ''invalid JSON'' 400), st)
       | Some parsed \<Rightarrow>
          (let calls = batch_calls parsed in
           if calls = [] then (Inr (jsonRpcError JNull (- 32600) ''empty batch'' 400), st)
           else if length calls > MAX_BATCH_CALLS
           then (Inr (jsonRpcError JNull (- 32600) (''batch of '' @ js_of_int (int (length calls)) @ '' exceeds 100'') 413), st)
           else (case first_refused calls of
             Some (call, reason) \<Rightarrow> (Inr (jsonRpcError (call_id call) (- 32601) reason 400), st)
           | None \<Rightarrow>
              (let units = requested_units calls in
               if units > MAX_RPC_UNITS_PER_REQUEST
               then (Inr (jsonRpcError JNull (- 32600) (''request cost '' @ js_of_int (int units) @ '' exceeds 120'') 413), st)
               else (let remaining = units - (if initialRateUnitConsumed then 1 else 0) in
                 case (if remaining > 0 then rateLimited limiter request remaining st else (Inr None, st)) of
                   (Inl e, st1) \<Rightarrow> (Inl e, st1)
                 | (Inr (Some limited), st1) \<Rightarrow> (Inr limited, st1)
                 | (Inr None, st1) \<Rightarrow>
                    (Inr (forward_rpc wp upstreamFetch rpcUrl parsed),
                     st1\<lparr>eg_forwarded := eg_forwarded st1 @ [parsed]\<rparr>))))))))"

end
