(* ===== verification/AppWorker.thy ===== *)
theory AppWorker
  imports RpcProps Community
begin

text \<open>
  The worker in front of the site, \<open>app/worker.ts\<close>: its routes, the RPC proxy, the private binding
  of the quote service at \<open>/api\<close>, the summaries of the index, and the headers every response
  carries. The quote service and the static assets are parameters.
\<close>

subsection \<open>Summaries as JSON\<close>

definition json_int :: "int option \<Rightarrow> jsval" where
  "json_int n = (case n of None \<Rightarrow> JNull | Some i \<Rightarrow> JInt i)"

definition json_big :: "int \<Rightarrow> jsval" where
  "json_big n = JStr (js_of_int n)"

definition config_json :: "vault_config option \<Rightarrow> jsval" where
  "config_json config = (case config of None \<Rightarrow> JNull
     | Some c \<Rightarrow> JObj [(''launchMint'', JStr (vc_launchMint c)), (''vault'', JStr (vc_vault c)),
         (''legs'', JArr (map (\<lambda>leg. case leg of None \<Rightarrow> JNull
           | Some l \<Rightarrow> JObj [(''mint'', JStr (sg_mint l)), (''bps'', JInt (sg_bps l)),
               (''referencePool'', JStr (sg_referencePool l))]) (vc_legs c)))])"

definition index_json :: "index_report \<Rightarrow> jsval" where
  "index_json r = JObj [(''updatedAt'', JInt (ir_updatedAt r)), (''slot'', JInt (ir_slot r)),
    (''backfillComplete'', JBool (ir_backfillComplete r))]"

definition vault_summary_json :: "vault_summary \<Rightarrow> jsval" where
  "vault_summary_json s = (let t = vs_totals s in JObj [(''program'', JStr BURNER_PROGRAM),
    (''finalized'', JBool True), (''vault'', JStr (vs_vault s)),
    (''totals'', JObj [(''solLamports'', json_big (vt_solLamports t)), (''burnCount'', JInt (int (vt_burnCount t))),
      (''targetCount'', JInt (int (length (vt_targets t)))), (''lastBurnAt'', json_int (vt_lastBurnAt t))]),
    (''launchMints'', JArr (map JStr (vt_launchMints t))), (''config'', config_json (vs_config s)),
    (''targets'', JArr (map (\<lambda>a. JObj [(''mint'', JStr (ta_mint a)), (''solLamports'', json_big (ta_solLamports a)),
      (''burnedAtoms'', json_big (ta_burnedAtoms a)), (''burnCount'', JInt (int (ta_burnCount a))),
      (''lastBurnAt'', json_int (ta_lastBurnAt a))]) (vt_targets t))),
    (''index'', index_json (vs_index s))])"

definition launch_summary_json :: "launch_summary \<Rightarrow> jsval" where
  "launch_summary_json s = JObj [(''program'', JStr BURNER_PROGRAM),
    (''finalized'', JBool True), (''launchMint'', JStr (la_launchMint s)),
    (''totals'', JObj [(''solLamports'', json_big (la_solLamports s)), (''burnCount'', JInt (int (la_burnCount s))),
      (''vaultCount'', JInt (int (la_vaultCount s))), (''targetCount'', JInt (int (la_targetCount s))),
      (''lastBurnAt'', json_int (la_lastBurnAt s))]),
    (''vaults'', JArr (map (\<lambda>v. JObj [(''vault'', JStr (vl_vault v)), (''solLamports'', json_big (vl_solLamports v)),
      (''burnCount'', JInt (int (vl_burnCount v))), (''targetCount'', JInt (int (vl_targetCount v))),
      (''lastBurnAt'', json_int (vl_lastBurnAt v)), (''config'', config_json (vl_config v))]) (la_vaults s))),
    (''index'', index_json (la_index s))]"

definition leaderboard_json :: "leaderboard \<Rightarrow> jsval" where
  "leaderboard_json b = JObj [(''program'', JStr BURNER_PROGRAM), (''finalized'', JBool True),
    (''totals'', JObj [(''solLamports'', json_big (lb_totalSolLamports b)), (''burnCount'', JInt (int (lb_totalBurns b))),
      (''communityCount'', JInt (int (lb_communityCount b))), (''launchCount'', JInt (int (lb_launchCount b)))]),
    (''communities'', JArr (map (\<lambda>c. JObj [(''mint'', JStr (co_mint c)), (''solLamports'', json_big (co_solLamports c)),
      (''burnedAtoms'', json_big (co_burnedAtoms c)), (''burnCount'', JInt (int (co_burnCount c))),
      (''vaultCount'', JInt (int (co_vaultCount c))), (''launchCount'', JInt (int (co_launchCount c))),
      (''lastBurnAt'', json_int (co_lastBurnAt c)), (''decimals'', json_int (co_decimals c)),
      (''currentSupplyAtoms'', (case co_currentSupplyAtoms c of None \<Rightarrow> JNull | Some s \<Rightarrow> JStr s))]) (lb_communities b))),
    (''launches'', JArr (map (\<lambda>l. JObj [(''mint'', JStr (ll_mint l)), (''solLamports'', json_big (ll_solLamports l)),
      (''burnCount'', JInt (int (ll_burnCount l))), (''vaultCount'', JInt (int (ll_vaultCount l))),
      (''targetCount'', JInt (int (ll_targetCount l))), (''lastBurnAt'', json_int (ll_lastBurnAt l)),
      (''config'', config_json (ll_config l))]) (lb_launches b))),
    (''index'', index_json (lb_index b))]"

definition json_response :: "int \<Rightarrow> (string \<times> string) list \<Rightarrow> jsval \<Rightarrow> http_response" where
  "json_response status headers body = \<lparr>hs_status = status,
    hs_headers = (''content-type'', ''application/json'') # headers, hs_body = JsonBody body\<rparr>"

definition code_response :: "string \<Rightarrow> http_response" where
  "code_response c = json_response 400 [] (JObj [(''code'', JStr c)])"

definition short_cache :: "(string \<times> string) list" where
  "short_cache = [(''cache-control'', ''public, max-age=10, stale-while-revalidate=20'')]"

definition community_response ::
  "(string \<Rightarrow> string \<Rightarrow> int) \<Rightarrow> community_db \<Rightarrow> http_request \<Rightarrow> http_response" where
  "community_response localeCompare db request =
    (case map_of (url_params (hq_url request)) ''vault'' of
       Some (c # cs) \<Rightarrow> (case communityVaultSummary localeCompare db (c # cs) of
           Inl e \<Rightarrow> code_response e | Inr s \<Rightarrow> json_response 200 short_cache (vault_summary_json s))
     | _ \<Rightarrow> (case map_of (url_params (hq_url request)) ''launch'' of
         Some (c # cs) \<Rightarrow> (case communityLaunchSummary localeCompare db (c # cs) of
           Inl e \<Rightarrow> code_response e | Inr s \<Rightarrow> json_response 200 short_cache (launch_summary_json s))
       | _ \<Rightarrow> json_response 200 [(''cache-control'', ''public, max-age=20, stale-while-revalidate=40'')]
           (leaderboard_json (communityLeaderboard db))))"

subsection \<open>Headers of every response\<close>

definition in_quotes :: "string \<Rightarrow> string" where
  "in_quotes s = CHR 0x27 # s @ [CHR 0x27]"

definition SECURITY_HEADERS :: "(string \<times> string) list" where
  "SECURITY_HEADERS = [(''content-security-policy'', js_join ''; ''
      [''default-src '' @ in_quotes ''self'', ''base-uri '' @ in_quotes ''none'',
       ''object-src '' @ in_quotes ''none'', ''frame-ancestors '' @ in_quotes ''none'',
       ''form-action '' @ in_quotes ''self'', ''script-src '' @ in_quotes ''self'',
       ''style-src '' @ in_quotes ''self'' @ '' '' @ in_quotes ''unsafe-inline'' @ '' https://fonts.googleapis.com'',
       ''font-src '' @ in_quotes ''self'' @ '' data: https://fonts.gstatic.com'',
       ''img-src '' @ in_quotes ''self'' @ '' data: blob: https:'',
       ''connect-src '' @ in_quotes ''self'' @ '' https: wss:'',
       ''worker-src '' @ in_quotes ''self'' @ '' blob:'', ''frame-src https:'',
       ''manifest-src '' @ in_quotes ''self'']),
    (''cross-origin-opener-policy'', ''same-origin-allow-popups''),
    (''permissions-policy'', ''camera=(), geolocation=(), microphone=()''),
    (''referrer-policy'', ''strict-origin-when-cross-origin''),
    (''x-content-type-options'', ''nosniff''),
    (''x-frame-options'', ''DENY'')]"

definition withSecurityHeaders :: "http_response \<Rightarrow> http_response" where
  "withSecurityHeaders response = fold (\<lambda>(name, value). set_header name value) SECURITY_HEADERS response"

subsection \<open>The quote service binding\<close>

record api_request =
  ap_method :: string
  ap_pathname :: string
  ap_search :: string
  ap_headers :: "(string \<times> string) list"
  ap_body :: "byte list list option"

text \<open>\<open>replace(/^\/+/, "/")\<close>\<close>

definition collapse_slashes :: "string \<Rightarrow> string" where
  "collapse_slashes s = (case s of CHR ''/'' # _ \<Rightarrow> CHR ''/'' # dropWhile (\<lambda>c. c = CHR ''/'') s | _ \<Rightarrow> s)"

definition api_suffix :: "string \<Rightarrow> string" where
  "api_suffix pathname = (let suffix = collapse_slashes (drop 4 pathname) in if suffix = [] then ''/'' else suffix)"

text \<open>The named headers, in this order, that are there.\<close>

definition copy_headers :: "string list \<Rightarrow> (string \<times> string) list \<Rightarrow> (string \<times> string) list" where
  "copy_headers names headers = List.map_filter (\<lambda>name. map_option (Pair name) (map_of headers name)) names"

definition FORWARDED_HEADERS :: "string list" where
  "FORWARDED_HEADERS = [''accept'', ''content-type'', ''origin'', ''cf-connecting-ip'']"

definition RETURNED_HEADERS :: "string list" where
  "RETURNED_HEADERS = [''content-type'', ''cache-control'', ''retry-after'', ''allow'']"

definition with_default :: "string \<Rightarrow> string \<Rightarrow> (string \<times> string) list \<Rightarrow> (string \<times> string) list" where
  "with_default name value headers = (if map_of headers name = None then headers @ [(name, value)] else headers)"

definition api_request_of :: "http_request \<Rightarrow> api_request" where
  "api_request_of request = \<lparr>ap_method = hq_method request,
    ap_pathname = api_suffix (url_pathname (hq_url request)), ap_search = url_search (hq_url request),
    ap_headers = copy_headers FORWARDED_HEADERS (hq_headers request),
    ap_body = (if hq_method request = ''GET'' \<or> hq_method request = ''HEAD'' then None else hq_body request)\<rparr>"

definition handleApi :: "(api_request \<Rightarrow> http_response res) option \<Rightarrow> http_request \<Rightarrow> http_response res" where
  "handleApi burnService request = (case burnService of
     None \<Rightarrow> Inr \<lparr>hs_status = 503, hs_headers = [(''content-type'', ''application/json'')],
       hs_body = JsonBody (code_message ''BURN_SERVICE_NOT_CONFIGURED''
         ''the burn service is not configured on this deployment'')\<rparr>
   | Some fetch_service \<Rightarrow>
      if hq_method request \<notin> set [''GET'', ''HEAD'', ''POST'', ''OPTIONS'']
      then Inr (jsonError ''METHOD_NOT_ALLOWED'' ''method not allowed'' 405)
      else bindR (fetch_service (api_request_of request)) (\<lambda>upstream.
        if 300 \<le> hs_status upstream \<and> hs_status upstream < 400
        then Inr (jsonError ''BURN_SERVICE_REDIRECTED'' ''burn service redirected'' 502)
        else Inr \<lparr>hs_status = hs_status upstream,
          hs_headers = with_default ''cache-control'' ''no-store''
            (with_default ''content-type'' ''application/json'' (copy_headers RETURNED_HEADERS (hs_headers upstream))),
          hs_body = hs_body upstream\<rparr>))"

subsection \<open>Routes\<close>

record app_env =
  ae_rpcUrl :: string
  ae_db :: community_db
  ae_burnService :: "(api_request \<Rightarrow> http_response res) option"
  ae_assets :: "http_request \<Rightarrow> http_response"
  ae_rpcLimiter :: "rate_limiter option"
  ae_apiLimiter :: "rate_limiter option"
  ae_upstream :: rpc_fetch
  ae_localeCompare :: "string \<Rightarrow> string \<Rightarrow> int"

definition is_endpoint :: "string \<Rightarrow> bool" where
  "is_endpoint pathname \<longleftrightarrow> pathname = ''/rpc'' \<or> pathname = ''/api'' \<or> take 5 pathname = ''/api/''"

definition without_body :: "http_response \<Rightarrow> http_response" where
  "without_body response = response\<lparr>hs_body := NoBody\<rparr>"

definition serve_rpc :: "web_platform \<Rightarrow> app_env \<Rightarrow> http_request \<Rightarrow> edge \<Rightarrow> http_response res \<times> edge" where
  "serve_rpc wp env request st = (case rateLimited (ae_rpcLimiter env) request 1 st of
     (Inl e, st1) \<Rightarrow> (Inl e, st1)
   | (Inr (Some limited), st1) \<Rightarrow> (Inr (withSecurityHeaders limited), st1)
   | (Inr None, st1) \<Rightarrow> (case handleRpc wp (ae_rpcUrl env) (ae_rpcLimiter env) (ae_upstream env) request True st1 of
       (Inl e, st2) \<Rightarrow> (Inl e, st2)
     | (Inr response, st2) \<Rightarrow> (Inr (withSecurityHeaders response), st2)))"

definition serve_api :: "app_env \<Rightarrow> http_request \<Rightarrow> edge \<Rightarrow> http_response res \<times> edge" where
  "serve_api env request st = (case rateLimited (ae_apiLimiter env) request 1 st of
     (Inl e, st1) \<Rightarrow> (Inl e, st1)
   | (Inr (Some limited), st1) \<Rightarrow> (Inr (withSecurityHeaders limited), st1)
   | (Inr None, st1) \<Rightarrow>
      (if url_pathname (hq_url request) = ''/api/community-vaults'' then
         (if hq_method request \<noteq> ''GET'' \<and> hq_method request \<noteq> ''HEAD''
          then Inr (jsonError ''METHOD_NOT_ALLOWED'' ''GET required'' 405)
          else (let response = community_response (ae_localeCompare env) (ae_db env) request
                in Inr (withSecurityHeaders (if hq_method request = ''HEAD'' then without_body response else response))))
       else bindR (handleApi (ae_burnService env) request) (\<lambda>response. Inr (withSecurityHeaders response)), st1))"

definition redirect_response :: "string \<Rightarrow> int \<Rightarrow> http_response" where
  "redirect_response location status = \<lparr>hs_status = status, hs_headers = [(''location'', location)], hs_body = NoBody\<rparr>"

text \<open>What the \<open>catch\<close> around the endpoints answers to any throw.\<close>

definition upstream_unavailable :: http_response where
  "upstream_unavailable = withSecurityHeaders (jsonError ''UPSTREAM_UNAVAILABLE'' ''upstream unavailable'' 502)"

definition app_fetch :: "web_platform \<Rightarrow> app_env \<Rightarrow> http_request \<Rightarrow> edge \<Rightarrow> http_response \<times> edge" where
  "app_fetch wp env request st =
    (let url = hq_url request in
     if url_hostname url = ''www.cooked.diy''
     then (withSecurityHeaders (redirect_response (url_href (setHostname wp ''cooked.diy'' url)) 308), st)
     else if is_endpoint (url_pathname url) then
       (if \<not> isAllowedOrigin wp request then (withSecurityHeaders forbidden, st)
        else (case (if url_pathname url = ''/rpc'' then serve_rpc wp env request st else serve_api env request st) of
            (Inl e, st1) \<Rightarrow> (upstream_unavailable, st1)
          | (Inr response, st1) \<Rightarrow> (response, st1)))
     else (withSecurityHeaders (ae_assets env request), st))"

end
