(* ===== verification/AppWorkerProps.thy ===== *)
theory AppWorkerProps
  imports AppWorker
begin

text \<open>
  What the worker in front of the site guarantees: the RPC proxy forwards only bounded, allowed and
  paid calls, its answers do not carry the configured URL, and the security headers are on every
  response but one.
\<close>

subsection \<open>Calls\<close>

text \<open>What a forwarded call may be, stated without the order of the checks.\<close>

definition pool_scan_filter :: "jsval \<Rightarrow> bool" where
  "pool_scan_filter v \<longleftrightarrow> (\<exists>n. v = JObj [(''dataSize'', JInt n)] \<and> 0 < n \<and> n \<le> 10000) \<or>
    (\<exists>kvs. v = JObj [(''memcmp'', JObj kvs)] \<and> valid_memcmp kvs)"

definition bounded_scan :: "jsval \<Rightarrow> bool" where
  "bounded_scan params \<longleftrightarrow> (\<exists>program kvs filters. params = JArr [JStr program, JObj kvs] \<and>
    program \<in> set POOL_SCAN_PROGRAMS \<and> field kvs ''filters'' = JArr filters \<and>
    2 \<le> length filters \<and> length filters \<le> 4 \<and> list_all pool_scan_filter filters \<and>
    length (filter (\<lambda>v. \<exists>n. v = JObj [(''dataSize'', JInt n)]) filters) = 1 \<and>
    (field kvs ''dataSlice'' = JUndef \<or> (\<exists>range. field kvs ''dataSlice'' = JObj range \<and>
      field range ''offset'' = JInt 0 \<and> field range ''length'' = JInt 0)))"

definition allowed_call :: "jsval \<Rightarrow> bool" where
  "allowed_call call \<longleftrightarrow> (\<exists>kvs m. call = JObj kvs \<and> field kvs ''method'' = JStr m \<and> m \<in> set ALLOWED_METHODS \<and>
    (m = ''getProgramAccounts'' \<longrightarrow> bounded_scan (field kvs ''params'')))"

lemma single_key: "map fst kvs = [k] \<longleftrightarrow> (\<exists>v. kvs = [(k, v)])"
  by (cases kvs) auto

lemma field_single [simp]: "field [(k, v)] k = v"
  by (simp add: field_def)

lemma scan_filter_Inr:
  "scan_filter v = Inr kind \<Longrightarrow> pool_scan_filter v \<and> kind = (\<exists>n. v = JObj [(''dataSize'', JInt n)])"
  by (auto simp: scan_filter_def pool_scan_filter_def single_key split: jsval.split_asm if_split_asm)

lemma scan_filters_Inr:
  assumes "scan_filters filters = Inr u"
  shows "list_all pool_scan_filter filters \<and> length (filter (\<lambda>v. \<exists>n. v = JObj [(''dataSize'', JInt n)]) filters) = 1"
proof -
  obtain kinds where k: "traverse scan_filter filters = Inr kinds" "length (filter (\<lambda>k. k) kinds) = 1"
    using assms by (auto simp: scan_filters_def elim!: bindR_InrE split: if_split_asm)
  have each: "pool_scan_filter (filters ! i) \<and> kinds ! i = (\<exists>n. filters ! i = JObj [(''dataSize'', JInt n)])"
    if "i < length filters" for i
    using traverse_from_nth [OF k(1) that] scan_filter_Inr by blast
  then have "kinds = map (\<lambda>v. \<exists>n. v = JObj [(''dataSize'', JInt n)]) filters"
    using traverse_from_length [OF k(1)] by (intro nth_equalityI) auto
  then show ?thesis using each k(2) by (auto simp: list_all_length filter_map comp_def)
qed

lemma scan_slice_Inr:
  "scan_slice v = Inr u \<Longrightarrow> v = JUndef \<or> (\<exists>range. v = JObj range \<and>
    field range ''offset'' = JInt 0 \<and> field range ''length'' = JInt 0)"
  by (auto simp: scan_slice_def split: jsval.split_asm if_split_asm)

lemma two_params: "(case params of JArr [p, c] \<Rightarrow> f p c | _ \<Rightarrow> Inl e) = Inr u \<Longrightarrow>
    \<exists>p c. params = JArr [p, c] \<and> f p c = Inr u"
  by (auto split: jsval.split_asm list.split_asm)

lemma obj_config: "(case v of JObj kvs \<Rightarrow> f kvs | _ \<Rightarrow> Inl e) = Inr u \<Longrightarrow> \<exists>kvs. v = JObj kvs \<and> f kvs = Inr u"
  by (cases v) simp_all

lemma arr_filters: "(case v of JArr xs \<Rightarrow> f xs | _ \<Rightarrow> Inl e) = Inr u \<Longrightarrow> \<exists>xs. v = JArr xs \<and> f xs = Inr u"
  by (cases v) simp_all

lemma str_method: "(case v of JStr s \<Rightarrow> f s | _ \<Rightarrow> Inl e) = Inr u \<Longrightarrow> \<exists>s. v = JStr s \<and> f s = Inr u"
  by (cases v) simp_all

lemma scan_params_Inr:
  assumes "scan_params params = Inr u"
  shows "bounded_scan params"
proof -
  obtain p c where params: "params = JArr [p, c]" and p: "p \<in> JStr ` set POOL_SCAN_PROGRAMS"
    and c: "(case c of JObj kvs \<Rightarrow> (case field kvs ''filters'' of JArr filters \<Rightarrow>
        if length filters < 2 \<or> length filters > 4 then Inl ''getProgramAccounts requires 2 to 4 bounded filters''
        else bindR (scan_filters filters) (\<lambda>_. scan_slice (field kvs ''dataSlice''))
      | _ \<Rightarrow> Inl ''getProgramAccounts requires 2 to 4 bounded filters'')
      | _ \<Rightarrow> Inl ''getProgramAccounts requires a bounded scan config'') = Inr u"
    using two_params [OF assms [unfolded scan_params_def]] by (auto split: if_split_asm)
  obtain kvs filters where kvs: "c = JObj kvs" and filters: "field kvs ''filters'' = JArr filters"
    and rest: "2 \<le> length filters" "length filters \<le> 4"
      "bindR (scan_filters filters) (\<lambda>_. scan_slice (field kvs ''dataSlice'')) = Inr u"
    using obj_config [OF c] arr_filters by (fastforce simp: not_less split: if_split_asm)
  obtain w where w: "scan_filters filters = Inr w" "scan_slice (field kvs ''dataSlice'') = Inr u"
    using rest(3) by (elim bindR_InrE) auto
  show ?thesis
    using params p kvs filters rest(1,2) scan_filters_Inr [OF w(1)] scan_slice_Inr [OF w(2)]
    unfolding bounded_scan_def by blast
qed

lemma check_call_Inr:
  assumes "check_call call = Inr u"
  shows "allowed_call call"
proof -
  obtain kvs where kvs: "call = JObj kvs" using obj_config [OF assms [unfolded check_call_def]] by blast
  obtain m where m: "field kvs ''method'' = JStr m"
      "(if m \<notin> set ALLOWED_METHODS then Inl (''method not allowed: '' @ m)
        else if m = ''getProgramAccounts'' then scan_params (field kvs ''params'') else Inr ()) = Inr u"
    using str_method assms by (fastforce simp: check_call_def kvs)
  then show ?thesis
    using kvs scan_params_Inr unfolding allowed_call_def by (metis Inl_Inr_False)
qed

lemma first_refused_None: "first_refused calls = None \<Longrightarrow> list_all allowed_call calls"
  by (induction calls)
    (auto simp: rejectReason_def dest: check_call_Inr split: sum.split_asm option.split_asm)

lemma requested_units_sum: "requested_units calls = sum_list (map rpcUnits calls)"
proof -
  have "fold (\<lambda>call total. total + rpcUnits call) calls a = a + sum_list (map rpcUnits calls)" for a
    by (induction calls arbitrary: a) simp_all
  then show ?thesis by (simp add: requested_units_def)
qed

lemma rpcUnits_pos: "1 \<le> rpcUnits call"
proof -
  have "list_all (\<lambda>(m, n). 1 \<le> n) RPC_METHOD_UNITS" by code_simp
  then show ?thesis by (auto simp: rpcUnits_def list_all_iff dest: map_of_SomeD split: option.splits)
qed

lemma requested_units_pos: "calls \<noteq> [] \<Longrightarrow> 1 \<le> requested_units calls"
  using rpcUnits_pos by (cases calls) (auto simp: requested_units_sum intro: trans_le_add1)

lemma limit_units_granted:
  "limit_units limit key n st = (Inr None, st1) \<Longrightarrow>
    eg_granted st1 = eg_granted st @ replicate n key \<and> eg_forwarded st1 = eg_forwarded st"
proof (induction n arbitrary: st)
  case (Suc n)
  then show ?case by (auto simp: replicate_app_Cons_same split: sum.split_asm if_split_asm)
qed simp

lemma limit_units_forwards: "limit_units limit key n st = (r, st1) \<Longrightarrow> eg_forwarded st1 = eg_forwarded st"
  by (induction n arbitrary: st) (auto split: sum.split_asm if_split_asm)

lemma rateLimited_granted:
  "rateLimited limiter request n st = (Inr None, st1) \<Longrightarrow>
    eg_granted st1 = eg_granted st @ replicate n (clientKey request) \<and> eg_forwarded st1 = eg_forwarded st"
  by (auto simp: rateLimited_def dest: limit_units_granted split: option.split_asm)

lemma rateLimited_forwards: "rateLimited limiter request n st = (r, st1) \<Longrightarrow> eg_forwarded st1 = eg_forwarded st"
  by (auto simp: rateLimited_def dest: limit_units_forwards split: option.split_asm)

text \<open>Errors have a JSON body.\<close>

lemma bodies [simp]: "hs_body (jsonError c m s) = JsonBody (code_message c m)"
  "\<exists>v. hs_body (jsonRpcError i n m s) = JsonBody v" "hs_body (jsonRpcError i n m s) \<noteq> Chunks parts"
  by (simp_all add: jsonError_def jsonRpcError_def)

lemma limit_units_body: "limit_units limit key n st = (Inr (Some r), st1) \<Longrightarrow> r = rate_limited_response"
  by (induction n arbitrary: st) (auto split: sum.split_asm if_split_asm)

lemma rateLimited_body: "rateLimited limiter request n st = (Inr (Some r), st1) \<Longrightarrow> hs_body r \<noteq> Chunks parts"
  by (auto simp: rateLimited_def rate_limited_response_def dest: limit_units_body split: option.split_asm)

text \<open>The one path of the handler on which something is forwarded.\<close>

definition rpc_forwards :: "web_platform \<Rightarrow> string \<Rightarrow> rpc_fetch \<Rightarrow> http_request \<Rightarrow> bool \<Rightarrow> edge \<Rightarrow>
    http_response res \<Rightarrow> edge \<Rightarrow> jsval \<Rightarrow> bool" where
  "rpc_forwards wp rpcUrl upstreamFetch request consumed st result st' parsed \<longleftrightarrow>
    rpcUrl \<noteq> [] \<and> (\<exists>raw. readTextWithCap wp request MAX_BODY_BYTES = Some raw \<and> parseJSON wp raw = Some parsed) \<and>
    batch_calls parsed \<noteq> [] \<and> length (batch_calls parsed) \<le> MAX_BATCH_CALLS \<and>
    list_all allowed_call (batch_calls parsed) \<and> requested_units (batch_calls parsed) \<le> MAX_RPC_UNITS_PER_REQUEST \<and>
    result = Inr (forward_rpc wp upstreamFetch rpcUrl parsed) \<and>
    st' = \<lparr>eg_granted = eg_granted st @ replicate (requested_units (batch_calls parsed) - (if consumed then 1 else 0))
      (clientKey request), eg_forwarded = eg_forwarded st @ [parsed]\<rparr>"

definition quiet :: "http_response res \<Rightarrow> bool" where
  "quiet result \<longleftrightarrow> (\<forall>response parts. result = Inr response \<longrightarrow> hs_body response \<noteq> Chunks parts)"

lemma quietI [simp]: "quiet (Inl e)" "quiet (Inr (jsonRpcError i n m s))" "quiet (Inr (jsonError c m s))"
  by (simp_all add: quiet_def)

lemma pay_and_forward:
  assumes "(case (if 0 < n then rateLimited limiter request n st else (Inr None, st)) of
      (Inl e, st1) \<Rightarrow> (Inl e, st1)
    | (Inr (Some limited), st1) \<Rightarrow> (Inr limited, st1)
    | (Inr None, st1) \<Rightarrow> (Inr response, st1\<lparr>eg_forwarded := eg_forwarded st1 @ [parsed]\<rparr>)) = (result, st')"
  shows "eg_forwarded st' = eg_forwarded st \<and> quiet result \<or> result = Inr response \<and>
    st' = \<lparr>eg_granted = eg_granted st @ replicate n (clientKey request), eg_forwarded = eg_forwarded st @ [parsed]\<rparr>"
proof -
  let ?pay = "if 0 < n then rateLimited limiter request n st else (Inr None, st)"
  obtain r st1 where r: "?pay = (r, st1)" by force
  consider (error) e where "r = Inl e" | (limited) l where "r = Inr (Some l)" | (ok) "r = Inr None"
    by (metis option.exhaust sum.exhaust)
  then show ?thesis
  proof cases
    case error
    then show ?thesis using assms r rateLimited_forwards by (auto split: if_split_asm)
  next
    case limited
    then show ?thesis using assms r rateLimited_forwards rateLimited_body
      by (auto simp: quiet_def split: if_split_asm)
  next
    case ok
    then have "eg_granted st1 = eg_granted st @ replicate n (clientKey request) \<and> eg_forwarded st1 = eg_forwarded st"
      using r rateLimited_granted by (auto split: if_split_asm)
    then show ?thesis using assms r ok by (cases st1) (auto simp: split: if_split_asm)
  qed
qed

lemma handleRpc_cases:
  assumes "handleRpc wp rpcUrl limiter upstreamFetch request consumed st = (result, st')"
  shows "eg_forwarded st' = eg_forwarded st \<and> quiet result \<or>
    (\<exists>parsed. rpc_forwards wp rpcUrl upstreamFetch request consumed st result st' parsed)"
proof (cases "hq_method request = ''POST'' \<and> rpcUrl \<noteq> []")
  case True
  note h = assms [unfolded handleRpc_def Let_def]
  show ?thesis
  proof (cases "readTextWithCap wp request MAX_BODY_BYTES")
    case None
    then show ?thesis using h True by auto
  next
    case (Some raw)
    show ?thesis
    proof (cases "parseJSON wp raw")
      case None
      then show ?thesis using h True Some by auto
    next
      case json: (Some parsed)
      let ?calls = "batch_calls parsed"
      show ?thesis
      proof (cases "?calls \<noteq> [] \<and> length ?calls \<le> MAX_BATCH_CALLS \<and> first_refused ?calls = None \<and>
          requested_units ?calls \<le> MAX_RPC_UNITS_PER_REQUEST")
        case bounded: True
        let ?n = "requested_units ?calls - (if consumed then 1 else 0)"
        have "(case (if 0 < ?n then rateLimited limiter request ?n st else (Inr None, st)) of
            (Inl e, st1) \<Rightarrow> (Inl e, st1)
          | (Inr (Some limited), st1) \<Rightarrow> (Inr limited, st1)
          | (Inr None, st1) \<Rightarrow> (Inr (forward_rpc wp upstreamFetch rpcUrl parsed),
              st1\<lparr>eg_forwarded := eg_forwarded st1 @ [parsed]\<rparr>)) = (result, st')"
          using h True Some json bounded by simp
        from pay_and_forward [OF this] show ?thesis
          using True Some json bounded first_refused_None [of ?calls] unfolding rpc_forwards_def by blast
      next
        case False
        then show ?thesis using h True Some json
          by (auto simp: not_less split: if_split_asm option.split_asm)
      qed
    qed
  qed
next
  case False
  then show ?thesis using assms by (auto simp: handleRpc_def split: if_split_asm)
qed

lemma forward_rpc_parts:
  "hs_body (forward_rpc wp upstreamFetch rpcUrl parsed) = Chunks parts \<Longrightarrow> \<exists>body. parts = safeRpcResponseBody wp rpcUrl body"
  by (auto simp: forward_rpc_def split: sum.split_asm option.split_asm if_split_asm)

subsection \<open>The routes\<close>

lemma secured_body [simp]: "hs_body (withSecurityHeaders r) = hs_body r" "hs_status (withSecurityHeaders r) = hs_status r"
  by (simp_all add: withSecurityHeaders_def SECURITY_HEADERS_def set_header_def)

lemma rpc_route:
  assumes "app_fetch wp env request st = (response, st')" "url_pathname (hq_url request) = ''/rpc''"
  shows "eg_forwarded st' = eg_forwarded st \<and> (\<forall>parts. hs_body response \<noteq> Chunks parts) \<or>
    isAllowedOrigin wp request \<and> (\<exists>parsed st1 answer. eg_granted st1 = eg_granted st @ [clientKey request] \<and>
      eg_forwarded st1 = eg_forwarded st \<and> hs_body response = hs_body answer \<and>
      rpc_forwards wp (ae_rpcUrl env) (ae_upstream env) request True st1 (Inr answer) st' parsed)"
proof (cases "url_hostname (hq_url request) \<noteq> ''www.cooked.diy'' \<and> isAllowedOrigin wp request")
  case False
  then show ?thesis
    using assms by (auto simp: app_fetch_def is_endpoint_def redirect_response_def forbidden_def Let_def split: if_split_asm)
next
  case True
  let ?units = "rateLimited (ae_rpcLimiter env) request 1 st"
  obtain first st1 where unit: "?units = (first, st1)" by force
  have out: "(case serve_rpc wp env request st of (Inl e, st1) \<Rightarrow> (upstream_unavailable, st1)
      | (Inr response, st1) \<Rightarrow> (response, st1)) = (response, st')"
    using assms True by (simp add: app_fetch_def is_endpoint_def Let_def)
  have early: ?thesis if "serve_rpc wp env request st = (r, st1)"
      "r = Inl e \<or> (\<exists>l. r = Inr (withSecurityHeaders l) \<and> (\<forall>parts. hs_body l \<noteq> Chunks parts))" for r e
    using out that rateLimited_forwards [OF unit] by (auto simp: upstream_unavailable_def)
  consider (error) e where "first = Inl e" | (limited) l where "first = Inr (Some l)" | (ok) "first = Inr None"
    by (metis option.exhaust sum.exhaust)
  then show ?thesis
  proof cases
    case error
    then show ?thesis using early [of "Inl e" e] unit by (simp add: serve_rpc_def)
  next
    case limited
    have "\<forall>parts. hs_body l \<noteq> Chunks parts" using rateLimited_body unit limited by blast
    moreover have "serve_rpc wp env request st = (Inr (withSecurityHeaders l), st1)"
      using unit limited by (simp add: serve_rpc_def)
    ultimately show ?thesis using early [of "Inr (withSecurityHeaders l)" undefined] by blast
  next
    case ok
    obtain r st2 where r: "handleRpc wp (ae_rpcUrl env) (ae_rpcLimiter env) (ae_upstream env) request True st1 = (r, st2)"
      by force
    have st: "st2 = st'" and answer: "hs_body response = (case r of Inl e \<Rightarrow> hs_body upstream_unavailable | Inr a \<Rightarrow> hs_body a)"
      using out unit ok r by (auto simp: serve_rpc_def split: sum.split_asm)
    have granted: "eg_granted st1 = eg_granted st @ [clientKey request]" "eg_forwarded st1 = eg_forwarded st"
      using rateLimited_granted [OF unit [unfolded ok]] by simp_all
    from handleRpc_cases [OF r] show ?thesis
    proof (elim disjE exE)
      assume "eg_forwarded st2 = eg_forwarded st1 \<and> quiet r"
      then show ?thesis using st granted answer
        by (auto simp: quiet_def upstream_unavailable_def split: sum.split_asm)
    next
      fix parsed
      assume f: "rpc_forwards wp (ae_rpcUrl env) (ae_upstream env) request True st1 r st2 parsed"
      then obtain a where "r = Inr a" by (auto simp: rpc_forwards_def)
      then show ?thesis using f st granted answer True by auto
    qed
  qed
qed

lemma api_route_forwards:
  assumes "app_fetch wp env request st = (response, st')" "url_pathname (hq_url request) \<noteq> ''/rpc''"
  shows "eg_forwarded st' = eg_forwarded st"
proof -
  have "eg_forwarded st1 = eg_forwarded st" if "serve_api env request st = (r, st1)" for r st1
    using that by (auto simp: serve_api_def dest: rateLimited_forwards split: prod.split_asm sum.split_asm option.split_asm)
  then show ?thesis
    using assms by (auto simp: app_fetch_def Let_def split: prod.split_asm sum.split_asm if_split_asm)
qed


text \<open>
  An example: a platform that knows one URL, codes text as the identity on characters, and parses
  two bodies; an upstream that echoes the key of its URL, cut in two chunks.
\<close>

definition example_url :: "string \<Rightarrow> string \<Rightarrow> url_parts" where
  "example_url host path = \<lparr>url_href = ''https://'' @ host @ path, url_origin = ''https://'' @ host,
    url_protocol = ''https:'', url_username = [], url_password = [], url_host = host, url_hostname = host,
    url_pathname = path, url_search = [], url_hash = [], url_params = []\<rparr>"

definition ascii_bytes :: "string \<Rightarrow> byte list" where
  "ascii_bytes = map (\<lambda>c. word_of_nat (of_char c))"

definition example_web :: web_platform where
  "example_web = \<lparr>newURL = (\<lambda>s. if s = ''https://a.b/secret1'' then Some (example_url ''a.b'' ''/secret1'')
      else if s = ''https://cooked.diy'' then Some (example_url ''cooked.diy'' [])
      else None),
    resolveURL = (\<lambda>_ _. None), setHostname = (\<lambda>host u. example_url host (url_pathname u)), encodeURIComponent = (\<lambda>s. s), decodeURIComponent = Some,
    encodeText = ascii_bytes, decodeText = map (\<lambda>b. char_of (unat b)),
    parseJSON = (\<lambda>s. if s = ''q'' then Some (JArr [JObj [(''method'', JStr ''getSlot'')],
      JObj [(''method'', JStr ''getTransaction'')]]) else None),
    stringifyJSON = (\<lambda>_. []), sha256Hex = (\<lambda>_. [])\<rparr>"

definition example_rpc_request :: http_request where
  "example_rpc_request = \<lparr>hq_method = ''POST'', hq_url = example_url ''cooked.diy'' ''/rpc'',
    hq_headers = [(''origin'', ''https://cooked.diy''), (''cf-connecting-ip'', ''9'')],
    hq_body = Some [ascii_bytes ''q'']\<rparr>"

definition example_app_env :: app_env where
  "example_app_env = \<lparr>ae_rpcUrl = ''https://a.b/secret1'', ae_db = empty_db, ae_burnService = None,
    ae_assets = (\<lambda>_. redirect_response [] 200), ae_rpcLimiter = Some (\<lambda>_ n. Inr (n < 10)), ae_apiLimiter = None,
    ae_upstream = (\<lambda>_. Inr \<lparr>up_status = 200, up_contentType = Some ''application/json'',
      up_body = Some [ascii_bytes ''xsec'', ascii_bytes ''ret1y'']\<rparr>),
    ae_localeCompare = (\<lambda>_ _. 0)\<rparr>"

lemma example_read: "readTextWithCap example_web example_rpc_request MAX_BODY_BYTES = Some ''q''"
  by (simp add: readTextWithCap_def declared_too_large_def header_def example_rpc_request_def MAX_BODY_BYTES_def
    example_web_def ascii_bytes_def) code_simp

lemma example_rpc:
  "app_fetch example_web example_app_env example_rpc_request \<lparr>eg_granted = [], eg_forwarded = []\<rparr> =
    (withSecurityHeaders \<lparr>hs_status = 200,
      hs_headers = [(''content-type'', ''application/json''), (''cache-control'', ''no-store'')],
      hs_body = Chunks [[120, 42, 42, 42, 42, 42, 42, 42, 121]]\<rparr>,
     \<lparr>eg_granted = [''9'', ''9'', ''9'', ''9''], eg_forwarded = [JArr [JObj [(''method'', JStr ''getSlot'')],
       JObj [(''method'', JStr ''getTransaction'')]]]\<rparr>)"
  unfolding app_fetch_def serve_rpc_def handleRpc_def example_read by code_simp


text \<open>
  C24: what one request makes the proxy forward is at most one body. It is a batch of one to a
  hundred calls of allowed methods, every pool scan among them bounded, it costs at most 120 units,
  and before it is forwarded the rate limiter has granted exactly its cost to the caller; only a
  request of an allowed origin gets that far.
\<close>

theorem rpc_calls_paid:
  assumes "app_fetch wp env request st = (response, st')" "eg_forwarded st' \<noteq> eg_forwarded st"
  shows "\<exists>parsed. eg_forwarded st' = eg_forwarded st @ [parsed] \<and>
    batch_calls parsed \<noteq> [] \<and> length (batch_calls parsed) \<le> 100 \<and> list_all allowed_call (batch_calls parsed) \<and>
    sum_list (map rpcUnits (batch_calls parsed)) \<le> 120 \<and>
    eg_granted st' = eg_granted st @ replicate (sum_list (map rpcUnits (batch_calls parsed))) (clientKey request) \<and>
    isAllowedOrigin wp request"
proof -
  have path: "url_pathname (hq_url request) = ''/rpc''" using api_route_forwards assms by blast
  from rpc_route [OF assms(1) path] assms(2) obtain parsed st1 answer where
    f: "eg_granted st1 = eg_granted st @ [clientKey request]" "eg_forwarded st1 = eg_forwarded st"
      "rpc_forwards wp (ae_rpcUrl env) (ae_upstream env) request True st1 (Inr answer) st' parsed"
      "isAllowedOrigin wp request"
    by blast
  then have some: "batch_calls parsed \<noteq> []" by (simp add: rpc_forwards_def)
  obtain n where n: "requested_units (batch_calls parsed) = Suc n"
    using requested_units_pos [OF some] by (metis Suc_le_D One_nat_def)
  show ?thesis
    using f n by (intro exI [of _ parsed])
      (simp add: rpc_forwards_def MAX_BATCH_CALLS_def MAX_RPC_UNITS_PER_REQUEST_def flip: requested_units_sum)
qed

lemma rpc_calls_paid_witness:
  "\<exists>parsed. [JArr [JObj [(''method'', JStr ''getSlot'')], JObj [(''method'', JStr ''getTransaction'')]]] = [parsed] \<and>
    list_all allowed_call (batch_calls parsed) \<and> sum_list (map rpcUnits (batch_calls parsed)) = 4"
  using rpc_calls_paid [OF example_rpc] by (force dest: arg_cong [where f = length])

text \<open>Every header of the list is on the response.\<close>

definition secured :: "http_response \<Rightarrow> bool" where
  "secured response \<longleftrightarrow> (\<forall>(name, value) \<in> set SECURITY_HEADERS. map_of (hs_headers response) name = Some value)"

lemma set_headers:
  "map_of (hs_headers (fold (\<lambda>(name, value). set_header name value) hs r)) name = (case map_of (rev hs) name of
    None \<Rightarrow> map_of (hs_headers r) name | Some v \<Rightarrow> Some v)"
  by (induction hs arbitrary: r) (auto simp: set_header_def map_of_upsert map_add_def split: option.split)

lemma secured_withSecurityHeaders [simp]: "secured (withSecurityHeaders response)"
proof -
  have names: "distinct (map fst (rev SECURITY_HEADERS))" by (simp add: SECURITY_HEADERS_def)
  have "map_of (hs_headers (withSecurityHeaders response)) name = Some v"
    if "(name, v) \<in> set SECURITY_HEADERS" for name v
    using that map_of_is_SomeI [OF names] unfolding withSecurityHeaders_def set_headers by simp
  then show ?thesis unfolding secured_def by blast
qed

text \<open>
  C25: every response of the worker carries the security headers, with one exception: the answer to
  a method other than \<open>GET\<close> and \<open>HEAD\<close> on the community summaries is the bare JSON error.
\<close>

theorem secured_responses:
  "secured (fst (app_fetch wp env request st)) \<or>
   (fst (app_fetch wp env request st) = jsonError ''METHOD_NOT_ALLOWED'' ''GET required'' 405 \<and>
    url_pathname (hq_url request) = ''/api/community-vaults'' \<and> hq_method request \<notin> {''GET'', ''HEAD''})"
proof -
  have rpc: "secured response" if "serve_rpc wp env request st = (Inr response, st1)" for response st1
    using that by (auto simp: serve_rpc_def split: prod.split_asm sum.split_asm option.split_asm)
  have api: "secured response \<or> response = jsonError ''METHOD_NOT_ALLOWED'' ''GET required'' 405 \<and>
      url_pathname (hq_url request) = ''/api/community-vaults'' \<and> hq_method request \<notin> {''GET'', ''HEAD''}"
    if "serve_api env request st = (Inr response, st1)" for response st1
    using that by (auto simp: serve_api_def Let_def elim!: bindR_InrE
      split: prod.split_asm sum.split_asm option.split_asm if_split_asm)
  show ?thesis
    using rpc api by (auto simp: app_fetch_def Let_def upstream_unavailable_def split: prod.split sum.split)
qed

end
