(* ===== verification/Upload.thy ===== *)
theory Upload
  imports Web
begin

text \<open>
  The boundary of paid metadata uploads in \<open>quote-service/server.ts\<close>: the checks of
  \<open>parseMetadataUploadRequest\<close> and \<open>parseMetadataImagePrepareRequest\<close> in their
  order, and the text hygiene of everything that leaves the process.
\<close>

subsection \<open>Text that leaves the process\<close>

text \<open>The class \<open>[A-Za-z0-9+/=_-]\<close>.\<close>

definition payload_char :: "char \<Rightarrow> bool" where
  "payload_char c \<longleftrightarrow> in_range CHR ''A'' CHR ''Z'' c \<or> in_range CHR ''a'' CHR ''z'' c \<or> is_digit c \<or> c \<in> set ''+/=_-''"

definition redact_run :: "string \<Rightarrow> string" where
  "redact_run r = (if length r \<ge> 64 then ''[redacted:'' @ js_of_int (int (length r)) @ '']'' else r)"

text \<open>
  \<open>replace(/[\<dots>]{64,}/g, \<dots>)\<close>: the match is greedy, so it takes whole runs of the class; \<open>pending\<close>
  is the run read so far.
\<close>

fun redact_runs :: "string \<Rightarrow> string \<Rightarrow> string" where
  "redact_runs pending [] = redact_run pending"
| "redact_runs pending (c # cs) =
    (if payload_char c then redact_runs (pending @ [c]) cs
     else redact_run pending @ c # redact_runs [] cs)"

definition sanitizeForTransport :: "string \<Rightarrow> string" where
  "sanitizeForTransport s = take 400 (redact_runs [] s)"

subsection \<open>The upload request\<close>

definition MAX_METADATA_IMAGE_BYTES :: nat where
  "MAX_METADATA_IMAGE_BYTES = 10000000"

definition ACCEPTED_METADATA_IMAGE_TYPES :: "string list" where
  "ACCEPTED_METADATA_IMAGE_TYPES = [''image/png'', ''image/jpeg'', ''image/webp'']"

record upload_input =
  ui_requestId :: string
  ui_name :: string
  ui_symbol :: string
  ui_description :: string
  ui_links :: "(string \<times> string) list"
  ui_image :: "byte list"
  ui_imageContentType :: string

record upload_result =
  ur_uri :: string
  ur_imageUri :: string
  ur_deliveryImageUri :: string
  ur_originalImageBytes :: nat
  ur_imageBytes :: nat

text \<open>\<open>MetadataUploadError(code, message, status)\<close>\<close>

datatype upload_error = UploadError string string int

abbreviation invalid_upload :: "string \<Rightarrow> upload_error + 'a" where
  "invalid_upload message \<equiv> Inl (UploadError ''INVALID_UPLOAD_REQUEST'' message 400)"

text \<open>\<open>toString("ascii")\<close> drops the high bit of every byte.\<close>

definition ascii_text :: "byte list \<Rightarrow> string" where
  "ascii_text = map (\<lambda>b. char_of (unat b mod 128))"

definition hasImageSignature :: "byte list \<Rightarrow> string \<Rightarrow> bool" where
  "hasImageSignature bytes contentType =
    (if contentType = ''image/png''
     then length bytes \<ge> 8 \<and> take 8 bytes = [0x89, 0x50, 0x4e, 0x47, 0x0d, 0x0a, 0x1a, 0x0a]
     else if contentType = ''image/jpeg''
     then length bytes \<ge> 3 \<and> take 3 bytes = [0xff, 0xd8, 0xff]
     else length bytes \<ge> 12 \<and> ascii_text (take 4 bytes) = ''RIFF'' \<and>
       ascii_text (subarray 8 12 bytes) = ''WEBP'')"

definition METADATA_LINK_KEYS :: "string list" where
  "METADATA_LINK_KEYS = [''website'', ''twitter'', ''telegram'']"

definition unknown_keys :: "string list \<Rightarrow> (string \<times> jsval) list \<Rightarrow> string list" where
  "unknown_keys known object = filter (\<lambda>k. k \<notin> set known) (map fst object)"

text \<open>One key of the loop over links: nothing, or the normalised link.\<close>

definition parse_link :: "web_platform \<Rightarrow> (string \<times> jsval) list \<Rightarrow> string \<Rightarrow> upload_error + (string \<times> string) list" where
  "parse_link wp object key = (case field object key of
     JUndef \<Rightarrow> Inr [] | JNull \<Rightarrow> Inr [] | JStr [] \<Rightarrow> Inr []
   | JStr v \<Rightarrow> (let trimmed = js_trim v in
       if trimmed = [] then Inr []
       else if length trimmed > 200 then invalid_upload (key @ '' must not exceed 200 characters'')
       else (case newURL wp trimmed of
           None \<Rightarrow> invalid_upload (key @ '' must be a full URL beginning http:// or https://'')
         | Some parsed \<Rightarrow>
             if url_protocol parsed \<noteq> ''https:'' \<and> url_protocol parsed \<noteq> ''http:''
             then invalid_upload (key @ '' must use http or https'')
             else Inr [(key, url_href parsed)]))
   | _ \<Rightarrow> invalid_upload (key @ '' must be a string''))"

definition parseMetadataLinks :: "web_platform \<Rightarrow> jsval \<Rightarrow> upload_error + (string \<times> string) list" where
  "parseMetadataLinks wp raw = (case raw of
     JUndef \<Rightarrow> Inr [] | JNull \<Rightarrow> Inr []
   | JObj object \<Rightarrow> (let unknown = unknown_keys METADATA_LINK_KEYS object in
       if unknown \<noteq> [] then invalid_upload (''links contains unsupported fields: '' @ js_join '','' unknown)
       else bindR (traverse (parse_link wp object) METADATA_LINK_KEYS) (\<lambda>parts. Inr (concat parts)))
   | _ \<Rightarrow> invalid_upload ''links must be an object'')"

definition base64_char :: "char \<Rightarrow> bool" where
  "base64_char c \<longleftrightarrow> in_range CHR ''A'' CHR ''Z'' c \<or> in_range CHR ''a'' CHR ''z'' c \<or> is_digit c \<or> c = CHR ''+'' \<or> c = CHR ''/''"

text \<open>\<open>/^(?:[A-Za-z0-9+/]{4})*(?:[A-Za-z0-9+/]{2}==|[A-Za-z0-9+/]{3}=)?$/\<close>\<close>

fun canonical_base64 :: "string \<Rightarrow> bool" where
  "canonical_base64 [] = True"
| "canonical_base64 (a # b # c # d # rest) =
    (base64_char a \<and> base64_char b \<and>
      (base64_char c \<and> base64_char d \<and> canonical_base64 rest \<or>
       rest = [] \<and> d = CHR ''='' \<and> (c = CHR ''='' \<or> base64_char c)))"
| "canonical_base64 _ = False"

definition text_field :: "(string \<times> jsval) list \<Rightarrow> string \<Rightarrow> string" where
  "text_field object key = (case field object key of JStr s \<Rightarrow> s | _ \<Rightarrow> [])"

text \<open>The image part: its declared type and its bytes.\<close>

definition parse_image :: "jsval \<Rightarrow> upload_error + byte list \<times> string" where
  "parse_image raw = (case raw of
     JObj img \<Rightarrow> (let unknownImage = unknown_keys [''contentType'', ''dataBase64''] img;
          contentType = js_lower (text_field img ''contentType'') in
       if unknownImage \<noteq> [] then invalid_upload (''image contains unsupported fields: '' @ js_join '','' unknownImage)
       else if contentType \<notin> set ACCEPTED_METADATA_IMAGE_TYPES
       then Inl (UploadError ''UNSUPPORTED_IMAGE_TYPE''
         ''image content type must be one of image/png, image/jpeg, image/webp'' 415)
       else (case field img ''dataBase64'' of
           JStr dataBase64 \<Rightarrow>
             if \<not> canonical_base64 dataBase64 then invalid_upload ''image dataBase64 must be canonical base64''
             else (let bytes = base64_decode dataBase64 in
               if bytes = [] then invalid_upload ''image must not be empty''
               else if length bytes > MAX_METADATA_IMAGE_BYTES
               then Inl (UploadError ''UPLOAD_TOO_LARGE'' ''image exceeds 10000000 bytes'' 413)
               else if \<not> hasImageSignature bytes contentType
               then Inl (UploadError ''IMAGE_TYPE_MISMATCH'' ''image bytes do not match the declared content type'' 415)
               else Inr (bytes, contentType))
         | _ \<Rightarrow> invalid_upload ''image dataBase64 must be canonical base64''))
   | _ \<Rightarrow> invalid_upload ''image must contain contentType and dataBase64'')"

definition UPLOAD_KEYS :: "string list" where
  "UPLOAD_KEYS = [''requestId'', ''name'', ''symbol'', ''description'', ''image'', ''links'']"

definition parseMetadataUploadRequest :: "web_platform \<Rightarrow> jsval \<Rightarrow> upload_error + upload_input" where
  "parseMetadataUploadRequest wp parsed = (case parsed of
     JObj object \<Rightarrow> (let unknown = unknown_keys UPLOAD_KEYS object;
          requestId = text_field object ''requestId'';
          name = js_trim (text_field object ''name'');
          symbol = js_trim (text_field object ''symbol'');
          description = js_trim (text_field object ''description'') in
       if unknown \<noteq> []
       then invalid_upload (''metadata upload contains unsupported fields: '' @ js_join '','' unknown)
       else if \<not> is_hex64 requestId
       then invalid_upload ''requestId must be a 64-character lowercase content digest''
       else if name = [] \<or> length name > 32 then invalid_upload ''name must contain 1 to 32 characters''
       else if symbol = [] \<or> length symbol > 10 then invalid_upload ''symbol must contain 1 to 10 characters''
       else if length description > 500 then invalid_upload ''description must not exceed 500 characters''
       else bindR (parseMetadataLinks wp (field object ''links'')) (\<lambda>links.
         bindR (parse_image (field object ''image'')) (\<lambda>(bytes, contentType).
           Inr \<lparr>ui_requestId = requestId, ui_name = name, ui_symbol = symbol, ui_description = description,
             ui_links = links, ui_image = bytes, ui_imageContentType = contentType\<rparr>)))
   | _ \<Rightarrow> invalid_upload ''metadata upload request must be an object'')"

text \<open>The early request: the same checks of the image, with placeholders for the rest.\<close>

definition parseMetadataImagePrepareRequest :: "web_platform \<Rightarrow> jsval \<Rightarrow> upload_error + byte list \<times> string" where
  "parseMetadataImagePrepareRequest wp parsed = (case parsed of
     JObj object \<Rightarrow> (let unknown = unknown_keys [''image''] object in
       if unknown \<noteq> []
       then invalid_upload (''image preparation contains unsupported fields: '' @ js_join '','' unknown)
       else bindR (parseMetadataUploadRequest wp (JObj [(''requestId'', JStr (replicate 64 CHR ''0'')),
           (''name'', JStr ''draft''), (''symbol'', JStr ''DRAFT''), (''description'', JStr []),
           (''image'', field object ''image'')]))
         (\<lambda>validated. Inr (ui_image validated, ui_imageContentType validated)))
   | _ \<Rightarrow> invalid_upload ''image preparation request must be an object'')"

end
