(* ===== verification/TokenInfo.thy ===== *)
theory TokenInfo
  imports Web
begin

text \<open>
  Names and icons of tokens, \<open>quote-service/token-info.ts\<close>: the bounded search, the lookup of
  one mint, and the icon the service fetches itself, with their caches. The upstream is a function
  of the URL and of the number of fetches made before; \<open>None\<close> is a fetch that throws. Two
  callers that ask for the same key while it is in flight share one answer; the model asks one
  after the other, so the second finds the cache.
\<close>

subsection \<open>State\<close>

definition JUPITER_TOKEN_SEARCH :: string where
  "JUPITER_TOKEN_SEARCH = ''https://lite-api.jup.ag/tokens/v2/search?query=''"

definition MAX_IMAGE_BYTES :: nat where
  "MAX_IMAGE_BYTES = 2000000"

definition IMAGE_CACHE_MAX :: nat where
  "IMAGE_CACHE_MAX = 256"

definition INFO_CACHE_MAX :: nat where
  "INFO_CACHE_MAX = 1024"

datatype token_info =
    Unfound
  | Found jsval jsval "string option"

record search_result =
  sr_mint :: string
  sr_symbol :: string
  sr_name :: string
  sr_image :: "string option"

record token_image =
  ti_body :: "byte list"
  ti_type :: string

record fetch_answer =
  fa_status :: int
  fa_json :: "jsval option"
  fa_headers :: "(string \<times> string) list"
  fa_body :: "byte list"

type_synonym token_net = "string \<Rightarrow> nat \<Rightarrow> fetch_answer option"

record token_state =
  ts_info :: "(string \<times> token_info) list"
  ts_search :: "(string \<times> search_result list) list"
  ts_image :: "(string \<times> token_image) list"
  ts_fetched :: "string list"

definition no_tokens :: token_state where
  "no_tokens = \<lparr>ts_info = [], ts_search = [], ts_image = [], ts_fetched = []\<rparr>"

definition answer_ok :: "fetch_answer \<Rightarrow> bool" where
  "answer_ok res \<longleftrightarrow> 200 \<le> fa_status res \<and> fa_status res < 300"

definition ask :: "token_net \<Rightarrow> string \<Rightarrow> token_state \<Rightarrow> fetch_answer option \<times> token_state" where
  "ask net url st = (net url (length (ts_fetched st)), st\<lparr>ts_fetched := ts_fetched st @ [url]\<rparr>)"

text \<open>A \<open>Map\<close> keeps its insertion order: the oldest entry is the first.\<close>

definition remember :: "nat \<Rightarrow> 'k \<Rightarrow> 'v \<Rightarrow> ('k \<times> 'v) list \<Rightarrow> ('k \<times> 'v) list" where
  "remember max_size key v cache = upsert key v (if length cache \<ge> max_size then tl cache else cache)"

subsection \<open>Checks on names and addresses\<close>

text \<open>\<open>/^[1-9A-HJ-NP-Za-km-z]{32,44}$/\<close>\<close>

definition base58_char :: "char \<Rightarrow> bool" where
  "base58_char c \<longleftrightarrow> in_range CHR ''1'' CHR ''9'' c \<or> in_range CHR ''A'' CHR ''H'' c \<or>
    in_range CHR ''J'' CHR ''N'' c \<or> in_range CHR ''P'' CHR ''Z'' c \<or>
    in_range CHR ''a'' CHR ''k'' c \<or> in_range CHR ''m'' CHR ''z'' c"

definition isPlausibleMint :: "string \<Rightarrow> bool" where
  "isPlausibleMint s \<longleftrightarrow> 32 \<le> length s \<and> length s \<le> 44 \<and> list_all base58_char s"

definition DEAD_GATEWAYS :: "string list" where
  "DEAD_GATEWAYS = [''https://cf-ipfs.com/ipfs/'', ''https://cloudflare-ipfs.com/ipfs/'',
    ''https://nftstorage.link/ipfs/'', ''https://ipfs.infura.io/ipfs/'']"

definition rewrite_gateway :: "string \<Rightarrow> string" where
  "rewrite_gateway raw =
    (if starts_with ''ipfs://'' raw then ''https://ipfs.io/ipfs/'' @ drop 7 raw
     else (case filter (\<lambda>p. starts_with p raw) DEAD_GATEWAYS of
         [] \<Rightarrow> raw | p # _ \<Rightarrow> ''https://ipfs.io/ipfs/'' @ drop (length p) raw))"

definition normalizeImageUrl :: "web_platform \<Rightarrow> string \<Rightarrow> string option" where
  "normalizeImageUrl wp raw = (case newURL wp (rewrite_gateway raw) of
     None \<Rightarrow> None
   | Some url \<Rightarrow> if url_protocol url = ''https:'' then Some (url_href url) else None)"

text \<open>\<open>replace(/\s+/g, " ")\<close>: whether the last character was white space is carried along.\<close>

fun squeeze_spaces :: "bool \<Rightarrow> string \<Rightarrow> string" where
  "squeeze_spaces inside [] = []"
| "squeeze_spaces inside (c # cs) =
    (if js_space c then (if inside then squeeze_spaces True cs else CHR '' '' # squeeze_spaces True cs)
     else c # squeeze_spaces False cs)"

definition control_char :: "char \<Rightarrow> bool" where
  "control_char c \<longleftrightarrow> char_code c \<le> 31 \<or> char_code c = 127"

definition normalizeTokenSearchQuery :: "string option \<Rightarrow> string option" where
  "normalizeTokenSearchQuery raw = (case raw of None \<Rightarrow> None
   | Some text \<Rightarrow> (let query = squeeze_spaces False (js_trim text) in
       if length query < 2 \<or> length query > 64 then None
       else if list_ex control_char query then None
       else Some query))"

subsection \<open>Search\<close>

definition search_mint :: "(string \<times> jsval) list \<Rightarrow> string option" where
  "search_mint token = List.find isPlausibleMint (List.map_filter (\<lambda>k. case field token k of JStr s \<Rightarrow> Some s | _ \<Rightarrow> None)
     [''id'', ''mint'', ''address''])"

definition text_of :: "nat \<Rightarrow> jsval \<Rightarrow> string" where
  "text_of n v = (case v of JStr s \<Rightarrow> take n s | _ \<Rightarrow> [])"

definition search_row :: "web_platform \<Rightarrow> search_result list \<Rightarrow> jsval \<Rightarrow> search_result option" where
  "search_row wp sanitized row = (case row of
     JObj token \<Rightarrow> (case search_mint token of None \<Rightarrow> None
       | Some mint \<Rightarrow>
          if mint \<in> sr_mint ` set sanitized then None
          else (let symbol = text_of 32 (field token ''symbol''); name = text_of 96 (field token ''name'') in
            if symbol = [] \<and> name = [] then None
            else Some \<lparr>sr_mint = mint, sr_symbol = symbol, sr_name = name,
              sr_image = (case field token ''icon'' of JStr s \<Rightarrow> normalizeImageUrl wp s | _ \<Rightarrow> None)\<rparr>))
   | _ \<Rightarrow> None)"

fun sanitize_rows :: "web_platform \<Rightarrow> search_result list \<Rightarrow> jsval list \<Rightarrow> search_result list" where
  "sanitize_rows wp sanitized [] = sanitized"
| "sanitize_rows wp sanitized (row # rows) = (case search_row wp sanitized row of
     None \<Rightarrow> sanitize_rows wp sanitized rows
   | Some r \<Rightarrow> if length (sanitized @ [r]) = 6 then sanitized @ [r]
       else sanitize_rows wp (sanitized @ [r]) rows)"

definition answer_rows :: "jsval \<Rightarrow> jsval list" where
  "answer_rows body = (case body of JArr rows \<Rightarrow> rows | _ \<Rightarrow> if js_truthy body then [body] else [])"

text \<open>\<open>completed\<close> is set before the body is read: a body that does not parse is cached as empty.\<close>

definition tokenSearch :: "web_platform \<Rightarrow> token_net \<Rightarrow> string \<Rightarrow> token_state \<Rightarrow> search_result list \<times> token_state" where
  "tokenSearch wp net rawQuery st = (case normalizeTokenSearchQuery (Some rawQuery) of
     None \<Rightarrow> ([], st)
   | Some query \<Rightarrow> (let cacheKey = js_lower query in
       case map_of (ts_search st) cacheKey of
         Some hit \<Rightarrow> (hit, st)
       | None \<Rightarrow> (case ask net (JUPITER_TOKEN_SEARCH @ encodeURIComponent wp query) st of
           (None, st1) \<Rightarrow> ([], st1)
         | (Some res, st1) \<Rightarrow>
             if \<not> answer_ok res then ([], st1)
             else (let out = (case fa_json res of None \<Rightarrow> [] | Some body \<Rightarrow> sanitize_rows wp [] (answer_rows body))
               in (out, st1\<lparr>ts_search := remember INFO_CACHE_MAX cacheKey out (ts_search st1)\<rparr>)))))"

subsection \<open>One mint\<close>

definition first_answer :: "jsval \<Rightarrow> jsval" where
  "first_answer body = (case body of JArr [] \<Rightarrow> JUndef | JArr (v # _) \<Rightarrow> v | _ \<Rightarrow> body)"

definition read_info :: "web_platform \<Rightarrow> jsval \<Rightarrow> token_info" where
  "read_info wp body = (case first_answer body of
     JObj t \<Rightarrow>
       if js_truthy (field t ''symbol'') \<or> js_truthy (field t ''name'')
       then Found (or_null (field t ''symbol'')) (or_null (field t ''name''))
         (case field t ''icon'' of JStr (c # cs) \<Rightarrow> normalizeImageUrl wp (c # cs) | _ \<Rightarrow> None)
       else Unfound
   | _ \<Rightarrow> Unfound)"

definition tokenInfo :: "web_platform \<Rightarrow> token_net \<Rightarrow> string \<Rightarrow> token_state \<Rightarrow> token_info \<times> token_state" where
  "tokenInfo wp net mint st = (case map_of (ts_info st) mint of
     Some hit \<Rightarrow> (hit, st)
   | None \<Rightarrow> (case ask net (JUPITER_TOKEN_SEARCH @ encodeURIComponent wp mint) st of
       (None, st1) \<Rightarrow> (Unfound, st1)
     | (Some res, st1) \<Rightarrow>
         if \<not> answer_ok res then (Unfound, st1)
         else (let out = (case fa_json res of None \<Rightarrow> Unfound | Some body \<Rightarrow> read_info wp body)
           in (out, st1\<lparr>ts_info := remember INFO_CACHE_MAX mint out (ts_info st1)\<rparr>))))"

subsection \<open>Icons\<close>

text \<open>\<open>/^\d+(?:\.\d+){3}$/\<close>\<close>

definition ipv4_like :: "string \<Rightarrow> bool" where
  "ipv4_like host \<longleftrightarrow> (let parts = js_split CHR ''.'' host in
     length parts = 4 \<and> list_all (\<lambda>p. p \<noteq> [] \<and> list_all is_digit p) parts)"

definition fetchableIconUrl :: "web_platform \<Rightarrow> string \<Rightarrow> url_parts option" where
  "fetchableIconUrl wp raw = (case newURL wp raw of None \<Rightarrow> None
   | Some url \<Rightarrow>
       if url_protocol url \<noteq> ''https:'' then None
       else if url_username url \<noteq> [] \<or> url_password url \<noteq> [] then None
       else if starts_with ''['' (url_hostname url) then None
       else if ipv4_like (url_hostname url) then None
       else if CHR ''.'' \<notin> set (url_hostname url) then None
       else Some url)"

definition read_icon :: "fetch_answer \<Rightarrow> token_image option" where
  "read_icon res = (let type = (case map_of (fa_headers res) ''content-type'' of None \<Rightarrow> [] | Some t \<Rightarrow> t) in
     if answer_ok res \<and> starts_with ''image/'' type \<and> 0 < length (fa_body res) \<and> length (fa_body res) \<le> MAX_IMAGE_BYTES
     then Some \<lparr>ti_body = fa_body res, ti_type = js_trim (hd (js_split CHR '';'' type))\<rparr>
     else None)"

text \<open>The loop over at most three hops; a redirect without a target ends it.\<close>

fun icon_hops :: "web_platform \<Rightarrow> token_net \<Rightarrow> nat \<Rightarrow> string \<Rightarrow> token_state \<Rightarrow> token_image option \<times> token_state" where
  "icon_hops wp net 0 next st = (None, st)"
| "icon_hops wp net (Suc hops) next st = (case fetchableIconUrl wp next of
     None \<Rightarrow> (None, st)
   | Some url \<Rightarrow> (case ask net (url_href url) st of
       (None, st1) \<Rightarrow> (None, st1)
     | (Some res, st1) \<Rightarrow>
         if 300 \<le> fa_status res \<and> fa_status res < 400
         then (case map_of (fa_headers res) ''location'' of
             Some (c # cs) \<Rightarrow> (case resolveURL wp (c # cs) url of
               None \<Rightarrow> (None, st1) | Some u \<Rightarrow> icon_hops wp net hops (url_href u) st1)
           | _ \<Rightarrow> (None, st1))
         else (read_icon res, st1)))"

definition tokenImageBytes :: "web_platform \<Rightarrow> token_net \<Rightarrow> string \<Rightarrow> token_state \<Rightarrow> token_image option \<times> token_state" where
  "tokenImageBytes wp net mint st = (case map_of (ts_image st) mint of
     Some hit \<Rightarrow> (Some hit, st)
   | None \<Rightarrow> (case tokenInfo wp net mint st of
       (Found _ _ (Some (c # cs)), st1) \<Rightarrow> (case icon_hops wp net 3 (c # cs) st1 of
           (None, st2) \<Rightarrow> (None, st2)
         | (Some out, st2) \<Rightarrow> (Some out, st2\<lparr>ts_image := remember IMAGE_CACHE_MAX mint out (ts_image st2)\<rparr>))
     | (_, st1) \<Rightarrow> (None, st1)))"

subsection \<open>What the caches hold\<close>

lemma length_upsert: "length (upsert k v rows) \<le> Suc (length rows)"
  by (induction rows) auto

lemma set_upsert_subset: "set (upsert k v rows) \<subseteq> insert (k, v) (set rows)"
  using set_upsert by fastforce

lemma length_remember: "length cache \<le> n \<Longrightarrow> 0 < n \<Longrightarrow> length (remember n k v cache) \<le> n"
  using length_upsert [of k v cache] length_upsert [of k v "tl cache"] by (auto simp: remember_def)

lemma set_remember: "set (remember n k v cache) \<subseteq> insert (k, v) (set cache)"
proof -
  have "set (tl cache) \<subseteq> set cache" by (cases cache) auto
  then show ?thesis
    using set_upsert_subset [of k v cache] set_upsert_subset [of k v "tl cache"] by (auto simp: remember_def)
qed

definition icon_ok :: "token_image \<Rightarrow> bool" where
  "icon_ok i \<longleftrightarrow> 0 < length (ti_body i) \<and> length (ti_body i) \<le> MAX_IMAGE_BYTES \<and> starts_with ''image/'' (ti_type i)"

definition search_ok :: "web_platform \<Rightarrow> search_result list \<Rightarrow> bool" where
  "search_ok wp rs \<longleftrightarrow> length rs \<le> 6 \<and> distinct (map sr_mint rs) \<and> list_all (\<lambda>r. isPlausibleMint (sr_mint r) \<and>
    length (sr_symbol r) \<le> 32 \<and> length (sr_name r) \<le> 96 \<and> (sr_symbol r \<noteq> [] \<or> sr_name r \<noteq> []) \<and>
    (case sr_image r of None \<Rightarrow> True | Some href \<Rightarrow> \<exists>raw u. newURL wp raw = Some u \<and> url_protocol u = ''https:'' \<and> href = url_href u)) rs"

definition tokens_ok :: "web_platform \<Rightarrow> token_state \<Rightarrow> bool" where
  "tokens_ok wp st \<longleftrightarrow> length (ts_info st) \<le> INFO_CACHE_MAX \<and> length (ts_search st) \<le> INFO_CACHE_MAX \<and>
    length (ts_image st) \<le> IMAGE_CACHE_MAX \<and> (\<forall>(k, i) \<in> set (ts_image st). icon_ok i) \<and>
    (\<forall>(k, rs) \<in> set (ts_search st). search_ok wp rs)"

lemma normalizeImageUrl_https:
  "normalizeImageUrl wp raw = Some href \<Longrightarrow> \<exists>raw u. newURL wp raw = Some u \<and> url_protocol u = ''https:'' \<and> href = url_href u"
  by (auto simp: normalizeImageUrl_def split: option.split_asm if_split_asm)

lemma search_mint_plausible: "search_mint token = Some m \<Longrightarrow> isPlausibleMint m"
  by (auto simp: search_mint_def find_Some_iff)

lemma search_row_ok:
  assumes "search_row wp acc row = Some r" "search_ok wp acc" "length acc < 6"
  shows "search_ok wp (acc @ [r])"
proof -
  obtain token m where t: "search_mint token = Some m" "m \<notin> sr_mint ` set acc" "sr_mint r = m"
      "sr_symbol r = text_of 32 (field token ''symbol'')" "sr_name r = text_of 96 (field token ''name'')"
      "sr_symbol r \<noteq> [] \<or> sr_name r \<noteq> []"
      "sr_image r = (case field token ''icon'' of JStr s \<Rightarrow> normalizeImageUrl wp s | _ \<Rightarrow> None)"
    using assms(1) by (auto simp: search_row_def Let_def split: jsval.split_asm option.split_asm if_split_asm)
  have "length (text_of n v) \<le> n" for n v by (simp add: text_of_def split: jsval.split)
  then show ?thesis
    using assms(2,3) t search_mint_plausible [OF t(1)] normalizeImageUrl_https
    by (auto simp: search_ok_def split: option.split jsval.splits)
qed

lemma sanitize_rows_ok: "search_ok wp acc \<Longrightarrow> length acc < 6 \<Longrightarrow> search_ok wp (sanitize_rows wp acc rows)"
proof (induction rows arbitrary: acc)
  case (Cons row rows)
  show ?case
  proof (cases "search_row wp acc row")
    case None
    then show ?thesis using Cons by simp
  next
    case (Some r)
    then have "search_ok wp (acc @ [r])" using search_row_ok Cons.prems by blast
    then show ?thesis using Some Cons by (auto simp: search_ok_def)
  qed
qed simp

lemma search_ok_Nil [simp]: "search_ok wp []"
  by (simp add: search_ok_def)

lemma limits_pos [simp]: "0 < INFO_CACHE_MAX" "0 < IMAGE_CACHE_MAX"
  by (simp_all add: INFO_CACHE_MAX_def IMAGE_CACHE_MAX_def)

lemma ask_fields [simp]:
  "ask net url st = (answer, st1) \<Longrightarrow> ts_info st1 = ts_info st"
  "ask net url st = (answer, st1) \<Longrightarrow> ts_search st1 = ts_search st"
  "ask net url st = (answer, st1) \<Longrightarrow> ts_image st1 = ts_image st"
  "ask net url st = (answer, st1) \<Longrightarrow> ts_fetched st1 = ts_fetched st @ [url]"
  by (auto simp: ask_def)

lemma tokens_ok_ask: "ask net url st = (answer, st1) \<Longrightarrow> tokens_ok wp st1 = tokens_ok wp st"
  by (simp add: tokens_ok_def)

lemma tokenSearch_ok:
  assumes "tokenSearch wp net q st = (rs, st1)" "tokens_ok wp st"
  shows "tokens_ok wp st1 \<and> search_ok wp rs"
proof -
  have kept: "tokens_ok wp (s\<lparr>ts_search := remember INFO_CACHE_MAX k r (ts_search st)\<rparr>)"
    if "tokens_ok wp s" "search_ok wp r" for s r k
    using that assms(2) set_remember [of INFO_CACHE_MAX k r "ts_search st"] by (auto simp: tokens_ok_def length_remember)
  have hit: "search_ok wp rs" if "map_of (ts_search st) k = Some rs" for k rs
    using map_of_SomeD [OF that] assms(2) by (auto simp: tokens_ok_def)
  show ?thesis
    using assms unfolding tokenSearch_def
    by (auto simp: Let_def intro: hit intro!: kept sanitize_rows_ok dest: tokens_ok_ask
      split: option.split_asm prod.split_asm if_split_asm)
qed

lemma tokenInfo_ok:
  assumes "tokenInfo wp net mint st = (info, st1)"
  shows "(tokens_ok wp st \<longrightarrow> tokens_ok wp st1) \<and>
    (ts_fetched st1 = ts_fetched st \<or> ts_fetched st1 = ts_fetched st @ [JUPITER_TOKEN_SEARCH @ encodeURIComponent wp mint])"
proof -
  have kept: "tokens_ok wp (s\<lparr>ts_info := remember INFO_CACHE_MAX k r (ts_info st)\<rparr>)"
    if "tokens_ok wp s" "tokens_ok wp st" for s r k
    using that by (simp add: tokens_ok_def length_remember)
  show ?thesis
    using assms unfolding tokenInfo_def
    by (auto simp: Let_def intro!: kept dest: tokens_ok_ask split: option.split_asm prod.split_asm if_split_asm)
qed

lemma hd_js_split: "hd (js_split c s) = takeWhile (\<lambda>x. x \<noteq> c) s"
  by (induction s) (auto split: list.splits)

lemma media_type_kept:
  assumes "starts_with ''image/'' t"
  shows "starts_with ''image/'' (js_trim (hd (js_split CHR '';'' t)))"
proof -
  obtain rest where t: "t = ''image/'' @ rest"
    using assms by (metis append_take_drop_id starts_with_def)
  have slash: "\<not> js_space CHR ''/''" "\<not> js_space CHR ''i''" by code_simp+
  have "js_trim (''image/'' @ x) = ''image/'' @ rev (dropWhile js_space (rev x))" for x
    using slash by (simp add: js_trim_def dropWhile_append)
  then have "js_trim (hd (js_split CHR '';'' t)) = ''image/'' @ rev (dropWhile js_space (rev (takeWhile (\<lambda>c. c \<noteq> CHR '';'') rest)))"
    unfolding hd_js_split t by simp
  then show ?thesis by (simp add: starts_with_def)
qed

text \<open>An address the service may fetch: an ordinary public host by name, over TLS.\<close>

definition icon_address :: "web_platform \<Rightarrow> string \<Rightarrow> bool" where
  "icon_address wp href \<longleftrightarrow> (\<exists>raw u. newURL wp raw = Some u \<and> url_href u = href \<and> url_protocol u = ''https:'' \<and>
    url_username u = [] \<and> url_password u = [] \<and> \<not> starts_with ''['' (url_hostname u) \<and>
    \<not> ipv4_like (url_hostname u) \<and> CHR ''.'' \<in> set (url_hostname u))"

lemma fetchable_address: "fetchableIconUrl wp raw = Some u \<Longrightarrow> icon_address wp (url_href u)"
  by (auto simp: fetchableIconUrl_def icon_address_def split: option.split_asm if_split_asm)

lemma read_icon_ok: "read_icon res = Some i \<Longrightarrow> icon_ok i"
  by (auto simp: read_icon_def icon_ok_def Let_def media_type_kept split: if_split_asm)

lemma icon_hops_ok:
  "icon_hops wp net n next st = (icon, st1) \<Longrightarrow>
    (\<exists>fetched. ts_fetched st1 = ts_fetched st @ fetched \<and> length fetched \<le> n \<and> list_all (icon_address wp) fetched) \<and>
    (\<forall>i. icon = Some i \<longrightarrow> icon_ok i) \<and> ts_info st1 = ts_info st \<and> ts_search st1 = ts_search st \<and> ts_image st1 = ts_image st"
proof (induction n arbitrary: "next" st)
  case (Suc n)
  show ?case
  proof (cases "fetchableIconUrl wp next")
    case None
    then show ?thesis using Suc.prems by auto
  next
    case (Some u)
    obtain answer st2 where asked: "ask net (url_href u) st = (answer, st2)" by force
    note same = ask_fields [OF asked]
    have one: "\<exists>fetched. ts_fetched st2 = ts_fetched st @ fetched \<and> length fetched \<le> Suc n \<and> list_all (icon_address wp) fetched"
      using same(4) fetchable_address [OF Some] by auto
    show ?thesis
    proof (cases "\<exists>res loc v. answer = Some res \<and> 300 \<le> fa_status res \<and> fa_status res < 400 \<and>
        map_of (fa_headers res) ''location'' = Some loc \<and> loc \<noteq> [] \<and> resolveURL wp loc u = Some v")
      case True
      then have "\<exists>v :: url_parts. icon_hops wp net n (url_href v) st2 = (icon, st1)"
        using Suc.prems Some asked by (auto split: list.split_asm)
      then obtain v :: url_parts where "icon_hops wp net n (url_href v) st2 = (icon, st1)" by blast
      from Suc.IH [OF this] obtain fetched where f: "ts_fetched st1 = ts_fetched st2 @ fetched" "length fetched \<le> n"
          "list_all (icon_address wp) fetched" "\<forall>i. icon = Some i \<longrightarrow> icon_ok i"
          "ts_info st1 = ts_info st2" "ts_search st1 = ts_search st2" "ts_image st1 = ts_image st2"
        by blast
      then show ?thesis
        using same fetchable_address [OF Some] by (auto intro!: exI [of _ "url_href u # fetched"])
    next
      case False
      then have "st1 = st2 \<and> (\<forall>i. icon = Some i \<longrightarrow> icon_ok i)"
        using Suc.prems Some asked read_icon_ok
        by (auto split: option.split_asm if_split_asm list.split_asm)
      then show ?thesis using one same by simp
    qed
  qed
qed simp

lemma tokens_ok_cong:
  "tokens_ok wp st \<Longrightarrow> ts_info st1 = ts_info st \<Longrightarrow> ts_search st1 = ts_search st \<Longrightarrow> ts_image st1 = ts_image st \<Longrightarrow>
    tokens_ok wp st1"
  by (simp add: tokens_ok_def)

lemma tokenImageBytes_cases:
  assumes "tokenImageBytes wp net mint st = (icon, st')"
  obtains (hit) i where "map_of (ts_image st) mint = Some i" "icon = Some i" "st' = st"
  | (asked) info st1 where "tokenInfo wp net mint st = (info, st1)" "icon = None" "st' = st1"
  | (hops) info st1 raw st2 where "tokenInfo wp net mint st = (info, st1)" "icon_hops wp net 3 raw st1 = (icon, st2)"
      "st' = (case icon of None \<Rightarrow> st2 | Some i \<Rightarrow> st2\<lparr>ts_image := remember IMAGE_CACHE_MAX mint i (ts_image st2)\<rparr>)"
  using assms that unfolding tokenImageBytes_def
  by (auto split: option.split_asm prod.split_asm token_info.split_asm list.split_asm)

text \<open>
  C31: the icons anyone can choose by minting a token cannot make the service fetch anything but an
  ordinary public host by name over TLS, without credentials, at most three addresses for one icon
  beside the question for the token; and what it serves is an image of 1 byte to 2 MB.
\<close>

theorem icon_fetch_safe:
  assumes "tokenImageBytes wp net mint st = (icon, st')" "tokens_ok wp st"
  shows "\<exists>question fetched. ts_fetched st' = ts_fetched st @ question @ fetched \<and>
    set question \<subseteq> {JUPITER_TOKEN_SEARCH @ encodeURIComponent wp mint} \<and> length question \<le> 1 \<and>
    length fetched \<le> 3 \<and> list_all (icon_address wp) fetched \<and>
    (\<forall>i. icon = Some i \<longrightarrow> 0 < length (ti_body i) \<and> length (ti_body i) \<le> 2000000 \<and> starts_with ''image/'' (ti_type i))"
  using assms(1)
proof (cases rule: tokenImageBytes_cases)
  case (hit i)
  then have "icon_ok i" using assms(2) by (auto simp: tokens_ok_def dest!: map_of_SomeD)
  then show ?thesis using hit by (auto simp: icon_ok_def MAX_IMAGE_BYTES_def)
next
  case (asked info st1)
  then show ?thesis
    using tokenInfo_ok [OF asked(1)] by (auto intro: exI [of _ "[]"] exI [of _ "[JUPITER_TOKEN_SEARCH @ encodeURIComponent wp mint]"])
next
  case (hops info st1 raw st2)
  obtain question where q: "ts_fetched st1 = ts_fetched st @ question"
      "set question \<subseteq> {JUPITER_TOKEN_SEARCH @ encodeURIComponent wp mint}" "length question \<le> 1"
    using tokenInfo_ok [OF hops(1)] by force
  from icon_hops_ok [OF hops(2)] obtain fetched where f: "ts_fetched st2 = ts_fetched st1 @ fetched"
      "length fetched \<le> 3" "list_all (icon_address wp) fetched" "\<forall>i. icon = Some i \<longrightarrow> icon_ok i"
    by blast
  have "ts_fetched st' = ts_fetched st2" using hops(3) by (simp split: option.split)
  then show ?thesis
    using q f by (intro exI [of _ question] exI [of _ fetched]) (simp add: icon_ok_def MAX_IMAGE_BYTES_def)
qed

text \<open>An example: a token with an icon on a public host.\<close>

definition icon_web :: web_platform where
  "icon_web = \<lparr>newURL = (\<lambda>s. Some \<lparr>url_href = s, url_origin = s, url_protocol = ''https:'', url_username = [], url_password = [],
      url_host = ''i.io'', url_hostname = ''i.io'', url_pathname = [], url_search = [], url_hash = [], url_params = []\<rparr>),
    resolveURL = (\<lambda>_ _. None), setHostname = (\<lambda>_ u. u), encodeURIComponent = (\<lambda>s. s), decodeURIComponent = Some,
    encodeText = (\<lambda>_. []), decodeText = (\<lambda>_. []), parseJSON = (\<lambda>_. None), stringifyJSON = (\<lambda>_. []), sha256Hex = (\<lambda>_. [])\<rparr>"

definition icon_net :: token_net where
  "icon_net url n = Some (if n = 0
    then \<lparr>fa_status = 200, fa_json = Some (JObj [(''symbol'', JStr ''A''), (''icon'', JStr ''https://i.io/a'')]), fa_headers = [], fa_body = []\<rparr>
    else \<lparr>fa_status = 200, fa_json = None, fa_headers = [(''content-type'', ''image/png'')], fa_body = [1]\<rparr>)"

lemma no_tokens_ok [simp]: "tokens_ok wp no_tokens"
  by (simp add: tokens_ok_def no_tokens_def)

lemma icon_eval:
  "tokenImageBytes icon_web icon_net ''m'' no_tokens = (Some \<lparr>ti_body = [1], ti_type = ''image/png''\<rparr>,
    \<lparr>ts_info = [(''m'', Found (JStr ''A'') JNull (Some ''https://i.io/a''))], ts_search = [],
     ts_image = [(''m'', \<lparr>ti_body = [1], ti_type = ''image/png''\<rparr>)],
     ts_fetched = [JUPITER_TOKEN_SEARCH @ ''m'', ''https://i.io/a'']\<rparr>)"
proof -
  let ?st = "\<lparr>ts_info = [(''m'', Found (JStr ''A'') JNull (Some ''https://i.io/a''))], ts_search = [], ts_image = [],
    ts_fetched = [JUPITER_TOKEN_SEARCH @ ''m'']\<rparr>"
  have info: "tokenInfo icon_web icon_net ''m'' no_tokens = (Found (JStr ''A'') JNull (Some ''https://i.io/a''), ?st)"
    by code_simp
  have address: "map_option url_href (fetchableIconUrl icon_web ''https://i.io/a'') = Some ''https://i.io/a''"
    by code_simp
  have checks: "js_trim (hd (js_split CHR '';'' ''image/png'')) = ''image/png''" "starts_with ''image/'' ''image/png''"
    by code_simp+
  have hops: "icon_hops icon_web icon_net 3 ''https://i.io/a'' ?st = (Some \<lparr>ti_body = [1], ti_type = ''image/png''\<rparr>,
      ?st\<lparr>ts_fetched := [JUPITER_TOKEN_SEARCH @ ''m'', ''https://i.io/a'']\<rparr>)"
    using address unfolding numeral_3_eq_3 icon_hops.simps(2)
    by (auto simp: ask_def icon_net_def read_icon_def answer_ok_def MAX_IMAGE_BYTES_def checks simp del: js_split.simps)
  show ?thesis
    unfolding tokenImageBytes_def info by (simp add: hops no_tokens_def remember_def IMAGE_CACHE_MAX_def)
qed

lemma icon_fetch_safe_witness:
  "\<exists>question fetched. [JUPITER_TOKEN_SEARCH @ ''m'', ''https://i.io/a''] = question @ fetched \<and> length question \<le> 1 \<and>
    list_all (icon_address icon_web) fetched"
  using icon_fetch_safe [OF icon_eval no_tokens_ok] by (simp only: no_tokens_def token_state.simps append_Nil) blast

text \<open>
  the caches of token names, searches and icons stay within their limits, and hold only
  well-formed entries: at most six search results with distinct plausible mints and bounded texts,
  and icons of a bounded size; whatever the upstream answers.
\<close>

theorem token_caches_sound:
  assumes "tokens_ok wp st"
  shows "tokens_ok wp (snd (tokenSearch wp net q st)) \<and> tokens_ok wp (snd (tokenInfo wp net mint st)) \<and>
    tokens_ok wp (snd (tokenImageBytes wp net mint st)) \<and> search_ok wp (fst (tokenSearch wp net q st))"
proof -
  obtain icon st' where img: "tokenImageBytes wp net mint st = (icon, st')" by force
  have "tokens_ok wp st'"
    using img
  proof (cases rule: tokenImageBytes_cases)
    case (hops info st1 raw st2)
    have ok: "tokens_ok wp st1" using tokenInfo_ok [OF hops(1)] assms by blast
    then have "tokens_ok wp st2" using icon_hops_ok [OF hops(2)] tokens_ok_cong by blast
    then show ?thesis
      using hops(3) icon_hops_ok [OF hops(2)] set_remember [of IMAGE_CACHE_MAX mint "the icon" "ts_image st2"]
      by (cases icon) (auto simp: tokens_ok_def length_remember)
  qed (use tokenInfo_ok assms in auto)
  then show ?thesis
    using img tokenSearch_ok [of wp net q st "fst (tokenSearch wp net q st)" "snd (tokenSearch wp net q st)"]
      tokenInfo_ok [of wp net mint st "fst (tokenInfo wp net mint st)" "snd (tokenInfo wp net mint st)"] assms
    by simp
qed

lemma token_caches_sound_witness:
  "length (ts_image (snd (tokenImageBytes icon_web icon_net ''m'' no_tokens))) \<le> IMAGE_CACHE_MAX \<and>
    search_ok icon_web (fst (tokenSearch icon_web icon_net ''ab'' no_tokens))"
  using token_caches_sound [OF no_tokens_ok, of icon_web icon_net "''ab''" "''m''"] unfolding tokens_ok_def by blast

text \<open>
  A body that does not parse is remembered as an unknown token, and the upstream is not asked again:
  the comment says a transient failure is deliberately not cached.
\<close>

theorem malformed_answer_cached:
  assumes "map_of (ts_info st) mint = None" "length (ts_info st) < INFO_CACHE_MAX"
    and "net (JUPITER_TOKEN_SEARCH @ encodeURIComponent wp mint) (length (ts_fetched st)) = Some res"
    and "answer_ok res" "fa_json res = None"
  shows "tokenInfo wp net2 mint (snd (tokenInfo wp net mint st)) = (Unfound, snd (tokenInfo wp net mint st))"
proof -
  define st1 where "st1 = st\<lparr>ts_fetched := ts_fetched st @ [JUPITER_TOKEN_SEARCH @ encodeURIComponent wp mint]\<rparr>"
  have st1: "ask net (JUPITER_TOKEN_SEARCH @ encodeURIComponent wp mint) st = (Some res, st1)" "ts_info st1 = ts_info st"
    unfolding ask_def assms(3) st1_def by simp_all
  have "tokenInfo wp net mint st = (Unfound, st1\<lparr>ts_info := remember INFO_CACHE_MAX mint Unfound (ts_info st)\<rparr>)"
    unfolding tokenInfo_def using assms(1,4,5) st1 by simp
  moreover have "map_of (remember INFO_CACHE_MAX mint Unfound (ts_info st)) mint = Some Unfound"
    using assms(2) by (simp add: remember_def map_of_upsert)
  moreover have "tokenInfo wp net2 mint st2 = (Unfound, st2)" if "map_of (ts_info st2) mint = Some Unfound" for st2
    using that by (simp add: tokenInfo_def)
  ultimately show ?thesis by simp
qed

end
