(* ===== verification/FetchHandler.thy ===== *)
theory FetchHandler
  imports Upload TokenInfo
begin

text \<open>
  The HTTP surface of the quote service on Workers, \<open>quote-service/fetch-handler.ts\<close>: its
  routes, the handlers of burns and of paid uploads, and the counters they share. The injected
  operations are parameters of the options; an operation answers at once or after the deadline, and
  what it was called with is kept in the state. A request is handled from its arrival to the end of
  its clean-up; \<open>FetchService\<close> interleaves the parts of several requests.
\<close>

subsection \<open>Options and state\<close>

datatype op_error =
    PolicyFailure string string
  | UploadFailure upload_error
  | DiscoveryFailure string string
  | OtherFailure string

text \<open>The message of a thrown error.\<close>

definition error_text :: "error \<Rightarrow> string" where
  "error_text e = (case e of PlainError m \<Rightarrow> m | ExternalError m \<Rightarrow> m | _ \<Rightarrow> [])"

type_synonym json_object = "(string \<times> jsval) list"

text \<open>An operation that has been awaited: whether the deadline came first, and how it settled.\<close>

type_synonym 'a timed = "bool \<times> (op_error + 'a)"

datatype gate_reply =
    GateAcquired string
  | GateBusy
  | GateRate int
  | GateProcessing int
  | GateConflict
  | GateReplay jsval

record 'g gate_ops =
  go_acquire :: "'g \<Rightarrow> string \<Rightarrow> string \<Rightarrow> string \<Rightarrow> gate_reply res \<times> 'g"
  go_complete :: "'g \<Rightarrow> string \<Rightarrow> string \<Rightarrow> upload_result \<Rightarrow> unit res \<times> 'g"
  go_fail :: "'g \<Rightarrow> string \<Rightarrow> string \<Rightarrow> unit res \<times> 'g"
  go_release :: "'g \<Rightarrow> string \<Rightarrow> unit res \<times> 'g"

record 'g fetch_options =
  fo_maxBodyBytes :: "nat option"
  fo_maxInflightBurns :: "nat option"
  fo_maxInflightMetadataUploads :: "nat option"
  fo_metadataUploadMaxRequestBytes :: "nat option"
  fo_metadataUploadRateLimitPerIp :: "int option"
  fo_metadataUploadGlobalRateLimit :: "int option"
  fo_metadataUploadRateWindowMs :: "int option"
  fo_referenceRequestDeadlineMs :: "int option"
  fo_bearerToken :: "string option"
  fo_burnEnabled :: "bool option"
  fo_prepare :: "(jsval \<Rightarrow> json_object timed) option"
  fo_submitSigned :: "(jsval \<Rightarrow> json_object timed) option"
  fo_execute :: "jsval \<Rightarrow> json_object timed"
  fo_oneShotEnabled :: "bool option"
  fo_readiness :: "(string + unit) option"
  fo_health :: "(string + json_object) option"
  fo_markets :: "(string \<Rightarrow> json_object timed) option"
  fo_resolve :: "(string \<Rightarrow> string option \<Rightarrow> json_object timed) option"
  fo_metadataUpload :: "(upload_input \<Rightarrow> upload_result timed) option"
  fo_metadataImagePrepare :: "(byte list \<times> string \<Rightarrow> op_error + json_object) option"
  fo_metadataUploadGate :: "'g gate_ops option"
  fo_allowedOrigins :: "string list option"

definition or_default :: "'a \<Rightarrow> 'a option \<Rightarrow> 'a" where
  "or_default d v = (case v of None \<Rightarrow> d | Some x \<Rightarrow> x)"

definition maxBodyBytes :: "'g fetch_options \<Rightarrow> nat" where
  "maxBodyBytes opts = or_default 16384 (fo_maxBodyBytes opts)"

definition maxInflightBurns :: "'g fetch_options \<Rightarrow> nat" where
  "maxInflightBurns opts = or_default 8 (fo_maxInflightBurns opts)"

definition maxInflightMetadataUploads :: "'g fetch_options \<Rightarrow> nat" where
  "maxInflightMetadataUploads opts = or_default 1 (fo_maxInflightMetadataUploads opts)"

definition metadataUploadMaxRequestBytes :: "'g fetch_options \<Rightarrow> nat" where
  "metadataUploadMaxRequestBytes opts = or_default 14000000 (fo_metadataUploadMaxRequestBytes opts)"

definition metadataUploadRateLimitPerIp :: "'g fetch_options \<Rightarrow> int" where
  "metadataUploadRateLimitPerIp opts = or_default 3 (fo_metadataUploadRateLimitPerIp opts)"

definition metadataUploadGlobalRateLimit :: "'g fetch_options \<Rightarrow> int" where
  "metadataUploadGlobalRateLimit opts = or_default 30 (fo_metadataUploadGlobalRateLimit opts)"

definition metadataUploadRateWindowMs :: "'g fetch_options \<Rightarrow> int" where
  "metadataUploadRateWindowMs opts = or_default (60 * 60 * 1000) (fo_metadataUploadRateWindowMs opts)"

text \<open>
  The counters of the handler, the state of the gate behind it and of the token caches; and what the
  operations have been called with: the uploads that were paid for and the burns that were started.
\<close>

record 'g handler_state =
  hd_inflight :: nat
  hd_uploads :: nat
  hd_rates :: "(string \<times> int \<times> int) list"
  hd_global :: "int \<times> int"
  hd_gate :: 'g
  hd_tokens :: token_state
  hd_paid :: "upload_input list"
  hd_started :: "(string \<times> jsval) list"

definition fresh_handler :: "int \<Rightarrow> 'g \<Rightarrow> 'g handler_state" where
  "fresh_handler now g = \<lparr>hd_inflight = 0, hd_uploads = 0, hd_rates = [], hd_global = (now, 0), hd_gate = g,
    hd_tokens = no_tokens, hd_paid = [], hd_started = []\<rparr>"

subsection \<open>Responses\<close>

definition json_value :: "int \<Rightarrow> jsval \<Rightarrow> (string \<times> string) list \<Rightarrow> http_response" where
  "json_value status body headers = \<lparr>hs_status = status,
    hs_headers = fold (\<lambda>(name, value). upsert name value) headers
      [(''content-type'', ''application/json''), (''cache-control'', ''no-store'')],
    hs_body = JsonBody body\<rparr>"

definition json :: "int \<Rightarrow> json_object \<Rightarrow> (string \<times> string) list \<Rightarrow> http_response" where
  "json status body headers = json_value status (JObj body) headers"

definition error_json :: "int \<Rightarrow> string \<Rightarrow> string \<Rightarrow> http_response" where
  "error_json status c message = json status [(''code'', JStr c), (''message'', JStr message)] []"

definition corsHeaders :: "http_request \<Rightarrow> 'g fetch_options \<Rightarrow> bool \<Rightarrow> (string \<times> string) list" where
  "corsHeaders request opts metadataRoute =
    [(''access-control-allow-methods'', ''GET, POST, OPTIONS''),
     (''access-control-allow-headers'', ''content-type, authorization''),
     (''access-control-max-age'', ''86400'')] @
    (if \<not> metadataRoute \<and> or_default [] (fo_allowedOrigins opts) = []
     then [(''access-control-allow-origin'', ''*'')]
     else (case header request ''origin'' of
         Some (c # cs) \<Rightarrow>
           if (c # cs) \<in> set (or_default [] (fo_allowedOrigins opts))
           then [(''access-control-allow-origin'', c # cs), (''vary'', ''origin'')] else []
       | _ \<Rightarrow> []))"

definition withCors :: "http_response \<Rightarrow> (string \<times> string) list \<Rightarrow> http_response" where
  "withCors response headers = fold (\<lambda>(name, value). set_header name value) headers response"

text \<open>The marker of a body that does not parse is itself a value a body can parse to.\<close>

definition decodeJson :: "web_platform \<Rightarrow> byte list \<Rightarrow> jsval" where
  "decodeJson wp bytes = (case parseJSON wp (decodeText wp bytes) of None \<Rightarrow> JStr ''INVALID_JSON'' | Some v \<Rightarrow> v)"

definition uploadOriginAllowed :: "http_request \<Rightarrow> 'g fetch_options \<Rightarrow> bool" where
  "uploadOriginAllowed request opts \<longleftrightarrow> (case header request ''origin'' of
     Some (c # cs) \<Rightarrow> (c # cs) \<in> set (or_default [] (fo_allowedOrigins opts)) \<and> (c # cs) \<noteq> ''*''
   | _ \<Rightarrow> False)"

definition clientIp :: "http_request \<Rightarrow> string" where
  "clientIp request = or_default ''unknown'' (header request ''cf-connecting-ip'')"

definition content_type :: "http_request \<Rightarrow> string" where
  "content_type request = or_default [] (header request ''content-type'')"

definition upload_busy :: "'g fetch_options \<Rightarrow> 'g handler_state \<Rightarrow> bool" where
  "upload_busy opts st \<longleftrightarrow> hd_inflight st \<ge> maxInflightBurns opts \<or> hd_uploads st \<ge> maxInflightMetadataUploads opts"

definition server_busy :: http_response where
  "server_busy = error_json 429 ''SERVER_BUSY'' ''too many concurrent requests; retry later''"

definition upload_error_json :: "upload_error \<Rightarrow> http_response" where
  "upload_error_json e = (case e of UploadError c message status \<Rightarrow> error_json status c message)"

subsection \<open>The rate limit kept in memory\<close>

definition rate_bucket :: "int \<Rightarrow> int \<Rightarrow> (int \<times> int) option \<Rightarrow> int \<times> int" where
  "rate_bucket now window prior = (case prior of
     Some (startedAt, count) \<Rightarrow> if now - startedAt \<ge> window then (now, 0) else (startedAt, count)
   | None \<Rightarrow> (now, 0))"

definition consumeMetadataUploadRate ::
  "'g fetch_options \<Rightarrow> int \<Rightarrow> string \<Rightarrow> 'g handler_state \<Rightarrow> int option \<times> 'g handler_state" where
  "consumeMetadataUploadRate opts now ip st =
    (let window = metadataUploadRateWindowMs opts;
         globalRate = rate_bucket now window (Some (hd_global st));
         bucket = rate_bucket now window (map_of (hd_rates st) ip);
         blockedUntil =
           (if snd bucket \<ge> metadataUploadRateLimitPerIp opts then [fst bucket + window] else []) @
           (if snd globalRate \<ge> metadataUploadGlobalRateLimit opts then [fst globalRate + window] else [])
     in if blockedUntil \<noteq> []
        then (Some (max 1 (ceil_seconds (Max (set blockedUntil) - now))), st\<lparr>hd_global := globalRate\<rparr>)
        else (None, st\<lparr>hd_global := (fst globalRate, snd globalRate + 1),
          hd_rates := upsert ip (fst bucket, snd bucket + 1) (hd_rates st)\<rparr>))"

subsection \<open>Paid uploads\<close>

definition result_json :: "upload_result \<Rightarrow> json_object" where
  "result_json r = [(''uri'', JStr (ur_uri r)), (''imageUri'', JStr (ur_imageUri r)),
    (''deliveryImageUri'', JStr (ur_deliveryImageUri r)),
    (''originalImageBytes'', JInt (int (ur_originalImageBytes r))), (''imageBytes'', JInt (int (ur_imageBytes r)))]"

text \<open>What is refused before the body is read, and then what the body says.\<close>

definition upload_admit :: "'g fetch_options \<Rightarrow> http_request \<Rightarrow> 'g handler_state \<Rightarrow> http_response option" where
  "upload_admit opts request st =
    (if Option.is_none (fo_metadataUpload opts)
     then Some (error_json 503 ''METADATA_UPLOAD_DISABLED'' ''metadata upload is disabled because the server-side Irys and Cloudflare pipeline is not configured'')
     else if \<not> uploadOriginAllowed request opts
     then Some (error_json 403 ''UPLOAD_ORIGIN_FORBIDDEN'' ''this origin is not allowed to spend the metadata upload balance'')
     else if upload_busy opts st then Some server_busy
     else if \<not> json_type (content_type request)
     then Some (error_json 415 ''UNSUPPORTED_MEDIA_TYPE'' ''content-type must be application/json'')
     else None)"

definition upload_read ::
  "web_platform \<Rightarrow> 'g fetch_options \<Rightarrow> http_request \<Rightarrow> http_response + upload_input \<times> byte list" where
  "upload_read wp opts request = (case readBodyWithCap request (metadataUploadMaxRequestBytes opts) of
     None \<Rightarrow> Inl (error_json 413 ''UPLOAD_TOO_LARGE''
       (''metadata upload request exceeds '' @ js_of_int (int (metadataUploadMaxRequestBytes opts)) @ '' bytes''))
   | Some body \<Rightarrow> (let parsed = decodeJson wp body in
       if parsed = JStr ''INVALID_JSON'' then Inl (error_json 400 ''INVALID_JSON'' ''request body is not valid JSON'')
       else (case parseMetadataUploadRequest wp parsed of
           Inl e \<Rightarrow> Inl (upload_error_json e)
         | Inr input \<Rightarrow> Inr (input, body))))"

definition rate_reply :: "int \<Rightarrow> http_response" where
  "rate_reply retryAfter = json 429 [(''code'', JStr ''UPLOAD_RATE_LIMITED''),
    (''message'', JStr ''metadata upload rate limit reached; retry later'')] [(''retry-after'', js_of_int retryAfter)]"

definition processing_reply :: "int \<Rightarrow> http_response" where
  "processing_reply retryAfter = json 409 [(''code'', JStr ''UPLOAD_PROCESSING''),
    (''message'', JStr ''this metadata upload is still processing; retry shortly with the same launch details'')]
    [(''retry-after'', js_of_int retryAfter)]"

text \<open>The gate, or the limit in memory: a refusal, a receipt, or the token of the granted upload.\<close>

definition upload_permit ::
  "web_platform \<Rightarrow> 'g fetch_options \<Rightarrow> int \<Rightarrow> http_request \<Rightarrow> upload_input \<Rightarrow> byte list \<Rightarrow> 'g handler_state \<Rightarrow>
    (http_response + string option) \<times> 'g handler_state" where
  "upload_permit wp opts now request input body st = (case fo_metadataUploadGate opts of
     None \<Rightarrow> (case consumeMetadataUploadRate opts now (clientIp request) st of
         (Some retryAfter, st1) \<Rightarrow> (Inl (rate_reply retryAfter), st1)
       | (None, st1) \<Rightarrow> (Inr None, st1))
   | Some ops \<Rightarrow> (case go_acquire ops (hd_gate st) (clientIp request) (ui_requestId input) (sha256Hex wp body) of
       (answer, g) \<Rightarrow> (case answer of
           Inl e \<Rightarrow> Inl (error_json 503 ''SERVICE_UNAVAILABLE'' ''metadata upload is temporarily unavailable'')
         | Inr (GateReplay result) \<Rightarrow> Inl (json_value 200 result [])
         | Inr (GateProcessing retryAfter) \<Rightarrow> Inl (processing_reply retryAfter)
         | Inr GateConflict \<Rightarrow>
             Inl (error_json 409 ''IDEMPOTENCY_CONFLICT'' ''requestId was already used for different metadata'')
         | Inr GateBusy \<Rightarrow> Inl server_busy
         | Inr (GateRate retryAfter) \<Rightarrow> Inl (rate_reply retryAfter)
         | Inr (GateAcquired token) \<Rightarrow> Inr (Some token), st\<lparr>hd_gate := g\<rparr>)))"

definition upload_started :: "upload_input \<Rightarrow> 'g handler_state \<Rightarrow> 'g handler_state" where
  "upload_started input st = st\<lparr>hd_inflight := Suc (hd_inflight st), hd_uploads := Suc (hd_uploads st),
    hd_paid := hd_paid st @ [input]\<rparr>"

text \<open>A token that is the empty string counts as none.\<close>

definition held_token :: "'g fetch_options \<Rightarrow> string option \<Rightarrow> ('g gate_ops \<times> string) option" where
  "held_token opts gateToken = (case (fo_metadataUploadGate opts, gateToken) of
     (Some ops, Some (c # cs)) \<Rightarrow> Some (ops, c # cs) | _ \<Rightarrow> None)"

text \<open>The receipt is stored, or the failure noted, before the upload counts as settled.\<close>

definition upload_execution ::
  "'g fetch_options \<Rightarrow> string option \<Rightarrow> upload_input \<Rightarrow> op_error + upload_result \<Rightarrow> 'g handler_state \<Rightarrow>
    (op_error + upload_result) \<times> 'g handler_state" where
  "upload_execution opts gateToken input outcome st = (case held_token opts gateToken of
     None \<Rightarrow> (outcome, st)
   | Some (ops, token) \<Rightarrow> (case outcome of
       Inr result \<Rightarrow> (case go_complete ops (hd_gate st) token (ui_requestId input) result of
           (Inr stored, g) \<Rightarrow> (Inr result, st\<lparr>hd_gate := g\<rparr>)
         | (Inl e, g) \<Rightarrow> (Inl (OtherFailure (error_text e)), st\<lparr>hd_gate := g\<rparr>))
     | Inl e \<Rightarrow> (Inl e, st\<lparr>hd_gate := snd (go_fail ops (hd_gate st) token (ui_requestId input))\<rparr>)))"

definition upload_cleanup :: "'g fetch_options \<Rightarrow> string option \<Rightarrow> 'g handler_state \<Rightarrow> 'g handler_state" where
  "upload_cleanup opts gateToken st =
    (let st1 = st\<lparr>hd_inflight := hd_inflight st - 1, hd_uploads := hd_uploads st - 1\<rparr> in
     case held_token opts gateToken of None \<Rightarrow> st1
     | Some (ops, token) \<Rightarrow> st1\<lparr>hd_gate := snd (go_release ops (hd_gate st1) token)\<rparr>)"

definition upload_answer :: "bool \<Rightarrow> op_error + upload_result \<Rightarrow> http_response" where
  "upload_answer late settled =
    (if late then error_json 504 ''REQUEST_DEADLINE''
       ''metadata upload is still processing; wait before retrying to avoid a duplicate paid upload''
     else (case settled of
         Inr result \<Rightarrow> json 200 (result_json result) []
       | Inl (UploadFailure e) \<Rightarrow> upload_error_json e
       | Inl _ \<Rightarrow> error_json 502 ''IRYS_UPLOAD_FAILED'' ''Irys metadata upload failed''))"

definition upload_settle :: "'g fetch_options \<Rightarrow> string option \<Rightarrow> upload_input \<Rightarrow> upload_result timed \<Rightarrow>
    'g handler_state \<Rightarrow> http_response \<times> 'g handler_state" where
  "upload_settle opts gateToken input timed st = (case upload_execution opts gateToken input (snd timed) st of
     (settled, st1) \<Rightarrow> (upload_answer (fst timed) settled, upload_cleanup opts gateToken st1))"

definition handleMetadataUpload ::
  "web_platform \<Rightarrow> 'g fetch_options \<Rightarrow> int \<Rightarrow> http_request \<Rightarrow> 'g handler_state \<Rightarrow> http_response \<times> 'g handler_state" where
  "handleMetadataUpload wp opts now request st = (case upload_admit opts request st of
     Some response \<Rightarrow> (response, st)
   | None \<Rightarrow> (case upload_read wp opts request of
       Inl response \<Rightarrow> (response, st)
     | Inr (input, body) \<Rightarrow>
         if upload_busy opts st then (server_busy, st)
         else (case upload_permit wp opts now request input body st of
             (Inl response, st1) \<Rightarrow> (response, st1)
           | (Inr gateToken, st1) \<Rightarrow>
               upload_settle opts gateToken input (the (fo_metadataUpload opts) input) (upload_started input st1))))"

subsection \<open>Image preparation\<close>

definition prepare_accept ::
  "web_platform \<Rightarrow> 'g fetch_options \<Rightarrow> http_request \<Rightarrow> 'g handler_state \<Rightarrow> http_response + byte list \<times> string" where
  "prepare_accept wp opts request st =
    (if Option.is_none (fo_metadataImagePrepare opts)
     then Inl (error_json 503 ''IMAGE_PREPARATION_DISABLED'' ''Cloudflare image preparation is not configured'')
     else if \<not> uploadOriginAllowed request opts
     then Inl (error_json 403 ''UPLOAD_ORIGIN_FORBIDDEN'' ''this origin is not allowed to prepare metadata images'')
     else if upload_busy opts st then Inl server_busy
     else if \<not> json_type (content_type request)
     then Inl (error_json 415 ''UNSUPPORTED_MEDIA_TYPE'' ''content-type must be application/json'')
     else (case readBodyWithCap request (metadataUploadMaxRequestBytes opts) of
         None \<Rightarrow> Inl (error_json 413 ''UPLOAD_TOO_LARGE''
           (''image preparation request exceeds '' @ js_of_int (int (metadataUploadMaxRequestBytes opts)) @ '' bytes''))
       | Some body \<Rightarrow> (let parsed = decodeJson wp body in
           if parsed = JStr ''INVALID_JSON'' then Inl (error_json 400 ''INVALID_JSON'' ''request body is not valid JSON'')
           else (case parseMetadataImagePrepareRequest wp parsed of
               Inl e \<Rightarrow> Inl (upload_error_json e)
             | Inr input \<Rightarrow> Inr input))))"

definition prepare_answer :: "op_error + json_object \<Rightarrow> http_response" where
  "prepare_answer outcome = (case outcome of
     Inr result \<Rightarrow> json 200 result []
   | Inl (UploadFailure e) \<Rightarrow> upload_error_json e
   | Inl _ \<Rightarrow> error_json 502 ''IMAGE_COMPRESSION_FAILED'' ''Cloudflare image compression is unavailable'')"

definition handleMetadataImagePrepare ::
  "web_platform \<Rightarrow> 'g fetch_options \<Rightarrow> http_request \<Rightarrow> 'g handler_state \<Rightarrow> http_response" where
  "handleMetadataImagePrepare wp opts request st = (case prepare_accept wp opts request st of
     Inl response \<Rightarrow> response
   | Inr input \<Rightarrow> prepare_answer (the (fo_metadataImagePrepare opts) input))"

subsection \<open>Burns\<close>

definition op_admit :: "'g fetch_options \<Rightarrow> http_request \<Rightarrow> 'g handler_state \<Rightarrow> http_response option" where
  "op_admit opts request st =
    (if (case fo_bearerToken opts of Some (c # cs) \<Rightarrow> header request ''authorization'' \<noteq> Some (''Bearer '' @ c # cs) | _ \<Rightarrow> False)
     then Some (error_json 401 ''UNAUTHORIZED'' ''missing or invalid bearer token'')
     else if hd_inflight st \<ge> maxInflightBurns opts
     then Some (error_json 429 ''SERVER_BUSY'' ''too many concurrent burns; retry later'')
     else if \<not> json_type (content_type request)
     then Some (error_json 415 ''UNSUPPORTED_MEDIA_TYPE'' ''content-type must be application/json'')
     else None)"

definition op_read :: "web_platform \<Rightarrow> 'g fetch_options \<Rightarrow> http_request \<Rightarrow> http_response + jsval" where
  "op_read wp opts request = (case readBodyWithCap request (maxBodyBytes opts) of
     None \<Rightarrow> Inl (error_json 413 ''BODY_TOO_LARGE''
       (''request body exceeds '' @ js_of_int (int (maxBodyBytes opts)) @ '' bytes''))
   | Some body \<Rightarrow> (let parsed = decodeJson wp body in
       if parsed = JStr ''INVALID_JSON'' then Inl (error_json 400 ''INVALID_JSON'' ''request body is not valid JSON'')
       else Inr parsed))"

definition op_answer :: "string \<Rightarrow> json_object timed \<Rightarrow> http_response" where
  "op_answer operation timed = (case timed of (late, outcome) \<Rightarrow>
     if late then error_json 504 ''REQUEST_DEADLINE''
       (operation @ '' still processing; it will complete or fail under its vault lease'')
     else (case outcome of
         Inr result \<Rightarrow> json 200 result []
       | Inl (PolicyFailure c message) \<Rightarrow> error_json (policyErrorStatus c) c (sanitizeForTransport message)
       | Inl _ \<Rightarrow> error_json 500 ''INTERNAL'' ''internal error''))"

definition op_started :: "string \<Rightarrow> jsval \<Rightarrow> 'g handler_state \<Rightarrow> 'g handler_state" where
  "op_started operation parsed st = st\<lparr>hd_inflight := Suc (hd_inflight st), hd_started := hd_started st @ [(operation, parsed)]\<rparr>"

definition op_settled :: "'g handler_state \<Rightarrow> 'g handler_state" where
  "op_settled st = st\<lparr>hd_inflight := hd_inflight st - 1\<rparr>"

definition handleOperation ::
  "web_platform \<Rightarrow> 'g fetch_options \<Rightarrow> http_request \<Rightarrow> string \<Rightarrow> (jsval \<Rightarrow> json_object timed) \<Rightarrow> 'g handler_state \<Rightarrow>
    http_response \<times> 'g handler_state" where
  "handleOperation wp opts request operation execute st = (case op_admit opts request st of
     Some response \<Rightarrow> (response, st)
   | None \<Rightarrow> (case op_read wp opts request of
       Inl response \<Rightarrow> (response, st)
     | Inr parsed \<Rightarrow> (op_answer operation (execute parsed), op_settled (op_started operation parsed st))))"

subsection \<open>Routes\<close>

definition metadata_route :: "string \<Rightarrow> bool" where
  "metadata_route path \<longleftrightarrow> path \<in> set [''/metadata/upload'', ''/metadata/finalize'', ''/metadata/image/prepare'']"

definition referenceRequestDeadlineMs :: "'g fetch_options \<Rightarrow> int" where
  "referenceRequestDeadlineMs opts = or_default 16000 (fo_referenceRequestDeadlineMs opts)"

definition with_reference_deadline :: "'g fetch_options \<Rightarrow> 'a timed \<Rightarrow> op_error + 'a" where
  "with_reference_deadline opts timed = (case timed of (late, outcome) \<Rightarrow>
     if late then Inl (DiscoveryFailure ''REFERENCE_DISCOVERY_TIMEOUT''
       (''reference request timed out after '' @ js_of_int (referenceRequestDeadlineMs opts) @ '' ms; retry'')) else outcome)"

definition discovery_failed :: "string \<Rightarrow> http_response" where
  "discovery_failed c = error_json (if c = ''REFERENCE_DISCOVERY_TIMEOUT'' then 504 else 503) c
    (if c = ''REFERENCE_DISCOVERY_TIMEOUT'' then ''reference request timed out; retry''
     else ''reference discovery unavailable; retry'')"

definition mint_required :: http_response where
  "mint_required = error_json 400 ''INVALID_REQUEST'' ''mint query parameter required''"

definition markets_answer :: "'g fetch_options \<Rightarrow> (string \<Rightarrow> json_object timed) \<Rightarrow> string option \<Rightarrow> http_response" where
  "markets_answer opts markets mint = (case mint of
     Some (c # cs) \<Rightarrow> (case with_reference_deadline opts (markets (c # cs)) of
         Inr result \<Rightarrow> json 200 result []
       | Inl (DiscoveryFailure code message) \<Rightarrow> discovery_failed code
       | Inl (PolicyFailure code message) \<Rightarrow> error_json (policyErrorStatus code) code (sanitizeForTransport message)
       | Inl _ \<Rightarrow> error_json 500 ''INTERNAL'' ''internal error'')
   | _ \<Rightarrow> mint_required)"

definition resolve_answer :: "'g fetch_options \<Rightarrow> (string \<Rightarrow> string option \<Rightarrow> json_object timed) \<Rightarrow> string option \<Rightarrow> string option \<Rightarrow> http_response" where
  "resolve_answer opts resolve mint pool = (case mint of
     Some (c # cs) \<Rightarrow> (case with_reference_deadline opts (resolve (c # cs) pool) of
         Inr result \<Rightarrow> json 200 result []
       | Inl (DiscoveryFailure code message) \<Rightarrow> discovery_failed code
       | Inl (PolicyFailure code message) \<Rightarrow> error_json 422 code (sanitizeForTransport message)
       | Inl _ \<Rightarrow> error_json 422 ''RESOLVE_FAILED'' ''reference resolution failed'')
   | _ \<Rightarrow> mint_required)"

definition null_text :: "string option \<Rightarrow> jsval" where
  "null_text t = (case t of None \<Rightarrow> JNull | Some s \<Rightarrow> JStr s)"

definition token_info_json :: "token_info \<Rightarrow> json_object" where
  "token_info_json info = (case info of Unfound \<Rightarrow> [(''found'', JBool False)]
     | Found symbol name icon \<Rightarrow> [(''found'', JBool True), (''symbol'', symbol), (''name'', name), (''image'', null_text icon)])"

definition search_json :: "search_result list \<Rightarrow> json_object" where
  "search_json results = [(''results'', JArr (map (\<lambda>r. JObj [(''mint'', JStr (sr_mint r)), (''symbol'', JStr (sr_symbol r)),
    (''name'', JStr (sr_name r)), (''image'', null_text (sr_image r))]) results))]"

definition icon_response :: "token_image option \<Rightarrow> http_response" where
  "icon_response icon = (case icon of
     Some i \<Rightarrow> \<lparr>hs_status = 200, hs_headers = [(''content-type'', ti_type i), (''cache-control'', ''public, max-age=86400'')],
       hs_body = Chunks [ti_body i]\<rparr>
   | None \<Rightarrow> \<lparr>hs_status = 404, hs_headers = [], hs_body = NoBody\<rparr>)"

text \<open>The reads: liveness and the token and reference look-ups.\<close>

definition token_routes ::
  "web_platform \<Rightarrow> token_net \<Rightarrow> http_request \<Rightarrow> 'g handler_state \<Rightarrow> (http_response \<times> 'g handler_state) option" where
  "token_routes wp net request st =
    (let path = url_pathname (hq_url request); query = map_of (url_params (hq_url request)) in
     if path = ''/token'' then Some (case query ''mint'' of
         Some mint \<Rightarrow>
           if isPlausibleMint mint
           then (let (info, ts) = tokenInfo wp net mint (hd_tokens st) in (json 200 (token_info_json info) [], st\<lparr>hd_tokens := ts\<rparr>))
           else (json 200 [(''found'', JBool False)] [], st)
       | None \<Rightarrow> (json 200 [(''found'', JBool False)] [], st))
     else if path = ''/token/search'' then Some (case normalizeTokenSearchQuery
           (case query ''query'' of None \<Rightarrow> query ''q'' | Some q \<Rightarrow> Some q) of
         Some q \<Rightarrow> (let (results, ts) = tokenSearch wp net q (hd_tokens st) in (json 200 (search_json results) [], st\<lparr>hd_tokens := ts\<rparr>))
       | None \<Rightarrow> (json 200 [(''results'', JArr [])] [], st))
     else if path = ''/token/image'' then Some (case query ''mint'' of
         Some mint \<Rightarrow>
           if isPlausibleMint mint
           then (let (icon, ts) = tokenImageBytes wp net mint (hd_tokens st) in (icon_response icon, st\<lparr>hd_tokens := ts\<rparr>))
           else (icon_response None, st)
       | None \<Rightarrow> (icon_response None, st))
     else None)"

definition status_routes :: "'g fetch_options \<Rightarrow> string \<Rightarrow> http_response option" where
  "status_routes opts path =
    (if path = ''/healthz'' then Some (json 200 [(''status'', JStr ''ok''), (''draining'', JBool False)] [])
     else if path = ''/health'' then Some (case fo_health opts of
         None \<Rightarrow> json 200 [(''ok'', JBool True)] []
       | Some (Inr health) \<Rightarrow> json 200 (fold (\<lambda>(k, v). upsert k v) health [(''ok'', JBool True)]) []
       | Some (Inl e) \<Rightarrow> json 503 [(''ok'', JBool False), (''reason'', JStr ''health dependency unavailable'')] [])
     else if path = ''/readyz'' then Some (case fo_readiness opts of
         Some (Inl e) \<Rightarrow> json 503 [(''status'', JStr ''not-ready''), (''reason'', JStr ''dependency unavailable'')] []
       | _ \<Rightarrow> json 200 [(''status'', JStr ''ready'')] [])
     else None)"

definition reference_routes :: "'g fetch_options \<Rightarrow> http_request \<Rightarrow> http_response option" where
  "reference_routes opts request =
    (let path = url_pathname (hq_url request); query = map_of (url_params (hq_url request)) in
     if path = ''/reference/markets''
     then (case fo_markets opts of None \<Rightarrow> None | Some markets \<Rightarrow> Some (markets_answer opts markets (query ''mint'')))
     else if path = ''/reference/resolve''
     then (case fo_resolve opts of None \<Rightarrow> None | Some resolve \<Rightarrow> Some (resolve_answer opts resolve (query ''mint'') (query ''pool'')))
     else None)"

definition use_post :: "string \<Rightarrow> http_response" where
  "use_post path = json 405 [(''code'', JStr ''METHOD_NOT_ALLOWED''), (''message'', JStr (''use POST '' @ path))] [(''allow'', ''POST'')]"

definition not_found :: http_response where
  "not_found = error_json 404 ''NOT_FOUND'' ''unknown path''"

definition burn_action :: "'g fetch_options \<Rightarrow> string \<Rightarrow> (string \<times> (jsval \<Rightarrow> json_object timed)) option" where
  "burn_action opts path =
    (if path = ''/burn/prepare'' then map_option (Pair ''prepare'') (fo_prepare opts)
     else if path = ''/burn/submit'' then map_option (Pair ''submit'') (fo_submitSigned opts)
     else if path = ''/burn'' then Some (''burn'', fo_execute opts)
     else None)"

definition burn_routes ::
  "web_platform \<Rightarrow> 'g fetch_options \<Rightarrow> http_request \<Rightarrow> 'g handler_state \<Rightarrow> http_response \<times> 'g handler_state" where
  "burn_routes wp opts request st =
    (let path = url_pathname (hq_url request) in
     if fo_burnEnabled opts = Some False
     then (error_json 503 ''BURNS_DISABLED'' ''burn submission is disabled on this revision'', st)
     else if path = ''/burn'' \<and> fo_oneShotEnabled opts = Some False
     then (error_json 410 ''CALLER_PAID_ONLY'' ''this revision has no fee payer; use POST /burn/prepare, sign, then POST /burn/submit'', st)
     else (case burn_action opts path of
         None \<Rightarrow> (not_found, st)
       | Some (operation, action) \<Rightarrow>
           if hq_method request \<noteq> ''POST'' then (use_post path, st)
           else handleOperation wp opts request operation action st))"

definition routed ::
  "web_platform \<Rightarrow> 'g fetch_options \<Rightarrow> token_net \<Rightarrow> int \<Rightarrow> http_request \<Rightarrow> 'g handler_state \<Rightarrow> http_response \<times> 'g handler_state" where
  "routed wp opts net now request st =
    (let path = url_pathname (hq_url request); get = hq_method request = ''GET'';
         post = (hq_method request = ''POST'') in
     case (if get then status_routes opts path else None) of Some response \<Rightarrow> (response, st)
     | None \<Rightarrow> (case (if get then token_routes wp net request st else None) of Some answer \<Rightarrow> answer
       | None \<Rightarrow> (case (if get then reference_routes opts request else None) of Some response \<Rightarrow> (response, st)
         | None \<Rightarrow>
             if path = ''/metadata/image/prepare''
             then ((if post then handleMetadataImagePrepare wp opts request st else use_post path), st)
             else if path = ''/metadata/upload'' \<or> path = ''/metadata/finalize''
             then (if post then handleMetadataUpload wp opts now request st else (use_post path, st))
             else if starts_with ''/burn'' path then burn_routes wp opts request st
             else (not_found, st))))"

definition fetch_handler ::
  "web_platform \<Rightarrow> 'g fetch_options \<Rightarrow> token_net \<Rightarrow> int \<Rightarrow> http_request \<Rightarrow> 'g handler_state \<Rightarrow> http_response \<times> 'g handler_state" where
  "fetch_handler wp opts net now request st =
    (let path = url_pathname (hq_url request); cors = corsHeaders request opts (metadata_route path) in
     if hq_method request = ''OPTIONS'' then
       (withCors
         (if metadata_route path \<and> \<not> uploadOriginAllowed request opts
          then error_json 403 ''UPLOAD_ORIGIN_FORBIDDEN'' ''this origin is not allowed to spend the metadata upload balance''
          else \<lparr>hs_status = 204, hs_headers = [], hs_body = NoBody\<rparr>) cors, st)
     else (let (response, st1) = routed wp opts net now request st in (withCors response cors, st1)))"

end
