(* ===== verification/QuoteWorker.thy ===== *)
theory QuoteWorker
  imports FetchHandler RpcProxy
begin

text \<open>
  The private Worker of the quote service, \<open>quote-service/worker.ts\<close> around its durable gate
  (\<open>UploadGate\<close>): the check of its origins, the redaction of its log, the gate as the handler of
  uploads sees it, and the initialisation that is kept across requests. The wiring of the service and
  the metadata pipeline are parameters.
\<close>

subsection \<open>The log\<close>

record worker_env =
  we_BURNER_RPC_URL :: "string option"
  we_BURNER_ALLOWED_ORIGINS :: "string option"
  we_IRYS_PRIVATE_KEY :: "string option"
  we_JUPITER_PRIVATE_KEY :: "string option"
  we_CLOUDFLARE_IMAGE_WORKER_URL :: "string option"
  we_CLOUDFLARE_IMAGE_WORKER_TOKEN :: "string option"
  we_IMAGE_PIPELINE :: bool
  we_METADATA_UPLOAD_GATE :: bool

definition secret_parts :: "web_platform \<Rightarrow> string option \<Rightarrow> string list" where
  "secret_parts wp raw = (case raw of
     Some (c # cs) \<Rightarrow> (c # cs) # (case newURL wp (c # cs) of None \<Rightarrow> []
       | Some url \<Rightarrow> long_enough ([url_username url, url_password url] @ map snd (url_params url)
           @ js_split CHR ''/'' (url_pathname url)))
   | _ \<Rightarrow> [])"

definition secretPatterns :: "web_platform \<Rightarrow> worker_env \<Rightarrow> string list" where
  "secretPatterns wp env = js_sort by_length (dedup (concat (map (secret_parts wp)
    [we_BURNER_RPC_URL env, we_IRYS_PRIVATE_KEY env, we_JUPITER_PRIVATE_KEY env,
     we_CLOUDFLARE_IMAGE_WORKER_URL env, we_CLOUDFLARE_IMAGE_WORKER_TOKEN env])))"

text \<open>\<open>value.replaceAll(pattern, "[redacted]")\<close>, from left to right; no pattern is empty.\<close>

definition REDACTED :: string where
  "REDACTED = ''[redacted]''"

function replace_all :: "string \<Rightarrow> string \<Rightarrow> string" where
  "replace_all pattern [] = []"
| "replace_all pattern (c # cs) =
    (if pattern \<noteq> [] \<and> starts_with pattern (c # cs) then REDACTED @ replace_all pattern (drop (length pattern) (c # cs))
     else c # replace_all pattern cs)"
  by pat_completeness auto
termination by (relation "measure (length \<circ> snd)") auto

definition redact_text :: "string list \<Rightarrow> string \<Rightarrow> string" where
  "redact_text patterns text = fold replace_all patterns text"

text \<open>Every string inside the line; what is \<open>undefined\<close> is not printed.\<close>

fun redact_value :: "string list \<Rightarrow> jsval \<Rightarrow> jsval" where
  "redact_value patterns (JStr s) = JStr (redact_text patterns s)"
| "redact_value patterns (JArr vs) = JArr (map (redact_value patterns) vs)"
| "redact_value patterns (JObj kvs) = JObj (map (\<lambda>kv. (fst kv, redact_value patterns (snd kv))) kvs)"
| "redact_value patterns v = v"

definition makeLogSink :: "web_platform \<Rightarrow> worker_env \<Rightarrow> jsval \<Rightarrow> string" where
  "makeLogSink wp env line = stringifyJSON wp (redact_value (secretPatterns wp env) line)"

subsection \<open>Origins\<close>

definition drop_slash :: "string \<Rightarrow> string" where
  "drop_slash s = (if s \<noteq> [] \<and> last s = CHR ''/'' then butlast s else s)"

definition check_origin :: "web_platform \<Rightarrow> string \<Rightarrow> unit res" where
  "check_origin wp origin = (case newURL wp origin of
     None \<Rightarrow> Inl (PlainError ''BURNER_ALLOWED_ORIGINS contains an invalid origin'')
   | Some parsed \<Rightarrow>
       if url_origin parsed \<noteq> origin \<or> url_protocol parsed \<notin> set [''http:'', ''https:'']
       then Inl (PlainError ''BURNER_ALLOWED_ORIGINS entries must be exact http(s) origins without paths'')
       else Inr ())"

definition allowedOrigins :: "web_platform \<Rightarrow> string option \<Rightarrow> string list res" where
  "allowedOrigins wp raw =
    (let origins = filter (\<lambda>s. s \<noteq> []) (map (\<lambda>v. drop_slash (js_trim v)) (js_split CHR '','' (or_default [] raw))) in
     bindR (forEach (check_origin wp) origins) (\<lambda>_. Inr origins))"

subsection \<open>The gate behind the handler\<close>

definition metadataClientKey :: "web_platform \<Rightarrow> string \<Rightarrow> string" where
  "metadataClientKey wp ip = sha256Hex wp (encodeText wp ip)"

text \<open>A stored receipt is parsed again; \<open>JSON.parse\<close> may throw.\<close>

definition gate_answer :: "web_platform \<Rightarrow> gate_result \<Rightarrow> gate_reply res" where
  "gate_answer wp r = (case r of
     Acquired token \<Rightarrow> Inr (GateAcquired token)
   | Busy \<Rightarrow> Inr GateBusy
   | RateLimited s \<Rightarrow> Inr (GateRate s)
   | StillProcessing s \<Rightarrow> Inr (GateProcessing s)
   | Conflict \<Rightarrow> Inr GateConflict
   | Replay text \<Rightarrow> (case parseJSON wp text of None \<Rightarrow> Inl SyntaxError | Some v \<Rightarrow> Inr (GateReplay v)))"

text \<open>The clock and the random value the object reads in one request.\<close>

definition worker_gate :: "web_platform \<Rightarrow> int \<Rightarrow> string \<Rightarrow> int \<Rightarrow> upload_gate gate_ops" where
  "worker_gate wp acquired_at uuid completed_at = \<lparr>
    go_acquire = (\<lambda>g ip requestId fingerprint.
      let (r, g1) = gate_acquire acquired_at uuid g (metadataClientKey wp ip) requestId fingerprint
      in (bindR r (gate_answer wp), g1)),
    go_complete = (\<lambda>g token requestId result.
      gate_complete completed_at g token requestId (stringifyJSON wp (JObj (result_json result)))),
    go_fail = (\<lambda>g token requestId. (Inr (), gate_fail g token requestId)),
    go_release = (\<lambda>g token. (Inr (), gate_release g token))\<rparr>"

subsection \<open>Initialisation\<close>

record wiring =
  wi_burnEnabled :: "bool option"
  wi_oneShotEnabled :: "bool option"
  wi_execute :: "jsval \<Rightarrow> json_object timed"
  wi_prepare :: "(jsval \<Rightarrow> json_object timed) option"
  wi_submitSigned :: "(jsval \<Rightarrow> json_object timed) option"
  wi_health :: "(string + json_object) option"
  wi_markets :: "(string \<Rightarrow> json_object timed) option"
  wi_resolve :: "(string \<Rightarrow> string option \<Rightarrow> json_object timed) option"
  wi_readiness :: "(string + unit) option"

type_synonym pipeline = "((upload_input \<Rightarrow> upload_result timed) \<times> (byte list \<times> string \<Rightarrow> op_error + json_object)) option"

definition worker_options ::
  "wiring \<Rightarrow> pipeline \<Rightarrow> string list \<Rightarrow> upload_gate gate_ops \<Rightarrow> upload_gate fetch_options" where
  "worker_options w pipe origins gate = \<lparr>
    fo_maxBodyBytes = Some 16384, fo_maxInflightBurns = Some 8, fo_maxInflightMetadataUploads = Some 1,
    fo_metadataUploadMaxRequestBytes = Some 14000000, fo_metadataUploadRateLimitPerIp = Some 3,
    fo_metadataUploadGlobalRateLimit = Some 30, fo_metadataUploadRateWindowMs = Some (60 * 60 * 1000), fo_referenceRequestDeadlineMs = Some 16000,
    fo_bearerToken = None, fo_burnEnabled = wi_burnEnabled w, fo_prepare = wi_prepare w,
    fo_submitSigned = wi_submitSigned w, fo_execute = wi_execute w, fo_oneShotEnabled = wi_oneShotEnabled w,
    fo_readiness = wi_readiness w, fo_health = wi_health w, fo_markets = wi_markets w, fo_resolve = wi_resolve w,
    fo_metadataUpload = map_option fst pipe, fo_metadataImagePrepare = map_option snd pipe,
    fo_metadataUploadGate = Some gate, fo_allowedOrigins = Some origins\<rparr>"

text \<open>What \<open>initialize\<close> keeps: all but the clock of the gate, which is read in every request.\<close>

type_synonym initialized = "wiring \<times> pipeline \<times> string list"

definition initialize ::
  "web_platform \<Rightarrow> worker_env \<Rightarrow> wiring res \<Rightarrow> (string list \<Rightarrow> pipeline res) \<Rightarrow> initialized res" where
  "initialize wp env buildProductionWiring metadataPipelineFromEnvironment =
    (if or_default [] (we_BURNER_RPC_URL env) = []
     then Inl (PlainError ''the quote Worker RPC secret is not configured'')
     else bindR (allowedOrigins wp (we_BURNER_ALLOWED_ORIGINS env)) (\<lambda>origins.
       bindR buildProductionWiring (\<lambda>w.
       if \<not> we_IMAGE_PIPELINE env then Inl (PlainError ''the image pipeline service binding is not configured'')
       else if \<not> we_METADATA_UPLOAD_GATE env then Inl (PlainError ''the metadata upload gate is not configured'')
       else bindR (metadataPipelineFromEnvironment origins) (\<lambda>pipe. Inr (w, pipe, origins)))))"

definition service_unavailable :: http_response where
  "service_unavailable = \<lparr>hs_status = 503,
    hs_headers = [(''content-type'', ''application/json''), (''cache-control'', ''no-store'')],
    hs_body = JsonBody (code_message ''SERVICE_UNAVAILABLE'' ''quote service unavailable'')\<rparr>"

text \<open>
  \<open>initialized ??= initialize(env)\<close>: the promise is kept whether it is fulfilled or rejected. What
  the environment would answer to an initialisation at this moment is the argument \<open>attempt\<close>.
\<close>

definition quote_fetch ::
  "web_platform \<Rightarrow> token_net \<Rightarrow> initialized res \<Rightarrow> int \<Rightarrow> string \<Rightarrow> int \<Rightarrow> http_request \<Rightarrow>
    initialized res option \<times> upload_gate handler_state \<Rightarrow>
    http_response \<times> initialized res option \<times> upload_gate handler_state" where
  "quote_fetch wp net attempt now uuid later request state = (case state of (kept, st) \<Rightarrow>
     (let initialized = or_default attempt kept in
      case initialized of
        Inl e \<Rightarrow> (service_unavailable, Some initialized, st)
      | Inr (w, pipe, origins) \<Rightarrow>
          (let (response, st1) = fetch_handler wp (worker_options w pipe origins (worker_gate wp now uuid later)) net now request st
           in (response, Some initialized, st1))))"

end
