(* ===== verification/FetchService.thy ===== *)
theory FetchService
  imports QuoteWorker
begin

text \<open>
  Requests in parallel. A handler of \<open>quote-service/fetch-handler.ts\<close> gives up the processor at its
  awaits: while the body arrives, while the gate answers, while the operation runs. The relation
  below interleaves these parts for any number of requests; the parts are the definitions of
  \<open>FetchHandler\<close>. The options may differ from step to step, as the clock of the gate does.
\<close>

subsection \<open>Steps\<close>

datatype task =
    BurnArriving string http_request
  | Burning string jsval
  | UploadArriving http_request
  | AskingGate upload_input "byte list" http_request
  | Paying upload_input "string option"
  | Closing upload_input "string option"

type_synonym 'g service = "'g handler_state \<times> task list"

inductive service_step ::
  "web_platform \<Rightarrow> 'g fetch_options set \<Rightarrow> ('g \<Rightarrow> 'g) set \<Rightarrow> 'g service \<Rightarrow> 'g service \<Rightarrow> bool"
  for wp OS moves where
  burn_admitted: "opts \<in> OS \<Longrightarrow> op_admit opts request st = None \<Longrightarrow>
    service_step wp OS moves (st, ts) (st, ts @ [BurnArriving operation request])"
| burn_dropped: "opts \<in> OS \<Longrightarrow> BurnArriving operation request \<in> set ts \<Longrightarrow> op_read wp opts request = Inl response \<Longrightarrow>
    service_step wp OS moves (st, ts) (st, remove1 (BurnArriving operation request) ts)"
| burn_started: "opts \<in> OS \<Longrightarrow> BurnArriving operation request \<in> set ts \<Longrightarrow> op_read wp opts request = Inr parsed \<Longrightarrow>
    service_step wp OS moves (st, ts)
      (op_started operation parsed st, remove1 (BurnArriving operation request) ts @ [Burning operation parsed])"
| burn_settled: "Burning operation parsed \<in> set ts \<Longrightarrow>
    service_step wp OS moves (st, ts) (op_settled st, remove1 (Burning operation parsed) ts)"
| upload_admitted: "opts \<in> OS \<Longrightarrow> upload_admit opts request st = None \<Longrightarrow>
    service_step wp OS moves (st, ts) (st, ts @ [UploadArriving request])"
| upload_dropped: "opts \<in> OS \<Longrightarrow> UploadArriving request \<in> set ts \<Longrightarrow>
    upload_read wp opts request = Inl response \<or> upload_busy opts st \<Longrightarrow>
    service_step wp OS moves (st, ts) (st, remove1 (UploadArriving request) ts)"
| upload_asks: "opts \<in> OS \<Longrightarrow> UploadArriving request \<in> set ts \<Longrightarrow> upload_read wp opts request = Inr (input, body) \<Longrightarrow>
    \<not> upload_busy opts st \<Longrightarrow> fo_metadataUploadGate opts \<noteq> None \<Longrightarrow>
    service_step wp OS moves (st, ts) (st, remove1 (UploadArriving request) ts @ [AskingGate input body request])"
| gate_refused: "opts \<in> OS \<Longrightarrow> AskingGate input body request \<in> set ts \<Longrightarrow>
    fo_metadataUploadGate opts \<noteq> None \<Longrightarrow> upload_permit wp opts now request input body st = (Inl response, st') \<Longrightarrow>
    service_step wp OS moves (st, ts) (st', remove1 (AskingGate input body request) ts)"
| gate_granted: "opts \<in> OS \<Longrightarrow> AskingGate input body request \<in> set ts \<Longrightarrow>
    fo_metadataUploadGate opts \<noteq> None \<Longrightarrow> upload_permit wp opts now request input body st = (Inr gateToken, st') \<Longrightarrow>
    service_step wp OS moves (st, ts)
      (upload_started input st', remove1 (AskingGate input body request) ts @ [Paying input gateToken])"
| limit_refused: "opts \<in> OS \<Longrightarrow> UploadArriving request \<in> set ts \<Longrightarrow> upload_read wp opts request = Inr (input, body) \<Longrightarrow>
    \<not> upload_busy opts st \<Longrightarrow> fo_metadataUploadGate opts = None \<Longrightarrow>
    upload_permit wp opts now request input body st = (Inl response, st') \<Longrightarrow>
    service_step wp OS moves (st, ts) (st', remove1 (UploadArriving request) ts)"
| limit_granted: "opts \<in> OS \<Longrightarrow> UploadArriving request \<in> set ts \<Longrightarrow> upload_read wp opts request = Inr (input, body) \<Longrightarrow>
    \<not> upload_busy opts st \<Longrightarrow> fo_metadataUploadGate opts = None \<Longrightarrow>
    upload_permit wp opts now request input body st = (Inr gateToken, st') \<Longrightarrow>
    service_step wp OS moves (st, ts)
      (upload_started input st', remove1 (UploadArriving request) ts @ [Paying input gateToken])"
| upload_executed: "opts \<in> OS \<Longrightarrow> Paying input gateToken \<in> set ts \<Longrightarrow>
    upload_execution opts gateToken input outcome st = (settled, st') \<Longrightarrow>
    service_step wp OS moves (st, ts) (st', remove1 (Paying input gateToken) ts @ [Closing input gateToken])"
| upload_closed: "opts \<in> OS \<Longrightarrow> Closing input gateToken \<in> set ts \<Longrightarrow>
    service_step wp OS moves (st, ts) (upload_cleanup opts gateToken st, remove1 (Closing input gateToken) ts)"
| gate_moved: "m \<in> moves \<Longrightarrow> service_step wp OS moves (st, ts) (st\<lparr>hd_gate := m (hd_gate st)\<rparr>, ts)"
| tokens_read: "token_routes wp net request st = Some (response, st') \<Longrightarrow> service_step wp OS moves (st, ts) (st', ts)"

abbreviation service_run where
  "service_run wp OS moves \<equiv> (service_step wp OS moves)\<^sup>*\<^sup>*"

abbreviation idle :: "int \<Rightarrow> 'g \<Rightarrow> 'g service" where
  "idle now g \<equiv> (fresh_handler now g, [])"

subsection \<open>The counters\<close>

fun burning :: "task \<Rightarrow> bool" where
  "burning (Burning operation parsed) = True"
| "burning _ = False"

fun uploading :: "task \<Rightarrow> bool" where
  "uploading (Paying input gateToken) = True"
| "uploading (Closing input gateToken) = True"
| "uploading _ = False"

definition counted :: "(task \<Rightarrow> bool) \<Rightarrow> task list \<Rightarrow> nat" where
  "counted P ts = length (filter P ts)"

definition counters_true :: "'g service \<Rightarrow> bool" where
  "counters_true s \<longleftrightarrow> (case s of (st, ts) \<Rightarrow>
     hd_uploads st = counted uploading ts \<and> hd_inflight st = counted burning ts + counted uploading ts)"

lemma counted_simps [simp]:
  "counted P [] = 0" "counted P (ts @ us) = counted P ts + counted P us"
  "counted P (t # ts) = (if P t then Suc (counted P ts) else counted P ts)"
  by (simp_all add: counted_def)

lemma counted_remove1 [simp]: "t \<in> set ts \<Longrightarrow> \<not> P t \<Longrightarrow> counted P (remove1 t ts) = counted P ts"
  by (induction ts) auto

lemma counted_remove1_Suc: "t \<in> set ts \<Longrightarrow> P t \<Longrightarrow> counted P ts = Suc (counted P (remove1 t ts))"
  by (induction ts) auto

lemma permit_fields:
  assumes "upload_permit wp opts now request input body st = (answer, st')"
  shows "hd_inflight st' = hd_inflight st \<and> hd_uploads st' = hd_uploads st \<and> hd_paid st' = hd_paid st"
proof (cases "fo_metadataUploadGate opts")
  case None
  then show ?thesis
    using assms by (auto simp: upload_permit_def consumeMetadataUploadRate_def Let_def split: if_splits)
next
  case (Some ops)
  then show ?thesis
    using assms by (auto simp: upload_permit_def split: prod.splits)
qed

lemma execution_state:
  "snd (upload_execution opts gateToken input outcome st) = (case held_token opts gateToken of None \<Rightarrow> st
    | Some (ops, token) \<Rightarrow> st\<lparr>hd_gate := (case outcome of
        Inr r \<Rightarrow> snd (go_complete ops (hd_gate st) token (ui_requestId input) r)
      | Inl e \<Rightarrow> snd (go_fail ops (hd_gate st) token (ui_requestId input)))\<rparr>)"
proof (cases "held_token opts gateToken")
  case (Some held)
  then show ?thesis
  proof (cases outcome)
    case (Inr r)
    then show ?thesis
      using Some by (cases held; cases "fst (go_complete (fst held) (hd_gate st) (snd held) (ui_requestId input) r)")
        (simp_all add: upload_execution_def case_prod_beta)
  qed (cases held, simp add: upload_execution_def)
qed (simp add: upload_execution_def)

lemma execution_fields:
  assumes "upload_execution opts gateToken input outcome st = (settled, st')"
  shows "hd_inflight st' = hd_inflight st \<and> hd_uploads st' = hd_uploads st \<and> hd_paid st' = hd_paid st"
proof -
  have "st' = snd (upload_execution opts gateToken input outcome st)" using assms by simp
  then show ?thesis by (simp add: execution_state split: option.split prod.split)
qed

lemma cleanup_fields [simp]:
  "hd_inflight (upload_cleanup opts gateToken st) = hd_inflight st - 1"
  "hd_uploads (upload_cleanup opts gateToken st) = hd_uploads st - 1"
  "hd_paid (upload_cleanup opts gateToken st) = hd_paid st"
  by (auto simp: upload_cleanup_def Let_def split: option.splits)

lemma token_routes_fields:
  assumes "token_routes wp net request st = Some (response, st')"
  shows "hd_inflight st' = hd_inflight st \<and> hd_uploads st' = hd_uploads st \<and> hd_paid st' = hd_paid st \<and>
    hd_gate st' = hd_gate st"
  using assms by (auto simp: token_routes_def Let_def split: if_splits option.splits prod.splits)

lemma counters_true_step: "service_step wp OS moves s s' \<Longrightarrow> counters_true s \<Longrightarrow> counters_true s'"
proof (induction rule: service_step.induct)
  case (burn_settled operation parsed ts st)
  then show ?case
    using counted_remove1_Suc [of "Burning operation parsed" ts burning]
    by (simp add: counters_true_def op_settled_def)
next
  case (upload_executed opts input gateToken ts outcome st settled st')
  then show ?case
    using counted_remove1_Suc [of "Paying input gateToken" ts uploading] execution_fields [OF upload_executed.hyps(3)]
    by (simp add: counters_true_def)
next
  case (upload_closed opts input gateToken ts st)
  then show ?case
    using counted_remove1_Suc [of "Closing input gateToken" ts uploading] by (simp add: counters_true_def)
qed (auto simp: counters_true_def op_started_def upload_started_def dest!: permit_fields token_routes_fields)

lemma counters_true_run: "service_run wp OS moves s s' \<Longrightarrow> counters_true s \<Longrightarrow> counters_true s'"
  by (induction rule: rtranclp_induct) (auto dest: counters_true_step)

lemma counters_true_idle [simp]: "counters_true (idle now g)"
  by (simp add: counters_true_def fresh_handler_def)

subsection \<open>Caps\<close>

lemma no_gate_step:
  assumes "service_step wp OS moves s s'" "\<forall>opts \<in> OS. fo_metadataUploadGate opts = None \<and> maxInflightMetadataUploads opts \<le> cap"
  shows "hd_uploads (fst s) \<le> cap \<Longrightarrow> hd_uploads (fst s') \<le> cap"
  using assms
  by (induction rule: service_step.induct)
    (fastforce simp: op_started_def op_settled_def upload_started_def upload_busy_def
      dest!: permit_fields token_routes_fields execution_fields)+

text \<open>Admissions wait for their bodies together; none looks at the counter again.\<close>

lemma many_arriving:
  assumes "opts \<in> OS" "op_admit opts request st = None"
  shows "service_run wp OS moves (st, ts) (st, ts @ replicate n (BurnArriving operation request))"
proof (induction n)
  case (Suc n)
  then show ?case
    using burn_admitted [OF assms, of wp moves "ts @ replicate n (BurnArriving operation request)" operation]
    by (simp add: replicate_append_same rtranclp.rtrancl_into_rtrancl)
qed simp

lemma all_started:
  assumes "opts \<in> OS" "op_read wp opts request = Inr parsed"
  shows "\<exists>st' ts'. service_run wp OS moves (st, replicate n (BurnArriving operation request) @ ts) (st', ts') \<and>
    hd_inflight st' = hd_inflight st + n"
proof (induction n arbitrary: st ts)
  case (Suc n)
  let ?st = "op_started operation parsed st"
  let ?ts = "replicate n (BurnArriving operation request) @ ts @ [Burning operation parsed]"
  have "service_step wp OS moves (st, replicate (Suc n) (BurnArriving operation request) @ ts) (?st, ?ts)"
    using burn_started [OF assms(1) _ assms(2), of operation "replicate (Suc n) (BurnArriving operation request) @ ts" moves st]
    by simp
  moreover obtain st' ts' where "service_run wp OS moves (?st, ?ts) (st', ts')" "hd_inflight st' = hd_inflight ?st + n"
    using Suc by blast
  ultimately show ?case
    by (intro exI [of _ st'] exI [of _ ts']) (auto simp: op_started_def intro: converse_rtranclp_into_rtranclp)
qed (auto intro: exI [of _ st])

text \<open>
  The cap on concurrent burns is looked at when a request arrives and not again once its body has
  been read, as the upload handler does: any number of burns can be running at the same time.
\<close>

theorem burn_cap_overrun:
  assumes "op_admit opts request (fresh_handler now g) = None" "op_read wp opts request = Inr parsed"
  shows "\<exists>st ts. service_run wp {opts} moves (idle now g) (st, ts) \<and> hd_inflight st = n"
proof -
  have "service_run wp {opts} moves (idle now g) (fresh_handler now g, replicate n (BurnArriving operation request))"
    for operation
    using many_arriving [OF _ assms(1), of "{opts}" wp moves "[]" n operation] by simp
  moreover have "\<exists>st ts. service_run wp {opts} moves (fresh_handler now g, replicate n (BurnArriving operation request)) (st, ts) \<and>
      hd_inflight st = n" for operation
    using all_started [OF _ assms(2), of "{opts}" moves "fresh_handler now g" n operation "[]"]
    by (simp add: fresh_handler_def)
  ultimately show ?thesis by (meson rtranclp_trans)
qed

subsection \<open>Receipts\<close>

text \<open>
  What the handler relies on: once a completion has been stored, the gate keeps the receipt of the
  request id whatever else it is asked, and answers the id from it.
\<close>

locale receipt_gate =
  fixes gates :: "'g gate_ops set" and moves :: "('g \<Rightarrow> 'g) set" and digests :: "string set"
    and results :: "upload_result set" and fingerprint :: "'g \<Rightarrow> string \<Rightarrow> string"
    and keeps :: "string \<Rightarrow> string \<Rightarrow> upload_result \<Rightarrow> 'g \<Rightarrow> bool"
  assumes completed: "ops \<in> gates \<Longrightarrow> r \<in> results \<Longrightarrow> go_complete ops g token i r = (Inr (), g') \<Longrightarrow> keeps i (fingerprint g i) r g'"
    and moved: "m \<in> moves \<Longrightarrow> keeps i h r g \<Longrightarrow> keeps i h r (m g)"
    and acquire_keeps: "ops \<in> gates \<Longrightarrow> keeps i h r g \<Longrightarrow> keeps i h r (snd (go_acquire ops g ip i' h'))"
    and complete_keeps: "ops \<in> gates \<Longrightarrow> keeps i h r g \<Longrightarrow> keeps i h r (snd (go_complete ops g token i' r'))"
    and fail_keeps: "ops \<in> gates \<Longrightarrow> keeps i h r g \<Longrightarrow> keeps i h r (snd (go_fail ops g token i'))"
    and release_keeps: "ops \<in> gates \<Longrightarrow> keeps i h r g \<Longrightarrow> keeps i h r (snd (go_release ops g token))"
    and answered: "ops \<in> gates \<Longrightarrow> keeps i h r g \<Longrightarrow> h' \<in> digests \<Longrightarrow>
      fst (go_acquire ops g ip i h') = Inr (if h' = h then GateReplay (JObj (result_json r)) else GateConflict)"
begin

lemma permit_keeps:
  assumes "fo_metadataUploadGate opts = Some ops" "ops \<in> gates" "keeps i h r (hd_gate st)"
  shows "keeps i h r (hd_gate (snd (upload_permit wp opts now request input body st)))"
  using assms acquire_keeps [OF assms(2,3), of "clientIp request" "ui_requestId input" "sha256Hex wp body"]
  by (simp add: upload_permit_def case_prod_beta)

lemma permit_answer:
  assumes "fo_metadataUploadGate opts = Some ops" "ops \<in> gates" "keeps i h r (hd_gate st)"
    and "ui_requestId input = i" "sha256Hex wp body \<in> digests"
  shows "fst (upload_permit wp opts now request input body st) = Inl (if sha256Hex wp body = h
    then json 200 (result_json r) [] else error_json 409 ''IDEMPOTENCY_CONFLICT'' ''requestId was already used for different metadata'')"
  using assms answered [OF assms(2,3,5), of "clientIp request"]
  by (simp add: upload_permit_def json_def case_prod_beta)

lemma execution_keeps:
  assumes "fo_metadataUploadGate opts = Some ops" "ops \<in> gates" "keeps i h r (hd_gate st)"
  shows "keeps i h r (hd_gate (snd (upload_execution opts gateToken input outcome st)))"
proof (cases "held_token opts gateToken")
  case (Some held)
  then have "fst held = ops"
    using assms(1) by (auto simp: held_token_def split: option.splits list.splits)
  then show ?thesis
    using complete_keeps [OF assms(2,3), of "snd held" "ui_requestId input"]
      fail_keeps [OF assms(2,3), of "snd held" "ui_requestId input"] Some
    by (simp add: execution_state case_prod_beta split: sum.split)
qed (use assms(3) in \<open>simp add: execution_state\<close>)

lemma cleanup_keeps:
  assumes "fo_metadataUploadGate opts = Some ops" "ops \<in> gates" "keeps i h r (hd_gate st)"
  shows "keeps i h r (hd_gate (upload_cleanup opts gateToken st))"
proof (cases "held_token opts gateToken")
  case (Some held)
  then have "fst held = ops"
    using assms(1) by (auto simp: held_token_def split: option.splits list.splits)
  then show ?thesis
    using release_keeps [OF assms(2,3), of "snd held"] Some by (cases held) (simp add: upload_cleanup_def Let_def)
qed (use assms(3) in \<open>simp add: upload_cleanup_def Let_def\<close>)

lemma paid_step:
  assumes "service_step wp OS moves s s'" "\<forall>opts \<in> OS. \<exists>ops \<in> gates. fo_metadataUploadGate opts = Some ops"
    and "range (sha256Hex wp) \<subseteq> digests" "keeps i h r (hd_gate (fst s))"
  shows "keeps i h r (hd_gate (fst s')) \<and>
    filter (\<lambda>u. ui_requestId u = i) (hd_paid (fst s')) = filter (\<lambda>u. ui_requestId u = i) (hd_paid (fst s))"
  using assms
proof (induction rule: service_step.induct)
  case (gate_refused opts input body request ts now st response st')
  obtain ops where ops: "fo_metadataUploadGate opts = Some ops" "ops \<in> gates" using gate_refused by blast
  show ?case
    using permit_keeps [OF ops, of i h r st wp now request input body] permit_fields [OF gate_refused.hyps(4)] gate_refused
    by simp
next
  case (gate_granted opts input body request ts now st gateToken st')
  obtain ops where ops: "fo_metadataUploadGate opts = Some ops" "ops \<in> gates" using gate_granted by blast
  have "ui_requestId input \<noteq> i"
    using permit_answer [OF ops, of i h r st input wp body now request] gate_granted by auto
  then show ?case
    using permit_keeps [OF ops, of i h r st wp now request input body] permit_fields [OF gate_granted.hyps(4)] gate_granted
    by (simp add: upload_started_def)
next
  case (upload_executed opts input gateToken ts outcome st settled st')
  obtain ops where ops: "fo_metadataUploadGate opts = Some ops" "ops \<in> gates" using upload_executed by blast
  show ?case
    using execution_keeps [OF ops, of i h r st gateToken input outcome] execution_fields [OF upload_executed.hyps(3)]
      upload_executed by simp
next
  case (upload_closed opts input gateToken ts st)
  obtain ops where ops: "fo_metadataUploadGate opts = Some ops" "ops \<in> gates" using upload_closed by blast
  show ?case
    using cleanup_keeps [OF ops, of i h r st gateToken] upload_closed by simp
next
  case (tokens_read net request st response st' ts)
  then show ?case using token_routes_fields [OF tokens_read.hyps] by simp
qed (auto simp: op_started_def op_settled_def moved)

lemma paid_run:
  assumes "service_run wp OS moves s s'" "\<forall>opts \<in> OS. \<exists>ops \<in> gates. fo_metadataUploadGate opts = Some ops"
    and "range (sha256Hex wp) \<subseteq> digests" "keeps i h r (hd_gate (fst s))"
  shows "keeps i h r (hd_gate (fst s')) \<and>
    filter (\<lambda>u. ui_requestId u = i) (hd_paid (fst s')) = filter (\<lambda>u. ui_requestId u = i) (hd_paid (fst s))"
  using assms by (induction rule: rtranclp_induct) (auto dest: paid_step)

lemma execution_receipt:
  assumes "fo_metadataUploadGate opts = Some ops" "ops \<in> gates" "gateToken = Some token" "token \<noteq> []" "r \<in> results"
    and "upload_execution opts gateToken input (Inr r) st = (Inr r', st')"
  shows "keeps (ui_requestId input) (fingerprint (hd_gate st) (ui_requestId input)) r (hd_gate st')"
proof -
  have held: "held_token opts gateToken = Some (ops, token)"
    using assms(1,3,4) by (cases token) (simp_all add: held_token_def)
  obtain e g where answer: "go_complete ops (hd_gate st) token (ui_requestId input) r = (e, g)" by (rule prod.exhaust)
  then have "e = Inr ()" "hd_gate st' = g"
    using assms(6) by (auto simp: upload_execution_def held split: sum.splits)
  then show ?thesis using completed [OF assms(2,5), of "hd_gate st" token "ui_requestId input" g] answer by simp
qed

end

subsection \<open>The gate of the Worker\<close>

text \<open>
  What is relied on of the platform: digests are 64 hexadecimal digits, and a printed receipt is read
  back as it was. The clock of every step lies within the day after \<open>T\<close>.
\<close>

definition sound_platform :: "web_platform \<Rightarrow> bool" where
  "sound_platform wp \<longleftrightarrow> range (sha256Hex wp) \<subseteq> Collect is_hex64"

definition printable :: "web_platform \<Rightarrow> upload_result \<Rightarrow> bool" where
  "printable wp r \<longleftrightarrow> stringifyJSON wp (JObj (result_json r)) \<noteq> [] \<and>
    parseJSON wp (stringifyJSON wp (JObj (result_json r))) = Some (JObj (result_json r))"

definition day_gates :: "web_platform \<Rightarrow> int \<Rightarrow> upload_gate gate_ops set" where
  "day_gates wp T = {worker_gate wp t uuid t' | t uuid t'.
     sound_platform wp \<and> t < T + METADATA_RECEIPT_TTL_MS \<and> T \<le> t' \<and> t' < T + METADATA_RECEIPT_TTL_MS}"

definition day_alarms :: "int \<Rightarrow> (upload_gate \<Rightarrow> upload_gate) set" where
  "day_alarms T = gate_alarm ` {..<T + METADATA_RECEIPT_TTL_MS}"

definition job_fingerprint :: "upload_gate \<Rightarrow> string \<Rightarrow> string" where
  "job_fingerprint g i = (case find_job g i of None \<Rightarrow> [] | Some job \<Rightarrow> uj_requestHash job)"

definition receipt_stored :: "web_platform \<Rightarrow> int \<Rightarrow> string \<Rightarrow> string \<Rightarrow> upload_result \<Rightarrow> upload_gate \<Rightarrow> bool" where
  "receipt_stored wp T i h r g \<longleftrightarrow> is_hex64 i \<and> printable wp r \<and> (\<exists>job. find_job g i = Some job \<and> uj_state job = Complete \<and>
     uj_leaseToken job = None \<and> uj_resultJson job = Some (stringifyJSON wp (JObj (result_json r))) \<and>
     uj_requestHash job = h \<and> T + METADATA_RECEIPT_TTL_MS \<le> uj_expiresAt job)"

lemma day_gatesE:
  assumes "ops \<in> day_gates wp T"
  obtains t uuid t' where "ops = worker_gate wp t uuid t'" "sound_platform wp" "t < T + METADATA_RECEIPT_TTL_MS"
    "T \<le> t'" "t' < T + METADATA_RECEIPT_TTL_MS"
  using assms by (auto simp: day_gates_def)

lemma receipt_stored_step:
  assumes "receipt_stored wp T i h r g" "list_all (\<lambda>now. now < T + METADATA_RECEIPT_TTL_MS) (clock [ev])"
  shows "receipt_stored wp T i h r (gate_step ev g)"
proof -
  obtain job where job: "find_job g i = Some job" "uj_leaseToken job = None" "T + METADATA_RECEIPT_TTL_MS \<le> uj_expiresAt job"
      "is_hex64 i" "uj_state job = Complete" "uj_resultJson job = Some (stringifyJSON wp (JObj (result_json r)))"
      "uj_requestHash job = h" "printable wp r"
    using assms(1) by (auto simp: receipt_stored_def)
  have "list_all (\<lambda>now. now < uj_expiresAt job) (clock [ev])"
    using assms(2) job(3) by (auto simp: list_all_iff)
  from receipt_kept [OF job(1,2) this] show ?thesis
    using job by (simp add: receipt_stored_def)
qed

interpretation day: receipt_gate "day_gates wp T" "day_alarms T" "Collect is_hex64" "Collect (printable wp)" job_fingerprint "receipt_stored wp T" for wp T
proof unfold_locales
  fix ops g token i r g' assume "ops \<in> day_gates wp T" "r \<in> Collect (printable wp)" "go_complete ops g token i r = (Inr (), g')"
  then show "receipt_stored wp T i (job_fingerprint g i) r g'"
    by (elim day_gatesE gate_complete_Inr [rotated]) 
      (auto simp: worker_gate_def receipt_stored_def job_fingerprint_def elim!: gate_complete_Inr)
next
  fix m i h r g assume "m \<in> day_alarms T" "receipt_stored wp T i h r g"
  then show "receipt_stored wp T i h r (m g)"
    using receipt_stored_step [of wp T i h r g "EAlarm _"] by (auto simp: day_alarms_def clock_def map_filter_simps)
next
  fix ops i h r g ip i' h' assume "ops \<in> day_gates wp T" "receipt_stored wp T i h r g"
  then show "receipt_stored wp T i h r (snd (go_acquire ops g ip i' h'))"
    using receipt_stored_step [of wp T i h r g "EAcquire _ _ _ _ _"]
    by (auto simp: worker_gate_def clock_def map_filter_simps case_prod_beta elim!: day_gatesE)
next
  fix ops i h r g token i' r' assume "ops \<in> day_gates wp T" "receipt_stored wp T i h r g"
  then show "receipt_stored wp T i h r (snd (go_complete ops g token i' r'))"
    using receipt_stored_step [of wp T i h r g "EComplete _ _ _ _"]
    by (auto simp: worker_gate_def clock_def map_filter_simps elim!: day_gatesE)
next
  fix ops i h r g token i' assume "ops \<in> day_gates wp T" "receipt_stored wp T i h r g"
  then show "receipt_stored wp T i h r (snd (go_fail ops g token i'))"
    using receipt_stored_step [of wp T i h r g "EFail _ _"]
    by (auto simp: worker_gate_def clock_def map_filter_simps elim!: day_gatesE)
next
  fix ops i h r g token assume "ops \<in> day_gates wp T" "receipt_stored wp T i h r g"
  then show "receipt_stored wp T i h r (snd (go_release ops g token))"
    using receipt_stored_step [of wp T i h r g "ERelease _"]
    by (auto simp: worker_gate_def clock_def map_filter_simps elim!: day_gatesE)
next
  fix ops i h r g h' ip assume day: "ops \<in> day_gates wp T" "receipt_stored wp T i h r g" "h' \<in> Collect is_hex64"
  obtain t uuid t' where ops: "ops = worker_gate wp t uuid t'" "sound_platform wp" "t < T + METADATA_RECEIPT_TTL_MS"
    using day(1) by (rule day_gatesE)
  obtain job where job: "find_job g i = Some job" "uj_state job = Complete"
      "uj_resultJson job = Some (stringifyJSON wp (JObj (result_json r)))" "uj_requestHash job = h"
      "T + METADATA_RECEIPT_TTL_MS \<le> uj_expiresAt job" "is_hex64 i" "printable wp r"
    using day(2) by (auto simp: receipt_stored_def)
  have "is_hex64 (metadataClientKey wp ip)" "stringifyJSON wp (JObj (result_json r)) \<noteq> []"
      "parseJSON wp (stringifyJSON wp (JObj (result_json r))) = Some (JObj (result_json r))"
    using ops(2) job(7) by (auto simp: sound_platform_def metadataClientKey_def printable_def)
  with receipt_answer [OF job(1-3), of t "metadataClientKey wp ip" h' uuid] show
    "fst (go_acquire ops g ip i h') = Inr (if h' = h then GateReplay (JObj (result_json r)) else GateConflict)"
    using ops job day(3) by (simp add: worker_gate_def case_prod_beta gate_answer_def)
qed

subsection \<open>Properties\<close>

text \<open>
  C27: A completed upload is never paid for again: once the result of an upload has been stored at the
  Worker's gate, then for 24 hours, however the requests, burns, failures, releases and alarms that
  follow are interleaved, no further paid upload of that request id is started, and whoever asks for
  it is answered with the stored result when the body is the one that was paid for, and with a
  conflict when it is another.
\<close>

theorem paid_once:
  assumes "sound_platform wp" "printable wp r"
    and day: "\<forall>opts \<in> OS. \<exists>ops \<in> day_gates wp T. fo_metadataUploadGate opts = Some ops" and opts: "opts \<in> OS" "opts' \<in> OS"
    and "token \<noteq> []" and settled: "upload_execution opts (Some token) input (Inr r) st = (Inr r', st1)"
    and run: "service_run wp OS (day_alarms T) (st1, ts1) (st2, ts2)"
  shows "filter (\<lambda>u. ui_requestId u = ui_requestId input) (hd_paid st2)
      = filter (\<lambda>u. ui_requestId u = ui_requestId input) (hd_paid st) \<and>
    (\<forall>again body. ui_requestId again = ui_requestId input \<longrightarrow> fst (upload_permit wp opts' now request again body st2) =
      Inl (if sha256Hex wp body = job_fingerprint (hd_gate st) (ui_requestId input) then json 200 (result_json r) []
        else error_json 409 ''IDEMPOTENCY_CONFLICT'' ''requestId was already used for different metadata''))"
proof (intro conjI allI impI)
  obtain ops ops' where ops: "fo_metadataUploadGate opts = Some ops" "ops \<in> day_gates wp T"
      "fo_metadataUploadGate opts' = Some ops'" "ops' \<in> day_gates wp T" using day opts by blast
  have stored: "receipt_stored wp T (ui_requestId input) (job_fingerprint (hd_gate st) (ui_requestId input)) r (hd_gate st1)"
    by (rule day.execution_receipt [OF ops(1,2) refl _ _ settled]) (use assms in auto)
  have sha: "range (sha256Hex wp) \<subseteq> Collect is_hex64"
    using assms(1) by (simp add: sound_platform_def)
  note kept = day.paid_run [OF run day sha, simplified, OF stored]
  show "filter (\<lambda>u. ui_requestId u = ui_requestId input) (hd_paid st2)
      = filter (\<lambda>u. ui_requestId u = ui_requestId input) (hd_paid st)"
    using kept execution_fields [OF settled] by simp
  fix again :: upload_input and body assume again: "ui_requestId again = ui_requestId input"
  show "fst (upload_permit wp opts' now request again body st2) =
      Inl (if sha256Hex wp body = job_fingerprint (hd_gate st) (ui_requestId input) then json 200 (result_json r) []
        else error_json 409 ''IDEMPOTENCY_CONFLICT'' ''requestId was already used for different metadata'')"
    by (rule day.permit_answer [OF ops(3,4) _ again]) (use kept sha in auto)
qed

text \<open>One upload of an example, from its grant at 1000 to its completion at 2000 and a repeat at 3000.\<close>

definition service_platform :: web_platform where
  "service_platform = \<lparr>newURL = (\<lambda>_. None), resolveURL = (\<lambda>_ _. None), setHostname = (\<lambda>_ url. url),
    encodeURIComponent = id, decodeURIComponent = Some, encodeText = (\<lambda>_. []), decodeText = (\<lambda>_. []),
    parseJSON = (\<lambda>_. Some (JObj (result_json \<lparr>ur_uri = ''uri'', ur_imageUri = [], ur_deliveryImageUri = [],
      ur_originalImageBytes = 1, ur_imageBytes = 1\<rparr>))),
    stringifyJSON = (\<lambda>_. ''{}''), sha256Hex = (\<lambda>_. example_hex CHR ''f'')\<rparr>"

definition service_result :: upload_result where
  "service_result = \<lparr>ur_uri = ''uri'', ur_imageUri = [], ur_deliveryImageUri = [], ur_originalImageBytes = 1, ur_imageBytes = 1\<rparr>"

definition service_input :: upload_input where
  "service_input = \<lparr>ui_requestId = example_hex CHR ''a'', ui_name = ''n'', ui_symbol = ''s'', ui_description = [],
    ui_links = [], ui_image = [1], ui_imageContentType = ''image/png''\<rparr>"

definition service_options :: "int \<Rightarrow> int \<Rightarrow> upload_gate fetch_options" where
  "service_options acquired completed = \<lparr>fo_maxBodyBytes = None, fo_maxInflightBurns = None,
    fo_maxInflightMetadataUploads = None, fo_metadataUploadMaxRequestBytes = None, fo_metadataUploadRateLimitPerIp = None,
    fo_metadataUploadGlobalRateLimit = None, fo_metadataUploadRateWindowMs = None, fo_referenceRequestDeadlineMs = None, fo_bearerToken = None,
    fo_burnEnabled = None, fo_prepare = None, fo_submitSigned = None, fo_execute = (\<lambda>_. (False, Inl (OtherFailure []))),
    fo_oneShotEnabled = None, fo_readiness = None, fo_health = None, fo_markets = None, fo_resolve = None,
    fo_metadataUpload = Some (\<lambda>_. (False, Inr service_result)), fo_metadataImagePrepare = None,
    fo_metadataUploadGate = Some (worker_gate service_platform acquired (example_token CHR ''1'') completed),
    fo_allowedOrigins = Some [''https://a'']\<rparr>"

definition service_request :: http_request where
  "service_request = \<lparr>hq_method = ''POST'', hq_url = \<lparr>url_href = [], url_origin = [], url_protocol = [], url_username = [],
    url_password = [], url_host = [], url_hostname = [], url_pathname = ''/metadata/upload'', url_search = [], url_hash = [], url_params = []\<rparr>,
    hq_headers = [(''origin'', ''https://a''), (''content-type'', ''application/json'')], hq_body = Some [[1]]\<rparr>"

definition service_granted :: "upload_gate handler_state" where
  "service_granted = upload_started service_input
    (snd (upload_permit service_platform (service_options 1000 2000) 1000 service_request service_input [1] (fresh_handler 0 empty_gate)))"

lemma service_example:
  "fst (upload_execution (service_options 1000 2000) (Some (example_token CHR ''1'')) service_input (Inr service_result) service_granted)
    = Inr service_result"
  "hd_paid service_granted = [service_input]"
  "job_fingerprint (hd_gate service_granted) (example_hex CHR ''a'') = example_hex CHR ''f''"
  by code_simp+

lemma service_options_day: "service_options t 2000 \<in> {opts. \<exists>ops \<in> day_gates service_platform 1500. fo_metadataUploadGate opts = Some ops}"
    if "t < 10000" for t
proof -
  have "is_hex64 (example_hex CHR ''f'')" by code_simp
  then have "sound_platform service_platform" by (auto simp: sound_platform_def service_platform_def)
  then show ?thesis
    using that unfolding day_gates_def service_options_def METADATA_RECEIPT_TTL_MS_def by fastforce
qed

lemma paid_once_witness:
  "\<exists>st. fst (upload_permit service_platform (service_options 3000 2000) 3000 service_request service_input [1] st)
    = Inl (json 200 (result_json service_result) []) \<and> hd_paid st = [service_input]"
proof -
  let ?OS = "{service_options 1000 2000, service_options 3000 2000}"
  obtain st where st: "upload_execution (service_options 1000 2000) (Some (example_token CHR ''1'')) service_input
      (Inr service_result) service_granted = (Inr service_result, st)"
    using service_example(1) by (cases "upload_execution (service_options 1000 2000) (Some (example_token CHR ''1''))
      service_input (Inr service_result) service_granted") simp
  have hex: "is_hex64 (example_hex CHR ''f'')" by code_simp
  have sound: "sound_platform service_platform" "printable service_platform service_result"
    using hex by (auto simp: sound_platform_def service_platform_def printable_def service_result_def)
  have day: "\<forall>opts \<in> ?OS. \<exists>ops \<in> day_gates service_platform 1500. fo_metadataUploadGate opts = Some ops"
    using service_options_day [of 1000] service_options_day [of 3000] by simp
  have "example_token CHR ''1'' \<noteq> []" by (simp add: example_token_def)
  note once = paid_once [OF sound day _ _ this st rtranclp.rtrancl_refl, of "service_options 3000 2000" 3000 service_request]
  have "fst (upload_permit service_platform (service_options 3000 2000) 3000 service_request service_input [1] st)
      = Inl (json 200 (result_json service_result) [])"
    using once service_example(3) by (simp add: service_platform_def service_input_def)
  moreover have "hd_paid st = [service_input]"
    using execution_fields [OF st] service_example(2) by simp
  ultimately show ?thesis by blast
qed

end
