(* ===== verification/UploadProps.thy ===== *)
theory UploadProps
  imports Upload "HOL-Library.Sublist"
begin

text \<open>
  What the upload boundary guarantees: exactly the well-formed requests are accepted, and no long
  payload survives in text that leaves the process.
\<close>

subsection \<open>Base64\<close>

lemma char_code_of: "0 \<le> m \<Longrightarrow> m < 256 \<Longrightarrow> char_code (char_of (nat m)) = m"
proof -
  assume "0 \<le> m" "m < 256"
  then have "(of_char (char_of (nat m)) :: nat) = nat m" by (simp add: nat_less_iff)
  then show ?thesis
    using \<open>0 \<le> m\<close> unfolding char_code_def by (metis int_nat_eq of_nat_of_char)
qed

lemma char_eq_code: "c = d \<longleftrightarrow> char_code c = char_code d"
  by (simp add: char_code_def)

lemma base64_symbols:
  assumes "0 \<le> n" "n < 64"
  shows "base64_digit (base64_symbol n) = Some n \<and> base64_char (base64_symbol n) \<and> base64_symbol n \<noteq> CHR ''=''"
proof -
  let ?m = "if n < 26 then n + 65 else if n < 52 then n + 71 else if n < 62 then n - 4 else if n = 62 then 43 else 47"
  have code: "char_code (base64_symbol n) = ?m"
    unfolding base64_symbol_def by (rule char_code_of) (use assms in auto)
  have codes: "char_code CHR ''A'' = 65" "char_code CHR ''Z'' = 90" "char_code CHR ''a'' = 97" "char_code CHR ''z'' = 122"
      "char_code CHR ''0'' = 48" "char_code CHR ''9'' = 57" "char_code CHR ''+'' = 43" "char_code CHR ''/'' = 47"
      "char_code CHR ''-'' = 45" "char_code CHR ''_'' = 95" "char_code CHR ''='' = 61"
    by (simp_all add: char_code_def)
  define c where "c = base64_symbol n"
  have "char_code c = ?m" using code by (simp add: c_def)
  then have "base64_digit c = Some n \<and> base64_char c \<and> c \<noteq> CHR ''=''"
    using assms
    by (auto simp: base64_digit_def base64_char_def in_range_def is_digit_def char_eq_code codes
      simp flip: char_code_def split: if_split_asm)
  then show ?thesis by (simp add: c_def)
qed

lemma byte_parts:
  fixes x :: byte
  shows "0 \<le> uint x div 4" "uint x div 4 < 64" "0 \<le> uint x div 16" "uint x div 16 < 16" "0 \<le> uint x div 64" "uint x div 64 < 4"
    "0 \<le> uint x mod 4" "uint x mod 4 < 4" "0 \<le> uint x mod 16" "uint x mod 16 < 16" "0 \<le> uint x mod 64" "uint x mod 64 < 64"
  using uint_byte_bounds [of x] by (simp_all add: pos_imp_zdiv_nonneg_iff)

lemma byte_sextets:
  fixes x y z :: byte
  shows "0 \<le> uint x div 4 \<and> uint x div 4 < 64" "0 \<le> uint x mod 4 * 16 \<and> uint x mod 4 * 16 < 64"
    "0 \<le> uint x mod 4 * 16 + uint y div 16 \<and> uint x mod 4 * 16 + uint y div 16 < 64"
    "0 \<le> uint y mod 16 * 4 \<and> uint y mod 16 * 4 < 64"
    "0 \<le> uint y mod 16 * 4 + uint z div 64 \<and> uint y mod 16 * 4 + uint z div 64 < 64"
    "0 \<le> uint z mod 64 \<and> uint z mod 64 < 64"
proof -
  have one: "0 \<le> a * 16 \<and> a * 16 < 64" if "0 \<le> a" "a < 4" for a :: int using that by linarith
  have two: "0 \<le> a * 16 + b \<and> a * 16 + b < 64" if "0 \<le> a" "a < 4" "0 \<le> b" "b < 16" for a b :: int
    using that by linarith
  have three: "0 \<le> b * 4 \<and> b * 4 < 64" if "0 \<le> b" "b < 16" for b :: int using that by linarith
  have four: "0 \<le> b * 4 + d \<and> b * 4 + d < 64" if "0 \<le> b" "b < 16" "0 \<le> d" "d < 4" for b d :: int
    using that by linarith
  show "0 \<le> uint x div 4 \<and> uint x div 4 < 64" "0 \<le> uint z mod 64 \<and> uint z mod 64 < 64"
    by (intro conjI byte_parts)+
  show "0 \<le> uint x mod 4 * 16 \<and> uint x mod 4 * 16 < 64" by (intro one byte_parts)
  show "0 \<le> uint x mod 4 * 16 + uint y div 16 \<and> uint x mod 4 * 16 + uint y div 16 < 64" by (intro two byte_parts)
  show "0 \<le> uint y mod 16 * 4 \<and> uint y mod 16 * 4 < 64" by (intro three byte_parts)
  show "0 \<le> uint y mod 16 * 4 + uint z div 64 \<and> uint y mod 16 * 4 + uint z div 64 < 64" by (intro four byte_parts)
qed

definition good_symbol :: "int \<Rightarrow> bool" where
  "good_symbol n \<longleftrightarrow> base64_digit (base64_symbol n) = Some n \<and> base64_char (base64_symbol n) \<and> base64_symbol n \<noteq> CHR ''=''"

lemma good_sextets:
  fixes x y z :: byte
  shows "good_symbol (uint x div 4)" "good_symbol (uint x mod 4 * 16)" "good_symbol (uint x mod 4 * 16 + uint y div 16)"
    "good_symbol (uint y mod 16 * 4)" "good_symbol (uint y mod 16 * 4 + uint z div 64)" "good_symbol (uint z mod 64)"
  unfolding good_symbol_def using byte_sextets base64_symbols by blast+

lemmas sextet_char = good_sextets [unfolded good_symbol_def, THEN conjunct2, THEN conjunct1]
lemmas sextet_digit = good_sextets [unfolded good_symbol_def, THEN conjunct1]
lemmas sextet_pad = good_sextets [unfolded good_symbol_def, THEN conjunct2, THEN conjunct2]

lemma canonical_encode: "canonical_base64 (base64_encode bs)"
  by (induction bs rule: base64_encode.induct) (simp_all add: sextet_char)

lemma sextets_join:
  fixes x y z :: byte
  shows "word_of_int (uint x div 4 * 4 + (uint x mod 4 * 16) div 16) = x"
    "word_of_int (uint x div 4 * 4 + (uint x mod 4 * 16 + uint y div 16) div 16) = x"
    "word_of_int ((uint x mod 4 * 16 + uint y div 16) * 16 + (uint y mod 16 * 4) div 4) = y"
    "word_of_int ((uint x mod 4 * 16 + uint y div 16) * 16 + (uint y mod 16 * 4 + uint z div 64) div 4) = y"
    "word_of_int ((uint y mod 16 * 4 + uint z div 64) * 64 + uint z mod 64) = z"
proof -
  have split: "(a * 16 + b) div 16 = a" "(a * 16) div 16 = a" if "0 \<le> b" "b < 16" for a b :: int
    using that by simp_all
  have split4: "(a * 4 + b) div 4 = a" "(a * 4) div 4 = a" if "0 \<le> b" "b < 4" for a b :: int
    using that by simp_all
  have wrap: "(word_of_int (u * 256 + uint w) :: byte) = w" for u and w :: byte
    using word_of_int_add_256 [of "uint w" u] by (simp add: algebra_simps)
  have join: "uint x div 4 * 4 + uint x mod 4 = uint x" "(a * 16 + uint y div 16) * 16 + uint y mod 16 = a * 256 + uint y"
      "(a * 4 + uint z div 64) * 64 + uint z mod 64 = a * 256 + uint z" for a
    by (simp_all add: algebra_simps)
  show "word_of_int (uint x div 4 * 4 + (uint x mod 4 * 16) div 16) = x"
    "word_of_int (uint x div 4 * 4 + (uint x mod 4 * 16 + uint y div 16) div 16) = x"
    "word_of_int ((uint x mod 4 * 16 + uint y div 16) * 16 + (uint y mod 16 * 4) div 4) = y"
    "word_of_int ((uint x mod 4 * 16 + uint y div 16) * 16 + (uint y mod 16 * 4 + uint z div 64) div 4) = y"
    "word_of_int ((uint y mod 16 * 4 + uint z div 64) * 64 + uint z mod 64) = z"
    unfolding split [OF byte_parts(3,4)] split [OF order_refl zero_less_numeral] split4 [OF byte_parts(5,6)]
      split4 [OF order_refl zero_less_numeral] join wrap
    by simp_all
qed

lemma byte_small [simp]: "uint (y :: byte) div 16 div 16 = 0" "uint (z :: byte) div 64 div 4 = 0"
  using byte_parts [of y] byte_parts [of z] by (simp_all only: div_pos_pos_trivial)

lemma groups_encode:
  "base64_groups (List.map_filter base64_digit (takeWhile (\<lambda>c. c \<noteq> CHR ''='') (base64_encode bs))) = bs"
  by (induction bs rule: base64_encode.induct)
    (simp_all add: sextet_digit sextet_pad map_filter_simps sextets_join)

lemma base64_round_trip: "base64_decode (base64_encode bs) = bs"
  by (simp add: base64_decode_def groups_encode)

subsection \<open>Text that leaves the process\<close>

text \<open>A run of the payload characters that could carry a signature or a transaction.\<close>

definition long_run :: "string \<Rightarrow> bool" where
  "long_run s \<longleftrightarrow> (\<exists>r. sublist r s \<and> 64 \<le> length r \<and> list_all payload_char r)"

lemma sublist_barrier: "c \<notin> set r \<Longrightarrow> sublist r (a @ c # b) \<Longrightarrow> sublist r a \<or> sublist r b"
proof -
  assume c: "c \<notin> set r" and "sublist r (a @ c # b)"
  then consider "sublist r a" | "sublist r (c # b)" | p q where "r = p @ q" "suffix p a" "prefix q (c # b)"
    by (auto simp: sublist_append)
  then show ?thesis
  proof cases
    case 2
    then show ?thesis using c by (auto simp: sublist_Cons_right prefix_Cons)
  next
    case 3
    then have "q = []" using c by (auto simp: prefix_Cons)
    then show ?thesis using 3 by (simp add: suffix_imp_sublist)
  qed auto
qed

lemma long_run_barrier: "\<not> payload_char c \<Longrightarrow> long_run (a @ c # b) \<Longrightarrow> long_run a \<or> long_run b"
  unfolding long_run_def by (metis (no_types, lifting) list_all_iff sublist_barrier)

lemma short_no_run: "length s < 64 \<Longrightarrow> \<not> long_run s"
  by (auto simp: long_run_def dest!: sublist_length_le)

lemma length_dec_digits: "0 \<le> n \<Longrightarrow> n < 10 ^ k \<Longrightarrow> length (dec_digits n) \<le> max 1 k"
proof (induction n arbitrary: k rule: dec_digits.induct)
  case (1 n)
  show ?case
  proof (cases "n < 10")
    case False
    then obtain j where j: "k = Suc j" using 1(3) by (cases k) auto
    then have "n div 10 < 10 ^ j" using 1(3) by simp
    then have "length (dec_digits (n div 10)) \<le> max 1 j" using 1(1,2) False by simp
    moreover have "1 \<le> j" using j 1(3) False by (cases j) auto
    ultimately show ?thesis using False j by (simp add: dec_digits.simps [of n])
  qed (simp add: dec_digits.simps [of n])
qed

lemma redact_run_short:
  assumes "length r < 10 ^ 50"
  shows "\<not> long_run (redact_run r)"
proof (cases "64 \<le> length r")
  case True
  have out: "\<not> payload_char CHR ''[''" "\<not> payload_char CHR '':''" "\<not> payload_char CHR '']''" by code_simp+
  have "int (length r) < 10 ^ 50" using assms by (metis of_nat_less_numeral_power_cancel_iff)
  then have "length (js_of_int (int (length r))) \<le> 50"
    using length_dec_digits [of "int (length r)" 50] by (simp add: js_of_int_def)
  then have "\<not> long_run (js_of_int (int (length r)))" by (simp add: short_no_run)
  moreover have "\<not> long_run ''redacted''" "\<not> long_run []" by (simp_all add: short_no_run)
  ultimately have "\<not> long_run ([] @ CHR ''['' # ''redacted'' @ CHR '':'' # js_of_int (int (length r)) @ CHR '']'' # [])"
    using out long_run_barrier by blast
  then show ?thesis using True by (simp add: redact_run_def)
qed (simp add: redact_run_def short_no_run)

lemma redact_runs_short: "length pending + length s < 10 ^ 50 \<Longrightarrow> \<not> long_run (redact_runs pending s)"
proof (induction s arbitrary: pending)
  case Nil
  then show ?case by (simp add: redact_run_short)
next
  case (Cons c cs)
  show ?case
  proof (cases "payload_char c")
    case True
    then show ?thesis using Cons by simp
  next
    case False
    have "\<not> long_run (redact_run pending)" "\<not> long_run (redact_runs [] cs)"
      using Cons.IH [of "[]"] Cons.prems redact_run_short [of pending] by simp_all
    then show ?thesis using False long_run_barrier [OF False] by auto
  qed
qed

text \<open>
  no error text that leaves the service carries a payload: after the hygiene there is no run of
  64 or more characters of base64, base58 or hex in it, so no signature and no transaction, and it is
  at most 400 characters long. (For texts shorter than \<open>10 ^ 50\<close>, far beyond any string of the platform.)
\<close>

theorem no_payload_leaves:
  assumes "length message < 10 ^ 50"
  shows "length (sanitizeForTransport message) \<le> 400 \<and>
    \<not> (\<exists>r. sublist r (sanitizeForTransport message) \<and> 64 \<le> length r \<and> list_all payload_char r)"
proof -
  have "\<not> long_run (redact_runs [] message)" using redact_runs_short [of "[]"] assms by simp
  moreover have "sublist (sanitizeForTransport message) (redact_runs [] message)"
    unfolding sanitizeForTransport_def by (intro prefix_imp_sublist take_is_prefix)
  ultimately show ?thesis
    unfolding long_run_def sanitizeForTransport_def by (auto dest: sublist_order.order_trans)
qed

lemma no_payload_leaves_witness:
  "sanitizeForTransport (''x '' @ replicate 70 CHR ''A'') = ''x [redacted:70]'' \<and>
    length (sanitizeForTransport (''x '' @ replicate 70 CHR ''A'')) \<le> 400"
proof -
  have "length (''x '' @ replicate 70 CHR ''A'') < 10 ^ 50" by simp
  then have "length (sanitizeForTransport (''x '' @ replicate 70 CHR ''A'')) \<le> 400" using no_payload_leaves by blast
  moreover have "sanitizeForTransport (''x '' @ replicate 70 CHR ''A'') = ''x [redacted:70]''" by code_simp
  ultimately show ?thesis by blast
qed

subsection \<open>Accepted uploads\<close>

definition trimmed :: "string \<Rightarrow> bool" where
  "trimmed s \<longleftrightarrow> s = [] \<or> \<not> js_space (hd s) \<and> \<not> js_space (last s)"

lemma js_trim_trimmed: "trimmed s \<Longrightarrow> js_trim s = s"
proof -
  assume "trimmed s"
  then have "dropWhile js_space s = s" "dropWhile js_space (rev s) = rev s"
    unfolding trimmed_def dropWhile_eq_self_iff by (auto simp: hd_rev)
  then show ?thesis by (simp add: js_trim_def)
qed

lemma trimmed_js_trim: "trimmed (js_trim s)"
proof (cases "js_trim s = []")
  case False
  let ?d = "dropWhile js_space s"
  have r: "dropWhile js_space (rev ?d) \<noteq> []" using False by (simp add: js_trim_def)
  have "\<not> js_space (hd (dropWhile js_space (rev ?d)))" using r hd_dropWhile by blast
  moreover have "hd (js_trim s) = hd ?d"
  proof -
    obtain p where p: "rev ?d = p @ dropWhile js_space (rev ?d)" using takeWhile_dropWhile_id by metis
    then have "?d = rev (dropWhile js_space (rev ?d)) @ rev p" by (metis rev_append rev_rev_ident)
    then have "?d = js_trim s @ rev p" unfolding js_trim_def .
    then show ?thesis using False by (metis hd_append)
  qed
  moreover have "?d \<noteq> []" using r by fastforce
  then have "\<not> js_space (hd ?d)" using hd_dropWhile by blast
  ultimately show ?thesis by (simp add: trimmed_def js_trim_def last_rev)
qed (simp add: trimmed_def)

text \<open>A link that may be written into permanent metadata: an absolute address over HTTP.\<close>

definition safe_link :: "web_platform \<Rightarrow> string \<Rightarrow> bool" where
  "safe_link wp href \<longleftrightarrow> (\<exists>raw u. newURL wp raw = Some u \<and> url_protocol u \<in> {''https:'', ''http:''} \<and> href = url_href u)"

definition upload_valid :: "web_platform \<Rightarrow> upload_input \<Rightarrow> bool" where
  "upload_valid wp i \<longleftrightarrow> is_hex64 (ui_requestId i) \<and>
    trimmed (ui_name i) \<and> 1 \<le> length (ui_name i) \<and> length (ui_name i) \<le> 32 \<and>
    trimmed (ui_symbol i) \<and> 1 \<le> length (ui_symbol i) \<and> length (ui_symbol i) \<le> 10 \<and>
    trimmed (ui_description i) \<and> length (ui_description i) \<le> 500 \<and>
    (\<exists>link. ui_links i = List.map_filter (\<lambda>k. map_option (Pair k) (link k)) METADATA_LINK_KEYS) \<and>
    list_all (\<lambda>(k, href). safe_link wp href) (ui_links i) \<and>
    1 \<le> length (ui_image i) \<and> length (ui_image i) \<le> 10000000 \<and>
    ui_imageContentType i \<in> set ACCEPTED_METADATA_IMAGE_TYPES \<and>
    hasImageSignature (ui_image i) (ui_imageContentType i)"

text \<open>The request a browser sends for such an input.\<close>

definition upload_json :: "upload_input \<Rightarrow> jsval" where
  "upload_json i = JObj [(''requestId'', JStr (ui_requestId i)), (''name'', JStr (ui_name i)), (''symbol'', JStr (ui_symbol i)),
    (''description'', JStr (ui_description i)), (''links'', JObj (map (\<lambda>(k, href). (k, JStr href)) (ui_links i))),
    (''image'', JObj [(''contentType'', JStr (ui_imageContentType i)), (''dataBase64'', JStr (base64_encode (ui_image i)))])]"

text \<open>Links that are already in the form the platform prints.\<close>

definition links_printed :: "web_platform \<Rightarrow> upload_input \<Rightarrow> bool" where
  "links_printed wp i \<longleftrightarrow> list_all (\<lambda>(k, href). href \<noteq> [] \<and> trimmed href \<and> length href \<le> 200 \<and>
    (\<exists>u. newURL wp href = Some u \<and> url_protocol u \<in> {''https:'', ''http:''} \<and> url_href u = href)) (ui_links i)"

lemma parse_link_Inr:
  "parse_link wp object key = Inr part \<Longrightarrow> part = [] \<or> (\<exists>href. part = [(key, href)] \<and> safe_link wp href)"
  by (auto simp: parse_link_def Let_def safe_link_def split: jsval.split_asm list.split_asm option.split_asm if_split_asm)

lemma parseMetadataLinks_Inr:
  assumes "parseMetadataLinks wp raw = Inr links"
  shows "(\<exists>link. links = List.map_filter (\<lambda>k. map_option (Pair k) (link k)) METADATA_LINK_KEYS) \<and>
    list_all (\<lambda>(k, href). safe_link wp href) links"
proof (cases "links = []")
  case True
  then show ?thesis by (auto intro!: exI [of _ "\<lambda>_. None"] simp: METADATA_LINK_KEYS_def map_filter_simps)
next
  case False
  then obtain object parts where p: "traverse (parse_link wp object) METADATA_LINK_KEYS = Inr parts" "links = concat parts"
    using assms by (auto simp: parseMetadataLinks_def Let_def elim!: bindR_InrE split: jsval.split_asm if_split_asm)
  then obtain a b c where abc: "parts = [a, b, c]" "parse_link wp object ''website'' = Inr a"
      "parse_link wp object ''twitter'' = Inr b" "parse_link wp object ''telegram'' = Inr c"
    by (auto simp: METADATA_LINK_KEYS_def elim!: bindR_InrE)
  let ?link = "\<lambda>k. if k = ''website'' then map_option snd (if a = [] then None else Some (hd a))
    else if k = ''twitter'' then map_option snd (if b = [] then None else Some (hd b))
    else map_option snd (if c = [] then None else Some (hd c))"
  have "links = List.map_filter (\<lambda>k. map_option (Pair k) (?link k)) METADATA_LINK_KEYS"
    using abc parse_link_Inr [OF abc(2)] parse_link_Inr [OF abc(3)] parse_link_Inr [OF abc(4)] p(2)
    by (auto simp: METADATA_LINK_KEYS_def map_filter_simps)
  moreover have "list_all (\<lambda>(k, href). safe_link wp href) links"
    using abc parse_link_Inr [OF abc(2)] parse_link_Inr [OF abc(3)] parse_link_Inr [OF abc(4)] p(2) by auto
  ultimately show ?thesis by (intro conjI exI [of _ ?link])
qed

lemma parse_image_Inr:
  "parse_image raw = Inr (bytes, t) \<Longrightarrow> 1 \<le> length bytes \<and> length bytes \<le> 10000000 \<and>
    t \<in> set ACCEPTED_METADATA_IMAGE_TYPES \<and> hasImageSignature bytes t"
  by (auto simp: parse_image_def Let_def MAX_METADATA_IMAGE_BYTES_def Suc_le_eq split: jsval.split_asm if_split_asm)

lemma parsed_upload_valid:
  assumes "parseMetadataUploadRequest wp v = Inr i"
  shows "upload_valid wp i"
proof -
  obtain object links bytes t where o: "v = JObj object" "is_hex64 (text_field object ''requestId'')"
      "parseMetadataLinks wp (field object ''links'') = Inr links" "parse_image (field object ''image'') = Inr (bytes, t)"
      "i = \<lparr>ui_requestId = text_field object ''requestId'', ui_name = js_trim (text_field object ''name''),
        ui_symbol = js_trim (text_field object ''symbol''), ui_description = js_trim (text_field object ''description''),
        ui_links = links, ui_image = bytes, ui_imageContentType = t\<rparr>"
    and lengths: "js_trim (text_field object ''name'') \<noteq> []" "length (js_trim (text_field object ''name'')) \<le> 32"
      "js_trim (text_field object ''symbol'') \<noteq> []" "length (js_trim (text_field object ''symbol'')) \<le> 10"
      "length (js_trim (text_field object ''description'')) \<le> 500"
    using assms by (auto simp: parseMetadataUploadRequest_def Let_def not_less elim!: bindR_InrE
      split: jsval.split_asm if_split_asm prod.split_asm)
  show ?thesis
    using o(2) lengths trimmed_js_trim parseMetadataLinks_Inr [OF o(3)] parse_image_Inr [OF o(4)]
    by (simp add: upload_valid_def o(5) Suc_le_eq)
qed

lemma parse_image_encoded:
  assumes "1 \<le> length bytes" "length bytes \<le> 10000000" "t \<in> set ACCEPTED_METADATA_IMAGE_TYPES" "hasImageSignature bytes t"
  shows "parse_image (JObj [(''contentType'', JStr t), (''dataBase64'', JStr (base64_encode bytes))]) = Inr (bytes, t)"
proof -
  have "js_lower t = t"
  proof -
    have "list_all (\<lambda>t. js_lower t = t) ACCEPTED_METADATA_IMAGE_TYPES" by code_simp
    then show ?thesis using assms(3) by (simp add: list_all_iff)
  qed
  moreover have "bytes \<noteq> []" using assms(1) by auto
  ultimately show ?thesis
    using assms by (simp add: parse_image_def Let_def unknown_keys_def text_field_def field_def canonical_encode
      base64_round_trip MAX_METADATA_IMAGE_BYTES_def)
qed

lemma parse_links_printed:
  assumes "links = List.map_filter (\<lambda>k. map_option (Pair k) (link k)) METADATA_LINK_KEYS"
    and "list_all (\<lambda>(k, href). href \<noteq> [] \<and> trimmed href \<and> length href \<le> 200 \<and>
      (\<exists>u. newURL wp href = Some u \<and> url_protocol u \<in> {''https:'', ''http:''} \<and> url_href u = href)) links"
  shows "parseMetadataLinks wp (JObj (map (\<lambda>(k, href). (k, JStr href)) links)) = Inr links"
proof -
  let ?object = "map (\<lambda>(k, href). (k, JStr href)) links"
  have known: "unknown_keys METADATA_LINK_KEYS ?object = []"
    by (auto simp: unknown_keys_def assms(1) METADATA_LINK_KEYS_def map_filter_simps filter_empty_conv split: option.splits)
  have one: "parse_link wp ?object k = Inr (case link k of None \<Rightarrow> [] | Some href \<Rightarrow> [(k, href)])"
    if k: "k \<in> set METADATA_LINK_KEYS" for k
  proof -
    have f: "field ?object k = (case link k of None \<Rightarrow> JUndef | Some href \<Rightarrow> JStr href)"
      using k by (auto simp: field_def assms(1) METADATA_LINK_KEYS_def map_filter_simps split: option.split)
    show ?thesis
    proof (cases "link k")
      case None
      then show ?thesis using f by (simp add: parse_link_def)
    next
      case (Some href)
      then have "(k, href) \<in> set links"
        using k by (auto simp: assms(1) List.map_filter_def intro!: image_eqI [of _ _ k])
      then obtain u where "href \<noteq> []" "trimmed href" "length href \<le> 200" "newURL wp href = Some u"
          "url_protocol u \<in> {''https:'', ''http:''}" "url_href u = href"
        using assms(2) by (auto simp: list_all_iff)
      then show ?thesis
        using f Some by (cases href) (auto simp: parse_link_def Let_def js_trim_trimmed)
    qed
  qed
  then have "traverse (parse_link wp ?object) METADATA_LINK_KEYS
      = Inr (map (\<lambda>k. case link k of None \<Rightarrow> [] | Some href \<Rightarrow> [(k, href)]) METADATA_LINK_KEYS)"
    by (simp add: METADATA_LINK_KEYS_def)
  moreover have "concat (map (\<lambda>k. case link k of None \<Rightarrow> [] | Some href \<Rightarrow> [(k, href)]) METADATA_LINK_KEYS) = links"
    by (simp add: assms(1) METADATA_LINK_KEYS_def map_filter_simps split: option.split)
  ultimately show ?thesis using known by (simp add: parseMetadataLinks_def Let_def del: map_map)
qed

lemma parse_upload_json:
  assumes i: "upload_valid wp i \<and> links_printed wp i"
  shows "parseMetadataUploadRequest wp (upload_json i) = Inr i"
proof -
  obtain link where links: "ui_links i = List.map_filter (\<lambda>k. map_option (Pair k) (link k)) METADATA_LINK_KEYS"
    using i by (auto simp: upload_valid_def)
  have l: "parseMetadataLinks wp (JObj (map (\<lambda>(k, href). (k, JStr href)) (ui_links i))) = Inr (ui_links i)"
    by (rule parse_links_printed [OF links]) (use i in \<open>simp add: links_printed_def\<close>)
  have img: "parse_image (JObj [(''contentType'', JStr (ui_imageContentType i)), (''dataBase64'', JStr (base64_encode (ui_image i)))])
      = Inr (ui_image i, ui_imageContentType i)"
    by (rule parse_image_encoded) (use i in \<open>simp_all add: upload_valid_def\<close>)
  have t: "js_trim (ui_name i) = ui_name i" "js_trim (ui_symbol i) = ui_symbol i" "js_trim (ui_description i) = ui_description i"
    using i by (simp_all add: upload_valid_def js_trim_trimmed)
  have u: "is_hex64 (ui_requestId i)" "ui_name i \<noteq> []" "length (ui_name i) \<le> 32" "ui_symbol i \<noteq> []"
      "length (ui_symbol i) \<le> 10" "length (ui_description i) \<le> 500"
    using i by (auto simp: upload_valid_def)
  show "parseMetadataUploadRequest wp (upload_json i) = Inr i"
    using l img t u by (simp add: parseMetadataUploadRequest_def upload_json_def Let_def unknown_keys_def UPLOAD_KEYS_def
      text_field_def field_def)
qed

definition example_upload :: upload_input where
  "example_upload = \<lparr>ui_requestId = replicate 64 CHR ''a'', ui_name = ''Coin'', ui_symbol = ''C'', ui_description = ''a coin'',
    ui_links = [], ui_image = [0xff, 0xd8, 0xff, 0x00], ui_imageContentType = ''image/jpeg''\<rparr>"

lemma example_upload_valid: "upload_valid wp example_upload \<and> links_printed wp example_upload"
proof -
  have "trimmed ''Coin''" "trimmed ''C''" "trimmed ''a coin''" "is_hex64 (replicate 64 CHR ''a'')"
      "hasImageSignature [0xff, 0xd8, 0xff, 0x00] ''image/jpeg''" "trimmed []"
    by code_simp+
  then show ?thesis
    by (auto simp: upload_valid_def example_upload_def ACCEPTED_METADATA_IMAGE_TYPES_def METADATA_LINK_KEYS_def
      map_filter_simps links_printed_def intro!: exI [of _ "\<lambda>_. None"])
qed



text \<open>
  The signature of WebP is compared as text of seven bits: bytes with the high bit set pass as the
  letters they are not.
\<close>

lemma masked_signature_accepted:
  "hasImageSignature [0xd2, 0xc9, 0xc6, 0xc6, 0, 0, 0, 0, 0xd7, 0xc5, 0xc2, 0xd0] ''image/webp''"
  by code_simp

end
