(* ===== verification/FetchProps.thy ===== *)
theory FetchProps
  imports FetchService UploadProps
begin

text \<open>
  What the HTTP handler of the quote service guarantees of a single request, and its Worker of the
  log and of a failed start.
\<close>

subsection \<open>Who may spend\<close>

lemma burn_routes_paid: "hd_paid (snd (burn_routes wp opts request st)) = hd_paid st"
  by (simp add: burn_routes_def handleOperation_def op_started_def op_settled_def Let_def
      split: option.split sum.split)

lemma handleMetadataUpload_paid:
  assumes "hd_paid (snd (handleMetadataUpload wp opts now request st)) \<noteq> hd_paid st"
  obtains input body token where "upload_admit opts request st = None" "upload_read wp opts request = Inr (input, body)"
    "\<not> upload_busy opts st" "fst (upload_permit wp opts now request input body st) = Inr token"
    "hd_paid (snd (handleMetadataUpload wp opts now request st)) = hd_paid st @ [input]"
proof (cases "upload_admit opts request st")
  case (Some response)
  then show ?thesis using assms by (simp add: handleMetadataUpload_def)
next
  case admitted: None
  show ?thesis
  proof (cases "upload_read wp opts request")
    case (Inl response)
    then show ?thesis using assms admitted by (simp add: handleMetadataUpload_def)
  next
    case (Inr read)
    obtain input body where read: "upload_read wp opts request = Inr (input, body)" using Inr by (cases read) simp
    obtain permit st1 where permit: "upload_permit wp opts now request input body st = (permit, st1)" by (rule prod.exhaust)
    show ?thesis
    proof (cases permit)
      case (Inl response)
      then show ?thesis
        using assms admitted read permit permit_fields [OF permit] by (simp add: handleMetadataUpload_def split: if_splits)
    next
      case (Inr token)
      have free: "\<not> upload_busy opts st"
        using assms admitted read by (auto simp: handleMetadataUpload_def)
      obtain settled st2 where "upload_execution opts token input (snd (the (fo_metadataUpload opts) input))
          (upload_started input st1) = (settled, st2)" by (rule prod.exhaust)
      then have "hd_paid (snd (handleMetadataUpload wp opts now request st)) = hd_paid st @ [input]"
        using admitted read permit Inr free permit_fields [OF permit] execution_fields [of opts token input _ _ settled st2]
        by (simp add: handleMetadataUpload_def upload_settle_def upload_started_def)
      then show ?thesis using that admitted read free permit Inr by simp
    qed
  qed
qed

lemma routed_paid:
  assumes "hd_paid (snd (routed wp opts net now request st)) \<noteq> hd_paid st"
  shows "url_pathname (hq_url request) \<in> {''/metadata/upload'', ''/metadata/finalize''} \<and> hq_method request = ''POST'' \<and>
    routed wp opts net now request st = handleMetadataUpload wp opts now request st"
proof -
  have tokens: "hd_paid (snd answer) = hd_paid st" if "token_routes wp net request st = Some answer" for answer
    using token_routes_fields [of wp net request st "fst answer" "snd answer"] that by simp
  show ?thesis
  proof (cases "hq_method request = ''GET''")
    case True
    then show ?thesis
      using assms tokens burn_routes_paid [of wp opts request st]
      by (simp add: routed_def Let_def split: option.split_asm if_split_asm)
  next
    case False
    then show ?thesis
      using assms burn_routes_paid [of wp opts request st] by (simp add: routed_def Let_def split: if_split_asm)
  qed
qed

text \<open>
  C28: The service pays for an upload only when every check has passed: a POST of an upload route from
  an origin that is configured, under both caps, whose body is within its cap and parses to exactly
  the input that is paid for, and for which the gate, or the limit kept in memory, has granted it; at
  most one upload is paid for per request.
\<close>

theorem uploads_authorised:
  assumes "fetch_handler wp opts net now request st = (response, st')" "hd_paid st' \<noteq> hd_paid st"
  shows "hq_method request = ''POST'' \<and> url_pathname (hq_url request) \<in> {''/metadata/upload'', ''/metadata/finalize''} \<and>
    (\<exists>origin. header request ''origin'' = Some origin \<and> origin \<in> set (or_default [] (fo_allowedOrigins opts)) - {[], ''*''}) \<and>
    hd_inflight st < maxInflightBurns opts \<and> hd_uploads st < maxInflightMetadataUploads opts \<and>
    (\<exists>body input token. readBodyWithCap request (metadataUploadMaxRequestBytes opts) = Some body \<and>
      parseMetadataUploadRequest wp (decodeJson wp body) = Inr input \<and>
      fst (upload_permit wp opts now request input body st) = Inr token \<and> hd_paid st' = hd_paid st @ [input])"
proof -
  have options: "hq_method request \<noteq> ''OPTIONS''" and st': "st' = snd (routed wp opts net now request st)"
    using assms by (auto simp: fetch_handler_def Let_def case_prod_beta split: if_splits)
  note route = routed_paid [OF assms(2) [unfolded st']]
  then have "hd_paid (snd (handleMetadataUpload wp opts now request st)) \<noteq> hd_paid st"
    using assms(2) st' by simp
  then obtain input body token where paid: "upload_admit opts request st = None"
      "upload_read wp opts request = Inr (input, body)" "\<not> upload_busy opts st"
      "fst (upload_permit wp opts now request input body st) = Inr token" "hd_paid st' = hd_paid st @ [input]"
    using handleMetadataUpload_paid route st' by metis
  have origin: "\<exists>origin. header request ''origin'' = Some origin \<and>
      origin \<in> set (or_default [] (fo_allowedOrigins opts)) - {[], ''*''}"
    using paid(1) by (auto simp: upload_admit_def uploadOriginAllowed_def split: if_splits option.splits list.splits)
  have body: "readBodyWithCap request (metadataUploadMaxRequestBytes opts) = Some body"
      "parseMetadataUploadRequest wp (decodeJson wp body) = Inr input"
    using paid(2) by (auto simp: upload_read_def Let_def split: option.splits if_splits sum.splits)
  show ?thesis
    using route origin body paid(3-5) by (auto simp: upload_busy_def not_le)
qed

definition upload_platform :: web_platform where
  "upload_platform = service_platform\<lparr>parseJSON := (\<lambda>_. Some (upload_json example_upload))\<rparr>"

lemma upload_example:
  "hd_paid (snd (fetch_handler upload_platform (service_options 1000 2000) net 1000 service_request (fresh_handler 0 empty_gate)))
    = [example_upload]"
proof -
  let ?st = "fresh_handler 0 empty_gate" and ?opts = "service_options 1000 2000"
  have read: "upload_read upload_platform ?opts service_request = Inr (example_upload, [1])"
    using parse_upload_json [OF example_upload_valid, of upload_platform]
    by (simp add: upload_read_def readBodyWithCap_def declared_too_large_def header_def service_request_def
      metadataUploadMaxRequestBytes_def service_options_def or_default_def decodeJson_def upload_platform_def upload_json_def)
  have "json_type ''application/json''" by code_simp
  then have admit: "upload_admit ?opts service_request ?st = None" "\<not> upload_busy ?opts ?st"
    by (simp_all add: upload_admit_def uploadOriginAllowed_def header_def service_request_def service_options_def or_default_def
      upload_busy_def maxInflightBurns_def maxInflightMetadataUploads_def fresh_handler_def content_type_def)
  have permit: "fst (upload_permit upload_platform ?opts 1000 service_request example_upload [1] ?st) = Inr (Some (example_token CHR ''1''))"
    by code_simp
  have "hd_paid (snd (handleMetadataUpload upload_platform ?opts 1000 service_request ?st)) = [example_upload]"
    using admit read permit permit_fields [of upload_platform ?opts 1000 service_request example_upload "[1]" ?st]
      execution_fields [of ?opts "Some (example_token CHR ''1'')" example_upload]
    by (cases "upload_permit upload_platform ?opts 1000 service_request example_upload [1] ?st")
      (simp add: handleMetadataUpload_def upload_settle_def case_prod_beta execution_state upload_started_def fresh_handler_def
        split: option.split)
  then show ?thesis
    by (simp add: fetch_handler_def routed_def service_request_def Let_def case_prod_beta)
qed

lemma uploads_authorised_witness:
  "\<forall>net. \<exists>body input token. readBodyWithCap service_request (metadataUploadMaxRequestBytes (service_options 1000 2000)) = Some body \<and>
    parseMetadataUploadRequest upload_platform (decodeJson upload_platform body) = Inr input \<and>
    fst (upload_permit upload_platform (service_options 1000 2000) 1000 service_request input body (fresh_handler 0 empty_gate))
      = Inr token"
proof
  fix net :: token_net
  have "hd_paid (snd (fetch_handler upload_platform (service_options 1000 2000) net 1000 service_request (fresh_handler 0 empty_gate)))
      \<noteq> hd_paid (fresh_handler 0 empty_gate)"
    unfolding upload_example by (simp add: fresh_handler_def)
  from uploads_authorised [OF surjective_pairing this] show "\<exists>body input token.
    readBodyWithCap service_request (metadataUploadMaxRequestBytes (service_options 1000 2000)) = Some body \<and>
    parseMetadataUploadRequest upload_platform (decodeJson upload_platform body) = Inr input \<and>
    fst (upload_permit upload_platform (service_options 1000 2000) 1000 service_request input body (fresh_handler 0 empty_gate))
      = Inr token"
    by blast
qed

subsection \<open>The log\<close>

text \<open>Every suffix of a replaced text is a replaced suffix, or starts inside a mark.\<close>

lemma suffix_replace_all:
  "suffix t (replace_all q s) \<Longrightarrow>
    (\<exists>s'. suffix s' s \<and> t = replace_all q s') \<or> (\<exists>u v. u \<noteq> [] \<and> suffix u REDACTED \<and> t = u @ v)"
proof (induction q s arbitrary: t rule: replace_all.induct)
  case (1 pattern)
  then show ?case by (auto intro: exI [of _ "[]"])
next
  case (2 pattern c cs)
  let ?rest = "drop (length pattern) (c # cs)"
  show ?case
  proof (cases "pattern \<noteq> [] \<and> starts_with pattern (c # cs)")
    case True
    then have "suffix t (REDACTED @ replace_all pattern ?rest)" using "2.prems" by simp
    then consider (inside) u where "suffix u REDACTED" "t = u @ replace_all pattern ?rest" "u \<noteq> []"
      | (after) "suffix t (replace_all pattern ?rest)"
      by (metis append_Nil same_suffix_suffix suffix_append suffix_order.refl)
    then show ?thesis
    proof cases
      case inside
      then show ?thesis by blast
    next
      case after
      have "suffix s' ?rest \<Longrightarrow> suffix s' (c # cs)" for s'
        using suffix_drop suffix_order.trans by blast
      then show ?thesis using "2.IH"(1) [OF True after] by blast
    qed
  next
    case False
    then consider "t = replace_all pattern (c # cs)" | "suffix t (replace_all pattern cs)"
      using "2.prems" by (auto simp: suffix_Cons)
    then show ?thesis
    proof cases
      case 1
      then show ?thesis by blast
    next
      case 2
      then show ?thesis using "2.IH"(2) [OF False] by (meson suffix_ConsI)
    qed
  qed
qed

lemma prefix_replace_all: "prefix p (replace_all q s) \<Longrightarrow> CHR ''['' \<notin> set p \<Longrightarrow> prefix p s"
proof (induction q s arbitrary: p rule: replace_all.induct)
  case (2 pattern c cs)
  show ?case
  proof (cases "pattern \<noteq> [] \<and> starts_with pattern (c # cs)")
    case True
    then show ?thesis using "2.prems" by (cases p) (auto simp: REDACTED_def)
  next
    case False
    then show ?thesis using "2.prems" "2.IH"(2) by (cases p) auto
  qed
qed simp

lemma inside_mark:
  assumes "suffix u REDACTED" "u \<noteq> []" "prefix p (u @ v)" "p \<noteq> []" "CHR ''['' \<notin> set p" "CHR '']'' \<notin> set p"
  shows "sublist p ''redacted''"
proof -
  have "last u = CHR '']''"
    using assms(1,2) by (auto simp: suffix_def REDACTED_def dest!: arg_cong [of _ _ last])
  then obtain w where w: "u = w @ '']''" using assms(2) by (metis append_butlast_last_id)
  have p: "prefix p w"
  proof (rule ccontr)
    assume "\<not> prefix p w"
    then have "prefix (w @ '']'') p"
      using assms(3) w by (auto simp: prefix_append prefix_Cons)
    then show False using assms(6) by (auto dest: set_mono_prefix)
  qed
  have "suffix w ''[redacted''"
    using assms(1) same_suffix_suffix [of w "'']''" "''[redacted''"] w by (simp add: REDACTED_def)
  then consider "w = ''[redacted''" | "suffix w ''redacted''"
    using suffix_Cons [of w "CHR ''[''" "''redacted''"] by blast
  then show ?thesis
  proof cases
    case 1
    then show ?thesis using p assms(4,5) by (cases p) auto
  next
    case 2
    then show ?thesis using p unfolding sublist_altdef' by blast
  qed
qed

definition redactable :: "string \<Rightarrow> bool" where
  "redactable p \<longleftrightarrow> p \<noteq> [] \<and> CHR ''['' \<notin> set p \<and> CHR '']'' \<notin> set p \<and> \<not> sublist p ''redacted''"

lemma replaced_prefix:
  assumes "redactable p" "sublist p (replace_all q s)"
  obtains s' where "suffix s' s" "prefix p (replace_all q s')"
proof -
  obtain t where t: "suffix t (replace_all q s)" "prefix p t"
    using assms(2) by (auto simp: sublist_altdef')
  from suffix_replace_all [OF t(1)] show ?thesis
    using t(2) that inside_mark [of _ p] assms(1) by (auto simp: redactable_def)
qed

lemma replace_all_removes: "redactable p \<Longrightarrow> \<not> sublist p (replace_all p s)"
proof
  assume p: "redactable p" "sublist p (replace_all p s)"
  then obtain s' where s': "prefix p (replace_all p s')" by (rule replaced_prefix)
  show False
  proof (cases s')
    case (Cons c cs)
    show ?thesis
    proof (cases "starts_with p (c # cs)")
      case True
      then show ?thesis using s' p(1) Cons by (cases p) (auto simp: redactable_def REDACTED_def)
    next
      case False
      moreover have "prefix p (c # cs)" using prefix_replace_all [OF s'] p(1) Cons by (simp add: redactable_def)
      ultimately show ?thesis by (auto simp: starts_with_def prefix_def)
    qed
  qed (use s' p(1) in \<open>simp add: redactable_def\<close>)
qed

lemma replace_all_keeps: "redactable p \<Longrightarrow> sublist p (replace_all q s) \<Longrightarrow> sublist p s"
proof -
  assume p: "redactable p" "sublist p (replace_all q s)"
  then obtain s' where s': "suffix s' s" "prefix p (replace_all q s')" by (rule replaced_prefix)
  have "prefix p s'" by (rule prefix_replace_all [OF s'(2)]) (use p(1) in \<open>simp_all add: redactable_def\<close>)
  then show "sublist p s" using s'(1) unfolding sublist_altdef' by blast
qed

lemma redact_text_clean: "p \<in> set patterns \<Longrightarrow> redactable p \<Longrightarrow> \<not> sublist p (redact_text patterns s)"
proof (induction patterns arbitrary: s)
  case (Cons q patterns)
  have kept: "\<not> sublist p (redact_text patterns s')" if "\<not> sublist p s'" for s'
    using that
  proof (induction patterns arbitrary: s')
    case (Cons r patterns)
    then show ?case using replace_all_keeps [OF \<open>redactable p\<close>, of r s'] by (auto simp: redact_text_def)
  qed (simp add: redact_text_def)
  show ?case
    using Cons kept [of "replace_all q s"] replace_all_removes [of p s] by (cases "p = q") (auto simp: redact_text_def)
qed simp

fun texts :: "jsval \<Rightarrow> string set" where
  "texts (JStr s) = {s}"
| "texts (JArr vs) = \<Union> (set (map texts vs))"
| "texts (JObj kvs) = \<Union> (set (map (\<lambda>kv. texts (snd kv)) kvs))"
| "texts _ = {}"

lemma texts_redacted: "s \<in> texts (redact_value patterns v) \<Longrightarrow> \<exists>s'. s = redact_text patterns s'"
  by (induction patterns v rule: redact_value.induct) fastforce+


definition log_platform :: web_platform where
  "log_platform = service_platform\<lparr>newURL := (\<lambda>s. Some \<lparr>url_href = s, url_origin = ''https://rpc'',
      url_protocol = ''https:'', url_username = [], url_password = [], url_host = ''rpc'', url_hostname = ''rpc'',
      url_pathname = ''/v1/4f9a81c2'', url_search = [], url_hash = [], url_params = []\<rparr>),
    stringifyJSON := (\<lambda>v. case v of JStr s \<Rightarrow> s | _ \<Rightarrow> [])\<rparr>"

definition log_env :: worker_env where
  "log_env = \<lparr>we_BURNER_RPC_URL = Some ''https://rpc/v1/4f9a81c2'', we_BURNER_ALLOWED_ORIGINS = None,
    we_IRYS_PRIVATE_KEY = None, we_JUPITER_PRIVATE_KEY = None, we_CLOUDFLARE_IMAGE_WORKER_URL = None,
    we_CLOUDFLARE_IMAGE_WORKER_TOKEN = None, we_IMAGE_PIPELINE = False, we_METADATA_UPLOAD_GATE = False\<rparr>"

lemma log_part: "''4f9a81c2'' \<in> set (secret_parts log_platform (we_BURNER_RPC_URL log_env)) \<and> redactable ''4f9a81c2''"
  by code_simp


subsection \<open>A failed start\<close>

fun quote_serve ::
  "web_platform \<Rightarrow> (token_net \<times> initialized res \<times> int \<times> string \<times> int \<times> http_request) list \<Rightarrow>
    initialized res option \<times> upload_gate handler_state \<Rightarrow> http_response list" where
  "quote_serve wp [] state = []"
| "quote_serve wp ((net, attempt, now, uuid, later, request) # requests) state =
    (case quote_fetch wp net attempt now uuid later request state of
       (response, state') \<Rightarrow> response # quote_serve wp requests state')"

text \<open>
  The Worker keeps the promise of its initialisation also when it is rejected: after one failure, of
  whatever cause, every later request is answered with 503, however the environment has recovered.
\<close>

theorem failed_start_kept:
  "set (quote_serve wp requests (Some (Inl e), st)) \<subseteq> {service_unavailable}"
proof (induction requests)
  case (Cons r requests)
  then show ?case by (cases r) (simp add: quote_fetch_def or_default_def)
qed simp

lemma failed_start:
  "quote_serve wp ((net, Inl e, now, uuid, later, request) # requests) (None, st)
    = service_unavailable # quote_serve wp requests (Some (Inl e), st)"
  by (simp add: quote_fetch_def or_default_def)

end
