(* ===== verification/MetadataPipeline.thy ===== *)
theory MetadataPipeline
  imports QuoteWorker
begin

text \<open>
  The paid metadata pipeline of \<open>quote-service/server.ts\<close>: the img compressor behind Cloudflare,
  the reading of Irys receipts, the executor that writes the img and the metadata, and their
  construction from the environment. The img Worker (\<open>img_fetch\<close>) and the Irys client (record
  \<open>irys\<close>) are parameters; what was written to Irys is returned with the result.
\<close>

subsection \<open>The compressor\<close>

definition MAX_COMPRESSED_METADATA_IMAGE_BYTES :: nat where
  "MAX_COMPRESSED_METADATA_IMAGE_BYTES = 200000"

definition MAX_METADATA_JSON_BYTES :: nat where
  "MAX_METADATA_JSON_BYTES = 8192"

definition local_http :: "url_parts \<Rightarrow> bool" where
  "local_http url \<longleftrightarrow> url_protocol url = ''http:'' \<and> url_hostname url \<in> set [''127.0.0.1'', ''localhost'']"

definition cloudflareWorkerOrigin :: "web_platform \<Rightarrow> string \<Rightarrow> string res" where
  "cloudflareWorkerOrigin wp raw = (case newURL wp raw of
     None \<Rightarrow> Inl (PlainError ''CLOUDFLARE_IMAGE_WORKER_URL must be a valid URL origin'')
   | Some url \<Rightarrow>
       if url_protocol url \<noteq> ''https:'' \<and> \<not> local_http url \<or> url_origin url \<noteq> drop_slash raw \<or> url_username url \<noteq> [] \<or>
         url_password url \<noteq> [] \<or> url_search url \<noteq> [] \<or> url_hash url \<noteq> []
       then Inl (PlainError ''CLOUDFLARE_IMAGE_WORKER_URL must be an HTTPS origin without credentials or a path'')
       else Inr (url_origin url))"

text \<open>An answer of the image Worker; its body may break off after the chunks that arrived.\<close>

record compress_answer =
  ca_status :: int
  ca_type :: "string option"
  ca_body :: "byte list list option"
  ca_broken :: bool

type_synonym img_fetch = "string \<Rightarrow> string \<Rightarrow> string \<Rightarrow> byte list \<Rightarrow> compress_answer option"

definition compression_unavailable :: upload_error where
  "compression_unavailable = UploadError ''IMAGE_COMPRESSION_FAILED'' ''Cloudflare image compression is unavailable'' 502"

definition readFetchBodyWithCap :: "compress_answer \<Rightarrow> nat \<Rightarrow> upload_error + byte list" where
  "readFetchBodyWithCap response maxBytes = (case ca_body response of
     None \<Rightarrow> Inr []
   | Some parts \<Rightarrow> (case read_chunks maxBytes 0 parts of
       None \<Rightarrow> Inl (UploadError ''IMAGE_COMPRESSION_FAILED'' ''Cloudflare returned an oversized compressed image'' 502)
     | Some arrived \<Rightarrow> if ca_broken response then Inl compression_unavailable else Inr (concat arrived)))"

text \<open>\<open>/^image\/webp\b/i\<close>\<close>

definition webp_type :: "string \<Rightarrow> bool" where
  "webp_type s \<longleftrightarrow> js_lower (take 10 s) = ''image/webp'' \<and> (case drop 10 s of [] \<Rightarrow> True | c # _ \<Rightarrow> \<not> word_char c)"

record compressor =
  co_origin :: string
  co_token :: string

definition createCloudflareImageCompressor :: "web_platform \<Rightarrow> string \<Rightarrow> string \<Rightarrow> compressor res" where
  "createCloudflareImageCompressor wp workerUrl bearerToken = bindR (cloudflareWorkerOrigin wp workerUrl) (\<lambda>origin.
     if length bearerToken < 32
     then Inl (PlainError ''CLOUDFLARE_IMAGE_WORKER_TOKEN must contain at least 32 characters'')
     else Inr \<lparr>co_origin = origin, co_token = bearerToken\<rparr>)"

definition compress :: "img_fetch \<Rightarrow> compressor \<Rightarrow> byte list \<Rightarrow> string \<Rightarrow> upload_error + byte list" where
  "compress fetch c img contentType =
    (case fetch (co_origin c @ ''/compress'') (co_token c) contentType img of
       None \<Rightarrow> Inl compression_unavailable
     | Some response \<Rightarrow>
         if 300 \<le> ca_status response \<and> ca_status response < 400 then Inl compression_unavailable
         else if \<not> (200 \<le> ca_status response \<and> ca_status response \<le> 299)
         then Inl (if ca_status response \<in> set [400, 413, 415, 422]
           then UploadError ''INVALID_IMAGE'' ''image could not be decoded and compressed'' 415 else compression_unavailable)
         else if \<not> webp_type (or_default [] (ca_type response))
         then Inl (UploadError ''IMAGE_COMPRESSION_FAILED'' ''Cloudflare returned an invalid compressed image type'' 502)
         else bindR (readFetchBodyWithCap response MAX_COMPRESSED_METADATA_IMAGE_BYTES) (\<lambda>compressed.
           if compressed = [] \<or> \<not> hasImageSignature compressed ''image/webp''
           then Inl (UploadError ''IMAGE_COMPRESSION_FAILED'' ''Cloudflare returned invalid compressed image bytes'' 502)
           else Inr compressed))"

subsection \<open>Errors of the Irys client\<close>

text \<open>What was thrown: its \<open>status\<close>, that of its \<open>response\<close>, and its message (or its text).\<close>

record irys_error =
  ie_status :: jsval
  ie_response_status :: jsval
  ie_text :: string

datatype thrown = Typed upload_error | Foreign irys_error | ParseFailure

fun js_includes :: "string \<Rightarrow> string \<Rightarrow> bool" where
  "js_includes part [] = (part = [])"
| "js_includes part (c # cs) = (starts_with part (c # cs) \<or> js_includes part cs)"

definition isIrysInsufficientFunds :: "irys_error \<Rightarrow> bool" where
  "isIrysInsufficientFunds e \<longleftrightarrow>
    js_Number (if ie_status e = JUndef \<or> ie_status e = JNull then ie_response_status e else ie_status e) = Some 402 \<or>
    js_includes ''not enough balance'' (js_lower (ie_text e)) \<or> js_includes ''insufficient balance'' (js_lower (ie_text e)) \<or>
    js_includes ''insufficient funds'' (js_lower (ie_text e))"

definition insufficient_funds :: upload_error where
  "insufficient_funds = UploadError ''IRYS_INSUFFICIENT_FUNDS''
    ''metadata upload is unavailable because the service's Irys balance is insufficient'' 503"

definition upload_failure :: "thrown \<Rightarrow> upload_error" where
  "upload_failure t = (case t of
     Typed e \<Rightarrow> e
   | Foreign e \<Rightarrow> if isIrysInsufficientFunds e then insufficient_funds
       else UploadError ''IRYS_UPLOAD_FAILED'' ''Irys metadata upload failed'' 502
   | ParseFailure \<Rightarrow> UploadError ''IRYS_UPLOAD_FAILED'' ''Irys metadata upload failed'' 502)"

subsection \<open>Receipts\<close>

definition irysInteger :: "string \<Rightarrow> thrown + int" where
  "irysInteger raw = (if raw = [] \<or> \<not> list_all is_digit raw
     then Inl (Typed (UploadError ''IRYS_UPLOAD_FAILED'' ''Irys returned an invalid balance or price'' 502))
     else Inr (foldl (\<lambda>acc c. 10 * acc + digit_value c) 0 raw))"

definition base64url_char :: "char \<Rightarrow> bool" where
  "base64url_char c \<longleftrightarrow> in_range CHR ''A'' CHR ''Z'' c \<or> in_range CHR ''a'' CHR ''z'' c \<or> is_digit c \<or> c = CHR ''_'' \<or> c = CHR ''-''"

text \<open>\<open>/^[A-Za-z0-9_-]{43}=?$/\<close>\<close>

definition base64url_id :: "string \<Rightarrow> bool" where
  "base64url_id s \<longleftrightarrow> list_all base64url_char (take 43 s) \<and> (length s = 43 \<or> length s = 44 \<and> last s = CHR ''='')"

text \<open>The id in a value: a base58 key spelled as the library spells it, or 32 bytes in base64url.\<close>

definition normalizeIrysId :: "web3 \<Rightarrow> jsval \<Rightarrow> string option" where
  "normalizeIrysId w v = (case v of
     JStr s \<Rightarrow>
       if list_all base58_char s \<and> (length s = 43 \<or> length s = 44) \<and> map_option toBase58 (parsePubkey w s) = Some s then Some s
       else if \<not> base64url_id s then None
       else if length (base64_decode s) = 32 then Some (if last s = CHR ''='' then butlast s else s) else None
   | _ \<Rightarrow> None)"

fun irys_id :: "web_platform \<Rightarrow> web3 \<Rightarrow> nat \<Rightarrow> jsval \<Rightarrow> string option" where
  "irys_id wp w 0 v = None"
| "irys_id wp w (Suc depth) v = (case v of
     JStr s \<Rightarrow> (case normalizeIrysId w (JStr (js_trim s)) of
         Some i \<Rightarrow> Some i
       | None \<Rightarrow> (case parseJSON wp (js_trim s) of None \<Rightarrow> None | Some v' \<Rightarrow> irys_id wp w depth v'))
   | JObj object \<Rightarrow> (case normalizeIrysId w (field object ''id'') of
         Some i \<Rightarrow> Some i
       | None \<Rightarrow> if ''data'' \<in> fst ` set object then irys_id wp w depth (field object ''data'') else None)
   | _ \<Rightarrow> None)"

definition gateway_uri :: "string \<Rightarrow> string" where
  "gateway_uri i = ''https://gateway.irys.xyz/'' @ i"

definition irysUri :: "web_platform \<Rightarrow> web3 \<Rightarrow> jsval \<Rightarrow> thrown + string" where
  "irysUri wp w receipt = (case irys_id wp w 3 receipt of
     Some i \<Rightarrow> Inr (gateway_uri i)
   | None \<Rightarrow> Inl (Typed (UploadError ''IRYS_UPLOAD_FAILED'' ''Irys returned an invalid upload receipt'' 502)))"

definition delivery_path :: "string \<Rightarrow> bool" where
  "delivery_path p \<longleftrightarrow> (case p of c # i \<Rightarrow> c = CHR ''/'' \<and>
     (length i = 43 \<and> list_all base64url_char i \<or> length i = 44 \<and> list_all base58_char i) | [] \<Rightarrow> False)"

definition deliveryUri :: "web_platform \<Rightarrow> compressor \<Rightarrow> string \<Rightarrow> thrown + string" where
  "deliveryUri wp c permanentImageUri = (case newURL wp permanentImageUri of
     None \<Rightarrow> Inl ParseFailure
   | Some permanent \<Rightarrow>
       if url_origin permanent \<noteq> ''https://gateway.irys.xyz'' \<or> url_search permanent \<noteq> [] \<or> url_hash permanent \<noteq> [] \<or>
         \<not> delivery_path (url_pathname permanent)
       then Inl (Typed (UploadError ''IRYS_UPLOAD_FAILED'' ''Irys returned an invalid image URI'' 502))
       else Inr (co_origin c @ ''/irys'' @ url_pathname permanent))"

subsection \<open>The paid executor\<close>

record irys =
  ir_balance :: "irys_error + string"
  ir_price :: "nat \<Rightarrow> irys_error + string"
  ir_upload :: "nat \<Rightarrow> byte list \<Rightarrow> string \<Rightarrow> irys_error + jsval"

text \<open>\<open>metadataFor\<close>: a JSON object in UTF-8; links follow the fixed fields.\<close>

definition metadata_json :: "upload_input \<Rightarrow> string \<Rightarrow> jsval" where
  "metadata_json input img = JObj ([(''name'', JStr (ui_name input)), (''symbol'', JStr (ui_symbol input)),
    (''description'', JStr (ui_description input)), (''image'', JStr img)] @
    map (\<lambda>(k, href). (k, JStr href)) (ui_links input))"

definition metadataFor :: "web_platform \<Rightarrow> upload_input \<Rightarrow> string \<Rightarrow> byte list" where
  "metadataFor wp input img = encodeText wp (stringifyJSON wp (metadata_json input img))"

definition placeholderImageUri :: string where
  "placeholderImageUri = gateway_uri (replicate 43 CHR ''x'')"

definition foreign :: "irys_error + 'a \<Rightarrow> thrown + 'a" where
  "foreign a = (case a of Inl e \<Rightarrow> Inl (Foreign e) | Inr v \<Rightarrow> Inr v)"

text \<open>All three answers are awaited before any of them is read.\<close>

definition preflight :: "irys \<Rightarrow> nat \<Rightarrow> nat \<Rightarrow> thrown + unit" where
  "preflight irys imageBytes metadataBytes =
    bindR (foreign (ir_balance irys)) (\<lambda>balanceValue.
    bindR (foreign (ir_price irys imageBytes)) (\<lambda>imagePriceValue.
    bindR (foreign (ir_price irys metadataBytes)) (\<lambda>metadataPriceValue.
    bindR (irysInteger balanceValue) (\<lambda>balance.
    bindR (irysInteger imagePriceValue) (\<lambda>imagePrice.
    bindR (irysInteger metadataPriceValue) (\<lambda>metadataPrice.
    if balance < imagePrice + metadataPrice then Inl (Typed insufficient_funds) else Inr ()))))))"

definition paid_write :: "web_platform \<Rightarrow> web3 \<Rightarrow> irys \<Rightarrow> nat \<Rightarrow> byte list \<Rightarrow> string \<Rightarrow> thrown + string" where
  "paid_write wp w irys n data contentType =
    bindR (foreign (ir_upload irys n data contentType)) (irysUri wp w)"

type_synonym writes = "(byte list \<times> string) list"

definition paid_writes ::
  "web_platform \<Rightarrow> web3 \<Rightarrow> irys \<Rightarrow> compressor \<Rightarrow> upload_input \<Rightarrow> byte list \<Rightarrow> (thrown + upload_result) \<times> writes" where
  "paid_writes wp w irys c input img = (case paid_write wp w irys 0 img ''image/webp'' of
     Inl t \<Rightarrow> (Inl t, [(img, ''image/webp'')])
   | Inr imageUri \<Rightarrow> (case deliveryUri wp c imageUri of
       Inl t \<Rightarrow> (Inl t, [(img, ''image/webp'')])
     | Inr deliveryImageUri \<Rightarrow> (let metadata = metadataFor wp input imageUri in
         (bindR (paid_write wp w irys 1 metadata ''application/json'') (\<lambda>uri.
            Inr \<lparr>ur_uri = uri, ur_imageUri = imageUri, ur_deliveryImageUri = deliveryImageUri,
              ur_originalImageBytes = length (ui_image input), ur_imageBytes = length img\<rparr>),
          [(img, ''image/webp''), (metadata, ''application/json'')]))))"

definition irysMetadataUpload ::
  "web_platform \<Rightarrow> web3 \<Rightarrow> img_fetch \<Rightarrow> irys \<Rightarrow> compressor \<Rightarrow> upload_input \<Rightarrow> (upload_error + upload_result) \<times> writes" where
  "irysMetadataUpload wp w fetch irys c input = (case compress fetch c (ui_image input) (ui_imageContentType input) of
     Inl e \<Rightarrow> (Inl e, [])
   | Inr img \<Rightarrow> (let estimated = metadataFor wp input placeholderImageUri in
       if length estimated > MAX_METADATA_JSON_BYTES
       then (Inl (UploadError ''UPLOAD_TOO_LARGE'' ''metadata JSON exceeds 8192 bytes'' 413), [])
       else (case preflight irys (length img) (length estimated) of
           Inl t \<Rightarrow> (Inl (upload_failure t), [])
         | Inr u \<Rightarrow> (case paid_writes wp w irys c input img of
             (Inl t, written) \<Rightarrow> (Inl (upload_failure t), written)
           | (Inr result, written) \<Rightarrow> (Inr result, written)))))"

definition metadataImagePrepare :: "img_fetch \<Rightarrow> compressor \<Rightarrow> byte list \<times> string \<Rightarrow> upload_error + json_object" where
  "metadataImagePrepare fetch c input = (case input of (img, contentType) \<Rightarrow>
     bindR (compress fetch c img contentType) (\<lambda>compressed.
       Inr [(''imageBase64'', JStr (base64_encode compressed)), (''imageContentType'', JStr ''image/webp''),
         (''originalImageBytes'', JInt (int (length img))), (''imageBytes'', JInt (int (length compressed)))]))"

subsection \<open>From the environment\<close>

datatype wallet = WalletText string | WalletBytes "byte list"

definition wallet_byte :: "jsval \<Rightarrow> int option" where
  "wallet_byte v = (case v of JInt n \<Rightarrow> if 0 \<le> n \<and> n \<le> 255 then Some n else None | _ \<Rightarrow> None)"

definition irysWalletFromEnvironment :: "web_platform \<Rightarrow> string \<Rightarrow> wallet res" where
  "irysWalletFromEnvironment wp raw =
    (if \<not> starts_with ''['' (js_trim raw) then Inr (WalletText (js_trim raw))
     else (case parseJSON wp raw of
         Some (JArr vs) \<Rightarrow>
           if length vs = 64 \<and> list_all (\<lambda>v. wallet_byte v \<noteq> None) vs
           then Inr (WalletBytes (map (\<lambda>v. word_of_int (the (wallet_byte v))) vs))
           else Inl (PlainError ''IRYS_PRIVATE_KEY must be a base58 Solana secret key or a 64-byte JSON array'')
       | _ \<Rightarrow> Inl (PlainError ''IRYS_PRIVATE_KEY must be a base58 Solana secret key or a 64-byte JSON array'')))"

text \<open>
  \<open>createIrys\<close> is the import and start of the SDK with its first balance: None when any of it throws.
\<close>

type_synonym irys_start = "wallet \<Rightarrow> string option \<Rightarrow> irys option"

definition metadataUploadFromEnvironment ::
  "web_platform \<Rightarrow> irys_start \<Rightarrow> worker_env \<Rightarrow> string list \<Rightarrow> (irys \<times> compressor) option res" where
  "metadataUploadFromEnvironment wp createIrys env origins =
    (case (or_default [] (we_IRYS_PRIVATE_KEY env), or_default [] (we_CLOUDFLARE_IMAGE_WORKER_URL env),
        or_default [] (we_CLOUDFLARE_IMAGE_WORKER_TOKEN env)) of
      (secret, url, token) \<Rightarrow>
        if secret = [] \<or> url = [] \<or> token = [] then Inr None
        else if origins = [] \<or> ''*'' \<in> set origins
        then Inl (PlainError ''BURNER_ALLOWED_ORIGINS must contain explicit origins when IRYS_PRIVATE_KEY is configured'')
        else bindR (createCloudflareImageCompressor wp url token) (\<lambda>c.
          bindR (irysWalletFromEnvironment wp secret) (\<lambda>wallet.
          case createIrys wallet (we_BURNER_RPC_URL env) of
            None \<Rightarrow> Inl (PlainError ''Irys metadata upload failed to initialize'')
          | Some irys \<Rightarrow> Inr (Some (irys, c)))))"

text \<open>The pair the handler gets; whether the deadline comes first is not the pipeline's to say.\<close>

definition metadataPipelineFromEnvironment ::
  "web_platform \<Rightarrow> web3 \<Rightarrow> img_fetch \<Rightarrow> irys_start \<Rightarrow> (upload_input \<Rightarrow> bool) \<Rightarrow> worker_env \<Rightarrow> string list \<Rightarrow> pipeline res" where
  "metadataPipelineFromEnvironment wp w fetch createIrys late env origins =
    bindR (metadataUploadFromEnvironment wp createIrys env origins) (\<lambda>upload. case upload of
      None \<Rightarrow> Inr None
    | Some (irys, c) \<Rightarrow> Inr (Some
       (\<lambda>input. (late input, map_sum UploadFailure id (fst (irysMetadataUpload wp w fetch irys c input))),
        \<lambda>input. map_sum UploadFailure id (metadataImagePrepare fetch c input))))"

end
