(* ===== verification/PaidWrites.thy ===== *)
theory PaidWrites
  imports MetadataPipeline FetchService
begin

text \<open>
  What the paid pipeline guarantees: what is written to Irys and when, which ids become addresses,
  which errors can leave it, and how far the price it asks for is that of what it writes.
\<close>

subsection \<open>Ids\<close>

lemma base58_url: "base58_char c \<Longrightarrow> base64url_char c"
  by (auto simp: base58_char_def base64url_char_def in_range_def is_digit_def)

lemma normalizeIrysId_path: "normalizeIrysId w v = Some i \<Longrightarrow> delivery_path (CHR ''/'' # i)"
proof -
  assume i: "normalizeIrysId w v = Some i"
  then obtain s where s: "v = JStr s" by (auto simp: normalizeIrysId_def split: jsval.splits)
  show ?thesis
  proof (cases "list_all base58_char s \<and> (length s = 43 \<or> length s = 44) \<and> map_option toBase58 (parsePubkey w s) = Some s")
    case True
    then have "i = s" using i s by (simp add: normalizeIrysId_def)
    then show ?thesis using True base58_url by (auto simp: delivery_path_def list_all_iff)
  next
    case False
    then have id: "base64url_id s" "i = (if last s = CHR ''='' then butlast s else s)"
      using i s by (auto simp: normalizeIrysId_def split: if_split_asm)
    have "\<not> base64url_char CHR ''=''" by code_simp
    moreover have "s \<noteq> []" using id(1) by (auto simp: base64url_id_def)
    ultimately have "last s \<noteq> CHR ''=''" if "length s = 43"
      using id(1) that last_in_set [of s] by (metis base64url_id_def list_all_iff take_all order_refl)
    then show ?thesis
      using id by (auto simp: base64url_id_def delivery_path_def butlast_conv_take list_all_iff
          split: if_split_asm dest: in_set_takeD)
  qed
qed

lemma irys_id_path: "irys_id wp w depth v = Some i \<Longrightarrow> delivery_path (CHR ''/'' # i)"
  by (induction wp w depth v rule: irys_id.induct)
    (auto dest: normalizeIrysId_path split: jsval.splits option.splits if_split_asm)

lemma irysUri_Inr: "irysUri wp w receipt = Inr uri \<longleftrightarrow> (\<exists>i. irys_id wp w 3 receipt = Some i \<and> uri = gateway_uri i)"
  by (auto simp: irysUri_def split: option.splits)

lemma paid_write_Inr:
  "paid_write wp w irys n data t = Inr uri \<Longrightarrow> \<exists>i. uri = gateway_uri i \<and> delivery_path (CHR ''/'' # i)"
  unfolding paid_write_def by (elim bindR_InrE) (use irys_id_path in \<open>fastforce simp: irysUri_Inr\<close>)

subsection \<open>The executor\<close>

lemma compress_Inr:
  assumes "compress fetch c img t = Inr out"
  shows "length out \<le> MAX_COMPRESSED_METADATA_IMAGE_BYTES \<and> hasImageSignature out ''image/webp''"
proof -
  obtain response where response: "readFetchBodyWithCap response MAX_COMPRESSED_METADATA_IMAGE_BYTES = Inr out"
      "hasImageSignature out ''image/webp''"
    using assms by (auto simp: compress_def split: option.splits if_split_asm elim!: bindR_InrE)
  then show ?thesis
    by (auto simp: readFetchBodyWithCap_def read_chunks_iff split: option.splits if_split_asm)
qed

text \<open>What Irys asks for the estimate of an upload, and what it says is there to pay it.\<close>

definition affordable :: "irys \<Rightarrow> nat \<Rightarrow> nat \<Rightarrow> bool" where
  "affordable irys imageBytes metadataBytes \<longleftrightarrow> (\<exists>b p q balance imagePrice metadataPrice.
     ir_balance irys = Inr b \<and> ir_price irys imageBytes = Inr p \<and> ir_price irys metadataBytes = Inr q \<and>
     irysInteger b = Inr balance \<and> irysInteger p = Inr imagePrice \<and> irysInteger q = Inr metadataPrice \<and>
     imagePrice + metadataPrice \<le> balance)"

lemma preflight_Inr: "preflight irys m n = Inr u \<Longrightarrow> affordable irys m n"
  by (auto simp: preflight_def affordable_def foreign_def not_less split: sum.splits if_split_asm elim!: bindR_InrE)

definition written_image :: "byte list \<Rightarrow> byte list \<times> string" where
  "written_image img = (img, ''image/webp'')"

definition written_metadata :: "web_platform \<Rightarrow> upload_input \<Rightarrow> string \<Rightarrow> byte list \<times> string" where
  "written_metadata wp input i = (metadataFor wp input (gateway_uri i), ''application/json'')"

definition names_writes :: "string \<Rightarrow> upload_result \<Rightarrow> bool" where
  "names_writes i r \<longleftrightarrow> ur_imageUri r = gateway_uri i \<and> (\<exists>j. delivery_path (CHR ''/'' # j) \<and> ur_uri r = gateway_uri j)"

lemma paid_writes_cases:
  assumes "paid_writes wp w irys c input img = (outcome, written)"
  shows "written = [written_image img] \<and> (\<exists>t. outcome = Inl t) \<or>
    (\<exists>i. delivery_path (CHR ''/'' # i) \<and> written = [written_image img, written_metadata wp input i] \<and>
      (\<forall>r. outcome = Inr r \<longrightarrow> names_writes i r))"
proof (cases "paid_write wp w irys 0 img ''image/webp''")
  case (Inl t)
  then show ?thesis using assms by (auto simp: paid_writes_def written_image_def)
next
  case (Inr imageUri)
  then obtain i where i: "imageUri = gateway_uri i" "delivery_path (CHR ''/'' # i)" using paid_write_Inr by blast
  show ?thesis
  proof (cases "deliveryUri wp c imageUri")
    case (Inl t)
    then show ?thesis using assms Inr by (auto simp: paid_writes_def written_image_def)
  next
    case (Inr delivery)
    then have "outcome = bindR (paid_write wp w irys 1 (metadataFor wp input imageUri) ''application/json'') (\<lambda>uri.
          Inr \<lparr>ur_uri = uri, ur_imageUri = imageUri, ur_deliveryImageUri = delivery,
            ur_originalImageBytes = length (ui_image input), ur_imageBytes = length img\<rparr>)"
        "written = [written_image img, written_metadata wp input i]"
      using assms \<open>paid_write wp w irys 0 img ''image/webp'' = Inr imageUri\<close> i(1)
      by (simp_all add: paid_writes_def written_image_def written_metadata_def Let_def)
    then show ?thesis
      using i paid_write_Inr by (intro disjI2 exI [of _ i]) (fastforce simp: names_writes_def elim!: bindR_InrE)
  qed
qed


text \<open>A run of an example: both writes are accepted.\<close>

definition paid_platform :: web_platform where
  "paid_platform = service_platform\<lparr>newURL := (\<lambda>s. Some \<lparr>url_href = s, url_origin = take 24 s, url_protocol = ''https:'',
      url_username = [], url_password = [], url_host = [], url_hostname = [], url_pathname = drop 24 s, url_search = [],
      url_hash = [], url_params = []\<rparr>), encodeText := (\<lambda>s. map (\<lambda>c. word_of_nat (of_char c)) s)\<rparr>"

definition paid_irys :: irys where
  "paid_irys = \<lparr>ir_balance = Inr ''100'', ir_price = (\<lambda>n. Inr ''50''),
    ir_upload = (\<lambda>n data t. Inr (JObj [(''id'', JStr (replicate 43 CHR ''a''))]))\<rparr>"

definition webp_bytes :: "byte list" where
  "webp_bytes = [0x52, 0x49, 0x46, 0x46, 0, 0, 0, 0, 0x57, 0x45, 0x42, 0x50]"

definition paid_fetch :: img_fetch where
  "paid_fetch url token t body = Some \<lparr>ca_status = 200, ca_type = Some ''image/webp'', ca_body = Some [webp_bytes], ca_broken = False\<rparr>"

definition paid_compressor :: compressor where
  "paid_compressor = \<lparr>co_origin = ''https://images'', co_token = replicate 32 CHR ''t''\<rparr>"

definition no_keys :: web3 where
  "no_keys = example_web3\<lparr>parsePubkey := (\<lambda>s. None)\<rparr>"

lemma paid_compress: "compress paid_fetch paid_compressor img t = Inr webp_bytes"
proof -
  have "webp_type ''image/webp''" "hasImageSignature webp_bytes ''image/webp''" by code_simp+
  then show ?thesis
    by (simp add: compress_def paid_fetch_def or_default_def readFetchBodyWithCap_def MAX_COMPRESSED_METADATA_IMAGE_BYTES_def
      read_chunks_iff webp_bytes_def)
qed

lemma paid_example:
  "snd (irysMetadataUpload paid_platform no_keys paid_fetch paid_irys paid_compressor service_input)
    = [written_image webp_bytes, written_metadata paid_platform service_input (replicate 43 CHR ''a'')]"
proof -
  have "snd (paid_writes paid_platform no_keys paid_irys paid_compressor service_input webp_bytes)
      = [written_image webp_bytes, written_metadata paid_platform service_input (replicate 43 CHR ''a'')]"
    by code_simp
  moreover have "preflight paid_irys 12 2 = Inr ()" by code_simp
  moreover have "length (metadataFor paid_platform service_input placeholderImageUri) = 2" "length webp_bytes = 12"
    by code_simp+
  ultimately show ?thesis
    by (simp add: irysMetadataUpload_def paid_compress MAX_METADATA_JSON_BYTES_def case_prod_beta split: sum.split)
qed


subsection \<open>Addresses\<close>

text \<open>
  What is relied on of the URL parser: the address of a valid id has that id as its path.
\<close>

definition gateway_urls :: "web_platform \<Rightarrow> bool" where
  "gateway_urls wp \<longleftrightarrow> (\<forall>i. delivery_path (CHR ''/'' # i) \<longrightarrow> (\<exists>url. newURL wp (gateway_uri i) = Some url \<and>
     url_origin url = ''https://gateway.irys.xyz'' \<and> url_pathname url = CHR ''/'' # i \<and> url_search url = [] \<and> url_hash url = []))"

text \<open>
  A paid image is never lost to the check of its own address: whatever receipt is read as an id,
  the delivery address of it is defined, so that the metadata is always written next.
\<close>

theorem receipts_deliverable:
  assumes "gateway_urls wp" "irysUri wp w receipt = Inr uri"
  shows "\<exists>i. uri = gateway_uri i \<and> deliveryUri wp c uri = Inr (co_origin c @ ''/irys/'' @ i)"
proof -
  obtain i where i: "uri = gateway_uri i" "delivery_path (CHR ''/'' # i)"
    using assms(2) irys_id_path by (fastforce simp: irysUri_Inr)
  then show ?thesis
    using assms(1) by (fastforce simp: gateway_urls_def deliveryUri_def)
qed

lemma receipts_deliverable_witness:
  "\<exists>i. deliveryUri paid_platform paid_compressor (gateway_uri (replicate 43 CHR ''a'')) = Inr (''https://images/irys/'' @ i)"
proof -
  have "gateway_urls paid_platform"
    by (auto simp: gateway_urls_def paid_platform_def gateway_uri_def)
  moreover have "irysUri paid_platform no_keys (JStr (replicate 43 CHR ''a'')) = Inr (gateway_uri (replicate 43 CHR ''a''))"
    by code_simp
  ultimately show ?thesis
    using receipts_deliverable [of paid_platform no_keys "JStr (replicate 43 CHR ''a'')" _ paid_compressor]
    by (fastforce simp: paid_compressor_def)
qed

subsection \<open>Errors\<close>

definition pipeline_errors :: "upload_error list" where
  "pipeline_errors = [compression_unavailable, insufficient_funds,
    UploadError ''IRYS_UPLOAD_FAILED'' ''Irys metadata upload failed'' 502,
    UploadError ''IRYS_UPLOAD_FAILED'' ''Irys returned an invalid balance or price'' 502,
    UploadError ''IRYS_UPLOAD_FAILED'' ''Irys returned an invalid upload receipt'' 502,
    UploadError ''IRYS_UPLOAD_FAILED'' ''Irys returned an invalid image URI'' 502,
    UploadError ''IMAGE_COMPRESSION_FAILED'' ''Cloudflare returned an oversized compressed image'' 502,
    UploadError ''IMAGE_COMPRESSION_FAILED'' ''Cloudflare returned an invalid compressed image type'' 502,
    UploadError ''IMAGE_COMPRESSION_FAILED'' ''Cloudflare returned invalid compressed image bytes'' 502,
    UploadError ''INVALID_IMAGE'' ''image could not be decoded and compressed'' 415,
    UploadError ''UPLOAD_TOO_LARGE'' ''metadata JSON exceeds 8192 bytes'' 413]"

lemma compress_errors: "compress fetch c img t = Inl e \<Longrightarrow> e \<in> set pipeline_errors"
  by (auto simp: compress_def readFetchBodyWithCap_def bindR_Inl_iff pipeline_errors_def split: option.splits if_split_asm)

definition pipeline_thrown :: "thrown \<Rightarrow> bool" where
  "pipeline_thrown t \<longleftrightarrow> (case t of Typed e \<Rightarrow> e \<in> set pipeline_errors | _ \<Rightarrow> True)"

lemma thrown_errors: "pipeline_thrown t \<Longrightarrow> upload_failure t \<in> set pipeline_errors"
  by (auto simp: upload_failure_def pipeline_thrown_def pipeline_errors_def split: thrown.splits)

lemma foreign_thrown: "foreign a = Inl t \<Longrightarrow> pipeline_thrown t"
  by (auto simp: foreign_def pipeline_thrown_def split: sum.splits)

lemma irysInteger_thrown: "irysInteger raw = Inl t \<Longrightarrow> pipeline_thrown t"
  by (auto simp: irysInteger_def pipeline_thrown_def pipeline_errors_def split: if_split_asm)

lemma irysUri_thrown: "irysUri wp w receipt = Inl t \<Longrightarrow> pipeline_thrown t"
  by (auto simp: irysUri_def pipeline_thrown_def pipeline_errors_def split: option.splits)

lemma deliveryUri_thrown: "deliveryUri wp c uri = Inl t \<Longrightarrow> pipeline_thrown t"
  by (auto simp: deliveryUri_def pipeline_thrown_def pipeline_errors_def split: option.splits if_split_asm)

lemma preflight_thrown: "preflight irys m n = Inl t \<Longrightarrow> pipeline_thrown t"
  unfolding preflight_def bindR_Inl_iff
  by (elim disjE exE conjE foreign_thrown irysInteger_thrown)
    (auto simp: pipeline_thrown_def pipeline_errors_def split: if_split_asm)

lemma paid_write_thrown: "paid_write wp w irys n data ct = Inl t \<Longrightarrow> pipeline_thrown t"
  unfolding paid_write_def bindR_Inl_iff by (elim disjE exE conjE foreign_thrown irysUri_thrown)

lemma paid_writes_thrown: "fst (paid_writes wp w irys c input img) = Inl t \<Longrightarrow> pipeline_thrown t"
  by (auto simp: paid_writes_def Let_def bindR_Inl_iff split: sum.splits dest: paid_write_thrown deliveryUri_thrown)

text \<open>
  No diagnostic of the SDK, of the image Worker or of the network leaves the pipeline: every
  error of an upload or of an image preparation is one of eleven fixed texts.
\<close>

theorem pipeline_errors_fixed:
  "(fst (irysMetadataUpload wp w fetch irys c input) = Inl e \<longrightarrow> e \<in> set pipeline_errors) \<and>
   (metadataImagePrepare fetch c prepared = Inl e \<longrightarrow> e \<in> set pipeline_errors)"
proof (intro conjI impI)
  assume e: "fst (irysMetadataUpload wp w fetch irys c input) = Inl e"
  show "e \<in> set pipeline_errors"
  proof (cases "compress fetch c (ui_image input) (ui_imageContentType input)")
    case (Inl e')
    then show ?thesis using e compress_errors by (simp add: irysMetadataUpload_def)
  next
    case (Inr img)
    then show ?thesis
      using e thrown_errors preflight_thrown paid_writes_thrown [of wp w irys c input img]
      by (auto simp: irysMetadataUpload_def Let_def pipeline_errors_def [symmetric] case_prod_beta
          split: if_split_asm sum.splits) (simp add: pipeline_errors_def)
  qed
qed (auto simp: metadataImagePrepare_def bindR_Inl_iff split: prod.splits dest: compress_errors)

lemma pipeline_errors_fixed_witness:
  "fst (irysMetadataUpload paid_platform no_keys (\<lambda>url token t body. None) paid_irys paid_compressor service_input)
    \<in> Inl ` set pipeline_errors"
proof -
  have "fst (irysMetadataUpload paid_platform no_keys (\<lambda>url token t body. None) paid_irys paid_compressor service_input)
      = Inl compression_unavailable"
    by (simp add: irysMetadataUpload_def compress_def)
  then show ?thesis
    using pipeline_errors_fixed [of paid_platform no_keys "\<lambda>url token t body. None" paid_irys paid_compressor service_input] by blast
qed

subsection \<open>The price\<close>

text \<open>
  The estimate uses an id of 43 characters, and the ids of today have 43 or 44 (a base58 key): what is
  written can be one byte longer than what was checked against the cap and priced. The hypothesis says
  that an address adds its length to the JSON.
\<close>

theorem metadata_estimate:
  assumes "\<And>i. delivery_path (CHR ''/'' # i) \<Longrightarrow> length (metadataFor wp input (gateway_uri i)) = base + length i"
    and "delivery_path (CHR ''/'' # i)"
  shows "length (metadataFor wp input (gateway_uri i))
    = length (metadataFor wp input placeholderImageUri) + (if length i = 44 then 1 else 0)"
proof -
  have "delivery_path (CHR ''/'' # replicate 43 CHR ''x'')" by code_simp
  then show ?thesis
    using assms(1) [of "replicate 43 CHR ''x''"] assms(1) [OF assms(2)] assms(2)
    by (auto simp: placeholderImageUri_def delivery_path_def)
qed

end

