(* ===== verification/NodeServer.thy ===== *)
theory NodeServer
  imports FetchService
begin

text \<open>
  The Node server of the quote service, \<open>createBurnServer\<close> of \<open>quote-service/server.ts\<close>: the same
  routes as the Worker's handler less the token look-ups, image preparation and the durable gate, and
  with a drain on shutdown. The options are the record of \<open>FetchHandler\<close>, less its gate; the request
  is the record of \<open>Web\<close>, whose parsed URL is not used: Node splits the text of the URL itself.
\<close>

subsection \<open>Requests and responses\<close>

text \<open>\<open>Buffer.toString("utf8")\<close>, \<open>net.isIP\<close> and \<open>new URLSearchParams(query)\<close>.\<close>

record node_platform =
  np_text :: "byte list \<Rightarrow> string"
  np_isIP :: "string \<Rightarrow> bool"
  np_params :: "string \<Rightarrow> (string \<times> string) list"

record node_options =
  no_fetch :: "unit fetch_options"
  no_trustProxy :: "bool option"

text \<open>\<open>respondJson\<close>, after the headers that were set before it.\<close>

definition respondJson :: "web_platform \<Rightarrow> (string \<times> string) list \<Rightarrow> int \<Rightarrow> jsval \<Rightarrow> http_response" where
  "respondJson wp headers status body = \<lparr>hs_status = status,
    hs_headers = fold (\<lambda>(name, value). upsert name value) [(''content-type'', ''application/json''),
      (''content-length'', js_of_int (int (length (encodeText wp (stringifyJSON wp body))))), (''cache-control'', ''no-store'')] headers,
    hs_body = JsonBody body\<rparr>"

definition respond_error :: "web_platform \<Rightarrow> (string \<times> string) list \<Rightarrow> int \<Rightarrow> string \<Rightarrow> string \<Rightarrow> http_response" where
  "respond_error wp headers status c message = respondJson wp headers status (code_message c message)"

definition node_readBodyWithCap :: "http_request \<Rightarrow> nat \<Rightarrow> byte list option" where
  "node_readBodyWithCap request maxBytes =
    (if (case number_of_text (or_default ''0'' (header request ''content-length'')) of
         None \<Rightarrow> False | Some declared \<Rightarrow> declared > of_nat maxBytes) then None
     else map_option concat (read_chunks maxBytes 0 (or_default [] (hq_body request))))"

definition node_uploadOriginAllowed :: "http_request \<Rightarrow> unit fetch_options \<Rightarrow> bool" where
  "node_uploadOriginAllowed request opts \<longleftrightarrow> (case header request ''origin'' of
     Some (c # cs) \<Rightarrow> (c # cs) \<in> set (or_default [] (fo_allowedOrigins opts)) \<and> (c # cs) \<noteq> ''*''
   | _ \<Rightarrow> False)"

definition forwarded_ip :: "http_request \<Rightarrow> string" where
  "forwarded_ip request = js_trim (case header request ''cf-connecting-ip'' of
     Some ip \<Rightarrow> ip
   | None \<Rightarrow> (case header request ''x-forwarded-for'' of None \<Rightarrow> [] | Some ips \<Rightarrow> hd (js_split CHR '','' ips)))"

definition metadataUploadClientIp :: "node_platform \<Rightarrow> node_options \<Rightarrow> http_request \<Rightarrow> string option \<Rightarrow> string" where
  "metadataUploadClientIp np opts request remoteAddress =
    (if no_trustProxy opts = Some True \<and> np_isIP np (forwarded_ip request) then forwarded_ip request
     else or_default ''unknown'' remoteAddress)"

text \<open>Here a table of more than 10,000 clients is swept of its closed windows.\<close>

definition node_consumeMetadataUploadRate ::
  "unit fetch_options \<Rightarrow> int \<Rightarrow> string \<Rightarrow> unit handler_state \<Rightarrow> int option \<times> unit handler_state" where
  "node_consumeMetadataUploadRate opts now ip st =
    (let window = metadataUploadRateWindowMs opts;
         globalRate = rate_bucket now window (Some (hd_global st));
         bucket = rate_bucket now window (map_of (hd_rates st) ip);
         blockedUntil =
           (if snd bucket \<ge> metadataUploadRateLimitPerIp opts then [fst bucket + window] else []) @
           (if snd globalRate \<ge> metadataUploadGlobalRateLimit opts then [fst globalRate + window] else []);
         rates = upsert ip (fst bucket, snd bucket + 1) (hd_rates st)
     in if blockedUntil \<noteq> []
        then (Some (max 1 (ceil_seconds (Max (set blockedUntil) - now))), st\<lparr>hd_global := globalRate\<rparr>)
        else (None, st\<lparr>hd_global := (fst globalRate, snd globalRate + 1),
          hd_rates := (if length rates > 10000 then filter (\<lambda>(key, startedAt, count). now - startedAt < window) rates else rates)\<rparr>))"

subsection \<open>Paid uploads\<close>

definition draining_reply :: "web_platform \<Rightarrow> (string \<times> string) list \<Rightarrow> http_response" where
  "draining_reply wp headers = respond_error wp headers 503 ''DRAINING'' ''service is shutting down''"

definition node_upload_busy :: "web_platform \<Rightarrow> (string \<times> string) list \<Rightarrow> http_response" where
  "node_upload_busy wp headers = respond_error wp headers 429 ''SERVER_BUSY'' ''too many concurrent requests; retry later''"

definition node_upload_admit ::
  "web_platform \<Rightarrow> (string \<times> string) list \<Rightarrow> unit fetch_options \<Rightarrow> bool \<Rightarrow> http_request \<Rightarrow> unit handler_state \<Rightarrow> http_response option" where
  "node_upload_admit wp headers opts draining request st =
    (if draining then Some (draining_reply wp headers)
     else if Option.is_none (fo_metadataUpload opts)
     then Some (respond_error wp headers 503 ''METADATA_UPLOAD_DISABLED'' ''metadata upload is disabled because the server-side Irys and Cloudflare pipeline is not configured'')
     else if \<not> node_uploadOriginAllowed request opts
     then Some (respond_error wp headers 403 ''UPLOAD_ORIGIN_FORBIDDEN'' ''this origin is not allowed to spend the metadata upload balance'')
     else if upload_busy opts st then Some (node_upload_busy wp headers)
     else if \<not> json_type (content_type request)
     then Some (respond_error wp headers 415 ''UNSUPPORTED_MEDIA_TYPE'' ''content-type must be application/json'')
     else None)"

definition upload_error_body :: "web_platform \<Rightarrow> (string \<times> string) list \<Rightarrow> upload_error \<Rightarrow> http_response" where
  "upload_error_body wp headers e = (case e of UploadError c message status \<Rightarrow> respond_error wp headers status c message)"

definition node_upload_read ::
  "node_platform \<Rightarrow> web_platform \<Rightarrow> (string \<times> string) list \<Rightarrow> unit fetch_options \<Rightarrow> http_request \<Rightarrow> http_response + upload_input" where
  "node_upload_read np wp headers opts request = (case node_readBodyWithCap request (metadataUploadMaxRequestBytes opts) of
     None \<Rightarrow> Inl (respond_error wp (upsert ''connection'' ''close'' headers) 413 ''UPLOAD_TOO_LARGE''
       (''metadata upload request exceeds '' @ js_of_int (int (metadataUploadMaxRequestBytes opts)) @ '' bytes''))
   | Some body \<Rightarrow> (case parseJSON wp (np_text np body) of
       None \<Rightarrow> Inl (respond_error wp headers 400 ''INVALID_JSON'' ''request body is not valid JSON'')
     | Some parsed \<Rightarrow> (case parseMetadataUploadRequest wp parsed of
         Inl e \<Rightarrow> Inl (upload_error_body wp headers e)
       | Inr input \<Rightarrow> Inr input)))"

definition node_upload_answer :: "web_platform \<Rightarrow> (string \<times> string) list \<Rightarrow> upload_result timed \<Rightarrow> http_response" where
  "node_upload_answer wp headers timed = (case timed of (late, outcome) \<Rightarrow>
     if late then respond_error wp headers 504 ''REQUEST_DEADLINE''
       ''metadata upload is still processing; wait before retrying to avoid a duplicate paid upload''
     else (case outcome of
         Inr result \<Rightarrow> respondJson wp headers 200 (JObj (result_json result))
       | Inl (UploadFailure e) \<Rightarrow> upload_error_body wp headers e
       | Inl _ \<Rightarrow> respond_error wp headers 502 ''IRYS_UPLOAD_FAILED'' ''Irys metadata upload failed''))"

definition node_upload_settled :: "unit handler_state \<Rightarrow> unit handler_state" where
  "node_upload_settled st = st\<lparr>hd_inflight := hd_inflight st - 1, hd_uploads := hd_uploads st - 1\<rparr>"

definition node_handleMetadataUpload ::
  "node_platform \<Rightarrow> web_platform \<Rightarrow> (string \<times> string) list \<Rightarrow> node_options \<Rightarrow> int \<Rightarrow> bool \<Rightarrow> string option \<Rightarrow> http_request \<Rightarrow>
    unit handler_state \<Rightarrow> http_response \<times> unit handler_state" where
  "node_handleMetadataUpload np wp headers options now draining remoteAddress request st =
    (let opts = no_fetch options in
     case node_upload_admit wp headers opts draining request st of
       Some response \<Rightarrow> (response, st)
     | None \<Rightarrow> (case node_upload_read np wp headers opts request of
         Inl response \<Rightarrow> (response, st)
       | Inr input \<Rightarrow>
           if upload_busy opts st then (node_upload_busy wp headers, st)
           else (case node_consumeMetadataUploadRate opts now (metadataUploadClientIp np options request remoteAddress) st of
               (Some retryAfter, st1) \<Rightarrow> (respond_error wp (upsert ''retry-after'' (js_of_int retryAfter) headers) 429
                 ''UPLOAD_RATE_LIMITED'' ''metadata upload rate limit reached; retry later'', st1)
             | (None, st1) \<Rightarrow> (node_upload_answer wp headers (the (fo_metadataUpload opts) input),
                 node_upload_settled (upload_started input st1)))))"

subsection \<open>Burns\<close>

definition node_op_admit ::
  "web_platform \<Rightarrow> (string \<times> string) list \<Rightarrow> unit fetch_options \<Rightarrow> bool \<Rightarrow> http_request \<Rightarrow> unit handler_state \<Rightarrow> http_response option" where
  "node_op_admit wp headers opts draining request st =
    (if draining then Some (draining_reply wp headers)
     else if (case fo_bearerToken opts of
         Some (c # cs) \<Rightarrow> or_default [] (header request ''authorization'') \<noteq> ''Bearer '' @ c # cs | _ \<Rightarrow> False)
     then Some (respond_error wp headers 401 ''UNAUTHORIZED'' ''missing or invalid bearer token'')
     else if hd_inflight st \<ge> maxInflightBurns opts
     then Some (respond_error wp headers 429 ''SERVER_BUSY'' ''too many concurrent burns; retry later'')
     else if \<not> json_type (content_type request)
     then Some (respond_error wp headers 415 ''UNSUPPORTED_MEDIA_TYPE'' ''content-type must be application/json'')
     else None)"

definition node_op_read ::
  "node_platform \<Rightarrow> web_platform \<Rightarrow> (string \<times> string) list \<Rightarrow> unit fetch_options \<Rightarrow> http_request \<Rightarrow> http_response + jsval" where
  "node_op_read np wp headers opts request = (case node_readBodyWithCap request (maxBodyBytes opts) of
     None \<Rightarrow> Inl (respond_error wp (upsert ''connection'' ''close'' headers) 413 ''BODY_TOO_LARGE''
       (''request body exceeds '' @ js_of_int (int (maxBodyBytes opts)) @ '' bytes''))
   | Some body \<Rightarrow> (case parseJSON wp (np_text np body) of
       None \<Rightarrow> Inl (respond_error wp headers 400 ''INVALID_JSON'' ''request body is not valid JSON'')
     | Some parsed \<Rightarrow> Inr parsed))"

definition node_op_answer :: "web_platform \<Rightarrow> (string \<times> string) list \<Rightarrow> string \<Rightarrow> json_object timed \<Rightarrow> http_response" where
  "node_op_answer wp headers operation timed = (case timed of (late, outcome) \<Rightarrow>
     if late then respond_error wp headers 504 ''REQUEST_DEADLINE''
       (operation @ '' still processing; it will complete or fail under its vault lease'')
     else (case outcome of
         Inr result \<Rightarrow> respondJson wp headers 200 (JObj result)
       | Inl (PolicyFailure c message) \<Rightarrow> respond_error wp headers (policyErrorStatus c) c (sanitizeForTransport message)
       | Inl _ \<Rightarrow> respond_error wp headers 500 ''INTERNAL'' ''internal error''))"

definition node_handleOperation ::
  "node_platform \<Rightarrow> web_platform \<Rightarrow> (string \<times> string) list \<Rightarrow> unit fetch_options \<Rightarrow> bool \<Rightarrow> http_request \<Rightarrow> string \<Rightarrow>
    (jsval \<Rightarrow> json_object timed) \<Rightarrow> unit handler_state \<Rightarrow> http_response \<times> unit handler_state" where
  "node_handleOperation np wp headers opts draining request operation execute st =
    (case node_op_admit wp headers opts draining request st of
       Some response \<Rightarrow> (response, st)
     | None \<Rightarrow> (case node_op_read np wp headers opts request of
         Inl response \<Rightarrow> (response, st)
       | Inr parsed \<Rightarrow> (node_op_answer wp headers operation (execute parsed), op_settled (op_started operation parsed st))))"

subsection \<open>Routes\<close>

definition node_readyz :: "web_platform \<Rightarrow> (string \<times> string) list \<Rightarrow> unit fetch_options \<Rightarrow> bool \<Rightarrow> http_response" where
  "node_readyz wp headers opts draining =
    (if draining then respondJson wp headers 503 (JObj [(''status'', JStr ''draining'')])
     else (case fo_readiness opts of
         Some (Inl message) \<Rightarrow> respondJson wp headers 503
           (JObj [(''status'', JStr ''not-ready''), (''reason'', JStr (sanitizeForTransport message))])
       | _ \<Rightarrow> respondJson wp headers 200 (JObj [(''status'', JStr ''ready'')])))"

definition node_health :: "web_platform \<Rightarrow> (string \<times> string) list \<Rightarrow> unit fetch_options \<Rightarrow> bool \<Rightarrow> http_response" where
  "node_health wp headers opts draining = (case fo_health opts of
     None \<Rightarrow> respondJson wp headers 200 (JObj [(''ok'', JBool (\<not> draining))])
   | Some (Inr health) \<Rightarrow> respondJson wp headers 200 (JObj (fold (\<lambda>(k, v). upsert k v) health [(''ok'', JBool (\<not> draining))]))
   | Some (Inl message) \<Rightarrow> respondJson wp headers 503
       (JObj [(''ok'', JBool False), (''reason'', JStr (sanitizeForTransport message))]))"

text \<open>The message of whatever was thrown.\<close>

definition failure_text :: "op_error \<Rightarrow> string" where
  "failure_text e = (case e of PolicyFailure c m \<Rightarrow> m | UploadFailure (UploadError c m status) \<Rightarrow> m
    | DiscoveryFailure c m \<Rightarrow> m | OtherFailure m \<Rightarrow> m)"

definition node_mint_required :: "web_platform \<Rightarrow> (string \<times> string) list \<Rightarrow> http_response" where
  "node_mint_required wp headers = respond_error wp headers 400 ''INVALID_REQUEST'' ''mint query parameter required''"

definition node_discovery_failed :: "web_platform \<Rightarrow> (string \<times> string) list \<Rightarrow> string \<Rightarrow> string \<Rightarrow> http_response" where
  "node_discovery_failed wp headers c message =
    respond_error wp headers (if c = ''REFERENCE_DISCOVERY_TIMEOUT'' then 504 else 503) c (sanitizeForTransport message)"

definition node_resolve :: "web_platform \<Rightarrow> (string \<times> string) list \<Rightarrow> unit fetch_options \<Rightarrow> (string \<Rightarrow> string option \<Rightarrow> json_object timed) \<Rightarrow>
    string option \<Rightarrow> string option \<Rightarrow> http_response" where
  "node_resolve wp headers opts resolve mint pool = (case mint of
     Some (c # cs) \<Rightarrow> (case with_reference_deadline opts (resolve (c # cs) pool) of
         Inr result \<Rightarrow> respondJson wp headers 200 (JObj result)
       | Inl (DiscoveryFailure code message) \<Rightarrow> node_discovery_failed wp headers code message
       | Inl (PolicyFailure code message) \<Rightarrow> respond_error wp headers 422 code (sanitizeForTransport message)
       | Inl e \<Rightarrow> respond_error wp headers 422 ''RESOLVE_FAILED'' (sanitizeForTransport (failure_text e)))
   | _ \<Rightarrow> node_mint_required wp headers)"

definition node_markets :: "web_platform \<Rightarrow> (string \<times> string) list \<Rightarrow> unit fetch_options \<Rightarrow> (string \<Rightarrow> json_object timed) \<Rightarrow>
    string option \<Rightarrow> http_response" where
  "node_markets wp headers opts markets mint = (case mint of
     Some (c # cs) \<Rightarrow> (case with_reference_deadline opts (markets (c # cs)) of
         Inr result \<Rightarrow> respondJson wp headers 200 (JObj result)
       | Inl (DiscoveryFailure code message) \<Rightarrow> node_discovery_failed wp headers code message
       | Inl (PolicyFailure code message) \<Rightarrow> respond_error wp headers (policyErrorStatus code) code (sanitizeForTransport message)
       | Inl e \<Rightarrow> respond_error wp headers 500 ''INTERNAL'' (sanitizeForTransport (failure_text e)))
   | _ \<Rightarrow> node_mint_required wp headers)"

definition node_not_found :: "web_platform \<Rightarrow> (string \<times> string) list \<Rightarrow> http_response" where
  "node_not_found wp headers = respond_error wp headers 404 ''NOT_FOUND'' ''unknown path''"

definition node_use_post :: "web_platform \<Rightarrow> (string \<times> string) list \<Rightarrow> string \<Rightarrow> http_response" where
  "node_use_post wp headers path = respond_error wp (upsert ''allow'' ''POST'' headers) 405 ''METHOD_NOT_ALLOWED'' (''use POST '' @ path)"

definition ends_with :: "string \<Rightarrow> string \<Rightarrow> bool" where
  "ends_with p s \<longleftrightarrow> starts_with (rev p) (rev s)"

definition node_burn_routes ::
  "node_platform \<Rightarrow> web_platform \<Rightarrow> (string \<times> string) list \<Rightarrow> unit fetch_options \<Rightarrow> bool \<Rightarrow> string \<Rightarrow> http_request \<Rightarrow>
    unit handler_state \<Rightarrow> http_response \<times> unit handler_state" where
  "node_burn_routes np wp headers opts draining url request st =
    (if fo_burnEnabled opts = Some False
     then (respond_error wp headers 503 ''BURNS_DISABLED'' ''burn submission is disabled on this revision'', st)
     else if url = ''/burn'' \<and> fo_oneShotEnabled opts = Some False
     then (respond_error wp headers 410 ''CALLER_PAID_ONLY'' ''this revision has no fee payer; use POST /burn/prepare, sign, then POST /burn/submit'', st)
     else (case (if url = ''/burn/prepare'' then fo_prepare opts else if url = ''/burn/submit'' then fo_submitSigned opts else None) of
         Some action \<Rightarrow>
           if hq_method request \<noteq> ''POST'' then (node_use_post wp headers url, st)
           else node_handleOperation np wp headers opts draining request
             (if ends_with ''prepare'' url then ''prepare'' else ''submit'') action st
       | None \<Rightarrow>
           if url \<noteq> ''/burn'' then (node_not_found wp headers, st)
           else if hq_method request \<noteq> ''POST'' then (node_use_post wp headers ''/burn'', st)
           else node_handleOperation np wp headers opts draining request ''burn'' (fo_execute opts) st))"

definition node_cors :: "unit fetch_options \<Rightarrow> bool \<Rightarrow> http_request \<Rightarrow> (string \<times> string) list" where
  "node_cors opts isMetadataUploadRoute request =
    (if \<not> isMetadataUploadRoute \<and> or_default [] (fo_allowedOrigins opts) = []
     then [(''access-control-allow-origin'', ''*'')]
     else (case header request ''origin'' of
         Some (c # cs) \<Rightarrow>
           if (c # cs) \<in> set (or_default [] (fo_allowedOrigins opts))
           then [(''access-control-allow-origin'', c # cs), (''vary'', ''origin'')] else []
       | _ \<Rightarrow> [])) @
    [(''access-control-allow-methods'', ''GET, POST, OPTIONS''),
     (''access-control-allow-headers'', ''content-type, authorization''), (''access-control-max-age'', ''86400'')]"

definition node_handled ::
  "node_platform \<Rightarrow> web_platform \<Rightarrow> (string \<times> string) list \<Rightarrow> node_options \<Rightarrow> int \<Rightarrow> bool \<Rightarrow> string option \<Rightarrow> string \<Rightarrow> string \<Rightarrow>
    http_request \<Rightarrow> unit handler_state \<Rightarrow> http_response \<times> unit handler_state" where
  "node_handled np wp headers options now draining remoteAddress url query request st =
    (let opts = no_fetch options; get = (hq_method request = ''GET''); params = map_of (np_params np query) in
     if get \<and> url = ''/healthz''
     then (respondJson wp headers 200 (JObj [(''status'', JStr ''ok''), (''draining'', JBool draining)]), st)
     else if get \<and> url = ''/health'' then (node_health wp headers opts draining, st)
     else if get \<and> url = ''/reference/resolve'' \<and> fo_resolve opts \<noteq> None
     then (node_resolve wp headers opts (the (fo_resolve opts)) (params ''mint'') (params ''pool''), st)
     else if get \<and> url = ''/reference/markets'' \<and> fo_markets opts \<noteq> None
     then (node_markets wp headers opts (the (fo_markets opts)) (params ''mint''), st)
     else if get \<and> url = ''/readyz'' then (node_readyz wp headers opts draining, st)
     else if url = ''/metadata/upload''
     then (if hq_method request \<noteq> ''POST'' then (node_use_post wp headers ''/metadata/upload'', st)
       else node_handleMetadataUpload np wp headers options now draining remoteAddress request st)
     else if starts_with ''/burn'' url then node_burn_routes np wp headers opts draining url request st
     else (node_not_found wp headers, st))"

definition node_server ::
  "node_platform \<Rightarrow> web_platform \<Rightarrow> node_options \<Rightarrow> int \<Rightarrow> bool \<Rightarrow> string option \<Rightarrow> string \<Rightarrow>
    http_request \<Rightarrow> unit handler_state \<Rightarrow> http_response \<times> unit handler_state" where
  "node_server np wp options now draining remoteAddress target request st =
    (let parts = js_split CHR ''?'' target; url = hd parts; query = (case tl parts of [] \<Rightarrow> [] | q # _ \<Rightarrow> q);
         upload = (url = ''/metadata/upload''); headers = node_cors (no_fetch options) upload request in
     if hq_method request = ''OPTIONS'' then
       ((if upload \<and> \<not> node_uploadOriginAllowed request (no_fetch options)
         then respond_error wp headers 403 ''UPLOAD_ORIGIN_FORBIDDEN'' ''this origin is not allowed to spend the metadata upload balance''
         else \<lparr>hs_status = 204, hs_headers = headers, hs_body = NoBody\<rparr>), st)
     else node_handled np wp headers options now draining remoteAddress url query request st)"

subsection \<open>Shutdown\<close>

text \<open>
  Burn operations of several requests, interleaved at the awaits of \<open>handleOperation\<close>, and the drain:
  \<open>shutdown\<close> sets the flag and waits for the operations that are in flight at that moment.
\<close>

record node_run =
  nr_state :: "unit handler_state"
  nr_arriving :: "(string \<times> http_request) list"
  nr_running :: "(string \<times> jsval) list"
  nr_awaited :: "(string \<times> jsval) list option"

definition nr_draining :: "node_run \<Rightarrow> bool" where
  "nr_draining r \<longleftrightarrow> nr_awaited r \<noteq> None"

inductive node_step :: "node_platform \<Rightarrow> web_platform \<Rightarrow> unit fetch_options \<Rightarrow> node_run \<Rightarrow> node_run \<Rightarrow> bool" for np wp opts where
  admitted: "node_op_admit wp headers opts (nr_draining r) request (nr_state r) = None \<Longrightarrow>
    node_step np wp opts r (r\<lparr>nr_arriving := nr_arriving r @ [(operation, request)]\<rparr>)"
| dropped: "(operation, request) \<in> set (nr_arriving r) \<Longrightarrow> node_op_read np wp headers opts request = Inl response \<Longrightarrow>
    node_step np wp opts r (r\<lparr>nr_arriving := remove1 (operation, request) (nr_arriving r)\<rparr>)"
| started: "(operation, request) \<in> set (nr_arriving r) \<Longrightarrow> node_op_read np wp headers opts request = Inr parsed \<Longrightarrow>
    node_step np wp opts r (r\<lparr>nr_state := op_started operation parsed (nr_state r),
      nr_arriving := remove1 (operation, request) (nr_arriving r), nr_running := nr_running r @ [(operation, parsed)]\<rparr>)"
| settled: "run \<in> set (nr_running r) \<Longrightarrow>
    node_step np wp opts r (r\<lparr>nr_state := op_settled (nr_state r), nr_running := remove1 run (nr_running r),
      nr_awaited := map_option (remove1 run) (nr_awaited r)\<rparr>)"
| shutdown: "nr_awaited r = None \<Longrightarrow> node_step np wp opts r (r\<lparr>nr_awaited := Some (nr_running r)\<rparr>)"

text \<open>\<open>Promise.allSettled\<close> over the snapshot has settled: the server reports that it is drained.\<close>

definition drained :: "node_run \<Rightarrow> bool" where
  "drained r \<longleftrightarrow> nr_awaited r = Some []"

end
