(* ===== verification/NodeProps.thy ===== *)
theory NodeProps
  imports NodeServer
begin

text \<open>
  The Node server against the Worker's handler on the burn routes, and what its drain waits for.
\<close>

subsection \<open>Two servers, one behaviour\<close>

lemma node_read_body: "node_readBodyWithCap request maxBytes = readBodyWithCap request maxBytes"
proof -
  have "number_of_text ''0'' = Some 0" by code_simp
  then show ?thesis
    by (auto simp: node_readBodyWithCap_def readBodyWithCap_def declared_too_large_def or_default_def split: option.split)
qed

lemma respond_error_fields [simp]:
  "hs_status (respond_error wp headers status c message) = hs_status (error_json status c message)"
  "hs_body (respond_error wp headers status c message) = hs_body (error_json status c message)"
  by (simp_all add: respond_error_def respondJson_def error_json_def json_def json_value_def code_message_def)

lemma respondJson_fields [simp]:
  "hs_status (respondJson wp headers status (JObj body)) = hs_status (json status body extra)"
  "hs_body (respondJson wp headers status (JObj body)) = hs_body (json status body extra)"
  by (simp_all add: respondJson_def json_def json_value_def)

lemma withCors_fields [simp]: "hs_status (withCors r headers) = hs_status r" "hs_body (withCors r headers) = hs_body r"
proof -
  have "hs_status (fold (\<lambda>(name, value). set_header name value) hs r) = hs_status r \<and>
      hs_body (fold (\<lambda>(name, value). set_header name value) hs r) = hs_body r" for hs
    by (induction hs arbitrary: r) (auto simp: set_header_def)
  then show "hs_status (withCors r headers) = hs_status r" "hs_body (withCors r headers) = hs_body r"
    by (simp_all add: withCors_def)
qed

text \<open>What a client sees of an answer, headers apart.\<close>

definition seen :: "http_response \<times> 's \<Rightarrow> (int \<times> http_body) \<times> 's" where
  "seen answer = ((hs_status (fst answer), hs_body (fst answer)), snd answer)"

definition same_text :: "node_platform \<Rightarrow> web_platform \<Rightarrow> http_request \<Rightarrow> nat \<Rightarrow> bool" where
  "same_text np wp request cap \<longleftrightarrow> (\<forall>body. readBodyWithCap request cap = Some body \<longrightarrow>
     np_text np body = decodeText wp body \<and> parseJSON wp (decodeText wp body) \<noteq> Some (JStr ''INVALID_JSON''))"

definition seen_response :: "http_response \<Rightarrow> int \<times> http_body" where
  "seen_response r = (hs_status r, hs_body r)"

lemma node_op_admit_same:
  "map_option seen_response (node_op_admit wp headers opts False request st) = map_option seen_response (op_admit opts request st)"
  by (auto simp: node_op_admit_def op_admit_def seen_response_def or_default_def split: option.split list.split)

lemma node_op_read_same:
  "same_text np wp request (maxBodyBytes opts) \<Longrightarrow>
    map_sum seen_response id (node_op_read np wp headers opts request) = map_sum seen_response id (op_read wp opts request)"
  by (auto simp: node_op_read_def op_read_def node_read_body seen_response_def decodeJson_def same_text_def Let_def
      split: option.split)

lemma node_op_answer_same: "seen_response (node_op_answer wp headers operation timed) = seen_response (op_answer operation timed)"
  by (auto simp: node_op_answer_def op_answer_def seen_response_def json_def json_value_def respondJson_def
      split: prod.split sum.split op_error.split)

lemma node_operation_same:
  assumes "same_text np wp request (maxBodyBytes opts)"
  shows "seen (node_handleOperation np wp headers opts False request operation execute st)
    = seen (handleOperation wp opts request operation execute st)"
proof (cases "op_admit opts request st")
  case (Some response)
  then show ?thesis
    using node_op_admit_same [of wp headers opts request st]
    by (auto simp: node_handleOperation_def handleOperation_def seen_def seen_response_def)
next
  case None
  then have admit: "node_op_admit wp headers opts False request st = None"
    using node_op_admit_same [of wp headers opts request st] by simp
  show ?thesis
  proof (cases "op_read wp opts request")
    case (Inl response)
    then show ?thesis
      using node_op_read_same [OF assms, of headers] admit None
      by (cases "node_op_read np wp headers opts request")
        (auto simp: node_handleOperation_def handleOperation_def seen_def seen_response_def)
  next
    case (Inr parsed)
    then show ?thesis
      using node_op_read_same [OF assms, of headers] admit None node_op_answer_same [of wp headers operation "execute parsed"]
      by (cases "node_op_read np wp headers opts request")
        (auto simp: node_handleOperation_def handleOperation_def seen_def seen_response_def)
  qed
qed

lemma burn_paths:
  assumes "starts_with ''/burn'' path"
  shows "path \<notin> {''/healthz'', ''/health'', ''/readyz'', ''/token'', ''/token/search'', ''/token/image'', ''/reference/markets'',
    ''/reference/resolve'', ''/metadata/image/prepare'', ''/metadata/upload'', ''/metadata/finalize''}"
  using assms by (auto simp: starts_with_def)

lemma node_burn_routes_same:
  assumes "same_text np wp request (maxBodyBytes opts)" "url_pathname (hq_url request) = url"
  shows "seen (node_burn_routes np wp headers opts False url request st) = seen (burn_routes wp opts request st)"
proof -
  have "ends_with ''prepare'' ''/burn/prepare''" "\<not> ends_with ''prepare'' ''/burn/submit''" by code_simp+
  then show ?thesis
    using assms node_operation_same [OF assms(1)]
    by (auto simp: node_burn_routes_def burn_routes_def burn_action_def Let_def seen_def use_post_def node_use_post_def
        node_not_found_def not_found_def error_json_def json_def json_value_def split: option.split)
qed

text \<open>
  C33: The Node server and the Worker serve burns alike: for every request under \<open>/burn\<close> whose body both
  read as the same text, a server that is not draining answers with the status and the body the Worker
  answers with, starts the same operation and keeps the same counters.
\<close>

theorem node_serves_as_worker:
  assumes "starts_with ''/burn'' (hd (js_split CHR ''?'' target))"
    and "url_pathname (hq_url request) = hd (js_split CHR ''?'' target)"
    and "same_text np wp request (maxBodyBytes (no_fetch options))"
  shows "seen (node_server np wp options now False remoteAddress target request st)
    = seen (fetch_handler wp (no_fetch options) net now' request st)"
proof -
  have path: "starts_with ''/burn'' (url_pathname (hq_url request))" using assms by simp
  note paths = burn_paths [OF path]
  show ?thesis
  proof (cases "hq_method request = ''OPTIONS''")
    case True
    then show ?thesis
      using paths assms(2)
      by (auto simp: node_server_def fetch_handler_def Let_def metadata_route_def seen_def)
  next
    case False
    have worker: "routed wp (no_fetch options) net now' request st = burn_routes wp (no_fetch options) request st"
      using paths path
      by (auto simp: routed_def status_routes_def token_routes_def reference_routes_def Let_def)
    have node: "node_server np wp options now False remoteAddress target request st
        = node_burn_routes np wp (node_cors (no_fetch options) False request) (no_fetch options) False
            (url_pathname (hq_url request)) request st"
      using paths path assms(2) False by (auto simp: node_server_def node_handled_def Let_def)
    show ?thesis
      using node_burn_routes_same [OF assms(3) refl, of "node_cors (no_fetch options) False request" st] False
      by (simp add: node worker fetch_handler_def Let_def case_prod_beta seen_def)
  qed
qed

definition node_example :: "node_platform \<times> node_options" where
  "node_example = (\<lparr>np_text = decodeText service_platform, np_isIP = (\<lambda>_. False), np_params = (\<lambda>_. [])\<rparr>,
    \<lparr>no_fetch = \<lparr>fo_maxBodyBytes = Some 10, fo_maxInflightBurns = None, fo_maxInflightMetadataUploads = None,
      fo_metadataUploadMaxRequestBytes = None, fo_metadataUploadRateLimitPerIp = None, fo_metadataUploadGlobalRateLimit = None,
      fo_metadataUploadRateWindowMs = None, fo_referenceRequestDeadlineMs = None, fo_bearerToken = None, fo_burnEnabled = None,
      fo_prepare = Some (\<lambda>_. (False, Inr [(''requestId'', JStr ''r'')])), fo_submitSigned = None, fo_execute = (\<lambda>_. (True, Inr [])),
      fo_oneShotEnabled = None, fo_readiness = None, fo_health = None, fo_markets = None, fo_resolve = None,
      fo_metadataUpload = None, fo_metadataImagePrepare = None, fo_metadataUploadGate = None, fo_allowedOrigins = None\<rparr>,
     no_trustProxy = None\<rparr>)"

definition burn_example :: http_request where
  "burn_example = service_request\<lparr>hq_url := (hq_url service_request)\<lparr>url_pathname := ''/burn/prepare''\<rparr>\<rparr>"

lemma node_serves_as_worker_witness:
  "\<forall>net. fst (seen (node_server (fst node_example) service_platform (snd node_example) 0 False None ''/burn/prepare?x'' burn_example (fresh_handler 0 ())))
      = (200, JsonBody (JObj [(''requestId'', JStr ''r'')])) \<and>
    fst (seen (fetch_handler service_platform (no_fetch (snd node_example)) net 0 burn_example (fresh_handler 0 ())))
      = (200, JsonBody (JObj [(''requestId'', JStr ''r'')]))"
proof
  fix net
  have target: "starts_with ''/burn'' (hd (js_split CHR ''?'' ''/burn/prepare?x''))"
      "url_pathname (hq_url burn_example) = hd (js_split CHR ''?'' ''/burn/prepare?x'')"
    by code_simp+
  have "same_text (fst node_example) service_platform burn_example (maxBodyBytes (no_fetch (snd node_example)))"
    by (simp add: same_text_def node_example_def service_platform_def)
  note same = node_serves_as_worker [OF target this, of 0 None "fresh_handler 0 ()" net 0]
  moreover have "fst (seen (node_server (fst node_example) service_platform (snd node_example) 0 False None ''/burn/prepare?x''
      burn_example (fresh_handler 0 ()))) = (200, JsonBody (JObj [(''requestId'', JStr ''r'')]))"
    by code_simp
  ultimately show "fst (seen (node_server (fst node_example) service_platform (snd node_example) 0 False None ''/burn/prepare?x'' burn_example (fresh_handler 0 ())))
      = (200, JsonBody (JObj [(''requestId'', JStr ''r'')])) \<and>
    fst (seen (fetch_handler service_platform (no_fetch (snd node_example)) net 0 burn_example (fresh_handler 0 ())))
      = (200, JsonBody (JObj [(''requestId'', JStr ''r'')]))"
    by simp
qed

subsection \<open>The drain\<close>

definition pending :: "node_run \<Rightarrow> nat" where
  "pending r = length (nr_arriving r) + length (nr_running r)"

lemma drain_step:
  assumes "node_step np wp opts r r'" "nr_draining r"
  shows "nr_draining r' \<and> pending r' \<le> pending r \<and> set (nr_arriving r') \<subseteq> set (nr_arriving r)"
  using assms
proof (induction rule: node_step.induct)
  case (admitted headers r request operation)
  then show ?case by (simp add: node_op_admit_def)
next
  case (started operation request r headers parsed)
  then show ?case
    using length_pos_if_in_set [OF started.hyps(1)]
    by (auto simp: nr_draining_def pending_def length_remove1 dest: set_mp [OF set_remove1_subset])
qed (auto simp: nr_draining_def pending_def length_remove1 dest: set_mp [OF set_remove1_subset])

text \<open>
  From the start of a shutdown on, whatever is still read, started or settled, no burn request is
  admitted any more, and the number of burns that arrive or run never grows.
\<close>

theorem drain_admits_nothing:
  assumes "(node_step np wp opts)\<^sup>*\<^sup>* r r'" "nr_draining r"
  shows "nr_draining r' \<and> pending r' \<le> pending r \<and> set (nr_arriving r') \<subseteq> set (nr_arriving r)"
  using assms by (induction rule: rtranclp_induct) (auto dest: drain_step)

definition resting :: node_run where
  "resting = \<lparr>nr_state = fresh_handler 0 (), nr_arriving = [], nr_running = [], nr_awaited = None\<rparr>"

text \<open>
  The flag is looked at before the body is read and the snapshot holds only what is running: a burn
  whose body is still arriving when the shutdown begins starts afterwards and is not waited for.
\<close>

theorem drain_incomplete:
  assumes "node_op_admit wp headers opts False request (fresh_handler 0 ()) = None"
    and "node_op_read np wp headers opts request = Inr parsed"
  shows "\<exists>r. (node_step np wp opts)\<^sup>*\<^sup>* resting r \<and> drained r \<and> nr_running r = [(operation, parsed)]"
proof -
  let ?r1 = "resting\<lparr>nr_arriving := [(operation, request)]\<rparr>"
  let ?r2 = "?r1\<lparr>nr_awaited := Some []\<rparr>"
  let ?r3 = "?r2\<lparr>nr_state := op_started operation parsed (fresh_handler 0 ()), nr_arriving := [], nr_running := [(operation, parsed)]\<rparr>"
  have "node_step np wp opts resting ?r1"
    using admitted [of wp headers opts resting request np operation] assms(1) by (simp add: resting_def nr_draining_def)
  moreover have "node_step np wp opts ?r1 ?r2"
    using shutdown [of ?r1 np wp opts] by (simp add: resting_def)
  moreover have "node_step np wp opts ?r2 ?r3"
    using started [of operation request ?r2 np wp headers opts parsed] assms(2) by (simp add: resting_def)
  ultimately have "(node_step np wp opts)\<^sup>*\<^sup>* resting ?r3"
    by (meson converse_rtranclp_into_rtranclp rtranclp.rtrancl_refl)
  then show ?thesis by (auto simp: drained_def resting_def)
qed

lemma drain_admits_nothing_witness:
  "\<exists>r. nr_running r = [(''prepare'', JObj (result_json service_result))] \<and> nr_draining r \<and> pending r \<le> 1"
proof -
  let ?r = "resting\<lparr>nr_arriving := [(''prepare'', burn_example)], nr_awaited := Some []\<rparr>"
  let ?opts = "no_fetch (snd node_example)" and ?np = "fst node_example"
  have "node_op_read ?np service_platform [] ?opts burn_example = Inr (JObj (result_json service_result))"
    by code_simp
  then have "node_step ?np service_platform ?opts ?r (?r\<lparr>nr_state := op_started ''prepare'' (JObj (result_json service_result)) (nr_state ?r),
      nr_arriving := [], nr_running := [(''prepare'', JObj (result_json service_result))]\<rparr>)"
    using started [of "''prepare''" burn_example ?r ?np service_platform "[]" ?opts] by (simp add: resting_def)
  from drain_admits_nothing [OF r_into_rtranclp [where r = "node_step ?np service_platform ?opts", OF this]] show ?thesis
    by (intro exI [of _ "?r\<lparr>nr_state := op_started ''prepare'' (JObj (result_json service_result)) (nr_state ?r),
      nr_arriving := [], nr_running := [(''prepare'', JObj (result_json service_result))]\<rparr>"])
      (simp add: nr_draining_def pending_def resting_def)
qed

end
