(* ===== verification/Discovery.thy ===== *)
theory Discovery
  imports MarketSelect UploadGate
begin

text \<open>
  Live reference discovery: \<open>createReferenceDiscovery\<close> of \<open>quote-service/markets.ts\<close>, the deadline,
  the single flight per mint and the short cache around \<open>selectReference\<close>; and the handlers over it,
  \<open>makeInfoHandlers\<close> of \<open>quote-service/server.ts\<close>. A scan that is under way is an entry of
  \<open>di_inFlight\<close>; it ends with its outcome or with the deadline.
\<close>

subsection \<open>State and steps\<close>

definition DEFAULT_REFERENCE_DISCOVERY_DEADLINE_MS :: int where
  "DEFAULT_REFERENCE_DISCOVERY_DEADLINE_MS = 15000"

definition DEFAULT_REFERENCE_DISCOVERY_CACHE_TTL_MS :: int where
  "DEFAULT_REFERENCE_DISCOVERY_CACHE_TTL_MS = 30000"

datatype discovery_failure = DiscoveryTimeout | DiscoveryUnavailable error

record discovery =
  di_cache :: "(pubkey \<times> int \<times> market_selection) list"
  di_inFlight :: "pubkey list"
  di_scans :: "pubkey list"

definition no_discovery :: discovery where
  "no_discovery = \<lparr>di_cache = [], di_inFlight = [], di_scans = []\<rparr>"

text \<open>A question: answered from the cache, joined to the scan under way, or starting one.\<close>

definition discover_ask :: "int \<Rightarrow> pubkey \<Rightarrow> discovery \<Rightarrow> market_selection option \<times> discovery" where
  "discover_ask now mint d =
    (let cached = map_of (di_cache d) mint;
         d1 = (case cached of None \<Rightarrow> d
           | Some _ \<Rightarrow> d\<lparr>di_cache := filter (\<lambda>(k, _). k \<noteq> mint) (di_cache d)\<rparr>)
     in case cached of
          Some (expiresAt, selection) \<Rightarrow>
            if expiresAt > now then (Some selection, d)
            else (None, if mint \<in> set (di_inFlight d1) then d1
              else d1\<lparr>di_inFlight := mint # di_inFlight d1, di_scans := mint # di_scans d1\<rparr>)
        | None \<Rightarrow> (None, if mint \<in> set (di_inFlight d) then d
              else d\<lparr>di_inFlight := mint # di_inFlight d, di_scans := mint # di_scans d\<rparr>))"

text \<open>What a scan settles to for all that wait; None: the deadline came first.\<close>

definition discovery_outcome :: "market_selection res option \<Rightarrow> discovery_failure + market_selection" where
  "discovery_outcome outcome = (case outcome of
     None \<Rightarrow> Inl DiscoveryTimeout
   | Some (Inl e) \<Rightarrow> Inl (DiscoveryUnavailable e)
   | Some (Inr selection) \<Rightarrow> Inr selection)"

definition discover_done :: "int \<Rightarrow> pubkey \<Rightarrow> market_selection res option \<Rightarrow> discovery \<Rightarrow> discovery" where
  "discover_done now mint outcome d =
    (if mint \<notin> set (di_inFlight d) then d
     else (let d1 = d\<lparr>di_inFlight := remove1 mint (di_inFlight d)\<rparr> in
       case discovery_outcome outcome of
         Inl _ \<Rightarrow> d1
       | Inr selection \<Rightarrow>
           if ms_chosen selection = None then d1
           else d1\<lparr>di_cache := upsert mint (now + DEFAULT_REFERENCE_DISCOVERY_CACHE_TTL_MS, selection) (di_cache d1)\<rparr>))"

datatype discovery_event = Ask int pubkey | Settle int pubkey "market_selection res option"

fun discovery_step :: "discovery_event \<Rightarrow> discovery \<Rightarrow> discovery" where
  "discovery_step (Ask now mint) d = snd (discover_ask now mint d)"
| "discovery_step (Settle now mint outcome) d = discover_done now mint outcome d"

definition discovery_run :: "discovery_event list \<Rightarrow> discovery \<Rightarrow> discovery" where
  "discovery_run evs d = fold discovery_step evs d"

subsection \<open>Reads with retries\<close>

text \<open>\<open>retryReferenceRpc\<close>: three attempts; the answer of each is a function of its number.\<close>

fun retry_rpc :: "nat \<Rightarrow> nat \<Rightarrow> (nat \<Rightarrow> 'a res) \<Rightarrow> discovery_failure + 'a" where
  "retry_rpc attempt 0 operation = Inl (DiscoveryUnavailable (ExternalError []))"
| "retry_rpc attempt (Suc left) operation = (case operation attempt of
     Inr v \<Rightarrow> Inr v
   | Inl e \<Rightarrow> if left = 0 then Inl (DiscoveryUnavailable e) else retry_rpc (Suc attempt) left operation)"

definition retryReferenceRpc :: "(nat \<Rightarrow> 'a res) \<Rightarrow> discovery_failure + 'a" where
  "retryReferenceRpc operation = retry_rpc 1 3 operation"

subsection \<open>The resolve handler\<close>

datatype resolve_source = PumpVenueDerived | ExplicitPool | Discovered pick_reason

definition parse_key :: "web3 \<Rightarrow> string \<Rightarrow> pubkey res" where
  "parse_key w s = (case parsePubkey w s of None \<Rightarrow> Inl (PlainError ''Invalid public key input'') | Some k \<Rightarrow> Inr k)"

text \<open>The candidate without its resolved reference, and where it came from.\<close>

definition resolve_handler ::
  "web3 \<Rightarrow> account_reader \<Rightarrow> (pubkey \<Rightarrow> market_selection res) \<Rightarrow> string \<Rightarrow> string option \<Rightarrow>
    (market_candidate \<times> resolve_source) res" where
  "resolve_handler w reader discoverReference mintRaw poolRaw = bindR (parse_key w mintRaw) (\<lambda>mint.
     case poolRaw of
       Some (c # cs) \<Rightarrow>
         bindR (if c # cs = ''pump'' then Inr None else map_sum id Some (parse_key w (c # cs))) (\<lambda>pool.
         bindR (resolveCandidate w reader mint pool) (\<lambda>(candidate, reference).
           Inr (candidate, if c # cs = ''pump'' then PumpVenueDerived else ExplicitPool)))
     | _ \<Rightarrow> bindR (discoverReference mint) (\<lambda>selection. case ms_chosen selection of
           None \<Rightarrow> reject ''RESOLVE_FAILED''
         | Some (candidate, reference) \<Rightarrow> Inr (candidate, Discovered (ms_reason selection))))"

subsection \<open>Invariant\<close>

text \<open>The cache remembers chosen selections of the events of a run, each for the time to live.\<close>

definition discovery_inv :: "discovery_event list \<Rightarrow> discovery \<Rightarrow> bool" where
  "discovery_inv evs d \<longleftrightarrow> distinct (di_inFlight d) \<and> (\<forall>(mint, expiresAt, selection) \<in> set (di_cache d).
     ms_chosen selection \<noteq> None \<and>
     Settle (expiresAt - DEFAULT_REFERENCE_DISCOVERY_CACHE_TTL_MS) mint (Some (Inr selection)) \<in> set evs)"

lemma discovery_inv_mono: "discovery_inv evs d \<Longrightarrow> set evs \<subseteq> set evs' \<Longrightarrow> discovery_inv evs' d"
  by (fastforce simp: discovery_inv_def)

lemma discovery_inv_ask: "discovery_inv evs d \<Longrightarrow> discovery_inv evs (snd (discover_ask now mint d))"
  by (auto simp: discovery_inv_def discover_ask_def Let_def split: option.splits)

lemma discovery_inv_done:
  "discovery_inv evs d \<Longrightarrow> Settle now mint outcome \<in> set evs \<Longrightarrow> discovery_inv evs (discover_done now mint outcome d)"
  by (auto simp: discovery_inv_def discover_done_def discovery_outcome_def Let_def split: option.splits sum.splits
      dest!: set_upsert)

lemma discovery_inv_run: "discovery_inv evs0 d \<Longrightarrow> discovery_inv (evs0 @ evs) (discovery_run evs d)"
proof (induction evs arbitrary: d evs0)
  case (Cons ev evs)
  have "discovery_inv (evs0 @ [ev]) d"
    by (rule discovery_inv_mono [OF Cons.prems]) auto
  then have "discovery_inv (evs0 @ [ev]) (discovery_step ev d)"
    by (cases ev) (simp_all add: discovery_inv_ask discovery_inv_done)
  from Cons.IH [OF this] show ?case by (simp add: discovery_run_def)
qed (simp add: discovery_run_def)


definition discovery_events :: "market_selection \<Rightarrow> discovery_event list" where
  "discovery_events selection = [Ask 0 (PublicKey ''mint''), Settle 1000 (PublicKey ''mint'') (Some (Inr selection)), Ask 2000 (PublicKey ''other'')]"


end
