(* ===== verification/CallerPaid.thy ===== *)
theory CallerPaid
  imports PipelineProps UploadProps FetchHandler
begin

text \<open>
  The caller-paid endpoints of \<open>quote-service/server.ts\<close>: the policy that is read from the
  environment, \<open>prepare\<close>, which answers with an unsigned burn, and \<open>submitSigned\<close>, which
  relays a burn its caller has signed. Neither keeps any state. A field of the policy that nothing reads
  (\<open>production\<close>, \<open>approvedLookupTables\<close>) is left out; a \<open>number\<close> is its exact value.
\<close>

subsection \<open>The policy of the environment\<close>

type_synonym environment = "string \<Rightarrow> string option"

definition safe_integer :: "string \<Rightarrow> int option" where
  "safe_integer raw = (case as_integer (js_Number (JStr raw)) of
     Some n \<Rightarrow> if \<bar>n\<bar> \<le> 2 ^ 53 - 1 then Some n else None
   | None \<Rightarrow> None)"

definition positiveInteger :: "environment \<Rightarrow> string \<Rightarrow> int option \<Rightarrow> int res" where
  "positiveInteger env name fallback =
    (let raw = (case env name of Some s \<Rightarrow> s | None \<Rightarrow> []) in
     case (if raw = [] then fallback else None) of
       Some n \<Rightarrow> Inr n
     | None \<Rightarrow> (case (if raw = [] then None else safe_integer raw) of
         Some n \<Rightarrow> if n \<le> 0 then Inl (PlainError (name @ '' must be a positive safe integer'')) else Inr n
       | None \<Rightarrow> Inl (PlainError (name @ '' must be a positive safe integer''))))"

definition nonNegativeInteger :: "environment \<Rightarrow> string \<Rightarrow> int \<Rightarrow> int res" where
  "nonNegativeInteger env name fallback =
    (case env name of
       None \<Rightarrow> Inr fallback
     | Some raw \<Rightarrow> if raw = [] then Inr fallback
        else (case safe_integer raw of
          Some n \<Rightarrow> if n < 0 then Inl (PlainError (name @ '' must be a non-negative safe integer'')) else Inr n
        | None \<Rightarrow> Inl (PlainError (name @ '' must be a non-negative safe integer''))))"

record policy_defaults =
  df_maxAmountLamports :: "string option"
  df_maxSlippageBps :: "int option"
  df_maxPriceImpactBps :: "int option"

definition no_defaults :: policy_defaults where
  "no_defaults = \<lparr>df_maxAmountLamports = None, df_maxSlippageBps = None, df_maxPriceImpactBps = None\<rparr>"

definition env_caps :: "environment \<Rightarrow> int list" where
  "env_caps env = filter (\<lambda>n. 0 < n) (List.map_filter safe_integer
    (js_split CHR '','' (case env ''BURNER_FITTING_MAX_ACCOUNTS'' of Some s \<Rightarrow> s | None \<Rightarrow> ''40,32,26,20,16,12'')))"

definition policyFromEnv :: "environment \<Rightarrow> policy_defaults \<Rightarrow> service_policy res" where
  "policyFromEnv env defaults =
    (case (case env ''BURNER_MAX_AMOUNT_LAMPORTS'' of Some s \<Rightarrow> Some s | None \<Rightarrow> df_maxAmountLamports defaults) of
       None \<Rightarrow> Inl (PlainError ''missing required environment variable BURNER_MAX_AMOUNT_LAMPORTS'')
     | Some maxAmount \<Rightarrow>
        if maxAmount = [] then Inl (PlainError ''missing required environment variable BURNER_MAX_AMOUNT_LAMPORTS'')
        else
        bindR (js_BigInt maxAmount) (\<lambda>maxAmountPerBurn.
        bindR (positiveInteger env ''BURNER_MAX_SLIPPAGE_BPS'' (df_maxSlippageBps defaults)) (\<lambda>slippage.
        bindR (positiveInteger env ''BURNER_MAX_PRICE_IMPACT_BPS'' (df_maxPriceImpactBps defaults)) (\<lambda>impact.
        bindR (positiveInteger env ''BURNER_COMPUTE_UNIT_LIMIT'' (Some 1400000)) (\<lambda>units.
        bindR (positiveInteger env ''BURNER_MIN_REMAINING_BLOCK_HEIGHTS'' (Some 50)) (\<lambda>heights.
        bindR (positiveInteger env ''BURNER_VAULT_LEASE_TTL_MS'' (Some 180000)) (\<lambda>ttl.
        bindR (case env ''BURNER_RETRY_ATTEMPTS'' of
            Some _ \<Rightarrow> bindR (nonNegativeInteger env ''BURNER_RETRY_ATTEMPTS'' 2) (\<lambda>n. Inr (Some n))
          | None \<Rightarrow> Inr None) (\<lambda>retries.
          Inr \<lparr>po_maxAmountPerBurn = maxAmountPerBurn, po_maxSlippageBps = slippage,
               po_maxPriceImpactBps = of_int impact, po_computeUnitLimit = units,
               po_minRemainingBlockHeights = heights, po_leaseTtlMs = ttl,
               po_fittingMaxAccounts = env_caps env, po_retryAttempts = retries\<rparr>))))))))"

subsection \<open>The two endpoints\<close>

definition number_or_undefined :: "int option \<Rightarrow> jsval" where
  "number_or_undefined v = (case v of Some n \<Rightarrow> JInt n | None \<Rightarrow> JUndef)"

text \<open>\<open>parsed\<close> without its caller, prepared for that caller.\<close>

definition prepare_asked :: "'tx dependencies \<Rightarrow> jsval \<Rightarrow> (pubkey \<times> 'tx prepared_burn) res" where
  "prepare_asked deps parsed = (case parsed of
     JObj object \<Rightarrow>
       (case field object ''callerPublicKey'' of
          JStr callerPublicKey \<Rightarrow>
            (case parsePubkey (d_web3 deps) callerPublicKey of
               None \<Rightarrow> reject ''INVALID_CALLER''
             | Some caller \<Rightarrow>
                bindR (prepare deps (JObj (filter (\<lambda>kv. fst kv \<noteq> ''callerPublicKey'') object)) caller) (\<lambda>prepared.
                  Inr (caller, prepared)))
        | _ \<Rightarrow> reject ''INVALID_CALLER'')
   | _ \<Rightarrow> reject ''INVALID_REQUEST'')"

definition prepared_json :: "pubkey \<Rightarrow> 'tx prepared_burn \<Rightarrow> byte list \<Rightarrow> json_object" where
  "prepared_json caller prepared wire =
    [(''preparationId'', JStr (pb_requestId prepared)),
     (''requestId'', JStr (pb_requestId prepared)), (''vault'', JStr (pb_vault prepared)),
     (''callerPublicKey'', JStr (toBase58 caller)),
     (''transactionBase64'', JStr (base64_encode wire)),
     (''messageSha256'', JStr (bb_digest (pb_built prepared))),
     (''lastValidBlockHeight'', JInt (lb_lastValidBlockHeight (bb_validity (pb_built prepared)))),
     (''contextSlot'', JInt (lb_contextSlot (bb_validity (pb_built prepared)))),
     (''transactionBytes'', JInt (int (bb_bytes (pb_built prepared)))),
     (''accountLocks'', JInt (int (bb_locks (pb_built prepared)))),
     (''simulatedUnits'', number_or_undefined (bb_simulatedUnits (pb_built prepared))),
     (''minimumOutputs'', JArr (map (JStr \<circ> js_of_int) (pb_minimumOutputs prepared)))]"

definition prepare_handler :: "'tx dependencies \<Rightarrow> jsval \<Rightarrow> json_object res" where
  "prepare_handler deps parsed =
    bindR (prepare_asked deps parsed) (\<lambda>(caller, prepared).
    bindR (tc_serialize (d_txlib deps) (bb_transaction (pb_built prepared))) (\<lambda>wire.
      Inr (prepared_json caller prepared wire)))"

text \<open>\<open>/^[A-Za-z0-9+/]+={0,2}$/\<close>\<close>

definition base64_text :: "string \<Rightarrow> bool" where
  "base64_text s \<longleftrightarrow> takeWhile base64_char s \<noteq> [] \<and> dropWhile base64_char s \<in> {[], ''='', ''==''}"

text \<open>What is relayed: the bytes, the transaction the gate accepted, and the request id as it is passed on.\<close>

record 'tx relay =
  ry_wire :: "byte list"
  ry_gate :: "'tx submittable"
  ry_requestId :: "string option"

definition submit_gate :: "'tx tx_library \<Rightarrow> pubkey \<Rightarrow> jsval \<Rightarrow> 'tx relay res" where
  "submit_gate lib burner parsed = (case parsed of
     JObj object \<Rightarrow>
       if list_ex (\<lambda>kv. fst kv \<noteq> ''requestId'' \<and> fst kv \<noteq> ''signedTransactionBase64'') object
       then reject ''FORBIDDEN_REQUEST_FIELD''
       else (case field object ''signedTransactionBase64'' of
          JStr s \<Rightarrow>
            if \<not> base64_text s then reject ''INVALID_TRANSACTION''
            else (let wire = base64_decode s in
              bindR (assertSubmittableSignedTransaction lib wire burner) (\<lambda>gate.
                Inr \<lparr>ry_wire = wire, ry_gate = gate, ry_requestId =
                  (case field object ''requestId'' of JStr r \<Rightarrow> Some (take 128 r) | _ \<Rightarrow> None)\<rparr>))
        | _ \<Rightarrow> reject ''INVALID_TRANSACTION'')
   | _ \<Rightarrow> reject ''INVALID_REQUEST'')"

definition relay_metadata :: "'tx relay \<Rightarrow> (string \<times> string) list" where
  "relay_metadata r = [(''purpose'', ''onchain-burner-keyless-relay''),
      (''messageSha256'', sb_messageSha256 (ry_gate r)),
      (''feePayer'', toBase58 (sb_feePayer (ry_gate r)))]
    @ (case ry_requestId r of Some i \<Rightarrow> [(''requestId'', i)] | None \<Rightarrow> [])"

definition submit_handler ::
  "'tx tx_library \<Rightarrow> pubkey \<Rightarrow> (byte list \<Rightarrow> (string \<times> string) list \<Rightarrow> string res) \<Rightarrow> jsval \<Rightarrow> json_object res" where
  "submit_handler lib burner submit parsed =
    bindR (submit_gate lib burner parsed) (\<lambda>r.
    bindR (submit (ry_wire r) (relay_metadata r)) (\<lambda>submissionId.
      Inr [(''requestId'', case ry_requestId r of Some i \<Rightarrow> JStr i | None \<Rightarrow> JUndef),
           (''submissionId'', JStr submissionId), (''messageSha256'', JStr (sb_messageSha256 (ry_gate r))),
           (''transactionBytes'', JInt (int (length (ry_wire r))))]))"

subsection \<open>What is relayed\<close>

lemma canonical_text:
  "canonical_base64 s \<Longrightarrow>
    dropWhile base64_char s \<in> {[], ''='', ''==''} \<and> (s \<noteq> [] \<longrightarrow> takeWhile base64_char s \<noteq> [])"
proof (induction s rule: canonical_base64.induct)
  case (2 a b c d rest)
  have "\<not> base64_char CHR ''=''" by code_simp
  then show ?case using 2 by auto
qed auto

lemma base64_text_encode: "wire \<noteq> [] \<Longrightarrow> base64_text (base64_encode wire)"
proof -
  assume "wire \<noteq> []"
  then have "base64_encode wire \<noteq> []" using base64_round_trip [of wire] by (auto simp: base64_decode_def)
  then show ?thesis using canonical_text [OF canonical_encode] by (auto simp: base64_text_def)
qed

lemma assertSubmittable_Inr:
  "assertSubmittableSignedTransaction lib wire burner = Inr sb \<longleftrightarrow>
    length wire \<le> 1232 \<and> tc_deserialize lib wire = Some (sb_transaction sb) \<and>
    map (nth_opt (tc_staticKeys lib (sb_transaction sb))) (tc_programIdIndexes lib (sb_transaction sb))
      = [Some COMPUTE_BUDGET_PROGRAM, Some burner] \<and>
    tc_requiredSignatures lib (sb_transaction sb) = 1 \<and>
    nth_opt (tc_staticKeys lib (sb_transaction sb)) 0 = Some (sb_feePayer sb) \<and>
    (\<exists>message signature. tc_messageBytes lib (sb_transaction sb) = Inr message \<and>
      tc_signatures lib (sb_transaction sb) = [signature] \<and>
      verifyEd25519 lib (sb_feePayer sb) message signature \<and> sb_messageSha256 sb = tc_sha256 lib message)"
proof -
  have one: "length xs = Suc 0 \<longleftrightarrow> (\<exists>x. xs = [x])" for xs :: "byte list list"
    by (cases xs) auto
  show ?thesis
    by (cases sb) (auto simp: assertSubmittableSignedTransaction_def if_Inl_Inr bindR_Inr_iff one
        case_option_Inl_Inr MAX_TRANSACTION_BYTES_def not_less split: option.splits)
qed

lemma submit_gate_Inr:
  "submit_gate lib burner parsed = Inr r \<longleftrightarrow> (\<exists>object s. parsed = JObj object \<and>
    fst ` set object \<subseteq> {''requestId'', ''signedTransactionBase64''} \<and>
    field object ''signedTransactionBase64'' = JStr s \<and> base64_text s \<and> ry_wire r = base64_decode s \<and>
    assertSubmittableSignedTransaction lib (ry_wire r) burner = Inr (ry_gate r) \<and>
    ry_requestId r = (case field object ''requestId'' of JStr i \<Rightarrow> Some (take 128 i) | _ \<Rightarrow> None))"
  by (cases r) (auto simp: submit_gate_def Let_def bindR_Inr_iff if_Inl_Inr list_ex_iff
      split: jsval.splits)


subsection \<open>From prepare to submit\<close>

text \<open>Two transactions with the same message: what a signature does not change.\<close>

definition same_message :: "'tx tx_library \<Rightarrow> 'tx \<Rightarrow> 'tx \<Rightarrow> bool" where
  "same_message lib tx tx' \<longleftrightarrow> tc_staticKeys lib tx' = tc_staticKeys lib tx \<and>
    tc_requiredSignatures lib tx' = tc_requiredSignatures lib tx \<and>
    tc_programIdIndexes lib tx' = tc_programIdIndexes lib tx \<and>
    tc_messageBytes lib tx' = tc_messageBytes lib tx"

text \<open>
  What the code relies on of \<open>@solana/web3.js\<close> for a transaction: a compiled message keeps its
  programs and its signers among its static keys, and deserializing what was serialized gives back
  the message, with an empty signature for every signer.
\<close>

definition keeps_message :: "'tx tx_library \<Rightarrow> 'tx \<Rightarrow> bool" where
  "keeps_message lib tx \<longleftrightarrow>
    (\<forall>payer blockhash ixs tables. tc_compile lib payer blockhash ixs tables = Inr tx \<longrightarrow>
      map (nth_opt (tc_staticKeys lib tx)) (tc_programIdIndexes lib tx) = map (Some \<circ> programId) ixs \<and>
      tc_requiredSignatures lib tx \<le> length (tc_staticKeys lib tx)) \<and>
    (\<forall>wire. tc_serialize lib tx = Inr wire \<longrightarrow> wire \<noteq> [] \<and>
      (\<exists>tx'. tc_deserialize lib wire = Some tx' \<and> same_message lib tx tx' \<and>
        tc_signatures lib tx' = replicate (tc_requiredSignatures lib tx) (replicate 64 0)))"

text \<open>A caller signs what it was sent and changes nothing else.\<close>

definition signed_by_caller :: "'tx tx_library \<Rightarrow> byte list \<Rightarrow> pubkey \<Rightarrow> byte list \<Rightarrow> bool" where
  "signed_by_caller lib sent caller wire \<longleftrightarrow> length wire = length sent \<and>
    (\<exists>tx tx' message signature. tc_deserialize lib sent = Some tx \<and> tc_deserialize lib wire = Some tx' \<and>
      same_message lib tx tx' \<and> tc_signatures lib tx' = [signature] \<and>
      tc_messageBytes lib tx = Inr message \<and> verifyEd25519 lib caller message signature)"

lemma signed_by_callerE:
  assumes "signed_by_caller lib sent caller wire" "tc_deserialize lib sent = Some tx"
    and "tc_messageBytes lib tx = Inr message"
  obtains tx' signature where "tc_deserialize lib wire = Some tx'" "same_message lib tx tx'"
    "tc_signatures lib tx' = [signature]" "verifyEd25519 lib caller message signature"
    "length wire = length sent"
  using assms unfolding signed_by_caller_def by (metis option.inject sum.inject(2))

lemma same_messageD:
  "same_message lib tx tx' \<Longrightarrow> tc_staticKeys lib tx' = tc_staticKeys lib tx"
  "same_message lib tx tx' \<Longrightarrow> tc_requiredSignatures lib tx' = tc_requiredSignatures lib tx"
  "same_message lib tx tx' \<Longrightarrow> tc_programIdIndexes lib tx' = tc_programIdIndexes lib tx"
  "same_message lib tx tx' \<Longrightarrow> tc_messageBytes lib tx' = tc_messageBytes lib tx"
  by (simp_all add: same_message_def)

lemma built_digest:
  assumes "buildAndSimulate deps rq caller = Inr built"
  shows "\<exists>message. tc_messageBytes (d_txlib deps) (bb_transaction built) = Inr message \<and>
    bb_digest built = tc_sha256 (d_txlib deps) message"
  using assms by (auto simp: buildAndSimulate_def bindR_Inr_iff)

lemma prepared_message:
  assumes "prepare deps raw caller = Inr pb"
    and "keeps_message (d_txlib deps) (bb_transaction (pb_built pb))"
  obtains message keys where
    "tc_messageBytes (d_txlib deps) (bb_transaction (pb_built pb)) = Inr message"
    "bb_digest (pb_built pb) = tc_sha256 (d_txlib deps) message"
    "tc_staticKeys (d_txlib deps) (bb_transaction (pb_built pb)) = caller # keys"
    "tc_requiredSignatures (d_txlib deps) (bb_transaction (pb_built pb)) = 1"
    "map (nth_opt (caller # keys)) (tc_programIdIndexes (d_txlib deps) (bb_transaction (pb_built pb)))
      = [Some COMPUTE_BUDGET_PROGRAM, Some (burnerProgram deps)]"
    "transactionBytes (d_txlib deps) (bb_transaction (pb_built pb)) \<le> 1232"
proof -
  obtain rq where built: "buildAndSimulate deps rq caller = Inr (pb_built pb)"
    using assms(1) by (auto simp: prepare_def bindR_Inr_iff)
  obtain message where message: "tc_messageBytes (d_txlib deps) (bb_transaction (pb_built pb)) = Inr message"
      "bb_digest (pb_built pb) = tc_sha256 (d_txlib deps) message"
    using built_digest [OF built] by blast
  obtain cx final a ex capIndex cap where cx: "admitBurn deps rq caller = Inr cx"
      "tryRung deps cx a ex capIndex cap = Inr (Some final)"
      "bb_transaction (pb_built pb) = fb_transaction final"
    by (rule buildAndSimulate_Inr [OF built])
  let ?lib = "d_txlib deps" and ?tx = "fb_transaction final"
  obtain burn where fit: "transactionBytes ?lib ?tx \<le> 1232"
      "take (tc_requiredSignatures ?lib ?tx) (tc_staticKeys ?lib ?tx) = [caller]"
      "buildBurnInstruction (d_web3 deps) (burnerProgram deps) caller (rq_launchMint rq)
         (rq_pda rq) (cx_wsolAta cx) (rq_amount rq) (fb_legs final) = Inr burn"
      "tc_compile ?lib caller (lb_blockhash (fb_validity final))
         [computeInstruction ?lib (po_computeUnitLimit (d_policy deps)), burn] (fb_lookupTables final) = Inr ?tx"
    using tryRung_Some(1) [OF cx(2)] admitBurn_Inr(1,2) [OF cx(1)] unfolding fits_def Let_def by auto
  have "programId burn = burnerProgram deps" by (rule buildBurnInstruction_Inr [OF fit(3)])
  then have programs: "map (nth_opt (tc_staticKeys ?lib ?tx)) (tc_programIdIndexes ?lib ?tx)
      = [Some COMPUTE_BUDGET_PROGRAM, Some (burnerProgram deps)]"
      and few: "tc_requiredSignatures ?lib ?tx \<le> length (tc_staticKeys ?lib ?tx)"
    using assms(2) fit(4) unfolding keeps_message_def cx(3) by (force simp: computeInstruction_def)+
  have "min (length (tc_staticKeys ?lib ?tx)) (tc_requiredSignatures ?lib ?tx) = 1"
    using arg_cong [OF fit(2), of length] by simp
  then have one: "tc_requiredSignatures ?lib ?tx = 1" using few by simp
  moreover obtain keys where "tc_staticKeys ?lib ?tx = caller # keys"
    using fit(2) one by (cases "tc_staticKeys ?lib ?tx") auto
  ultimately show ?thesis
    using that message programs fit(1) unfolding cx(3) by simp
qed

lemma prepare_asked_Inr:
  "prepare_asked deps parsed = Inr (caller, pb) \<Longrightarrow> \<exists>raw. prepare deps raw caller = Inr pb"
  by (auto simp: prepare_asked_def bindR_Inr_iff split: jsval.splits option.splits)

lemma prepared_json_fields:
  "field (prepared_json caller pb wire) ''requestId'' = JStr (pb_requestId pb)"
  "field (prepared_json caller pb wire) ''transactionBase64'' = JStr (base64_encode wire)"
  "field (prepared_json caller pb wire) ''messageSha256'' = JStr (bb_digest (pb_built pb))"
  by (simp_all add: prepared_json_def field_def)

text \<open>The request a caller sends with the burn it has signed.\<close>

definition submission :: "jsval \<Rightarrow> byte list \<Rightarrow> jsval" where
  "submission requestId wire =
    JObj [(''requestId'', requestId), (''signedTransactionBase64'', JStr (base64_encode wire))]"

lemma prepared_relay:
  assumes "prepare_asked deps parsed = Inr (caller, pb)"
    and "prepare_handler deps parsed = Inr answer"
    and "keeps_message (d_txlib deps) (bb_transaction (pb_built pb))"
    and "field answer ''transactionBase64'' = JStr sent"
    and "signed_by_caller (d_txlib deps) (base64_decode sent) caller wire"
  shows "submit_handler (d_txlib deps) (burnerProgram deps) submit (submission (field answer ''requestId'') wire)
    = bindR (submit wire [(''purpose'', ''onchain-burner-keyless-relay''),
        (''messageSha256'', bb_digest (pb_built pb)), (''feePayer'', toBase58 caller),
        (''requestId'', take 128 (pb_requestId pb))])
      (\<lambda>submissionId. Inr [(''requestId'', JStr (take 128 (pb_requestId pb))), (''submissionId'', JStr submissionId),
        (''messageSha256'', field answer ''messageSha256''), (''transactionBytes'', JInt (int (length wire)))])"
proof -
  let ?lib = "d_txlib deps"
  obtain raw where raw: "prepare deps raw caller = Inr pb" using prepare_asked_Inr [OF assms(1)] ..
  obtain bytes where bytes: "tc_serialize ?lib (bb_transaction (pb_built pb)) = Inr bytes"
      "answer = prepared_json caller pb bytes"
    using assms(1,2) by (auto simp: prepare_handler_def bindR_Inr_iff)
  then have sent: "base64_decode sent = bytes"
    using assms(4) by (auto simp: prepared_json_fields base64_round_trip)
  obtain message keys where msg: "tc_messageBytes ?lib (bb_transaction (pb_built pb)) = Inr message"
      "bb_digest (pb_built pb) = tc_sha256 ?lib message"
      "tc_staticKeys ?lib (bb_transaction (pb_built pb)) = caller # keys"
      "tc_requiredSignatures ?lib (bb_transaction (pb_built pb)) = 1"
      "map (nth_opt (caller # keys)) (tc_programIdIndexes ?lib (bb_transaction (pb_built pb)))
        = [Some COMPUTE_BUDGET_PROGRAM, Some (burnerProgram deps)]"
      "transactionBytes ?lib (bb_transaction (pb_built pb)) \<le> 1232"
    by (rule prepared_message [OF raw assms(3)])
  obtain tx0 where tx0: "tc_deserialize ?lib bytes = Some tx0" "bytes \<noteq> []"
      "same_message ?lib (bb_transaction (pb_built pb)) tx0"
    using assms(3) bytes(1) unfolding keeps_message_def by blast
  have "tc_messageBytes ?lib tx0 = Inr message" using same_messageD(4) [OF tx0(3)] msg(1) by simp
  then obtain tx signature where tx: "tc_deserialize ?lib wire = Some tx" "same_message ?lib tx0 tx"
      "tc_signatures ?lib tx = [signature]" "verifyEd25519 ?lib caller message signature"
      "length wire = length bytes"
    by (rule signed_by_callerE [OF assms(5) [unfolded sent] tx0(1)])
  note same = same_messageD [OF tx(2), unfolded same_messageD [OF tx0(3)]]
  define gate where "gate = \<lparr>sb_transaction = tx, sb_feePayer = caller, sb_messageSha256 = tc_sha256 ?lib message\<rparr>"
  have "assertSubmittableSignedTransaction ?lib wire (burnerProgram deps) = Inr gate"
    unfolding assertSubmittable_Inr
    using tx(1,3-5) same msg bytes(1) by (simp add: gate_def transactionBytes_def nth_opt_def)
  moreover have "wire \<noteq> []" using tx(5) tx0(2) by (metis length_0_conv)
  then have "base64_text (base64_encode wire)" by (rule base64_text_encode)
  ultimately have "submit_gate ?lib (burnerProgram deps) (submission (JStr (pb_requestId pb)) wire)
      = Inr \<lparr>ry_wire = wire, ry_gate = gate, ry_requestId = Some (take 128 (pb_requestId pb))\<rparr>"
    unfolding submit_gate_Inr by (simp add: submission_def field_def base64_round_trip)
  then show ?thesis
    by (simp add: submit_handler_def bytes(2) prepared_json_fields relay_metadata_def gate_def msg(2))
qed

text \<open>
  A prepared burn can be submitted: when the caller it was prepared for signs the transaction of the
  answer and sends it back with the id of the answer, the submission endpoint relays those very bytes,
  with the digest that \<open>prepare\<close> has answered and the caller as the fee payer, and answers with the
  same id and digest; whatever the burn, the caller and the relay are.
\<close>

theorem prepared_burn_relayed:
  assumes "prepare_asked deps parsed = Inr (caller, pb)"
    and "prepare_handler deps parsed = Inr answer"
    and "keeps_message (d_txlib deps) (bb_transaction (pb_built pb))"
    and "field answer ''transactionBase64'' = JStr sent"
    and "signed_by_caller (d_txlib deps) (base64_decode sent) caller wire"
  shows "submit_handler (d_txlib deps) (burnerProgram deps) submit (submission (field answer ''requestId'') wire)
    = bindR (submit wire [(''purpose'', ''onchain-burner-keyless-relay''),
        (''messageSha256'', bb_digest (pb_built pb)), (''feePayer'', toBase58 caller),
        (''requestId'', take 128 (pb_requestId pb))])
      (\<lambda>submissionId. Inr [(''requestId'', JStr (take 128 (pb_requestId pb))), (''submissionId'', JStr submissionId),
        (''messageSha256'', field answer ''messageSha256''), (''transactionBytes'', JInt (int (length wire)))])"
  using assms by (rule prepared_relay)

text \<open>The example burn, signed by its caller.\<close>

definition example_ask :: jsval where
  "example_ask = (case example_request of
     JObj object \<Rightarrow> JObj ((''callerPublicKey'', JStr (toBase58 (example_key 67))) # object) | v \<Rightarrow> v)"

lemma example_asked:
  assumes "prepare example_deps example_request (example_key 67) = Inr pb"
  shows "prepare_asked example_deps example_ask = Inr (example_key 67, pb)"
proof -
  have "JObj (filter (\<lambda>kv. fst kv \<noteq> ''callerPublicKey'') (case example_ask of JObj object \<Rightarrow> object)) = example_request"
    by (simp add: example_ask_def example_request_def)
  moreover have "parsePubkey (d_web3 example_deps) (toBase58 (example_key 67)) = Some (example_key 67)"
    by (simp add: example_deps_def)
  ultimately show ?thesis
    using assms by (simp add: prepare_asked_def example_ask_def example_request_def field_def)
qed

lemma example_built_transaction:
  assumes "prepare example_deps example_request (example_key 67) = Inr pb"
  obtains ixs rest where "bb_transaction (pb_built pb) = (example_key 67, ixs)"
    "map programId ixs = [COMPUTE_BUDGET_PROGRAM, DEFAULT_BURNER_PROGRAM]" "concat (map ix_data ixs) = 2 # rest"
proof -
  obtain rq where built: "buildAndSimulate example_deps rq (example_key 67) = Inr (pb_built pb)"
    using assms by (auto simp: prepare_def bindR_Inr_iff)
  obtain cx final a ex capIndex cap where cx: "admitBurn example_deps rq (example_key 67) = Inr cx"
      "tryRung example_deps cx a ex capIndex cap = Inr (Some final)"
      "bb_transaction (pb_built pb) = fb_transaction final"
    by (rule buildAndSimulate_Inr [OF built])
  let ?compute = "computeInstruction example_txlib (po_computeUnitLimit (d_policy example_deps))"
  obtain burn where "buildBurnInstruction (d_web3 example_deps) (burnerProgram example_deps) (example_key 67)
        (rq_launchMint rq) (rq_pda rq) (cx_wsolAta cx) (rq_amount rq) (fb_legs final) = Inr burn"
      "tc_compile example_txlib (example_key 67) (lb_blockhash (fb_validity final)) [?compute, burn]
        (fb_lookupTables final) = Inr (fb_transaction final)"
    using tryRung_Some(1) [OF cx(2)] admitBurn_Inr(1,2) [OF cx(1)] unfolding fits_def Let_def
    by (auto simp: example_deps_def)
  moreover from this(1) have "programId burn = burnerProgram example_deps" by (rule buildBurnInstruction_Inr)
  ultimately show ?thesis
    using that [of "[?compute, burn]"] cx(3)
    by (simp add: example_txlib_def computeInstruction_def burnerProgram_def example_deps_def)
qed

lemma unmarked:
  assumes "map programId ixs = [COMPUTE_BUDGET_PROGRAM, DEFAULT_BURNER_PROGRAM]"
  shows "signature_mark \<notin> set ixs"
proof
  assume "signature_mark \<in> set ixs"
  then have "programId signature_mark \<in> set (map programId ixs)" by auto
  then show False
    unfolding assms
    by (simp add: signature_mark_def SYSTEM_PROGRAM_def COMPUTE_BUDGET_PROGRAM_def DEFAULT_BURNER_PROGRAM_def)
qed

lemma example_keeps:
  assumes "map programId ixs = [COMPUTE_BUDGET_PROGRAM, DEFAULT_BURNER_PROGRAM]" "concat (map ix_data ixs) = 2 # rest"
  shows "keeps_message example_txlib (example_key 67, ixs)"
    and "signed_by_caller example_txlib (concat (map ix_data ixs)) (example_key 67) (255 # rest)"
proof -
  have "map (Some \<circ> programId) ixs = [Some COMPUTE_BUDGET_PROGRAM, Some DEFAULT_BURNER_PROGRAM]"
    using arg_cong [OF assms(1), of "map Some"] by simp
  moreover have "signature_mark \<noteq> example_wire w" for w
    by (simp add: signature_mark_def example_wire_def SYSTEM_PROGRAM_def COMPUTE_BUDGET_PROGRAM_def)
  moreover have "ix_data (example_wire w) = w" "ix_data signature_mark = []" for w
    by (simp_all add: example_wire_def signature_mark_def)
  ultimately show "keeps_message example_txlib (example_key 67, ixs)"
    and "signed_by_caller example_txlib (concat (map ix_data ixs)) (example_key 67) (255 # rest)"
    using assms(2) unmarked [OF assms(1)]
    by (simp_all add: keeps_message_def same_message_def signed_by_caller_def example_txlib_def nth_opt_def
        verifyEd25519_def)
qed

lemma prepared_burn_relayed_witness:
  "\<exists>answer sent id digest. prepare_handler example_deps example_ask = Inr answer \<and>
    field answer ''transactionBase64'' = JStr sent \<and>
    submit_handler example_txlib DEFAULT_BURNER_PROGRAM (\<lambda>wire metadata. Inr ''sent-1'')
      (submission (field answer ''requestId'') (255 # tl (base64_decode sent)))
    = Inr [(''requestId'', JStr id), (''submissionId'', JStr ''sent-1''), (''messageSha256'', digest),
        (''transactionBytes'', JInt (int (length (base64_decode sent))))]"
proof -
  obtain pb where pb: "prepare example_deps example_request (example_key 67) = Inr pb"
    by (rule example_prepare_Inr)
  obtain ixs rest where ixs: "bb_transaction (pb_built pb) = (example_key 67, ixs)"
      "map programId ixs = [COMPUTE_BUDGET_PROGRAM, DEFAULT_BURNER_PROGRAM]" "concat (map ix_data ixs) = 2 # rest"
    by (rule example_built_transaction [OF pb])
  note asked = example_asked [OF pb]
  have lib: "d_txlib example_deps = example_txlib" "burnerProgram example_deps = DEFAULT_BURNER_PROGRAM"
    by (simp_all add: example_deps_def burnerProgram_def)
  let ?wire = "concat (map ix_data ixs)"
  have handled: "prepare_handler example_deps example_ask = Inr (prepared_json (example_key 67) pb ?wire)"
    using asked ixs(1) unmarked [OF ixs(2)] by (simp add: prepare_handler_def lib) (simp add: example_txlib_def)
  have keeps: "keeps_message (d_txlib example_deps) (bb_transaction (pb_built pb))"
    unfolding lib ixs(1) by (rule example_keeps(1) [OF ixs(2,3)])
  have signed: "signed_by_caller (d_txlib example_deps) (base64_decode (base64_encode ?wire)) (example_key 67) (255 # rest)"
    unfolding lib base64_round_trip by (rule example_keeps(2) [OF ixs(2,3)])
  show ?thesis
    using prepared_burn_relayed [OF asked handled keeps prepared_json_fields(2) signed, of "\<lambda>wire metadata. Inr ''sent-1''"]
      handled ixs(3) by (auto simp: lib prepared_json_fields base64_round_trip)
qed

subsection \<open>The policy of the service\<close>

lemma positiveInteger_Inr:
  "positiveInteger env name fallback = Inr n \<Longrightarrow> fallback = None \<or> (\<exists>d > 0. fallback = Some d) \<Longrightarrow> 0 < n"
  by (auto simp: positiveInteger_def Let_def split: if_splits option.splits)

text \<open>
  A policy that is read from the environment and passes the constructor keeps every bound the
  pipeline relies on, whatever the variables hold. Three variables have no default and are enough.
\<close>

theorem environment_policy:
  assumes "policyFromEnv env no_defaults = Inr policy" "checkPolicy policy = Inr ()"
  shows "0 < po_maxAmountPerBurn policy \<and> 0 < po_maxSlippageBps policy \<and> po_maxSlippageBps policy < 10000 \<and>
    0 < po_maxPriceImpactBps policy \<and> po_maxPriceImpactBps policy \<le> 10000 \<and>
    200000 < po_computeUnitLimit policy \<and> po_computeUnitLimit policy \<le> 1400000 \<and>
    0 < po_minRemainingBlockHeights policy \<and> 180000 \<le> po_leaseTtlMs policy \<and> retryLimit policy \<le> 5 \<and>
    list_all (\<lambda>n. 0 < n) (po_fittingMaxAccounts policy)"
proof -
  obtain amount slippage impact units heights ttl retries where env:
      "positiveInteger env ''BURNER_MAX_PRICE_IMPACT_BPS'' None = Inr impact"
      "positiveInteger env ''BURNER_MIN_REMAINING_BLOCK_HEIGHTS'' (Some 50) = Inr heights"
      "policy = \<lparr>po_maxAmountPerBurn = amount, po_maxSlippageBps = slippage, po_maxPriceImpactBps = of_int impact,
        po_computeUnitLimit = units, po_minRemainingBlockHeights = heights, po_leaseTtlMs = ttl,
        po_fittingMaxAccounts = env_caps env, po_retryAttempts = retries\<rparr>"
    using assms(1) by (auto simp: policyFromEnv_def no_defaults_def bindR_Inr_iff split: option.splits if_splits)
  have "0 < impact" "0 < heights"
    using positiveInteger_Inr [OF env(1)] positiveInteger_Inr [OF env(2)] by auto
  moreover have "list_all (\<lambda>n. 0 < n) (env_caps env)" by (simp add: env_caps_def list_all_iff)
  ultimately show ?thesis
    using assms(2) checkPolicy_retryLimit [OF assms(2)] unfolding env(3)
    by (auto simp: checkPolicy_def BPS_TOTAL_def if_Inl_Inr not_le not_less case_option_Inl_Inr)
qed

lemma environment_policy_witness:
  "\<exists>policy. policyFromEnv [''BURNER_MAX_AMOUNT_LAMPORTS'' \<mapsto> ''5000000000'', ''BURNER_MAX_SLIPPAGE_BPS'' \<mapsto> ''300'',
      ''BURNER_MAX_PRICE_IMPACT_BPS'' \<mapsto> ''500''] no_defaults = Inr policy \<and>
    po_fittingMaxAccounts policy = [40, 32, 26, 20, 16, 12] \<and> retryLimit policy \<le> 5"
proof -
  let ?env = "[''BURNER_MAX_AMOUNT_LAMPORTS'' \<mapsto> ''5000000000'', ''BURNER_MAX_SLIPPAGE_BPS'' \<mapsto> ''300'',
      ''BURNER_MAX_PRICE_IMPACT_BPS'' \<mapsto> ''500'']"
  let ?policy = "\<lparr>po_maxAmountPerBurn = 5000000000, po_maxSlippageBps = 300, po_maxPriceImpactBps = 500,
      po_computeUnitLimit = 1400000, po_minRemainingBlockHeights = 50, po_leaseTtlMs = 180000,
      po_fittingMaxAccounts = [40, 32, 26, 20, 16, 12], po_retryAttempts = None\<rparr>"
  have "policyFromEnv ?env no_defaults = Inr ?policy" by code_simp
  moreover have "checkPolicy ?policy = Inr ()" by (simp add: checkPolicy_def BPS_TOTAL_def)
  ultimately show ?thesis using environment_policy [of ?env ?policy] by simp
qed

end
