(* ===== verification/BurnClient.thy ===== *)
theory BurnClient
  imports CallerPaid
begin

text \<open>
  The burn client of the app, \<open>app/src/chain/service.ts\<close>: how it posts, which preparations it lets the
  wallet sign, and what it sends back. The \<open>fetch\<close> of the browser is a function of path and body, the
  wallet, \<open>@solana/web3.js\<close> and the configured program are parameters, and so is \<open>Buffer.from\<close> of the \<open>buffer\<close> package on a
  value that is not text. Message texts are left out.
\<close>

subsection \<open>Posting\<close>

record service_error =
  se_refused :: bool
  se_code :: jsval
  se_timedOut :: bool

datatype client_failure = ServiceFailure service_error | Thrown error

definition service_error :: service_error where
  "service_error = \<lparr>se_refused = False, se_code = JUndef, se_timedOut = False\<rparr>"

text \<open>How a \<open>fetch\<close> ends; a body that is not JSON reads as \<open>null\<close>.\<close>

datatype fetched = Unreachable | Abandoned | Answered int jsval

text \<open>\<open>payload?.key\<close>\<close>

definition member :: "jsval \<Rightarrow> string \<Rightarrow> jsval" where
  "member v key = (case v of JObj object \<Rightarrow> field object key | _ \<Rightarrow> JUndef)"

definition post :: "bool \<Rightarrow> fetched \<Rightarrow> client_failure + jsval" where
  "post deadline outcome = (case outcome of
     Unreachable \<Rightarrow> Inl (ServiceFailure service_error)
   | Abandoned \<Rightarrow> Inl (ServiceFailure (service_error\<lparr>se_timedOut := deadline\<rparr>))
   | Answered status payload \<Rightarrow>
       if status < 200 \<or> 299 < status \<or> payload = JNull
       then Inl (ServiceFailure (service_error\<lparr>se_refused := payload \<noteq> JNull, se_code := member payload ''code''\<rparr>))
       else Inr payload)"

subsection \<open>The caller-paid burn\<close>

record client_leg =
  cl_mint :: string
  cl_bps :: int
  cl_reference :: "string option"

record client_request =
  cr_launchMint :: string
  cr_legs :: "client_leg list"
  cr_amountInLamports :: string
  cr_lookupTableAddresses :: "string list option"

record 'tx wallet_handle =
  wh_publicKey :: pubkey
  wh_signTransaction :: "'tx \<Rightarrow> 'tx res"

text \<open>A reference that is the empty string counts as none, and so does an empty list of tables.\<close>

definition client_leg_json :: "client_leg \<Rightarrow> jsval" where
  "client_leg_json leg = JObj ([(''targetMint'', JStr (cl_mint leg)), (''bps'', JInt (cl_bps leg))]
    @ (case cl_reference leg of Some (c # cs) \<Rightarrow> [(''reference'', JStr (c # cs))] | _ \<Rightarrow> []))"

definition preparation_body :: "string \<Rightarrow> pubkey \<Rightarrow> client_request \<Rightarrow> jsval" where
  "preparation_body requestId caller request = JObj
    ([(''requestId'', JStr requestId), (''callerPublicKey'', JStr (toBase58 caller)),
      (''launchMint'', JStr (cr_launchMint request)), (''amountIn'', JStr (cr_amountInLamports request)),
      (''legs'', JArr (map client_leg_json (cr_legs request)))]
     @ (case cr_lookupTableAddresses request of
          Some (t # ts) \<Rightarrow> [(''lookupTableAddresses'', JArr (map JStr (t # ts)))] | _ \<Rightarrow> []))"

definition isZeroSignature :: "byte list \<Rightarrow> bool" where
  "isZeroSignature signature \<longleftrightarrow> list_all (\<lambda>b. b = 0) signature"

definition mismatch :: "client_failure + 'a" where
  "mismatch = Inl (ServiceFailure service_error)"

definition of_res :: "'a res \<Rightarrow> client_failure + 'a" where
  "of_res r = (case r of Inl e \<Rightarrow> Inl (Thrown e) | Inr x \<Rightarrow> Inr x)"

definition text_bytes :: "(jsval \<Rightarrow> byte list res) \<Rightarrow> jsval \<Rightarrow> byte list res" where
  "text_bytes bufferFrom v = (case v of JStr s \<Rightarrow> Inr (base64_decode s) | _ \<Rightarrow> bufferFrom v)"

text \<open>Everything that is checked before the wallet is asked: the transaction and its message.\<close>

definition check_preparation ::
  "'tx tx_library \<Rightarrow> pubkey \<Rightarrow> (jsval \<Rightarrow> byte list res) \<Rightarrow> string \<Rightarrow> pubkey \<Rightarrow> jsval \<Rightarrow>
    client_failure + 'tx \<times> byte list" where
  "check_preparation lib program bufferFrom requestId caller preparation =
    (if member preparation ''requestId'' \<noteq> JStr requestId \<or>
        member preparation ''callerPublicKey'' \<noteq> JStr (toBase58 caller) then mismatch
     else bindR (of_res (text_bytes bufferFrom (member preparation ''transactionBase64''))) (\<lambda>bytes.
       (case tc_deserialize lib bytes of
          None \<Rightarrow> Inl (Thrown (ExternalError ''deserialize''))
        | Some tx \<Rightarrow> bindR (of_res (tc_messageBytes lib tx)) (\<lambda>message.
            if JStr (tc_sha256 lib message) \<noteq> member preparation ''messageSha256'' then mismatch
            else if take (tc_requiredSignatures lib tx) (tc_staticKeys lib tx) \<noteq> [caller] \<or>
              length (tc_signatures lib tx) \<noteq> 1 \<or> \<not> list_all isZeroSignature (tc_signatures lib tx) then mismatch
            else if map (nth_opt (tc_staticKeys lib tx)) (tc_programIdIndexes lib tx)
              \<noteq> [Some COMPUTE_BUDGET_PROGRAM, Some program] then mismatch
            else Inr (tx, message)))))"

text \<open>The wallet signs; what it returns is sent only when it is the same message with a signature.\<close>

definition signed_preparation ::
  "'tx tx_library \<Rightarrow> 'tx wallet_handle \<Rightarrow> 'tx \<times> byte list \<Rightarrow> client_failure + byte list" where
  "signed_preparation lib wallet checked = (case checked of (tx, message) \<Rightarrow>
     bindR (of_res (wh_signTransaction wallet tx)) (\<lambda>signed.
     bindR (of_res (tc_messageBytes lib signed)) (\<lambda>signedMessage.
       if signedMessage \<noteq> message then mismatch
       else (case tc_signatures lib signed of
          [] \<Rightarrow> Inl (Thrown TypeError)
        | signature # _ \<Rightarrow>
            if isZeroSignature signature then mismatch
            else of_res (tc_serialize lib signed)))))"

definition submitted_receipt :: "jsval \<Rightarrow> jsval \<Rightarrow> json_object" where
  "submitted_receipt preparation receipt = [(''status'', JStr ''submitted''),
    (''submissionId'', member receipt ''submissionId''), (''messageSha256'', member receipt ''messageSha256''),
    (''simulatedUnits'', member preparation ''simulatedUnits''),
    (''minimumOutputs'', if member preparation ''minimumOutputs'' \<in> {JUndef, JNull} then JArr []
      else member preparation ''minimumOutputs'')]"

definition callerPaidBurn ::
  "'tx tx_library \<Rightarrow> pubkey \<Rightarrow> (jsval \<Rightarrow> byte list res) \<Rightarrow> (string \<Rightarrow> jsval \<Rightarrow> fetched) \<Rightarrow> string \<Rightarrow>
    'tx wallet_handle \<Rightarrow> client_request \<Rightarrow> client_failure + json_object" where
  "callerPaidBurn lib program bufferFrom net requestId wallet request =
    bindR (post False (net ''/burn/prepare'' (preparation_body requestId (wh_publicKey wallet) request))) (\<lambda>preparation.
    bindR (check_preparation lib program bufferFrom requestId (wh_publicKey wallet) preparation) (\<lambda>checked.
    bindR (signed_preparation lib wallet checked) (\<lambda>wire.
    bindR (post False (net ''/burn/submit'' (submission (JStr requestId) wire))) (\<lambda>receipt.
      Inr (submitted_receipt preparation receipt)))))"

subsection \<open>The other calls of the client\<close>

text \<open>Only the key of the demo, off the caller-paid service, burns in one call.\<close>

definition one_shot_body :: "client_request \<Rightarrow> jsval" where
  "one_shot_body request = JObj
    ([(''launchMint'', JStr (cr_launchMint request)),
      (''legs'', JArr (map (\<lambda>leg. JObj ([(''mint'', JStr (cl_mint leg)), (''bps'', JInt (cl_bps leg))]
        @ (case cl_reference leg of Some r \<Rightarrow> [(''reference'', JStr r)] | None \<Rightarrow> []))) (cr_legs request))),
      (''amountInLamports'', JStr (cr_amountInLamports request))]
     @ (case cr_lookupTableAddresses request of Some ts \<Rightarrow> [(''lookupTableAddresses'', JArr (map JStr ts))] | None \<Rightarrow> []))"

definition client_burn ::
  "'tx tx_library \<Rightarrow> pubkey \<Rightarrow> (jsval \<Rightarrow> byte list res) \<Rightarrow> (string \<Rightarrow> jsval \<Rightarrow> fetched) \<Rightarrow> bool \<Rightarrow> string \<Rightarrow>
    (bool \<times> 'tx wallet_handle) option \<Rightarrow> client_request \<Rightarrow> client_failure + jsval" where
  "client_burn lib program bufferFrom net callerPaid requestId wallet request = (case wallet of
     None \<Rightarrow> mismatch
   | Some (demo, handle) \<Rightarrow>
       if \<not> callerPaid \<and> demo then post True (net ''/burn'' (one_shot_body request))
       else bindR (callerPaidBurn lib program bufferFrom net requestId handle request) (\<lambda>receipt. Inr (JObj receipt)))"

definition image_json :: "string \<Rightarrow> byte list \<Rightarrow> jsval" where
  "image_json contentType bytes = JObj [(''contentType'', JStr contentType), (''dataBase64'', JStr (base64_encode bytes))]"

definition prepareMetadataImage ::
  "(jsval \<Rightarrow> byte list res) \<Rightarrow> (string \<Rightarrow> jsval \<Rightarrow> fetched) \<Rightarrow> byte list \<Rightarrow> string \<Rightarrow> client_failure + byte list \<times> jsval" where
  "prepareMetadataImage bufferFrom net bytes contentType =
    bindR (post True (net ''/metadata/image/prepare'' (JObj [(''image'', image_json contentType bytes)]))) (\<lambda>result.
    bindR (of_res (text_bytes bufferFrom (member result ''imageBase64''))) (\<lambda>prepared.
      Inr (prepared, JObj [(''imageContentType'', member result ''imageContentType''),
        (''originalImageBytes'', member result ''originalImageBytes''), (''imageBytes'', member result ''imageBytes'')])))"

record launch_details =
  ld_name :: string
  ld_symbol :: string
  ld_description :: string
  ld_links :: "(string \<times> string) list"
  ld_image :: "byte list"
  ld_imageContentType :: string

definition upload_payload :: "launch_details \<Rightarrow> json_object" where
  "upload_payload d = [(''name'', JStr (ld_name d)), (''symbol'', JStr (ld_symbol d)), (''description'', JStr (ld_description d))]
    @ (if ld_links d = [] then [] else [(''links'', JObj (map (\<lambda>(k, href). (k, JStr href)) (ld_links d)))])
    @ [(''image'', image_json (ld_imageContentType d) (ld_image d))]"

text \<open>The id of an upload is the digest of its details: whoever asks again asks for the same upload.\<close>

definition upload_id :: "web_platform \<Rightarrow> launch_details \<Rightarrow> string" where
  "upload_id wp d = sha256Hex wp (encodeText wp (stringifyJSON wp (JObj (upload_payload d))))"

definition upload_body :: "web_platform \<Rightarrow> launch_details \<Rightarrow> jsval" where
  "upload_body wp d = JObj ((''requestId'', JStr (upload_id wp d)) # upload_payload d)"

definition uploadMetadata :: "web_platform \<Rightarrow> (string \<Rightarrow> jsval \<Rightarrow> fetched) \<Rightarrow> launch_details \<Rightarrow> client_failure + jsval" where
  "uploadMetadata wp net d = post True (net ''/metadata/finalize'' (upload_body wp d))"

text \<open>
  The service reads the details the app sends as they were entered, under that id, when they are within
  its limits.
\<close>

lemma app_upload_accepted:
  fixes i :: upload_input
  assumes "i = \<lparr>ui_requestId = upload_id wp d, ui_name = ld_name d, ui_symbol = ld_symbol d,
      ui_description = ld_description d, ui_links = ld_links d, ui_image = ld_image d,
      ui_imageContentType = ld_imageContentType d\<rparr>"
    and "upload_valid wp i" "links_printed wp i"
  shows "parseMetadataUploadRequest wp (upload_body wp d) = Inr i"
proof -
  have "parseMetadataUploadRequest wp (upload_json i) = Inr i"
    using parse_upload_json assms(2,3) by blast
  moreover have "parseMetadataLinks wp (JObj []) = parseMetadataLinks wp JUndef"
    by (simp add: parseMetadataLinks_def unknown_keys_def METADATA_LINK_KEYS_def parse_link_def field_def)
  then have "parseMetadataUploadRequest wp (upload_body wp d) = parseMetadataUploadRequest wp (upload_json i)"
    by (simp add: parseMetadataUploadRequest_def Let_def upload_body_def upload_json_def upload_payload_def assms(1)
        image_json_def text_field_def field_def unknown_keys_def UPLOAD_KEYS_def)
  ultimately show ?thesis by simp
qed

subsection \<open>What the wallet is asked to sign\<close>

text \<open>A burn that is the caller's alone to sign: the only thing a wallet should see.\<close>

definition unsigned_burn :: "'tx tx_library \<Rightarrow> pubkey \<Rightarrow> pubkey \<Rightarrow> 'tx \<Rightarrow> bool" where
  "unsigned_burn lib program caller tx \<longleftrightarrow>
    take (tc_requiredSignatures lib tx) (tc_staticKeys lib tx) = [caller] \<and>
    (\<exists>signature. tc_signatures lib tx = [signature] \<and> isZeroSignature signature) \<and>
    map (nth_opt (tc_staticKeys lib tx)) (tc_programIdIndexes lib tx) = [Some COMPUTE_BUDGET_PROGRAM, Some program]"

lemma check_preparation_Inr:
  "check_preparation lib program bufferFrom requestId caller preparation = Inr (tx, message) \<longleftrightarrow>
    member preparation ''requestId'' = JStr requestId \<and>
    member preparation ''callerPublicKey'' = JStr (toBase58 caller) \<and>
    (\<exists>bytes. text_bytes bufferFrom (member preparation ''transactionBase64'') = Inr bytes \<and>
      tc_deserialize lib bytes = Some tx) \<and>
    tc_messageBytes lib tx = Inr message \<and> member preparation ''messageSha256'' = JStr (tc_sha256 lib message) \<and>
    unsigned_burn lib program caller tx"
proof -
  have res: "of_res r = Inr x \<longleftrightarrow> r = Inr x" for r :: "'c res" and x
    by (simp add: of_res_def split: sum.split)
  have one: "length xs = Suc 0 \<and> list_all P xs \<longleftrightarrow> (\<exists>x. xs = [x] \<and> P x)" for xs :: "byte list list" and P
    by (cases xs) auto
  show ?thesis
    unfolding check_preparation_def unsigned_burn_def mismatch_def
    by (auto simp: bindR_Inr_iff res one [symmetric] if_Inl_Inr split: option.splits)
qed

lemma signed_preparation_Inr:
  "signed_preparation lib wallet (tx, message) = Inr wire \<longleftrightarrow> (\<exists>signed signature rest.
    wh_signTransaction wallet tx = Inr signed \<and> tc_messageBytes lib signed = Inr message \<and>
    tc_signatures lib signed = signature # rest \<and> \<not> isZeroSignature signature \<and>
    tc_serialize lib signed = Inr wire)"
proof -
  have res: "of_res r = Inr x \<longleftrightarrow> r = Inr x" for r :: "'c res" and x
    by (simp add: of_res_def split: sum.split)
  have first: "(case xs of [] \<Rightarrow> Inl e | x # rest \<Rightarrow> f x) = Inr y \<longleftrightarrow> (\<exists>x rest. xs = x # rest \<and> f x = Inr y)"
    for xs :: "byte list list" and e :: client_failure and f :: "byte list \<Rightarrow> client_failure + byte list" and y
    by (cases xs) auto
  show ?thesis
    by (auto simp: signed_preparation_def bindR_Inr_iff res mismatch_def if_Inl_Inr first)
qed

lemma bindR_agree: "(\<And>x. r = Inr x \<Longrightarrow> f x = g x) \<Longrightarrow> bindR r f = bindR r g"
  by (cases r) simp_all

text \<open>
  C37: The app never asks a wallet for anything but a burn of its own: two wallets of one key that treat
  the unsigned burns of that key alike (a compute-budget and a burner instruction, one required and
  still empty signature) give the same outcome, whatever the service answers; and a burn is reported as
  submitted only when the very message that was checked, whose digest the service named, came back
  signed and was posted.
\<close>

theorem wallet_signs_only_burns:
  assumes "\<And>tx. unsigned_burn lib program (wh_publicKey wallet) tx \<Longrightarrow> wh_signTransaction wallet tx = sign tx"
  shows "callerPaidBurn lib program bufferFrom net requestId (wallet\<lparr>wh_signTransaction := sign\<rparr>) request
      = callerPaidBurn lib program bufferFrom net requestId wallet request \<and>
    (\<forall>receipt. callerPaidBurn lib program bufferFrom net requestId wallet request = Inr receipt \<longrightarrow>
      (\<exists>preparation tx message signed signature rest wire answer.
        post False (net ''/burn/prepare'' (preparation_body requestId (wh_publicKey wallet) request)) = Inr preparation \<and>
        unsigned_burn lib program (wh_publicKey wallet) tx \<and> wh_signTransaction wallet tx = Inr signed \<and>
        tc_messageBytes lib tx = Inr message \<and> tc_messageBytes lib signed = Inr message \<and>
        member preparation ''messageSha256'' = JStr (tc_sha256 lib message) \<and>
        tc_signatures lib signed = signature # rest \<and> \<not> isZeroSignature signature \<and>
        tc_serialize lib signed = Inr wire \<and>
        post False (net ''/burn/submit'' (submission (JStr requestId) wire)) = Inr answer \<and>
        receipt = submitted_receipt preparation answer))"
proof (intro conjI allI impI)
  have "signed_preparation lib (wallet\<lparr>wh_signTransaction := sign\<rparr>) checked = signed_preparation lib wallet checked"
    if "check_preparation lib program bufferFrom requestId (wh_publicKey wallet) preparation = Inr checked"
    for checked preparation
    using that assms by (cases checked) (simp add: check_preparation_Inr signed_preparation_def)
  then show "callerPaidBurn lib program bufferFrom net requestId (wallet\<lparr>wh_signTransaction := sign\<rparr>) request
      = callerPaidBurn lib program bufferFrom net requestId wallet request"
    unfolding callerPaidBurn_def by (auto intro!: bindR_agree)
next
  fix receipt
  assume "callerPaidBurn lib program bufferFrom net requestId wallet request = Inr receipt"
  then obtain preparation tx message wire answer where
      "post False (net ''/burn/prepare'' (preparation_body requestId (wh_publicKey wallet) request)) = Inr preparation"
      "check_preparation lib program bufferFrom requestId (wh_publicKey wallet) preparation = Inr (tx, message)"
      "signed_preparation lib wallet (tx, message) = Inr wire"
      "post False (net ''/burn/submit'' (submission (JStr requestId) wire)) = Inr answer"
      "receipt = submitted_receipt preparation answer"
    by (auto simp: callerPaidBurn_def bindR_Inr_iff)
  then show "\<exists>preparation tx message signed signature rest wire answer.
        post False (net ''/burn/prepare'' (preparation_body requestId (wh_publicKey wallet) request)) = Inr preparation \<and>
        unsigned_burn lib program (wh_publicKey wallet) tx \<and> wh_signTransaction wallet tx = Inr signed \<and>
        tc_messageBytes lib tx = Inr message \<and> tc_messageBytes lib signed = Inr message \<and>
        member preparation ''messageSha256'' = JStr (tc_sha256 lib message) \<and>
        tc_signatures lib signed = signature # rest \<and> \<not> isZeroSignature signature \<and>
        tc_serialize lib signed = Inr wire \<and>
        post False (net ''/burn/submit'' (submission (JStr requestId) wire)) = Inr answer \<and>
        receipt = submitted_receipt preparation answer"
    unfolding check_preparation_Inr signed_preparation_Inr by blast
qed

subsection \<open>The client and the service together\<close>

text \<open>
  The service of \<open>CallerPaid\<close> behind the \<open>fetch\<close> of the browser: an answer is printed without its
  undefined fields; how a refusal is answered does not matter here.
\<close>

definition transported :: "json_object \<Rightarrow> jsval" where
  "transported object = JObj (filter (\<lambda>kv. snd kv \<noteq> JUndef) object)"

definition served_answer :: "(error \<Rightarrow> fetched) \<Rightarrow> json_object res \<Rightarrow> fetched" where
  "served_answer refusal r = (case r of Inr object \<Rightarrow> Answered 200 (transported object) | Inl e \<Rightarrow> refusal e)"

definition service_net ::
  "'tx dependencies \<Rightarrow> (byte list \<Rightarrow> (string \<times> string) list \<Rightarrow> string res) \<Rightarrow> (error \<Rightarrow> fetched) \<Rightarrow>
    string \<Rightarrow> jsval \<Rightarrow> fetched" where
  "service_net deps submit refusal path body =
    (if path = ''/burn/prepare'' then served_answer refusal (prepare_handler deps body)
     else if path = ''/burn/submit''
     then served_answer refusal (submit_handler (d_txlib deps) (burnerProgram deps) submit body)
     else Unreachable)"

text \<open>A wallet that signs a transaction as its owner would: the same message, one valid signature.\<close>

definition signs_honestly :: "'tx tx_library \<Rightarrow> 'tx wallet_handle \<Rightarrow> nat \<Rightarrow> 'tx \<Rightarrow> bool" where
  "signs_honestly lib wallet bytes tx \<longleftrightarrow> (\<exists>signed signature wire message tx'.
    wh_signTransaction wallet tx = Inr signed \<and> tc_messageBytes lib tx = Inr message \<and>
    tc_messageBytes lib signed = Inr message \<and> tc_signatures lib signed = [signature] \<and>
    \<not> isZeroSignature signature \<and> verifyEd25519 lib (wh_publicKey wallet) message signature \<and>
    tc_serialize lib signed = Inr wire \<and> length wire = bytes \<and>
    tc_deserialize lib wire = Some tx' \<and> same_message lib tx tx' \<and> tc_signatures lib tx' = [signature])"

lemma member_transported: "distinct (map fst object) \<Longrightarrow> member (transported object) k = field object k"
proof (induction object)
  case (Cons kv object)
  have "map_of object (fst kv) = None" using Cons.prems by (simp add: map_of_eq_None_iff)
  moreover have "map_of (filter (\<lambda>kv. snd kv \<noteq> JUndef) object) (fst kv) = None"
    using Cons.prems by (auto simp: map_of_eq_None_iff)
  ultimately show ?case
    using Cons by (cases kv) (auto simp: member_def transported_def field_def)
qed (simp add: member_def transported_def)

lemma prepared_json_distinct: "distinct (map fst (prepared_json caller pb wire))"
  by (simp add: prepared_json_def)

lemma parsed_request_id:
  "parseBurnRequest w (JObj object) = Inr r \<Longrightarrow> field object ''requestId'' = JStr (br_requestId r)"
  by (auto simp: parseBurnRequest_def bindR_Inr_iff split: jsval.splits if_splits)

lemma prepared_request_id:
  assumes "prepare_asked deps (preparation_body requestId caller request) = Inr (caller', pb)"
  shows "pb_requestId pb = requestId"
proof -
  define object where "object = (case preparation_body requestId caller request of JObj object \<Rightarrow> object)"
  have body: "preparation_body requestId caller request = JObj object"
      "field (filter (\<lambda>kv. fst kv \<noteq> ''callerPublicKey'') object) ''requestId'' = JStr requestId"
    by (simp_all add: object_def preparation_body_def field_def)
  obtain c where "prepare deps (JObj (filter (\<lambda>kv. fst kv \<noteq> ''callerPublicKey'') object)) c = Inr pb"
    using assms unfolding body(1)
    by (auto simp: prepare_asked_def bindR_Inr_iff split: jsval.splits option.splits)
  then obtain rq where "resolveRequest deps (JObj (filter (\<lambda>kv. fst kv \<noteq> ''callerPublicKey'') object)) = Inr rq"
      "pb_requestId pb = br_requestId (rq_request rq)"
    by (auto simp: prepare_def bindR_Inr_iff)
  then show ?thesis
    using parsed_request_id [OF resolveRequest_Inr(1)] body(2) by force
qed

lemma prepared_served:
  assumes "prepare_asked deps parsed = Inr (caller, pb)"
    and "keeps_message (d_txlib deps) (bb_transaction (pb_built pb))"
  obtains sent tx message where
    "tc_serialize (d_txlib deps) (bb_transaction (pb_built pb)) = Inr sent"
    "prepare_handler deps parsed = Inr (prepared_json caller pb sent)"
    "tc_deserialize (d_txlib deps) sent = Some tx" "unsigned_burn (d_txlib deps) (burnerProgram deps) caller tx"
    "tc_messageBytes (d_txlib deps) tx = Inr message" "bb_digest (pb_built pb) = tc_sha256 (d_txlib deps) message"
proof -
  let ?lib = "d_txlib deps"
  obtain raw where raw: "prepare deps raw caller = Inr pb" using prepare_asked_Inr [OF assms(1)] ..
  obtain message keys where msg: "tc_messageBytes ?lib (bb_transaction (pb_built pb)) = Inr message"
      "bb_digest (pb_built pb) = tc_sha256 ?lib message"
      "tc_staticKeys ?lib (bb_transaction (pb_built pb)) = caller # keys"
      "tc_requiredSignatures ?lib (bb_transaction (pb_built pb)) = 1"
      "map (nth_opt (caller # keys)) (tc_programIdIndexes ?lib (bb_transaction (pb_built pb)))
        = [Some COMPUTE_BUDGET_PROGRAM, Some (burnerProgram deps)]"
      "transactionBytes ?lib (bb_transaction (pb_built pb)) \<le> 1232"
    by (rule prepared_message [OF raw assms(2)])
  obtain sent where sent: "tc_serialize ?lib (bb_transaction (pb_built pb)) = Inr sent"
    using msg(6) by (auto simp: transactionBytes_def MAX_TRANSACTION_BYTES_def split: sum.splits)
  obtain tx where tx: "tc_deserialize ?lib sent = Some tx" "same_message ?lib (bb_transaction (pb_built pb)) tx"
      "tc_signatures ?lib tx = replicate 1 (replicate 64 0)"
    using assms(2) sent msg(4) unfolding keeps_message_def by metis
  note same = same_messageD [OF tx(2), unfolded msg(1,3,4)]
  have "unsigned_burn ?lib (burnerProgram deps) caller tx"
    using same tx(3) msg(5) by (simp add: unsigned_burn_def isZeroSignature_def list_all_iff)
  moreover have "prepare_handler deps parsed = Inr (prepared_json caller pb sent)"
    using assms(1) sent by (simp add: prepare_handler_def)
  ultimately show ?thesis using that sent tx(1) same(4) msg(2) by blast
qed

text \<open>
  C36: The app's burn succeeds end to end: whenever the service can build the requested burn for the key
  of the wallet and the wallet signs what it is shown, the client accepts the preparation, the service
  accepts the signed transaction, and a relay that takes it makes the app report the burn as submitted,
  with the id of the relay and the digest, the units and the minimum outputs of the burn that was built.
\<close>

theorem app_burn_end_to_end:
  assumes "prepare_asked deps (preparation_body requestId (wh_publicKey wallet) request) = Inr (wh_publicKey wallet, pb)"
    and "keeps_message (d_txlib deps) (bb_transaction (pb_built pb))"
    and "\<And>sent tx. tc_serialize (d_txlib deps) (bb_transaction (pb_built pb)) = Inr sent \<Longrightarrow>
      tc_deserialize (d_txlib deps) sent = Some tx \<Longrightarrow> signs_honestly (d_txlib deps) wallet (length sent) tx"
    and "\<And>wire. \<exists>submissionId. submit wire [(''purpose'', ''onchain-burner-keyless-relay''),
      (''messageSha256'', bb_digest (pb_built pb)), (''feePayer'', toBase58 (wh_publicKey wallet)),
      (''requestId'', take 128 requestId)] = Inr submissionId \<and> relayed wire submissionId"
  shows "\<exists>wire submissionId. relayed wire submissionId \<and>
    callerPaidBurn (d_txlib deps) (burnerProgram deps) bufferFrom (service_net deps submit refusal) requestId
      wallet request
    = Inr [(''status'', JStr ''submitted''), (''submissionId'', JStr submissionId),
        (''messageSha256'', JStr (bb_digest (pb_built pb))),
        (''simulatedUnits'', number_or_undefined (bb_simulatedUnits (pb_built pb))),
        (''minimumOutputs'', JArr (map (JStr \<circ> js_of_int) (pb_minimumOutputs pb)))]"
proof -
  let ?lib = "d_txlib deps" and ?key = "wh_publicKey wallet"
  let ?net = "service_net deps submit refusal"
  obtain sent tx message where served:
      "tc_serialize ?lib (bb_transaction (pb_built pb)) = Inr sent"
      "prepare_handler deps (preparation_body requestId ?key request) = Inr (prepared_json ?key pb sent)"
      "tc_deserialize ?lib sent = Some tx" "unsigned_burn ?lib (burnerProgram deps) ?key tx"
      "tc_messageBytes ?lib tx = Inr message" "bb_digest (pb_built pb) = tc_sha256 ?lib message"
    by (rule prepared_served [OF assms(1,2)])
  define preparation where "preparation = transported (prepared_json ?key pb sent)"
  note fields = member_transported [OF prepared_json_distinct, of ?key pb sent, folded preparation_def]
  have id: "pb_requestId pb = requestId" by (rule prepared_request_id [OF assms(1)])
  have asked: "post False (?net ''/burn/prepare'' (preparation_body requestId ?key request)) = Inr preparation"
    by (simp add: service_net_def served_answer_def served(2) post_def preparation_def transported_def)
  have checked: "check_preparation ?lib (burnerProgram deps) bufferFrom requestId ?key preparation = Inr (tx, message)"
    unfolding check_preparation_Inr fields
    using served(3-6) id by (simp add: prepared_json_fields text_bytes_def base64_round_trip)
      (simp add: prepared_json_def field_def)
  obtain signed signature wire tx' where wallet: "wh_signTransaction wallet tx = Inr signed"
      "tc_messageBytes ?lib signed = Inr message" "tc_signatures ?lib signed = [signature]"
      "\<not> isZeroSignature signature" "verifyEd25519 ?lib ?key message signature"
      "tc_serialize ?lib signed = Inr wire" "length wire = length sent" "tc_deserialize ?lib wire = Some tx'"
      "same_message ?lib tx tx'" "tc_signatures ?lib tx' = [signature]"
    using assms(3) [OF served(1,3)] served(5) unfolding signs_honestly_def by auto
  have returned: "signed_preparation ?lib wallet (tx, message) = Inr wire"
    unfolding signed_preparation_Inr using wallet by blast
  have "signed_by_caller ?lib (base64_decode (base64_encode sent)) ?key wire"
    unfolding base64_round_trip signed_by_caller_def using wallet served(3,5) by blast
  note relay = prepared_relay [OF assms(1) served(2) assms(2) prepared_json_fields(2) this, unfolded prepared_json_fields id]
  obtain submissionId where submissionId: "submit wire [(''purpose'', ''onchain-burner-keyless-relay''),
      (''messageSha256'', bb_digest (pb_built pb)), (''feePayer'', toBase58 ?key),
      (''requestId'', take 128 requestId)] = Inr submissionId" "relayed wire submissionId"
    using assms(4) by blast
  obtain answer where answer: "post False (?net ''/burn/submit'' (submission (JStr requestId) wire)) = Inr answer"
      "member answer ''submissionId'' = JStr submissionId" "member answer ''messageSha256'' = JStr (bb_digest (pb_built pb))"
    using relay [of submit] submissionId(1)
    by (simp add: service_net_def served_answer_def post_def transported_def member_def field_def)
  have "callerPaidBurn ?lib (burnerProgram deps) bufferFrom ?net requestId wallet request
      = Inr (submitted_receipt preparation answer)"
    by (simp add: callerPaidBurn_def asked checked returned answer(1))
  then show ?thesis
    using submissionId(2) answer(2,3)
    by (intro exI [of _ wire] exI [of _ submissionId])
      (simp add: submitted_receipt_def fields, simp add: prepared_json_def field_def)
qed

text \<open>The example burn, asked for by the app.\<close>

definition example_wallet :: "example_tx wallet_handle" where
  "example_wallet = \<lparr>wh_publicKey = example_key 67,
    wh_signTransaction = (\<lambda>(payer, ixs). Inr (payer, ixs @ [signature_mark]))\<rparr>"

definition client_example :: client_request where
  "client_example = \<lparr>cr_launchMint = replicate 32 CHR ''L'',
    cr_legs = [\<lparr>cl_mint = toBase58 (example_key 84), cl_bps = 10000, cl_reference = None\<rparr>],
    cr_amountInLamports = ''1000000'', cr_lookupTableAddresses = None\<rparr>"

lemma client_asked:
  assumes "prepare example_deps example_request (example_key 67) = Inr pb"
  shows "prepare_asked example_deps (preparation_body ''burn-1'' (example_key 67) client_example) = Inr (example_key 67, pb)"
proof -
  define object where "object = (case preparation_body ''burn-1'' (example_key 67) client_example of JObj object \<Rightarrow> object)"
  have "preparation_body ''burn-1'' (example_key 67) client_example = JObj object"
      "field object ''callerPublicKey'' = JStr (toBase58 (example_key 67))"
      "JObj (filter (\<lambda>kv. fst kv \<noteq> ''callerPublicKey'') object) = example_request"
    by (simp_all add: object_def preparation_body_def client_example_def client_leg_json_def example_request_def field_def)
  moreover have "parsePubkey (d_web3 example_deps) (toBase58 (example_key 67)) = Some (example_key 67)"
    by (simp add: example_deps_def)
  ultimately show ?thesis using assms by (simp add: prepare_asked_def)
qed

lemma example_signs:
  assumes "map programId ixs = [COMPUTE_BUDGET_PROGRAM, DEFAULT_BURNER_PROGRAM]" "concat (map ix_data ixs) = 2 # rest"
    and "tc_serialize example_txlib (example_key 67, ixs) = Inr sent" "tc_deserialize example_txlib sent = Some tx"
  shows "signs_honestly example_txlib example_wallet (length sent) tx"
proof -
  have "sent = 2 # rest"
    using assms(2,3) unmarked [OF assms(1)] by (simp add: example_txlib_def)
  then have "tx = (example_key 67, [example_wire (2 # rest)])"
    using assms(4) by (simp add: example_txlib_def)
  moreover have "signature_mark \<noteq> example_wire w" for w
    by (simp add: signature_mark_def example_wire_def SYSTEM_PROGRAM_def COMPUTE_BUDGET_PROGRAM_def)
  moreover have "ix_data (example_wire w) = w" "ix_data signature_mark = []" for w
    by (simp_all add: example_wire_def signature_mark_def)
  ultimately show ?thesis
    using \<open>sent = 2 # rest\<close>
    by (simp add: signs_honestly_def example_wallet_def example_txlib_def verifyEd25519_def isZeroSignature_def
        same_message_def list_all_iff)
qed

lemma app_burn_end_to_end_witness:
  "\<exists>digest units outputs. callerPaidBurn example_txlib DEFAULT_BURNER_PROGRAM (\<lambda>v. Inl TypeError)
      (service_net example_deps (\<lambda>wire metadata. Inr ''sent-1'') (\<lambda>e. Unreachable)) ''burn-1'' example_wallet client_example
    = Inr [(''status'', JStr ''submitted''), (''submissionId'', JStr ''sent-1''), (''messageSha256'', digest),
        (''simulatedUnits'', units), (''minimumOutputs'', outputs)]"
proof -
  obtain pb where pb: "prepare example_deps example_request (example_key 67) = Inr pb"
    by (rule example_prepare_Inr)
  obtain ixs rest where ixs: "bb_transaction (pb_built pb) = (example_key 67, ixs)"
      "map programId ixs = [COMPUTE_BUDGET_PROGRAM, DEFAULT_BURNER_PROGRAM]" "concat (map ix_data ixs) = 2 # rest"
    by (rule example_built_transaction [OF pb])
  have lib: "d_txlib example_deps = example_txlib" "burnerProgram example_deps = DEFAULT_BURNER_PROGRAM"
      "wh_publicKey example_wallet = example_key 67"
    by (simp_all add: example_deps_def burnerProgram_def example_wallet_def)
  have keeps: "keeps_message (d_txlib example_deps) (bb_transaction (pb_built pb))"
    unfolding lib ixs(1) by (rule example_keeps(1) [OF ixs(2,3)])
  have signs: "signs_honestly (d_txlib example_deps) example_wallet (length sent) tx"
    if "tc_serialize (d_txlib example_deps) (bb_transaction (pb_built pb)) = Inr sent"
      "tc_deserialize (d_txlib example_deps) sent = Some tx" for sent tx
    using example_signs [OF ixs(2,3)] that unfolding lib ixs(1) by blast
  show ?thesis
    using app_burn_end_to_end [of example_deps "''burn-1''" example_wallet client_example pb
      "\<lambda>wire metadata. Inr ''sent-1''" "\<lambda>wire submissionId. submissionId = ''sent-1''",
      unfolded lib(3), OF client_asked [OF pb] keeps signs, unfolded lib] by force
qed

text \<open>A wallet that refuses everything but a burn of its own loses nothing.\<close>

definition cautious_wallet :: "example_tx wallet_handle" where
  "cautious_wallet = example_wallet\<lparr>wh_signTransaction := (\<lambda>tx.
    if unsigned_burn example_txlib DEFAULT_BURNER_PROGRAM (example_key 67) tx
    then wh_signTransaction example_wallet tx else Inl TypeError)\<rparr>"

lemma wallet_signs_only_burns_witness:
  "\<forall>net. callerPaidBurn example_txlib DEFAULT_BURNER_PROGRAM (\<lambda>v. Inl TypeError) net ''burn-1'' cautious_wallet client_example
    = callerPaidBurn example_txlib DEFAULT_BURNER_PROGRAM (\<lambda>v. Inl TypeError) net ''burn-1'' example_wallet client_example"
proof -
  have "wh_signTransaction example_wallet tx = (if unsigned_burn example_txlib DEFAULT_BURNER_PROGRAM (example_key 67) tx
      then wh_signTransaction example_wallet tx else Inl TypeError)"
    if "unsigned_burn example_txlib DEFAULT_BURNER_PROGRAM (wh_publicKey example_wallet) tx" for tx
    using that by (simp add: example_wallet_def)
  from wallet_signs_only_burns [OF this] show ?thesis
    unfolding cautious_wallet_def by blast
qed

end
