(* ===== verification/Setup.thy ===== *)
theory Setup
  imports VaultLink Burn Simulation Web
begin

text \<open>
  The setup of a vault, \<open>app/src/chain/instructions.ts\<close>: the instruction that validates a configuration,
  the size of a transaction, the plan that commits a Pump fee share, sending and confirming, and the
  attribution of failures. \<open>@solana/web3.js\<close>, \<open>@solana/spl-token\<close>, the RPC and the wallet are parameters.
\<close>

subsection \<open>Legs and their accounts\<close>

record setup_block =
  rb_pool :: pubkey
  rb_vaultA :: pubkey
  rb_vaultB :: pubkey
  rb_feeSource :: pubkey

record setup_leg =
  sl_leg :: app_leg
  sl_tokenProgram :: pubkey
  sl_ata :: pubkey
  sl_block :: "setup_block option"

text \<open>The owners of the mints, as one read returns them; a mint that is still to be created has a fixed program.\<close>

definition resolveLegs ::
  "web3 \<Rightarrow> pubkey \<Rightarrow> (pubkey list \<Rightarrow> pubkey option list res) \<Rightarrow> app_leg list \<Rightarrow> string set \<Rightarrow> setup_leg list res" where
  "resolveLegs w pda ownersOf legs pendingToken2022Mints =
    bindR (ownersOf (map al_mint legs)) (\<lambda>infos.
      traverse_idx (\<lambda>i leg.
        (let tokenProgram = (if toBase58 (al_mint leg) \<in> pendingToken2022Mints then TOKEN_2022_PROGRAM_ID
           else (case nth_opt infos i of Some (Some owner) \<Rightarrow> owner | _ \<Rightarrow> TOKEN_PROGRAM_ID)) in
         bindR (associatedTokenAddress w (al_mint leg) pda True tokenProgram) (\<lambda>ata.
           Inr \<lparr>sl_leg = leg, sl_tokenProgram = tokenProgram, sl_ata = ata, sl_block = None\<rparr>))) legs)"

definition vaultWsolAta :: "web3 \<Rightarrow> pubkey \<Rightarrow> pubkey res" where
  "vaultWsolAta w pda = associatedTokenAddress w NATIVE_MINT pda True TOKEN_PROGRAM_ID"

definition VALIDATE_CONFIG_DISCRIMINATOR :: "byte list" where
  "VALIDATE_CONFIG_DISCRIMINATOR = [28, 98, 92, 82, 243, 62, 65, 93]"

definition validated_block :: "setup_leg \<Rightarrow> account_meta list res" where
  "validated_block leg = (case sl_block leg of
     None \<Rightarrow> Inl (PlainError ''Mode A validation needs a resolved reference block'')
   | Some b \<Rightarrow> Inr (map (\<lambda>k. meta k False False)
       [al_mint (sl_leg leg), sl_ata leg, sl_tokenProgram leg, rb_pool b, rb_vaultA b, rb_vaultB b, rb_feeSource b]))"

text \<open>The body is written into a buffer sized for the legs; amounts beyond it are out of range, missing ones zero.\<close>

definition buildValidateConfigModeA ::
  "web3 \<Rightarrow> pubkey \<Rightarrow> pubkey \<Rightarrow> pubkey \<Rightarrow> setup_leg list \<Rightarrow> int list \<Rightarrow> instruction res" where
  "buildValidateConfigModeA w program pda launchMint legs probeAmounts =
    bindR (writeLE 4 (int (length legs))) (\<lambda>count.
    bindR (traverse (\<lambda>leg. writeLE 2 (al_bps (sl_leg leg))) legs) (\<lambda>weights.
    bindR (if length probeAmounts \<le> length legs then traverse (writeLE 8) probeAmounts else Inl RangeError) (\<lambda>amounts.
    bindR (vaultWsolAta w pda) (\<lambda>wsolAta.
    bindR (traverse validated_block legs) (\<lambda>blocks.
      Inr \<lparr>programId = program,
        keys = [meta pda False False, meta wsolAta False False, meta launchMint False False] @ concat blocks,
        ix_data = VALIDATE_CONFIG_DISCRIMINATOR @ [0] @ count @ concat weights @ concat amounts
          @ replicate (8 * (length legs - length probeAmounts)) 0\<rparr>)))))"

text \<open>\<open>createAta\<close> is the idempotent create of \<open>@solana/spl-token\<close>.\<close>

definition buildAtaInstructions ::
  "web3 \<Rightarrow> (pubkey \<Rightarrow> pubkey \<Rightarrow> pubkey \<Rightarrow> pubkey \<Rightarrow> pubkey \<Rightarrow> instruction) \<Rightarrow> pubkey \<Rightarrow> pubkey \<Rightarrow> setup_leg list \<Rightarrow>
    instruction list res" where
  "buildAtaInstructions w createAta payer pda legs =
    bindR (vaultWsolAta w pda) (\<lambda>wsolAta. Inr (createAta payer wsolAta pda NATIVE_MINT TOKEN_PROGRAM_ID
      # map (\<lambda>leg. createAta payer (sl_ata leg) pda (al_mint (sl_leg leg)) (sl_tokenProgram leg)) legs))"

subsection \<open>The size of a transaction\<close>

record compiled_ix =
  vi_program :: nat
  vi_accounts :: "nat list"
  vi_data :: "byte list"

record v0_lookup =
  vl_table :: pubkey
  vl_writable :: "nat list"
  vl_readonly :: "nat list"

record v0_message =
  vm_required :: nat
  vm_readonlySigned :: nat
  vm_readonlyUnsigned :: nat
  vm_static :: "pubkey list"
  vm_blockhash :: "byte list"
  vm_instructions :: "compiled_ix list"
  vm_lookups :: "v0_lookup list"

fun shortVecBytes :: "nat \<Rightarrow> nat" where
  "shortVecBytes n = (if n < 128 then 1 else Suc (shortVecBytes (n div 128)))"

declare shortVecBytes.simps [simp del]

definition instruction_bytes :: "compiled_ix \<Rightarrow> nat" where
  "instruction_bytes ix = 1 + shortVecBytes (length (vi_accounts ix)) + length (vi_accounts ix)
    + shortVecBytes (length (vi_data ix)) + length (vi_data ix)"

definition lookup_bytes :: "v0_lookup \<Rightarrow> nat" where
  "lookup_bytes lookup = 32 + shortVecBytes (length (vl_writable lookup)) + length (vl_writable lookup)
    + shortVecBytes (length (vl_readonly lookup)) + length (vl_readonly lookup)"

definition message_bytes :: "v0_message \<Rightarrow> nat" where
  "message_bytes m = 1 + 3 + shortVecBytes (length (vm_static m)) + 32 * length (vm_static m) + 32
    + shortVecBytes (length (vm_instructions m)) + sum_list (map instruction_bytes (vm_instructions m))
    + shortVecBytes (length (vm_lookups m)) + sum_list (map lookup_bytes (vm_lookups m))"

definition signed_bytes :: "v0_message \<Rightarrow> nat" where
  "signed_bytes m = shortVecBytes (vm_required m) + 64 * vm_required m + message_bytes m"

text \<open>\<open>compile\<close> is \<open>compileToV0Message\<close>, with the default key as the blockhash.\<close>

type_synonym v0_compile = "pubkey \<Rightarrow> instruction list \<Rightarrow> lookup_table list \<Rightarrow> v0_message res"

definition measureTransaction :: "v0_compile \<Rightarrow> pubkey \<Rightarrow> instruction list \<Rightarrow> lookup_table list \<Rightarrow> nat res" where
  "measureTransaction compile payer instructions lookupTables =
    bindR (compile payer instructions lookupTables) (\<lambda>m. Inr (signed_bytes m))"

subsection \<open>The plan of the setup\<close>

record planned_transaction =
  pt_instructions :: "instruction list"
  pt_lookupTables :: "lookup_table list"
  pt_bytes :: nat

record setup_plan =
  sp_atomic :: bool
  sp_transactions :: "planned_transaction list"

definition planSetupWithFeeShare ::
  "v0_compile \<Rightarrow> pubkey \<Rightarrow> instruction list \<Rightarrow> instruction \<Rightarrow> instruction list \<Rightarrow> lookup_table list \<Rightarrow> setup_plan res" where
  "planSetupWithFeeShare compile payer feeShare validateModeA ataInstructions lookupTables =
    (let atomicInstructions = feeShare @ [validateModeA] @ ataInstructions in
     bindR (measureTransaction compile payer atomicInstructions lookupTables) (\<lambda>atomicBytes.
     if atomicBytes \<le> MAX_TRANSACTION_BYTES
     then Inr \<lparr>sp_atomic = True, sp_transactions = [\<lparr>pt_instructions = atomicInstructions,
       pt_lookupTables = lookupTables, pt_bytes = atomicBytes\<rparr>]\<rparr>
     else (let setup = validateModeA # ataInstructions; guardedFeeShare = feeShare @ [validateModeA] in
       bindR (measureTransaction compile payer guardedFeeShare lookupTables) (\<lambda>guardedBytes.
       if guardedBytes > MAX_TRANSACTION_BYTES
       then Inl (PlainError ''the verified shared setup lookup table is required'')
       else bindR (measureTransaction compile payer setup lookupTables) (\<lambda>setupBytes.
         Inr \<lparr>sp_atomic = False, sp_transactions =
           [\<lparr>pt_instructions = setup, pt_lookupTables = lookupTables, pt_bytes = setupBytes\<rparr>,
            \<lparr>pt_instructions = guardedFeeShare, pt_lookupTables = lookupTables, pt_bytes = guardedBytes\<rparr>]\<rparr>)))))"

definition planSetupOnly :: "v0_compile \<Rightarrow> pubkey \<Rightarrow> instruction \<Rightarrow> instruction list \<Rightarrow> planned_transaction res" where
  "planSetupOnly compile payer validateInstruction ataInstructions =
    bindR (measureTransaction compile payer (validateInstruction # ataInstructions) []) (\<lambda>bytes.
      Inr \<lparr>pt_instructions = validateInstruction # ataInstructions, pt_lookupTables = [], pt_bytes = bytes\<rparr>)"

subsection \<open>Attribution of a failure\<close>

definition ERROR_NAMES :: "(int \<times> string) list" where
  "ERROR_NAMES = [
    (6000, ''ZeroInput''), (6001, ''InsufficientBurnerBalance''), (6002, ''ZeroMinimumOutput''),
    (6003, ''InvalidJupiterProgram''), (6004, ''InvalidQuoteAuthority''), (6005, ''InvalidJupiterInstruction''),
    (6006, ''InvalidJupiterAccounts''), (6007, ''JupiterPlatformFeeNotAllowed''), (6008, ''JupiterInputAmountMismatch''),
    (6009, ''InvalidTokenProgram''), (6010, ''InvalidMintOwner''), (6011, ''InvalidTokenAccountOwner''),
    (6012, ''InvalidBurnPda''), (6013, ''InvalidMintData''), (6014, ''InvalidTokenAccountData''),
    (6015, ''InvalidTokenMint''), (6016, ''InvalidTokenAuthority''), (6017, ''WsolFundingMismatch''),
    (6018, ''WsolNotFullyConsumed''), (6019, ''BurnPdaLamportMismatch''), (6020, ''TargetBalanceDecreased''),
    (6021, ''SlippageExceeded''), (6022, ''BurnIncomplete''), (6023, ''IntermediateBalanceRemaining''),
    (6024, ''UnsupportedToken2022Extension''), (6025, ''UnsupportedToken2022AccountExtension''), (6026, ''BurnRemainderBelowRentFloor''),
    (6027, ''InvalidInstructionData''), (6028, ''NotEnoughAccountKeys''), (6029, ''MissingRequiredSignature''),
    (6030, ''AccountNotMutable''), (6031, ''InvalidSystemProgram''), (6032, ''InvalidSplitTargetCount''),
    (6033, ''InvalidSplitWeights''), (6034, ''DuplicateSplitTarget''), (6035, ''TokenAccountEncumbered''),
    (6036, ''TargetMintFreezable''), (6037, ''TargetMintMintable''), (6038, ''TargetMintNative''),
    (6039, ''ReferenceInvalid''), (6040, ''ReferenceCapExceeded''), (6041, ''ReferenceTooShallow'')]"

text \<open>A code is absent, a number, or not a number (\<open>None\<close>).\<close>

record setup_attribution =
  sa_code :: "int option option"
  sa_programId :: "string option"
  sa_isBurner :: bool
  sa_name :: "string option"

fun first_match :: "(string \<Rightarrow> 'a option) \<Rightarrow> string \<Rightarrow> 'a option" where
  "first_match f [] = f []"
| "first_match f (c # s) = (case f (c # s) of Some r \<Rightarrow> Some r | None \<Rightarrow> first_match f s)"

text \<open>\<open>/"Custom":\s*(\d+)/\<close> and \<open>/custom program error: 0x([0-9a-f]+)/i\<close>, at the start of a text.\<close>

definition match_custom :: "string \<Rightarrow> string option" where
  "match_custom s = (let digits = takeWhile is_digit (dropWhile js_space (drop 9 s)) in
    if take 9 s = ''\"Custom\":'' \<and> digits \<noteq> [] then Some digits else None)"

definition match_frame :: "string \<Rightarrow> (bool \<times> string) option" where
  "match_frame s = (let digits = takeWhile hex_digit (drop 24 s) in
    if ci_prefix ''custom program error: 0x'' s \<and> digits \<noteq> [] then Some (s ! 23 = CHR ''x'', digits) else None)"

definition attributeFailure :: "string \<Rightarrow> string list \<Rightarrow> string \<Rightarrow> setup_attribution" where
  "attributeFailure program logs fallbackText = (case first_failure logs of
     Some (failed, code) \<Rightarrow> \<lparr>sa_code = Some (Some code), sa_programId = Some failed, sa_isBurner = (failed = program),
       sa_name = (if failed = program then map_of ERROR_NAMES code else None)\<rparr>
   | None \<Rightarrow> \<lparr>sa_code = (case first_match match_custom fallbackText of
         Some digits \<Rightarrow> Some (as_integer (js_Number (JStr digits)))
       | None \<Rightarrow> (case first_match match_frame fallbackText of
           Some (lower_x, digits) \<Rightarrow>
             Some (if lower_x then Some (hex_value digits) else as_integer (js_Number (JStr digits)))
         | None \<Rightarrow> None)),
       sa_programId = None, sa_isBurner = False, sa_name = None\<rparr>)"

subsection \<open>Simulating the validation\<close>

text \<open>\<open>simulate\<close> is the RPC: no error, or the logs and the printed error.\<close>

datatype config_verdict = Validated | ConfigSkipped | ConfigRefused setup_attribution

definition simulateValidateConfig ::
  "web3 \<Rightarrow> pubkey \<Rightarrow> (pubkey list \<Rightarrow> pubkey option list res) \<Rightarrow>
    (instruction \<Rightarrow> (string list \<times> string) option res) \<Rightarrow> pubkey \<Rightarrow>
    (app_leg \<times> setup_block option) list \<Rightarrow> int list option \<Rightarrow> config_verdict res" where
  "simulateValidateConfig w program ownersOf simulate launchMint rawLegs probeAmounts =
    bindR (deriveSplitPda w program launchMint (map fst rawLegs)) (\<lambda>(pda, bump).
    bindR (resolveLegs w pda ownersOf (map fst rawLegs) {}) (\<lambda>resolved.
      (let legs = map2 (\<lambda>leg raw. leg\<lparr>sl_block := snd raw\<rparr>) resolved rawLegs in
       case probeAmounts of
         None \<Rightarrow> Inr ConfigSkipped
       | Some probes \<Rightarrow>
           if \<not> list_all (\<lambda>leg. sl_block leg \<noteq> None) legs then Inr ConfigSkipped
           else bindR (buildValidateConfigModeA w program pda launchMint legs probes) (\<lambda>instruction.
             bindR (simulate instruction) (\<lambda>verdict. case verdict of
               None \<Rightarrow> Inr Validated
             | Some (logs, err) \<Rightarrow> Inr (ConfigRefused (attributeFailure (toBase58 program) logs err)))))))"

subsection \<open>Sending and confirming\<close>

record signature_status =
  ss_err :: jsval
  ss_level :: "string option"

text \<open>One round of polling: the status, the block height after it, and the status read once more.\<close>

record poll =
  po_status :: "signature_status option"
  po_height :: int
  po_late :: "signature_status option"

datatype confirmation = Confirmed | FailedOnChain jsval | Expired

definition settled_status :: "signature_status \<Rightarrow> confirmation option" where
  "settled_status s = (if js_truthy (ss_err s) then Some (FailedOnChain (ss_err s))
     else if ss_level s \<in> {Some ''confirmed'', Some ''finalized''} then Some Confirmed else None)"

definition expired_status :: "signature_status option \<Rightarrow> confirmation" where
  "expired_status late = (case late of None \<Rightarrow> Expired
     | Some s \<Rightarrow> if js_truthy (ss_err s) then FailedOnChain (ss_err s) else Confirmed)"

text \<open>\<open>None\<close>: every round so far left the question open.\<close>

fun confirmByPolling :: "int \<Rightarrow> poll list \<Rightarrow> confirmation option" where
  "confirmByPolling lastValidBlockHeight [] = None"
| "confirmByPolling lastValidBlockHeight (p # later) =
    (case (case po_status p of Some s \<Rightarrow> settled_status s | None \<Rightarrow> None) of
       Some c \<Rightarrow> Some c
     | None \<Rightarrow> if po_height p > lastValidBlockHeight then Some (expired_status (po_late p))
        else confirmByPolling lastValidBlockHeight later)"

datatype setup_error = SetupError setup_attribution "string list" | SetupThrown error

text \<open>
  The wallet and the extra keys sign what was compiled; \<open>send\<close> answers with a signature, or with the logs
  and the printed error of the refusal; \<open>landedLogs\<close> are those of a transaction that failed on chain.
\<close>

definition last8 :: "string list \<Rightarrow> string list" where
  "last8 logs = drop (length logs - 8) logs"

definition sendWithWallet ::
  "string \<Rightarrow> latest_blockhash res \<Rightarrow> (string \<Rightarrow> instruction list \<Rightarrow> lookup_table list \<Rightarrow> 'tx res) \<Rightarrow> ('tx \<Rightarrow> 'tx res) \<Rightarrow>
    ('tx \<Rightarrow> 'tx res) \<Rightarrow> ('tx \<Rightarrow> byte list res) \<Rightarrow> (byte list \<Rightarrow> (string list \<times> string) + string) \<Rightarrow> (string \<Rightarrow> poll list) \<Rightarrow>
    (jsval \<Rightarrow> string) \<Rightarrow> (string \<Rightarrow> string list) \<Rightarrow> instruction list \<Rightarrow> lookup_table list \<Rightarrow>
    (setup_error + string) option" where
  "sendWithWallet program latest compile signExtra signWallet serialize send polls stringify landedLogs instructions lookupTables =
    (case bindR latest (\<lambda>validity. bindR (compile (lb_blockhash validity) instructions lookupTables) (\<lambda>tx.
        bindR (signExtra tx) (\<lambda>tx1. bindR (signWallet tx1) (\<lambda>tx2. bindR (serialize tx2) (\<lambda>wire.
          Inr (validity, wire)))))) of
       Inl e \<Rightarrow> Some (Inl (SetupThrown e))
     | Inr (validity, wire) \<Rightarrow> (case send wire of
         Inl (logs, message) \<Rightarrow> Some (Inl (SetupError (attributeFailure program logs message) (last8 logs)))
       | Inr signature \<Rightarrow> (case confirmByPolling (lb_lastValidBlockHeight validity) (polls signature) of
           None \<Rightarrow> None
         | Some Confirmed \<Rightarrow> Some (Inr signature)
         | Some failed \<Rightarrow> (let logs = landedLogs signature in
             Some (Inl (SetupError (attributeFailure program logs
               (case failed of FailedOnChain err \<Rightarrow> stringify err | _ \<Rightarrow> ''expired'')) (last8 logs)))))))"

subsection \<open>Facts\<close>

text \<open>The compact length prefix of the wire format: seven bits a byte, the high bit marks that more follow.\<close>

function shortvec :: "nat \<Rightarrow> byte list" where
  "shortvec n = (if n < 128 then [word_of_nat n] else word_of_nat (n mod 128 + 128) # shortvec (n div 128))"
  by pat_completeness auto
termination by (relation "measure id") auto

declare shortvec.simps [simp del]

lemma length_shortvec: "length (shortvec n) = shortVecBytes n"
  by (induction n rule: shortvec.induct) (subst shortvec.simps, subst shortVecBytes.simps, simp)

fun read_shortvec :: "byte list \<Rightarrow> (nat \<times> byte list) option" where
  "read_shortvec [] = None"
| "read_shortvec (b # bs) = (if unat b < 128 then Some (unat b, bs)
    else (case read_shortvec bs of None \<Rightarrow> None | Some (n, rest) \<Rightarrow> Some (unat b - 128 + 128 * n, rest)))"

lemma read_shortvec_shortvec: "read_shortvec (shortvec n @ rest) = Some (n, rest)"
proof (induction n rule: shortvec.induct)
  case (1 n)
  show ?case
  proof (cases "n < 128")
    case True
    then show ?thesis by (subst shortvec.simps) (simp add: unat_of_nat)
  next
    case False
    have "n mod 128 + 128 < 256" by simp
    then have "unat (word_of_nat (n mod 128 + 128) :: byte) = n mod 128 + 128"
      by (simp add: unat_of_nat del: of_nat_add)
    then show ?thesis
      using 1 False by (subst shortvec.simps) (simp del: of_nat_add)
  qed
qed

text \<open>The version 0 layout of a signed transaction, key by key; \<open>keyBytes\<close> are the 32 bytes of a key.\<close>

definition counted_bytes :: "byte list \<Rightarrow> byte list" where
  "counted_bytes bs = shortvec (length bs) @ bs"

definition instruction_wire :: "compiled_ix \<Rightarrow> byte list" where
  "instruction_wire ix = [word_of_nat (vi_program ix)] @ counted_bytes (map word_of_nat (vi_accounts ix))
    @ counted_bytes (vi_data ix)"

definition lookup_wire :: "(pubkey \<Rightarrow> byte list) \<Rightarrow> v0_lookup \<Rightarrow> byte list" where
  "lookup_wire keyBytes lookup = keyBytes (vl_table lookup) @ counted_bytes (map word_of_nat (vl_writable lookup))
    @ counted_bytes (map word_of_nat (vl_readonly lookup))"

definition message_wire :: "(pubkey \<Rightarrow> byte list) \<Rightarrow> v0_message \<Rightarrow> byte list" where
  "message_wire keyBytes m = [128, word_of_nat (vm_required m), word_of_nat (vm_readonlySigned m),
      word_of_nat (vm_readonlyUnsigned m)]
    @ shortvec (length (vm_static m)) @ concat (map keyBytes (vm_static m)) @ vm_blockhash m
    @ shortvec (length (vm_instructions m)) @ concat (map instruction_wire (vm_instructions m))
    @ shortvec (length (vm_lookups m)) @ concat (map (lookup_wire keyBytes) (vm_lookups m))"

definition transaction_wire :: "(pubkey \<Rightarrow> byte list) \<Rightarrow> byte list list \<Rightarrow> v0_message \<Rightarrow> byte list" where
  "transaction_wire keyBytes signatures m = shortvec (length signatures) @ concat signatures @ message_wire keyBytes m"

lemma length_counted: "length (counted_bytes bs) = shortVecBytes (length bs) + length bs"
  by (simp add: counted_bytes_def length_shortvec)

lemma length_wires:
  assumes "\<And>k. length (keyBytes k) = 32"
  shows "length (instruction_wire ix) = instruction_bytes ix"
    and "length (lookup_wire keyBytes lookup) = lookup_bytes lookup"
  by (simp_all add: instruction_wire_def instruction_bytes_def lookup_wire_def lookup_bytes_def length_counted assms)

lemma length_concat_each: "(\<And>x. x \<in> set xs \<Longrightarrow> length (f x) = g x) \<Longrightarrow> length (concat (map f xs)) = sum_list (map g xs)"
  by (induction xs) simp_all

lemma length_message_wire:
  assumes "\<And>k. length (keyBytes k) = 32" "length (vm_blockhash m) = 32"
  shows "length (message_wire keyBytes m) = message_bytes m"
proof -
  have "length (concat (map keyBytes (vm_static m))) = sum_list (map (\<lambda>k. 32) (vm_static m))"
    by (rule length_concat_each) (rule assms(1))
  moreover have "length (concat (map instruction_wire (vm_instructions m))) = sum_list (map instruction_bytes (vm_instructions m))"
    by (rule length_concat_each) (rule length_wires(1) [OF assms(1)])
  moreover have "length (concat (map (lookup_wire keyBytes) (vm_lookups m))) = sum_list (map lookup_bytes (vm_lookups m))"
    by (rule length_concat_each) (rule length_wires(2) [OF assms(1)])
  ultimately show ?thesis
    using assms(2) by (simp add: message_wire_def message_bytes_def length_shortvec sum_list_triv del: length_concat)
qed

text \<open>
  C40: The size the setup is planned with is the size on the wire: for every message, also one that is too
  long to be sent, it is the length of the signed version 0 transaction, length prefixes, signatures,
  keys, instructions and table look-ups included.
\<close>

theorem measured_exactly:
  assumes "compile payer instructions lookupTables = Inr m"
    and "\<And>k. length (keyBytes k) = 32" "length (vm_blockhash m) = 32"
    and "length signatures = vm_required m" "list_all (\<lambda>s. length s = 64) signatures"
  shows "measureTransaction compile payer instructions lookupTables
    = Inr (length (transaction_wire keyBytes signatures m))"
proof -
  have "length (concat signatures) = 64 * length signatures"
    using assms(5) by (induction signatures) auto
  then show ?thesis
    using assms(1,4) length_message_wire [OF assms(2,3)]
    by (simp add: measureTransaction_def transaction_wire_def signed_bytes_def length_shortvec)
qed

definition example_message :: v0_message where
  "example_message = \<lparr>vm_required = 1, vm_readonlySigned = 0, vm_readonlyUnsigned = 1,
    vm_static = [example_key 67, example_key 70], vm_blockhash = replicate 32 0,
    vm_instructions = [\<lparr>vi_program = 1, vi_accounts = [0, 2], vi_data = replicate 200 7\<rparr>],
    vm_lookups = [\<lparr>vl_table = example_key 71, vl_writable = [3], vl_readonly = []\<rparr>]\<rparr>"

lemma measured_exactly_witness:
  "\<exists>n. measureTransaction (\<lambda>payer ixs tables. Inr example_message) (example_key 67) [] [] = Inr n \<and> n = 409 \<and>
    n = length (transaction_wire (\<lambda>k. replicate 32 0) [replicate 64 0] example_message)"
proof -
  have "measureTransaction (\<lambda>payer ixs tables. Inr example_message) (example_key 67) [] []
      = Inr (length (transaction_wire (\<lambda>k. replicate 32 0) [replicate 64 0] example_message))"
    by (rule measured_exactly) (simp_all add: example_message_def)
  moreover have "measureTransaction (\<lambda>payer ixs tables. Inr example_message) (example_key 67) [] [] = Inr 409"
    by code_simp
  ultimately show ?thesis by simp
qed

text \<open>A transaction lands as a whole or not at all: its instructions run in order, the first failure undoes it.\<close>

fun run_instructions :: "(instruction \<Rightarrow> 's \<Rightarrow> 's option) \<Rightarrow> instruction list \<Rightarrow> 's \<Rightarrow> 's option" where
  "run_instructions exec [] st = Some st"
| "run_instructions exec (ix # ixs) st = (case exec ix st of None \<Rightarrow> None | Some st' \<Rightarrow> run_instructions exec ixs st')"

lemma run_append:
  "run_instructions exec (xs @ ys) st = Some st' \<longleftrightarrow>
    (\<exists>mid. run_instructions exec xs st = Some mid \<and> run_instructions exec ys mid = Some st')"
  by (induction xs arbitrary: st) (auto split: option.splits)

lemma run_Cons:
  "run_instructions exec (ix # ixs) st = Some st' \<longleftrightarrow> (\<exists>mid. exec ix st = Some mid \<and> run_instructions exec ixs mid = Some st')"
  by (auto split: option.splits)

text \<open>
  C38: The fee share of a launch, which can be set only once, is never committed unvalidated: whatever the
  chain does, a planned transaction that lands either has no fee-share instruction at all, or ran the full
  validation of this configuration right behind them, successfully, in the same transaction; and one with
  a fee share fits the 1,232 bytes, by its exact size.
\<close>

theorem fee_share_validated:
  assumes "planSetupWithFeeShare compile payer feeShare validateModeA ataInstructions lookupTables = Inr plan"
    and "tx \<in> set (sp_transactions plan)"
    and "run_instructions exec (pt_instructions tx) st = Some st'"
  shows "(pt_instructions tx = validateModeA # ataInstructions \<or>
      (\<exists>shared validated rest. run_instructions exec feeShare st = Some shared \<and>
        exec validateModeA shared = Some validated \<and> run_instructions exec rest validated = Some st' \<and>
        pt_instructions tx = feeShare @ validateModeA # rest \<and> pt_bytes tx \<le> 1232)) \<and>
    measureTransaction compile payer (pt_instructions tx) (pt_lookupTables tx) = Inr (pt_bytes tx)"
proof -
  have "(pt_instructions tx = validateModeA # ataInstructions \<or>
      (\<exists>rest. pt_instructions tx = feeShare @ validateModeA # rest \<and> pt_bytes tx \<le> 1232)) \<and>
    measureTransaction compile payer (pt_instructions tx) (pt_lookupTables tx) = Inr (pt_bytes tx)"
    using assms(1,2)
    by (auto simp: planSetupWithFeeShare_def Let_def bindR_Inr_iff MAX_TRANSACTION_BYTES_def not_less split: if_splits)
  moreover have "\<exists>shared validated. run_instructions exec feeShare st = Some shared \<and>
        exec validateModeA shared = Some validated \<and> run_instructions exec rest validated = Some st'"
    if "pt_instructions tx = feeShare @ validateModeA # rest" for rest
    using assms(3) unfolding that run_append run_Cons by blast
  ultimately show ?thesis by blast
qed

text \<open>A chain that counts its instructions, and a plan in two transactions.\<close>

definition step_of :: "byte \<Rightarrow> instruction" where
  "step_of b = \<lparr>programId = example_key 70, keys = [], ix_data = [b]\<rparr>"

definition sized_compile :: v0_compile where
  "sized_compile payer ixs tables = Inr (example_message\<lparr>vm_instructions :=
    map (\<lambda>ix. \<lparr>vi_program = 1, vi_accounts = [], vi_data = replicate 300 7\<rparr>) ixs\<rparr>)"

lemma fee_share_validated_witness:
  "\<exists>plan tx. planSetupWithFeeShare sized_compile (example_key 67) [step_of 1, step_of 2] (step_of 3) [step_of 4, step_of 5] []
      = Inr plan \<and> \<not> sp_atomic plan \<and> tx \<in> set (sp_transactions plan) \<and>
    pt_instructions tx = [step_of 1, step_of 2] @ step_of 3 # [] \<and> pt_bytes tx \<le> 1232"
proof -
  have eval: "case planSetupWithFeeShare sized_compile (example_key 67) [step_of 1, step_of 2] (step_of 3)
      [step_of 4, step_of 5] [] of
      Inr plan \<Rightarrow> \<not> sp_atomic plan \<and> map pt_instructions (sp_transactions plan)
        = [[step_of 3, step_of 4, step_of 5], [step_of 1, step_of 2, step_of 3]]
    | Inl e \<Rightarrow> False"
    by code_simp
  then obtain plan where plan: "planSetupWithFeeShare sized_compile (example_key 67) [step_of 1, step_of 2] (step_of 3)
      [step_of 4, step_of 5] [] = Inr plan" "\<not> sp_atomic plan"
      "map pt_instructions (sp_transactions plan) = [[step_of 3, step_of 4, step_of 5], [step_of 1, step_of 2, step_of 3]]"
    by (auto split: sum.splits)
  obtain a tx where "sp_transactions plan = [a, tx]" "pt_instructions tx = [step_of 1, step_of 2, step_of 3]"
    using plan(3) by (auto simp: map_eq_Cons_conv)
  then have tx: "tx \<in> set (sp_transactions plan)" "pt_instructions tx = [step_of 1, step_of 2, step_of 3]" by simp_all
  have "run_instructions (\<lambda>ix n. Some (Suc n)) (pt_instructions tx) 0 = Some 3"
    by (simp add: tx(2) eval_nat_numeral)
  from fee_share_validated [OF plan(1) tx(1) this] have "pt_bytes tx \<le> 1232"
    using tx(2) by (auto simp: step_of_def)
  then show ?thesis using plan(1,2) tx by auto
qed

text \<open>
  Only the transaction with the fee share is held to the limit: a plan is made also when the setup that
  comes first is too long to be sent.
\<close>

lemma setup_unbounded:
  "case planSetupWithFeeShare sized_compile (example_key 67) [step_of 1] (step_of 2) (replicate 5 (step_of 3)) [] of
     Inr plan \<Rightarrow> pt_bytes (hd (sp_transactions plan)) > 1232 | Inl e \<Rightarrow> False"
  by code_simp

subsection \<open>The validation and the burn\<close>

text \<open>A leg as the setup knows it and as a burn carries it.\<close>

definition same_accounts :: "setup_leg \<Rightarrow> prepared_leg \<Rightarrow> bool" where
  "same_accounts s p \<longleftrightarrow> al_mint (sl_leg s) = pl_targetMint p \<and> al_bps (sl_leg s) = pl_bps p \<and>
    sl_ata s = pl_targetAta p \<and> sl_tokenProgram s = pl_targetTokenProgram p \<and>
    sl_block s = Some \<lparr>rb_pool = rr_pool (pl_reference p), rb_vaultA = rr_vaultA (pl_reference p),
      rb_vaultB = rr_vaultB (pl_reference p), rb_feeSource = rr_feeSource (pl_reference p)\<rparr>"

lemma validated_block_same:
  assumes "same_accounts s p"
  shows "validated_block s = Inr (map (\<lambda>m. meta (pubkey_of m) False False) (legBlock p))"
  using assms by (simp add: same_accounts_def validated_block_def legBlock_def)

lemma validated_blocks:
  assumes "list_all2 same_accounts legs prepared" "traverse validated_block legs = Inr blocks"
  shows "concat blocks = map (\<lambda>m. meta (pubkey_of m) False False) (concat (map legBlock prepared))"
proof -
  have len: "length legs = length prepared" "length blocks = length legs"
    using list_all2_lengthD [OF assms(1)] traverse_from_length [OF assms(2)] by simp_all
  have "blocks ! k = map (\<lambda>m. meta (pubkey_of m) False False) (legBlock (prepared ! k))" if "k < length legs" for k
    using traverse_from_nth [OF assms(2) that] validated_block_same list_all2_nthD [OF assms(1) that] by simp
  then have "blocks = map (\<lambda>p. map (\<lambda>m. meta (pubkey_of m) False False) (legBlock p)) prepared"
    using len by (intro nth_equalityI) simp_all
  then show ?thesis by (simp add: map_concat comp_def)
qed

lemma take_length_append: "take (length xs) (xs @ ys) = xs"
  by simp


definition setup_of :: "prepared_leg \<Rightarrow> setup_leg" where
  "setup_of p = \<lparr>sl_leg = \<lparr>al_mint = pl_targetMint p, al_bps = pl_bps p, al_ref = None\<rparr>,
    sl_tokenProgram = pl_targetTokenProgram p, sl_ata = pl_targetAta p,
    sl_block = Some \<lparr>rb_pool = rr_pool (pl_reference p), rb_vaultA = rr_vaultA (pl_reference p),
      rb_vaultB = rr_vaultB (pl_reference p), rb_feeSource = rr_feeSource (pl_reference p)\<rparr>\<rparr>"


subsection \<open>Polling\<close>

text \<open>
  Polling ends: with the first round whose height lies above the last valid one, if no earlier one has
  settled the question; and it reports success only for a signature the cluster has reported without an
  error.
\<close>

theorem polling_ends:
  assumes "i < length polls" "po_height (polls ! i) > lastValid"
  shows "\<exists>c j. confirmByPolling lastValid polls = Some c \<and> j \<le> i \<and>
    (c = Confirmed \<longrightarrow> (\<exists>s. (po_status (polls ! j) = Some s \<or> po_late (polls ! j) = Some s) \<and> \<not> js_truthy (ss_err s)))"
  using assms
proof (induction polls arbitrary: i)
  case (Cons p polls)
  consider (settled) s c where "po_status p = Some s" "settled_status s = Some c"
    | (expired) "(case po_status p of Some s \<Rightarrow> settled_status s | None \<Rightarrow> None) = None" "po_height p > lastValid"
    | (later) "(case po_status p of Some s \<Rightarrow> settled_status s | None \<Rightarrow> None) = None" "\<not> po_height p > lastValid"
    by (cases "po_status p") (auto split: option.splits)
  then show ?case
  proof cases
    case settled
    then show ?thesis by (intro exI [of _ c] exI [of _ 0]) (auto simp: settled_status_def split: if_splits)
  next
    case expired
    then show ?thesis
      by (intro exI [of _ "expired_status (po_late p)"] exI [of _ 0])
        (auto simp: expired_status_def split: option.splits if_splits)
  next
    case later
    then obtain i' where "i = Suc i'" using Cons.prems(2) by (cases i) auto
    then obtain c j where "confirmByPolling lastValid polls = Some c" "j \<le> i'"
        "c = Confirmed \<longrightarrow> (\<exists>s. (po_status (polls ! j) = Some s \<or> po_late (polls ! j) = Some s) \<and> \<not> js_truthy (ss_err s))"
      using Cons.IH [of i'] Cons.prems by auto
    then show ?thesis
      using later \<open>i = Suc i'\<close> by (intro exI [of _ c] exI [of _ "Suc j"]) simp
  qed
qed simp

lemma polling_ends_witness:
  "\<exists>c. confirmByPolling 100 [\<lparr>po_status = None, po_height = 99, po_late = None\<rparr>,
    \<lparr>po_status = None, po_height = 101, po_late = None\<rparr>] = Some c"
  using polling_ends [of 1 "[\<lparr>po_status = None, po_height = 99, po_late = None\<rparr>,
    \<lparr>po_status = None, po_height = 101, po_late = None\<rparr>]" 100] by auto

text \<open>
  A transaction that is merely processed when its blockhash expires is reported as confirmed, although
  every round before treats that level as still open.
\<close>

lemma processed_reported:
  "confirmByPolling 100 [\<lparr>po_status = Some \<lparr>ss_err = JNull, ss_level = Some ''processed''\<rparr>, po_height = 101,
    po_late = Some \<lparr>ss_err = JNull, ss_level = Some ''processed''\<rparr>\<rparr>] = Some Confirmed"
  by (simp add: settled_status_def expired_status_def)

end
