(* ===== verification/FeeClaim.thy ===== *)
theory FeeClaim
  imports Setup BurnClient
begin

text \<open>
  The Pump side of the app: \<open>app/src/chain/pump.ts\<close>, which commits the creator fees of a launch to its vault
  and claims them, and \<open>reference.ts\<close>, which asks the service for the reference of a leg. The offline
  \<open>PUMP_SDK\<close>, the RPC and \<open>fetch\<close> are parameters; instructions the SDK builds are its values.
\<close>

subsection \<open>The SDK and the chain\<close>

record shareholder =
  sh_address :: pubkey
  sh_shareBps :: int

record sharing_config =
  sc_mint :: pubkey
  sc_shareholders :: "shareholder list"

record sdk_account =
  sk_owner :: pubkey
  sk_data :: "byte list"

record pump_sdk =
  feeSharingConfigPda :: "pubkey \<Rightarrow> pubkey"
  canonicalPumpPoolPda :: "pubkey \<Rightarrow> pubkey"
  creatorVaultPda :: "pubkey \<Rightarrow> pubkey"
  PUMP_FEE_PROGRAM_ID :: pubkey
  PUMP_AMM_PROGRAM_ID :: pubkey
  decodeSharingConfig :: "sdk_account \<Rightarrow> sharing_config res"
  createV2Instruction :: "pubkey \<Rightarrow> string \<Rightarrow> string \<Rightarrow> string \<Rightarrow> pubkey \<Rightarrow> instruction"
  createFeeSharingConfig :: "pubkey \<Rightarrow> pubkey \<Rightarrow> instruction"
  updateFeeSharesV2 :: "pubkey \<Rightarrow> pubkey \<Rightarrow> pubkey list \<Rightarrow> shareholder list \<Rightarrow> instruction"
  transferCreatorFeesToPumpV2 :: "pubkey \<Rightarrow> pubkey \<Rightarrow> instruction"
  getMinimumDistributableFee :: "pubkey \<Rightarrow> sharing_config \<Rightarrow> pubkey \<Rightarrow> instruction"
  distributeCreatorFeesV2 :: "pubkey \<Rightarrow> sharing_config \<Rightarrow> pubkey \<Rightarrow> pubkey \<Rightarrow> instruction"
  decodeMinimumDistributableFee :: "byte list \<Rightarrow> (int \<times> int \<times> bool) res"

text \<open>\<open>getAccountInfo\<close> and \<open>getMultipleAccountsInfo\<close> of one moment.\<close>

type_synonym sdk_reader = "pubkey \<Rightarrow> sdk_account option res"

subsection \<open>Launching\<close>

definition buildCreateV2Instruction :: "pump_sdk \<Rightarrow> pubkey \<Rightarrow> string \<Rightarrow> string \<Rightarrow> string \<Rightarrow> pubkey \<Rightarrow> instruction" where
  "buildCreateV2Instruction sdk mint name symbol uri creator = createV2Instruction sdk mint name symbol
    (if uri = [] then ''https://example.com/'' @ map lower symbol @ ''.json'' else uri) creator"

definition buildFeeShareInstructions :: "pump_sdk \<Rightarrow> pubkey \<Rightarrow> pubkey \<Rightarrow> pubkey \<Rightarrow> instruction list" where
  "buildFeeShareInstructions sdk creator mint vault =
    [createFeeSharingConfig sdk creator mint,
     updateFeeSharesV2 sdk creator mint [creator] [\<lparr>sh_address = vault, sh_shareBps = 10000\<rparr>]]"

subsection \<open>Claiming\<close>

definition verifiedSharingConfig :: "pump_sdk \<Rightarrow> sdk_reader \<Rightarrow> pubkey \<Rightarrow> pubkey \<Rightarrow> (pubkey \<times> sharing_config) res" where
  "verifiedSharingConfig sdk reader mint vault =
    (let address = feeSharingConfigPda sdk mint in
     bindR (reader address) (\<lambda>info. case info of
       None \<Rightarrow> Inl (PlainError ''Pump fee sharing is not configured for this launch'')
     | Some account \<Rightarrow>
        if sk_owner account \<noteq> PUMP_FEE_PROGRAM_ID sdk
        then Inl (PlainError ''Pump fee sharing config has the wrong owner'')
        else bindR (decodeSharingConfig sdk account) (\<lambda>config.
          if sc_mint config \<noteq> mint then Inl (PlainError ''Pump fee sharing config names a different mint'')
          else if length (sc_shareholders config) \<noteq> 1 \<or> sh_address (sc_shareholders config ! 0) \<noteq> vault \<or>
            sh_shareBps (sc_shareholders config ! 0) \<noteq> 10000
          then Inl (PlainError ''Claim blocked'')
          else Inr (address, config))))"

definition ammCreatorVaultAuthority :: "web3 \<Rightarrow> pump_sdk \<Rightarrow> pubkey \<Rightarrow> pubkey res" where
  "ammCreatorVaultAuthority w sdk sharingConfig =
    bindR (findProgramAddress w [map of_char ''creator_vault'', pubkeyBytes w sharingConfig] (PUMP_AMM_PROGRAM_ID sdk))
      (\<lambda>(authority, bump). Inr authority)"

record claim_context =
  cc_address :: pubkey
  cc_config :: sharing_config
  cc_graduated :: bool
  cc_transferFromAmm :: "instruction option"

definition claimContext ::
  "web3 \<Rightarrow> pump_sdk \<Rightarrow> sdk_reader \<Rightarrow> pubkey \<Rightarrow> pubkey \<Rightarrow> pubkey \<Rightarrow> claim_context res" where
  "claimContext w sdk reader mint vault payer =
    bindR (verifiedSharingConfig sdk reader mint vault) (\<lambda>(address, config).
    bindR (ammCreatorVaultAuthority w sdk address) (\<lambda>authority.
    bindR (associatedTokenAddress w NATIVE_MINT authority True TOKEN_PROGRAM_ID) (\<lambda>ammWsol.
    bindR (reader (canonicalPumpPoolPda sdk mint)) (\<lambda>poolInfo.
    bindR (reader ammWsol) (\<lambda>ammWsolInfo.
      Inr \<lparr>cc_address = address, cc_config = config, cc_graduated = (poolInfo \<noteq> None),
           cc_transferFromAmm = (if poolInfo \<noteq> None \<and> ammWsolInfo \<noteq> None
             then Some (transferCreatorFeesToPumpV2 sdk payer mint) else None)\<rparr>)))))"

definition sweep :: "claim_context \<Rightarrow> instruction list" where
  "sweep context = (case cc_transferFromAmm context of None \<Rightarrow> [] | Some ix \<Rightarrow> [ix])"

definition SIMULATION_PAYER :: pubkey where
  "SIMULATION_PAYER = PublicKey ''UqN2p5bAzBqYdHXcgB6WLtuVrdvmy9JSAtgqZb3CMKw''"

record claim_status =
  cs_sharingConfig :: string
  cs_creatorVault :: string
  cs_graduated :: bool
  cs_includesAmmSweep :: bool
  cs_distributableLamports :: int
  cs_minimumRequiredLamports :: int
  cs_canDistribute :: bool

text \<open>\<open>simulate\<close> runs the instructions under a payer: whether they failed, and the data they returned
  (\<open>None\<close> also for an empty text).\<close>

definition getCreatorFeeClaimStatus ::
  "web3 \<Rightarrow> pump_sdk \<Rightarrow> sdk_reader \<Rightarrow> (pubkey \<Rightarrow> instruction list \<Rightarrow> (bool \<times> byte list option) res) \<Rightarrow> pubkey \<Rightarrow> pubkey \<Rightarrow>
    pubkey option \<Rightarrow> claim_status res" where
  "getCreatorFeeClaimStatus w sdk reader simulate mint vault payer =
    (let payer' = (case payer of Some k \<Rightarrow> k | None \<Rightarrow> SIMULATION_PAYER) in
     bindR (claimContext w sdk reader mint vault payer') (\<lambda>context.
     bindR (simulate payer' (sweep context @ [getMinimumDistributableFee sdk mint (cc_config context) (cc_address context)]))
       (\<lambda>(failed, returned).
         if failed then Inl (PlainError ''Pump could not calculate the creator fees right now'')
         else (case returned of
           None \<Rightarrow> Inl (PlainError ''Pump returned no creator-fee amount'')
         | Some bytes \<Rightarrow> bindR (decodeMinimumDistributableFee sdk bytes) (\<lambda>(fees, minimum, canDistribute).
             Inr \<lparr>cs_sharingConfig = toBase58 (cc_address context),
               cs_creatorVault = toBase58 (creatorVaultPda sdk (cc_address context)),
               cs_graduated = cc_graduated context, cs_includesAmmSweep = (cc_transferFromAmm context \<noteq> None),
               cs_distributableLamports = fees, cs_minimumRequiredLamports = minimum,
               cs_canDistribute = canDistribute\<rparr>)))))"

definition buildCreatorFeeClaimInstructions ::
  "web3 \<Rightarrow> pump_sdk \<Rightarrow> sdk_reader \<Rightarrow> pubkey \<Rightarrow> pubkey \<Rightarrow> pubkey \<Rightarrow> instruction list res" where
  "buildCreatorFeeClaimInstructions w sdk reader payer mint vault =
    bindR (claimContext w sdk reader mint vault payer) (\<lambda>context.
      Inr (sweep context @ [distributeCreatorFeesV2 sdk mint (cc_config context) (cc_address context) payer]))"

subsection \<open>The reference of a leg\<close>

text \<open>A \<open>ReferenceError\<close> with its code; the texts are left out.\<close>

definition reference_failed :: "string \<Rightarrow> jsval + 'a" where
  "reference_failed code = Inl (JStr code)"

definition code_or :: "string \<Rightarrow> jsval \<Rightarrow> jsval" where
  "code_or code payload = (if member payload ''code'' \<in> {JUndef, JNull} then JStr code else member payload ''code'')"

definition response_ok :: "int \<Rightarrow> bool" where
  "response_ok status \<longleftrightarrow> 200 \<le> status \<and> status \<le> 299"

definition fetchCandidate ::
  "web_platform \<Rightarrow> (string \<Rightarrow> fetched) \<Rightarrow> string \<Rightarrow> string \<Rightarrow> string option \<Rightarrow> jsval + jsval \<times> jsval" where
  "fetchCandidate wp net serviceUrl mint pool =
    (let query = ''mint='' @ encodeURIComponent wp mint @
       (case pool of Some (c # cs) \<Rightarrow> ''&pool='' @ encodeURIComponent wp (c # cs) | _ \<Rightarrow> []) in
     case net (serviceUrl @ ''/reference/resolve?'' @ query) of
       Unreachable \<Rightarrow> reference_failed ''REFERENCE_REQUEST_FAILED''
     | Abandoned \<Rightarrow> reference_failed ''REFERENCE_DISCOVERY_TIMEOUT''
     | Answered status payload \<Rightarrow>
         if \<not> response_ok status \<or> \<not> js_truthy (member payload ''candidate'')
         then Inl (code_or ''REFERENCE_RESOLVE_FAILED'' payload)
         else Inr (member payload ''candidate'', if member payload ''discovery'' \<in> {JUndef, JNull}
           then JStr ''verified on chain'' else member payload ''discovery''))"

definition fetchMarketSelection :: "web_platform \<Rightarrow> (string \<Rightarrow> fetched) \<Rightarrow> string \<Rightarrow> string \<Rightarrow> jsval + jsval" where
  "fetchMarketSelection wp net serviceUrl mint =
    (case net (serviceUrl @ ''/reference/markets?mint='' @ encodeURIComponent wp mint) of
       Unreachable \<Rightarrow> reference_failed ''REFERENCE_REQUEST_FAILED''
     | Abandoned \<Rightarrow> reference_failed ''REFERENCE_DISCOVERY_TIMEOUT''
     | Answered status payload \<Rightarrow>
         if \<not> response_ok status \<or> \<not> js_truthy payload
         then Inl (code_or ''REFERENCE_MARKETS_FAILED'' payload) else Inr payload)"

text \<open>A candidate of the service as the app reads it.\<close>

record app_candidate =
  ac_pool :: string
  ac_vaultA :: "string option"
  ac_vaultB :: "string option"
  ac_feeSource :: "string option"
  ac_poolAddressSeed :: bool

record leg_reference =
  lr_ref :: "pubkey option"
  lr_block :: setup_block

definition legReferenceFrom :: "web3 \<Rightarrow> app_candidate \<Rightarrow> leg_reference res" where
  "legReferenceFrom w candidate =
    (if \<not> truthy_text (ac_vaultA candidate) \<or> \<not> truthy_text (ac_vaultB candidate) \<or>
        \<not> truthy_text (ac_feeSource candidate)
     then Inl (PlainError ''never authenticated'')
     else bindR (if ac_poolAddressSeed candidate
         then bindR (newPublicKey w (ac_pool candidate)) (\<lambda>k. Inr (Some k)) else Inr None) (\<lambda>ref.
       bindR (newPublicKey w (ac_pool candidate)) (\<lambda>pool.
       bindR (newPublicKey w (the (ac_vaultA candidate))) (\<lambda>vaultA.
       bindR (newPublicKey w (the (ac_vaultB candidate))) (\<lambda>vaultB.
       bindR (newPublicKey w (the (ac_feeSource candidate))) (\<lambda>feeSource.
         Inr \<lparr>lr_ref = ref, lr_block = \<lparr>rb_pool = pool, rb_vaultA = vaultA, rb_vaultB = vaultB,
           rb_feeSource = feeSource\<rparr>\<rparr>))))))"

subsection \<open>Claims go to the vault\<close>

lemma verified_Inr:
  "verifiedSharingConfig sdk reader mint vault = Inr (address, config) \<longleftrightarrow> address = feeSharingConfigPda sdk mint \<and>
    (\<exists>account. reader address = Inr (Some account) \<and> sk_owner account = PUMP_FEE_PROGRAM_ID sdk \<and>
      decodeSharingConfig sdk account = Inr config) \<and> sc_mint config = mint \<and>
    sc_shareholders config = [\<lparr>sh_address = vault, sh_shareBps = 10000\<rparr>]"
proof -
  have one: "length xs = 1 \<and> sh_address (xs ! 0) = vault \<and> sh_shareBps (xs ! 0) = 10000
      \<longleftrightarrow> xs = [\<lparr>sh_address = vault, sh_shareBps = 10000\<rparr>]" for xs
    by (cases xs) auto
  show ?thesis
    unfolding one [symmetric]
    by (auto simp: verifiedSharingConfig_def Let_def bindR_Inr_iff if_Inl_Inr split: option.splits)
qed

text \<open>
  Creator fees can only be claimed for the vault of the page: whatever the chain and the SDK answer, the
  instructions of a claim distribute a sharing config that was just read at the launch's own address from
  the fee program, for this mint, with this vault as the one shareholder; and the config that the launch
  commits, once on chain, passes that check.
\<close>

theorem claim_pays_vault:
  assumes "buildCreatorFeeClaimInstructions w sdk reader payer mint vault = Inr ixs"
  shows "\<exists>account config optional. reader (feeSharingConfigPda sdk mint) = Inr (Some account) \<and>
    sk_owner account = PUMP_FEE_PROGRAM_ID sdk \<and> decodeSharingConfig sdk account = Inr config \<and> sc_mint config = mint \<and>
    sc_shareholders config = [\<lparr>sh_address = vault, sh_shareBps = 10000\<rparr>] \<and>
    optional \<in> {[], [transferCreatorFeesToPumpV2 sdk payer mint]} \<and>
    ixs = optional @ [distributeCreatorFeesV2 sdk mint config (feeSharingConfigPda sdk mint) payer] \<and>
    buildFeeShareInstructions sdk payer mint vault ! 1 = updateFeeSharesV2 sdk payer mint [payer] (sc_shareholders config)"
proof -
  obtain cx' where cx: "claimContext w sdk reader mint vault payer = Inr cx'"
      "ixs = sweep cx' @ [distributeCreatorFeesV2 sdk mint (cc_config cx') (cc_address cx') payer]"
    using assms by (auto simp: buildCreatorFeeClaimInstructions_def bindR_Inr_iff)
  then have "verifiedSharingConfig sdk reader mint vault = Inr (cc_address cx', cc_config cx')"
      and "sweep cx' \<in> {[], [transferCreatorFeesToPumpV2 sdk payer mint]}"
    by (auto simp: claimContext_def bindR_Inr_iff sweep_def split: if_splits)
  then show ?thesis
    unfolding verified_Inr cx(2) buildFeeShareInstructions_def by force
qed

end
