(* ===== verification/TokenNames.thy ===== *)
theory TokenNames
  imports VaultLink Web JsText BurnClient
begin

text \<open>
  The labels of tokens in the app, \<open>app/src/chain/tokenName.ts\<close>: names and symbols read from the bytes of a
  mint, from Metaplex or from the service, images from metadata addresses, and what the caches of the page
  remember. \<open>TextDecoder\<close>, \<open>URL\<close>, the RPC and \<open>fetch\<close> are parameters; a timeout is a failed fetch, and calls
  in flight are not shared in the model.
\<close>

subsection \<open>Names in a mint\<close>

record token_name =
  tn_name :: string
  tn_symbol :: string
  tn_uri :: "string option"

text \<open>Four bytes of length, read as a signed number, and so many bytes of text.\<close>

definition readString :: "web_platform \<Rightarrow> byte list \<Rightarrow> nat \<Rightarrow> (string \<times> nat) option" where
  "readString wp data offset =
    (if offset + 4 > length data then None
     else (let len = le_value (take 4 (drop offset data)); start = offset + 4 in
       if 2 ^ 31 \<le> len \<or> start + nat len > length data then None
       else Some (decodeText wp (take (nat len) (drop start data)), start + nat len)))"

definition name_from :: "(string \<Rightarrow> string) \<Rightarrow> (string \<Rightarrow> string option) \<Rightarrow> web_platform \<Rightarrow> byte list \<Rightarrow> nat \<Rightarrow> token_name option" where
  "name_from clean cleanUri wp data offset = (case readString wp data offset of
     None \<Rightarrow> None
   | Some (name, next1) \<Rightarrow> (case readString wp data next1 of
       None \<Rightarrow> None
     | Some (symbol, next2) \<Rightarrow>
         if clean name = [] \<and> clean symbol = [] then None
         else Some \<lparr>tn_name = clean name, tn_symbol = clean symbol,
           tn_uri = (case readString wp data next2 of None \<Rightarrow> None | Some (uri, next3) \<Rightarrow> cleanUri uri)\<rparr>))"

definition trimmed_uri :: "string \<Rightarrow> string option" where
  "trimmed_uri uri = (if js_trim uri = [] then None else Some (js_trim uri))"

function token_name_at :: "web_platform \<Rightarrow> byte list \<Rightarrow> nat \<Rightarrow> token_name option" where
  "token_name_at wp data cursor =
    (if cursor + 4 > length data then None
     else (let type = le_value (take 2 (drop cursor data)); len = nat (le_value (take 2 (drop (cursor + 2) data)));
           val = cursor + 4 in
       if type = 0 then None
       else if val + len > length data then None
       else if type = 19 then name_from js_trim trimmed_uri wp data (val + 64)
       else token_name_at wp data (val + len)))"
  by pat_completeness auto
termination by (relation "measure (\<lambda>(wp, data, cursor). Suc (length data) - cursor)") auto

declare token_name_at.simps [simp del]

definition parseTokenName :: "web_platform \<Rightarrow> byte list \<Rightarrow> token_name option" where
  "parseTokenName wp data = token_name_at wp data 166"

subsection \<open>Names of older mints\<close>

definition METAPLEX :: pubkey where
  "METAPLEX = PublicKey ''metaqbxxUerdq28cj1RbAWkYQm3ybzjb6a8bt518x1s''"

text \<open>\<open>s.replace(/\0+$/, "").trim()\<close>\<close>

definition clean_text :: "string \<Rightarrow> string" where
  "clean_text s = js_trim (rev (dropWhile (\<lambda>c. c = CHR 0x00) (rev s)))"

definition fetchMetaplexName ::
  "web_platform \<Rightarrow> web3 \<Rightarrow> (pubkey \<Rightarrow> byte list option res) \<Rightarrow> string \<Rightarrow> token_name option res" where
  "fetchMetaplexName wp w reader mint =
    bindR (newPublicKey w mint) (\<lambda>key.
    bindR (findProgramAddress w [map of_char ''metadata'', pubkeyBytes w METAPLEX, pubkeyBytes w key] METAPLEX)
      (\<lambda>(pda, bump).
    bindR (reader pda) (\<lambda>info. case info of
       None \<Rightarrow> Inr None
     | Some data \<Rightarrow> Inr (name_from clean_text (\<lambda>uri. Some (clean_text uri)) wp data 65))))"

type_synonym 'a label_cache = "string \<rightharpoonup> 'a option"

definition look_up_name ::
  "web_platform \<Rightarrow> web3 \<Rightarrow> (pubkey \<Rightarrow> byte list option res) \<Rightarrow> string \<Rightarrow> token_name option res" where
  "look_up_name wp w reader mint =
    bindR (newPublicKey w mint) (\<lambda>key. bindR (reader key) (\<lambda>info.
      (case (case info of Some data \<Rightarrow> parseTokenName wp data | None \<Rightarrow> None) of
         Some parsed \<Rightarrow> Inr (Some parsed)
       | None \<Rightarrow> fetchMetaplexName wp w reader mint)))"

text \<open>A failure is no evidence of absence: it is not remembered.\<close>

definition fetchTokenName ::
  "web_platform \<Rightarrow> web3 \<Rightarrow> (pubkey \<Rightarrow> byte list option res) \<Rightarrow> string \<Rightarrow> token_name label_cache \<Rightarrow>
    token_name option \<times> token_name label_cache" where
  "fetchTokenName wp w reader mint cache = (case cache mint of
     Some hit \<Rightarrow> (hit, cache)
   | None \<Rightarrow> (case look_up_name wp w reader mint of
       Inl e \<Rightarrow> (None, cache)
     | Inr parsed \<Rightarrow> (parsed, cache(mint \<mapsto> parsed))))"

subsection \<open>Images\<close>

definition DEAD_OR_BARE_GATEWAYS :: "string list" where
  "DEAD_OR_BARE_GATEWAYS = [''https://cf-ipfs.com/ipfs/'', ''https://cloudflare-ipfs.com/ipfs/'', ''https://ipfs.infura.io/ipfs/'']"

definition rewriteGateway :: "string \<Rightarrow> string" where
  "rewriteGateway uri =
    (if starts_with ''ipfs://'' uri then ''https://ipfs.io/ipfs/'' @ drop 7 uri
     else (case find (\<lambda>gateway. starts_with gateway uri) DEAD_OR_BARE_GATEWAYS of
       Some gateway \<Rightarrow> ''https://ipfs.io/ipfs/'' @ drop (length gateway) uri
     | None \<Rightarrow> uri))"

definition https_address :: "web_platform \<Rightarrow> string \<Rightarrow> string option" where
  "https_address wp uri = (case newURL wp (rewriteGateway uri) of
     Some url \<Rightarrow> if url_protocol url = ''https:'' then Some (url_href url) else None
   | None \<Rightarrow> None)"

text \<open>
  The answer: whether it was read to its end, and the image it names. An image that is no address is an
  error and ends the reading; one that is not secure is only left out.
\<close>

definition image_of_json :: "web_platform \<Rightarrow> jsval \<Rightarrow> bool \<times> string option" where
  "image_of_json wp answer = (case answer of
     JNull \<Rightarrow> (False, None)
   | _ \<Rightarrow> (case member answer ''image'' of
       JStr s \<Rightarrow> (case newURL wp (rewriteGateway s) of
           None \<Rightarrow> (False, None) | Some _ \<Rightarrow> (True, https_address wp s))
     | _ \<Rightarrow> (True, None)))"

text \<open>\<open>net\<close>: \<open>None\<close> for a failed fetch, else whether it was ok and what its body parses to.\<close>

definition read_image :: "web_platform \<Rightarrow> (string \<Rightarrow> (bool \<times> jsval option) option) \<Rightarrow> string \<Rightarrow> bool \<times> string option" where
  "read_image wp net uri = (case https_address wp uri of
     None \<Rightarrow> (False, None)
   | Some href \<Rightarrow> (case net href of
       Some (True, Some answer) \<Rightarrow> image_of_json wp answer
     | _ \<Rightarrow> (False, None)))"

definition fetchTokenImage ::
  "web_platform \<Rightarrow> (string \<Rightarrow> (bool \<times> jsval option) option) \<Rightarrow> string \<Rightarrow> string label_cache \<Rightarrow>
    string option \<times> string label_cache" where
  "fetchTokenImage wp net uri cache = (case cache uri of
     Some hit \<Rightarrow> (hit, cache)
   | None \<Rightarrow> (case read_image wp net uri of
       (completed, img) \<Rightarrow> (img, if img \<noteq> None \<or> completed then cache(uri \<mapsto> img) else cache)))"

subsection \<open>Names from the service\<close>

record service_token =
  st_name :: jsval
  st_symbol :: jsval
  st_image :: jsval

definition nullish_or :: "jsval \<Rightarrow> jsval \<Rightarrow> jsval" where
  "nullish_or d v = (if v \<in> {JUndef, JNull} then d else v)"

definition service_token_of :: "jsval \<Rightarrow> service_token option" where
  "service_token_of answer =
    (if js_truthy (member answer ''found'') \<and> (js_truthy (member answer ''symbol'') \<or> js_truthy (member answer ''name''))
     then Some \<lparr>st_name = nullish_or (JStr []) (member answer ''name''),
       st_symbol = nullish_or (JStr []) (member answer ''symbol''), st_image = nullish_or JUndef (member answer ''image'')\<rparr>
     else None)"

text \<open>A body of \<open>null\<close> is read to its end before it fails, so it is remembered as a miss.\<close>

definition fetchServiceToken ::
  "web_platform \<Rightarrow> string \<Rightarrow> (string \<Rightarrow> (bool \<times> jsval option) option) \<Rightarrow> string \<Rightarrow> service_token label_cache \<Rightarrow>
    service_token option \<times> service_token label_cache" where
  "fetchServiceToken wp serviceUrl net mint cache = (case cache mint of
     Some hit \<Rightarrow> (hit, cache)
   | None \<Rightarrow> (case net (serviceUrl @ ''/token?mint='' @ encodeURIComponent wp mint) of
       Some (True, Some answer) \<Rightarrow> (service_token_of answer, cache(mint \<mapsto> service_token_of answer))
     | _ \<Rightarrow> (None, cache)))"

text \<open>\<open>query.trim().replace(/\s+/g, " ")\<close>\<close>

fun collapse_spaces :: "string \<Rightarrow> string" where
  "collapse_spaces [] = []"
| "collapse_spaces (c # s) = (if js_space c
    then (case s of [] \<Rightarrow> '' '' | d # _ \<Rightarrow> if js_space d then collapse_spaces s else CHR '' '' # collapse_spaces s)
    else c # collapse_spaces s)"

definition text_or_empty :: "jsval \<Rightarrow> string" where
  "text_or_empty v = (case v of JStr s \<Rightarrow> s | _ \<Rightarrow> [])"

definition is_text :: "jsval \<Rightarrow> bool" where
  "is_text v \<longleftrightarrow> (case v of JStr s \<Rightarrow> True | _ \<Rightarrow> False)"

definition app_search_row :: "web_platform \<Rightarrow> string \<Rightarrow> jsval \<Rightarrow> (string \<times> string \<times> string \<times> string option) list" where
  "app_search_row wp serviceUrl row = (case member row ''mint'' of
     JStr mint \<Rightarrow>
       if is_text (member row ''name'') \<or> is_text (member row ''symbol'')
       then [(mint, text_or_empty (member row ''name''), text_or_empty (member row ''symbol''),
         if is_text (member row ''image'') then Some (serviceUrl @ ''/token/image?mint='' @ encodeURIComponent wp mint) else None)]
       else []
   | _ \<Rightarrow> [])"

text \<open>A failed search, and a row that cannot be read, is no result at all.\<close>

definition searchServiceTokens ::
  "web_platform \<Rightarrow> string \<Rightarrow> (string \<Rightarrow> (bool \<times> jsval option) option) \<Rightarrow> string \<Rightarrow>
    (string \<times> string \<times> string \<times> string option) list" where
  "searchServiceTokens wp serviceUrl net query =
    (let normalized = collapse_spaces (js_trim query) in
     if length normalized < 2 \<or> length normalized > 64 then []
     else (case net (serviceUrl @ ''/token/search?query='' @ encodeURIComponent wp normalized) of
       Some (True, Some answer) \<Rightarrow> (case member answer ''results'' of
           JArr rows \<Rightarrow> if list_ex (\<lambda>row. row \<in> {JNull, JUndef}) rows then [] else concat (map (app_search_row wp serviceUrl) rows)
         | _ \<Rightarrow> [])
     | _ \<Rightarrow> []))"

subsection \<open>What is read is what was written\<close>

definition text_field_bytes :: "byte list \<Rightarrow> byte list" where
  "text_field_bytes bs = le_bytes 4 (int (length bs)) @ bs"

lemma readString_written:
  assumes "length bs < 2 ^ 31"
  shows "readString wp (pre @ text_field_bytes bs @ rest) (length pre)
    = Some (decodeText wp bs, length (pre @ text_field_bytes bs))"
proof -
  have "int (length bs) < 256 ^ 4" using assms by simp
  then have "le_value (le_bytes 4 (int (length bs))) = int (length bs)" by (intro le_value_le_bytes) simp_all
  moreover have "int (length bs) < 2 ^ 31" using assms by simp
  ultimately show ?thesis by (simp add: readString_def text_field_bytes_def Let_def)
qed

definition tlv :: "int \<times> byte list \<Rightarrow> byte list" where
  "tlv entry = le_bytes 2 (fst entry) @ le_bytes 2 (int (length (snd entry))) @ snd entry"

lemma length_tlv: "length (tlv entry) = length (snd entry) + 4"
  by (simp add: tlv_def)

lemma token_name_step:
  assumes "0 < fst entry" "fst entry < 65536" "length (snd entry) < 65536"
  shows "token_name_at wp (pre @ tlv entry @ rest) (length pre)
    = (if fst entry = 19 then name_from js_trim trimmed_uri wp (pre @ tlv entry @ rest) (length pre + 68)
       else token_name_at wp (pre @ tlv entry @ rest) (length pre + (length (snd entry) + 4)))"
proof -
  have "le_value (le_bytes 2 (fst entry)) = fst entry" by (rule le_value_le_bytes) (use assms in simp_all)
  moreover have "le_value (le_bytes 2 (int (length (snd entry)))) = int (length (snd entry))"
    by (rule le_value_le_bytes) (use assms(3) in simp_all)
  moreover have "take 2 (drop (length pre) (pre @ tlv entry @ rest)) = le_bytes 2 (fst entry)"
      "take 2 (drop (length pre + 2) (pre @ tlv entry @ rest)) = le_bytes 2 (int (length (snd entry)))"
    by (simp_all add: tlv_def)
  ultimately show ?thesis
    using assms(1)
    by (subst token_name_at.simps) (simp add: Let_def tlv_def algebra_simps)
qed

lemma token_name_skips:
  assumes "list_all (\<lambda>e. 0 < fst e \<and> fst e < 65536 \<and> fst e \<noteq> 19 \<and> length (snd e) < 65536) entries"
  shows "token_name_at wp (pre @ concat (map tlv entries) @ rest) (length pre)
    = token_name_at wp (pre @ concat (map tlv entries) @ rest) (length (pre @ concat (map tlv entries)))"
  using assms
proof (induction entries arbitrary: pre)
  case (Cons e entries)
  then have "token_name_at wp (pre @ tlv e @ concat (map tlv entries) @ rest) (length pre)
      = token_name_at wp (pre @ tlv e @ concat (map tlv entries) @ rest) (length (pre @ tlv e))"
    by (subst token_name_step) (simp_all add: length_tlv)
  then show ?case using Cons.IH [of "pre @ tlv e"] Cons.prems by simp
qed simp

text \<open>
  The name a mint carries is the name the app shows: behind the account and whatever other extensions,
  a metadata extension written as the interface lays it out is read back, trimmed, with its address.
\<close>

theorem token_name_read:
  assumes "length account = 166" "length owners = 64"
    and "list_all (\<lambda>e. 0 < fst e \<and> fst e < 65536 \<and> fst e \<noteq> 19 \<and> length (snd e) < 65536) entries"
    and "length (owners @ text_field_bytes name @ text_field_bytes symbol @ text_field_bytes uri @ extra) < 65536"
    and "js_trim (decodeText wp name) \<noteq> []"
  shows "parseTokenName wp (account @ concat (map tlv entries)
      @ tlv (19, owners @ text_field_bytes name @ text_field_bytes symbol @ text_field_bytes uri @ extra) @ rest)
    = Some \<lparr>tn_name = js_trim (decodeText wp name), tn_symbol = js_trim (decodeText wp symbol),
        tn_uri = trimmed_uri (decodeText wp uri)\<rparr>"
proof -
  define before where "before = account @ concat (map tlv entries)"
  define body where "body = owners @ text_field_bytes name @ text_field_bytes symbol @ text_field_bytes uri @ extra"
  define pre where "pre = before @ le_bytes 2 19 @ le_bytes 2 (int (length body)) @ owners"
  have short: "length name < 2 ^ 31" "length symbol < 2 ^ 31" "length uri < 2 ^ 31"
    using assms(4) by (simp_all add: text_field_bytes_def)
  have bytes: "before @ tlv (19, body) @ rest = pre @ text_field_bytes name @ text_field_bytes symbol
      @ text_field_bytes uri @ extra @ rest"
    by (simp add: pre_def body_def tlv_def)
  have "parseTokenName wp (before @ tlv (19, body) @ rest) = token_name_at wp (before @ tlv (19, body) @ rest) (length before)"
    using token_name_skips [OF assms(3), of wp account "tlv (19, body) @ rest"] assms(1)
    by (simp add: parseTokenName_def before_def)
  also have "\<dots> = name_from js_trim trimmed_uri wp (before @ tlv (19, body) @ rest) (length before + 68)"
    by (subst token_name_step) (use assms(4) in \<open>simp_all add: body_def\<close>)
  also have "length before + 68 = length pre" using assms(2) by (simp add: pre_def)
  finally have "parseTokenName wp (before @ tlv (19, body) @ rest) = name_from js_trim trimmed_uri wp
      (pre @ text_field_bytes name @ text_field_bytes symbol @ text_field_bytes uri @ extra @ rest) (length pre)"
    unfolding bytes .
  also have "\<dots> = Some \<lparr>tn_name = js_trim (decodeText wp name), tn_symbol = js_trim (decodeText wp symbol),
        tn_uri = trimmed_uri (decodeText wp uri)\<rparr>"
    using readString_written [OF short(1), of wp pre "text_field_bytes symbol @ text_field_bytes uri @ extra @ rest"]
      readString_written [OF short(2), of wp "pre @ text_field_bytes name" "text_field_bytes uri @ extra @ rest"]
      readString_written [OF short(3), of wp "pre @ text_field_bytes name @ text_field_bytes symbol" "extra @ rest"] assms(5)
    by (simp add: name_from_def)
  finally show ?thesis unfolding before_def body_def by simp
qed

text \<open>
  The caches of the page stay sound: an image they hold is a secure address as \<open>URL\<close> prints it, and a
  failed look-up leaves them as they were.
\<close>

definition secure_image :: "web_platform \<Rightarrow> string \<Rightarrow> bool" where
  "secure_image wp img \<longleftrightarrow> (\<exists>s url. newURL wp s = Some url \<and> url_protocol url = ''https:'' \<and> img = url_href url)"

lemma https_address_secure: "https_address wp s = Some href \<Longrightarrow> secure_image wp href"
  by (auto simp: https_address_def secure_image_def split: option.splits if_splits)

lemma read_image_secure: "read_image wp net uri = (completed, Some href) \<Longrightarrow> completed \<and> secure_image wp href"
  by (auto simp: read_image_def image_of_json_def dest: https_address_secure
      split: option.split_asm prod.split_asm bool.split_asm jsval.split_asm)

lemma image_cache_sound:
  assumes "\<forall>uri img. cache uri = Some (Some img) \<longrightarrow> secure_image wp img"
    and "fetchTokenImage wp net uri cache = (img, cache')"
  shows "(\<forall>uri img. cache' uri = Some (Some img) \<longrightarrow> secure_image wp img) \<and>
    (fst (read_image wp net uri) \<or> cache' = cache)"
proof (cases "cache uri")
  case None
  obtain completed found where read: "read_image wp net uri = (completed, found)" by fastforce
  then have "cache' = (if found \<noteq> None \<or> completed then cache(uri \<mapsto> found) else cache)"
    using assms(2) None by (auto simp: fetchTokenImage_def)
  then show ?thesis
    using assms(1) read by (cases found) (auto split: if_split_asm dest: read_image_secure)
next
  case (Some hit)
  then show ?thesis using assms by (simp add: fetchTokenImage_def)
qed

lemma name_cache_sound: "look_up_name wp w reader mint = Inl e \<Longrightarrow> snd (fetchTokenName wp w reader mint cache) = cache"
  by (simp add: fetchTokenName_def split: option.splits)

end
