(* ===== verification/TableSetup.thy ===== *)
theory TableSetup
  imports Setup "HOL-Library.Sublist"
begin

text \<open>
  The lookup tables of the app: \<open>app/src/chain/setupLookupTable.ts\<close>, the shared table of the setup
  transactions, and \<open>createVaultLookupTable\<close> of \<open>app/src/chain/lookupTable.ts\<close>, which creates the
  table of a vault, fills it and waits until the cluster serves it. The RPC, the instructions of the
  lookup table program and \<open>sendWithWallet\<close> are parameters; progress lines are left out.
\<close>

subsection \<open>The shared setup table\<close>

definition SETUP_LOOKUP_TABLE_ADDRESSES :: "string list" where
  "SETUP_LOOKUP_TABLE_ADDRESSES = [
    ''11111111111111111111111111111111'',
    ''TokenkegQfeZyiNwAJbNbGKPFXCWuBvf9Ss623VQ5DA'',
    ''TokenzQdBNbLqP5VEhdkAS6EPFLC1PHnBqCXEpPxuEb'',
    ''So11111111111111111111111111111111111111112'',
    ''4wTV1YmiEkRvAtNtsSGPtUrqRYQMe5SKy2uB4Jjaxnjf'',
    ''Ce6TQqeHC9p8KetsN6JsjHK7UTZk7nasjjnr7XxXp9F1'',
    ''D6QxXDt6hhcCpto4HiZKkN2YQ2iZRF5R7S3caCHpUsML'',
    ''pAMMBay6oceH9fJKBRHGP5D4bD4sWpmSwMn52FMfXEA'',
    ''GS4CU59F31iL7aR2Q8zVS8DRrcRnXX1yjQ66TqNVQnaR'']"

text \<open>A table with the slot of its last extension.\<close>

record extended_table =
  xt_table :: lookup_table
  xt_lastExtendedSlot :: int

text \<open>\<open>getTable\<close> and \<open>getSlot\<close> are the calls of the connection.\<close>

text \<open>What is checked of the table that was read.\<close>

definition check_setup_table :: "int res \<Rightarrow> extended_table \<Rightarrow> unit res" where
  "check_setup_table getSlot table =
    (if lt_deactivationSlot (xt_table table) \<noteq> ACTIVE_ALT_SLOT
     then Inl (PlainError ''the configured shared setup lookup table is inactive'')
     else (let live = map toBase58 (lt_addresses (xt_table table));
               missing = filter (\<lambda>item. item \<notin> set live) SETUP_LOOKUP_TABLE_ADDRESSES in
       if missing \<noteq> []
       then Inl (PlainError (''the configured shared setup lookup table is incomplete ('' @
         js_of_int (int (length missing)) @ '' fixed addresses missing)''))
       else bindR getSlot (\<lambda>currentSlot.
         if xt_lastExtendedSlot table \<ge> currentSlot
         then Inl (PlainError ''the configured shared setup lookup table is not active yet'')
         else Inr ())))"

definition loadSetupLookupTable ::
  "web3 \<Rightarrow> (pubkey \<Rightarrow> extended_table option res) \<Rightarrow> int res \<Rightarrow> string option \<Rightarrow> extended_table option res" where
  "loadSetupLookupTable w getTable getSlot address = (case address of
     None \<Rightarrow> Inr None
   | Some a \<Rightarrow>
      if a = [] then Inr None
      else (case parsePubkey w a of
        None \<Rightarrow> Inl (PlainError ''the configured shared setup lookup table is not base58'')
      | Some key \<Rightarrow> bindR (getTable key) (\<lambda>found. case found of
          None \<Rightarrow> Inl (PlainError ''the configured shared setup lookup table is missing'')
        | Some table \<Rightarrow> bindR (check_setup_table getSlot table) (\<lambda>_. Inr (Some table)))))"

lemma check_setup_table_Inr:
  "check_setup_table getSlot table = Inr u \<longleftrightarrow> lt_deactivationSlot (xt_table table) = ACTIVE_ALT_SLOT \<and>
    set SETUP_LOOKUP_TABLE_ADDRESSES \<subseteq> toBase58 ` set (lt_addresses (xt_table table)) \<and>
    (\<exists>slot. getSlot = Inr slot \<and> xt_lastExtendedSlot table < slot)"
  by (auto simp: check_setup_table_def Let_def if_Inl_Inr bindR_Inr_iff filter_empty_conv not_le)

text \<open>
  A setup table is used only if it is the configured one, not being closed, usable since before the
  current slot, and holds every one of the fixed addresses; without a configured address none is used.
\<close>

theorem setup_table_loaded:
  "loadSetupLookupTable w getTable getSlot address = Inr (Some table) \<longleftrightarrow>
    (\<exists>a key slot. address = Some a \<and> a \<noteq> [] \<and> parsePubkey w a = Some key \<and> getTable key = Inr (Some table) \<and>
      lt_deactivationSlot (xt_table table) = ACTIVE_ALT_SLOT \<and>
      set SETUP_LOOKUP_TABLE_ADDRESSES \<subseteq> toBase58 ` set (lt_addresses (xt_table table)) \<and>
      getSlot = Inr slot \<and> xt_lastExtendedSlot table < slot)"
  by (cases address) (auto simp: loadSetupLookupTable_def bindR_Inr_iff case_option_Inl_Inr check_setup_table_Inr)

lemma setup_table_unset:
  "loadSetupLookupTable w getTable getSlot address = Inr None \<longleftrightarrow> address = None \<or> address = Some []"
  by (cases address) (auto simp: loadSetupLookupTable_def bindR_Inr_iff case_option_Inl_Inr)

text \<open>The nine addresses differ; and the four this development names are the constants of the chain.\<close>

lemma setup_addresses:
  "distinct SETUP_LOOKUP_TABLE_ADDRESSES \<and> length SETUP_LOOKUP_TABLE_ADDRESSES = 9 \<and>
    take 4 SETUP_LOOKUP_TABLE_ADDRESSES
      = map toBase58 [SYSTEM_PROGRAM, TOKEN_PROGRAM_ID, TOKEN_2022_PROGRAM_ID, NATIVE_MINT]"
  by code_simp

subsection \<open>The table of a vault\<close>

text \<open>Slices of \<open>n\<close> elements, the last one shorter.\<close>

fun slices :: "nat \<Rightarrow> 'a list \<Rightarrow> 'a list list" where
  "slices n [] = []"
| "slices n (x # xs) = (x # take (n - 1) xs) # slices n (drop (n - 1) xs)"

text \<open>The instructions of \<open>AddressLookupTableProgram\<close>.\<close>

record table_program =
  tp_createLookupTable :: "pubkey \<Rightarrow> pubkey \<Rightarrow> int \<Rightarrow> instruction \<times> pubkey"
  tp_extendLookupTable :: "pubkey \<Rightarrow> pubkey \<Rightarrow> pubkey \<Rightarrow> pubkey list \<Rightarrow> instruction"

text \<open>What is sent after the creation, one transaction an element: extensions by at most twenty addresses.\<close>

definition extend_transactions :: "table_program \<Rightarrow> pubkey \<Rightarrow> pubkey \<Rightarrow> pubkey list \<Rightarrow> instruction list list" where
  "extend_transactions lib wallet table addresses =
    map (\<lambda>part. [tp_extendLookupTable lib wallet wallet table part]) (slices 20 addresses)"

text \<open>
  \<open>send i\<close> is \<open>sendWithWallet\<close> for transaction \<open>i\<close>: \<open>None\<close> while its polling does not end. The first
  failure ends the run; \<open>Some None\<close> is success.
\<close>

fun send_each :: "(nat \<Rightarrow> instruction list \<Rightarrow> (setup_error + string) option) \<Rightarrow> nat \<Rightarrow> instruction list list \<Rightarrow>
    setup_error option option" where
  "send_each send i [] = Some None"
| "send_each send i (tx # txs) = (case send i tx of
     None \<Rightarrow> None
   | Some (Inl e) \<Rightarrow> Some (Some e)
   | Some (Inr signature) \<Rightarrow> send_each send (Suc i) txs)"

text \<open>One round of the wait: the slot, then the table.\<close>

type_synonym table_round = "int res \<times> lookup_table option res"

definition table_served :: "int \<Rightarrow> pubkey list \<Rightarrow> int \<Rightarrow> lookup_table option \<Rightarrow> bool" where
  "table_served extendedAt addresses now live \<longleftrightarrow> now > extendedAt \<and> (case live of
     None \<Rightarrow> False
   | Some t \<Rightarrow> list_all (\<lambda>a. list_ex (\<lambda>entry. entry = a) (lt_addresses t)) addresses)"

fun await_table :: "(nat \<Rightarrow> table_round) \<Rightarrow> int \<Rightarrow> pubkey list \<Rightarrow> nat \<Rightarrow> nat \<Rightarrow> bool res" where
  "await_table rounds extendedAt addresses i 0 = Inr False"
| "await_table rounds extendedAt addresses i (Suc fuel) =
    bindR (fst (rounds i)) (\<lambda>now. bindR (snd (rounds i)) (\<lambda>live.
      if table_served extendedAt addresses now live then Inr True
      else await_table rounds extendedAt addresses (Suc i) fuel))"

definition thrown :: "'a res \<Rightarrow> setup_error + 'a" where
  "thrown r = map_sum SetupThrown id r"

definition createVaultLookupTable ::
  "table_program \<Rightarrow> int res \<Rightarrow> (nat \<Rightarrow> instruction list \<Rightarrow> (setup_error + string) option) \<Rightarrow> int res \<Rightarrow>
    (nat \<Rightarrow> table_round) \<Rightarrow> pubkey \<Rightarrow> pubkey list \<Rightarrow> (setup_error + pubkey) option" where
  "createVaultLookupTable lib firstSlot send slotAfter rounds wallet addresses =
    (case thrown firstSlot of
       Inl e \<Rightarrow> Some (Inl e)
     | Inr slot \<Rightarrow> (case tp_createLookupTable lib wallet wallet (slot - 1) of (createIx, table) \<Rightarrow>
         (case send_each send 0 ([createIx] # extend_transactions lib wallet table addresses) of
            None \<Rightarrow> None
          | Some (Some e) \<Rightarrow> Some (Inl e)
          | Some None \<Rightarrow> Some (thrown (bindR slotAfter (\<lambda>extendedAt.
              bindR (await_table rounds extendedAt addresses 0 40) (\<lambda>active.
                if active then Inr table
                else Inl (PlainError (''lookup table '' @ toBase58 table @ '' did not become active in time; '' @
                  ''it exists on chain and setup can be retried'')))))))))"

subsection \<open>The table that is returned\<close>

lemma slices_nonempty_bounded: "0 < n \<Longrightarrow> part \<in> set (slices n xs) \<Longrightarrow> part \<noteq> [] \<and> length part \<le> n"
  by (induction n xs rule: slices.induct) auto

lemma concat_slices: "concat (slices n xs) = xs"
  by (induction n xs rule: slices.induct) simp_all

lemma send_each_done:
  "send_each send i txs = Some None \<longleftrightarrow> (\<forall>j < length txs. \<exists>s. send (i + j) (txs ! j) = Some (Inr s))"
proof (induction txs arbitrary: i)
  case (Cons tx txs)
  show ?case
  proof (cases "\<exists>s. send i tx = Some (Inr s)")
    case True
    then show ?thesis using Cons.IH [of "Suc i"] by (force simp: less_Suc_eq_0_disj)
  next
    case False
    then show ?thesis by (auto split: option.splits sum.splits intro!: exI [of _ 0])
  qed
qed simp

lemma await_table_true:
  "await_table rounds extendedAt addresses i fuel = Inr True \<Longrightarrow>
    \<exists>j now live. i \<le> j \<and> j < i + fuel \<and> rounds j = (Inr now, Inr (Some live)) \<and> now > extendedAt \<and>
      set addresses \<subseteq> set (lt_addresses live)"
proof (induction fuel arbitrary: i)
  case (Suc fuel)
  then obtain now live where r: "rounds i = (Inr now, Inr live)"
    by (cases "rounds i") (auto simp: bindR_Inr_iff)
  show ?case
  proof (cases "table_served extendedAt addresses now live")
    case True
    then show ?thesis
      using r by (intro exI [of _ i]) (auto simp: table_served_def list_all_iff list_ex_iff split: option.splits)
  next
    case False
    then have "await_table rounds extendedAt addresses (Suc i) fuel = Inr True" using Suc.prems r by simp
    from Suc.IH [OF this] obtain j now live where "Suc i \<le> j" "j < Suc i + fuel" "rounds j = (Inr now, Inr (Some live))"
        "now > extendedAt" "set addresses \<subseteq> set (lt_addresses live)" by blast
    then show ?thesis by (intro exI [of _ j] exI [of _ now] exI [of _ live]) simp
  qed
qed simp

text \<open>
  A table is returned only when the wallet has sent its creation and then extensions that name all of the
  addresses, in order and at most twenty each, every one of them confirmed, and when within forty rounds
  the cluster has served it, in a slot after the last extension, with every address.
\<close>

theorem created_table:
  assumes "createVaultLookupTable lib firstSlot send slotAfter rounds wallet addresses = Some (Inr table)"
  shows "\<exists>slot createIx extendedAt j now live. firstSlot = Inr slot \<and>
    tp_createLookupTable lib wallet wallet (slot - 1) = (createIx, table) \<and>
    (\<exists>s. send 0 [createIx] = Some (Inr s)) \<and>
    (\<forall>k < length (slices 20 addresses). \<exists>s. send (Suc k)
      [tp_extendLookupTable lib wallet wallet table (slices 20 addresses ! k)] = Some (Inr s)) \<and>
    concat (slices 20 addresses) = addresses \<and> list_all (\<lambda>part. length part \<le> 20) (slices 20 addresses) \<and>
    slotAfter = Inr extendedAt \<and> j < 40 \<and> rounds j = (Inr now, Inr (Some live)) \<and> now > extendedAt \<and>
    set addresses \<subseteq> set (lt_addresses live)"
proof -
  obtain slot where slot: "firstSlot = Inr slot"
    using assms by (cases firstSlot) (simp_all add: createVaultLookupTable_def thrown_def)
  obtain createIx t where create: "tp_createLookupTable lib wallet wallet (slot - 1) = (createIx, t)"
    by fastforce
  have sent: "send_each send 0 ([createIx] # extend_transactions lib wallet t addresses) = Some None"
    using assms by (auto simp: createVaultLookupTable_def thrown_def slot create split: option.splits)
  have rest: "thrown (bindR slotAfter (\<lambda>extendedAt. bindR (await_table rounds extendedAt addresses 0 40) (\<lambda>active.
      if active then Inr t else Inl (PlainError (''lookup table '' @ toBase58 t @ '' did not become active in time; '' @
        ''it exists on chain and setup can be retried''))))) = Inr table"
    using assms unfolding createVaultLookupTable_def slot by (simp only: thrown_def map_sum.simps sum.case id_apply create prod.case sent option.case option.inject)
  then obtain extendedAt where wait: "slotAfter = Inr extendedAt"
      "await_table rounds extendedAt addresses 0 40 = Inr True" "t = table"
    by (cases slotAfter; cases "await_table rounds (projr slotAfter) addresses 0 40")
      (auto simp: thrown_def split: if_splits)
  have "send_each send 0 ([createIx] # extend_transactions lib wallet table addresses) = Some None"
    using sent wait(3) by simp
  then have "\<forall>j < Suc (length (slices 20 addresses)). \<exists>s. send j
      (([createIx] # extend_transactions lib wallet table addresses) ! j) = Some (Inr s)"
    unfolding send_each_done by (simp add: extend_transactions_def)
  then have "\<exists>s. send 0 [createIx] = Some (Inr s)"
      "\<forall>k < length (slices 20 addresses). \<exists>s. send (Suc k)
        [tp_extendLookupTable lib wallet wallet table (slices 20 addresses ! k)] = Some (Inr s)"
    by (force simp: extend_transactions_def)+
  moreover have "list_all (\<lambda>part. length part \<le> 20) (slices 20 addresses)"
    using slices_nonempty_bounded [of 20 _ addresses] by (simp add: list_all_iff)
  ultimately show ?thesis
    using slot create wait concat_slices await_table_true [OF wait(2)] by auto
qed

text \<open>
  What has been created serves the burns: a table the app has created for what it collects, read later
  and still not deactivated, with nothing removed from it, covers the vault for the service.
\<close>

theorem created_table_serves:
  assumes "createVaultLookupTable lib firstSlot send slotAfter rounds wallet addresses = Some (Inr key)"
    and "\<And>j now live. j < 40 \<Longrightarrow> rounds j = (Inr now, Inr (Some live)) \<Longrightarrow> prefix (lt_addresses live) (lt_addresses table)"
    and "getTable key = Inr (Some table)" "lt_deactivationSlot table = ACTIVE_ALT_SLOT"
    and "collectVaultAltAddresses (d_web3 deps) (rq_pda rq) launchMint inputs = Inr addresses"
    and "admitBurn deps rq feePayer = Inr cx" "list_all2 input_of_leg (cx_admitted cx) inputs"
    and "table \<in> set (cx_requestedTables cx)"
  shows "lookupTableCovers getTable key addresses = Inr True \<and>
    vaultAltCovers (rq_pda rq) (cx_wsolAta cx) (cx_admitted cx) (cx_requestedTables cx)"
proof -
  obtain j now live where served: "j < 40" "rounds j = (Inr now, Inr (Some live))" "set addresses \<subseteq> set (lt_addresses live)"
    using created_table [OF assms(1)] by blast
  then have "set addresses \<subseteq> set (lt_addresses table)"
    using assms(2) [OF served(1,2)] set_mono_prefix by blast
  then have covers: "lookupTableCovers getTable key addresses = Inr True"
    using assms(3,4) by (auto simp: lookupTableCovers_def list_all_iff)
  then show ?thesis
    using collected_table_covers [OF assms(6,5,7) covers assms(3,8)] by simp
qed

text \<open>Whatever the cluster answers, the wait itself is over after forty rounds.\<close>

theorem creation_ends:
  assumes "\<And>i tx. send i tx \<noteq> None"
  shows "createVaultLookupTable lib firstSlot send slotAfter rounds wallet addresses \<noteq> None"
proof -
  have sends: "send_each send i txs \<noteq> None" for i txs
    using assms by (induction txs arbitrary: i) (auto split: option.splits sum.splits)
  show ?thesis
    unfolding createVaultLookupTable_def
    by (simp add: sends del: send_each.simps split: sum.splits prod.splits option.splits)
qed

subsection \<open>An example\<close>

definition example_program :: table_program where
  "example_program = \<lparr>tp_createLookupTable = (\<lambda>authority payer slot. (step_of 1, example_key 90)),
    tp_extendLookupTable = (\<lambda>payer authority table addresses. step_of (of_nat (length addresses)))\<rparr>"

definition example_rounds :: "nat \<Rightarrow> table_round" where
  "example_rounds i = (Inr (100 + int i), Inr (if i < 2 then None else Some \<lparr>lt_key = example_key 90,
    lt_deactivationSlot = ACTIVE_ALT_SLOT, lt_addresses = map (\<lambda>n. example_key (of_nat n)) [0..<25]\<rparr>))"

text \<open>Twenty-five addresses take two extensions, and the table is handed out in the third round.\<close>

lemma created_table_example:
  "createVaultLookupTable example_program (Inr 99)
    (\<lambda>i tx. if ix_data (hd tx) = [1] \<and> i = 0 \<or> ix_data (hd tx) = [20] \<and> i = 1 \<or> ix_data (hd tx) = [5] \<and> i = 2
       then Some (Inr []) else None)
    (Inr 101) example_rounds (example_key 67) (map (\<lambda>n. example_key (of_nat n)) [0..<25]) = Some (Inr (example_key 90))"
  by code_simp

lemma setup_table_example:
  "(\<exists>table. loadSetupLookupTable example_web3 (\<lambda>key. Inr (Some \<lparr>xt_table = \<lparr>lt_key = key,
      lt_deactivationSlot = ACTIVE_ALT_SLOT, lt_addresses = map PublicKey SETUP_LOOKUP_TABLE_ADDRESSES\<rparr>,
      xt_lastExtendedSlot = 7\<rparr>)) (Inr 8) (Some ''AddressLookupTab1e1111111111111111111111111'') = Inr (Some table))"
  by (auto simp: setup_table_loaded example_web3_def subset_eq image_iff)

end
