(* ===== verification/HttpClients.thy ===== *)
theory HttpClients
  imports CallerPaid Gateway
begin

text \<open>
  The outbound clients of the quote service: the HTTP clients of \<open>quote-service/adapters.ts\<close> (Jupiter's
  build endpoint, the remote lease store, the private relay), the local signer and the gateway over one
  RPC connection, and from \<open>quote-service/server.ts\<close> the relay through the RPC, the client that shapes the
  routes of a fork, the route probe with its clock, and the reachability test. \<open>fetch\<close>, the connection
  and the signing primitive are parameters; what a client sends is a value, the record \<open>http_call\<close>.
\<close>

subsection \<open>Calls\<close>

record http_call =
  hc_url :: url_parts
  hc_method :: string
  hc_headers :: "(string \<times> string) list"
  hc_body :: jsval

text \<open>An answer: its text and its JSON can still fail to be read.\<close>

record http_answer =
  ha_status :: int
  ha_text :: "string res"
  ha_json :: "jsval res"

type_synonym http_fetch = "http_call \<Rightarrow> http_answer res"

definition construct_url :: "url_parts option \<Rightarrow> url_parts res" where
  "construct_url u = (case u of None \<Rightarrow> Inl TypeError | Some v \<Rightarrow> Inr v)"

definition requireHttps :: "web_platform \<Rightarrow> string \<Rightarrow> url_parts res" where
  "requireHttps wp url = bindR (construct_url (newURL wp url)) (\<lambda>parsed.
     if url_protocol parsed \<noteq> ''https:'' then reject ''INSECURE_ENDPOINT'' else Inr parsed)"

definition checkedJson :: "http_fetch \<Rightarrow> string \<Rightarrow> http_call \<Rightarrow> jsval res" where
  "checkedJson fetch label call = bindR (fetch call) (\<lambda>response.
     if ha_status response < 200 \<or> 299 < ha_status response
     then bindR (ha_text response) (\<lambda>text. Inl (PlainError (label @ '' returned HTTP '' @
       js_of_int (ha_status response) @ '': '' @ take 500 text)))
     else ha_json response)"

text \<open>\<open>new URL(path, base)\<close>, where a base that does not end in a slash gets one.\<close>

definition under_base :: "web_platform \<Rightarrow> string \<Rightarrow> url_parts \<Rightarrow> url_parts res" where
  "under_base wp path base =
    bindR (if url_href base \<noteq> [] \<and> last (url_href base) = CHR ''/'' then Inr base
           else construct_url (newURL wp (url_href base @ ''/''))) (\<lambda>slashed.
      construct_url (resolveURL wp path slashed))"

text \<open>\<open>url.searchParams.set\<close>; the text of the URL follows its parameters.\<close>

definition set_params :: "(string \<times> string) list \<Rightarrow> url_parts \<Rightarrow> url_parts" where
  "set_params assignments url =
    url\<lparr>url_params := fold (\<lambda>(name, value). upsert name value) assignments (url_params url)\<rparr>"

definition json_headers :: "string option \<Rightarrow> (string \<times> string) list" where
  "json_headers bearerToken = (''content-type'', ''application/json'') #
    (case bearerToken of Some (c # cs) \<Rightarrow> [(''authorization'', ''Bearer '' @ c # cs)] | _ \<Rightarrow> [])"

subsection \<open>Jupiter\<close>

record jupiter_build_params =
  bp_inputMint :: pubkey
  bp_outputMint :: pubkey
  bp_amount :: int
  bp_taker :: pubkey
  bp_destinationTokenAccount :: pubkey
  bp_maxAccounts :: "int option"
  bp_excludeDexes :: "string list option"
  bp_dexes :: "string list option"
  bp_slippageBps :: "int option"

text \<open>\<open>?.length\<close> of an optional list.\<close>

definition non_empty :: "string list option \<Rightarrow> bool" where
  "non_empty xs \<longleftrightarrow> (case xs of None \<Rightarrow> False | Some xs \<Rightarrow> xs \<noteq> [])"

definition jupiter_assignments :: "jupiter_build_params \<Rightarrow> (string \<times> string) list" where
  "jupiter_assignments params =
    [(''inputMint'', toBase58 (bp_inputMint params)), (''outputMint'', toBase58 (bp_outputMint params)),
     (''amount'', js_of_int (bp_amount params)), (''taker'', toBase58 (bp_taker params)),
     (''wrapAndUnwrapSol'', ''false''),
     (''destinationTokenAccount'', toBase58 (bp_destinationTokenAccount params)),
     (''slippageBps'', case bp_slippageBps params of Some n \<Rightarrow> js_of_int n | None \<Rightarrow> ''rtse'')]
    @ (case bp_maxAccounts params of Some n \<Rightarrow> [(''maxAccounts'', js_of_int n)] | None \<Rightarrow> [])
    @ (if non_empty (bp_excludeDexes params) then [(''excludeDexes'', js_join '','' (the (bp_excludeDexes params)))] else [])
    @ (if non_empty (bp_dexes params) then [(''dexes'', js_join '','' (the (bp_dexes params)))] else [])"

definition jupiter_call :: "web_platform \<Rightarrow> url_parts \<Rightarrow> string option \<Rightarrow> jupiter_build_params \<Rightarrow> http_call res" where
  "jupiter_call wp baseUrl apiKey params = bindR (under_base wp ''build'' baseUrl) (\<lambda>url.
     Inr \<lparr>hc_url = set_params (jupiter_assignments params) url, hc_method = ''GET'',
       hc_headers = (''accept'', ''application/json'') #
         (case apiKey of Some (c # cs) \<Rightarrow> [(''x-api-key'', c # cs)] | _ \<Rightarrow> []),
       hc_body = JUndef\<rparr>)"

text \<open>The answer is taken for a \<open>JupiterBuild\<close> as it is: \<open>as_build\<close> reads its fields.\<close>

definition jupiter_http_build ::
  "web_platform \<Rightarrow> http_fetch \<Rightarrow> (jsval \<Rightarrow> jupiter_build) \<Rightarrow> url_parts \<Rightarrow> string option \<Rightarrow> jupiter_build_params \<Rightarrow>
    jupiter_build res" where
  "jupiter_http_build wp fetch as_build baseUrl apiKey params =
    bindR (jupiter_call wp baseUrl apiKey params) (\<lambda>call.
    bindR (checkedJson fetch ''Jupiter V2 /build'' call) (\<lambda>payload. Inr (as_build payload)))"

text \<open>What \<open>QuoteService\<close> passes: wrapped SOL in, neither a slippage nor an include list.\<close>

definition service_params :: "jupiter_params \<Rightarrow> jupiter_build_params" where
  "service_params p = \<lparr>bp_inputMint = NATIVE_MINT, bp_outputMint = jp_outputMint p, bp_amount = jp_amount p,
    bp_taker = jp_taker p, bp_destinationTokenAccount = jp_destinationTokenAccount p,
    bp_maxAccounts = jp_maxAccounts p, bp_excludeDexes = jp_excludeDexes p, bp_dexes = None, bp_slippageBps = None\<rparr>"

subsection \<open>Routes of a fork\<close>

definition POOL_ONLY_FORK_DEXES :: "string list" where
  "POOL_ONLY_FORK_DEXES = [''Raydium'', ''Raydium CLMM'', ''Raydium CP'', ''Whirlpool'', ''Orca V2'', ''Meteora'',
    ''Meteora DLMM'', ''Meteora DAMM v2'', ''Pump.fun Amm'', ''Pump.fun'']"

text \<open>The parameters \<open>ForkDexProfileJupiterClient\<close> hands to the client it wraps.\<close>

definition fork_params :: "string list \<Rightarrow> int option \<Rightarrow> jupiter_build_params \<Rightarrow> jupiter_build_params" where
  "fork_params profile slippageBps params =
    (let excluded = set (case bp_excludeDexes params of None \<Rightarrow> [] | Some xs \<Rightarrow> xs) in
     params\<lparr>bp_excludeDexes := None, bp_dexes := Some (filter (\<lambda>venue. venue \<notin> excluded) profile),
       bp_slippageBps := (case bp_slippageBps params of Some n \<Rightarrow> Some n | None \<Rightarrow> slippageBps)\<rparr>)"

definition fork_build :: "string list \<Rightarrow> int option \<Rightarrow> (jupiter_build_params \<Rightarrow> jupiter_build res) \<Rightarrow>
    jupiter_build_params \<Rightarrow> jupiter_build res" where
  "fork_build profile slippageBps inner params = inner (fork_params profile slippageBps params)"

subsection \<open>The remote lease store\<close>

text \<open>Reading a field of a value: \<open>null\<close> and \<open>undefined\<close> have none.\<close>

definition property :: "jsval \<Rightarrow> string \<Rightarrow> jsval res" where
  "property v key = (case v of JNull \<Rightarrow> Inl TypeError | JUndef \<Rightarrow> Inl TypeError
     | JObj object \<Rightarrow> Inr (field object key) | _ \<Rightarrow> Inr JUndef)"

definition acquire_call ::
  "web_platform \<Rightarrow> url_parts \<Rightarrow> string option \<Rightarrow> pubkey \<Rightarrow> string \<Rightarrow> int \<Rightarrow> http_call res" where
  "acquire_call wp endpoint bearerToken vault requestId ttlMs = bindR (under_base wp ''acquire'' endpoint) (\<lambda>url.
     Inr \<lparr>hc_url = url, hc_method = ''POST'', hc_headers = json_headers bearerToken,
       hc_body = JObj [(''vault'', JStr (toBase58 vault)), (''requestId'', JStr requestId), (''ttlMs'', JInt ttlMs)]\<rparr>)"

text \<open>The handle: the answer of the service as it came, and whether it was released.\<close>

record http_lease =
  hl_acquired :: jsval
  hl_released :: bool

definition http_acquire ::
  "web_platform \<Rightarrow> http_fetch \<Rightarrow> url_parts \<Rightarrow> string option \<Rightarrow> pubkey \<Rightarrow> string \<Rightarrow> int \<Rightarrow> http_lease res" where
  "http_acquire wp fetch endpoint bearerToken vault requestId ttlMs =
    bindR (acquire_call wp endpoint bearerToken vault requestId ttlMs) (\<lambda>call.
    bindR (checkedJson fetch ''vault lease service'' call) (\<lambda>acquired.
      Inr \<lparr>hl_acquired = acquired, hl_released = False\<rparr>))"

text \<open>\<open>toText\<close> is \<open>String(v)\<close> of a value that is not text; the outcome is \<open>submitted\<close> or another word.\<close>

definition release_call ::
  "web_platform \<Rightarrow> (jsval \<Rightarrow> string) \<Rightarrow> url_parts \<Rightarrow> string option \<Rightarrow> jsval \<Rightarrow> string \<Rightarrow> http_call res" where
  "release_call wp toText endpoint bearerToken acquired outcome =
    bindR (property acquired ''leaseId'') (\<lambda>leaseId.
    bindR (under_base wp (''lease/'' @ encodeURIComponent wp (case leaseId of JStr s \<Rightarrow> s | v \<Rightarrow> toText v)) endpoint) (\<lambda>url.
      Inr \<lparr>hc_url = url, hc_method = ''DELETE'', hc_headers = json_headers bearerToken,
        hc_body = JObj [(''outcome'', JStr outcome)]\<rparr>))"

text \<open>
  \<open>release\<close>: the result, the call that was sent, if any, and the handle afterwards. It is marked
  released before anything is sent.
\<close>

definition http_release ::
  "web_platform \<Rightarrow> (jsval \<Rightarrow> string) \<Rightarrow> http_fetch \<Rightarrow> url_parts \<Rightarrow> string option \<Rightarrow> string \<Rightarrow> http_lease \<Rightarrow>
    (unit res \<times> http_call option) \<times> http_lease" where
  "http_release wp toText fetch endpoint bearerToken outcome l =
    (if hl_released l then ((Inr (), None), l)
     else ((case release_call wp toText endpoint bearerToken (hl_acquired l) outcome of
         Inl e \<Rightarrow> (Inl e, None)
       | Inr call \<Rightarrow> (bindR (checkedJson fetch ''vault lease service'' call) (\<lambda>_. Inr ()), Some call)),
       l\<lparr>hl_released := True\<rparr>))"

subsection \<open>Relays and the local signer\<close>

definition submit_call :: "url_parts \<Rightarrow> string option \<Rightarrow> byte list \<Rightarrow> (string \<times> string) list \<Rightarrow> http_call" where
  "submit_call endpoint bearerToken transaction metadata = \<lparr>hc_url = endpoint, hc_method = ''POST'',
    hc_headers = json_headers bearerToken,
    hc_body = JObj [(''transactionBase64'', JStr (base64_encode transaction)), (''encoding'', JStr ''base64''),
      (''metadata'', JObj (map (\<lambda>(name, value). (name, JStr value)) metadata))]\<rparr>"

definition http_submit ::
  "http_fetch \<Rightarrow> url_parts \<Rightarrow> string option \<Rightarrow> byte list \<Rightarrow> (string \<times> string) list \<Rightarrow> jsval res" where
  "http_submit fetch endpoint bearerToken transaction metadata =
    checkedJson fetch ''private submitter'' (submit_call endpoint bearerToken transaction metadata)"

text \<open>\<open>sendRawTransaction\<close> with preflight at \<open>confirmed\<close> and three retries is the parameter.\<close>

definition rpc_submit :: "(byte list \<Rightarrow> string res) \<Rightarrow> byte list \<Rightarrow> (string \<times> string) list \<Rightarrow> jsval res" where
  "rpc_submit sendRawTransaction transaction metadata =
    bindR (sendRawTransaction transaction) (\<lambda>submissionId. Inr (JObj [(''submissionId'', JStr submissionId)]))"

definition PKCS8_PREFIX :: "byte list" where
  "PKCS8_PREFIX = [0x30, 0x2e, 0x02, 0x01, 0x00, 0x30, 0x05, 0x06, 0x03, 0x2b, 0x65, 0x70, 0x04, 0x22, 0x04, 0x20]"

text \<open>\<open>nodeSign\<close> signs a message under a key in its DER form.\<close>

definition signMessage :: "(byte list \<Rightarrow> byte list \<Rightarrow> byte list res) \<Rightarrow> byte list \<Rightarrow> byte list \<Rightarrow> byte list res" where
  "signMessage nodeSign secretKey message = nodeSign (PKCS8_PREFIX @ take 32 secretKey) message"

text \<open>The DER form is whole: each of the two lengths in it is that of what follows.\<close>

lemma pkcs8_wellformed:
  "length secretKey = 64 \<Longrightarrow> length (PKCS8_PREFIX @ take 32 secretKey) = 2 + unat (PKCS8_PREFIX ! 1) \<and>
    unat (PKCS8_PREFIX ! 1) = 14 + unat (PKCS8_PREFIX ! 15) \<and> unat (PKCS8_PREFIX ! 13) = 2 + unat (PKCS8_PREFIX ! 15)"
  by (simp add: PKCS8_PREFIX_def)

subsection \<open>One connection\<close>

record ('tx, 'e) connection =
  cn_getAccountInfo :: info_reader
  cn_getAddressLookupTable :: "pubkey \<Rightarrow> lookup_table option res"
  cn_getLatestBlockhashAndContext :: "(string \<times> int \<times> int) res"
  cn_getBlockHeight :: "int res"
  cn_getMinimumBalanceForRentExemption :: "nat \<Rightarrow> int res"
  cn_simulateTransaction :: "'tx \<Rightarrow> 'e simulation_result res"

text \<open>\<open>SolanaRpcGateway\<close>; every read asks for \<open>confirmed\<close>, the simulation verifies and replaces nothing.\<close>

definition rpc_gateway :: "token_library \<Rightarrow> ('tx, 'e) connection \<Rightarrow> ('tx, 'e) chain_gateway" where
  "rpc_gateway lib conn = \<lparr>
    getMint = gateway_getMint lib (cn_getAccountInfo conn),
    getTokenAccount = gateway_getTokenAccount lib (cn_getAccountInfo conn),
    getRawAccount = gateway_getRawAccount (cn_getAccountInfo conn),
    getAccountData = gateway_getAccountData (cn_getAccountInfo conn),
    getAddressLookupTable = cn_getAddressLookupTable conn,
    getLatestBlockhash = bindR (cn_getLatestBlockhashAndContext conn) (\<lambda>(blockhash, lastValid, slot).
      Inr \<lparr>lb_blockhash = blockhash, lb_lastValidBlockHeight = lastValid, lb_contextSlot = slot\<rparr>),
    getBlockHeight = cn_getBlockHeight conn,
    getRentFloorForZeroData = cn_getMinimumBalanceForRentExemption conn 0,
    simulate_tx = cn_simulateTransaction conn\<rparr>"

subsection \<open>The route probe\<close>

definition SUPPORTED_REFERENCE_DEXES :: "string list" where
  "SUPPORTED_REFERENCE_DEXES = [''Raydium'', ''Raydium CP'', ''Raydium CLMM'', ''Meteora DLMM'', ''Pump.fun'', ''Pump.fun Amm'']"

text \<open>\<open>None\<close>: no probe without a key.\<close>

definition makeReferenceRouteProbe :: "web_platform \<Rightarrow> environment \<Rightarrow> string option \<Rightarrow> url_parts option res" where
  "makeReferenceRouteProbe wp env apiKey =
    (if or_default [] apiKey = [] then Inr None
     else bindR (construct_url (newURL wp (or_default ''https://api.jup.ag/swap/v1/quote'' (env ''JUPITER_REFERENCE_QUOTE_URL''))))
       (\<lambda>endpoint. if url_protocol endpoint \<noteq> ''https:''
         then Inl (PlainError ''JUPITER_REFERENCE_QUOTE_URL must use HTTPS'') else Inr (Some endpoint)))"

definition probe_call :: "url_parts \<Rightarrow> string \<Rightarrow> pubkey \<Rightarrow> http_call" where
  "probe_call endpoint apiKey mint = \<lparr>hc_url = set_params
      [(''inputMint'', WSOL_ADDRESS), (''outputMint'', toBase58 mint), (''amount'', ''100000000''),
       (''slippageBps'', ''100''), (''restrictIntermediateTokens'', ''true''),
       (''dexes'', js_join '','' SUPPORTED_REFERENCE_DEXES)] endpoint,
    hc_method = ''GET'', hc_headers = [(''accept'', ''application/json''), (''x-api-key'', apiKey)], hc_body = JUndef\<rparr>"

definition probe_answer :: "http_answer \<Rightarrow> jsval list option res" where
  "probe_answer response =
    (if ha_status response < 200 \<or> 299 < ha_status response then Inr None
     else bindR (ha_json response) (\<lambda>payload. bindR (property payload ''routePlan'') (\<lambda>routePlan.
       Inr (case routePlan of JArr hops \<Rightarrow> Some hops | _ \<Rightarrow> None))))"

text \<open>The result of one probe, the call it made, if any, and the time before which the next makes none.\<close>

definition route_probe ::
  "http_fetch \<Rightarrow> url_parts \<Rightarrow> string \<Rightarrow> int \<Rightarrow> pubkey \<Rightarrow> int \<Rightarrow> (jsval list option res \<times> http_call option) \<times> int" where
  "route_probe fetch endpoint apiKey now mint nextAllowedAt =
    (if now < nextAllowedAt then ((Inr None, None), nextAllowedAt)
     else ((bindR (fetch (probe_call endpoint apiKey mint)) probe_answer, Some (probe_call endpoint apiKey mint)),
       now + 2100))"

subsection \<open>Reachability\<close>

text \<open>\<open>ping\<close> is the call with its deadline: the text of what it throws, or any answer at all.\<close>

definition endpointReachable :: "(string \<Rightarrow> string + unit) \<Rightarrow> string \<Rightarrow> string \<Rightarrow> unit res" where
  "endpointReachable ping url label = (case ping url of
     Inl message \<Rightarrow> Inl (PlainError (label @ '' unreachable: '' @ message)) | Inr u \<Rightarrow> Inr ())"

subsection \<open>What is asked of Jupiter\<close>

lemma fold_upsert_new:
  "distinct (map fst (acc @ xs)) \<Longrightarrow> fold (\<lambda>(name, value). upsert name value) xs acc = acc @ xs"
proof (induction xs arbitrary: acc)
  case (Cons x xs)
  obtain k v where x: "x = (k, v)" by fastforce
  have "upsert k v acc = acc @ [(k, v)]" if "k \<notin> fst ` set acc" for acc
    using that by (induction acc rule: upsert.induct) auto
  then show ?case using Cons x by simp
qed simp

lemma jupiter_assignments_distinct: "distinct (map fst (jupiter_assignments params))"
  by (auto simp: jupiter_assignments_def split: option.splits)

definition param :: "http_call \<Rightarrow> string \<Rightarrow> string option" where
  "param call name = map_of (url_params (hc_url call)) name"

text \<open>
  The query of a quote is exactly what was assigned, when the address of the endpoint has no query of its own.
\<close>

lemma jupiter_call_params:
  assumes "jupiter_call wp base apiKey params = Inr call"
    and "\<And>b url. resolveURL wp ''build'' b = Some url \<Longrightarrow> url_params url = []"
  shows "url_params (hc_url call) = jupiter_assignments params"
proof -
  have "fold (\<lambda>(name, value). upsert name value) (jupiter_assignments params) [] = jupiter_assignments params"
    using fold_upsert_new [of "[]" "jupiter_assignments params"] jupiter_assignments_distinct by simp
  then show ?thesis
    using assms by (auto simp: jupiter_call_def under_base_def construct_url_def bindR_Inr_iff set_params_def
        case_option_Inl_Inr)
qed

text \<open>
  A production quote pins the mints, the amount, the vault as the taker and the account that receives;
  leaves the slippage to Jupiter's estimator and the venues free but for an exclusion; and asks for no
  payer, direct routes, platform fee, priority fee or tip.
\<close>

theorem service_quote_pinned:
  assumes "jupiter_call wp base apiKey (service_params p) = Inr call"
    and "\<And>b url. resolveURL wp ''build'' b = Some url \<Longrightarrow> url_params url = []"
  shows "param call ''inputMint'' = Some (toBase58 NATIVE_MINT) \<and> param call ''outputMint'' = Some (toBase58 (jp_outputMint p)) \<and>
    param call ''amount'' = Some (js_of_int (jp_amount p)) \<and> param call ''taker'' = Some (toBase58 (jp_taker p)) \<and>
    param call ''destinationTokenAccount'' = Some (toBase58 (jp_destinationTokenAccount p)) \<and>
    param call ''slippageBps'' = Some ''rtse'' \<and> param call ''dexes'' = None \<and>
    fst ` set (url_params (hc_url call)) \<subseteq> {''inputMint'', ''outputMint'', ''amount'', ''taker'', ''wrapAndUnwrapSol'',
      ''destinationTokenAccount'', ''slippageBps'', ''maxAccounts'', ''excludeDexes''}"
proof -
  have "url_params (hc_url call) = jupiter_assignments (service_params p)"
    by (rule jupiter_call_params [OF assms(1)]) (rule assms(2))
  then show ?thesis
    unfolding param_def
    by (auto simp: jupiter_assignments_def service_params_def non_empty_def split: option.splits if_splits)
qed

text \<open>A fork quote stays on the venues of the profile that are not excluded, when there is one.\<close>

theorem fork_quote_in_profile:
  assumes "jupiter_call wp base apiKey (fork_params profile slippage params) = Inr call"
    and "\<And>b url. resolveURL wp ''build'' b = Some url \<Longrightarrow> url_params url = []"
    and "filter (\<lambda>venue. venue \<notin> set (or_default [] (bp_excludeDexes params))) profile = v # venues"
  shows "param call ''dexes'' = Some (js_join '','' (v # venues)) \<and> param call ''excludeDexes'' = None"
proof -
  have "filter (\<lambda>venue. venue \<notin> set (case bp_excludeDexes params of None \<Rightarrow> [] | Some xs \<Rightarrow> xs)) profile = v # venues"
    using assms(3) by (simp add: or_default_def)
  moreover have "url_params (hc_url call) = jupiter_assignments (fork_params profile slippage params)"
    by (rule jupiter_call_params [OF assms(1)]) (rule assms(2))
  ultimately show ?thesis
    unfolding param_def
    by (auto simp: jupiter_assignments_def fork_params_def non_empty_def split: option.splits)
qed

text \<open>
  But an exclusion that empties the profile is lost: the include list is then empty and not sent, and the
  exclusion was dropped, so the quote is free to use the very venues that were to be excluded.
\<close>

theorem fork_exclusion_lost:
  assumes "set profile \<subseteq> set (or_default [] (bp_excludeDexes params))"
  shows "jupiter_assignments (fork_params profile slippage params)
    = jupiter_assignments (params\<lparr>bp_excludeDexes := None, bp_dexes := None,
        bp_slippageBps := (case bp_slippageBps params of Some n \<Rightarrow> Some n | None \<Rightarrow> slippage)\<rparr>)"
proof -
  have "filter (\<lambda>venue. venue \<notin> set (case bp_excludeDexes params of None \<Rightarrow> [] | Some xs \<Rightarrow> xs)) profile = []"
    using assms by (auto simp: or_default_def filter_empty_conv)
  then show ?thesis by (simp add: jupiter_assignments_def fork_params_def non_empty_def)
qed

lemma fork_exclusion_lost_example:
  "set [''Pump.fun Amm''] \<subseteq> set (or_default [] (Some PUMP_VENUE_EXCLUDE_DEXES))"
  by (simp add: or_default_def PUMP_VENUE_EXCLUDE_DEXES_def)

subsection \<open>A lease is given back once\<close>

text \<open>The calls of a sequence of releases of one handle.\<close>

fun release_calls ::
  "web_platform \<Rightarrow> (jsval \<Rightarrow> string) \<Rightarrow> http_fetch \<Rightarrow> url_parts \<Rightarrow> string option \<Rightarrow> string list \<Rightarrow> http_lease \<Rightarrow> http_call list" where
  "release_calls wp toText fetch endpoint bearerToken [] l = []"
| "release_calls wp toText fetch endpoint bearerToken (outcome # outcomes) l =
    (case http_release wp toText fetch endpoint bearerToken outcome l of ((_, sent), l1) \<Rightarrow>
      (case sent of None \<Rightarrow> [] | Some call \<Rightarrow> [call]) @ release_calls wp toText fetch endpoint bearerToken outcomes l1)"

lemma release_calls_released:
  "hl_released l \<Longrightarrow> release_calls wp toText fetch endpoint bearerToken outcomes l = []"
  by (induction outcomes) (simp_all add: http_release_def)

text \<open>
  However often a lease is released, and whatever the store answers, at most one request leaves, with the
  outcome of the first release and the token of the client.
\<close>

theorem released_once:
  assumes "http_acquire wp fetch endpoint bearerToken vault requestId ttlMs = Inr l"
  shows "release_calls wp toText fetch' endpoint bearerToken (outcome # outcomes) l =
    (case release_call wp toText endpoint bearerToken (hl_acquired l) outcome of Inl e \<Rightarrow> [] | Inr call \<Rightarrow> [call])"
proof -
  have "\<not> hl_released l" using assms by (auto simp: http_acquire_def bindR_Inr_iff)
  then show ?thesis by (simp add: http_release_def release_calls_released split: sum.split)
qed

subsection \<open>The probe keeps its rate\<close>

text \<open>The times at which a sequence of probes calls Jupiter.\<close>

fun probe_times :: "http_fetch \<Rightarrow> url_parts \<Rightarrow> string \<Rightarrow> (int \<times> pubkey) list \<Rightarrow> int \<Rightarrow> int list" where
  "probe_times fetch endpoint apiKey [] nextAllowedAt = []"
| "probe_times fetch endpoint apiKey ((now, mint) # asks) nextAllowedAt =
    (case route_probe fetch endpoint apiKey now mint nextAllowedAt of ((_, sent), nextAllowedAt1) \<Rightarrow>
      (if sent = None then [] else [now]) @ probe_times fetch endpoint apiKey asks nextAllowedAt1)"

lemma probe_times_later:
  "t \<in> set (probe_times fetch endpoint apiKey asks nextAllowedAt) \<Longrightarrow> nextAllowedAt \<le> t"
proof (induction asks arbitrary: nextAllowedAt)
  case (Cons ask asks)
  obtain now mint where "ask = (now, mint)" by fastforce
  then show ?case
    using Cons.prems Cons.IH [of nextAllowedAt] Cons.IH [of "now + 2100"]
    by (auto simp: route_probe_def split: if_splits)
qed simp

text \<open>
  Any two calls of one probe lie 2,100 ms apart or more, however the questions come and even when the
  clock is set back.
\<close>

theorem probes_spaced:
  "sorted_wrt (\<lambda>earlier later. earlier + 2100 \<le> later) (probe_times fetch endpoint apiKey asks nextAllowedAt)"
proof (induction asks arbitrary: nextAllowedAt)
  case (Cons ask asks)
  obtain now mint where "ask = (now, mint)" by fastforce
  then show ?case
    using Cons.IH probe_times_later by (auto simp: route_probe_def)
qed simp

text \<open>So two seconds see at most one of them: the limit of half a request a second.\<close>

theorem probe_rate:
  "length (filter (\<lambda>t. from \<le> t \<and> t < from + 2000) (probe_times fetch endpoint apiKey asks nextAllowedAt)) \<le> 1"
proof (rule ccontr)
  let ?ts = "filter (\<lambda>t. from \<le> t \<and> t < from + 2000) (probe_times fetch endpoint apiKey asks nextAllowedAt)"
  assume "\<not> length ?ts \<le> 1"
  then obtain a b ts where ts: "?ts = a # b # ts" by (cases ?ts rule: remdups_adj.cases) auto
  have "sorted_wrt (\<lambda>earlier later. earlier + 2100 \<le> later) ?ts"
    using probes_spaced by (rule sorted_wrt_filter)
  then have "a + 2100 \<le> b" unfolding ts by simp
  moreover have "a \<in> set ?ts" "b \<in> set ?ts" unfolding ts by simp_all
  ultimately show False by simp
qed

subsection \<open>Examples\<close>

definition example_endpoint :: url_parts where
  "example_endpoint = \<lparr>url_href = ''https://api.jup.ag/swap/v2'', url_origin = ''https://api.jup.ag'', url_protocol = ''https:'',
    url_username = [], url_password = [], url_host = ''api.jup.ag'', url_hostname = ''api.jup.ag'',
    url_pathname = ''/swap/v2'', url_search = [], url_hash = [], url_params = []\<rparr>"

text \<open>A platform in which every text is an address under TLS and resolution appends.\<close>

definition append_platform :: web_platform where
  "append_platform = \<lparr>newURL = (\<lambda>s. Some (example_endpoint\<lparr>url_href := s\<rparr>)),
    resolveURL = (\<lambda>p u. Some (example_endpoint\<lparr>url_href := url_href u @ p\<rparr>)), setHostname = (\<lambda>h u. u),
    encodeURIComponent = (\<lambda>s. s), decodeURIComponent = Some, encodeText = (\<lambda>s. map of_char s),
    decodeText = (\<lambda>b. []), parseJSON = (\<lambda>s. None), stringifyJSON = (\<lambda>v. []), sha256Hex = (\<lambda>b. [])\<rparr>"

definition example_params :: jupiter_params where
  "example_params = \<lparr>jp_outputMint = example_key 84, jp_amount = 1000, jp_taker = example_key 86,
    jp_destinationTokenAccount = example_key 87, jp_maxAccounts = Some 40, jp_excludeDexes = Some PUMP_VENUE_EXCLUDE_DEXES\<rparr>"

lemma quote_example:
  "case jupiter_call append_platform example_endpoint (Some ''k'') (service_params example_params) of
     Inr call \<Rightarrow> url_href (hc_url call) = ''https://api.jup.ag/swap/v2/build'' \<and>
       param call ''excludeDexes'' = Some ''Pump.fun Amm,Pump.fun'' \<and> param call ''maxAccounts'' = Some ''40''
   | Inl e \<Rightarrow> False"
  by code_simp

lemma service_quote_pinned_witness:
  "\<exists>call. jupiter_call append_platform example_endpoint (Some ''k'') (service_params example_params) = Inr call \<and>
    param call ''slippageBps'' = Some ''rtse'' \<and> param call ''dexes'' = None"
proof -
  obtain call where "jupiter_call append_platform example_endpoint (Some ''k'') (service_params example_params) = Inr call"
    using quote_example by (auto split: sum.splits)
  then show ?thesis
    using service_quote_pinned [of append_platform example_endpoint "Some ''k''" example_params call]
    by (auto simp: append_platform_def example_endpoint_def)
qed

text \<open>Of four probes, the ones at 0 and at 2,100 ms reach Jupiter.\<close>

lemma probe_example:
  "probe_times (\<lambda>call. Inl TypeError) example_endpoint ''k'' [(0, NATIVE_MINT), (2000, NATIVE_MINT), (2100, NATIVE_MINT), (50, NATIVE_MINT)] 0
    = [0, 2100]"
  by (simp add: route_probe_def)

end
